(* ===== verification/Prelude.thy ===== *)
theory Prelude
  imports Main
begin

text \<open>
  Shared vocabulary of the development: the collections that carry the component proofs, the
  result type of a Python call that may raise, the state-and-exception type of a call that
  works on a database, the transaction wrapper of the SQLAlchemy sessions, and the keyed
  tables in which rows are kept. Nothing here models a particular file of the repository
  except \<open>transaction\<close>, which is the \<open>with session_factory.begin() as session\<close> block that
  every store of \<open>sitescore_commerce\<close> opens (the same shape everywhere).
\<close>

named_theorems float_intro \<open>bounds of the rounded operations\<close>
named_theorems engine_simps \<open>unfolding of the scoring engines\<close>
named_theorems row_simps \<open>laws of the keyed tables and of the row update functions\<close>
named_theorems store_simps \<open>unfolding of the store operations\<close>

section \<open>Calls that may raise\<close>

type_synonym ('e, 'a) result = "'e + 'a"

fun rbind :: "('e, 'a) result \<Rightarrow> ('a \<Rightarrow> ('e, 'b) result) \<Rightarrow> ('e, 'b) result" where
  "rbind (Inl e) f = Inl e"
| "rbind (Inr x) f = f x"

definition raised :: "('e, 'a) result \<Rightarrow> bool" where
  "raised r = (case r of Inl _ \<Rightarrow> True | Inr _ \<Rightarrow> False)"

lemma raised_simps [simp]: "raised (Inl e)" "\<not> raised (Inr x)"
  by (simp_all add: raised_def)

lemma rbind_Inr_iff: "rbind m f = Inr y \<longleftrightarrow> (\<exists>x. m = Inr x \<and> f x = Inr y)"
  by (cases m) auto

lemma rbind_Inl_iff:
  "rbind m f = Inl e \<longleftrightarrow> m = Inl e \<or> (\<exists>x. m = Inr x \<and> f x = Inl e)"
  by (cases m) auto

lemma rbind_assoc: "rbind (rbind m f) g = rbind m (\<lambda>x. rbind (f x) g)"
  by (cases m) auto

text \<open>A loop that calls a raising function on every element and stops at the first error.\<close>

fun rmap :: "('a \<Rightarrow> ('e, 'b) result) \<Rightarrow> 'a list \<Rightarrow> ('e, 'b list) result" where
  "rmap f [] = Inr []"
| "rmap f (x # xs) = rbind (f x) (\<lambda>y. rbind (rmap f xs) (\<lambda>ys. Inr (y # ys)))"

lemma rmap_Inr_length: "rmap f xs = Inr ys \<Longrightarrow> length ys = length xs"
  by (induction xs arbitrary: ys) (auto simp: rbind_Inr_iff)

lemma rmap_total: "(\<And>x. x \<in> set xs \<Longrightarrow> f x = Inr (g x)) \<Longrightarrow> rmap f xs = Inr (map g xs)"
  by (induction xs) auto

section \<open>Calls on a database, and transactions\<close>

text \<open>
  A call on a store takes the database and returns what it raised or returned together with
  the database it left behind. \<open>fault\<close> is what the database server does to one transaction:
  nothing, an error before the commit took effect, or a commit whose acknowledgement was lost
  (the rows are durable although the caller sees an error).
\<close>

type_synonym ('s, 'e, 'a) call = "'s \<Rightarrow> ('e, 'a) result \<times> 's"

datatype fault = Healthy | Rolled_back | Ack_lost

definition transaction :: "fault \<Rightarrow> 'e \<Rightarrow> ('s, 'e, 'a) call \<Rightarrow> ('s, 'e, 'a) call" where
  "transaction flt unavailable body s =
     (case flt of
        Rolled_back \<Rightarrow> (Inl unavailable, s)
      | Healthy \<Rightarrow> (case body s of (Inl e, _) \<Rightarrow> (Inl e, s) | (Inr x, s') \<Rightarrow> (Inr x, s'))
      | Ack_lost \<Rightarrow>
          (case body s of (Inl e, _) \<Rightarrow> (Inl e, s) | (Inr _, s') \<Rightarrow> (Inl unavailable, s')))"

text \<open>A read-only session: it never changes the database.\<close>

definition reading :: "fault \<Rightarrow> 'e \<Rightarrow> ('s \<Rightarrow> ('e, 'a) result) \<Rightarrow> ('s, 'e, 'a) call" where
  "reading flt unavailable body s =
     (if flt = Healthy then body s else Inl unavailable, s)"

definition cbind ::
  "('s, 'e, 'a) call \<Rightarrow> ('a \<Rightarrow> ('s, 'e, 'b) call) \<Rightarrow> ('s, 'e, 'b) call" where
  "cbind m f s = (case m s of (Inl e, s') \<Rightarrow> (Inl e, s') | (Inr x, s') \<Rightarrow> f x s')"

lemma reading_state [simp]: "snd (reading flt u body s) = s"
  by (simp add: reading_def)

lemma transaction_healthy_Inr:
  "body s = (Inr x, s') \<Longrightarrow> transaction Healthy u body s = (Inr x, s')"
  by (simp add: transaction_def)

lemma transaction_raise:
  "body s = (Inl e, s') \<Longrightarrow> flt \<noteq> Rolled_back \<Longrightarrow> transaction flt u body s = (Inl e, s)"
  by (cases flt) (simp_all add: transaction_def)

text \<open>
  The two facts every invariant proof uses: a transaction either leaves the database alone or
  leaves what its body returned normally, and a body that raises leaves it alone.
\<close>

lemma transaction_state_cases:
  obtains (unchanged) "snd (transaction flt u body s) = s"
  | (committed) x where "body s = (Inr x, snd (transaction flt u body s))"
  by (cases flt; cases "body s"; cases "fst (body s)")
     (auto simp: transaction_def split: prod.splits sum.splits)

lemma transaction_inv:
  assumes "P s" and "\<And>x s'. body s = (Inr x, s') \<Longrightarrow> P s'"
  shows "P (snd (transaction flt u body s))"
proof (cases rule: transaction_state_cases [of flt u body s])
  case unchanged
  with assms(1) show ?thesis by simp
next
  case (committed x)
  then show ?thesis by (rule assms(2))
qed

lemma transaction_Inr_iff:
  "transaction flt u body s = (Inr x, s') \<longleftrightarrow> flt = Healthy \<and> body s = (Inr x, s')"
  by (cases flt) (auto simp: transaction_def split: prod.splits sum.splits)

lemma cbind_inv:
  assumes "P (snd (m s))" and "\<And>x s'. m s = (Inr x, s') \<Longrightarrow> P s' \<Longrightarrow> P (snd (f x s'))"
  shows "P (snd (cbind m f s))"
  using assms by (cases "m s"; cases "fst (m s)") (auto simp: cbind_def)

lemma cbind_simps [simp]:
  "m s = (Inl e, s') \<Longrightarrow> cbind m f s = (Inl e, s')"
  "m s = (Inr x, s') \<Longrightarrow> cbind m f s = f x s'"
  by (simp_all add: cbind_def)

lemma cbind_Inr: "m s = (Inr x, s') \<Longrightarrow> cbind m f s = f x s'"
  by (simp add: cbind_def)

lemma cbind_InrD:
  "cbind m f s = (Inr y, s') \<Longrightarrow> \<exists>x s1. m s = (Inr x, s1) \<and> f x s1 = (Inr y, s')"
  by (auto simp: cbind_def split: prod.splits sum.splits)

section \<open>Keyed tables\<close>

text \<open>
  A table is the list of its rows in insertion order. \<open>get_row\<close> is \<open>session.get\<close>,
  \<open>put_row\<close> writes a loaded row back (the rows with its key become it), \<open>add_row\<close> is
  \<open>session.add\<close> of a new row.
\<close>

definition get_row :: "('r \<Rightarrow> 'k) \<Rightarrow> 'k \<Rightarrow> 'r list \<Rightarrow> 'r option" where
  "get_row key k rows = List.find (\<lambda>r. key r = k) rows"

definition put_row :: "('r \<Rightarrow> 'k) \<Rightarrow> 'r \<Rightarrow> 'r list \<Rightarrow> 'r list" where
  "put_row key r rows = map (\<lambda>r'. if key r' = key r then r else r') rows"

definition add_row :: "'r \<Rightarrow> 'r list \<Rightarrow> 'r list" where
  "add_row r rows = rows @ [r]"

lemma get_row_Some: "get_row key k rows = Some r \<Longrightarrow> r \<in> set rows \<and> key r = k"
  by (auto simp: get_row_def find_Some_iff)

lemma get_row_None: "get_row key k rows = None \<longleftrightarrow> k \<notin> key ` set rows"
  by (auto simp: get_row_def find_None_iff)

lemma get_row_in_keys: "get_row key k rows = Some r \<Longrightarrow> k \<in> key ` set rows"
  using get_row_Some [of key k rows r] by auto

lemma get_put_same [row_simps]:
  "get_row key k rows = Some r0 \<Longrightarrow> key r = k \<Longrightarrow> get_row key k (put_row key r rows) = Some r"
  by (induction rows) (auto simp: get_row_def put_row_def split: if_splits)

lemma get_put_other [row_simps]:
  "key r \<noteq> k \<Longrightarrow> get_row key k (put_row key r rows) = get_row key k rows"
  by (induction rows) (auto simp: get_row_def put_row_def)

lemma get_add_new [row_simps]:
  "get_row key k rows = None \<Longrightarrow> get_row key k (add_row r rows) = (if key r = k then Some r else None)"
  by (induction rows) (auto simp: get_row_def add_row_def split: if_splits)

lemma get_add_old [row_simps]:
  "get_row key k rows = Some r' \<Longrightarrow> get_row key k (add_row r rows) = Some r'"
  by (induction rows) (auto simp: get_row_def add_row_def split: if_splits)

lemma keys_put_row [row_simps]: "map key (put_row key r rows) = map key rows"
  by (induction rows) (auto simp: put_row_def)

lemma keys_add_row [row_simps]: "map key (add_row r rows) = map key rows @ [key r]"
  by (simp add: add_row_def)

lemma in_put_row: "x \<in> set (put_row key r rows) \<Longrightarrow> x = r \<or> (x \<in> set rows \<and> key x \<noteq> key r)"
  by (auto simp: put_row_def split: if_splits)

lemma in_put_rowI: "x \<in> set rows \<Longrightarrow> key x \<noteq> key r \<Longrightarrow> x \<in> set (put_row key r rows)"
  by (auto simp: put_row_def image_iff intro: bexI [of _ x])

lemma in_add_row: "x \<in> set (add_row r rows) \<longleftrightarrow> x = r \<or> x \<in> set rows"
  by (auto simp: add_row_def)

lemma length_put_row [row_simps]: "length (put_row key r rows) = length rows"
  by (simp add: put_row_def)

lemma filter_put_row_same:
  "(\<And>r'. key r' = key r \<Longrightarrow> r' \<in> set rows \<Longrightarrow> P r' = P r) \<Longrightarrow>
   length (filter P (put_row key r rows)) = length (filter P rows)"
  by (induction rows) (auto simp: put_row_def)

lemma distinct_keys_unique:
  "distinct (map key rows) \<Longrightarrow> x \<in> set rows \<Longrightarrow> y \<in> set rows \<Longrightarrow> key x = key y \<Longrightarrow> x = y"
  by (induction rows) (auto simp: image_iff)

lemma filter_key_once:
  "distinct (map key rows) \<Longrightarrow> r \<in> set rows \<Longrightarrow> key r = k \<Longrightarrow> length (filter (\<lambda>r. key r = k) rows) = 1"
  by (induction rows) (auto simp: filter_empty_conv image_iff)

lemma get_row_distinct:
  "distinct (map key rows) \<Longrightarrow> r \<in> set rows \<Longrightarrow> get_row key (key r) rows = Some r"
  by (induction rows) (auto simp: get_row_def image_iff)

section \<open>The interface of a keyed table\<close>

text \<open>
  What the stores rely on when they load a row, change it and write it back. The lemmas of the
  locale are the frame rules of a read-modify-write cycle; the tables above are an
  interpretation of it.
\<close>

locale keyed_table =
  fixes key :: "'r \<Rightarrow> 'k"
    and lookup :: "'k \<Rightarrow> 't \<Rightarrow> 'r option"
    and store :: "'r \<Rightarrow> 't \<Rightarrow> 't"
    and insert_new :: "'r \<Rightarrow> 't \<Rightarrow> 't"
  assumes lookup_key: "lookup k t = Some r \<Longrightarrow> key r = k"
    and lookup_store: "lookup (key r) t \<noteq> None \<Longrightarrow> lookup k (store r t) = (if key r = k then Some r else lookup k t)"
    and lookup_insert: "lookup (key r) t = None \<Longrightarrow> lookup k (insert_new r t) = (if key r = k then Some r else lookup k t)"
begin

lemma store_preserves:
  assumes "lookup k t = Some r0" and "key r = k" and "P r"
    and "\<And>k' r'. lookup k' t = Some r' \<Longrightarrow> P r'"
  shows "lookup k' (store r t) = Some r' \<Longrightarrow> P r'"
  using assms lookup_store [of r t k'] by (auto split: if_splits)

lemma insert_preserves:
  assumes "lookup (key r) t = None" and "P r"
    and "\<And>k' r'. lookup k' t = Some r' \<Longrightarrow> P r'"
  shows "lookup k' (insert_new r t) = Some r' \<Longrightarrow> P r'"
  using assms lookup_insert [of r t k'] by (auto split: if_splits)

lemma store_frame: "lookup (key r) t \<noteq> None \<Longrightarrow> key r \<noteq> k \<Longrightarrow> lookup k (store r t) = lookup k t"
  using lookup_store by simp

lemma store_store:
  "lookup (key r) t \<noteq> None \<Longrightarrow> key r' = key r \<Longrightarrow> lookup k (store r' (store r t)) = lookup k (store r' t)"
  using lookup_store [of r t] lookup_store [of r' t] lookup_store [of r' "store r t"] by auto

end

interpretation rows: keyed_table key "get_row key" "put_row key" "add_row" for key
proof unfold_locales
  fix k t r
  show "get_row key k t = Some r \<Longrightarrow> key r = k" by (auto dest: get_row_Some)
next
  fix r k :: 'b and t :: "'a list"
  fix r' :: 'a
  show "get_row key (key r') t \<noteq> None \<Longrightarrow>
    get_row key k (put_row key r' t) = (if key r' = k then Some r' else get_row key k t)"
    by (auto simp: row_simps)
next
  fix k :: 'b and t :: "'a list" and r' :: 'a
  show "get_row key (key r') t = None \<Longrightarrow>
    get_row key k (add_row r' t) = (if key r' = k then Some r' else get_row key k t)"
    by (cases "get_row key k t") (auto simp: row_simps)
qed

end
