(* ===== verification/PyFloat.thy ===== *)
theory PyFloat
  imports Prelude Complex_Main
begin

text \<open>
  Python floats: IEEE 754 binary64 values with round-to-nearest-even. A finite float is
  \<open>Fin q\<close> with the exact rational it stands for; \<open>to_float\<close> rounds a rational to the
  nearest float and overflows to an infinity. The arithmetic of the engines is \<open>fadd\<close>,
  \<open>fsub\<close>, \<open>fmul\<close>, \<open>fdiv\<close>, \<open>fpow2\<close> (the operator \<open>** 2\<close>), the comparisons,
  \<open>fmin\<close>, \<open>fsum\<close> (\<open>sum\<close> of CPython 3.11, the interpreter of the container images) and
  \<open>fround6\<close> (\<open>round(x, 6)\<close>, which rounds the exact decimal value and then converts back).
  The sign of zero is not represented: nothing the engines compute depends on it. The locale
  \<open>rounding\<close> states what bounds and monotonicity proofs need of a rounding function; its
  interpretation is the binary64 rounding defined here.
\<close>

section \<open>The interface of a rounding function\<close>

locale rounding =
  fixes rnd :: "rat \<Rightarrow> rat"
  assumes mono: "x \<le> y \<Longrightarrow> rnd x \<le> rnd y"
    and exact_int: "\<bar>n\<bar> \<le> 2 ^ 53 \<Longrightarrow> rnd (of_int n) = of_int n"
    and idem: "rnd (rnd x) = rnd x"
begin

lemma zero: "rnd 0 = 0"
  using exact_int [of 0] by simp

lemma one: "rnd 1 = 1"
  using exact_int [of 1] by simp

lemma hundred: "rnd 100 = 100"
  using exact_int [of 100] by simp

lemma nonneg: "0 \<le> x \<Longrightarrow> 0 \<le> rnd x"
  using mono [of 0 x] by (simp add: zero)

lemma le_repr: "x \<le> b \<Longrightarrow> rnd b = b \<Longrightarrow> rnd x \<le> b"
  using mono [of x b] by simp

lemma ge_repr: "b \<le> x \<Longrightarrow> rnd b = b \<Longrightarrow> b \<le> rnd x"
  using mono [of b x] by simp

lemma le_one: "x \<le> 1 \<Longrightarrow> rnd x \<le> 1"
  by (rule le_repr [OF _ one])

lemma mult_mono_round:
  "0 \<le> a \<Longrightarrow> a \<le> b \<Longrightarrow> 0 \<le> c \<Longrightarrow> c \<le> d \<Longrightarrow> rnd (a * c) \<le> rnd (b * d)"
  by (intro mono mult_mono) auto

lemma add_mono_round: "a \<le> b \<Longrightarrow> c \<le> d \<Longrightarrow> rnd (a + c) \<le> rnd (b + d)"
  by (intro mono add_mono)

lemma diff_mono_round: "a \<le> b \<Longrightarrow> d \<le> c \<Longrightarrow> rnd (a - c) \<le> rnd (b - d)"
  by (intro mono) linarith

lemma div_mono_round: "a \<le> b \<Longrightarrow> 0 < c \<Longrightarrow> rnd (a / c) \<le> rnd (b / c)"
  by (intro mono divide_right_mono) auto

end

section \<open>Round to nearest, ties to even\<close>

definition rne :: "rat \<Rightarrow> int" where
  "rne x = (let f = \<lfloor>x\<rfloor>; r = x - of_int f in
     if r < 1 / 2 then f else if 1 / 2 < r then f + 1 else if even f then f else f + 1)"

lemma rne_bounds: "\<lfloor>x\<rfloor> \<le> rne x" "rne x \<le> \<lfloor>x\<rfloor> + 1"
  by (auto simp: rne_def Let_def)

lemma rne_of_int [simp]: "rne (of_int n) = n"
  by (simp add: rne_def)

lemma rne_0 [simp]: "rne 0 = 0" and rne_1 [simp]: "rne 1 = 1"
  using rne_of_int [of 0] rne_of_int [of 1] by simp_all

lemma rne_mono: "x \<le> y \<Longrightarrow> rne x \<le> rne y"
proof (cases "\<lfloor>x\<rfloor> = \<lfloor>y\<rfloor>")
  case True
  moreover assume "x \<le> y"
  ultimately show ?thesis by (auto simp: rne_def Let_def)
next
  case False
  moreover assume "x \<le> y"
  then have "\<lfloor>x\<rfloor> \<le> \<lfloor>y\<rfloor>" by (rule floor_mono)
  ultimately have "\<lfloor>x\<rfloor> + 1 \<le> \<lfloor>y\<rfloor>" by simp
  with rne_bounds(2) [of x] rne_bounds(1) [of y] show ?thesis by linarith
qed

lemma rne_error: "\<bar>x - of_int (rne x)\<bar> \<le> 1 / 2"
proof -
  define f where "f = \<lfloor>x\<rfloor>"
  have "of_int f \<le> x" "x < of_int f + 1" unfolding f_def by linarith+
  then show ?thesis
    unfolding rne_def Let_def f_def [symmetric] by auto
qed

lemma rne_eqI: "\<bar>x - of_int n\<bar> < 1 / 2 \<Longrightarrow> rne x = n"
proof -
  assume "\<bar>x - of_int n\<bar> < 1 / 2"
  with rne_error [of x] have "\<bar>of_int (rne x) - (of_int n :: rat)\<bar> < 1" by linarith
  then have "\<bar>rne x - n\<bar> < 1" by linarith
  then show ?thesis by simp
qed

lemma rne_half: "rne (of_int n + 1 / 2) = (if even n then n else n + 1)"
proof -
  have "\<lfloor>of_int n + 1 / 2 :: rat\<rfloor> = n" by linarith
  then show ?thesis unfolding rne_def Let_def by simp
qed

lemma rne_tie: "\<bar>x - of_int n\<bar> = 1 / 2 \<Longrightarrow> even n \<Longrightarrow> rne x = n"
proof -
  assume "\<bar>x - of_int n\<bar> = 1 / 2" and ev: "even n"
  then consider "x = of_int n + 1 / 2" | "x = of_int (n - 1) + 1 / 2" by (auto simp: abs_if split: if_splits)
  then show ?thesis
    by cases (simp_all only: rne_half ev, simp_all add: ev)
qed

lemma rne_minus: "rne (- x) = - rne x"
proof (cases "\<bar>x - of_int (rne x)\<bar> < 1 / 2")
  case True
  then show ?thesis by (intro rne_eqI) (simp add: abs_if split: if_splits)
next
  case False
  define f where "f = \<lfloor>x\<rfloor>"
  have lu: "of_int f \<le> x" "x < of_int f + 1" unfolding f_def by linarith+
  have "x = of_int f + 1 / 2"
    using False lu by (auto simp: rne_def Let_def f_def [symmetric] abs_if split: if_splits)
  then have fx: "- x = of_int (- f - 1) + 1 / 2" by simp
  have "rne (- x) = (if even (- f - 1) then - f - 1 else - f)" unfolding fx rne_half by simp
  moreover have "rne x = (if even f then f else f + 1)"
    using rne_half [of f] \<open>x = of_int f + 1 / 2\<close> by simp
  ultimately show ?thesis by simp
qed

section \<open>Binary exponents\<close>

fun nlog2 :: "nat \<Rightarrow> nat" where
  "nlog2 n = (if n < 2 then 0 else Suc (nlog2 (n div 2)))"

declare nlog2.simps [simp del]

lemma nlog2_bounds: "0 < n \<Longrightarrow> 2 ^ nlog2 n \<le> n \<and> n < 2 * 2 ^ nlog2 n"
proof (induction n rule: nlog2.induct)
  case (1 n)
  show ?case
  proof (cases "n < 2")
    case True
    with 1 show ?thesis by (subst (1 2) nlog2.simps) auto
  next
    case False
    with 1 have "2 ^ nlog2 (n div 2) \<le> n div 2 \<and> n div 2 < 2 * 2 ^ nlog2 (n div 2)" by simp
    with False show ?thesis by (subst (1 2) nlog2.simps) auto
  qed
qed

definition pow2 :: "int \<Rightarrow> rat" where
  "pow2 e = (if 0 \<le> e then 2 ^ nat e else 1 / 2 ^ nat (- e))"

lemma pow2_pos [simp]: "0 < pow2 e"
  by (simp add: pow2_def)

lemma pow2_nonneg [simp]: "0 \<le> pow2 e"
  by (simp add: pow2_def)

lemma pow2_nonzero [simp]: "pow2 e \<noteq> 0"
  by (simp add: pow2_def)

lemma pow2_powi: "pow2 e = 2 powi e"
  by (auto simp: pow2_def power_int_def field_simps)

lemma pow2_add: "pow2 (a + b) = pow2 a * pow2 b"
  by (simp add: pow2_powi power_int_add)

lemma pow2_diff: "pow2 (a - b) = pow2 a / pow2 b"
  by (simp add: pow2_powi power_int_diff)

lemma pow2_less: "a < b \<Longrightarrow> pow2 a < pow2 b"
  unfolding pow2_powi by (rule power_int_strict_increasing) simp_all

lemma pow2_less_iff [simp]: "pow2 a < pow2 b \<longleftrightarrow> a < b"
  using pow2_less [of a b] pow2_less [of b a] by (cases a b rule: linorder_cases) auto

lemma pow2_le_iff [simp]: "pow2 a \<le> pow2 b \<longleftrightarrow> a \<le> b"
  using pow2_less_iff [of b a] by (simp only: linorder_not_less [symmetric])

lemma pow2_nat [simp]: "pow2 (int n) = 2 ^ n"
  by (simp add: pow2_def)

text \<open>The exponent of the leading binary digit of a positive rational.\<close>

definition ilog2 :: "rat \<Rightarrow> int" where
  "ilog2 q = (case quotient_of q of (n, d) \<Rightarrow>
     (let k = int (nlog2 (nat n)) - int (nlog2 (nat d)) in
      if pow2 k \<le> q then k else k - 1))"

lemma ilog2_bounds:
  assumes "0 < q"
  shows "pow2 (ilog2 q) \<le> q \<and> q < pow2 (ilog2 q + 1)"
proof -
  obtain n d where nd: "quotient_of q = (n, d)" by (cases "quotient_of q")
  have q: "q = of_int n / of_int d" by (rule quotient_of_div [OF nd])
  have d: "0 < d" by (rule quotient_of_denom_pos [OF nd])
  with q assms have n: "0 < n" by (simp add: zero_less_divide_iff)
  define a b where "a = nlog2 (nat n)" and "b = nlog2 (nat d)"
  have "2 ^ a \<le> nat n \<and> nat n < 2 * 2 ^ a" "2 ^ b \<le> nat d \<and> nat d < 2 * 2 ^ b"
    using nlog2_bounds [of "nat n"] nlog2_bounds [of "nat d"] n d by (auto simp: a_def b_def)
  then have "int (2 ^ a) \<le> n \<and> n < int (2 * 2 ^ a)" "int (2 ^ b) \<le> d \<and> d < int (2 * 2 ^ b)"
    using n d by (auto simp only: zless_nat_eq_int_zless le_nat_iff)
  then have "(of_int (2 ^ a) :: rat) \<le> of_int n \<and> (of_int n :: rat) < of_int (2 * 2 ^ a)"
      "(of_int (2 ^ b) :: rat) \<le> of_int d \<and> (of_int d :: rat) < of_int (2 * 2 ^ b)"
    by (simp_all only: of_int_le_iff of_int_less_iff) simp_all
  then have rn: "(2 :: rat) ^ a \<le> of_int n" "(of_int n :: rat) < 2 * 2 ^ a"
    and rd: "(2 :: rat) ^ b \<le> of_int d" "(of_int d :: rat) < 2 * 2 ^ b"
    by simp_all
  define k where "k = int a - int b"
  have "of_int n / of_int d < 2 * 2 ^ a / (2 ^ b :: rat)"
    using rn rd n by (intro frac_less) (auto intro: less_imp_le)
  then have up: "q < pow2 (k + 1)" by (simp add: q k_def pow2_add pow2_diff pow2_def [of 1] mult.commute)
  have "2 ^ a / (2 * 2 ^ b) \<le> (of_int n / of_int d :: rat)"
    using rn rd d n by (intro frac_le) (auto intro: less_imp_le)
  then have lo: "pow2 (k - 1) \<le> q" by (simp add: q k_def pow2_diff pow2_def [of 1] mult.commute)
  show ?thesis
    using up lo by (auto simp: ilog2_def nd k_def [symmetric] a_def b_def Let_def k_def)
qed

section \<open>Rounding to binary64\<close>

definition expo :: "rat \<Rightarrow> int" where
  "expo q = max (ilog2 q - 52) (- 1074)"

definition rnd64 :: "rat \<Rightarrow> rat" where
  "rnd64 q = (if q = 0 then 0
     else (let u = pow2 (expo \<bar>q\<bar>) in of_int (rne (q / u)) * u))"

lemma rnd64_0 [simp]: "rnd64 0 = 0"
  by (simp add: rnd64_def)

lemma rnd64_minus: "rnd64 (- q) = - rnd64 q"
  by (simp add: rnd64_def Let_def rne_minus)

lemma expo_upper: "0 < q \<Longrightarrow> q < pow2 (expo q + 53)"
proof -
  assume "0 < q"
  then have "q < pow2 (ilog2 q + 1)" using ilog2_bounds by blast
  also have "\<dots> \<le> pow2 (expo q + 53)" by (simp add: expo_def)
  finally show ?thesis .
qed

lemma expo_lower: "0 < q \<Longrightarrow> - 1074 < expo q \<Longrightarrow> pow2 (expo q + 52) \<le> q"
  using ilog2_bounds [of q] by (auto simp: expo_def)

lemma expo_mono: "0 < p \<Longrightarrow> p \<le> q \<Longrightarrow> expo p \<le> expo q"
proof -
  assume "0 < p" "p \<le> q"
  then have "pow2 (ilog2 p) < pow2 (ilog2 q + 1)"
    using ilog2_bounds [of p] ilog2_bounds [of q] by linarith
  then show ?thesis by (simp add: expo_def)
qed

lemma pow2_int_multiple: "e \<le> d \<Longrightarrow> pow2 d / pow2 e = of_int (2 ^ nat (d - e))"
proof -
  assume "e \<le> d"
  have "pow2 d / pow2 e = pow2 (d - e)" by (simp only: pow2_diff)
  also have "\<dots> = of_int (2 ^ nat (d - e))" using \<open>e \<le> d\<close> by (simp add: pow2_def)
  finally show ?thesis .
qed

lemma rnd64_pos: "0 < q \<Longrightarrow> rnd64 q = of_int (rne (q / pow2 (expo q))) * pow2 (expo q)"
  by (simp add: rnd64_def Let_def)

lemma rnd64_le_pow2:
  assumes "0 < q" "expo q \<le> d" "q \<le> pow2 d"
  shows "rnd64 q \<le> pow2 d"
proof -
  have "rne (q / pow2 (expo q)) \<le> rne (pow2 d / pow2 (expo q))"
    using assms by (intro rne_mono divide_right_mono) auto
  also have "\<dots> = 2 ^ nat (d - expo q)"
    by (simp only: pow2_int_multiple [OF assms(2)] rne_of_int)
  finally have "of_int (rne (q / pow2 (expo q))) \<le> (of_int (2 ^ nat (d - expo q)) :: rat)"
    by (simp only: of_int_le_iff)
  also have "\<dots> = pow2 d / pow2 (expo q)" by (simp only: pow2_int_multiple [OF assms(2)])
  finally show ?thesis using assms(1) by (simp add: rnd64_pos field_simps)
qed

lemma rnd64_ge_pow2:
  assumes "0 < q" "expo q \<le> d" "pow2 d \<le> q"
  shows "pow2 d \<le> rnd64 q"
proof -
  have "pow2 d / pow2 (expo q) = of_int (2 ^ nat (d - expo q))"
    by (rule pow2_int_multiple [OF assms(2)])
  also have "\<dots> = of_int (rne (pow2 d / pow2 (expo q)))"
    by (simp only: pow2_int_multiple [OF assms(2)] rne_of_int)
  also have "\<dots> \<le> of_int (rne (q / pow2 (expo q)))"
    using assms by (simp only: of_int_le_iff) (intro rne_mono divide_right_mono, auto)
  finally show ?thesis using assms(1) by (simp add: rnd64_pos field_simps)
qed

lemma rnd64_mono_pos:
  assumes "0 < p" "p \<le> q"
  shows "rnd64 p \<le> rnd64 q"
proof (cases "expo p = expo q")
  case True
  have "rne (p / pow2 (expo q)) \<le> rne (q / pow2 (expo q))"
    using assms by (intro rne_mono divide_right_mono) auto
  then have "(of_int (rne (p / pow2 (expo q))) :: rat) \<le> of_int (rne (q / pow2 (expo q)))"
    by (simp only: of_int_le_iff)
  with assms True show ?thesis by (simp add: rnd64_pos mult_right_mono)
next
  case False
  with expo_mono [OF assms] have lt: "expo p < expo q" by simp
  then have low: "pow2 (expo q + 52) \<le> q"
    using assms by (intro expo_lower) (auto simp: expo_def)
  have "p \<le> pow2 (expo p + 53)" using expo_upper [OF assms(1)] by simp
  then have "rnd64 p \<le> pow2 (expo p + 53)" using assms(1) by (intro rnd64_le_pow2) auto
  also have "\<dots> \<le> pow2 (expo q + 52)" using lt by simp
  also have "\<dots> \<le> rnd64 q" using assms low by (intro rnd64_ge_pow2) auto
  finally show ?thesis .
qed

lemma rnd64_nonneg: "0 \<le> q \<Longrightarrow> 0 \<le> rnd64 q"
proof (cases "q = 0")
  case False
  assume "0 \<le> q"
  with False have "0 < q" by simp
  then have "rne 0 \<le> rne (q / pow2 (expo q))" by (intro rne_mono) auto
  with \<open>0 < q\<close> show ?thesis by (simp add: rnd64_pos)
qed simp

lemma rnd64_mono: "x \<le> y \<Longrightarrow> rnd64 x \<le> rnd64 y"
proof -
  assume le: "x \<le> y"
  consider "0 < x" | "x \<le> 0" "0 \<le> y" | "y < 0" by linarith
  then show ?thesis
  proof cases
    case 1
    then show ?thesis using le by (rule rnd64_mono_pos)
  next
    case 2
    then have "0 \<le> rnd64 y" "0 \<le> rnd64 (- x)" by (simp_all add: rnd64_nonneg)
    then show ?thesis by (simp add: rnd64_minus)
  next
    case 3
    then have "rnd64 (- y) \<le> rnd64 (- x)" using le by (intro rnd64_mono_pos) auto
    then show ?thesis by (simp add: rnd64_minus)
  qed
qed

text \<open>A multiple of its own unit in the last place is a float: rounding leaves it alone.\<close>

lemma rnd64_exact: "q = of_int m * pow2 (expo \<bar>q\<bar>) \<Longrightarrow> rnd64 q = q"
  by (cases "q = 0") (simp_all add: rnd64_def Let_def nonzero_divide_eq_eq, metis
      nonzero_mult_div_cancel_right pow2_nonzero rne_of_int)

text \<open>
  Every \<open>m * 2^e\<close> with a 53-bit significand and an exponent in range is a float, so rounding is
  exact on it; in particular it is exact on the integers up to \<open>2^53\<close> and idempotent.
\<close>

lemma rnd64_representable_strict:
  assumes "\<bar>m\<bar> < 2 ^ 53" "- 1074 \<le> e"
  shows "rnd64 (of_int m * pow2 e) = of_int m * pow2 e"
proof (cases "m = 0")
  case False
  define q where "q = of_int m * pow2 e"
  have pos: "0 < \<bar>q\<bar>" using False by (simp add: q_def)
  have "of_int \<bar>m\<bar> < (of_int (2 ^ 53) :: rat)" using assms(1) by (simp only: of_int_less_iff)
  then have "\<bar>q\<bar> < pow2 (e + 53)" by (simp add: q_def abs_mult pow2_add pow2_def [of 53])
  with ilog2_bounds [OF pos] have "pow2 (ilog2 \<bar>q\<bar>) < pow2 (e + 53)" by linarith
  with assms(2) have le: "expo \<bar>q\<bar> \<le> e" by (simp add: expo_def)
  have "pow2 e = of_int (2 ^ nat (e - expo \<bar>q\<bar>)) * pow2 (expo \<bar>q\<bar>)"
    using pow2_int_multiple [OF le] by (simp add: nonzero_divide_eq_eq)
  then have "q = of_int (m * 2 ^ nat (e - expo \<bar>q\<bar>)) * pow2 (expo \<bar>q\<bar>)"
    by (simp add: q_def)
  then show ?thesis unfolding q_def [symmetric] by (rule rnd64_exact)
qed simp

lemma rnd64_representable:
  assumes "\<bar>m\<bar> \<le> 2 ^ 53" "- 1074 \<le> e"
  shows "rnd64 (of_int m * pow2 e) = of_int m * pow2 e"
proof (cases "\<bar>m\<bar> = 2 ^ 53")
  case True
  then consider "m = 2 ^ 53" | "m = - (2 ^ 53)" by linarith
  then have "of_int m * pow2 e = of_int (sgn m * 2 ^ 52) * pow2 (e + 1)"
    by cases (simp_all add: pow2_add pow2_def [of 1])
  moreover have "\<bar>sgn m * 2 ^ 52\<bar> < (2 :: int) ^ 53" using True by (auto simp: abs_mult sgn_if)
  ultimately show ?thesis using rnd64_representable_strict [of "sgn m * 2 ^ 52" "e + 1"] assms(2) by simp
next
  case False
  with assms show ?thesis by (intro rnd64_representable_strict) auto
qed

lemma rnd64_int: "\<bar>n\<bar> \<le> 2 ^ 53 \<Longrightarrow> rnd64 (of_int n) = of_int n"
  using rnd64_representable [of n 0] by (simp add: pow2_def)

lemma rnd64_numeral [simp]:
  "(numeral n :: int) \<le> 9007199254740992 \<Longrightarrow> rnd64 (numeral n) = numeral n"
  using rnd64_int [of "numeral n"] by simp

lemma rnd64_1 [simp]: "rnd64 1 = 1"
  using rnd64_int [of 1] by simp

lemma rnd64_idem [simp]: "rnd64 (rnd64 q) = rnd64 q"
proof (cases "q = 0")
  case False
  define e where "e = expo \<bar>q\<bar>"
  have "\<bar>q\<bar> < pow2 (e + 53)" using expo_upper [of "\<bar>q\<bar>"] False by (simp add: e_def)
  then have "\<bar>q / pow2 e\<bar> < of_int (2 ^ 53)"
    by (simp add: divide_less_eq pow2_add pow2_def [of 53] mult.commute)
  then have lt: "q / pow2 e \<le> of_int (2 ^ 53)" "of_int (- (2 ^ 53)) \<le> q / pow2 e"
    unfolding abs_less_iff of_int_minus by linarith+
  have "rne (q / pow2 e) \<le> rne (of_int (2 ^ 53))"
    by (rule rne_mono [OF lt(1)])
  moreover have "rne (of_int (- (2 ^ 53))) \<le> rne (q / pow2 e)"
    by (rule rne_mono [OF lt(2)])
  ultimately have "\<bar>rne (q / pow2 e)\<bar> \<le> 2 ^ 53" unfolding rne_of_int abs_le_iff by simp
  moreover have "- 1074 \<le> e" by (simp add: e_def expo_def)
  ultimately have "rnd64 (of_int (rne (q / pow2 e)) * pow2 e) = of_int (rne (q / pow2 e)) * pow2 e"
    by (rule rnd64_representable)
  then show ?thesis using False by (simp add: rnd64_def [of q] Let_def e_def)
qed simp

interpretation b64: rounding rnd64
  by unfold_locales (simp_all add: rnd64_mono rnd64_int rnd64_idem)

text \<open>The rounding of a positive rational whose exponent and significand are known.\<close>

lemma rnd64_known:
  assumes "0 < q" "pow2 (e + 52) \<le> q" "q < pow2 (e + 53)" "- 1074 \<le> e"
    and "\<bar>q / pow2 e - of_int m\<bar> < 1 / 2 \<or> \<bar>q / pow2 e - of_int m\<bar> = 1 / 2 \<and> even m"
  shows "rnd64 q = of_int m * pow2 e"
proof -
  have "pow2 (ilog2 q) < pow2 (e + 53)" "pow2 (e + 52) < pow2 (ilog2 q + 1)"
    using ilog2_bounds [OF assms(1)] assms(2,3) by linarith+
  then have "ilog2 q = e + 52" by simp
  then have "expo q = e" using assms(4) by (simp add: expo_def)
  moreover have "rne (q / pow2 e) = m" using assms(5) by (auto intro: rne_eqI rne_tie)
  ultimately show ?thesis using assms(1) by (simp add: rnd64_pos)
qed

section \<open>Float values\<close>

datatype pyfloat = Fin rat | PInf | NInf | NaN

datatype arith_error = ZeroDivisionError | OverflowError

definition overflow_limit :: rat where
  "overflow_limit = 2 ^ 1024"

definition to_float :: "rat \<Rightarrow> pyfloat" where
  "to_float q = (let r = rnd64 q in
     if overflow_limit \<le> r then PInf else if r \<le> - overflow_limit then NInf else Fin r)"

definition fadd :: "pyfloat \<Rightarrow> pyfloat \<Rightarrow> pyfloat" where
  "fadd x y = (case (x, y) of
     (Fin a, Fin b) \<Rightarrow> to_float (a + b)
   | (NaN, _) \<Rightarrow> NaN | (_, NaN) \<Rightarrow> NaN
   | (PInf, NInf) \<Rightarrow> NaN | (NInf, PInf) \<Rightarrow> NaN
   | (PInf, _) \<Rightarrow> PInf | (_, PInf) \<Rightarrow> PInf
   | (NInf, _) \<Rightarrow> NInf | (_, NInf) \<Rightarrow> NInf)"

definition fneg :: "pyfloat \<Rightarrow> pyfloat" where
  "fneg x = (case x of Fin a \<Rightarrow> Fin (- a) | PInf \<Rightarrow> NInf | NInf \<Rightarrow> PInf | NaN \<Rightarrow> NaN)"

definition fsub :: "pyfloat \<Rightarrow> pyfloat \<Rightarrow> pyfloat" where
  "fsub x y = fadd x (fneg y)"

definition inf_signed :: "rat \<Rightarrow> pyfloat" where
  "inf_signed s = (if s = 0 then NaN else if 0 < s then PInf else NInf)"

definition fsign :: "pyfloat \<Rightarrow> rat" where
  "fsign x = (case x of Fin a \<Rightarrow> sgn a | PInf \<Rightarrow> 1 | NInf \<Rightarrow> - 1 | NaN \<Rightarrow> 0)"

definition fmul :: "pyfloat \<Rightarrow> pyfloat \<Rightarrow> pyfloat" where
  "fmul x y = (case (x, y) of
     (Fin a, Fin b) \<Rightarrow> to_float (a * b)
   | (NaN, _) \<Rightarrow> NaN | (_, NaN) \<Rightarrow> NaN
   | (_, _) \<Rightarrow> inf_signed (fsign x * fsign y))"

text \<open>Python division raises on a zero divisor, also when the dividend is not finite.\<close>

definition fdiv :: "pyfloat \<Rightarrow> pyfloat \<Rightarrow> (arith_error, pyfloat) result" where
  "fdiv x y = (if y = Fin 0 then Inl ZeroDivisionError
     else Inr (case (x, y) of
       (Fin a, Fin b) \<Rightarrow> to_float (a / b)
     | (NaN, _) \<Rightarrow> NaN | (_, NaN) \<Rightarrow> NaN
     | (Fin a, _) \<Rightarrow> Fin 0
     | (_, Fin b) \<Rightarrow> inf_signed (fsign x * fsign y)
     | (_, _) \<Rightarrow> NaN))"

text \<open>\<open>x ** 2\<close>, correctly rounded; Python raises when a finite operand overflows.\<close>

definition fpow2 :: "pyfloat \<Rightarrow> (arith_error, pyfloat) result" where
  "fpow2 x = (case x of
     Fin a \<Rightarrow> (case to_float (a * a) of Fin b \<Rightarrow> Inr (Fin b) | _ \<Rightarrow> Inl OverflowError)
   | NaN \<Rightarrow> Inr NaN | _ \<Rightarrow> Inr PInf)"

definition flt :: "pyfloat \<Rightarrow> pyfloat \<Rightarrow> bool" where
  "flt x y = (case (x, y) of
     (Fin a, Fin b) \<Rightarrow> a < b
   | (NaN, _) \<Rightarrow> False | (_, NaN) \<Rightarrow> False
   | (NInf, y) \<Rightarrow> y \<noteq> NInf | (x, PInf) \<Rightarrow> x \<noteq> PInf
   | (_, _) \<Rightarrow> False)"

definition fle :: "pyfloat \<Rightarrow> pyfloat \<Rightarrow> bool" where
  "fle x y = (x \<noteq> NaN \<and> y \<noteq> NaN \<and> \<not> flt y x)"

definition feq :: "pyfloat \<Rightarrow> pyfloat \<Rightarrow> bool" where
  "feq x y = (x \<noteq> NaN \<and> x = y)"

definition is_finite :: "pyfloat \<Rightarrow> bool" where
  "is_finite x = (case x of Fin _ \<Rightarrow> True | _ \<Rightarrow> False)"

definition is_nan :: "pyfloat \<Rightarrow> bool" where
  "is_nan x = (x = NaN)"

text \<open>\<open>sum(...)\<close> of CPython 3.11 and \<open>min(...)\<close>: both go left to right, \<open>min\<close> keeps the
  first of the minimal elements.\<close>

definition fsum :: "pyfloat list \<Rightarrow> pyfloat" where
  "fsum xs = foldl fadd (Fin 0) xs"

definition fmin :: "pyfloat \<Rightarrow> pyfloat list \<Rightarrow> pyfloat" where
  "fmin x xs = foldl (\<lambda>best y. if flt y best then y else best) x xs"

definition fabs :: "pyfloat \<Rightarrow> pyfloat" where
  "fabs x = (case x of Fin a \<Rightarrow> Fin \<bar>a\<bar> | NaN \<Rightarrow> NaN | _ \<Rightarrow> PInf)"

definition int_to_float :: "int \<Rightarrow> (arith_error, pyfloat) result" where
  "int_to_float n = (case to_float (of_int n) of Fin a \<Rightarrow> Inr (Fin a) | _ \<Rightarrow> Inl OverflowError)"

text \<open>\<open>round(x, 6)\<close>: the exact value to six decimals, ties to even, read back as a float.\<close>

definition round6 :: "rat \<Rightarrow> rat" where
  "round6 q = rnd64 (of_int (rne (q * 1000000)) / 1000000)"

definition fround6 :: "pyfloat \<Rightarrow> pyfloat" where
  "fround6 x = (case x of Fin a \<Rightarrow> Fin (round6 a) | _ \<Rightarrow> x)"

text \<open>A value the interpreter can hold: not a finite number, or a rounded one below the overflow limit.\<close>

definition is_float :: "pyfloat \<Rightarrow> bool" where
  "is_float x = (case x of Fin a \<Rightarrow> rnd64 a = a \<and> \<bar>a\<bar> < overflow_limit | _ \<Rightarrow> True)"

section \<open>Bounds of the operations on small values\<close>

text \<open>
  The engines work far below the overflow limit. \<open>small q\<close> is the bound under which a sum or a
  product of the magnitudes met there stays finite.
\<close>

lemma overflow_big: "(2 :: rat) ^ 900 < overflow_limit"
  unfolding overflow_limit_def by (rule power_strict_increasing) simp_all

lemma to_float_small:
  assumes "\<bar>q\<bar> \<le> 2 ^ 900" shows "to_float q = Fin (rnd64 q)"
proof -
  have r: "rnd64 (2 ^ 900) = 2 ^ 900"
    using rnd64_representable [of 1 900] by (simp add: pow2_def)
  have "rnd64 q \<le> 2 ^ 900" "- (2 ^ 900) \<le> rnd64 q"
    using assms b64.le_repr [OF _ r, of q] b64.le_repr [OF _ r, of "- q"] by (simp_all add: rnd64_minus abs_le_iff)
  with overflow_big show ?thesis by (simp add: to_float_def Let_def)
qed

lemma fin_small: "\<bar>q\<bar> \<le> 1000000 \<Longrightarrow> \<bar>q\<bar> \<le> (2 :: rat) ^ 900"
proof -
  assume "\<bar>q\<bar> \<le> 1000000"
  also have "\<dots> \<le> 2 ^ 20" by simp
  also have "\<dots> \<le> 2 ^ 900" by (rule power_increasing) simp_all
  finally show ?thesis .
qed

lemma to_float_fin [simp]: "\<bar>q\<bar> \<le> 1000000 \<Longrightarrow> to_float q = Fin (rnd64 q)"
  by (rule to_float_small [OF fin_small])

lemma fadd_Fin [simp]: "fadd (Fin a) (Fin b) = to_float (a + b)"
  and fmul_Fin [simp]: "fmul (Fin a) (Fin b) = to_float (a * b)"
  and fneg_Fin [simp]: "fneg (Fin a) = Fin (- a)"
  and fsub_Fin [simp]: "fsub (Fin a) (Fin b) = to_float (a - b)"
  and fdiv_Fin [simp]: "fdiv (Fin a) (Fin b) = (if b = 0 then Inl ZeroDivisionError else Inr (to_float (a / b)))"
  and flt_Fin [simp]: "flt (Fin a) (Fin b) = (a < b)"
  and fle_Fin [simp]: "fle (Fin a) (Fin b) = (a \<le> b)"
  and feq_Fin [simp]: "feq (Fin a) (Fin b) = (a = b)"
  and fabs_Fin [simp]: "fabs (Fin a) = Fin \<bar>a\<bar>"
  and is_finite_Fin [simp]: "is_finite (Fin a)"
  and is_nan_Fin [simp]: "\<not> is_nan (Fin a)"
  and fround6_Fin [simp]: "fround6 (Fin a) = Fin (round6 a)"
  by (auto simp: fadd_def fmul_def fneg_def fsub_def fdiv_def flt_def fle_def feq_def fabs_def
      is_finite_def is_nan_def fround6_def not_less)

lemma is_finite_iff: "is_finite x \<longleftrightarrow> (\<exists>a. x = Fin a)"
  by (cases x) (simp_all add: is_finite_def)

lemma round6_mono: "x \<le> y \<Longrightarrow> round6 x \<le> round6 y"
  unfolding round6_def
  by (intro b64.div_mono_round) (simp_all add: rne_mono)

lemma round6_int: "\<bar>n\<bar> \<le> 2 ^ 53 \<Longrightarrow> round6 (of_int n) = of_int n"
proof -
  assume n: "\<bar>n\<bar> \<le> 2 ^ 53"
  have "rne (of_int n * 1000000) = n * 1000000" using rne_of_int [of "n * 1000000"] by simp
  then show ?thesis using rnd64_int [OF n] by (simp add: round6_def)
qed

lemma round6_numeral [simp]:
  "(numeral n :: int) \<le> 9007199254740992 \<Longrightarrow> round6 (numeral n) = numeral n"
  using round6_int [of "numeral n"] by simp

lemma round6_1 [simp]: "round6 1 = 1"
  using round6_int [of 1] by simp

text \<open>The rounding of a value whose sixth decimal is known.\<close>

lemma round6_known: "\<bar>q * 1000000 - of_int m\<bar> < 1 / 2 \<Longrightarrow> round6 q = rnd64 (of_int m / 1000000)"
  by (simp add: round6_def rne_eqI)

lemma round6_0 [simp]: "round6 0 = 0" and round6_100 [simp]: "round6 100 = 100"
  using round6_int [of 0] round6_int [of 100] by simp_all

lemma fle_trans: "fle x y \<Longrightarrow> fle y z \<Longrightarrow> fle x z"
  by (cases x; cases y; cases z) (auto simp: fle_def flt_def)

lemma fle_refl: "x \<noteq> NaN \<Longrightarrow> fle x x"
  by (cases x) (auto simp: fle_def flt_def)

lemma fle_Fin_bounds: "fle (Fin a) x \<Longrightarrow> fle x (Fin b) \<Longrightarrow> \<exists>q. x = Fin q \<and> a \<le> q \<and> q \<le> b"
  by (cases x) (auto simp: fle_def flt_def)

end
