(* ===== verification/CoreConfig.thy ===== *)
theory CoreConfig
  imports PyFloat
begin

text \<open>
  The constants of \<open>sitescore-core\<close> (\<open>config/*.py\<close> and \<open>version.py\<close>): sectors, categories,
  category and sub-feature weights, dealbreaker rules, decision thresholds, financial priors,
  quality levels and confidence tables. A literal such as \<open>0.40\<close> is \<open>to_float (2 / 5)\<close>, the
  float the interpreter reads; \<open>rnd64_literals\<close> gives the exact values. String enums are
  datatypes with a \<open>_value\<close> function for the string that leaves the program.
\<close>

section \<open>Errors of the Python code\<close>

text \<open>The message is the constant part of the message; interpolated values are left out.\<close>

datatype py_error = ValueError string | TypeError string | ArithError arith_error | AssertionError
  | KeyError string | NotImplementedError string | RuntimeError string

definition arith :: "(arith_error, 'a) result \<Rightarrow> (py_error, 'a) result" where
  "arith r = (case r of Inl e \<Rightarrow> Inl (ArithError e) | Inr x \<Rightarrow> Inr x)"

lemma arith_simps [simp]: "arith (Inl e) = Inl (ArithError e)" "arith (Inr x) = Inr x"
  by (simp_all add: arith_def)

section \<open>Sectors and categories\<close>

datatype sector = Coffee | Restaurant | Gym | Beauty

fun sector_value :: "sector \<Rightarrow> string" where
  "sector_value Coffee = ''coffee''"
| "sector_value Restaurant = ''restaurant''"
| "sector_value Gym = ''gym''"
| "sector_value Beauty = ''beauty''"

datatype category = Demand | Competition | Accessibility | Economics

fun category_value :: "category \<Rightarrow> string" where
  "category_value Demand = ''demand''"
| "category_value Competition = ''competition''"
| "category_value Accessibility = ''accessibility''"
| "category_value Economics = ''economics''"

text \<open>The iteration order of the enum.\<close>

definition categories :: "category list" where
  "categories = [Demand, Competition, Accessibility, Economics]"

lemma set_categories [simp]: "set categories = UNIV"
  by (auto simp: categories_def intro: category.exhaust)

lemma category_value_inj: "category_value c = category_value d \<longleftrightarrow> c = d"
  by (cases c; cases d) simp_all

section \<open>Weights\<close>

fun category_weight :: "sector \<Rightarrow> category \<Rightarrow> pyfloat" where
  "category_weight Coffee Demand = to_float (40 / 100)"
| "category_weight Coffee Competition = to_float (30 / 100)"
| "category_weight Coffee Accessibility = to_float (20 / 100)"
| "category_weight Coffee Economics = to_float (10 / 100)"
| "category_weight Restaurant Demand = to_float (25 / 100)"
| "category_weight Restaurant Competition = to_float (20 / 100)"
| "category_weight Restaurant Accessibility = to_float (30 / 100)"
| "category_weight Restaurant Economics = to_float (25 / 100)"
| "category_weight Gym Demand = to_float (30 / 100)"
| "category_weight Gym Competition = to_float (15 / 100)"
| "category_weight Gym Accessibility = to_float (30 / 100)"
| "category_weight Gym Economics = to_float (25 / 100)"
| "category_weight Beauty Demand = to_float (20 / 100)"
| "category_weight Beauty Competition = to_float (25 / 100)"
| "category_weight Beauty Accessibility = to_float (20 / 100)"
| "category_weight Beauty Economics = to_float (35 / 100)"

fun demand_subfeature_weights :: "sector \<Rightarrow> (string \<times> pyfloat) list" where
  "demand_subfeature_weights Coffee = [(''walkable_population'', to_float (70 / 100)),
     (''target_population_density'', to_float (20 / 100)), (''age_target_concentration'', to_float (10 / 100))]"
| "demand_subfeature_weights Restaurant = [(''walkable_population'', to_float (50 / 100)),
     (''target_population_density'', to_float (30 / 100)), (''age_target_concentration'', to_float (20 / 100))]"
| "demand_subfeature_weights Gym = [(''walkable_population'', to_float (30 / 100)),
     (''target_population_density'', to_float (40 / 100)), (''age_target_concentration'', to_float (30 / 100))]"
| "demand_subfeature_weights Beauty = [(''walkable_population'', to_float (20 / 100)),
     (''target_population_density'', to_float (40 / 100)), (''age_target_concentration'', to_float (40 / 100))]"

fun accessibility_subfeature_weights :: "sector \<Rightarrow> (string \<times> pyfloat) list" where
  "accessibility_subfeature_weights Coffee = [(''walkable_reach_area'', to_float (50 / 100)),
     (''transit_access'', to_float (30 / 100)), (''road_parking_access'', to_float (20 / 100))]"
| "accessibility_subfeature_weights Restaurant = [(''walkable_reach_area'', to_float (40 / 100)),
     (''transit_access'', to_float (30 / 100)), (''road_parking_access'', to_float (30 / 100))]"
| "accessibility_subfeature_weights Gym = [(''walkable_reach_area'', to_float (10 / 100)),
     (''transit_access'', to_float (20 / 100)), (''road_parking_access'', to_float (70 / 100))]"
| "accessibility_subfeature_weights Beauty = [(''walkable_reach_area'', to_float (10 / 100)),
     (''transit_access'', to_float (20 / 100)), (''road_parking_access'', to_float (70 / 100))]"

section \<open>Dealbreakers, decision thresholds, financial priors\<close>

record dealbreaker_rule =
  threshold :: pyfloat
  max_penalty :: pyfloat

definition rule :: "rat \<Rightarrow> rat \<Rightarrow> dealbreaker_rule" where
  "rule t p = \<lparr>threshold = to_float t, max_penalty = to_float p\<rparr>"

fun get_rule :: "sector \<Rightarrow> category \<Rightarrow> dealbreaker_rule" where
  "get_rule Coffee Demand = rule 35 (45 / 100)"
| "get_rule Coffee Competition = rule 30 (40 / 100)"
| "get_rule Coffee Accessibility = rule 30 (40 / 100)"
| "get_rule Coffee Economics = rule 0 0"
| "get_rule Restaurant Demand = rule 30 (35 / 100)"
| "get_rule Restaurant Competition = rule 20 (20 / 100)"
| "get_rule Restaurant Accessibility = rule 25 (30 / 100)"
| "get_rule Restaurant Economics = rule 25 (30 / 100)"
| "get_rule Gym Demand = rule 25 (30 / 100)"
| "get_rule Gym Competition = rule 20 (25 / 100)"
| "get_rule Gym Accessibility = rule 30 (40 / 100)"
| "get_rule Gym Economics = rule 20 (25 / 100)"
| "get_rule Beauty Demand = rule 20 (25 / 100)"
| "get_rule Beauty Competition = rule 25 (35 / 100)"
| "get_rule Beauty Accessibility = rule 20 (20 / 100)"
| "get_rule Beauty Economics = rule 35 (45 / 100)"

definition location_strong_min :: pyfloat where "location_strong_min = Fin 75"
definition location_conditional_min :: pyfloat where "location_conditional_min = Fin 50"
definition bec_strong_min :: pyfloat where "bec_strong_min = Fin (3 / 2)"
definition bec_thin_min :: pyfloat where "bec_thin_min = Fin 1"

record financial_prior =
  variable_cost_ratio :: pyfloat
  rent_burden_warning_pct :: pyfloat

fun financial_priors :: "sector \<Rightarrow> financial_prior" where
  "financial_priors Coffee = \<lparr>variable_cost_ratio = to_float (30 / 100), rent_burden_warning_pct = Fin 15\<rparr>"
| "financial_priors Restaurant = \<lparr>variable_cost_ratio = to_float (35 / 100), rent_burden_warning_pct = Fin 12\<rparr>"
| "financial_priors Gym = \<lparr>variable_cost_ratio = to_float (5 / 100), rent_burden_warning_pct = Fin 25\<rparr>"
| "financial_priors Beauty = \<lparr>variable_cost_ratio = to_float (55 / 100), rent_burden_warning_pct = Fin 15\<rparr>"

section \<open>Quality levels and confidence tables\<close>

datatype coverage_level = Cov_Full | Cov_Degraded | Cov_Missing

fun coverage_value :: "coverage_level \<Rightarrow> string" where
  "coverage_value Cov_Full = ''full''"
| "coverage_value Cov_Degraded = ''degraded''"
| "coverage_value Cov_Missing = ''missing''"

datatype input_quality = Quality_User | Quality_Default | Quality_Missing

fun quality_value :: "input_quality \<Rightarrow> string" where
  "quality_value Quality_User = ''user''"
| "quality_value Quality_Default = ''default''"
| "quality_value Quality_Missing = ''missing''"

datatype geographic_level = Geo_Block_Group | Geo_Tract | Geo_Zip | Geo_County | Geo_Unknown

fun geographic_value :: "geographic_level \<Rightarrow> string" where
  "geographic_value Geo_Block_Group = ''block_group''"
| "geographic_value Geo_Tract = ''tract''"
| "geographic_value Geo_Zip = ''zip''"
| "geographic_value Geo_County = ''county''"
| "geographic_value Geo_Unknown = ''unknown''"

definition w_geographic_precision :: pyfloat where "w_geographic_precision = to_float (30 / 100)"
definition w_data_vintage :: pyfloat where "w_data_vintage = to_float (20 / 100)"
definition w_data_coverage :: pyfloat where "w_data_coverage = to_float (25 / 100)"
definition w_input_completeness :: pyfloat where "w_input_completeness = to_float (25 / 100)"

definition geographic_precision_scores :: "(string \<times> pyfloat) list" where
  "geographic_precision_scores = [(''block_group'', Fin 100), (''tract'', Fin 75), (''zcta'', Fin 50),
     (''county'', Fin 25), (''unknown'', Fin 0)]"

definition data_vintage_scores :: "(int \<times> pyfloat) list" where
  "data_vintage_scores = [(0, Fin 100), (1, Fin 100), (2, Fin 90), (3, Fin 75), (4, Fin 55)]"

definition data_coverage_levels :: "(string \<times> pyfloat) list" where
  "data_coverage_levels = [(''full'', Fin 100), (''degraded'', Fin 60), (''missing'', Fin 0)]"

definition input_weights :: "(string \<times> pyfloat) list" where
  "input_weights = [(''rent'', to_float (30 / 100)), (''price'', to_float (30 / 100)),
     (''capacity'', to_float (25 / 100)), (''schedule'', to_float (15 / 100))]"

definition input_quality_scores :: "(string \<times> pyfloat) list" where
  "input_quality_scores = [(''user'', Fin 100), (''default'', Fin 50), (''missing'', Fin 0)]"

section \<open>The exact values of the literals\<close>

lemma rnd64_5pct: "rnd64 (1 / 20) = 3602879701896397 / 72057594037927936"
  by (subst rnd64_known [of "1 / 20" "-57" "7205759403792794"]) (simp_all add: pow2_def)

lemma rnd64_10pct: "rnd64 (1 / 10) = 3602879701896397 / 36028797018963968"
  by (subst rnd64_known [of "1 / 10" "-56" "7205759403792794"]) (simp_all add: pow2_def)

lemma rnd64_15pct: "rnd64 (3 / 20) = 5404319552844595 / 36028797018963968"
  by (subst rnd64_known [of "3 / 20" "-55" "5404319552844595"]) (simp_all add: pow2_def)

lemma rnd64_20pct: "rnd64 (1 / 5) = 3602879701896397 / 18014398509481984"
  by (subst rnd64_known [of "1 / 5" "-55" "7205759403792794"]) (simp_all add: pow2_def)

lemma rnd64_30pct: "rnd64 (3 / 10) = 5404319552844595 / 18014398509481984"
  by (subst rnd64_known [of "3 / 10" "-54" "5404319552844595"]) (simp_all add: pow2_def)

lemma rnd64_35pct: "rnd64 (7 / 20) = 3152519739159347 / 9007199254740992"
  by (subst rnd64_known [of "7 / 20" "-54" "6305039478318694"]) (simp_all add: pow2_def)

lemma rnd64_40pct: "rnd64 (2 / 5) = 3602879701896397 / 9007199254740992"
  by (subst rnd64_known [of "2 / 5" "-54" "7205759403792794"]) (simp_all add: pow2_def)

lemma rnd64_45pct: "rnd64 (9 / 20) = 8106479329266893 / 18014398509481984"
  by (subst rnd64_known [of "9 / 20" "-54" "8106479329266893"]) (simp_all add: pow2_def)

lemma rnd64_55pct: "rnd64 (11 / 20) = 2476979795053773 / 4503599627370496"
  by (subst rnd64_known [of "11 / 20" "-53" "4953959590107546"]) (simp_all add: pow2_def)

lemma rnd64_70pct: "rnd64 (7 / 10) = 3152519739159347 / 4503599627370496"
  by (subst rnd64_known [of "7 / 10" "-53" "6305039478318694"]) (simp_all add: pow2_def)

lemma rnd64_quarter: "rnd64 (1 / 4) = 1 / 4"
  by (subst rnd64_known [of "1 / 4" "-54" "4503599627370496"]) (simp_all add: pow2_def)

lemma rnd64_half: "rnd64 (1 / 2) = 1 / 2"
  by (subst rnd64_known [of "1 / 2" "-53" "4503599627370496"]) (simp_all add: pow2_def)

text \<open>Products with 100 and partial sums of the weights, as the engines form them.\<close>

lemma rnd64_weights_1: "rnd64 (90071992547409925 / 2251799813685248) = 40"
  by (subst rnd64_known [of "90071992547409925 / 2251799813685248" "-47" "5629499534213120"]) (simp_all add: pow2_def)

lemma rnd64_weights_2: "rnd64 (3602879701896397 / 9007199254740992) = 3602879701896397 / 9007199254740992"
  by (subst rnd64_known [of "3602879701896397 / 9007199254740992" "-54" "7205759403792794"]) (simp_all add: pow2_def)

lemma rnd64_weights_3: "rnd64 (135107988821114875 / 4503599627370496) = 30"
  by (subst rnd64_known [of "135107988821114875 / 4503599627370496" "-48" "8444249301319680"]) (simp_all add: pow2_def)

lemma rnd64_weights_4: "rnd64 (12610078956637389 / 18014398509481984) = 3152519739159347 / 4503599627370496"
  by (subst rnd64_known [of "12610078956637389 / 18014398509481984" "-53" "6305039478318694"]) (simp_all add: pow2_def)

lemma rnd64_weights_5: "rnd64 (90071992547409925 / 4503599627370496) = 20"
  by (subst rnd64_known [of "90071992547409925 / 4503599627370496" "-48" "5629499534213120"]) (simp_all add: pow2_def)

lemma rnd64_weights_6: "rnd64 (16212958658533785 / 18014398509481984) = 2026619832316723 / 2251799813685248"
  by (subst rnd64_known [of "16212958658533785 / 18014398509481984" "-53" "8106479329266892"]) (simp_all add: pow2_def)

lemma rnd64_weights_7: "rnd64 (90071992547409925 / 9007199254740992) = 10"
  by (subst rnd64_known [of "90071992547409925 / 9007199254740992" "-49" "5629499534213120"]) (simp_all add: pow2_def)

lemma rnd64_weights_8: "rnd64 (36028797018963965 / 36028797018963968) = 9007199254740991 / 9007199254740992"
  by (subst rnd64_known [of "36028797018963965 / 36028797018963968" "-53" "9007199254740991"]) (simp_all add: pow2_def)

lemma rnd64_weights_9: "rnd64 (8106479329266893 / 18014398509481984) = 8106479329266893 / 18014398509481984"
  by (subst rnd64_known [of "8106479329266893 / 18014398509481984" "-54" "8106479329266893"]) (simp_all add: pow2_def)

lemma rnd64_weights_10: "rnd64 (3 / 4) = 3 / 4"
  by (subst rnd64_known [of "3 / 4" "-53" "6755399441055744"]) (simp_all add: pow2_def)

lemma rnd64_weights_11: "rnd64 (5404319552844595 / 18014398509481984) = 5404319552844595 / 18014398509481984"
  by (subst rnd64_known [of "5404319552844595 / 18014398509481984" "-54" "5404319552844595"]) (simp_all add: pow2_def)

lemma rnd64_weights_12: "rnd64 (135107988821114875 / 9007199254740992) = 15"
  by (subst rnd64_known [of "135107988821114875 / 9007199254740992" "-49" "8444249301319680"]) (simp_all add: pow2_def)

lemma rnd64_weights_13: "rnd64 (16212958658533785 / 36028797018963968) = 2026619832316723 / 4503599627370496"
  by (subst rnd64_known [of "16212958658533785 / 36028797018963968" "-54" "8106479329266892"]) (simp_all add: pow2_def)

lemma rnd64_weights_14: "rnd64 (13510798882111487 / 18014398509481984) = 3 / 4"
  by (subst rnd64_known [of "13510798882111487 / 18014398509481984" "-53" "6755399441055744"]) (simp_all add: pow2_def)

lemma rnd64_weights_15: "rnd64 (3602879701896397 / 18014398509481984) = 3602879701896397 / 18014398509481984"
  by (subst rnd64_known [of "3602879701896397 / 18014398509481984" "-55" "7205759403792794"]) (simp_all add: pow2_def)

lemma rnd64_weights_16: "rnd64 (5854679515581645 / 9007199254740992) = 5854679515581645 / 9007199254740992"
  by (subst rnd64_known [of "5854679515581645 / 9007199254740992" "-53" "5854679515581645"]) (simp_all add: pow2_def)

lemma rnd64_weights_17: "rnd64 (78812993478983675 / 2251799813685248) = 35"
  by (subst rnd64_known [of "78812993478983675 / 2251799813685248" "-47" "4925812092436480"]) (simp_all add: pow2_def)

lemma rnd64_tolerance_1: "rnd64 (1 / 1000000000) = 4835703278458517 / 4835703278458516698824704"
  by (subst rnd64_known [of "1 / 1000000000" "-82" "4835703278458517"]) (simp_all add: pow2_def)

lemma rnd64_433_1: "rnd64 (433 / 100) = 2437573298314281 / 562949953421312"
  by (subst rnd64_known [of "433 / 100" "-50" "4875146596628562"]) (simp_all add: pow2_def)

lemma rnd64_ulp: "rnd64 (1 / 9007199254740992) = 1 / 9007199254740992"
  by (subst rnd64_known [of "1 / 9007199254740992" "-105" "4503599627370496"]) (simp_all add: pow2_def)

lemma rnd64_5pct_fix: "rnd64 (3602879701896397 / 72057594037927936) = 3602879701896397 / 72057594037927936"
  by (subst rnd64_known [of "3602879701896397 / 72057594037927936" "-57" "7205759403792794"]) (simp_all add: pow2_def)

lemma rnd64_10pct_fix: "rnd64 (3602879701896397 / 36028797018963968) = 3602879701896397 / 36028797018963968"
  by (subst rnd64_known [of "3602879701896397 / 36028797018963968" "-56" "7205759403792794"]) (simp_all add: pow2_def)

lemma rnd64_15pct_fix: "rnd64 (5404319552844595 / 36028797018963968) = 5404319552844595 / 36028797018963968"
  by (subst rnd64_known [of "5404319552844595 / 36028797018963968" "-55" "5404319552844595"]) (simp_all add: pow2_def)

lemma rnd64_35pct_fix: "rnd64 (3152519739159347 / 9007199254740992) = 3152519739159347 / 9007199254740992"
  by (subst rnd64_known [of "3152519739159347 / 9007199254740992" "-54" "6305039478318694"]) (simp_all add: pow2_def)

lemma rnd64_55pct_fix: "rnd64 (2476979795053773 / 4503599627370496) = 2476979795053773 / 4503599627370496"
  by (subst rnd64_known [of "2476979795053773 / 4503599627370496" "-53" "4953959590107546"]) (simp_all add: pow2_def)

lemma rnd64_70pct_fix: "rnd64 (3152519739159347 / 4503599627370496) = 3152519739159347 / 4503599627370496"
  by (subst rnd64_known [of "3152519739159347 / 4503599627370496" "-53" "6305039478318694"]) (simp_all add: pow2_def)

lemmas rnd64_literals = rnd64_ulp rnd64_5pct_fix rnd64_10pct_fix rnd64_15pct_fix rnd64_35pct_fix rnd64_55pct_fix rnd64_70pct_fix rnd64_5pct rnd64_10pct rnd64_15pct rnd64_20pct rnd64_30pct rnd64_35pct rnd64_40pct rnd64_45pct rnd64_55pct rnd64_70pct rnd64_quarter rnd64_half
  rnd64_weights_1 rnd64_weights_2 rnd64_weights_3 rnd64_weights_4 rnd64_weights_5 rnd64_weights_6 rnd64_weights_7 rnd64_weights_8 rnd64_weights_9 rnd64_weights_10 rnd64_weights_11 rnd64_weights_12 rnd64_weights_13 rnd64_weights_14 rnd64_weights_15 rnd64_weights_16 rnd64_weights_17 rnd64_tolerance_1 rnd64_433_1

declare rnd64_literals [float_intro]

end
