(* ===== verification/CoreSchemas.thy ===== *)
theory CoreSchemas
  imports CoreConfig
begin

text \<open>
  The validated dataclasses of \<open>sitescore-core\<close> (\<open>schemas/*.py\<close>). A dataclass is a record, its
  \<open>__post_init__\<close> a function that returns the record or the exception raised, with the checks
  in the order of the code. Python compares an \<open>int\<close> with a \<open>float\<close> exactly, so a bound
  written with an \<open>int\<close> literal is the float of the same value. A comparison with a NaN is
  false, so the checks of the form \<open>value < 0\<close> let a NaN through, as in the code.
\<close>

section \<open>Revenue inputs\<close>

text \<open>The checks shared by the scenario rates: each in the unit interval, and in order.\<close>

definition unit_range :: "pyfloat \<Rightarrow> bool" where
  "unit_range v = (fle (Fin 0) v \<and> fle v (Fin 1))"

definition ordered3 :: "pyfloat \<Rightarrow> pyfloat \<Rightarrow> pyfloat \<Rightarrow> bool" where
  "ordered3 c b o3 = (fle c b \<and> fle b o3)"

record coffee_input =
  cof_target_population :: pyfloat
  cof_target_rate :: pyfloat
  cof_capture_rate_conservative :: pyfloat
  cof_capture_rate_base :: pyfloat
  cof_capture_rate_optimistic :: pyfloat
  cof_visit_frequency_per_month :: pyfloat
  cof_average_ticket :: pyfloat

definition coffee_post_init :: "coffee_input \<Rightarrow> (py_error, coffee_input) result" where
  "coffee_post_init r = (
     if flt (cof_target_population r) (Fin 0) then Inl (ValueError ''target_population cannot be negative'')
     else if \<not> unit_range (cof_target_rate r) then Inl (ValueError ''target_rate must be between 0 and 1'')
     else if \<not> list_all unit_range [cof_capture_rate_conservative r, cof_capture_rate_base r, cof_capture_rate_optimistic r] then Inl (ValueError ''capture rates must be between 0 and 1'')
     else if \<not> ordered3 (cof_capture_rate_conservative r) (cof_capture_rate_base r) (cof_capture_rate_optimistic r) then Inl (ValueError ''capture rates must satisfy conservative <= base <= optimistic'')
     else if flt (cof_visit_frequency_per_month r) (Fin 0) then Inl (ValueError ''visit_frequency_per_month cannot be negative'')
     else if fle (cof_average_ticket r) (Fin 0) then Inl (ValueError ''average_ticket must be greater than zero'')
     else Inr r)"

record restaurant_input =
  res_seats :: int
  res_turnover_per_day :: pyfloat
  res_utilization_conservative :: pyfloat
  res_utilization_base :: pyfloat
  res_utilization_optimistic :: pyfloat
  res_average_ticket :: pyfloat
  res_operating_days_per_month :: int

definition restaurant_post_init :: "restaurant_input \<Rightarrow> (py_error, restaurant_input) result" where
  "restaurant_post_init r = (
     if res_seats r \<le> 0 then Inl (ValueError ''seats must be greater than zero'')
     else if flt (res_turnover_per_day r) (Fin 0) then Inl (ValueError ''turnover_per_day cannot be negative'')
     else if \<not> list_all unit_range [res_utilization_conservative r, res_utilization_base r, res_utilization_optimistic r] then Inl (ValueError ''utilization must be between 0 and 1'')
     else if \<not> ordered3 (res_utilization_conservative r) (res_utilization_base r) (res_utilization_optimistic r) then Inl (ValueError ''utilization must satisfy conservative <= base <= optimistic'')
     else if fle (res_average_ticket r) (Fin 0) then Inl (ValueError ''average_ticket must be greater than zero'')
     else if res_operating_days_per_month r \<le> 0 then Inl (ValueError ''operating_days_per_month must be greater than zero'')
     else Inr r)"

record gym_input =
  gym_target_population :: pyfloat
  gym_penetration_rate_conservative :: pyfloat
  gym_penetration_rate_base :: pyfloat
  gym_penetration_rate_optimistic :: pyfloat
  gym_usable_area :: pyfloat
  gym_members_per_area_unit :: pyfloat
  gym_monthly_membership_fee :: pyfloat

definition gym_post_init :: "gym_input \<Rightarrow> (py_error, gym_input) result" where
  "gym_post_init r = (
     if flt (gym_target_population r) (Fin 0) then Inl (ValueError ''target_population cannot be negative'')
     else if \<not> list_all unit_range [gym_penetration_rate_conservative r, gym_penetration_rate_base r, gym_penetration_rate_optimistic r] then Inl (ValueError ''penetration rates must be between 0 and 1'')
     else if \<not> ordered3 (gym_penetration_rate_conservative r) (gym_penetration_rate_base r) (gym_penetration_rate_optimistic r) then Inl (ValueError ''penetration rates must satisfy conservative <= base <= optimistic'')
     else if fle (gym_usable_area r) (Fin 0) then Inl (ValueError ''usable_area must be greater than zero'')
     else if fle (gym_members_per_area_unit r) (Fin 0) then Inl (ValueError ''members_per_area_unit must be greater than zero'')
     else if fle (gym_monthly_membership_fee r) (Fin 0) then Inl (ValueError ''monthly_membership_fee must be greater than zero'')
     else Inr r)"

record beauty_input =
  bty_stations :: int
  bty_operating_hours_per_week :: pyfloat
  bty_average_service_duration_hours :: pyfloat
  bty_utilization_conservative :: pyfloat
  bty_utilization_base :: pyfloat
  bty_utilization_optimistic :: pyfloat
  bty_average_ticket :: pyfloat

definition beauty_post_init :: "beauty_input \<Rightarrow> (py_error, beauty_input) result" where
  "beauty_post_init r = (
     if bty_stations r \<le> 0 then Inl (ValueError ''stations must be greater than zero'')
     else if fle (bty_operating_hours_per_week r) (Fin 0) then Inl (ValueError ''operating_hours_per_week must be greater than zero'')
     else if fle (bty_average_service_duration_hours r) (Fin 0) then Inl (ValueError ''average_service_duration_hours must be greater than zero'')
     else if \<not> list_all unit_range [bty_utilization_conservative r, bty_utilization_base r, bty_utilization_optimistic r] then Inl (ValueError ''utilization must be between 0 and 1'')
     else if \<not> ordered3 (bty_utilization_conservative r) (bty_utilization_base r) (bty_utilization_optimistic r) then Inl (ValueError ''utilization must satisfy conservative <= base <= optimistic'')
     else if fle (bty_average_ticket r) (Fin 0) then Inl (ValueError ''average_ticket must be greater than zero'')
     else Inr r)"

datatype revenue_input =
    Coffee_Input coffee_input
  | Restaurant_Input restaurant_input
  | Gym_Input gym_input
  | Beauty_Input beauty_input

text \<open>The \<open>expected_type\<close> of a sector.\<close>

fun sector_input_type :: "sector \<Rightarrow> revenue_input \<Rightarrow> bool" where
  "sector_input_type Coffee (Coffee_Input _) = True"
| "sector_input_type Restaurant (Restaurant_Input _) = True"
| "sector_input_type Gym (Gym_Input _) = True"
| "sector_input_type Beauty (Beauty_Input _) = True"
| "sector_input_type _ _ = False"

section \<open>Results of the engines\<close>

record revenue_scenarios =
  conservative :: pyfloat
  base :: pyfloat
  optimistic :: pyfloat

definition revenue_scenarios_post_init ::
  "pyfloat \<Rightarrow> pyfloat \<Rightarrow> pyfloat \<Rightarrow> (py_error, revenue_scenarios) result" where
  "revenue_scenarios_post_init c b o3 = (
     if flt (fmin c [b, o3]) (Fin 0) then Inl (ValueError ''Revenue scenarios cannot be negative'')
     else if \<not> (fle c b \<and> fle b o3)
     then Inl (ValueError ''Revenue scenarios must satisfy conservative <= base <= optimistic'')
     else Inr \<lparr>conservative = c, base = b, optimistic = o3\<rparr>)"

record financial_result =
  fin_revenue :: revenue_scenarios
  variable_cost_base :: pyfloat
  contribution_margin_base :: pyfloat
  fixed_costs :: pyfloat
  operating_profit_base :: pyfloat
  break_even_revenue :: pyfloat
  bec_base :: pyfloat
  bec_conservative :: pyfloat
  rent_burden_pct :: pyfloat
  rent_burden_severity :: string
  operating_margin_pct :: pyfloat
  break_even_volume :: "pyfloat option"
  stress_test_failed :: bool

definition bounded :: "pyfloat \<Rightarrow> (py_error, pyfloat) result" where
  "bounded v = (if \<not> (fle (Fin 0) v \<and> fle v (Fin 100))
     then Inl (ValueError ''must be between 0.0 and 100.0'') else Inr v)"

record category_scores =
  demand :: pyfloat
  competition :: pyfloat
  accessibility :: pyfloat
  economics :: pyfloat

definition category_scores_post_init ::
  "pyfloat \<Rightarrow> pyfloat \<Rightarrow> pyfloat \<Rightarrow> pyfloat \<Rightarrow> (py_error, category_scores) result" where
  "category_scores_post_init d c a e =
     rbind (bounded d) (\<lambda>d. rbind (bounded c) (\<lambda>c. rbind (bounded a) (\<lambda>a. rbind (bounded e) (\<lambda>e.
       Inr \<lparr>demand = d, competition = c, accessibility = a, economics = e\<rparr>))))"

fun score_of :: "category_scores \<Rightarrow> category \<Rightarrow> pyfloat" where
  "score_of s Demand = demand s"
| "score_of s Competition = competition s"
| "score_of s Accessibility = accessibility s"
| "score_of s Economics = economics s"

record location_result =
  base_score :: pyfloat
  penalty_multiplier :: pyfloat
  final_score :: pyfloat
  structural_band :: string
  dominant_risk_category :: "string option"

record confidence_result =
  overall_score :: pyfloat
  label :: string
  geographic_precision :: pyfloat
  data_vintage :: pyfloat
  data_coverage :: pyfloat
  input_completeness :: pyfloat

record decision_result =
  decision_class :: string
  dec_structural_band :: string
  financial_band :: string
  headline :: string
  risk_flags :: "string list"

record model_versions =
  package_version :: string
  canonical_schema_version :: string
  feature_schema_version :: string
  scoring_model_version :: string
  financial_model_version :: string
  decision_model_version :: string
  confidence_model_version :: string

definition current_model_versions :: model_versions where
  "current_model_versions = \<lparr>package_version = ''0.1.0'', canonical_schema_version = ''1.0'',
     feature_schema_version = ''1.0'', scoring_model_version = ''1.0'',
     financial_model_version = ''1.0'', decision_model_version = ''1.0'',
     confidence_model_version = ''1.0''\<rparr>"

record canonical_result =
  analysis_fingerprint :: string
  result_versions :: model_versions
  location :: location_result
  financial :: financial_result
  decision :: decision_result
  confidence :: confidence_result

section \<open>The analysis input\<close>

text \<open>
  The dictionaries of the input are association lists with distinct keys. The enum-typed fields
  are datatypes, so the \<open>isinstance\<close> checks on them have nothing to reject; the check that the
  revenue input is the one of the sector remains.
\<close>

record analysis_input =
  in_sector :: sector
  in_category_scores :: category_scores
  in_revenue :: revenue_input
  monthly_rent :: pyfloat
  fixed_labor :: pyfloat
  fixed_overhead :: pyfloat
  in_geographic_level :: geographic_level
  data_age_years :: "int option"
  in_data_coverage :: "(string \<times> coverage_level) list"
  in_input_qualities :: "(string \<times> input_quality) list"

definition required_categories :: "string list" where
  "required_categories = [''demand'', ''competition'', ''accessibility'', ''economics'']"

definition required_inputs :: "string list" where
  "required_inputs = [''rent'', ''price'', ''capacity'', ''schedule'']"

definition analysis_post_init :: "analysis_input \<Rightarrow> (py_error, analysis_input) result" where
  "analysis_post_init r = (
     if \<not> sector_input_type (in_sector r) (in_revenue r)
     then Inl (TypeError ''sector requires its own revenue input type'')
     else if flt (monthly_rent r) (Fin 0) then Inl (ValueError ''monthly_rent cannot be negative'')
     else if flt (fixed_labor r) (Fin 0) then Inl (ValueError ''fixed_labor cannot be negative'')
     else if flt (fixed_overhead r) (Fin 0) then Inl (ValueError ''fixed_overhead cannot be negative'')
     else if (case data_age_years r of None \<Rightarrow> False | Some a \<Rightarrow> a < 0)
     then Inl (ValueError ''data_age_years cannot be negative'')
     else if \<not> list_all (\<lambda>k. k \<in> set required_categories) (map fst (in_data_coverage r))
     then Inl (ValueError ''Unknown data coverage categories'')
     else if \<not> list_all (\<lambda>k. k \<in> set required_inputs) (map fst (in_input_qualities r))
     then Inl (ValueError ''Unknown input quality fields'')
     else Inr r)"

section \<open>What validation establishes\<close>

lemma unit_range_iff: "unit_range v \<longleftrightarrow> (\<exists>q. v = Fin q \<and> 0 \<le> q \<and> q \<le> 1)"
  by (cases v) (auto simp: unit_range_def fle_def flt_def)

lemma bounded_Inr_iff: "bounded v = Inr w \<longleftrightarrow> w = v \<and> (\<exists>q. v = Fin q \<and> 0 \<le> q \<and> q \<le> 100)"
  by (cases v) (auto simp: bounded_def fle_def flt_def)

definition scores_ok :: "category_scores \<Rightarrow> bool" where
  "scores_ok s = (\<forall>c. bounded (score_of s c) = Inr (score_of s c))"

lemma scores_okD: "scores_ok s \<Longrightarrow> \<exists>q. score_of s c = Fin q \<and> 0 \<le> q \<and> q \<le> 100"
  by (auto simp: scores_ok_def bounded_Inr_iff)

text \<open>A \<open>CategoryScores\<close> exists only with its scores in range, and its fields are its arguments.\<close>

lemma category_scores_post_init_iff:
  "category_scores_post_init d c a e = Inr s \<longleftrightarrow>
   s = \<lparr>demand = d, competition = c, accessibility = a, economics = e\<rparr> \<and> scores_ok s"
proof -
  have all: "(\<forall>c. P c) = (P Demand \<and> P Competition \<and> P Accessibility \<and> P Economics)" for P
    using category.exhaust by metis
  have "category_scores_post_init d c a e = Inr s \<longleftrightarrow>
    bounded d = Inr d \<and> bounded c = Inr c \<and> bounded a = Inr a \<and> bounded e = Inr e \<and>
    s = \<lparr>demand = d, competition = c, accessibility = a, economics = e\<rparr>"
    by (auto simp: category_scores_post_init_def rbind_Inr_iff bounded_def split: if_splits)
  then show ?thesis by (auto simp: scores_ok_def all)
qed

lemma revenue_scenarios_post_init_ordered:
  "revenue_scenarios_post_init c b o3 = Inr r \<Longrightarrow>
   r = \<lparr>conservative = c, base = b, optimistic = o3\<rparr> \<and> fle (Fin 0) c \<and> fle c b \<and> fle b o3"
  by (cases c; cases b; cases o3)
     (auto simp: revenue_scenarios_post_init_def fmin_def fle_def flt_def split: if_splits)

lemma revenue_scenarios_post_init_total:
  "fle (Fin 0) c \<Longrightarrow> fle c b \<Longrightarrow> fle b o3 \<Longrightarrow>
   revenue_scenarios_post_init c b o3 = Inr \<lparr>conservative = c, base = b, optimistic = o3\<rparr>"
  by (cases c; cases b; cases o3)
     (auto simp: revenue_scenarios_post_init_def fmin_def fle_def flt_def split: if_splits)

end
