(* ===== verification/CoreEngines.thy ===== *)
theory CoreEngines
  imports CoreSchemas
begin

text \<open>
  The engines of \<open>sitescore-core\<close> (\<open>engines/*.py\<close>) as functions over Python floats: weighted
  category scores, the dealbreaker penalty, the location score, costs, the financial metrics,
  the decision matrix, the confidence score and the sector revenue models. Every \<open>raise\<close> of
  the code is a branch of the model. The lemmas bound each result, show that the engines are
  monotone although every operation rounds, and say which inputs can raise.
\<close>

section \<open>Weighted scores and percentiles\<close>

definition weighted_score ::
  "(string \<times> pyfloat) list \<Rightarrow> (string \<times> pyfloat) list \<Rightarrow> (py_error, pyfloat) result" where
  "weighted_score features weights = (
     if set (map fst features) \<noteq> set (map fst weights)
     then Inl (ValueError ''feature/weight mismatch'')
     else if flt (to_float (1 / 1000000000)) (fabs (fsub (fsum (map snd weights)) (Fin 1)))
     then Inl (ValueError ''weights must sum to 1.0'')
     else if \<not> list_all (\<lambda>v. fle (Fin 0) v \<and> fle v (Fin 100)) (map snd features)
     then Inl (ValueError ''must be in [0, 100]'')
     else Inr (fsum (map (\<lambda>(name, w). fmul (the (map_of features name)) w) weights)))"

definition percentile_to_score :: "pyfloat \<Rightarrow> (py_error, pyfloat) result" where
  "percentile_to_score p = (if \<not> (fle (Fin 0) p \<and> fle p (Fin 100))
     then Inl (ValueError ''percentile must be in [0, 100]'') else Inr p)"

section \<open>The dealbreaker penalty and the location score\<close>

definition calculate_penalty :: "pyfloat \<Rightarrow> pyfloat \<Rightarrow> pyfloat \<Rightarrow> (py_error, pyfloat) result" where
  "calculate_penalty score thr maxp = (
     if \<not> (fle (Fin 0) score \<and> fle score (Fin 100)) then Inl (ValueError ''score must be in [0, 100]'')
     else if flt thr (Fin 0) then Inl (ValueError ''threshold cannot be negative'')
     else if \<not> (fle (Fin 0) maxp \<and> fle maxp (Fin 1)) then Inl (ValueError ''max_penalty must be in [0, 1]'')
     else if feq thr (Fin 0) \<or> fle thr score then Inr (Fin 1)
     else rbind (arith (fdiv (fsub thr score) thr)) (\<lambda>deficit_ratio.
          rbind (arith (fpow2 deficit_ratio)) (\<lambda>sq.
            Inr (fsub (Fin 1) (fmul maxp sq)))))"

definition structural_band_of :: "pyfloat \<Rightarrow> string" where
  "structural_band_of score = (
     if fle location_strong_min score then ''strong''
     else if fle location_conditional_min score then ''conditional''
     else ''weak'')"

text \<open>\<open>min(penalties, key=penalties.get)\<close>: the first category with the smallest multiplier.\<close>

definition dominant_of :: "(category \<times> pyfloat) \<Rightarrow> (category \<times> pyfloat) list \<Rightarrow> category \<times> pyfloat" where
  "dominant_of p ps = foldl (\<lambda>best q. if flt (snd q) (snd best) then q else best) p ps"

definition calculate_location_score :: "sector \<Rightarrow> category_scores \<Rightarrow> (py_error, location_result) result" where
  "calculate_location_score sec scores = (
     if flt (to_float (1 / 1000000000)) (fabs (fsub (fsum (map (category_weight sec) categories)) (Fin 1)))
     then Inl (ValueError ''Category weights must sum to 1.0'')
     else
       let bs = fsum (map (\<lambda>c. fmul (category_weight sec c) (score_of scores c)) categories) in
       rbind (rmap (\<lambda>c. rbind (calculate_penalty (score_of scores c) (threshold (get_rule sec c))
                 (max_penalty (get_rule sec c))) (\<lambda>p. Inr (c, p))) categories) (\<lambda>penalties.
       let (dominant, final_multiplier) = dominant_of (hd penalties) (tl penalties);
           fs = fmul bs final_multiplier in
       Inr \<lparr>base_score = fround6 bs,
            penalty_multiplier = fround6 final_multiplier,
            final_score = fround6 fs,
            structural_band = structural_band_of fs,
            dominant_risk_category =
              (if feq final_multiplier (Fin 1) then None else Some (category_value dominant))\<rparr>))"

section \<open>Costs and financial metrics\<close>

definition calculate_variable_cost :: "pyfloat \<Rightarrow> pyfloat \<Rightarrow> (py_error, pyfloat) result" where
  "calculate_variable_cost revenue ratio = (
     if flt revenue (Fin 0) then Inl (ValueError ''revenue cannot be negative'')
     else if \<not> (fle (Fin 0) ratio \<and> flt ratio (Fin 1))
     then Inl (ValueError ''variable_cost_ratio must be in [0, 1)'')
     else Inr (fmul revenue ratio))"

definition calculate_fixed_costs :: "pyfloat \<Rightarrow> pyfloat \<Rightarrow> pyfloat \<Rightarrow> (py_error, pyfloat) result" where
  "calculate_fixed_costs rent labor overhead = (
     if flt (fmin rent [labor, overhead]) (Fin 0)
     then Inl (ValueError ''fixed costs cannot be negative'')
     else Inr (fadd (fadd rent labor) overhead))"

definition calculate_break_even_revenue :: "pyfloat \<Rightarrow> pyfloat \<Rightarrow> (py_error, pyfloat) result" where
  "calculate_break_even_revenue fixed ratio = (
     if flt fixed (Fin 0) then Inl (ValueError ''fixed_costs cannot be negative'')
     else if \<not> (flt (Fin 0) ratio \<and> fle ratio (Fin 1))
     then Inl (ValueError ''contribution_margin_ratio must be in (0, 1]'')
     else arith (fdiv fixed ratio))"

definition rent_severity :: "pyfloat \<Rightarrow> pyfloat \<Rightarrow> string" where
  "rent_severity rbi warn = (
     if fle rbi warn then ''normal''
     else if fle rbi (fmul warn (Fin (125 / 100))) then ''elevated''
     else ''severe'')"

text \<open>\<open>float("inf") if x == 0 else numerator / x\<close>\<close>

definition coverage_ratio :: "pyfloat \<Rightarrow> pyfloat \<Rightarrow> (py_error, pyfloat) result" where
  "coverage_ratio numerator break_even = (
     if feq break_even (Fin 0) then Inr PInf else arith (fdiv numerator break_even))"

definition percent_of :: "pyfloat \<Rightarrow> pyfloat \<Rightarrow> (py_error, pyfloat) result" where
  "percent_of part whole = rbind (arith (fdiv part whole)) (\<lambda>r. Inr (fmul r (Fin 100)))"

definition calculate_financial_metrics ::
  "sector \<Rightarrow> revenue_scenarios \<Rightarrow> pyfloat \<Rightarrow> pyfloat \<Rightarrow> pyfloat \<Rightarrow> pyfloat option
   \<Rightarrow> (py_error, financial_result) result" where
  "calculate_financial_metrics sec revenue rent labor overhead unit_price = (
     let prior = financial_priors sec;
         vcr = variable_cost_ratio prior;
         cmr = fsub (Fin 1) vcr in
     rbind (calculate_fixed_costs rent labor overhead) (\<lambda>fixed.
     rbind (calculate_variable_cost (base revenue) vcr) (\<lambda>vcost.
     let margin = fsub (base revenue) vcost;
         profit = fsub margin fixed in
     rbind (calculate_break_even_revenue fixed cmr) (\<lambda>be.
     rbind (coverage_ratio (base revenue) be) (\<lambda>bec.
     rbind (coverage_ratio (conservative revenue) be) (\<lambda>becc.
     rbind (if feq (base revenue) (Fin 0) \<and> feq rent (Fin 0) then Inr (Fin 0)
            else if feq (base revenue) (Fin 0) then Inr PInf
            else percent_of rent (base revenue)) (\<lambda>rbi.
     rbind (if feq (base revenue) (Fin 0) then Inr (Fin 0)
            else percent_of profit (base revenue)) (\<lambda>opm.
     rbind (case unit_price of None \<Rightarrow> Inr None
            | Some up \<Rightarrow> (if fle up (Fin 0) then Inl (ValueError ''unit_price must be > 0'')
                 else rbind (arith (fdiv be up)) (\<lambda>v. Inr (Some v)))) (\<lambda>volume.
     Inr \<lparr>fin_revenue = revenue,
          variable_cost_base = fround6 vcost,
          contribution_margin_base = fround6 margin,
          fixed_costs = fround6 fixed,
          operating_profit_base = fround6 profit,
          break_even_revenue = fround6 be,
          bec_base = fround6 bec,
          bec_conservative = fround6 becc,
          rent_burden_pct = fround6 rbi,
          rent_burden_severity = rent_severity rbi (rent_burden_warning_pct prior),
          operating_margin_pct = fround6 opm,
          break_even_volume = map_option fround6 volume,
          stress_test_failed = flt becc (Fin 1)\<rparr>)))))))))"

section \<open>The decision matrix\<close>

definition financial_band_of :: "pyfloat \<Rightarrow> string" where
  "financial_band_of bec = (
     if fle bec_strong_min bec then ''strong''
     else if fle bec_thin_min bec then ''thin''
     else ''non_viable'')"

definition decision_cell :: "pyfloat \<Rightarrow> pyfloat \<Rightarrow> string \<times> string" where
  "decision_cell score bec = (
     if fle location_strong_min score then
       (if fle bec_strong_min bec then (''prime_opportunity'', ''Strong Location / Strong Economics'')
        else if fle bec_thin_min bec
        then (''strong_site_thin_economics'', ''Strong Location / Thin Economics'')
        else (''tourist_trap'', ''Strong Location / Toxic Economics''))
     else if fle location_conditional_min score then
       (if fle bec_strong_min bec then (''hidden_gem'', ''Conditional Location / Strong Economics'')
        else if fle bec_thin_min bec then (''conditional_site'', ''Conditional Location / Thin Economics'')
        else (''weak_site_weak_economics'', ''Conditional Location / Weak Economics''))
     else
       (if fle bec_thin_min bec then (''structural_risk'', ''Weak Location / Financially Viable'')
        else (''dead_end'', ''Weak Location / Weak Economics'')))"

definition risk_flags_of :: "financial_result \<Rightarrow> string list" where
  "risk_flags_of f =
     (if rent_burden_severity f = ''elevated'' then [''HIGH_RENT_BURDEN'']
      else if rent_burden_severity f = ''severe'' then [''SEVERE_RENT_BURDEN''] else [])
     @ (if stress_test_failed f then [''STRESS_TEST_FAILED''] else [])
     @ (if flt (operating_margin_pct f) (Fin 0) then [''NEGATIVE_BASE_OPERATING_MARGIN''] else [])"

definition calculate_decision :: "location_result \<Rightarrow> financial_result \<Rightarrow> decision_result" where
  "calculate_decision loc f =
     \<lparr>decision_class = fst (decision_cell (final_score loc) (bec_base f)),
      dec_structural_band = structural_band loc,
      financial_band = financial_band_of (bec_base f),
      headline = snd (decision_cell (final_score loc) (bec_base f)),
      risk_flags = risk_flags_of f\<rparr>"

section \<open>Confidence\<close>

definition get_or :: "'v \<Rightarrow> 'k \<Rightarrow> ('k \<times> 'v) list \<Rightarrow> 'v" where
  "get_or d k m = (case map_of m k of Some v \<Rightarrow> v | None \<Rightarrow> d)"

definition geographic_precision_score :: "string \<Rightarrow> pyfloat" where
  "geographic_precision_score level = get_or (Fin 0) level geographic_precision_scores"

definition data_vintage_score :: "int option \<Rightarrow> pyfloat" where
  "data_vintage_score age = (case age of None \<Rightarrow> Fin 0
     | Some a \<Rightarrow> if a < 0 then Fin 0 else if 5 \<le> a then Fin 30
         else the (map_of data_vintage_scores a))"

fun sum_levels ::
  "('k \<times> pyfloat) list \<Rightarrow> ('k \<Rightarrow> string) \<Rightarrow> (string \<times> pyfloat) list \<Rightarrow> string \<Rightarrow> pyfloat
   \<Rightarrow> (py_error, pyfloat) result" where
  "sum_levels [] level table err acc = Inr acc"
| "sum_levels ((k, w) # ws) level table err acc =
     (case map_of table (level k) of None \<Rightarrow> Inl (ValueError err)
      | Some s \<Rightarrow> sum_levels ws level table err (fadd acc (fmul w s)))"

definition data_coverage_score :: "sector \<Rightarrow> (string \<times> string) list \<Rightarrow> (py_error, pyfloat) result" where
  "data_coverage_score sec coverage =
     sum_levels (map (\<lambda>c. (c, category_weight sec c)) categories)
       (\<lambda>c. get_or ''missing'' (category_value c) coverage) data_coverage_levels
       ''Unknown coverage level'' (Fin 0)"

definition input_completeness_score :: "(string \<times> string) list \<Rightarrow> (py_error, pyfloat) result" where
  "input_completeness_score qualities =
     sum_levels input_weights (\<lambda>name. get_or ''missing'' name qualities) input_quality_scores
       ''Unknown input quality'' (Fin 0)"

definition confidence_label :: "pyfloat \<Rightarrow> string" where
  "confidence_label score = (
     if fle (Fin 85) score then ''high''
     else if fle (Fin 70) score then ''moderate''
     else if fle (Fin 50) score then ''limited''
     else ''low'')"

definition calculate_confidence ::
  "sector \<Rightarrow> string \<Rightarrow> int option \<Rightarrow> (string \<times> string) list \<Rightarrow> (string \<times> string) list
   \<Rightarrow> (py_error, confidence_result) result" where
  "calculate_confidence sec level age coverage qualities = (
     let g = geographic_precision_score level;
         v = data_vintage_score age in
     rbind (data_coverage_score sec coverage) (\<lambda>c.
     rbind (input_completeness_score qualities) (\<lambda>i.
     let overall = fadd (fadd (fadd (fmul w_geographic_precision g) (fmul w_data_vintage v))
                          (fmul w_data_coverage c)) (fmul w_input_completeness i) in
     Inr \<lparr>overall_score = fround6 overall,
          label = confidence_label overall,
          geographic_precision = g,
          data_vintage = v,
          data_coverage = fround6 c,
          input_completeness = fround6 i\<rparr>)))"

section \<open>Sector revenue\<close>

definition coffee_monthly_revenue ::
  "pyfloat \<Rightarrow> pyfloat \<Rightarrow> pyfloat \<Rightarrow> pyfloat \<Rightarrow> pyfloat \<Rightarrow> (py_error, pyfloat) result" where
  "coffee_monthly_revenue population target_rate capture_rate frequency ticket = (
     if flt (fmin population [target_rate, capture_rate, frequency, ticket]) (Fin 0)
     then Inl (ValueError ''Coffee revenue inputs cannot be negative'')
     else if flt (Fin 1) target_rate \<or> flt (Fin 1) capture_rate
     then Inl (ValueError ''Rates must be decimals between 0 and 1'')
     else Inr (fmul (fmul (fmul (fmul population target_rate) capture_rate) frequency) ticket))"

definition gym_monthly_revenue ::
  "pyfloat \<Rightarrow> pyfloat \<Rightarrow> pyfloat \<Rightarrow> pyfloat \<Rightarrow> pyfloat \<Rightarrow> (py_error, pyfloat) result" where
  "gym_monthly_revenue population penetration area density fee = (
     if flt (fmin population [penetration, area, density, fee]) (Fin 0)
     then Inl (ValueError ''Gym revenue inputs cannot be negative'')
     else if flt (Fin 1) penetration
     then Inl (ValueError ''penetration_rate must be a decimal between 0 and 1'')
     else Inr (fmul (fmin (fmul population penetration) [fmul area density]) fee))"

definition restaurant_monthly_revenue ::
  "pyfloat \<Rightarrow> pyfloat \<Rightarrow> pyfloat \<Rightarrow> pyfloat \<Rightarrow> pyfloat \<Rightarrow> (py_error, pyfloat) result" where
  "restaurant_monthly_revenue seats turnover utilization ticket days = (
     if flt (fmin seats [turnover, utilization, ticket, days]) (Fin 0)
     then Inl (ValueError ''Restaurant revenue inputs cannot be negative'')
     else if flt (Fin 1) utilization
     then Inl (ValueError ''utilization must be a decimal between 0 and 1'')
     else Inr (fmul (fmul (fmul (fmul seats turnover) utilization) ticket) days))"

definition beauty_monthly_revenue ::
  "pyfloat \<Rightarrow> pyfloat \<Rightarrow> pyfloat \<Rightarrow> pyfloat \<Rightarrow> pyfloat \<Rightarrow> pyfloat \<Rightarrow> (py_error, pyfloat) result" where
  "beauty_monthly_revenue stations hours duration utilization ticket weeks = (
     if flt (fmin stations [hours, utilization, ticket, weeks]) (Fin 0)
     then Inl (ValueError ''Beauty revenue inputs cannot be negative'')
     else if fle duration (Fin 0)
     then Inl (ValueError ''average_service_duration_hours must be > 0'')
     else if flt (Fin 1) utilization
     then Inl (ValueError ''utilization must be a decimal between 0 and 1'')
     else rbind (arith (fdiv (fmul stations hours) duration)) (\<lambda>slots.
       Inr (fmul (fmul (fmul slots utilization) ticket) weeks)))"

definition calculate_coffee_revenue :: "coffee_input \<Rightarrow> (py_error, revenue_scenarios) result" where
  "calculate_coffee_revenue d = (
     let scenario = (\<lambda>rate. fmul (fmul (fmul (fmul (cof_target_population d) (cof_target_rate d)) rate)
                              (cof_visit_frequency_per_month d)) (cof_average_ticket d)) in
     revenue_scenarios_post_init (scenario (cof_capture_rate_conservative d))
       (scenario (cof_capture_rate_base d)) (scenario (cof_capture_rate_optimistic d)))"

text \<open>An \<open>int\<close> operand of a float product is converted first, which can overflow.\<close>

definition restaurant_scenario :: "restaurant_input \<Rightarrow> pyfloat \<Rightarrow> (py_error, pyfloat) result" where
  "restaurant_scenario d utilization =
     rbind (arith (int_to_float (res_seats d))) (\<lambda>seats.
     let daily_covers = fmul (fmul seats (res_turnover_per_day d)) utilization in
     rbind (arith (int_to_float (res_operating_days_per_month d))) (\<lambda>days.
       Inr (fmul (fmul daily_covers (res_average_ticket d)) days)))"

definition calculate_restaurant_revenue :: "restaurant_input \<Rightarrow> (py_error, revenue_scenarios) result" where
  "calculate_restaurant_revenue d =
     rbind (restaurant_scenario d (res_utilization_conservative d)) (\<lambda>c.
     rbind (restaurant_scenario d (res_utilization_base d)) (\<lambda>b.
     rbind (restaurant_scenario d (res_utilization_optimistic d)) (\<lambda>o3.
       revenue_scenarios_post_init c b o3)))"

definition calculate_gym_revenue :: "gym_input \<Rightarrow> (py_error, revenue_scenarios) result" where
  "calculate_gym_revenue d = (
     let capacity = fmul (gym_usable_area d) (gym_members_per_area_unit d);
         scenario = (\<lambda>rate. fmul (fmin (fmul (gym_target_population d) rate) [capacity])
                              (gym_monthly_membership_fee d)) in
     revenue_scenarios_post_init (scenario (gym_penetration_rate_conservative d))
       (scenario (gym_penetration_rate_base d)) (scenario (gym_penetration_rate_optimistic d)))"

definition calculate_beauty_revenue :: "beauty_input \<Rightarrow> (py_error, revenue_scenarios) result" where
  "calculate_beauty_revenue d =
     rbind (arith (int_to_float (bty_stations d))) (\<lambda>stations.
     rbind (arith (fdiv (fmul stations (bty_operating_hours_per_week d))
              (bty_average_service_duration_hours d))) (\<lambda>slots.
     let scenario = (\<lambda>u. fmul (fmul (fmul slots u) (bty_average_ticket d)) (to_float (433 / 100))) in
     revenue_scenarios_post_init (scenario (bty_utilization_conservative d))
       (scenario (bty_utilization_base d)) (scenario (bty_utilization_optimistic d))))"

definition calculate_revenue :: "sector \<Rightarrow> revenue_input \<Rightarrow> (py_error, revenue_scenarios) result" where
  "calculate_revenue sec d = (case sec of
     Coffee \<Rightarrow> (case d of Coffee_Input r \<Rightarrow> calculate_coffee_revenue r
       | _ \<Rightarrow> Inl (TypeError ''Coffee sector requires CoffeeRevenueInput''))
   | Restaurant \<Rightarrow> (case d of Restaurant_Input r \<Rightarrow> calculate_restaurant_revenue r
       | _ \<Rightarrow> Inl (TypeError ''Restaurant sector requires RestaurantRevenueInput''))
   | Gym \<Rightarrow> (case d of Gym_Input r \<Rightarrow> calculate_gym_revenue r
       | _ \<Rightarrow> Inl (TypeError ''Gym sector requires GymRevenueInput''))
   | Beauty \<Rightarrow> (case d of Beauty_Input r \<Rightarrow> calculate_beauty_revenue r
       | _ \<Rightarrow> Inl (TypeError ''Beauty sector requires BeautyRevenueInput'')))"

section \<open>The location score\<close>

text \<open>The rational value of a category weight, and of a weighted sum of four category values.\<close>

definition cw :: "sector \<Rightarrow> category \<Rightarrow> rat" where
  "cw sec c = (case category_weight sec c of Fin w \<Rightarrow> w | _ \<Rightarrow> 0)"

lemma category_weight_Fin: "category_weight sec c = Fin (cw sec c)"
  by (cases sec; cases c) (simp_all add: cw_def)

lemma cw_range: "0 \<le> cw sec c" "cw sec c \<le> 1"
  by (cases sec; cases c; simp add: cw_def float_intro)+

text \<open>
  A weighted sum accumulated left to right, rounding every product and every partial sum. It is
  the shape of the base score, of the two completeness scores and of the overall confidence.
\<close>

definition wsum_list :: "(rat \<times> rat) list \<Rightarrow> rat" where
  "wsum_list xs = foldl (\<lambda>acc (w, q). rnd64 (acc + rnd64 (w * q))) 0 xs"

definition weighted_ok :: "(rat \<times> rat) \<Rightarrow> bool" where
  "weighted_ok x = (0 \<le> fst x \<and> fst x \<le> 1 \<and> 0 \<le> snd x \<and> snd x \<le> 100)"

lemma rnd64_mult_100:
  "weighted_ok (a, b) \<Longrightarrow> 0 \<le> rnd64 (a * b) \<and> rnd64 (a * b) \<le> 100"
  using b64.mult_mono_round [of a 1 b 100] by (simp add: weighted_ok_def b64.nonneg)

lemma fmul_weighted: "weighted_ok (a, b) \<Longrightarrow> fmul (Fin a) (Fin b) = Fin (rnd64 (a * b))"
proof -
  assume "weighted_ok (a, b)"
  then have "\<bar>a * b\<bar> \<le> 1 * 100"
    by (simp only: abs_mult weighted_ok_def fst_conv snd_conv) (intro mult_mono, auto)
  then show ?thesis by simp
qed

lemma weighted_fold:
  assumes "list_all weighted_ok xs" "0 \<le> a" "a \<le> of_int n" "n + 100 * int (length xs) \<le> 10000"
  shows "foldl (\<lambda>acc (w, q). fadd acc (fmul (Fin w) (Fin q))) (Fin a) xs
    = Fin (foldl (\<lambda>acc (w, q). rnd64 (acc + rnd64 (w * q))) a xs)"
  using assms
proof (induction xs arbitrary: a n)
  case (Cons x xs)
  obtain w q where x: "x = (w, q)" by (cases x)
  let ?b = "rnd64 (a + rnd64 (w * q))"
  have wq: "weighted_ok (w, q)" using Cons.prems(1) by (simp add: x)
  have n: "0 \<le> n" "n \<le> 10000 - 100" using Cons.prems(2-4) by (auto dest: order_trans)
  then have "(of_int n :: rat) \<le> of_int 9900" by (simp only: of_int_le_iff)
  then have "fadd (Fin a) (fmul (Fin w) (Fin q)) = Fin ?b"
    using Cons.prems(2,3) rnd64_mult_100 [OF wq] by (simp add: fmul_weighted [OF wq] del: fmul_Fin)
  moreover have "0 \<le> ?b" using Cons.prems(2) rnd64_mult_100 [OF wq] by (intro b64.nonneg) simp
  moreover have "?b \<le> of_int (n + 100)"
    using Cons.prems(3) rnd64_mult_100 [OF wq] n by (intro b64.le_repr b64.exact_int) auto
  ultimately show ?case
    using Cons.IH [of ?b "n + 100"] Cons.prems(1,4) by (simp add: x)
qed simp

lemma weighted_sum_Fin:
  assumes "list_all weighted_ok xs" "length xs \<le> 100"
  shows "foldl (\<lambda>acc (w, q). fadd acc (fmul (Fin w) (Fin q))) (Fin 0) xs = Fin (wsum_list xs)"
  using weighted_fold [OF assms(1), of 0 0] assms(2) by (simp add: wsum_list_def)

lemma wsum_fold_mono:
  assumes "list_all2 (\<lambda>x y. 0 \<le> fst x \<and> fst x = fst y \<and> snd x \<le> snd y) xs ys" "a \<le> b"
  shows "foldl (\<lambda>acc (w, q). rnd64 (acc + rnd64 (w * q))) a xs
    \<le> foldl (\<lambda>acc (w, q). rnd64 (acc + rnd64 (w * q))) b ys"
  using assms
proof (induction xs ys arbitrary: a b rule: list_all2_induct)
  case (Cons x xs y ys)
  have "snd x * fst x \<le> snd y * fst x" using Cons.hyps(1) by (intro mult_right_mono) auto
  then have "rnd64 (a + rnd64 (fst x * snd x)) \<le> rnd64 (b + rnd64 (fst y * snd y))"
    using Cons.hyps(1) Cons.prems
    by (intro b64.add_mono_round b64.mono) (auto simp: mult.commute)
  from Cons.IH [OF this] show ?case by (simp add: case_prod_beta)
qed simp

lemma wsum_list_mono:
  "list_all2 (\<lambda>x y. 0 \<le> fst x \<and> fst x = fst y \<and> snd x \<le> snd y) xs ys \<Longrightarrow> wsum_list xs \<le> wsum_list ys"
  unfolding wsum_list_def by (rule wsum_fold_mono) simp_all

lemma wsum_list_0: "wsum_list (map (\<lambda>w. (w, 0)) ws) = 0"
  by (induction ws) (simp_all add: wsum_list_def)

lemma wsum_list_range:
  assumes "list_all weighted_ok xs" "wsum_list (map (\<lambda>x. (fst x, 100)) xs) = 100"
  shows "0 \<le> wsum_list xs" "wsum_list xs \<le> 100"
proof -
  have "wsum_list (map (\<lambda>w. (w, 0)) (map fst xs)) \<le> wsum_list xs"
    using assms(1) by (intro wsum_list_mono)
      (simp add: list_all2_conv_all_nth weighted_ok_def list_all_length)
  then show "0 \<le> wsum_list xs" by (simp only: wsum_list_0)
  have "wsum_list xs \<le> wsum_list (map (\<lambda>x. (fst x, 100)) xs)"
    using assms(1) by (intro wsum_list_mono)
      (simp add: list_all2_conv_all_nth weighted_ok_def list_all_length)
  then show "wsum_list xs \<le> 100" by (simp only: assms(2))
qed

lemma wsum_list_float: "xs \<noteq> [] \<Longrightarrow> rnd64 (wsum_list xs) = wsum_list xs"
  by (cases xs rule: rev_cases) (auto simp: wsum_list_def split: prod.splits)

definition wsum :: "sector \<Rightarrow> (category \<Rightarrow> rat) \<Rightarrow> rat" where
  "wsum sec q = wsum_list (map (\<lambda>c. (cw sec c, q c)) categories)"

lemma wsum_mono: "(\<And>c. p c \<le> q c) \<Longrightarrow> wsum sec p \<le> wsum sec q"
  unfolding wsum_def by (rule wsum_list_mono) (simp add: list_all2_conv_all_nth cw_range)

lemma wsum_100: "wsum sec (\<lambda>_. 100) = 100"
  by (cases sec) (simp_all add: wsum_def wsum_list_def categories_def cw_def float_intro)

lemma weighted_categories:
  "(\<And>c. 0 \<le> q c) \<Longrightarrow> (\<And>c. q c \<le> 100) \<Longrightarrow> list_all weighted_ok (map (\<lambda>c. (cw sec c, q c)) categories)"
  by (simp add: list_all_iff weighted_ok_def cw_range)

lemma wsum_range:
  assumes "\<And>c. 0 \<le> q c" "\<And>c. q c \<le> 100"
  shows "0 \<le> wsum sec q" "wsum sec q \<le> 100"
  using wsum_list_range [OF weighted_categories [OF assms, of sec]] wsum_100 [of sec]
  by (simp_all add: wsum_def comp_def)

lemma wsum_float: "rnd64 (wsum sec q) = wsum sec q"
  by (simp add: wsum_def wsum_list_float categories_def)

lemma base_score_Fin:
  assumes "\<And>c. 0 \<le> q c" "\<And>c. q c \<le> 100"
  shows "fsum (map (\<lambda>c. fmul (category_weight sec c) (Fin (q c))) categories) = Fin (wsum sec q)"
  using weighted_sum_Fin [OF weighted_categories [OF assms, of sec]]
  by (simp add: wsum_def fsum_def category_weight_Fin categories_def)

text \<open>The rational value of a penalty multiplier.\<close>

definition pen :: "rat \<Rightarrow> rat \<Rightarrow> rat \<Rightarrow> rat" where
  "pen t m q = (if t = 0 \<or> t \<le> q then 1
     else (let d = rnd64 (rnd64 (t - q) / t) in rnd64 (1 - rnd64 (m * rnd64 (d * d)))))"

lemma deficit_range:
  assumes "0 \<le> q" "q < t" "rnd64 t = t"
  shows "0 \<le> rnd64 (rnd64 (t - q) / t)" "rnd64 (rnd64 (t - q) / t) \<le> 1"
proof -
  have "0 \<le> rnd64 (t - q)" "rnd64 (t - q) \<le> t"
    using assms by (auto intro!: b64.nonneg b64.le_repr)
  then show "0 \<le> rnd64 (rnd64 (t - q) / t)" "rnd64 (rnd64 (t - q) / t) \<le> 1"
    using assms by (auto intro!: b64.nonneg b64.le_one)
qed

lemma rnd64_mult_unit:
  "0 \<le> a \<Longrightarrow> a \<le> 1 \<Longrightarrow> 0 \<le> b \<Longrightarrow> b \<le> 1 \<Longrightarrow> 0 \<le> rnd64 (a * b) \<and> rnd64 (a * b) \<le> 1"
  by (auto intro!: b64.nonneg b64.le_one mult_le_one)

lemma calculate_penalty_Fin:
  assumes q: "0 \<le> q" "q \<le> 100" and t: "0 \<le> t" "t \<le> 100" "rnd64 t = t" and m: "0 \<le> m" "m \<le> 1"
  shows "calculate_penalty (Fin q) (Fin t) (Fin m) = Inr (Fin (pen t m q))"
proof (cases "t = 0 \<or> t \<le> q")
  case True
  then show ?thesis using assms by (auto simp: calculate_penalty_def pen_def)
next
  case False
  define d where "d = rnd64 (rnd64 (t - q) / t)"
  have d: "0 \<le> d" "d \<le> 1" unfolding d_def using False q t by (auto intro!: deficit_range)
  have dd: "0 \<le> rnd64 (d * d)" "rnd64 (d * d) \<le> 1" using rnd64_mult_unit [OF d d] by auto
  have md: "0 \<le> rnd64 (m * rnd64 (d * d))" "rnd64 (m * rnd64 (d * d)) \<le> 1"
    using rnd64_mult_unit [OF m dd] by auto
  have sub: "fsub (Fin t) (Fin q) = Fin (rnd64 (t - q))" using q t by (simp add: abs_le_iff)
  have "0 \<le> rnd64 (t - q) / t" "rnd64 (t - q) / t \<le> 1"
    using False q t b64.le_repr [of "t - q" t] b64.nonneg [of "t - q"] by auto
  then have div: "fdiv (Fin (rnd64 (t - q))) (Fin t) = Inr (Fin d)"
    using False by (simp add: d_def)
  have sq: "fpow2 (Fin d) = Inr (Fin (rnd64 (d * d)))"
    using d mult_le_one [OF d(2) d(1) d(2)] by (simp add: fpow2_def abs_mult)
  have mul: "fmul (Fin m) (Fin (rnd64 (d * d))) = Fin (rnd64 (m * rnd64 (d * d)))"
    using m dd mult_le_one [of m "rnd64 (d * d)"] by (simp add: abs_mult)
  show ?thesis
    using False q t m md
    by (simp add: calculate_penalty_def sub div sq mul pen_def Let_def d_def [symmetric] not_le
        del: fdiv_Fin fmul_Fin)
qed

lemma pen_range:
  assumes "0 \<le> q" "0 \<le> t" "rnd64 t = t" "0 \<le> m" "m \<le> 1" "rnd64 m = m"
  shows "rnd64 (1 - m) \<le> pen t m q" "pen t m q \<le> 1"
proof -
  have one: "rnd64 (1 - m) \<le> 1" using assms by (intro b64.le_one) simp
  show "rnd64 (1 - m) \<le> pen t m q"
  proof (cases "t = 0 \<or> t \<le> q")
    case False
    define d where "d = rnd64 (rnd64 (t - q) / t)"
    have d: "0 \<le> d" "d \<le> 1" unfolding d_def using False assms by (auto intro!: deficit_range)
    have "rnd64 (m * rnd64 (d * d)) \<le> m"
      using assms rnd64_mult_unit [OF d d] by (intro b64.le_repr) (auto intro: mult_left_le)
    then show ?thesis using False by (simp add: pen_def Let_def d_def [symmetric] b64.mono)
  qed (simp add: pen_def one)
  show "pen t m q \<le> 1"
  proof (cases "t = 0 \<or> t \<le> q")
    case False
    define d where "d = rnd64 (rnd64 (t - q) / t)"
    have d: "0 \<le> d" "d \<le> 1" unfolding d_def using False assms by (auto intro!: deficit_range)
    have "0 \<le> rnd64 (m * rnd64 (d * d))"
      using assms rnd64_mult_unit [OF d d] by (intro b64.nonneg) simp
    then show ?thesis
      using False by (simp add: pen_def Let_def d_def [symmetric]) (intro b64.le_one, simp)
  qed (auto simp: pen_def)
qed

lemma pen_mono:
  assumes "0 \<le> p" "p \<le> q" "0 \<le> t" "rnd64 t = t" "0 \<le> m" "m \<le> 1" "rnd64 m = m"
  shows "pen t m p \<le> pen t m q"
proof (cases "t = 0 \<or> t \<le> q")
  case True
  then show ?thesis using pen_range [of p t m] assms by (auto simp: pen_def)
next
  case False
  define dp where "dp = rnd64 (rnd64 (t - p) / t)"
  define dq where "dq = rnd64 (rnd64 (t - q) / t)"
  have dq0: "0 \<le> dq" unfolding dq_def using False assms by (auto intro!: deficit_range)
  have "dq \<le> dp" unfolding dp_def dq_def using False assms
    by (intro b64.div_mono_round b64.mono) auto
  then have "rnd64 (dq * dq) \<le> rnd64 (dp * dp)" using dq0 by (intro b64.mult_mono_round) auto
  then have "rnd64 (m * rnd64 (dq * dq)) \<le> rnd64 (m * rnd64 (dp * dp))"
    using assms by (intro b64.mono [OF mult_left_mono]) auto
  then have "rnd64 (1 - rnd64 (m * rnd64 (dp * dp))) \<le> rnd64 (1 - rnd64 (m * rnd64 (dq * dq)))"
    by (intro b64.mono) simp
  then show ?thesis
    using False assms by (auto simp: pen_def Let_def dp_def [symmetric] dq_def [symmetric])
qed

text \<open>The first minimal element of a list of multipliers.\<close>

lemma dominant_of_min:
  assumes "\<And>x. x \<in> set (p # ps) \<Longrightarrow> snd x = Fin (f (fst x))"
  shows "dominant_of p ps \<in> set (p # ps) \<and>
    (\<forall>x \<in> set (p # ps). f (fst (dominant_of p ps)) \<le> f (fst x))"
  using assms
proof (induction ps arbitrary: p)
  case Nil
  then show ?case by (simp add: dominant_of_def)
next
  case (Cons q ps)
  define b where "b = (if flt (snd q) (snd p) then q else p)"
  have d: "dominant_of p (q # ps) = dominant_of b ps" by (simp add: dominant_of_def b_def)
  have b: "f (fst b) \<le> f (fst p) \<and> f (fst b) \<le> f (fst q)" using Cons.prems by (auto simp: b_def)
  have "dominant_of b ps \<in> set (b # ps) \<and> (\<forall>x \<in> set (b # ps). f (fst (dominant_of b ps)) \<le> f (fst x))"
    using Cons.prems by (intro Cons.IH) (auto simp: b_def split: if_splits)
  then show ?case using b unfolding d by (auto simp: b_def split: if_splits)
qed

lemma rule_Fin:
  obtains t m where "threshold (get_rule sec c) = Fin t" "max_penalty (get_rule sec c) = Fin m"
    "0 \<le> t" "t \<le> 100" "rnd64 t = t" "0 \<le> m" "m \<le> 1" "rnd64 m = m"
proof -
  have "case (threshold (get_rule sec c), max_penalty (get_rule sec c)) of
      (Fin t, Fin m) \<Rightarrow> 0 \<le> t \<and> t \<le> 100 \<and> rnd64 t = t \<and> 0 \<le> m \<and> m \<le> 1 \<and> rnd64 m = m
    | _ \<Rightarrow> False"
    by (cases sec; cases c) (simp_all add: rule_def float_intro)
  with that show ?thesis by (auto split: pyfloat.splits)
qed

definition rule_pen :: "sector \<Rightarrow> category \<Rightarrow> rat \<Rightarrow> rat" where
  "rule_pen sec c q = (case (threshold (get_rule sec c), max_penalty (get_rule sec c)) of
     (Fin t, Fin m) \<Rightarrow> pen t m q | _ \<Rightarrow> 1)"

lemma rule_penalty_Fin:
  assumes "0 \<le> q" "q \<le> 100"
  shows "calculate_penalty (Fin q) (threshold (get_rule sec c)) (max_penalty (get_rule sec c))
    = Inr (Fin (rule_pen sec c q))"
  using assms by (cases rule: rule_Fin [of sec c]) (simp add: rule_pen_def calculate_penalty_Fin)

lemma rule_pen_mono: "0 \<le> p \<Longrightarrow> p \<le> q \<Longrightarrow> rule_pen sec c p \<le> rule_pen sec c q"
  by (cases rule: rule_Fin [of sec c]) (simp add: rule_pen_def pen_mono)

lemma rule_pen_range:
  assumes "0 \<le> q" shows "1 / 2 \<le> rule_pen sec c q" "rule_pen sec c q \<le> 1"
proof -
  obtain t m where tm: "threshold (get_rule sec c) = Fin t" "max_penalty (get_rule sec c) = Fin m"
    "0 \<le> t" "t \<le> 100" "rnd64 t = t" "0 \<le> m" "m \<le> 1" "rnd64 m = m" by (rule rule_Fin)
  have "m \<le> 1 / 2" using tm(2) by (cases sec; cases c) (auto simp: rule_def float_intro)
  then have "1 / 2 \<le> rnd64 (1 - m)" by (intro b64.ge_repr) (simp_all add: rnd64_half)
  then show "1 / 2 \<le> rule_pen sec c q" "rule_pen sec c q \<le> 1"
    using pen_range [OF assms tm(3,5,6,7,8)] tm(1,2) by (simp_all add: rule_pen_def)
qed

text \<open>
  The engine as one rational formula: the rounded weighted sum, the smallest multiplier, and
  their rounded product. Everything the properties say of the location score follows from it.
\<close>

definition min_pen :: "sector \<Rightarrow> (category \<Rightarrow> rat) \<Rightarrow> rat" where
  "min_pen sec q = Min ((\<lambda>c. rule_pen sec c (q c)) ` UNIV)"

lemma UNIV_category: "(UNIV :: category set) = {Demand, Competition, Accessibility, Economics}"
  using set_categories by (simp add: categories_def)

lemma finite_category: "finite (range (f :: category \<Rightarrow> 'a))"
  by (simp add: UNIV_category)

lemma min_pen_le: "min_pen sec q \<le> rule_pen sec c (q c)"
  by (simp add: min_pen_def finite_category)

lemma min_pen_attained: "\<exists>c. min_pen sec q = rule_pen sec c (q c)"
  using Min_in [OF finite_category, of "\<lambda>c. rule_pen sec c (q c)"] by (auto simp: min_pen_def)

lemma min_pen_range:
  assumes "\<And>c. 0 \<le> q c" shows "1 / 2 \<le> min_pen sec q" "min_pen sec q \<le> 1"
  using min_pen_attained [of sec q] rule_pen_range [OF assms, of sec] by (force, force)

lemma min_pen_mono:
  assumes "\<And>c. 0 \<le> p c" "\<And>c. p c \<le> q c" shows "min_pen sec p \<le> min_pen sec q"
  using min_pen_attained [of sec q] min_pen_le [of sec p] rule_pen_mono [OF assms, of sec]
  by (metis order_trans)

definition score_rat :: "category_scores \<Rightarrow> category \<Rightarrow> rat" where
  "score_rat s c = (case score_of s c of Fin q \<Rightarrow> q | _ \<Rightarrow> 0)"

lemma score_rat:
  "scores_ok s \<Longrightarrow> score_of s c = Fin (score_rat s c) \<and> 0 \<le> score_rat s c \<and> score_rat s c \<le> 100"
  using scores_okD [of s c] by (auto simp: score_rat_def)

lemma weights_tolerated:
  "\<not> flt (to_float (1 / 1000000000)) (fabs (fsub (fsum (map (category_weight sec) categories)) (Fin 1)))"
  by (cases sec) (simp_all add: fsum_def categories_def float_intro rnd64_minus)

lemma location_score_formula:
  fixes sec :: sector and s :: category_scores
  assumes ok: "scores_ok s"
  defines "q \<equiv> score_rat s"
  defines "fs \<equiv> rnd64 (wsum sec q * min_pen sec q)"
  shows "\<exists>c. rule_pen sec c (q c) = min_pen sec q \<and>
    calculate_location_score sec s =
    Inr \<lparr>base_score = Fin (round6 (wsum sec q)), penalty_multiplier = Fin (round6 (min_pen sec q)),
         final_score = Fin (round6 fs), structural_band = structural_band_of (Fin fs),
         dominant_risk_category =
           (if min_pen sec q = 1 then None else Some (category_value c))\<rparr>"
proof -
  have q: "score_of s c = Fin (q c)" "0 \<le> q c" "q c \<le> 100" for c
    using score_rat [OF ok, of c] by (simp_all add: q_def)
  let ?ps = "map (\<lambda>c. (c, Fin (rule_pen sec c (q c)))) categories"
  have ps: "rmap (\<lambda>c. rbind (calculate_penalty (score_of s c) (threshold (get_rule sec c))
      (max_penalty (get_rule sec c))) (\<lambda>p. Inr (c, p))) categories = Inr ?ps"
    by (rule rmap_total) (simp add: q rule_penalty_Fin)
  have ne: "hd ?ps # tl ?ps = ?ps" by (simp add: categories_def)
  define d where "d = dominant_of (hd ?ps) (tl ?ps)"
  have d: "d \<in> set ?ps \<and> (\<forall>x \<in> set ?ps. rule_pen sec (fst d) (q (fst d)) \<le> rule_pen sec (fst x) (q (fst x)))"
  proof -
    have "snd x = Fin (rule_pen sec (fst x) (q (fst x)))" if "x \<in> set (hd ?ps # tl ?ps)" for x
      using that unfolding ne by auto
    from dominant_of_min [of "hd ?ps" "tl ?ps" "\<lambda>c. rule_pen sec c (q c)", OF this, folded d_def, unfolded ne]
    show ?thesis by simp
  qed
  then have le: "rule_pen sec (fst d) (q (fst d)) \<le> rule_pen sec c (q c)" for c by auto
  then have mp: "rule_pen sec (fst d) (q (fst d)) = min_pen sec q"
    using min_pen_attained [of sec q] min_pen_le [of sec q] by (metis order_antisym)
  then have dd: "d = (fst d, Fin (min_pen sec q))" using d by auto
  have bs: "fsum (map (\<lambda>c. fmul (category_weight sec c) (score_of s c)) categories) = Fin (wsum sec q)"
    using base_score_Fin [OF q(2,3), of sec] by (simp add: q(1))
  have w: "0 \<le> wsum sec q" "wsum sec q \<le> 100" using wsum_range [OF q(2,3)] by auto
  have m: "0 \<le> min_pen sec q" "min_pen sec q \<le> 1" using min_pen_range [of q sec, OF q(2)] by auto
  have "\<bar>wsum sec q * min_pen sec q\<bar> \<le> 100 * 1"
    using w m by (simp only: abs_mult) (intro mult_mono, auto)
  then have fs: "fmul (Fin (wsum sec q)) (Fin (min_pen sec q)) = Fin fs" by (simp add: fs_def)
  have "calculate_location_score sec s =
    Inr \<lparr>base_score = Fin (round6 (wsum sec q)), penalty_multiplier = Fin (round6 (min_pen sec q)),
         final_score = Fin (round6 fs), structural_band = structural_band_of (Fin fs),
         dominant_risk_category =
           (if min_pen sec q = 1 then None else Some (category_value (fst d)))\<rparr>"
    unfolding calculate_location_score_def if_not_P [OF weights_tolerated] Let_def ps rbind.simps
      bs d_def [symmetric]
    by (subst dd) (simp add: fs del: fmul_Fin)
  with mp show ?thesis by blast
qed

lemma round6_range: "0 \<le> q \<Longrightarrow> q \<le> 100 \<Longrightarrow> 0 \<le> round6 q \<and> round6 q \<le> 100"
  using round6_mono [of 0 q] round6_mono [of q 100] by simp

lemma round6_unit: "q \<le> 1 \<Longrightarrow> round6 q \<le> 1"
  using round6_mono [of q 1] round6_int [of 1] by simp

lemma round6_half: "1 / 2 \<le> q \<Longrightarrow> 1 / 2 \<le> round6 q"
proof -
  have "rne (500000 :: rat) = 500000" using rne_of_int [of 500000] by simp
  then have "round6 (1 / 2) = 1 / 2" by (simp add: round6_def rnd64_half)
  then show "1 / 2 \<le> q \<Longrightarrow> 1 / 2 \<le> round6 q" using round6_mono [of "1 / 2" q] by simp
qed

lemma final_le_base:
  assumes "\<And>c. 0 \<le> q c" "\<And>c. q c \<le> 100"
  shows "rnd64 (wsum sec q * min_pen sec q) \<le> wsum sec q"
    "0 \<le> rnd64 (wsum sec q * min_pen sec q)"
  using wsum_range [OF assms, of sec] min_pen_range [of q sec, OF assms(1)]
  by (auto intro!: b64.le_repr b64.nonneg wsum_float simp: mult_left_le)

text \<open>
  C27: on validated category scores the location engine never raises, and although every
  operation rounds, the base and final score stay within [0, 100], the multiplier within
  [1/2, 1], and the penalty never raises a score above its base.
\<close>

theorem location_score_bounds:
  assumes "category_scores_post_init d c a e = Inr s"
  shows "\<exists>b m f band risk.
    calculate_location_score sec s = Inr \<lparr>base_score = Fin b, penalty_multiplier = Fin m,
      final_score = Fin f, structural_band = band, dominant_risk_category = risk\<rparr> \<and>
    0 \<le> b \<and> b \<le> 100 \<and> 1 / 2 \<le> m \<and> m \<le> 1 \<and> 0 \<le> f \<and> f \<le> b"
proof -
  have ok: "scores_ok s" using assms unfolding category_scores_post_init_iff by blast
  have q: "\<And>c. 0 \<le> score_rat s c" "\<And>c. score_rat s c \<le> 100" using score_rat [OF ok] by auto
  note w = wsum_range [OF q, of sec] and m = min_pen_range [of "score_rat s" sec, OF q(1)]
    and f = final_le_base [OF q, of sec]
  show ?thesis
    using location_score_formula [OF ok, of sec] w m f
      round6_range [OF w] round6_half [OF m(1)] round6_unit [OF m(2)]
      round6_mono [OF f(1)] round6_mono [OF f(2)]
    by (auto simp: conj_commute)
qed

lemma location_scores_mono:
  assumes "scores_ok s" "scores_ok s'" "\<And>c. fle (score_of s c) (score_of s' c)"
    and "calculate_location_score sec s = Inr r" "calculate_location_score sec s' = Inr r'"
  shows "fle (base_score r) (base_score r') \<and> fle (penalty_multiplier r) (penalty_multiplier r')
    \<and> fle (final_score r) (final_score r')"
proof -
  have q: "\<And>c. 0 \<le> score_rat s c" "\<And>c. score_rat s c \<le> 100"
    and q': "\<And>c. 0 \<le> score_rat s' c" "\<And>c. score_rat s' c \<le> 100"
    using score_rat [OF assms(1)] score_rat [OF assms(2)] by auto
  have le: "score_rat s c \<le> score_rat s' c" for c
    using assms(3) [of c] score_rat [OF assms(1), of c] score_rat [OF assms(2), of c] by simp
  have w: "wsum sec (score_rat s) \<le> wsum sec (score_rat s')" by (rule wsum_mono [OF le])
  have m: "min_pen sec (score_rat s) \<le> min_pen sec (score_rat s')" by (rule min_pen_mono [OF q(1) le])
  have "rnd64 (wsum sec (score_rat s) * min_pen sec (score_rat s))
      \<le> rnd64 (wsum sec (score_rat s') * min_pen sec (score_rat s'))"
    using w m wsum_range [OF q, of sec] min_pen_range [of "score_rat s" sec, OF q(1)]
    by (intro b64.mult_mono_round) auto
  then show ?thesis
    using location_score_formula [OF assms(1), of sec] location_score_formula [OF assms(2), of sec]
      assms(4,5) round6_mono [OF w] round6_mono [OF m] by (auto simp: round6_mono)
qed

text \<open>
  Raising any category score, with the others held or raised, never lowers the base score,
  the penalty multiplier or the final score: rounding does not break the monotonicity of the
  scoring model.
\<close>

theorem location_score_mono:
  assumes "scores_ok s" "scores_ok s'" "\<And>c. fle (score_of s c) (score_of s' c)"
    and "calculate_location_score sec s = Inr r" "calculate_location_score sec s' = Inr r'"
  shows "fle (base_score r) (base_score r') \<and> fle (penalty_multiplier r) (penalty_multiplier r')
    \<and> fle (final_score r) (final_score r')"
  using assms by (rule location_scores_mono)

text \<open>
  The reported dominant risk is absent exactly when no dealbreaker rule reduces the score
  (every category's multiplier is 1.0), and otherwise names a category whose own multiplier is
  the smallest of the four, hence the one applied to the score.
\<close>

theorem dominant_risk_sound:
  assumes "scores_ok s" and "calculate_location_score sec s = Inr r"
  shows "(dominant_risk_category r = None \<longleftrightarrow>
      (\<forall>c. calculate_penalty (score_of s c) (threshold (get_rule sec c)) (max_penalty (get_rule sec c))
         = Inr (Fin 1)))
    \<and> (\<forall>name. dominant_risk_category r = Some name \<longrightarrow>
      (\<exists>c p. name = category_value c \<and>
         calculate_penalty (score_of s c) (threshold (get_rule sec c)) (max_penalty (get_rule sec c)) = Inr (Fin p)
         \<and> p < 1 \<and> penalty_multiplier r = Fin (round6 p)
         \<and> (\<forall>c' p'. calculate_penalty (score_of s c') (threshold (get_rule sec c')) (max_penalty (get_rule sec c'))
               = Inr (Fin p') \<longrightarrow> p \<le> p')))"
proof -
  let ?q = "score_rat s"
  have q: "score_of s c = Fin (?q c)" "0 \<le> ?q c" "?q c \<le> 100" for c
    using score_rat [OF assms(1), of c] by auto
  have p: "calculate_penalty (score_of s c) (threshold (get_rule sec c)) (max_penalty (get_rule sec c))
      = Inr (Fin (rule_pen sec c (?q c)))" for c
    unfolding q(1) by (rule rule_penalty_Fin [OF q(2,3)])
  have all1: "min_pen sec ?q = 1 \<longleftrightarrow> (\<forall>c. rule_pen sec c (?q c) = 1)"
    using min_pen_attained [of sec ?q] min_pen_le [of sec ?q] rule_pen_range(2) [OF q(2), of sec]
    by (metis order_antisym)
  obtain c where c: "rule_pen sec c (?q c) = min_pen sec ?q"
    and r: "dominant_risk_category r = (if min_pen sec ?q = 1 then None else Some (category_value c))"
      "penalty_multiplier r = Fin (round6 (min_pen sec ?q))"
    using location_score_formula [OF assms(1), of sec] assms(2) by auto
  have lt: "min_pen sec ?q = 1 \<or> min_pen sec ?q < 1"
    using min_pen_range(2) [of ?q sec, OF q(2)] by auto
  show ?thesis
  proof (cases "min_pen sec ?q = 1")
    case True
    with r(1) all1 show ?thesis unfolding p by simp
  next
    case False
    then have "min_pen sec ?q < 1" using lt by simp
    with False r c min_pen_le [of sec ?q] all1 show ?thesis
      unfolding p by (auto intro!: exI [of _ c])
  qed
qed

section \<open>The decision matrix as a table of bands\<close>

definition decision_table :: "(string \<times> string \<times> string) list" where
  "decision_table =
    [(''strong'', ''strong'', ''prime_opportunity''), (''strong'', ''thin'', ''strong_site_thin_economics''),
     (''strong'', ''non_viable'', ''tourist_trap''), (''conditional'', ''strong'', ''hidden_gem''),
     (''conditional'', ''thin'', ''conditional_site''), (''conditional'', ''non_viable'', ''weak_site_weak_economics''),
     (''weak'', ''strong'', ''structural_risk''), (''weak'', ''thin'', ''structural_risk''),
     (''weak'', ''non_viable'', ''dead_end'')]"

text \<open>
  The nested conditionals of the decision engine are the nine-cell table of the structural
  band of the final score and the financial band of the base break-even coverage: every pair of
  bands has exactly one class, and a NaN falls into the lowest bands.
\<close>

theorem decision_is_table:
  "(structural_band_of (final_score loc), financial_band_of (bec_base f),
     decision_class (calculate_decision loc f)) \<in> set decision_table"
proof -
  have "fle bec_strong_min x \<Longrightarrow> fle bec_thin_min x" for x
    by (rule fle_trans [of _ bec_strong_min]) (simp_all add: bec_strong_min_def bec_thin_min_def)
  then show ?thesis
    by (auto simp: calculate_decision_def decision_cell_def structural_band_of_def financial_band_of_def
        decision_table_def)
qed

section \<open>Confidence\<close>

definition quality_rat :: "(string \<times> pyfloat) list \<Rightarrow> string \<Rightarrow> rat" where
  "quality_rat table k = (case map_of table k of Some (Fin q) \<Rightarrow> q | _ \<Rightarrow> 0)"

lemma sum_levels_fold:
  assumes "\<And>k w. (k, w) \<in> set ws \<Longrightarrow> map_of table (lev k) = Some (Fin (s k))"
  shows "sum_levels ws lev table err acc
    = Inr (foldl (\<lambda>acc (w, q). fadd acc (fmul w (Fin q))) acc (map (\<lambda>(k, w). (w, s k)) ws))"
  using assms
proof (induction ws arbitrary: acc)
  case (Cons x ws)
  have "map_of table (lev (fst x)) = Some (Fin (s (fst x)))"
    using Cons.prems [of "fst x" "snd x"] by simp
  moreover have "sum_levels ws lev table err acc'
    = Inr (foldl (\<lambda>acc (w, q). fadd acc (fmul w (Fin q))) acc' (map (\<lambda>(k, w). (w, s k)) ws))" for acc'
    by (rule Cons.IH) (metis Cons.prems list.set_intros(2))
  ultimately show ?case by (cases x) simp
qed simp

lemma sum_levels_unknown:
  "(k, w) \<in> set ws \<Longrightarrow> map_of table (lev k) = None \<Longrightarrow> \<exists>e. sum_levels ws lev table err acc = Inl e"
  by (induction ws arbitrary: acc) (auto split: option.splits)

lemma coverage_score_Fin:
  assumes "\<And>c. map_of data_coverage_levels (get_or ''missing'' (category_value c) cov) = Some (Fin (s c))"
    and "\<And>c. 0 \<le> s c" "\<And>c. s c \<le> 100"
  shows "data_coverage_score sec cov = Inr (Fin (wsum sec s))"
proof -
  have "data_coverage_score sec cov
    = Inr (fsum (map (\<lambda>c. fmul (category_weight sec c) (Fin (s c))) categories))"
    unfolding data_coverage_score_def
    by (subst sum_levels_fold [where s = s]) (use assms(1) in \<open>auto simp: fsum_def categories_def\<close>)
  then show ?thesis using base_score_Fin [OF assms(2,3), of sec] by simp
qed

definition isum :: "(string \<Rightarrow> rat) \<Rightarrow> rat" where
  "isum s = wsum_list [(rnd64 (3 / 10), s ''rent''), (rnd64 (3 / 10), s ''price''),
     (1 / 4, s ''capacity''), (rnd64 (3 / 20), s ''schedule'')]"

lemma input_score_Fin:
  assumes "\<And>k. k \<in> set required_inputs \<Longrightarrow>
      map_of input_quality_scores (get_or ''missing'' k qs) = Some (Fin (s k)) \<and> 0 \<le> s k \<and> s k \<le> 100"
  shows "input_completeness_score qs = Inr (Fin (isum s)) \<and> 0 \<le> isum s \<and> isum s \<le> 100"
proof -
  let ?xs = "[(rnd64 (3 / 10), s ''rent''), (rnd64 (3 / 10), s ''price''),
     (1 / 4, s ''capacity''), (rnd64 (3 / 20), s ''schedule'')]"
  have ok: "list_all weighted_ok ?xs"
    using assms by (simp add: weighted_ok_def required_inputs_def float_intro)
  have "input_completeness_score qs
      = Inr (foldl (\<lambda>acc (w, q). fadd acc (fmul w (Fin q))) (Fin 0) (map (\<lambda>(k, w). (w, s k)) input_weights))"
    unfolding input_completeness_score_def
    by (rule sum_levels_fold) (use assms in \<open>auto simp: required_inputs_def input_weights_def\<close>)
  also have "\<dots> = Inr (foldl (\<lambda>acc (w, q). fadd acc (fmul (Fin w) (Fin q))) (Fin 0) ?xs)"
    by (simp add: input_weights_def float_intro del: fmul_Fin)
  also have "\<dots> = Inr (Fin (isum s))" using weighted_sum_Fin [OF ok] by (simp add: isum_def)
  finally have eq: "input_completeness_score qs = Inr (Fin (isum s))" .
  have "wsum_list (map (\<lambda>x. (fst x, 100)) ?xs) = 100" by (simp add: wsum_list_def float_intro)
  from wsum_list_range [OF ok this] eq show ?thesis by (simp add: isum_def)
qed

lemma geographic_score_range:
  "\<exists>q. geographic_precision_score lev = Fin q \<and> 0 \<le> q \<and> q \<le> 100"
  by (auto simp: geographic_precision_score_def geographic_precision_scores_def get_or_def)

lemma vintage_score_range: "\<exists>q. data_vintage_score age = Fin q \<and> 0 \<le> q \<and> q \<le> 100"
proof (cases age)
  case (Some a)
  consider "a < 0" | "5 \<le> a" | "a = 0" | "a = 1" | "a = 2" | "a = 3" | "a = 4" by linarith
  with Some show ?thesis by cases (simp_all add: data_vintage_score_def data_vintage_scores_def)
qed (simp add: data_vintage_score_def)

lemma overall_Fin:
  assumes "\<And>x. x \<in> {g, v, c, i} \<Longrightarrow> 0 \<le> x \<and> x \<le> 100"
  shows "\<exists>x. fadd (fadd (fadd (fmul w_geographic_precision (Fin g)) (fmul w_data_vintage (Fin v)))
      (fmul w_data_coverage (Fin c))) (fmul w_input_completeness (Fin i)) = Fin x \<and> 0 \<le> x \<and> x \<le> 100"
proof -
  let ?xs = "[(rnd64 (3 / 10), g), (rnd64 (1 / 5), v), (1 / 4, c), (1 / 4, i)]"
  have ok: "list_all weighted_ok ?xs" using assms by (simp add: weighted_ok_def float_intro)
  have g: "fadd (Fin 0) (fmul (Fin (rnd64 (3 / 10))) (Fin g)) = fmul (Fin (rnd64 (3 / 10))) (Fin g)"
    using ok rnd64_mult_100 [of "rnd64 (3 / 10)" g]
    by (simp add: fmul_weighted del: fmul_Fin) 
  have "wsum_list (map (\<lambda>x. (fst x, 100)) ?xs) = 100" by (simp add: wsum_list_def float_intro)
  from wsum_list_range [OF ok this] weighted_sum_Fin [OF ok] g show ?thesis
    by (simp add: w_geographic_precision_def w_data_vintage_def w_data_coverage_def
        w_input_completeness_def float_intro del: fmul_Fin)
qed

lemma confidence_cases:
  "if (\<forall>c. map_of data_coverage_levels (get_or ''missing'' (category_value c) cov) \<noteq> None)
      \<and> (\<forall>k \<in> set required_inputs. map_of input_quality_scores (get_or ''missing'' k qs) \<noteq> None)
   then \<exists>r. calculate_confidence sec lev age cov qs = Inr r \<and>
     list_all (\<lambda>x. fle (Fin 0) x \<and> fle x (Fin 100))
       [overall_score r, geographic_precision r, data_vintage r, data_coverage r, input_completeness r]
   else \<exists>e. calculate_confidence sec lev age cov qs = Inl e"
proof (cases "(\<forall>c. map_of data_coverage_levels (get_or ''missing'' (category_value c) cov) \<noteq> None)
      \<and> (\<forall>k \<in> set required_inputs. map_of input_quality_scores (get_or ''missing'' k qs) \<noteq> None)")
  case True
  define s where "s c = quality_rat data_coverage_levels (get_or ''missing'' (category_value c) cov)" for c
  define u where "u k = quality_rat input_quality_scores (get_or ''missing'' k qs)" for k
  have s: "map_of data_coverage_levels (get_or ''missing'' (category_value c) cov) = Some (Fin (s c))
      \<and> 0 \<le> s c \<and> s c \<le> 100" for c
    using True by (auto simp: s_def quality_rat_def data_coverage_levels_def split: if_splits)
  have u: "map_of input_quality_scores (get_or ''missing'' k qs) = Some (Fin (u k))
      \<and> 0 \<le> u k \<and> u k \<le> 100" if "k \<in> set required_inputs" for k
    using True that by (auto simp: u_def quality_rat_def input_quality_scores_def split: if_splits)
  obtain g v where g: "geographic_precision_score lev = Fin g" "0 \<le> g" "g \<le> 100"
    and v: "data_vintage_score age = Fin v" "0 \<le> v" "v \<le> 100"
    using geographic_score_range vintage_score_range by blast
  have c: "data_coverage_score sec cov = Inr (Fin (wsum sec s))" "0 \<le> wsum sec s" "wsum sec s \<le> 100"
    using coverage_score_Fin [of cov s sec] wsum_range [of s sec] s by auto
  have i: "input_completeness_score qs = Inr (Fin (isum u))" "0 \<le> isum u" "isum u \<le> 100"
    using input_score_Fin [of qs u] u by auto
  obtain x where x: "fadd (fadd (fadd (fmul w_geographic_precision (Fin g)) (fmul w_data_vintage (Fin v)))
      (fmul w_data_coverage (Fin (wsum sec s)))) (fmul w_input_completeness (Fin (isum u))) = Fin x"
      "0 \<le> x" "x \<le> 100"
    using overall_Fin [of g v "wsum sec s" "isum u"] g v c i by auto
  show ?thesis
    using round6_range [OF x(2,3)] round6_range [OF c(2,3)] round6_range [OF i(2,3)] g v True
    by (simp add: calculate_confidence_def c(1) i(1) x(1) Let_def)
next
  case False
  then consider c where "map_of data_coverage_levels (get_or ''missing'' (category_value c) cov) = None"
    | k where "k \<in> set required_inputs" "map_of input_quality_scores (get_or ''missing'' k qs) = None" by auto
  then have "(\<exists>e. data_coverage_score sec cov = Inl e) \<or> (\<exists>e. input_completeness_score qs = Inl e)"
  proof cases
    case 1
    then show ?thesis unfolding data_coverage_score_def
      by (intro disjI1 sum_levels_unknown [of c "category_weight sec c"]) auto
  next
    case 2
    then obtain w where "(k, w) \<in> set input_weights" by (auto simp: required_inputs_def input_weights_def)
    with 2 show ?thesis unfolding input_completeness_score_def by (intro disjI2 sum_levels_unknown)
  qed
  then have "\<exists>e. calculate_confidence sec lev age cov qs = Inl e"
    by (cases "data_coverage_score sec cov") (auto simp: calculate_confidence_def Let_def)
  then show ?thesis by (simp only: False if_False)
qed

lemma confidence_total:
  "(\<And>c. map_of data_coverage_levels (get_or ''missing'' (category_value c) cov) \<noteq> None) \<Longrightarrow>
   (\<And>k. map_of input_quality_scores (get_or ''missing'' k qs) \<noteq> None) \<Longrightarrow>
   \<exists>r. calculate_confidence sec lev age cov qs = Inr r"
  using confidence_cases [of cov qs sec lev age] by (auto split: if_splits)

text \<open>
  The confidence engine raises exactly on an unknown coverage or quality level, whatever the
  age of the data and the geographic level; otherwise every component and the overall score
  are within [0, 100].
\<close>

theorem confidence_bounds:
  "if (\<forall>c. map_of data_coverage_levels (get_or ''missing'' (category_value c) cov) \<noteq> None)
      \<and> (\<forall>k \<in> set required_inputs. map_of input_quality_scores (get_or ''missing'' k qs) \<noteq> None)
   then \<exists>r. calculate_confidence sec lev age cov qs = Inr r \<and>
     list_all (\<lambda>x. fle (Fin 0) x \<and> fle x (Fin 100))
       [overall_score r, geographic_precision r, data_vintage r, data_coverage r, input_completeness r]
   else \<exists>e. calculate_confidence sec lev age cov qs = Inl e"
  by (rule confidence_cases)

section \<open>Revenue and financial metrics\<close>

text \<open>
  \<open>fb k x\<close>: a finite float between 0 and \<open>2^k\<close>. Products and quotients of such values stay
  finite, so that no scenario becomes NaN and the order of the scenarios survives rounding.
\<close>

definition fb :: "nat \<Rightarrow> pyfloat \<Rightarrow> bool" where
  "fb k x = (case x of Fin q \<Rightarrow> 0 \<le> q \<and> q \<le> 2 ^ k | _ \<Rightarrow> False)"

lemma fbE: assumes "fb k x" obtains q where "x = Fin q" "0 \<le> q" "q \<le> 2 ^ k"
  using assms by (cases x) (auto simp: fb_def)

lemma fb_mono: "fb j x \<Longrightarrow> j \<le> k \<Longrightarrow> fb k x"
  by (elim fbE) (auto simp: fb_def intro: order_trans power_increasing)

lemma rnd64_2pow: "k \<le> 900 \<Longrightarrow> rnd64 (2 ^ k) = 2 ^ k"
  using rnd64_representable [of 1 "int k"] by simp

lemma to_float_fb:
  assumes "0 \<le> q" "q \<le> 2 ^ k" "k \<le> 900"
  shows "to_float q = Fin (rnd64 q) \<and> fb k (Fin (rnd64 q))"
proof -
  have "(2 :: rat) ^ k \<le> 2 ^ 900" using assms(3) by (intro power_increasing) simp_all
  then have "to_float q = Fin (rnd64 q)" using assms by (intro to_float_small) simp
  then show ?thesis
    using assms b64.nonneg [of q] b64.le_repr [OF assms(2) rnd64_2pow [OF assms(3)]] by (simp add: fb_def)
qed

lemma fmul_fb:
  assumes "fb j x" "fb k y" "j + k \<le> 900" shows "fb (j + k) (fmul x y)"
proof -
  obtain p q where x: "x = Fin p" "0 \<le> p" "p \<le> 2 ^ j" and y: "y = Fin q" "0 \<le> q" "q \<le> 2 ^ k"
    using assms(1,2) by (auto elim!: fbE)
  have "p * q \<le> 2 ^ (j + k)" using x y by (simp add: power_add mult_mono)
  from to_float_fb [OF _ this assms(3)] show ?thesis using x y by simp
qed

lemma fmul_mono_fb:
  assumes "fb j x" "fb k y" "fb j x'" "fb k y'" "j + k \<le> 900" "fle x x'" "fle y y'"
  shows "fle (fmul x y) (fmul x' y')"
proof -
  obtain p q p' q' where x: "x = Fin p" "0 \<le> p" "p \<le> 2 ^ j" and y: "y = Fin q" "0 \<le> q" "q \<le> 2 ^ k"
    and x': "x' = Fin p'" "0 \<le> p'" "p' \<le> 2 ^ j" and y': "y' = Fin q'" "0 \<le> q'" "q' \<le> 2 ^ k"
    using assms(1-4) by (auto elim!: fbE)
  have b: "p * q \<le> 2 ^ (j + k)" "p' * q' \<le> 2 ^ (j + k)" using x y x' y' by (simp_all add: power_add mult_mono)
  have "rnd64 (p * q) \<le> rnd64 (p' * q')"
    using assms(6,7) x y x' y' by (intro b64.mult_mono_round) auto
  then show ?thesis
    using to_float_fb [OF _ b(1) assms(5)] to_float_fb [OF _ b(2) assms(5)] x y x' y' by simp
qed

lemma fb_refl: "fb k x \<Longrightarrow> fle x x"
  by (elim fbE) simp

lemma fb_finite: "fb k x \<Longrightarrow> is_finite x"
  by (elim fbE) simp

lemma unit_range_fb: "unit_range x \<Longrightarrow> fb 0 x"
  by (auto simp: unit_range_iff fb_def)

lemma int_to_float_fb:
  assumes "0 \<le> n" "n \<le> 2 ^ k" "k \<le> 900" shows "\<exists>x. int_to_float n = Inr x \<and> fb k x"
proof -
  have "(of_int n :: rat) \<le> of_int (2 ^ k)" using assms(2) by (simp only: of_int_le_iff)
  then have le: "(of_int n :: rat) \<le> 2 ^ k" by simp
  show ?thesis using to_float_fb [OF _ le assms(3)] assms(1) by (simp add: int_to_float_def)
qed

lemma fdiv_fb:
  assumes "fb j x" "fle (Fin (1 / 2 ^ k)) y" "is_finite y" "j + k \<le> 900"
  shows "\<exists>z. fdiv x y = Inr z \<and> fb (j + k) z"
proof -
  obtain p where x: "x = Fin p" "0 \<le> p" "p \<le> 2 ^ j" using assms(1) by (auto elim!: fbE)
  obtain q where y: "y = Fin q" using assms(3) by (auto simp: is_finite_iff)
  have q: "1 / 2 ^ k \<le> q" using assms(2) y by simp
  then have pos: "0 < q" by (rule less_le_trans [rotated]) simp
  have "p / q \<le> 2 ^ j / (1 / 2 ^ k)" using x q by (intro frac_le) auto
  then have "p / q \<le> 2 ^ (j + k)" by (simp add: power_add)
  from to_float_fb [OF _ this assms(4)] show ?thesis using x y pos by simp
qed

lemma fmin_mono_fb:
  assumes "fb k x" "fb k x'" "fb k c" "fle x x'"
  shows "fle (fmin x [c]) (fmin x' [c]) \<and> fb k (fmin x [c]) \<and> fb k (fmin x' [c])"
  using assms by (cases x; cases x'; cases c) (auto simp: fmin_def fb_def)

lemma ordered_scenarios:
  assumes "fb k c" "fle c b" "fle b o3"
  shows "revenue_scenarios_post_init c b o3 = Inr \<lparr>conservative = c, base = b, optimistic = o3\<rparr>"
  using assms by (intro revenue_scenarios_post_init_total) (auto elim!: fbE)

text \<open>
  The magnitudes within which the totality of the revenue models is stated: every quantity at
  most \<open>2^100\<close> (about 1.3e30) and a service duration of at least \<open>2^-100\<close> hours.
\<close>

definition modest :: "pyfloat \<Rightarrow> bool" where
  "modest x = fb 100 x"

fun revenue_accepted :: "revenue_input \<Rightarrow> bool" where
  "revenue_accepted (Coffee_Input r) = (coffee_post_init r = Inr r)"
| "revenue_accepted (Restaurant_Input r) = (restaurant_post_init r = Inr r)"
| "revenue_accepted (Gym_Input r) = (gym_post_init r = Inr r)"
| "revenue_accepted (Beauty_Input r) = (beauty_post_init r = Inr r)"

fun revenue_magnitudes :: "revenue_input \<Rightarrow> bool" where
  "revenue_magnitudes (Coffee_Input r) = (modest (cof_target_population r)
     \<and> modest (cof_visit_frequency_per_month r) \<and> modest (cof_average_ticket r))"
| "revenue_magnitudes (Restaurant_Input r) = (res_seats r \<le> 2 ^ 100 \<and> modest (res_turnover_per_day r)
     \<and> modest (res_average_ticket r) \<and> res_operating_days_per_month r \<le> 2 ^ 100)"
| "revenue_magnitudes (Gym_Input r) = (modest (gym_target_population r) \<and> modest (gym_usable_area r)
     \<and> modest (gym_members_per_area_unit r) \<and> modest (gym_monthly_membership_fee r))"
| "revenue_magnitudes (Beauty_Input r) = (bty_stations r \<le> 2 ^ 100
     \<and> modest (bty_operating_hours_per_week r) \<and> modest (bty_average_service_duration_hours r)
     \<and> fle (Fin (1 / 2 ^ 100)) (bty_average_service_duration_hours r) \<and> modest (bty_average_ticket r))"

definition revenue_validated :: "revenue_input \<Rightarrow> bool" where
  [simp]: "revenue_validated d = (revenue_accepted d \<and> revenue_magnitudes d)"

text \<open>
  A scenario as a function of its rate: bounded and monotone on the unit interval. The four
  sector models are built from the closure rules.
\<close>

definition scenario_fun :: "nat \<Rightarrow> (pyfloat \<Rightarrow> pyfloat) \<Rightarrow> bool" where
  "scenario_fun k f = (\<forall>x y. fb 0 x \<and> fb 0 y \<longrightarrow> fb k (f x) \<and> (fle x y \<longrightarrow> fle (f x) (f y)))"

lemma scenario_fun_const_mul:
  assumes "fb j c" "j \<le> 900" shows "scenario_fun j (\<lambda>x. fmul c x)"
  unfolding scenario_fun_def
proof (intro allI impI conjI)
  fix x y assume xy: "fb 0 x \<and> fb 0 y"
  show "fb j (fmul c x)" using fmul_fb [OF assms(1), of 0 x] xy assms(2) by simp
  show "fle (fmul c x) (fmul c y)" if "fle x y"
    using xy that assms fb_refl [OF assms(1)] by (intro fmul_mono_fb [where j = j and k = 0]) simp_all
qed

lemma scenario_fun_mul:
  assumes "scenario_fun k f" "fb j c" "k + j \<le> 900" shows "scenario_fun (k + j) (\<lambda>x. fmul (f x) c)"
  unfolding scenario_fun_def
proof (intro allI impI conjI)
  fix x y assume xy: "fb 0 x \<and> fb 0 y"
  then have f: "fb k (f x)" "fb k (f y)" "fle x y \<longrightarrow> fle (f x) (f y)"
    using assms(1) unfolding scenario_fun_def by blast+
  show "fb (k + j) (fmul (f x) c)" using f(1) assms(2,3) by (rule fmul_fb)
  show "fle (fmul (f x) c) (fmul (f y) c)" if "fle x y"
    using f that assms(2,3) fb_refl [OF assms(2)] by (intro fmul_mono_fb [where j = k and k = j]) simp_all
qed

lemma scenario_fun_min:
  assumes "scenario_fun k f" "fb k c" shows "scenario_fun k (\<lambda>x. fmin (f x) [c])"
  unfolding scenario_fun_def
proof (intro allI impI conjI)
  fix x y assume xy: "fb 0 x \<and> fb 0 y"
  then have f: "fb k (f x)" "fb k (f y)" "fle x y \<longrightarrow> fle (f x) (f y)"
    using assms(1) unfolding scenario_fun_def by blast+
  show "fb k (fmin (f x) [c])" using fmin_mono_fb [OF f(1,1) assms(2) fb_refl [OF f(1)]] by simp
  show "fle (fmin (f x) [c]) (fmin (f y) [c])" if "fle x y"
    using fmin_mono_fb [OF f(1,2) assms(2)] f(3) that by simp
qed

lemma scenarios_in_order:
  assumes "scenario_fun k f" "list_all unit_range [c, b, o3]" "ordered3 c b o3"
  shows "revenue_scenarios_post_init (f c) (f b) (f o3)
      = Inr \<lparr>conservative = f c, base = f b, optimistic = f o3\<rparr>"
    and "fb k (f c)" "fb k (f b)" "fb k (f o3)" "fle (f c) (f b)" "fle (f b) (f o3)"
proof -
  have u: "fb 0 c" "fb 0 b" "fb 0 o3" using assms(2) by (simp_all add: unit_range_fb)
  show 1: "fb k (f c)" "fb k (f b)" "fb k (f o3)" "fle (f c) (f b)" "fle (f b) (f o3)"
    using assms(1,3) u unfolding scenario_fun_def ordered3_def by blast+
  then show "revenue_scenarios_post_init (f c) (f b) (f o3)
      = Inr \<lparr>conservative = f c, base = f b, optimistic = f o3\<rparr>" by (intro ordered_scenarios)
qed

text \<open>What every sector model delivers on validated inputs.\<close>

definition good_revenue :: "(py_error, revenue_scenarios) result \<Rightarrow> bool" where
  "good_revenue x = (case x of Inl _ \<Rightarrow> False
     | Inr r \<Rightarrow> fb 700 (conservative r) \<and> fb 700 (base r) \<and> fb 700 (optimistic r)
         \<and> fle (conservative r) (base r) \<and> fle (base r) (optimistic r))"

lemma good_revenueI:
  assumes "scenario_fun k f" "k \<le> 700" "list_all unit_range [c, b, o3]" "ordered3 c b o3"
  shows "good_revenue (revenue_scenarios_post_init (f c) (f b) (f o3))"
  using scenarios_in_order [OF assms(1,3,4)] fb_mono [OF _ assms(2)] by (simp add: good_revenue_def)

lemma coffee_revenue_ok:
  "revenue_validated (Coffee_Input d) \<Longrightarrow> good_revenue (calculate_coffee_revenue d)"
proof -
  assume "revenue_validated (Coffee_Input d)"
  then have v: "fb 0 (cof_target_rate d)"
      "list_all unit_range [cof_capture_rate_conservative d, cof_capture_rate_base d, cof_capture_rate_optimistic d]"
      "ordered3 (cof_capture_rate_conservative d) (cof_capture_rate_base d) (cof_capture_rate_optimistic d)"
    and m: "fb 100 (cof_target_population d)" "fb 100 (cof_visit_frequency_per_month d)"
      "fb 100 (cof_average_ticket d)"
    by (auto simp: coffee_post_init_def modest_def unit_range_fb split: if_splits)
  have "fb 100 (fmul (cof_target_population d) (cof_target_rate d))"
    using fmul_fb [OF m(1) v(1)] by simp
  from scenario_fun_mul [OF scenario_fun_mul [OF scenario_fun_const_mul [OF this] m(2)] m(3)]
  have "scenario_fun 300 (\<lambda>rate. fmul (fmul (fmul (fmul (cof_target_population d) (cof_target_rate d)) rate)
      (cof_visit_frequency_per_month d)) (cof_average_ticket d))" by simp
  from good_revenueI [OF this _ v(2,3)] show ?thesis by (simp add: calculate_coffee_revenue_def)
qed

lemma restaurant_revenue_ok:
  "revenue_validated (Restaurant_Input d) \<Longrightarrow> good_revenue (calculate_restaurant_revenue d)"
proof -
  assume "revenue_validated (Restaurant_Input d)"
  then have v: "list_all unit_range [res_utilization_conservative d, res_utilization_base d, res_utilization_optimistic d]"
      "ordered3 (res_utilization_conservative d) (res_utilization_base d) (res_utilization_optimistic d)"
    and m: "fb 100 (res_turnover_per_day d)" "fb 100 (res_average_ticket d)"
    and n: "0 \<le> res_seats d" "res_seats d \<le> 2 ^ 100" "0 \<le> res_operating_days_per_month d"
      "res_operating_days_per_month d \<le> 2 ^ 100"
    by (auto simp: restaurant_post_init_def modest_def split: if_splits)
  obtain s where s: "int_to_float (res_seats d) = Inr s" "fb 100 s"
    using int_to_float_fb [OF n(1,2)] by auto
  obtain t where t: "int_to_float (res_operating_days_per_month d) = Inr t" "fb 100 t"
    using int_to_float_fb [OF n(3,4)] by auto
  have "fb 200 (fmul s (res_turnover_per_day d))" using fmul_fb [OF s(2) m(1)] by simp
  from scenario_fun_mul [OF scenario_fun_mul [OF scenario_fun_const_mul [OF this] m(2)] t(2)]
  have "scenario_fun 400 (\<lambda>u. fmul (fmul (fmul (fmul s (res_turnover_per_day d)) u) (res_average_ticket d)) t)"
    by simp
  from good_revenueI [OF this _ v] show ?thesis
    by (simp add: calculate_restaurant_revenue_def restaurant_scenario_def s(1) t(1) Let_def)
qed

lemma gym_revenue_ok:
  "revenue_validated (Gym_Input d) \<Longrightarrow> good_revenue (calculate_gym_revenue d)"
proof -
  assume "revenue_validated (Gym_Input d)"
  then have v: "list_all unit_range [gym_penetration_rate_conservative d, gym_penetration_rate_base d, gym_penetration_rate_optimistic d]"
      "ordered3 (gym_penetration_rate_conservative d) (gym_penetration_rate_base d) (gym_penetration_rate_optimistic d)"
    and m: "fb 100 (gym_target_population d)" "fb 100 (gym_usable_area d)" "fb 100 (gym_members_per_area_unit d)"
      "fb 100 (gym_monthly_membership_fee d)"
    by (auto simp: gym_post_init_def modest_def split: if_splits)
  have cap: "fb 200 (fmul (gym_usable_area d) (gym_members_per_area_unit d))" using fmul_fb [OF m(2,3)] by simp
  have "scenario_fun 200 (\<lambda>rate. fmul (gym_target_population d) rate)"
    by (rule scenario_fun_const_mul [OF fb_mono [OF m(1)]]) simp_all
  from scenario_fun_mul [OF scenario_fun_min [OF this cap] m(4)]
  have "scenario_fun 300 (\<lambda>rate. fmul (fmin (fmul (gym_target_population d) rate)
      [fmul (gym_usable_area d) (gym_members_per_area_unit d)]) (gym_monthly_membership_fee d))" by simp
  from good_revenueI [OF this _ v] show ?thesis by (simp add: calculate_gym_revenue_def Let_def)
qed

lemma beauty_revenue_ok:
  "revenue_validated (Beauty_Input d) \<Longrightarrow> good_revenue (calculate_beauty_revenue d)"
proof -
  assume "revenue_validated (Beauty_Input d)"
  then have v: "list_all unit_range [bty_utilization_conservative d, bty_utilization_base d, bty_utilization_optimistic d]"
      "ordered3 (bty_utilization_conservative d) (bty_utilization_base d) (bty_utilization_optimistic d)"
    and m: "fb 100 (bty_operating_hours_per_week d)" "fb 100 (bty_average_ticket d)"
    and dur: "fle (Fin (1 / 2 ^ 100)) (bty_average_service_duration_hours d)"
      "fb 100 (bty_average_service_duration_hours d)"
    and n: "0 \<le> bty_stations d" "bty_stations d \<le> 2 ^ 100"
    by (auto simp: beauty_post_init_def modest_def split: if_splits)
  obtain s where s: "int_to_float (bty_stations d) = Inr s" "fb 100 s"
    using int_to_float_fb [OF n] by auto
  have "fb 200 (fmul s (bty_operating_hours_per_week d))" using fmul_fb [OF s(2) m(1)] by simp
  from fdiv_fb [OF this dur(1) fb_finite [OF dur(2)]]
  obtain z where z: "fdiv (fmul s (bty_operating_hours_per_week d)) (bty_average_service_duration_hours d) = Inr z"
      "fb 300 z"
    by auto
  have w: "fb 3 (to_float (433 / 100))" by (simp add: fb_def float_intro)
  from scenario_fun_mul [OF scenario_fun_mul [OF scenario_fun_const_mul [OF z(2)] m(2)] w]
  have "scenario_fun 403 (\<lambda>u. fmul (fmul (fmul z u) (bty_average_ticket d)) (to_float (433 / 100)))" by simp
  from good_revenueI [OF this _ v] show ?thesis
    by (simp add: calculate_beauty_revenue_def s(1) z(1) Let_def)
qed

lemma good_calculate_revenue:
  assumes "sector_input_type sec d" "revenue_validated d"
  shows "good_revenue (calculate_revenue sec d)"
  using assms coffee_revenue_ok restaurant_revenue_ok gym_revenue_ok beauty_revenue_ok
  by (cases sec; cases d) (simp_all add: calculate_revenue_def del: revenue_validated_def)

text \<open>
  For every sector, a revenue input that its dataclass accepted, whose quantities are at most 2^100
  and whose service duration, in the beauty sector, is at least 2^-100 hours, gives three finite,
  non-negative scenarios in the order conservative, base, optimistic; no sector model raises on it.
\<close>

lemma revenue_in_order:
  assumes "sector_input_type sec d" "revenue_accepted d" "revenue_magnitudes d"
  shows "\<exists>r. calculate_revenue sec d = Inr r \<and> is_finite (optimistic r) \<and>
    fle (Fin 0) (conservative r) \<and> fle (conservative r) (base r) \<and> fle (base r) (optimistic r)"
  using good_calculate_revenue [of sec d] assms
  by (auto simp: good_revenue_def is_finite_def elim!: fbE split: sum.splits)

text \<open>
  Without the bound on the duration the statement is false: a beauty salon that is accepted with the
  smallest positive duration and no utilization has infinitely many slots, \<open>inf * 0\<close> is not a number,
  and \<open>RevenueScenarios\<close> refuses the scenarios.
\<close>

definition tiny_duration :: beauty_input where
  "tiny_duration = \<lparr>bty_stations = 1, bty_operating_hours_per_week = Fin 1, bty_average_service_duration_hours = Fin (1 / 2 ^ 1074),
     bty_utilization_conservative = Fin 0, bty_utilization_base = Fin 0, bty_utilization_optimistic = Fin 0,
     bty_average_ticket = Fin 1\<rparr>"

lemma tiny_slots: "to_float (2 ^ 1074) = PInf"
proof -
  have "rnd64 (2 ^ 1074) = 2 ^ 1074" using rnd64_representable [of 1 1074] by (simp add: pow2_def del: power_numeral)
  moreover have "overflow_limit \<le> 2 ^ 1074"
    using power_increasing [of 1024 1074 "2 :: rat"] by (simp add: overflow_limit_def del: power_numeral)
  ultimately show ?thesis by (simp add: to_float_def Let_def del: power_numeral)
qed

lemma tiny_duration_raises:
  "revenue_accepted (Beauty_Input tiny_duration) \<and> calculate_revenue Beauty (Beauty_Input tiny_duration)
    = Inl (ValueError ''Revenue scenarios must satisfy conservative <= base <= optimistic'')"
proof
  have dur: "(0 :: rat) < 1 / 2 ^ 1074" by (simp del: power_numeral)
  then show "revenue_accepted (Beauty_Input tiny_duration)"
    by (simp add: tiny_duration_def beauty_post_init_def unit_range_def ordered3_def del: power_numeral)
  have "fdiv (fmul (Fin 1) (Fin 1)) (Fin (1 / 2 ^ 1074)) = Inr PInf"
    using dur tiny_slots by (simp add: fmul_def fdiv_def float_intro del: power_numeral)
  then show "calculate_revenue Beauty (Beauty_Input tiny_duration)
      = Inl (ValueError ''Revenue scenarios must satisfy conservative <= base <= optimistic'')"
    by (simp add: calculate_revenue_def calculate_beauty_revenue_def tiny_duration_def int_to_float_def float_intro fmul_def
        inf_signed_def fsign_def Let_def revenue_scenarios_post_init_def fmin_def flt_def fle_def del: power_numeral)
qed

lemma to_float_mono: "a \<le> b \<Longrightarrow> fle (to_float a) (to_float b)"
  using rnd64_mono [of a b] by (auto simp: to_float_def Let_def fle_def flt_def overflow_limit_def)

lemma to_float_nonneg: "0 \<le> q \<Longrightarrow> fle (Fin 0) (to_float q)"
  using b64.nonneg [of q] by (auto simp: to_float_def Let_def fle_def flt_def overflow_limit_def)

lemma to_float_not_neg: "0 \<le> q \<Longrightarrow> \<not> flt (to_float q) (Fin 0)"
  using to_float_nonneg [of q] by (simp add: fle_def)

lemma fround6_mono: "fle x y \<Longrightarrow> fle (fround6 x) (fround6 y)"
  by (cases x; cases y) (auto simp: fround6_def fle_def flt_def round6_mono not_less)

lemma min_not_neg: "\<not> flt (fmin x [y, z]) (Fin 0) \<Longrightarrow> is_nan x \<or>
   (\<not> flt x (Fin 0) \<and> (is_nan y \<or> \<not> flt y (Fin 0)) \<and> (is_nan z \<or> \<not> flt z (Fin 0)))"
  by (cases x; cases y; cases z) (auto simp: fmin_def flt_def is_nan_def split: if_splits)

lemma fadd_not_neg:
  assumes "is_nan x \<or> \<not> flt x (Fin 0)" "is_nan y \<or> \<not> flt y (Fin 0)"
  shows "is_nan (fadd x y) \<or> \<not> flt (fadd x y) (Fin 0)"
proof (cases "\<exists>a b. x = Fin a \<and> y = Fin b")
  case True
  then obtain a b where ab: "x = Fin a" "y = Fin b" by blast
  with assms have "0 \<le> a + b" by (auto simp: is_nan_def not_less)
  with ab to_float_not_neg show ?thesis by simp
next
  case False
  then show ?thesis using assms by (cases x; cases y) (auto simp: fadd_def flt_def is_nan_def)
qed

lemma fadd_nan: "is_nan x \<Longrightarrow> is_nan (fadd x y)" "is_nan y \<Longrightarrow> is_nan (fadd x y)"
  by (cases x; cases y; simp add: fadd_def is_nan_def)+

lemma fixed_costs_not_neg:
  "calculate_fixed_costs rent labor overhead = Inr x \<Longrightarrow> \<not> flt x (Fin 0)"
proof -
  assume x: "calculate_fixed_costs rent labor overhead = Inr x"
  then have m: "\<not> flt (fmin rent [labor, overhead]) (Fin 0)" and xe: "x = fadd (fadd rent labor) overhead"
    by (auto simp: calculate_fixed_costs_def split: if_splits)
  have "is_nan x \<or> \<not> flt x (Fin 0)"
    using min_not_neg [OF m] fadd_not_neg [of rent labor] fadd_not_neg [of "fadd rent labor" overhead]
      fadd_nan unfolding xe by blast
  then show ?thesis by (auto simp: is_nan_def flt_def)
qed

lemma fdiv_total: "y \<noteq> Fin 0 \<Longrightarrow> \<exists>z. fdiv x y = Inr z"
  by (auto simp: fdiv_def)

lemma feq_zero: "feq x (Fin 0) \<longleftrightarrow> x = Fin 0"
  by (auto simp: feq_def)

lemma coverage_ratio_total: "\<exists>z. coverage_ratio x y = Inr z"
  using fdiv_total [of y x] by (auto simp: coverage_ratio_def feq_zero)

lemma percent_of_total: "y \<noteq> Fin 0 \<Longrightarrow> \<exists>z. percent_of x y = Inr z"
  using fdiv_total [of y x] by (auto simp: percent_of_def)

text \<open>The contribution margin ratio \<open>1.0 - variable_cost_ratio\<close> of a sector.\<close>

lemma contribution_margin:
  "\<exists>r. fsub (Fin 1) (variable_cost_ratio (financial_priors sec)) = Fin r \<and> 1 / 4 \<le> r \<and> r \<le> 1"
proof -
  have "case variable_cost_ratio (financial_priors sec) of Fin v \<Rightarrow> 0 \<le> v \<and> v \<le> 3 / 4 | _ \<Rightarrow> False"
    by (cases sec) (simp_all add: float_intro)
  then obtain v where v: "variable_cost_ratio (financial_priors sec) = Fin v" "0 \<le> v" "v \<le> 3 / 4"
    by (auto split: pyfloat.splits)
  have "1 / 4 \<le> rnd64 (1 - v)" by (rule b64.ge_repr) (use v in \<open>simp_all add: rnd64_quarter\<close>)
  moreover have "rnd64 (1 - v) \<le> 1" by (rule b64.le_one) (use v in simp)
  ultimately show ?thesis using v by simp
qed

lemma vcr_ok: "fle (Fin 0) (variable_cost_ratio (financial_priors sec))
    \<and> flt (variable_cost_ratio (financial_priors sec)) (Fin 1)"
  by (cases sec) (simp_all add: float_intro)

lemma break_even_Inr:
  "\<not> flt x (Fin 0) \<Longrightarrow> \<exists>be. calculate_break_even_revenue x
     (fsub (Fin 1) (variable_cost_ratio (financial_priors sec))) = Inr be"
  using contribution_margin [of sec] fdiv_total [of "fsub (Fin 1) (variable_cost_ratio (financial_priors sec))" x]
  by (auto simp: calculate_break_even_revenue_def)

lemma financial_metrics_cases:
  "calculate_financial_metrics sec rv rent labor overhead up =
     (if flt (fmin rent [labor, overhead]) (Fin 0) then Inl (ValueError ''fixed costs cannot be negative'')
      else if flt (base rv) (Fin 0) then Inl (ValueError ''revenue cannot be negative'')
      else if (case up of None \<Rightarrow> False | Some u \<Rightarrow> fle u (Fin 0)) then Inl (ValueError ''unit_price must be > 0'')
      else Inr (projr (calculate_financial_metrics sec rv rent labor overhead up)))"
proof (cases "flt (fmin rent [labor, overhead]) (Fin 0) \<or> flt (base rv) (Fin 0)")
  case True
  then show ?thesis
    by (auto simp: calculate_financial_metrics_def calculate_fixed_costs_def calculate_variable_cost_def Let_def)
next
  case False
  define vcr where "vcr = variable_cost_ratio (financial_priors sec)"
  obtain fixed where f: "calculate_fixed_costs rent labor overhead = Inr fixed"
    using False by (simp add: calculate_fixed_costs_def)
  obtain vc where vc: "calculate_variable_cost (base rv) vcr = Inr vc"
    using False vcr_ok [of sec] by (simp add: calculate_variable_cost_def vcr_def)
  obtain be where be: "calculate_break_even_revenue fixed (fsub (Fin 1) vcr) = Inr be"
    using break_even_Inr [OF fixed_costs_not_neg [OF f]] by (auto simp: vcr_def)
  obtain b1 b2 where b: "coverage_ratio (base rv) be = Inr b1" "coverage_ratio (conservative rv) be = Inr b2"
    using coverage_ratio_total by blast
  have p1: "\<exists>z. (if feq (base rv) (Fin 0) \<and> feq rent (Fin 0) then Inr (Fin 0)
      else if feq (base rv) (Fin 0) then Inr PInf else percent_of rent (base rv)) = Inr z"
    and p2: "\<exists>z. (if feq (base rv) (Fin 0) then Inr (Fin 0) else percent_of prof (base rv)) = Inr z" for prof
    using percent_of_total [of "base rv"] by (auto simp: feq_zero)
  show ?thesis
  proof (cases "case up of None \<Rightarrow> False | Some u \<Rightarrow> fle u (Fin 0)")
    case True
    then obtain u where "up = Some u" "fle u (Fin 0)" by (auto split: option.splits)
    with False p1 p2 [of "fsub (fsub (base rv) vc) fixed"] show ?thesis
      by (auto simp: calculate_financial_metrics_def vcr_def [symmetric] f vc be b Let_def)
  next
    case up: False
    have "\<exists>v. (case up of None \<Rightarrow> Inr None
            | Some up \<Rightarrow> (if fle up (Fin 0) then Inl (ValueError ''unit_price must be > 0'')
                 else rbind (arith (fdiv be up)) (\<lambda>v. Inr (Some v)))) = Inr v"
    proof (cases up)
      case (Some u)
      with up have "u \<noteq> Fin 0" by auto
      from fdiv_total [OF this, of be] Some up show ?thesis by auto
    qed simp
    with False up p1 p2 [of "fsub (fsub (base rv) vc) fixed"] show ?thesis
      by (auto simp: calculate_financial_metrics_def vcr_def [symmetric] f vc be b Let_def)
  qed
qed

lemma financial_metrics_total:
  "\<not> flt (fmin rent [labor, overhead]) (Fin 0) \<Longrightarrow> \<not> flt (base rv) (Fin 0) \<Longrightarrow>
   (\<And>u. up = Some u \<Longrightarrow> \<not> fle u (Fin 0)) \<Longrightarrow>
   \<exists>f. calculate_financial_metrics sec rv rent labor overhead up = Inr f"
  by (subst financial_metrics_cases) (auto split: option.splits)

text \<open>
  C30: the complete error behaviour of the financial engine: it raises exactly when a fixed cost
  is negative, the base revenue is negative or a given unit price is not positive, with that
  precedence; every division is guarded, so it never raises ZeroDivisionError, not even for a
  zero revenue or zero fixed costs.
\<close>

theorem financial_metrics_errors:
  "calculate_financial_metrics sec rv rent labor overhead up =
     (if flt (fmin rent [labor, overhead]) (Fin 0) then Inl (ValueError ''fixed costs cannot be negative'')
      else if flt (base rv) (Fin 0) then Inl (ValueError ''revenue cannot be negative'')
      else if (case up of None \<Rightarrow> False | Some u \<Rightarrow> fle u (Fin 0)) then Inl (ValueError ''unit_price must be > 0'')
      else Inr (projr (calculate_financial_metrics sec rv rent labor overhead up)))"
  by (rule financial_metrics_cases)

lemma coverage_ratio_mono:
  assumes "fle x y" "is_finite y" "fle (Fin 0) x" "\<not> flt be (Fin 0)" "is_finite be"
    and "coverage_ratio x be = Inr b1" "coverage_ratio y be = Inr b2"
  shows "fle b1 b2"
proof -
  obtain p q e where "x = Fin p" "y = Fin q" "be = Fin e" "0 \<le> p" "p \<le> q" "0 \<le> e"
    using assms(1-5) by (cases x; cases y; cases be) (auto simp: fle_def flt_def is_finite_def)
  then show ?thesis
    using assms(6,7) to_float_mono [of "p / e" "q / e"]
    by (auto simp: coverage_ratio_def fle_refl divide_right_mono split: if_splits)
qed

lemma fround6_1: "fle (Fin 1) x \<Longrightarrow> fle (Fin 1) (fround6 x)"
  using fround6_mono [of "Fin 1" x] round6_int [of 1] by simp

text \<open>
  The stress test and the decision agree. If the conservative scenario covers the break-even
  revenue (the stress test does not fail), the base coverage is at least 1, the financial band
  is not \<open>non_viable\<close>, and the decision is none of the three classes for toxic or weak economics.
\<close>

theorem stress_test_passed_viable:
  assumes "fle (Fin 0) (conservative rv)" "fle (conservative rv) (base rv)" "is_finite (base rv)"
    and "is_finite (fadd (fadd rent labor) overhead)"
    and "calculate_financial_metrics sec rv rent labor overhead up = Inr f"
    and "\<not> stress_test_failed f"
  shows "fle (Fin 1) (bec_base f) \<and> financial_band_of (bec_base f) \<noteq> ''non_viable'' \<and>
    decision_class (calculate_decision loc f) \<notin> {''tourist_trap'', ''weak_site_weak_economics'', ''dead_end''}"
proof -
  define cmr where "cmr = fsub (Fin 1) (variable_cost_ratio (financial_priors sec))"
  obtain fixed be b1 b2 where f: "calculate_fixed_costs rent labor overhead = Inr fixed"
    and be: "calculate_break_even_revenue fixed cmr = Inr be"
    and b: "coverage_ratio (base rv) be = Inr b1" "coverage_ratio (conservative rv) be = Inr b2"
    and r: "bec_base f = fround6 b1" "stress_test_failed f = flt b2 (Fin 1)"
    using assms(5) unfolding calculate_financial_metrics_def cmr_def Let_def rbind_Inr_iff by auto
  obtain m where cm: "cmr = Fin m" "1 / 4 \<le> m" "m \<le> 1" using contribution_margin [of sec] by (auto simp: cmr_def)
  have fx: "fixed = fadd (fadd rent labor) overhead" "\<not> flt fixed (Fin 0)"
    using f fixed_costs_not_neg [OF f] by (auto simp: calculate_fixed_costs_def split: if_splits)
  then obtain x where x: "fixed = Fin x" "0 \<le> x" using assms(4) by (auto simp: is_finite_iff)
  have bef: "be = to_float (x / m)" using be cm x by (auto simp: calculate_break_even_revenue_def split: if_splits)
  have nn: "\<not> flt be (Fin 0)" using bef x cm to_float_not_neg [of "x / m"] by simp
  have "fle b2 b1"
  proof (cases "is_finite be")
    case True
    show ?thesis using assms(1-3) nn True b by (intro coverage_ratio_mono [OF assms(2,3,1) nn True b(2,1)])
  next
    case False
    then have "be = PInf" using nn bef by (auto simp: to_float_def Let_def flt_def split: if_splits)
    then show ?thesis using assms(1-3) b
      by (cases "base rv"; cases "conservative rv")
        (auto simp: coverage_ratio_def feq_def fdiv_def fle_def flt_def is_finite_def)
  qed
  moreover have "fle (Fin 1) b2"
    using assms(6) \<open>fle b2 b1\<close> unfolding r(2) by (auto simp: fle_def)
  ultimately have "fle (Fin 1) b1" by (blast intro: fle_trans)
  then have one: "fle (Fin 1) (bec_base f)" unfolding r(1) by (rule fround6_1)
  then show ?thesis
    by (auto simp: financial_band_of_def calculate_decision_def decision_cell_def bec_thin_min_def)
qed

section \<open>Concrete runs\<close>

definition sample_scores :: category_scores where
  "sample_scores = \<lparr>demand = Fin 80, competition = Fin 20, accessibility = Fin 70, economics = Fin 55\<rparr>"

definition better_scores :: category_scores where
  "better_scores = \<lparr>demand = Fin 90, competition = Fin 25, accessibility = Fin 70, economics = Fin 55\<rparr>"

lemma sample_scores_ok [simp]: "scores_ok sample_scores" "scores_ok better_scores"
proof -
  have "bounded (score_of sample_scores c) = Inr (score_of sample_scores c)
      \<and> bounded (score_of better_scores c) = Inr (score_of better_scores c)" for c
    by (cases c) (simp_all add: bounded_def sample_scores_def better_scores_def)
  then show "scores_ok sample_scores" "scores_ok better_scores" by (simp_all add: scores_ok_def)
qed

theorem location_score_bounds_witness:
  "\<exists>b m f band risk.
    calculate_location_score Coffee sample_scores = Inr \<lparr>base_score = Fin b, penalty_multiplier = Fin m,
      final_score = Fin f, structural_band = band, dominant_risk_category = risk\<rparr> \<and>
    0 \<le> b \<and> b \<le> 100 \<and> 1 / 2 \<le> m \<and> m \<le> 1 \<and> 0 \<le> f \<and> f \<le> b"
  by (rule location_score_bounds [of "Fin 80" "Fin 20" "Fin 70" "Fin 55"])
     (simp add: category_scores_post_init_def bounded_def sample_scores_def)

theorem location_score_mono_witness:
  "\<exists>r r'. calculate_location_score Gym sample_scores = Inr r \<and>
    calculate_location_score Gym better_scores = Inr r' \<and>
    fle (base_score r) (base_score r') \<and> fle (penalty_multiplier r) (penalty_multiplier r')
    \<and> fle (final_score r) (final_score r')"
proof -
  have le: "fle (score_of sample_scores c) (score_of better_scores c)" for c
    by (cases c) (simp_all add: sample_scores_def better_scores_def)
  obtain r r' where r: "calculate_location_score Gym sample_scores = Inr r"
      "calculate_location_score Gym better_scores = Inr r'"
    using location_score_formula [of sample_scores Gym] location_score_formula [of better_scores Gym] by auto
  from location_score_mono [OF sample_scores_ok le r] r show ?thesis by blast
qed

lemma sample_penalty_1: "rnd64 (1 / 3) = 6004799503160661 / 18014398509481984"
  by (subst rnd64_known [of "1 / 3" "-54" "6004799503160661"]) (simp_all add: pow2_def)

lemma sample_penalty_2: "rnd64 (36057617073158521194928777956921 / 324518553658426726783156020576256) = 2001599834386887 / 18014398509481984"
  by (subst rnd64_known [of "36057617073158521194928777956921 / 324518553658426726783156020576256" "-56" "8006399337547548"]) (simp_all add: pow2_def)

lemma sample_penalty_3: "rnd64 (7211523414631705039625689346139 / 162259276829213363391578010288128) = 6405119470038039 / 144115188075855872"
  by (subst rnd64_known [of "7211523414631705039625689346139 / 162259276829213363391578010288128" "-57" "6405119470038039"]) (simp_all add: pow2_def)

lemma sample_penalty_4: "rnd64 (137710068605817833 / 144115188075855872) = 8606879287863615 / 9007199254740992"
  by (subst rnd64_known [of "137710068605817833 / 144115188075855872" "-53" "8606879287863615"]) (simp_all add: pow2_def)

theorem dominant_risk_sound_witness:
  "\<exists>r p. calculate_location_score Coffee sample_scores = Inr r \<and>
    dominant_risk_category r = Some ''competition'' \<and> penalty_multiplier r = Fin (round6 p) \<and> p < 1"
proof -
  have q: "score_rat sample_scores Demand = 80" "score_rat sample_scores Competition = 20"
    "score_rat sample_scores Accessibility = 70" "score_rat sample_scores Economics = 55"
    by (simp_all add: score_rat_def sample_scores_def)
  have p: "calculate_penalty (score_of sample_scores c) (threshold (get_rule Coffee c))
      (max_penalty (get_rule Coffee c)) = Inr (Fin (rule_pen Coffee c (score_rat sample_scores c)))" for c
    using rule_penalty_Fin [of "score_rat sample_scores c" Coffee c] score_rat [of sample_scores c] by simp
  have c1: "rule_pen Coffee Competition 20 \<noteq> 1"
    by (simp add: rule_pen_def rule_def pen_def Let_def float_intro sample_penalty_1 sample_penalty_2 sample_penalty_3 sample_penalty_4)
  obtain r where r: "calculate_location_score Coffee sample_scores = Inr r"
    using location_score_formula [of sample_scores Coffee] by auto
  note s = dominant_risk_sound [OF sample_scores_ok(1) r, unfolded p]
  have "dominant_risk_category r \<noteq> None" using s c1 q by (metis Inr_inject pyfloat.inject)
  then obtain name where nm: "dominant_risk_category r = Some name" by auto
  from s [THEN conjunct2, rule_format, OF nm]
  obtain c pv where c: "name = category_value c" "pv < 1"
      "penalty_multiplier r = Fin (round6 pv)" "rule_pen Coffee c (score_rat sample_scores c) = pv"
    by blast
  have "c = Competition"
    using c(2,4) q by (cases c) (simp_all add: rule_pen_def rule_def pen_def float_intro)
  with c r nm show ?thesis by auto
qed

definition sample_gym :: gym_input where
  "sample_gym = \<lparr>gym_target_population = Fin 20000, gym_penetration_rate_conservative = Fin (1 / 64),
     gym_penetration_rate_base = Fin (1 / 32), gym_penetration_rate_optimistic = Fin (1 / 16),
     gym_usable_area = Fin 800, gym_members_per_area_unit = Fin 1, gym_monthly_membership_fee = Fin 40\<rparr>"

definition sample_revenue :: revenue_scenarios where
  "sample_revenue = \<lparr>conservative = Fin 15000, base = Fin 20000, optimistic = Fin 25000\<rparr>"

lemma sample_financial_1: "rnd64 (12610078956637389 / 18014398509481984) = 3152519739159347 / 4503599627370496"
  by (subst rnd64_known [of "12610078956637389 / 18014398509481984" "-53" "6305039478318694"]) (simp_all add: pow2_def)

lemma sample_financial_2: "rnd64 (3377699720527871875 / 562949953421312) = 6000"
  by (subst rnd64_known [of "3377699720527871875 / 562949953421312" "-40" "6597069766656000"]) (simp_all add: pow2_def)

lemma sample_financial_3: "rnd64 (31525197391593472000 / 3152519739159347) = 10000"
  by (subst rnd64_known [of "31525197391593472000 / 3152519739159347" "-39" "5497558138880000"]) (simp_all add: pow2_def)

lemma sample_financial_4: "rnd64 (3 / 2) = 3 / 2"
  by (subst rnd64_known [of "3 / 2" "-52" "6755399441055744"]) (simp_all add: pow2_def)

lemma sample_financial_5: "rnd64 (135107988821114875 / 9007199254740992) = 15"
  by (subst rnd64_known [of "135107988821114875 / 9007199254740992" "-49" "8444249301319680"]) (simp_all add: pow2_def)

lemma sample_financial_6: "rnd64 (78812993478983675 / 2251799813685248) = 35"
  by (subst rnd64_known [of "78812993478983675 / 2251799813685248" "-47" "4925812092436480"]) (simp_all add: pow2_def)

definition sample_location :: location_result where
  "sample_location = \<lparr>base_score = Fin 80, penalty_multiplier = Fin 1, final_score = Fin 80,
     structural_band = ''strong'', dominant_risk_category = None\<rparr>"

theorem stress_test_passed_viable_witness:
  "\<exists>f. calculate_financial_metrics Coffee sample_revenue (Fin 3000) (Fin 4000) (Fin 0) None = Inr f \<and>
    fle (Fin 1) (bec_base f) \<and> financial_band_of (bec_base f) \<noteq> ''non_viable'' \<and>
    decision_class (calculate_decision sample_location f) \<notin> {''tourist_trap'', ''weak_site_weak_economics'', ''dead_end''}"
proof -
  have "\<exists>f. calculate_financial_metrics Coffee sample_revenue (Fin 3000) (Fin 4000) (Fin 0) None = Inr f
      \<and> \<not> stress_test_failed f"
    by (simp add: calculate_financial_metrics_def sample_revenue_def calculate_fixed_costs_def fmin_def
        calculate_variable_cost_def calculate_break_even_revenue_def coverage_ratio_def percent_of_def
        Let_def float_intro sample_financial_1 sample_financial_2 sample_financial_3 sample_financial_4 sample_financial_5 sample_financial_6)
  then obtain f where f: "calculate_financial_metrics Coffee sample_revenue (Fin 3000) (Fin 4000) (Fin 0) None = Inr f"
      "\<not> stress_test_failed f" by blast
  from stress_test_passed_viable [OF _ _ _ _ f, of sample_location] f(1) show ?thesis
    by (auto simp: sample_revenue_def)
qed

theorem confidence_bounds_witness:
  "\<exists>r. calculate_confidence Coffee ''tract'' (Some 2) [(''demand'', ''full'')] [(''rent'', ''user'')] = Inr r \<and>
     list_all (\<lambda>x. fle (Fin 0) x \<and> fle x (Fin 100))
       [overall_score r, geographic_precision r, data_vintage r, data_coverage r, input_completeness r]"
proof -
  have "map_of data_coverage_levels (get_or ''missing'' (category_value c) [(''demand'', ''full'')]) \<noteq> None" for c
    by (cases c) (simp_all add: get_or_def data_coverage_levels_def)
  moreover have "\<forall>k \<in> set required_inputs. map_of input_quality_scores (get_or ''missing'' k [(''rent'', ''user'')]) \<noteq> None"
    by (simp add: required_inputs_def get_or_def input_quality_scores_def)
  ultimately show ?thesis
    using confidence_bounds [of "[(''demand'', ''full'')]" "[(''rent'', ''user'')]" Coffee "''tract''" "Some 2"]
    by auto
qed

end
