(* ===== verification/CoreAnalyze.thy ===== *)
theory CoreAnalyze
  imports CoreEngines "HOL-Library.List_Lexorder" "HOL-Library.Char_ord" "HOL-Library.Multiset"
begin

text \<open>
  The orchestrator of \<open>sitescore-core\<close> (\<open>analyze.py\<close>) and the analysis fingerprint
  (\<open>fingerprint.py\<close>). \<open>json.dumps\<close> and SHA-256 are parameters (\<open>dumps\<close>, \<open>sha\<close>);
  what is modelled is the tree the code builds, its key sorting, and the order in which the
  engines run and may raise.
\<close>

section \<open>JSON values and key sorting\<close>

datatype json = JNull | JBool bool | JInt int | JFloat pyfloat | JStr string
  | JList "json list" | JDict "(string \<times> json) list"

text \<open>\<open>_normalize\<close>: dictionaries sorted by key at every level (and \<open>sort_keys=True\<close>, which does
  the same once more).\<close>

fun normalize :: "json \<Rightarrow> json" where
  "normalize (JDict kvs) = JDict (sort_key fst (map (\<lambda>(k, v). (k, normalize v)) kvs))"
| "normalize (JList xs) = JList (map normalize xs)"
| "normalize v = v"

text \<open>\<open>asdict\<close> of the dataclasses.\<close>

fun revenue_dict :: "revenue_input \<Rightarrow> json" where
  "revenue_dict (Coffee_Input r) = JDict
    [(''target_population'', JFloat (cof_target_population r)), (''target_rate'', JFloat (cof_target_rate r)),
     (''capture_rate_conservative'', JFloat (cof_capture_rate_conservative r)),
     (''capture_rate_base'', JFloat (cof_capture_rate_base r)),
     (''capture_rate_optimistic'', JFloat (cof_capture_rate_optimistic r)),
     (''visit_frequency_per_month'', JFloat (cof_visit_frequency_per_month r)),
     (''average_ticket'', JFloat (cof_average_ticket r))]"
| "revenue_dict (Restaurant_Input r) = JDict
    [(''seats'', JInt (res_seats r)), (''turnover_per_day'', JFloat (res_turnover_per_day r)),
     (''utilization_conservative'', JFloat (res_utilization_conservative r)),
     (''utilization_base'', JFloat (res_utilization_base r)),
     (''utilization_optimistic'', JFloat (res_utilization_optimistic r)),
     (''average_ticket'', JFloat (res_average_ticket r)),
     (''operating_days_per_month'', JInt (res_operating_days_per_month r))]"
| "revenue_dict (Gym_Input r) = JDict
    [(''target_population'', JFloat (gym_target_population r)),
     (''penetration_rate_conservative'', JFloat (gym_penetration_rate_conservative r)),
     (''penetration_rate_base'', JFloat (gym_penetration_rate_base r)),
     (''penetration_rate_optimistic'', JFloat (gym_penetration_rate_optimistic r)),
     (''usable_area'', JFloat (gym_usable_area r)),
     (''members_per_area_unit'', JFloat (gym_members_per_area_unit r)),
     (''monthly_membership_fee'', JFloat (gym_monthly_membership_fee r))]"
| "revenue_dict (Beauty_Input r) = JDict
    [(''stations'', JInt (bty_stations r)),
     (''operating_hours_per_week'', JFloat (bty_operating_hours_per_week r)),
     (''average_service_duration_hours'', JFloat (bty_average_service_duration_hours r)),
     (''utilization_conservative'', JFloat (bty_utilization_conservative r)),
     (''utilization_base'', JFloat (bty_utilization_base r)),
     (''utilization_optimistic'', JFloat (bty_utilization_optimistic r)),
     (''average_ticket'', JFloat (bty_average_ticket r))]"

definition input_dict :: "analysis_input \<Rightarrow> json" where
  "input_dict d = JDict
    [(''sector'', JStr (sector_value (in_sector d))),
     (''category_scores'', JDict
        [(''demand'', JFloat (demand (in_category_scores d))),
         (''competition'', JFloat (competition (in_category_scores d))),
         (''accessibility'', JFloat (accessibility (in_category_scores d))),
         (''economics'', JFloat (economics (in_category_scores d)))]),
     (''revenue_input'', revenue_dict (in_revenue d)),
     (''monthly_rent'', JFloat (monthly_rent d)), (''fixed_labor'', JFloat (fixed_labor d)),
     (''fixed_overhead'', JFloat (fixed_overhead d)),
     (''geographic_level'', JStr (geographic_value (in_geographic_level d))),
     (''data_age_years'', (case data_age_years d of None \<Rightarrow> JNull | Some a \<Rightarrow> JInt a)),
     (''data_coverage'', JDict (map (\<lambda>(k, v). (k, JStr (coverage_value v))) (in_data_coverage d))),
     (''input_qualities'', JDict (map (\<lambda>(k, v). (k, JStr (quality_value v))) (in_input_qualities d)))]"

definition versions_dict :: "model_versions \<Rightarrow> json" where
  "versions_dict v = JDict
    [(''package_version'', JStr (package_version v)),
     (''canonical_schema_version'', JStr (canonical_schema_version v)),
     (''feature_schema_version'', JStr (feature_schema_version v)),
     (''scoring_model_version'', JStr (scoring_model_version v)),
     (''financial_model_version'', JStr (financial_model_version v)),
     (''decision_model_version'', JStr (decision_model_version v)),
     (''confidence_model_version'', JStr (confidence_model_version v))]"

definition fingerprint_payload :: "analysis_input \<Rightarrow> model_versions \<Rightarrow> json" where
  "fingerprint_payload d v = normalize (JDict
     [(''input'', normalize (input_dict d)), (''model_versions'', normalize (versions_dict v))])"

definition generate_analysis_fingerprint ::
  "(json \<Rightarrow> string) \<Rightarrow> (string \<Rightarrow> string) \<Rightarrow> analysis_input \<Rightarrow> model_versions \<Rightarrow> string" where
  "generate_analysis_fingerprint dumps sha d v = sha (dumps (fingerprint_payload d v))"

section \<open>The orchestrator\<close>

definition get_unit_price :: "analysis_input \<Rightarrow> (py_error, pyfloat) result" where
  "get_unit_price d = (case in_sector d of
     Coffee \<Rightarrow> (case in_revenue d of Coffee_Input r \<Rightarrow> Inr (cof_average_ticket r)
       | _ \<Rightarrow> Inl (TypeError ''Coffee sector requires CoffeeRevenueInput''))
   | Restaurant \<Rightarrow> (case in_revenue d of Restaurant_Input r \<Rightarrow> Inr (res_average_ticket r)
       | _ \<Rightarrow> Inl (TypeError ''Restaurant sector requires RestaurantRevenueInput''))
   | Gym \<Rightarrow> (case in_revenue d of Gym_Input r \<Rightarrow> Inr (gym_monthly_membership_fee r)
       | _ \<Rightarrow> Inl (TypeError ''Gym sector requires GymRevenueInput''))
   | Beauty \<Rightarrow> (case in_revenue d of Beauty_Input r \<Rightarrow> Inr (bty_average_ticket r)
       | _ \<Rightarrow> Inl (TypeError ''Beauty sector requires BeautyRevenueInput'')))"

definition analyze ::
  "(json \<Rightarrow> string) \<Rightarrow> (string \<Rightarrow> string) \<Rightarrow> analysis_input \<Rightarrow> (py_error, canonical_result) result" where
  "analyze dumps sha d =
     rbind (calculate_revenue (in_sector d) (in_revenue d)) (\<lambda>revenue.
     rbind (calculate_location_score (in_sector d) (in_category_scores d)) (\<lambda>loc.
     rbind (get_unit_price d) (\<lambda>unit_price.
     rbind (calculate_financial_metrics (in_sector d) revenue (monthly_rent d) (fixed_labor d)
              (fixed_overhead d) (Some unit_price)) (\<lambda>fin.
     let dec = calculate_decision loc fin in
     rbind (calculate_confidence (in_sector d) (geographic_value (in_geographic_level d)) (data_age_years d)
              (map (\<lambda>(k, v). (k, coverage_value v)) (in_data_coverage d))
              (map (\<lambda>(k, v). (k, quality_value v)) (in_input_qualities d))) (\<lambda>conf.
     let versions = current_model_versions in
     Inr \<lparr>analysis_fingerprint = generate_analysis_fingerprint dumps sha d versions,
          result_versions = versions, location = loc, financial = fin, decision = dec,
          confidence = conf\<rparr>)))))"

section \<open>Properties\<close>

text \<open>An input that its three dataclasses accepted, and the one whose revenue figures are within the bounds too.\<close>

definition analysis_accepted :: "analysis_input \<Rightarrow> bool" where
  "analysis_accepted d = (analysis_post_init d = Inr d \<and> scores_ok (in_category_scores d)
     \<and> revenue_accepted (in_revenue d))"

definition analysis_validated :: "analysis_input \<Rightarrow> bool" where
  "analysis_validated d = (analysis_accepted d \<and> revenue_magnitudes (in_revenue d))"

lemma unit_price_ok:
  assumes "sector_input_type (in_sector d) (in_revenue d)" "revenue_validated (in_revenue d)"
  shows "\<exists>u. get_unit_price d = Inr u \<and> \<not> fle u (Fin 0)"
  using assms
  by (cases "in_sector d"; cases "in_revenue d")
     (auto simp: get_unit_price_def coffee_post_init_def restaurant_post_init_def gym_post_init_def
        beauty_post_init_def split: if_splits)

lemma coverage_known:
  "map_of data_coverage_levels (get_or ''missing'' k (map (\<lambda>(k, v). (k, coverage_value v)) cov)) \<noteq> None"
proof -
  have "coverage_value v \<in> fst ` set data_coverage_levels" for v
    by (cases v) (simp_all add: data_coverage_levels_def)
  then show ?thesis
    by (auto simp: get_or_def map_of_map [unfolded case_prod_eta] map_of_eq_None_iff
        data_coverage_levels_def split: option.splits)
qed

lemma quality_known:
  "map_of input_quality_scores (get_or ''missing'' k (map (\<lambda>(k, v). (k, quality_value v)) qs)) \<noteq> None"
proof -
  have "quality_value v \<in> fst ` set input_quality_scores" for v
    by (cases v) (simp_all add: input_quality_scores_def)
  then show ?thesis
    by (auto simp: get_or_def map_of_map [unfolded case_prod_eta] map_of_eq_None_iff
        input_quality_scores_def split: option.splits)
qed

lemma min_neg_iff:
  "\<not> flt x (Fin 0) \<Longrightarrow> \<not> flt y (Fin 0) \<Longrightarrow> \<not> flt z (Fin 0) \<Longrightarrow> \<not> flt (fmin x [y, z]) (Fin 0)"
  by (simp add: fmin_def)

lemma financial_keeps_revenue: "calculate_financial_metrics sec rv rent labor overhead up = Inr f \<Longrightarrow> fin_revenue f = rv"
  by (auto simp: calculate_financial_metrics_def rbind_Inr_iff Let_def split: if_splits sum.splits option.splits)

lemma analyze_returns:
  assumes "analysis_validated d"
  shows "\<exists>r. analyze dumps sha d = Inr r \<and> calculate_revenue (in_sector d) (in_revenue d) = Inr (fin_revenue (financial r))"
proof -
  have v: "sector_input_type (in_sector d) (in_revenue d)" "\<not> flt (monthly_rent d) (Fin 0)"
      "\<not> flt (fixed_labor d) (Fin 0)" "\<not> flt (fixed_overhead d) (Fin 0)"
    and s: "scores_ok (in_category_scores d)" and r: "revenue_validated (in_revenue d)"
    using assms by (auto simp: analysis_validated_def analysis_accepted_def analysis_post_init_def split: if_splits)
  obtain rv where rv: "calculate_revenue (in_sector d) (in_revenue d) = Inr rv" "\<not> flt (base rv) (Fin 0)"
    using good_calculate_revenue [OF v(1) r] by (auto simp: good_revenue_def elim!: fbE split: sum.splits)
  obtain loc where loc: "calculate_location_score (in_sector d) (in_category_scores d) = Inr loc"
    using location_score_formula [OF s] by blast
  obtain u where u: "get_unit_price d = Inr u" "\<not> fle u (Fin 0)" using unit_price_ok [OF v(1) r] by blast
  obtain f where f: "calculate_financial_metrics (in_sector d) rv (monthly_rent d) (fixed_labor d)
      (fixed_overhead d) (Some u) = Inr f"
    using financial_metrics_total [of "monthly_rent d" "fixed_labor d" "fixed_overhead d" rv "Some u"]
      min_neg_iff [OF v(2-4)] rv(2) u(2) by auto
  obtain c where "calculate_confidence (in_sector d) (geographic_value (in_geographic_level d)) (data_age_years d)
      (map (\<lambda>(k, v). (k, coverage_value v)) (in_data_coverage d))
      (map (\<lambda>(k, v). (k, quality_value v)) (in_input_qualities d)) = Inr c"
    using confidence_total [OF coverage_known quality_known] by blast
  then show ?thesis using financial_keeps_revenue [OF f] by (simp add: analyze_def rv(1) loc u(1) f Let_def)
qed

text \<open>
  C28: the orchestrator is total within explicit magnitudes: an \<open>AnalysisInput\<close> that its dataclasses
  accepted, whose revenue quantities are at most 2^100 and whose service duration, in the beauty
  sector, is at least 2^-100 hours, is always analysed to a canonical result, and the revenue
  scenarios in it are finite, non-negative and in order. No engine raises, in any sector, for any
  coverage and quality maps, also when rent or labour is zero or infinite. The bounds are not
  checked by the code; without the one on the duration the statement fails (\<open>tiny_duration_raises\<close>).
\<close>

theorem analyze_total:
  assumes "analysis_accepted d" "revenue_magnitudes (in_revenue d)"
  shows "\<exists>r. analyze dumps sha d = Inr r \<and> is_finite (optimistic (fin_revenue (financial r)))
    \<and> fle (Fin 0) (conservative (fin_revenue (financial r)))
    \<and> fle (conservative (fin_revenue (financial r))) (base (fin_revenue (financial r)))
    \<and> fle (base (fin_revenue (financial r))) (optimistic (fin_revenue (financial r)))"
proof -
  have ty: "sector_input_type (in_sector d) (in_revenue d)" "revenue_accepted (in_revenue d)"
    using assms(1) by (auto simp: analysis_accepted_def analysis_post_init_def split: if_splits)
  from analyze_returns [of d dumps sha] assms revenue_in_order [OF ty assms(2)] show ?thesis
    by (auto simp: analysis_validated_def)
qed

section \<open>The fingerprint\<close>

lemma keys_map: "map fst (map (\<lambda>(k, v). (k, f v)) xs) = map fst xs"
  by (induction xs) auto

lemma sort_key_perm:
  "mset xs = mset ys \<Longrightarrow> distinct (map fst xs) \<Longrightarrow> sort_key fst xs = sort_key (fst :: _ \<Rightarrow> string) ys"
  by (rule sort_key_inj_key_eq) (simp_all add: distinct_map)

lemma normalize_dict_perm:
  assumes "mset xs = mset ys" "distinct (map fst xs)"
  shows "normalize (JDict (map (\<lambda>(k, v). (k, f v)) xs)) = normalize (JDict (map (\<lambda>(k, v). (k, f v)) ys))"
proof -
  have d: "distinct (map fst (map (\<lambda>(k, v). (k, normalize v)) (map (\<lambda>(k, v). (k, f v)) xs)))"
    by (simp only: keys_map assms(2))
  have m: "mset (map (\<lambda>(k, v). (k, normalize v)) (map (\<lambda>(k, v). (k, f v)) xs))
      = mset (map (\<lambda>(k, v). (k, normalize v)) (map (\<lambda>(k, v). (k, f v)) ys))"
    using assms(1) by (simp only: mset_map)
  show ?thesis by (simp only: normalize.simps sort_key_perm [OF m d])
qed

definition input_scalars :: "analysis_input \<Rightarrow> (string \<times> json) list" where
  "input_scalars d = (case input_dict d of JDict kvs \<Rightarrow> take 8 kvs | _ \<Rightarrow> [])"

lemma input_dict_split:
  "input_dict d = JDict (input_scalars d
     @ [(''data_coverage'', JDict (map (\<lambda>(k, v). (k, JStr (coverage_value v))) (in_data_coverage d))),
        (''input_qualities'', JDict (map (\<lambda>(k, v). (k, JStr (quality_value v))) (in_input_qualities d)))])"
  by (simp add: input_scalars_def input_dict_def)

lemma normalize_last2:
  "normalize a = normalize a' \<Longrightarrow> normalize b = normalize b' \<Longrightarrow>
   normalize (JDict (kvs @ [(k, a), (l, b)])) = normalize (JDict (kvs @ [(k, a'), (l, b')]))"
  by (simp only: normalize.simps map_append list.map prod.case)

lemma fingerprint_payload_perm:
  assumes "mset cov = mset (in_data_coverage d)" "mset qs = mset (in_input_qualities d)"
    and "distinct (map fst cov)" "distinct (map fst qs)"
  shows "fingerprint_payload (d\<lparr>in_data_coverage := cov, in_input_qualities := qs\<rparr>) v = fingerprint_payload d v"
proof -
  let ?d = "d\<lparr>in_data_coverage := cov, in_input_qualities := qs\<rparr>"
  have sel: "in_data_coverage ?d = cov" "in_input_qualities ?d = qs" by simp_all
  have "input_scalars ?d = input_scalars d" by (simp add: input_scalars_def input_dict_def)
  then have "normalize (input_dict ?d) = normalize (input_dict d)"
    unfolding input_dict_split [of ?d] input_dict_split [of d] sel
    by (simp only: normalize_last2 [OF normalize_dict_perm [OF assms(1,3)] normalize_dict_perm [OF assms(2,4)]])
  then show ?thesis by (simp only: fingerprint_payload_def)
qed

text \<open>
  The fingerprint does not depend on the order in which the coverage and quality
  dictionaries were filled: two inputs that differ only in that order have the same
  fingerprint, for every serializer and hash.
\<close>

theorem fingerprint_order_independent:
  assumes "mset cov = mset (in_data_coverage d)" "mset qs = mset (in_input_qualities d)"
    and "distinct (map fst cov)" "distinct (map fst qs)"
  shows "generate_analysis_fingerprint dumps sha (d\<lparr>in_data_coverage := cov, in_input_qualities := qs\<rparr>) v
    = generate_analysis_fingerprint dumps sha d v"
  by (simp only: generate_analysis_fingerprint_def fingerprint_payload_perm [OF assms])

text \<open>Two normalized dictionaries are equal only if they agree as maps.\<close>

lemma normalize_dict_map_of:
  assumes "normalize (JDict xs) = normalize (JDict ys)" "distinct (map fst xs)" "distinct (map fst ys)"
  shows "map_option normalize (map_of xs k) = map_option normalize (map_of ys k)"
proof -
  let ?n = "map (\<lambda>(k, v). (k, normalize v))"
  have "sort_key fst (?n xs) = sort_key fst (?n ys)" using assms(1) by (simp only: normalize.simps json.inject)
  from arg_cong [OF this, of mset] have "mset (?n xs) = mset (?n ys)" by (simp only: mset_sort)
  then have "set (?n xs) = set (?n ys)" by (rule mset_eq_setD)
  moreover have "distinct (map fst (?n xs))" "distinct (map fst (?n ys))" using assms(2,3) by (simp_all only: keys_map)
  ultimately have "map_of (?n xs) = map_of (?n ys)" by (simp only: map_of_inject_set)
  from fun_cong [OF this, of k] show ?thesis by (simp only: map_of_map comp_apply)
qed

lemma coverage_value_inj: "coverage_value a = coverage_value b \<longleftrightarrow> a = b"
  by (cases a; cases b) simp_all

lemma quality_value_inj: "quality_value a = quality_value b \<longleftrightarrow> a = b"
  by (cases a; cases b) simp_all

lemma geographic_value_inj: "geographic_value a = geographic_value b \<longleftrightarrow> a = b"
  by (cases a; cases b) simp_all

lemma sector_value_inj: "sector_value a = sector_value b \<longleftrightarrow> a = b"
  by (cases a; cases b) simp_all

lemma enum_dict_inj:
  assumes "normalize (JDict (map (\<lambda>(k, v). (k, JStr (f v))) xs)) = normalize (JDict (map (\<lambda>(k, v). (k, JStr (f v))) ys))"
    and "distinct (map fst xs)" "distinct (map fst ys)" "\<And>a b. f a = f b \<Longrightarrow> a = b"
  shows "map_of xs = map_of ys"
proof
  fix k
  have "map_option normalize (map_of (map (\<lambda>(k, v). (k, JStr (f v))) xs) k)
      = map_option normalize (map_of (map (\<lambda>(k, v). (k, JStr (f v))) ys) k)"
    using assms(1-3) by (intro normalize_dict_map_of) (simp_all only: keys_map)
  then show "map_of xs k = map_of ys k"
    using assms(4) by (auto simp: map_of_map [unfolded case_prod_eta] split: option.splits)
      (cases "map_of xs k"; cases "map_of ys k"; auto)
qed

lemma insort_key_map: "(\<And>x. fst (g x) = fst x) \<Longrightarrow> insort_key fst (g x) (map g ys) = map g (insort_key fst x ys)"
  by (induction ys) auto

lemma sort_key_map: "(\<And>x. fst (g x) = fst x) \<Longrightarrow> sort_key fst (map g xs) = map g (sort_key fst xs)"
  by (induction xs) (simp_all add: insort_key_map)

lemma normalize_idem: "normalize (normalize v) = normalize v"
proof (induction v rule: normalize.induct)
  case (1 kvs)
  let ?n = "\<lambda>(k, v). (k, normalize v)"
  have f: "fst (?n x) = fst x" for x :: "string \<times> json" by (cases x) simp
  have "normalize (normalize (snd x)) = normalize (snd x)" if "x \<in> set kvs" for x
    using 1 [OF that, of "fst x" "snd x"] by simp
  then have "map ?n (map ?n kvs) = map ?n kvs" by (auto simp del: normalize.simps)
  then have "sort_key fst (map ?n (sort_key fst (map ?n kvs))) = sort_key fst (map ?n kvs)"
    by (simp only: sort_key_map [of ?n, OF f, symmetric]) (simp add: sort_key_id_if_sorted)
  then show ?case by (simp only: normalize.simps)
next
  case (2 xs)
  then show ?case by (simp add: comp_def)
qed simp_all

lemma revenue_dict_inj:
  assumes "normalize (revenue_dict a) = normalize (revenue_dict b)"
    and "sector_input_type sec a" "sector_input_type sec b"
  shows "a = b"
proof -
  obtain xs ys where d: "revenue_dict a = JDict xs" "revenue_dict b = JDict ys"
    "distinct (map fst xs)" "distinct (map fst ys)"
    by (cases a; cases b) simp_all
  note m = normalize_dict_map_of [OF assms(1) [unfolded d(1,2)] d(3,4)]
  show ?thesis
  proof (cases sec)
    case Coffee
    then obtain r s where ab: "a = Coffee_Input r" "b = Coffee_Input s"
      using assms(2,3) by (cases a; cases b) auto
    show ?thesis
      using d(1,2) m [of "''target_population''"] m [of "''target_rate''"]
        m [of "''capture_rate_conservative''"] m [of "''capture_rate_base''"] m [of "''capture_rate_optimistic''"]
        m [of "''visit_frequency_per_month''"] m [of "''average_ticket''"]
      unfolding ab by (cases r; cases s) auto
  next
    case Restaurant
    then obtain r s where ab: "a = Restaurant_Input r" "b = Restaurant_Input s"
      using assms(2,3) by (cases a; cases b) auto
    show ?thesis
      using d(1,2) m [of "''seats''"] m [of "''turnover_per_day''"] m [of "''utilization_conservative''"]
        m [of "''utilization_base''"] m [of "''utilization_optimistic''"] m [of "''average_ticket''"]
        m [of "''operating_days_per_month''"]
      unfolding ab by (cases r; cases s) auto
  next
    case Gym
    then obtain r s where ab: "a = Gym_Input r" "b = Gym_Input s"
      using assms(2,3) by (cases a; cases b) auto
    show ?thesis
      using d(1,2) m [of "''target_population''"] m [of "''penetration_rate_conservative''"]
        m [of "''penetration_rate_base''"] m [of "''penetration_rate_optimistic''"] m [of "''usable_area''"]
        m [of "''members_per_area_unit''"] m [of "''monthly_membership_fee''"]
      unfolding ab by (cases r; cases s) auto
  next
    case Beauty
    then obtain r s where ab: "a = Beauty_Input r" "b = Beauty_Input s"
      using assms(2,3) by (cases a; cases b) auto
    show ?thesis
      using d(1,2) m [of "''stations''"] m [of "''operating_hours_per_week''"]
        m [of "''average_service_duration_hours''"] m [of "''utilization_conservative''"]
        m [of "''utilization_base''"] m [of "''utilization_optimistic''"] m [of "''average_ticket''"]
      unfolding ab by (cases r; cases s) auto
  qed
qed

definition same_analysis :: "analysis_input \<Rightarrow> analysis_input \<Rightarrow> bool" where
  "same_analysis d e = (in_sector d = in_sector e \<and> in_category_scores d = in_category_scores e
     \<and> in_revenue d = in_revenue e \<and> monthly_rent d = monthly_rent e \<and> fixed_labor d = fixed_labor e
     \<and> fixed_overhead d = fixed_overhead e \<and> in_geographic_level d = in_geographic_level e
     \<and> data_age_years d = data_age_years e)"

lemma input_dict_inj:
  assumes "normalize (input_dict d) = normalize (input_dict e)"
    and "sector_input_type (in_sector d) (in_revenue d)" "sector_input_type (in_sector e) (in_revenue e)"
    and "distinct (map fst (in_data_coverage d))" "distinct (map fst (in_data_coverage e))"
    and "distinct (map fst (in_input_qualities d))" "distinct (map fst (in_input_qualities e))"
  shows "same_analysis d e \<and> map_of (in_data_coverage d) = map_of (in_data_coverage e)
    \<and> map_of (in_input_qualities d) = map_of (in_input_qualities e)"
proof -
  obtain xs ys where d: "input_dict d = JDict xs" "input_dict e = JDict ys"
    "distinct (map fst xs)" "distinct (map fst ys)" by (simp add: input_dict_def)
  note m = normalize_dict_map_of [OF assms(1) [unfolded d(1,2)] d(3,4)]
  have xs: "xs = (case input_dict d of JDict z \<Rightarrow> z | _ \<Rightarrow> [])" "ys = (case input_dict e of JDict z \<Rightarrow> z | _ \<Rightarrow> [])"
    using d(1,2) by simp_all
  note lk = xs [unfolded input_dict_def json.case]
  have sec: "in_sector d = in_sector e"
    using m [of "''sector''"] unfolding lk by (simp add: sector_value_inj)
  have cs: "normalize (JDict
        [(''demand'', JFloat (demand (in_category_scores d))), (''competition'', JFloat (competition (in_category_scores d))),
         (''accessibility'', JFloat (accessibility (in_category_scores d))), (''economics'', JFloat (economics (in_category_scores d)))])
      = normalize (JDict
        [(''demand'', JFloat (demand (in_category_scores e))), (''competition'', JFloat (competition (in_category_scores e))),
         (''accessibility'', JFloat (accessibility (in_category_scores e))), (''economics'', JFloat (economics (in_category_scores e)))])"
    using m [of "''category_scores''"] unfolding lk by (simp del: normalize.simps)
  note n = normalize_dict_map_of [OF cs]
  have scores: "in_category_scores d = in_category_scores e"
    using n [of "''demand''"] n [of "''competition''"] n [of "''accessibility''"] n [of "''economics''"]
    by (cases "in_category_scores d"; cases "in_category_scores e") auto
  have rev_in: "in_revenue d = in_revenue e"
    using m [of "''revenue_input''"] assms(2,3) sec unfolding lk
    by (intro revenue_dict_inj [of _ _ "in_sector d"]) (simp_all del: normalize.simps)
  have money: "monthly_rent d = monthly_rent e" "fixed_labor d = fixed_labor e" "fixed_overhead d = fixed_overhead e"
    using m [of "''monthly_rent''"] m [of "''fixed_labor''"] m [of "''fixed_overhead''"] unfolding lk by simp_all
  have geo: "in_geographic_level d = in_geographic_level e"
    using m [of "''geographic_level''"] unfolding lk by (simp add: geographic_value_inj)
  have age: "data_age_years d = data_age_years e"
    using m [of "''data_age_years''"] unfolding lk by (simp split: option.splits)
  have cov: "map_of (in_data_coverage d) = map_of (in_data_coverage e)"
    using m [of "''data_coverage''"] assms(4,5) unfolding lk
    by (intro enum_dict_inj [of coverage_value]) (simp_all del: normalize.simps add: coverage_value_inj)
  have qual: "map_of (in_input_qualities d) = map_of (in_input_qualities e)"
    using m [of "''input_qualities''"] assms(6,7) unfolding lk
    by (intro enum_dict_inj [of quality_value]) (simp_all del: normalize.simps add: quality_value_inj)
  from sec scores rev_in money geo age cov qual show ?thesis by (simp add: same_analysis_def)
qed

text \<open>
  C35: the fingerprint separates analyses. For a serializer and a hash without a
  collision on the two canonical payloads, equal fingerprints imply the same sector, scores,
  revenue input, costs, geographic level and age, the same coverage and quality maps, and the
  same model versions: nothing the result depends on is left out of the fingerprint.
\<close>

theorem fingerprint_separates:
  assumes "inj_on dumps {fingerprint_payload d v, fingerprint_payload e w}"
    and "inj_on sha {dumps (fingerprint_payload d v), dumps (fingerprint_payload e w)}"
    and "sector_input_type (in_sector d) (in_revenue d)" "sector_input_type (in_sector e) (in_revenue e)"
    and "distinct (map fst (in_data_coverage d))" "distinct (map fst (in_data_coverage e))"
    and "distinct (map fst (in_input_qualities d))" "distinct (map fst (in_input_qualities e))"
    and "generate_analysis_fingerprint dumps sha d v = generate_analysis_fingerprint dumps sha e w"
  shows "same_analysis d e \<and> map_of (in_data_coverage d) = map_of (in_data_coverage e)
    \<and> map_of (in_input_qualities d) = map_of (in_input_qualities e) \<and> v = w"
proof -
  have "fingerprint_payload d v = fingerprint_payload e w"
    using assms(1,2,9) unfolding generate_analysis_fingerprint_def
    by (metis inj_on_contraD insertCI)
  note m = normalize_dict_map_of [OF this [unfolded fingerprint_payload_def]]
  have "normalize (input_dict d) = normalize (input_dict e)"
    using m [of "''input''"] by (simp del: normalize.simps add: normalize_idem)
  note input = input_dict_inj [OF this assms(3-8)]
  have "normalize (versions_dict v) = normalize (versions_dict w)"
    using m [of "''model_versions''"] by (simp del: normalize.simps add: normalize_idem)
  note n = normalize_dict_map_of [OF this [unfolded versions_dict_def]]
  have "v = w"
    using n [of "''package_version''"] n [of "''canonical_schema_version''"] n [of "''feature_schema_version''"]
      n [of "''scoring_model_version''"] n [of "''financial_model_version''"] n [of "''decision_model_version''"]
      n [of "''confidence_model_version''"] by (cases v; cases w) simp
  with input show ?thesis by simp
qed

section \<open>Concrete runs\<close>

definition sample_input :: analysis_input where
  "sample_input = \<lparr>in_sector = Gym, in_category_scores = sample_scores, in_revenue = Gym_Input sample_gym,
     monthly_rent = Fin 3000, fixed_labor = Fin 4000, fixed_overhead = Fin 0, in_geographic_level = Geo_Tract,
     data_age_years = Some 2, in_data_coverage = [(''demand'', Cov_Full), (''competition'', Cov_Degraded)],
     in_input_qualities = [(''rent'', Quality_User), (''price'', Quality_Default)]\<rparr>"

theorem analyze_total_witness: "\<exists>r. analyze (\<lambda>_. ''{}'') (\<lambda>x. x) sample_input = Inr r \<and> is_finite (optimistic (fin_revenue (financial r)))"
proof -
  have "analysis_accepted sample_input" "revenue_magnitudes (in_revenue sample_input)"
    by (simp_all add: analysis_accepted_def analysis_post_init_def sample_input_def sample_gym_def gym_post_init_def
        unit_range_def ordered3_def modest_def fb_def required_categories_def required_inputs_def)
  from analyze_total [OF this] show ?thesis by blast
qed

theorem fingerprint_order_independent_witness:
  "generate_analysis_fingerprint (\<lambda>_. ''{}'') (\<lambda>x. x)
     (sample_input\<lparr>in_data_coverage := [(''competition'', Cov_Degraded), (''demand'', Cov_Full)],
        in_input_qualities := [(''price'', Quality_Default), (''rent'', Quality_User)]\<rparr>) current_model_versions
   = generate_analysis_fingerprint (\<lambda>_. ''{}'') (\<lambda>x. x) sample_input current_model_versions"
  by (rule fingerprint_order_independent) (simp_all add: sample_input_def)

theorem fingerprint_separates_witness:
  "map_of (in_data_coverage sample_input)
     = map_of [(''competition'', Cov_Degraded), (''demand'', Cov_Full)]"
proof -
  let ?e = "sample_input\<lparr>in_data_coverage := [(''competition'', Cov_Degraded), (''demand'', Cov_Full)],
        in_input_qualities := [(''price'', Quality_Default), (''rent'', Quality_User)]\<rparr>"
  have p: "fingerprint_payload ?e current_model_versions = fingerprint_payload sample_input current_model_versions"
    by (rule fingerprint_payload_perm) (simp_all add: sample_input_def)
  have "same_analysis sample_input ?e \<and> map_of (in_data_coverage sample_input) = map_of (in_data_coverage ?e)
    \<and> map_of (in_input_qualities sample_input) = map_of (in_input_qualities ?e)
    \<and> current_model_versions = current_model_versions"
    by (rule fingerprint_separates [where dumps = "\<lambda>_. ''{}''" and sha = "\<lambda>x. x"])
       (simp_all only: p generate_analysis_fingerprint_def insert_absorb2, simp_all add: sample_input_def)
  then show ?thesis by simp
qed

section \<open>Two divergences\<close>

text \<open>
  The geographic level \<open>zip\<close> of the input enum is missing from the precision table, whose
  key is \<open>zcta\<close>: a ZIP-level analysis gets the precision of an unknown location, 0, although
  the table grants 50 to that resolution and 25 to the coarser county level.
\<close>

theorem zip_precision_is_zero:
  "geographic_precision_score (geographic_value Geo_Zip) = geographic_precision_score (geographic_value Geo_Unknown)
   \<and> geographic_precision_score (geographic_value Geo_Zip) = Fin 0
   \<and> flt (geographic_precision_score (geographic_value Geo_Zip)) (geographic_precision_score (geographic_value Geo_County))
   \<and> geographic_precision_score ''zcta'' = Fin 50"
  by (simp add: geographic_precision_score_def geographic_precision_scores_def get_or_def)

definition threshold_scores :: category_scores where
  "threshold_scores = \<lparr>demand = Fin (75 - 1 / 2 ^ 24), competition = Fin (75 - 1 / 2 ^ 24),
     accessibility = Fin (75 - 1 / 2 ^ 24), economics = Fin (75 - 1 / 2 ^ 24)\<rparr>"

lemma threshold_run_1: "rnd64 (1258291199 / 67108864) = 1258291199 / 67108864"
  by (subst rnd64_known [of "1258291199 / 67108864" "-48" "5277655809130496"]) (simp_all add: pow2_def)

lemma threshold_run_2: "rnd64 (4533471819951979954910003 / 302231454903657293676544) = 4222124647304397 / 281474976710656"
  by (subst rnd64_known [of "4533471819951979954910003 / 302231454903657293676544" "-49" "8444249294608794"]) (simp_all add: pow2_def)

lemma threshold_run_3: "rnd64 (9499780456434893 / 281474976710656) = 2374945114108723 / 70368744177664"
  by (subst rnd64_known [of "9499780456434893 / 281474976710656" "-47" "4749890228217446"]) (simp_all add: pow2_def)

lemma threshold_run_4: "rnd64 (6800207729927969303219405 / 302231454903657293676544) = 6333186970956595 / 281474976710656"
  by (subst rnd64_known [of "6800207729927969303219405 / 302231454903657293676544" "-48" "6333186970956595"]) (simp_all add: pow2_def)

lemma threshold_run_5: "rnd64 (15832967427391487 / 281474976710656) = 3774873597 / 67108864"
  by (subst rnd64_known [of "15832967427391487 / 281474976710656" "-47" "7916483713695744"]) (simp_all add: pow2_def)

lemma threshold_run_6: "rnd64 (1258291199 / 16777216) = 1258291199 / 16777216"
  by (subst rnd64_known [of "1258291199 / 16777216" "-46" "5277655809130496"]) (simp_all add: pow2_def)

text \<open>
  The structural band is taken from the unrounded final score and the decision from the score
  rounded to six decimals, so that just below a threshold the two disagree: this restaurant
  site is \<open>conditional\<close> in its location result but decided as a strong location.
\<close>

theorem band_disagrees_with_decision:
  "\<exists>r. calculate_location_score Restaurant threshold_scores = Inr r \<and>
     structural_band r = ''conditional'' \<and> final_score r = Fin 75 \<and>
     structural_band_of (final_score r) = ''strong'' \<and>
     decision_class (calculate_decision r (f\<lparr>bec_base := Fin 2\<rparr>)) = ''prime_opportunity'' \<and>
     dec_structural_band (calculate_decision r (f\<lparr>bec_base := Fin 2\<rparr>)) = ''conditional''"
proof -
  have ok: "scores_ok threshold_scores"
  proof -
    have "bounded (score_of threshold_scores c) = Inr (score_of threshold_scores c)" for c
      by (cases c) (simp_all add: bounded_def threshold_scores_def)
    then show ?thesis by (simp add: scores_ok_def)
  qed
  have q: "score_rat threshold_scores c = 75 - 1 / 2 ^ 24" for c
    by (cases c) (simp_all add: score_rat_def threshold_scores_def)
  have w: "wsum Restaurant (score_rat threshold_scores) = 1258291199 / 16777216"
    by (simp add: wsum_def wsum_list_def categories_def cw_def q float_intro threshold_run_1 threshold_run_2 threshold_run_3 threshold_run_4 threshold_run_5 threshold_run_6)
  have "rule_pen Restaurant c (score_rat threshold_scores c) = 1" for c
    by (cases c) (simp_all add: rule_pen_def rule_def pen_def q float_intro)
  then have m: "min_pen Restaurant (score_rat threshold_scores) = 1"
    using min_pen_attained [of Restaurant "score_rat threshold_scores"] by auto
  have r: "round6 (1258291199 / 16777216) = 75"
    by (subst round6_known [of _ 75000000]) simp_all
  show ?thesis
    using location_score_formula [OF ok, of Restaurant]
    by (simp add: w m r structural_band_of_def location_strong_min_def location_conditional_min_def
        calculate_decision_def decision_cell_def bec_strong_min_def threshold_run_1 threshold_run_2 threshold_run_3 threshold_run_4 threshold_run_5 threshold_run_6)
qed

end
