(* ===== verification/PyUuid.thy ===== *)
theory PyUuid
  imports Prelude "HOL-Library.Word"
begin

text \<open>
  What the services use of Python's \<open>uuid\<close> and \<open>str\<close>: the canonical text of a UUID
  (\<open>str(u)\<close>), the lenient parser behind \<open>UUID(value)\<close> (with the rules of \<open>int(s, 16)\<close>:
  surrounding white space, a sign, a \<open>0x\<close> prefix and single underscores), and the string
  methods \<open>startswith\<close>, \<open>replace\<close>, \<open>strip\<close>. Strings are lists of 8-bit characters.
\<close>

type_synonym uuid = "128 word"

section \<open>String methods\<close>

definition starts_with :: "string \<Rightarrow> string \<Rightarrow> bool" where
  "starts_with p s = (take (length p) s = p)"

fun replace_all :: "string \<Rightarrow> string \<Rightarrow> string" where
  "replace_all pat [] = []"
| "replace_all pat (c # cs) =
     (if pat \<noteq> [] \<and> starts_with pat (c # cs) then replace_all pat (drop (length pat - 1) cs)
      else c # replace_all pat cs)"

definition strip_chars :: "(char \<Rightarrow> bool) \<Rightarrow> string \<Rightarrow> string" where
  "strip_chars p s = rev (dropWhile p (rev (dropWhile p s)))"

text \<open>ASCII white space as \<open>str.isspace\<close> and \<open>str.strip\<close> see it (9 to 13, 28 to 32, 133, 160).\<close>

definition is_space :: "char \<Rightarrow> bool" where
  "is_space c = (let n = of_char c :: nat in (9 \<le> n \<and> n \<le> 13) \<or> (28 \<le> n \<and> n \<le> 32) \<or> n = 133 \<or> n = 160)"

definition strip :: "string \<Rightarrow> string" where
  "strip s = strip_chars is_space s"

section \<open>Hexadecimal\<close>

definition hex_digit :: "nat \<Rightarrow> char" where
  "hex_digit n = ''0123456789abcdef'' ! n"

definition hex_value :: "char \<Rightarrow> nat option" where
  "hex_value c = (let n = of_char c :: nat in
     if 48 \<le> n \<and> n \<le> 57 then Some (n - 48)
     else if 97 \<le> n \<and> n \<le> 102 then Some (n - 87)
     else if 65 \<le> n \<and> n \<le> 70 then Some (n - 55)
     else None)"

text \<open>\<open>width\<close> hexadecimal digits of \<open>n\<close>, most significant first.\<close>

fun to_hex :: "nat \<Rightarrow> nat \<Rightarrow> string" where
  "to_hex 0 n = []"
| "to_hex (Suc w) n = to_hex w (n div 16) @ [hex_digit (n mod 16)]"

fun hex_digits :: "bool \<Rightarrow> nat \<Rightarrow> string \<Rightarrow> nat option" where
  "hex_digits after_digit acc [] = (if after_digit then Some acc else None)"
| "hex_digits after_digit acc (c # cs) =
     (if c = CHR ''_'' then (if after_digit \<and> cs \<noteq> [] then hex_digits False acc cs else None)
      else case hex_value c of None \<Rightarrow> None | Some d \<Rightarrow> hex_digits True (acc * 16 + d) cs)"

definition int_base16 :: "string \<Rightarrow> nat option" where
  "int_base16 s = (
     let t = strip s;
         u = (if starts_with ''+'' t then tl t else t) in
     if starts_with ''0x'' u \<or> starts_with ''0X'' u
     then (let v = drop 2 u in hex_digits False 0 (if starts_with ''_'' v then tl v else v))
     else hex_digits False 0 u)"

section \<open>UUIDs\<close>

definition uuid_str :: "uuid \<Rightarrow> string" where
  "uuid_str u = (let h = to_hex 32 (unat u) in
     take 8 h @ ''-'' @ take 4 (drop 8 h) @ ''-'' @ take 4 (drop 12 h) @ ''-'' @
     take 4 (drop 16 h) @ ''-'' @ drop 20 h)"

definition parse_uuid :: "string \<Rightarrow> uuid option" where
  "parse_uuid s = (
     let h = replace_all ''-'' (strip_chars (\<lambda>c. c = CHR ''{'' \<or> c = CHR ''}'')
               (replace_all ''uuid:'' (replace_all ''urn:'' s))) in
     if length h \<noteq> 32 then None else map_option of_nat (int_base16 h))"

section \<open>Parsing undoes printing\<close>

lemma hex_digit_cases:
  "n < 16 \<Longrightarrow> hex_value (hex_digit n) = Some n \<and> hex_digit n \<noteq> CHR ''_'' \<and> hex_digit n \<noteq> CHR ''-''
     \<and> hex_digit n \<noteq> CHR ''u'' \<and> hex_digit n \<noteq> CHR ''{'' \<and> hex_digit n \<noteq> CHR ''}'' \<and> hex_digit n \<noteq> CHR ''+''
     \<and> hex_digit n \<noteq> CHR ''x'' \<and> hex_digit n \<noteq> CHR ''X'' \<and> \<not> is_space (hex_digit n)"
proof -
  assume "n < 16"
  then have n: "n \<in> set [0..<16]" by simp
  have "list_all (\<lambda>n. hex_value (hex_digit n) = Some n \<and> list_all (\<lambda>c. hex_digit n \<noteq> c) ''_-u{}+xX''
      \<and> \<not> is_space (hex_digit n)) [0..<16]" by code_simp
  with n show ?thesis by (auto simp: list_all_iff simp del: set_upt)
qed

definition plain_hex :: "char \<Rightarrow> bool" where
  "plain_hex c = (\<exists>n < 16. c = hex_digit n)"

lemma length_to_hex [simp]: "length (to_hex w n) = w"
  by (induction w arbitrary: n) auto

lemma to_hex_plain: "c \<in> set (to_hex w n) \<Longrightarrow> plain_hex c"
  proof (induction w arbitrary: n)
  case (Suc w)
  moreover have "plain_hex (hex_digit (n mod 16))" by (auto simp: plain_hex_def intro!: exI [of _ "n mod 16"])
  ultimately show ?case by auto
qed simp

lemma hex_digits_snoc:
  "\<forall>c \<in> set s. plain_hex c \<Longrightarrow> d < 16 \<Longrightarrow> s \<noteq> [] \<or> b \<Longrightarrow>
   hex_digits b acc (s @ [hex_digit d]) = map_option (\<lambda>v. v * 16 + d) (hex_digits b acc s)"
  by (induction s arbitrary: b acc) (auto simp: plain_hex_def hex_digit_cases split: option.splits)

lemma hex_digits_to_hex: "0 < w \<Longrightarrow> hex_digits False 0 (to_hex w n) = Some (n mod 16 ^ w)"
proof (induction w arbitrary: n)
  case (Suc w)
  show ?case
  proof (cases w)
    case 0
    then show ?thesis using hex_digit_cases [of "n mod 16"] by simp
  next
    case (Suc w')
    then have "hex_digits False 0 (to_hex w (n div 16)) = Some (n div 16 mod 16 ^ w)" using Suc.IH by simp
    moreover have "to_hex w (n div 16) \<noteq> []" using Suc by (metis length_to_hex list.size(3) nat.distinct(1))
    ultimately have "hex_digits False 0 (to_hex (Suc w) n) = Some ((n div 16 mod 16 ^ w) * 16 + n mod 16)"
      using to_hex_plain by (simp add: hex_digits_snoc)
    also have "(n div 16 mod 16 ^ w) * 16 + n mod 16 = n mod 16 ^ Suc w"
      by (simp add: mod_mult2_eq)
    finally show ?thesis .
  qed
qed simp

lemma replace_none: "pat \<noteq> [] \<Longrightarrow> hd pat \<notin> set s \<Longrightarrow> replace_all pat s = s"
proof (induction s)
  case (Cons c s)
  then have "\<not> starts_with pat (c # s)" by (cases pat) (auto simp: starts_with_def)
  with Cons show ?case by simp
qed simp

lemma replace_char: "replace_all [c] s = filter (\<lambda>x. x \<noteq> c) s"
  by (induction s) (auto simp: starts_with_def)

lemma strip_chars_none: "\<forall>c \<in> set s. \<not> p c \<Longrightarrow> strip_chars p s = s"
proof -
  assume a: "\<forall>c \<in> set s. \<not> p c"
  then have "dropWhile p s = s" by (cases s) auto
  moreover have "dropWhile p (rev s) = rev s" using a by (cases "rev s") (auto dest: arg_cong [of _ _ set])
  ultimately show ?thesis by (simp add: strip_chars_def)
qed

lemma set_uuid_str: "c \<in> set (uuid_str u) \<Longrightarrow> plain_hex c \<or> c = CHR ''-''"
  by (auto simp: uuid_str_def Let_def dest!: in_set_takeD in_set_dropD to_hex_plain)

lemma plain_hex_not:
  "plain_hex c \<Longrightarrow> c \<notin> {CHR ''-'', CHR ''_'', CHR ''u'', CHR ''{'', CHR ''}'', CHR ''+'', CHR ''x'', CHR ''X''} \<and> \<not> is_space c"
  by (auto simp: plain_hex_def dest: hex_digit_cases)

lemma filter_uuid_str: "filter (\<lambda>x. x \<noteq> CHR ''-'') (uuid_str u) = to_hex 32 (unat u)"
proof -
  let ?h = "to_hex 32 (unat u)"
  have f: "filter (\<lambda>x. x \<noteq> CHR ''-'') s = s" if "set s \<subseteq> set ?h" for s
    using that plain_hex_not to_hex_plain by (intro filter_True) blast
  have p: "take 8 ?h @ take 4 (drop 8 ?h) @ take 4 (drop 12 ?h) @ take 4 (drop 16 ?h) @ drop 20 ?h = ?h"
  proof -
    have "take 4 (drop 16 ?h) @ drop 20 ?h = drop 16 ?h" using append_take_drop_id [of 4 "drop 16 ?h"] by simp
    moreover have "take 4 (drop 12 ?h) @ drop 16 ?h = drop 12 ?h" using append_take_drop_id [of 4 "drop 12 ?h"] by simp
    moreover have "take 4 (drop 8 ?h) @ drop 12 ?h = drop 8 ?h" using append_take_drop_id [of 4 "drop 8 ?h"] by simp
    ultimately show ?thesis using append_take_drop_id [of 8 ?h] by simp
  qed
  have "filter (\<lambda>x. x \<noteq> CHR ''-'') (uuid_str u)
      = take 8 ?h @ take 4 (drop 8 ?h) @ take 4 (drop 12 ?h) @ take 4 (drop 16 ?h) @ drop 20 ?h"
    using f [OF set_take_subset] f [OF subset_trans [OF set_take_subset set_drop_subset]] f [OF set_drop_subset]
    by (simp add: uuid_str_def Let_def)
  with p show ?thesis by simp
qed

lemma two_elements: "2 \<le> length s \<Longrightarrow> (\<And>a b r. s = a # b # r \<Longrightarrow> thesis) \<Longrightarrow> thesis"
  by (cases s; cases "tl s") auto

lemma parse_uuid_str [simp]: "parse_uuid (uuid_str u) = Some u"
proof -
  let ?h = "to_hex 32 (unat u)"
  have no: "CHR ''u'' \<notin> set (uuid_str u)" "\<forall>c \<in> set (uuid_str u). \<not> (c = CHR ''{'' \<or> c = CHR ''}'')"
    using set_uuid_str plain_hex_not by fastforce+
  have clean: "replace_all ''-'' (strip_chars (\<lambda>c. c = CHR ''{'' \<or> c = CHR ''}'')
      (replace_all ''uuid:'' (replace_all ''urn:'' (uuid_str u)))) = ?h"
    using no by (simp add: replace_none strip_chars_none replace_char filter_uuid_str)
  have plain: "\<forall>c \<in> set ?h. plain_hex c" using to_hex_plain by blast
  have "strip ?h = ?h" unfolding strip_def using plain plain_hex_not by (intro strip_chars_none) blast
  moreover have "\<not> starts_with ''+'' ?h" "\<not> starts_with ''0x'' ?h" "\<not> starts_with ''0X'' ?h"
  proof -
    have "2 \<le> length ?h" by simp
    then obtain a b r where h: "?h = a # b # r" by (rule two_elements)
    then have "plain_hex a" "plain_hex b" using plain by auto
    then show "\<not> starts_with ''+'' ?h" "\<not> starts_with ''0x'' ?h" "\<not> starts_with ''0X'' ?h"
      using plain_hex_not [of a] plain_hex_not [of b] by (auto simp: h starts_with_def)
  qed
  ultimately have "int_base16 ?h = hex_digits False 0 ?h" by (simp add: int_base16_def)
  also have "\<dots> = Some (unat u mod 16 ^ 32)" by (rule hex_digits_to_hex) simp
  also have "unat u mod 16 ^ 32 = unat u" using unsigned_less [of u] by (intro mod_less) simp
  finally show ?thesis unfolding parse_uuid_def Let_def clean by simp
qed

lemma uuid_str_inj: "uuid_str u = uuid_str v \<longleftrightarrow> u = v"
  by (metis option.inject parse_uuid_str)

end
