(* ===== verification/PyJson.thy ===== *)
theory PyJson
  imports PyUuid PyFloat "HOL-Library.List_Lexorder" "HOL-Library.Char_ord"
begin

text \<open>
  The JSON values that the services store in JSONB columns and read from HTTP answers. A
  dictionary is the list of its members; Python's dictionary equality and
  \<open>json.loads(json.dumps(x, sort_keys=True))\<close> are the normal form \<open>json_sorted\<close> with the members
  of every dictionary in key order. The text of a JSON value is a parameter where it is needed.
\<close>

datatype json = JNull | JBool bool | JInt int | JFloat pyfloat | JStr string
  | JArr "json list" | JObj "(string \<times> json) list"

primrec json_sorted :: "json \<Rightarrow> json" where
  "json_sorted JNull = JNull"
| "json_sorted (JBool b) = JBool b"
| "json_sorted (JInt i) = JInt i"
| "json_sorted (JFloat x) = JFloat x"
| "json_sorted (JStr s) = JStr s"
| "json_sorted (JArr xs) = JArr (map json_sorted xs)"
| "json_sorted (JObj ms) = JObj (sort_key fst (map (map_prod id json_sorted) ms))"

fun is_object :: "json \<Rightarrow> bool" where
  "is_object (JObj _) = True"
| "is_object _ = False"

text \<open>\<open>d.get(key)\<close> of a dictionary; a missing key is Python's \<open>None\<close>.\<close>

fun json_get :: "string \<Rightarrow> json \<Rightarrow> json" where
  "json_get k (JObj ms) = (case map_of ms k of None \<Rightarrow> JNull | Some v \<Rightarrow> v)"
| "json_get k _ = JNull"

fun has_key :: "string \<Rightarrow> json \<Rightarrow> bool" where
  "has_key k (JObj ms) = (k \<in> fst ` set ms)"
| "has_key k _ = False"

text \<open>Decimal digits of an integer, as \<open>str\<close> prints it.\<close>

fun nat_dec :: "nat \<Rightarrow> string" where
  "nat_dec n = (if n < 10 then [char_of (48 + n)] else nat_dec (n div 10) @ [char_of (48 + n mod 10)])"

declare nat_dec.simps [simp del]

definition int_dec :: "int \<Rightarrow> string" where
  "int_dec i = (if i < 0 then CHR ''-'' # nat_dec (nat (- i)) else nat_dec (nat i))"

text \<open>
  \<open>str(value)\<close> where the text is compared with a fixed set of words or parsed as a UUID. The texts
  of floats, lists and dictionaries contain a point, an exponent or a bracket (or are shorter than
  any UUID) and so are never one of these; they are represented by the empty text.
\<close>

fun json_text :: "json \<Rightarrow> string" where
  "json_text (JStr s) = s"
| "json_text (JInt i) = int_dec i"
| "json_text (JBool b) = (if b then ''True'' else ''False'')"
| "json_text JNull = ''None''"
| "json_text _ = []"

text \<open>\<open>UUID(str(value))\<close>\<close>

definition json_uuid :: "json \<Rightarrow> uuid option" where
  "json_uuid j = parse_uuid (json_text j)"

lemma json_uuid_str [simp]: "json_uuid (JStr (uuid_str u)) = Some u"
  by (simp add: json_uuid_def)

lemma sort_key_sorted: "sorted (map f xs) \<Longrightarrow> sort_key f xs = xs"
  by (induction xs) (simp_all add: insort_is_Cons)

lemma json_sorted_idem [simp]: "json_sorted (json_sorted j) = json_sorted j"
proof (induction j)
  case (JObj ms)
  let ?s = "sort_key fst (map (map_prod id json_sorted) ms)"
  have m: "map_prod id json_sorted p = p" if p: "p \<in> set ?s" for p
  proof -
    obtain q where q: "q \<in> set ms" "p = map_prod id json_sorted q" using p by auto
    have "json_sorted (json_sorted (snd q)) = json_sorted (snd q)"
      by (rule JObj [OF q(1)]) (cases q, simp add: prod_set_simps)
    with q(2) show ?thesis by (cases q) simp
  qed
  have "map (map_prod id json_sorted) ?s = ?s" by (rule map_idI) (rule m)
  moreover have "sort_key fst ?s = ?s" by (rule sort_key_sorted) (rule sorted_sort_key)
  ultimately show ?case by (simp only: json_sorted.simps)
next
  case (JArr xs)
  then show ?case by simp
qed simp_all

lemma json_sorted_object [simp]: "is_object (json_sorted j) = is_object j"
  by (cases j) simp_all

end
