(* ===== verification/CommerceDb.thy ===== *)
theory CommerceDb
  imports PyJson
begin

text \<open>
  The commerce store (\<open>sitescore_commerce/db.py\<close>) and the paid-order outbox dispatcher
  (\<open>dispatcher.py\<close>). A table is a list of rows, a store method a \<open>transaction\<close> on the
  database record \<open>commerce_db\<close>. The clock, fresh UUIDs and the behaviour of the database
  server (\<open>fault\<close>) are arguments of each operation. Row locks are implicit: a transaction
  that locks its rows runs as one step; the one operation that does not lock,
  \<open>get_or_create_order\<close>, takes the transactions that commit between its read and its insert
  as an argument.
\<close>

section \<open>States of an order\<close>

datatype order_state = O_Pending | O_Paid | O_In_Progress | O_Fulfilled | O_Attention | O_Expired | O_Refunded

datatype payment_state = P_Pending | P_Paid | P_Failed | P_Expired | P_Refund_Pending | P_Refunded | P_Refund_Failed

datatype fulfillment_state = F_Not_Started | F_Analysis_Pending | F_Analysis_Running | F_Report_Pending
  | F_Delivery_Pending | F_Completed | F_Not_Score_Ready | F_Analysis_Failed | F_Analysis_Timed_Out
  | F_Report_Failed | F_Delivery_Failed

fun order_state_value :: "order_state \<Rightarrow> string" where
  "order_state_value O_Pending = ''pending_payment''"
| "order_state_value O_Paid = ''paid''"
| "order_state_value O_In_Progress = ''fulfillment_in_progress''"
| "order_state_value O_Fulfilled = ''fulfilled''"
| "order_state_value O_Attention = ''attention_required''"
| "order_state_value O_Expired = ''expired''"
| "order_state_value O_Refunded = ''refunded''"

fun payment_state_value :: "payment_state \<Rightarrow> string" where
  "payment_state_value P_Pending = ''pending''"
| "payment_state_value P_Paid = ''paid''"
| "payment_state_value P_Failed = ''failed''"
| "payment_state_value P_Expired = ''expired''"
| "payment_state_value P_Refund_Pending = ''refund_pending''"
| "payment_state_value P_Refunded = ''refunded''"
| "payment_state_value P_Refund_Failed = ''refund_failed''"

fun fulfillment_state_value :: "fulfillment_state \<Rightarrow> string" where
  "fulfillment_state_value F_Not_Started = ''not_started''"
| "fulfillment_state_value F_Analysis_Pending = ''analysis_pending''"
| "fulfillment_state_value F_Analysis_Running = ''analysis_running''"
| "fulfillment_state_value F_Report_Pending = ''report_pending''"
| "fulfillment_state_value F_Delivery_Pending = ''delivery_pending''"
| "fulfillment_state_value F_Completed = ''completed''"
| "fulfillment_state_value F_Not_Score_Ready = ''not_score_ready''"
| "fulfillment_state_value F_Analysis_Failed = ''analysis_failed''"
| "fulfillment_state_value F_Analysis_Timed_Out = ''analysis_timed_out''"
| "fulfillment_state_value F_Report_Failed = ''report_failed''"
| "fulfillment_state_value F_Delivery_Failed = ''delivery_failed''"

datatype event_state = E_Received | E_Processed | E_Ignored | E_Attention

section \<open>Rows\<close>

text \<open>The purchase intent is \<open>request.model_dump(mode="json")\<close>, a JSON object; the
  order request keeps the fields the store reads.\<close>

record order_request =
  rq_customer_email :: string
  rq_purchase_intent :: json

record order_row =
  o_id :: uuid
  o_product_code :: string
  o_catalog_version :: string
  o_customer_email :: string
  o_purchase_intent :: json
  o_request_hash :: string
  o_state :: order_state
  o_payment :: payment_state
  o_fulfillment :: fulfillment_state
  o_created_at :: int
  o_updated_at :: int

record idempotency_row =
  i_key_digest :: string
  i_request_hash :: string
  i_order_id :: uuid
  i_created_at :: int

record checkout_row =
  c_order_id :: uuid
  c_session_id :: "string option"
  c_provider_key :: string
  c_operation_version :: string
  c_catalog_version :: string
  c_product_code :: string
  c_price_id :: string
  c_quantity :: int
  c_customer_email :: string
  c_success_url :: string
  c_cancel_url :: string
  c_url :: "string option"
  c_expires_at :: "int option"
  c_payment_intent :: "string option"
  c_session_status :: "string option"
  c_payment_status :: "string option"
  c_livemode :: "bool option"
  c_reconciled_at :: "int option"
  c_last_event_id :: "string option"
  c_created_at :: int
  c_updated_at :: int

record inbox_row =
  e_id :: string
  e_type :: string
  e_object_id :: "string option"
  e_candidate_order :: "string option"
  e_api_version :: "string option"
  e_livemode :: bool
  e_event_created :: int
  e_raw_sha :: string
  e_state :: event_state
  e_failure :: "string option"
  e_received_at :: int
  e_processed_at :: "int option"
  e_attempts :: int

record outbox_row =
  x_id :: uuid
  x_order_id :: uuid
  x_type :: string
  x_version :: string
  x_created_at :: int
  x_published_at :: "int option"

record receipt_row =
  r_id :: uuid
  r_order_id :: uuid
  r_session_id :: string
  r_session_status :: string
  r_payment_status :: string
  r_payment_intent :: "string option"
  r_livemode :: bool
  r_evidence_sha :: string
  r_target :: string
  r_observed_at :: int
  r_created_at :: int

record commerce_db =
  orders :: "order_row list"
  idempotency :: "idempotency_row list"
  checkouts :: "checkout_row list"
  inbox :: "inbox_row list"
  outbox :: "outbox_row list"
  receipts :: "receipt_row list"

definition empty_commerce :: commerce_db where
  "empty_commerce = \<lparr>orders = [], idempotency = [], checkouts = [], inbox = [], outbox = [], receipts = []\<rparr>"

text \<open>\<open>Integrity_Error\<close> is SQLAlchemy's exception for a violated constraint; the methods that can
  meet it translate it.\<close>

datatype commerce_error = Persistence_Unavailable string | Idempotency_Conflict | Event_Identity_Conflict
  | Integrity_Error

definition on_integrity :: "string \<Rightarrow> commerce_error \<Rightarrow> commerce_error" where
  "on_integrity message e = (if e = Integrity_Error then Persistence_Unavailable message else e)"

definition paid_outbox_type :: string where
  "paid_outbox_type = ''order.paid.v1''"

section \<open>Orders\<close>

definition provider_operation_key :: "uuid \<Rightarrow> string" where
  "provider_operation_key u = ''sitescore:checkout:v1:'' @ uuid_str u"

text \<open>The inserts of a new order; \<open>None\<close> is the IntegrityError of a duplicate primary key,
  digest or provider key.\<close>

definition insert_order ::
  "int \<Rightarrow> uuid \<Rightarrow> string \<Rightarrow> order_request \<Rightarrow> string \<Rightarrow> string \<Rightarrow> string \<Rightarrow> int \<Rightarrow> string \<Rightarrow> string \<Rightarrow> string
   \<Rightarrow> commerce_db \<Rightarrow> commerce_db option" where
  "insert_order now order_id key_digest rq request_hash catalog_version price_id quantity
     operation_version succ_url canc_url db = (
     if get_row o_id order_id (orders db) \<noteq> None then None
     else if get_row i_key_digest key_digest (idempotency db) \<noteq> None
          \<or> get_row i_order_id order_id (idempotency db) \<noteq> None then None
     else if get_row c_order_id order_id (checkouts db) \<noteq> None
          \<or> get_row c_provider_key (provider_operation_key order_id) (checkouts db) \<noteq> None
          \<or> quantity \<noteq> 1 then None
     else Some (db\<lparr>
       orders := add_row \<lparr>o_id = order_id, o_product_code = ''location_report_v1'',
         o_catalog_version = catalog_version, o_customer_email = rq_customer_email rq,
         o_purchase_intent = rq_purchase_intent rq, o_request_hash = request_hash,
         o_state = O_Pending, o_payment = P_Pending, o_fulfillment = F_Not_Started,
         o_created_at = now, o_updated_at = now\<rparr> (orders db),
       idempotency := add_row \<lparr>i_key_digest = key_digest, i_request_hash = request_hash,
         i_order_id = order_id, i_created_at = now\<rparr> (idempotency db),
       checkouts := add_row \<lparr>c_order_id = order_id, c_session_id = None,
         c_provider_key = provider_operation_key order_id, c_operation_version = operation_version,
         c_catalog_version = catalog_version, c_product_code = ''location_report_v1'',
         c_price_id = price_id, c_quantity = quantity, c_customer_email = rq_customer_email rq,
         c_success_url = succ_url, c_cancel_url = canc_url, c_url = None, c_expires_at = None,
         c_payment_intent = None, c_session_status = None, c_payment_status = None,
         c_livemode = None, c_reconciled_at = None, c_last_event_id = None,
         c_created_at = now, c_updated_at = now\<rparr> (checkouts db)\<rparr>))"

text \<open>\<open>race\<close> is what other transactions commit between the read of the idempotency row and the
  inserts; \<open>ft\<close> and \<open>ft2\<close> are the fates of the transaction and of the second session that
  reconciles an IntegrityError.\<close>

definition get_or_create_order ::
  "fault \<Rightarrow> fault \<Rightarrow> (commerce_db \<Rightarrow> commerce_db) \<Rightarrow> (order_request \<Rightarrow> string) \<Rightarrow> int \<Rightarrow> uuid \<Rightarrow> string
   \<Rightarrow> order_request \<Rightarrow> string \<Rightarrow> string \<Rightarrow> int \<Rightarrow> string \<Rightarrow> string \<Rightarrow> string
   \<Rightarrow> (commerce_db, commerce_error, uuid) call" where
  "get_or_create_order ft ft2 race canonical_hash now candidate key_digest rq catalog_version price_id
     quantity operation_version succ_url canc_url db = (
     let request_hash = canonical_hash rq;
         unavailable = Persistence_Unavailable ''commerce persistence is unavailable'' in
     if ft = Rolled_back then (Inl unavailable, race db)
     else case get_row i_key_digest key_digest (idempotency db) of
       Some existing \<Rightarrow>
         (if i_request_hash existing \<noteq> request_hash then Inl Idempotency_Conflict
          else if ft = Ack_lost then Inl unavailable
          else Inr (i_order_id existing), race db)
     | None \<Rightarrow>
         (let db' = race db in
          case insert_order now candidate key_digest rq request_hash catalog_version price_id quantity
                 operation_version succ_url canc_url db' of
            Some db'' \<Rightarrow> (if ft = Ack_lost then Inl unavailable else Inr candidate, db'')
          | None \<Rightarrow>
              (if ft2 \<noteq> Healthy then (Inl unavailable, db')
               else case get_row i_key_digest key_digest (idempotency db') of
                 None \<Rightarrow> (Inl (Persistence_Unavailable ''order idempotency race could not be reconciled''), db')
               | Some existing \<Rightarrow>
                   (if i_request_hash existing \<noteq> request_hash then Inl Idempotency_Conflict
                    else Inr (i_order_id existing), db'))))"

definition load_order_and_checkout ::
  "fault \<Rightarrow> uuid \<Rightarrow> (commerce_db, commerce_error, order_row \<times> checkout_row) call" where
  "load_order_and_checkout ft order_id =
     reading ft (Persistence_Unavailable ''commerce persistence is unavailable'') (\<lambda>db.
       case (get_row o_id order_id (orders db), get_row c_order_id order_id (checkouts db)) of
         (Some order, Some checkout) \<Rightarrow> Inr (order, checkout)
       | _ \<Rightarrow> Inl (Persistence_Unavailable ''commerce order binding is unavailable''))"

definition unique_session :: "string \<Rightarrow> checkout_row list \<Rightarrow> bool" where
  "unique_session sid rows = list_all (\<lambda>c. c_session_id c \<noteq> Some sid) rows"

definition bind_checkout ::
  "fault \<Rightarrow> int \<Rightarrow> uuid \<Rightarrow> string \<Rightarrow> string \<Rightarrow> int option \<Rightarrow> (commerce_db, commerce_error, checkout_row) call" where
  "bind_checkout ft now order_id session_id url expires_at =
     transaction ft (Persistence_Unavailable ''commerce checkout binding could not be persisted'') (\<lambda>db.
       case get_row c_order_id order_id (checkouts db) of
         None \<Rightarrow> (Inl (Persistence_Unavailable ''commerce checkout binding could not be persisted''), db)
       | Some row \<Rightarrow>
           (case c_session_id row of
              Some bound \<Rightarrow>
                (if bound \<noteq> session_id
                 then (Inl (Persistence_Unavailable ''checkout binding invariant failed''), db)
                 else (Inr row, db))
            | None \<Rightarrow>
                (if \<not> unique_session session_id (checkouts db)
                 then (Inl (Persistence_Unavailable ''commerce checkout binding could not be persisted''), db)
                 else
                   let row' = row\<lparr>c_session_id := Some session_id, c_url := Some url,
                                  c_expires_at := expires_at, c_updated_at := now\<rparr> in
                   (Inr row', db\<lparr>checkouts := put_row c_order_id row' (checkouts db)\<rparr>))))"

section \<open>The event inbox\<close>

record stripe_event =
  ev_id :: string
  ev_type :: string
  ev_api_version :: "string option"
  ev_livemode :: bool
  ev_created_at :: int
  ev_session_id :: "string option"
  ev_candidate_order :: "string option"

definition essential :: "inbox_row \<Rightarrow> string \<times> string option \<times> string option \<times> string option \<times> bool \<times> int" where
  "essential r = (e_type r, e_object_id r, e_candidate_order r, e_api_version r, e_livemode r, e_event_created r)"

definition incoming :: "stripe_event \<Rightarrow> string \<times> string option \<times> string option \<times> string option \<times> bool \<times> int" where
  "incoming ev = (ev_type ev, ev_session_id ev, ev_candidate_order ev, ev_api_version ev, ev_livemode ev, ev_created_at ev)"

definition record_stripe_event ::
  "fault \<Rightarrow> int \<Rightarrow> stripe_event \<Rightarrow> string \<Rightarrow> (commerce_db, commerce_error, unit) call" where
  "record_stripe_event ft now ev raw_sha =
     transaction ft (Persistence_Unavailable ''Stripe event inbox is unavailable'') (\<lambda>db.
       case get_row e_id (ev_id ev) (inbox db) of
         None \<Rightarrow> (Inr (), db\<lparr>inbox := add_row
           \<lparr>e_id = ev_id ev, e_type = ev_type ev, e_object_id = ev_session_id ev,
            e_candidate_order = ev_candidate_order ev, e_api_version = ev_api_version ev,
            e_livemode = ev_livemode ev, e_event_created = ev_created_at ev, e_raw_sha = raw_sha,
            e_state = E_Received, e_failure = None, e_received_at = now, e_processed_at = None,
            e_attempts = 1\<rparr> (inbox db)\<rparr>)
       | Some row \<Rightarrow>
           (if essential row \<noteq> incoming ev then (Inl Event_Identity_Conflict, db)
            else (Inr (), db\<lparr>inbox := put_row e_id (row\<lparr>e_attempts := e_attempts row + 1\<rparr>) (inbox db)\<rparr>)))"

definition get_event_state :: "fault \<Rightarrow> string \<Rightarrow> (commerce_db, commerce_error, event_state) call" where
  "get_event_state ft event_id =
     reading ft (Persistence_Unavailable ''Stripe event inbox is unavailable'') (\<lambda>db.
       case get_row e_id event_id (inbox db) of
         None \<Rightarrow> Inl (Persistence_Unavailable ''Stripe event inbox identity is unavailable'')
       | Some row \<Rightarrow> Inr (e_state row))"

definition finish_event ::
  "fault \<Rightarrow> int \<Rightarrow> string \<Rightarrow> event_state \<Rightarrow> string option \<Rightarrow> (commerce_db, commerce_error, unit) call" where
  "finish_event ft now event_id st code =
     transaction ft (Persistence_Unavailable ''Stripe event inbox update failed'') (\<lambda>db.
       case get_row e_id event_id (inbox db) of
         None \<Rightarrow> (Inl (Persistence_Unavailable ''Stripe event inbox update failed''), db)
       | Some row \<Rightarrow>
           (if e_state row = E_Processed then (Inr (), db)
            else (Inr (), db\<lparr>inbox := put_row e_id
              (row\<lparr>e_state := st, e_failure := code, e_processed_at := Some now\<rparr>) (inbox db)\<rparr>)))"

definition mark_event_attention :: "fault \<Rightarrow> int \<Rightarrow> string \<Rightarrow> string \<Rightarrow> (commerce_db, commerce_error, unit) call" where
  "mark_event_attention ft now event_id code = finish_event ft now event_id E_Attention (Some code)"

definition mark_event_ignored :: "fault \<Rightarrow> int \<Rightarrow> string \<Rightarrow> string \<Rightarrow> (commerce_db, commerce_error, unit) call" where
  "mark_event_ignored ft now event_id code = finish_event ft now event_id E_Ignored (Some code)"

section \<open>Payment transitions\<close>

text \<open>What the store reads of the evidence retrieved from Stripe.\<close>

record payment_evidence =
  pe_session_id :: string
  pe_status :: string
  pe_payment_status :: string
  pe_payment_intent :: "string option"
  pe_livemode :: bool

text \<open>The checks of the locked transition: a failure code, or whether the order moves.\<close>

definition transition_check ::
  "order_row \<Rightarrow> checkout_row \<Rightarrow> payment_evidence \<Rightarrow> string \<Rightarrow> (commerce_error, bool \<times> string option) result" where
  "transition_check order checkout ev target = (
     if c_session_id checkout \<noteq> None \<and> c_session_id checkout \<noteq> Some (pe_session_id ev)
     then Inr (False, Some ''local_session_binding_conflict'')
     else if target = ''paid'' then
       (if o_state order = O_Expired \<or> o_payment order = P_Expired
        then Inr (False, Some ''contradictory_terminal_payment_truth'')
        else if o_state order = O_Pending \<and> o_payment order = P_Pending then Inr (True, None)
        else if o_state order = O_Paid \<and> o_payment order = P_Paid then Inr (False, None)
        else Inr (False, Some ''invalid_payment_state_transition''))
     else if target = ''expired'' then
       (if o_state order = O_Paid \<or> o_payment order = P_Paid
        then Inr (False, Some ''late_expiration_after_paid'')
        else if o_state order = O_Pending \<and> o_payment order = P_Pending then Inr (True, None)
        else if o_state order = O_Expired \<and> o_payment order = P_Expired then Inr (False, None)
        else Inr (False, Some ''invalid_expiration_state_transition''))
     else Inl (Persistence_Unavailable ''unsupported reconciliation target''))"

definition reconcile_checkout :: "int \<Rightarrow> payment_evidence \<Rightarrow> string option \<Rightarrow> checkout_row \<Rightarrow> checkout_row" where
  "reconcile_checkout now ev event_id c =
     c\<lparr>c_session_id := (case c_session_id c of None \<Rightarrow> Some (pe_session_id ev) | Some s \<Rightarrow> Some s),
       c_payment_intent := pe_payment_intent ev,
       c_session_status := Some (pe_status ev),
       c_payment_status := Some (pe_payment_status ev),
       c_livemode := Some (pe_livemode ev),
       c_reconciled_at := Some now,
       c_last_event_id := (case event_id of None \<Rightarrow> c_last_event_id c | Some e \<Rightarrow> Some e),
       c_updated_at := now\<rparr>"

definition paid_outbox :: "uuid \<Rightarrow> outbox_row list \<Rightarrow> outbox_row option" where
  "paid_outbox order_id rows = List.find (\<lambda>x. x_order_id x = order_id \<and> x_type x = paid_outbox_type) rows"

definition apply_payment_transition_locked ::
  "int \<Rightarrow> uuid \<Rightarrow> order_row \<Rightarrow> checkout_row \<Rightarrow> payment_evidence \<Rightarrow> string \<Rightarrow> string option
   \<Rightarrow> (commerce_db, commerce_error, bool \<times> string option) call" where
  "apply_payment_transition_locked now outbox_id order checkout ev target event_id db = (
     case transition_check order checkout ev target of
       Inl e \<Rightarrow> (Inl e, db)
     | Inr (transitioned, Some code) \<Rightarrow> (Inr (transitioned, Some code), db)
     | Inr (transitioned, None) \<Rightarrow>
         (let db1 = db\<lparr>checkouts := put_row c_order_id (reconcile_checkout now ev event_id checkout) (checkouts db)\<rparr> in
          if c_session_id checkout = None \<and> \<not> unique_session (pe_session_id ev) (checkouts db)
          then (Inl Integrity_Error, db)
          else if transitioned \<and> target = ''paid'' then
            (let db2 = db1\<lparr>orders := put_row o_id
                   (order\<lparr>o_state := O_Paid, o_payment := P_Paid, o_updated_at := now\<rparr>) (orders db1)\<rparr> in
             if paid_outbox (o_id order) (outbox db2) \<noteq> None then (Inr (transitioned, None), db2)
             else if get_row x_id outbox_id (outbox db2) \<noteq> None then (Inl Integrity_Error, db)
             else (Inr (transitioned, None), db2\<lparr>outbox := add_row \<lparr>x_id = outbox_id, x_order_id = o_id order, x_type = paid_outbox_type,
                     x_version = ''1'', x_created_at = now, x_published_at = None\<rparr> (outbox db2)\<rparr>))
          else if transitioned \<and> target = ''expired'' then
            (Inr (transitioned, None), db1\<lparr>orders := put_row o_id
               (order\<lparr>o_state := O_Expired, o_payment := P_Expired, o_updated_at := now\<rparr>) (orders db1)\<rparr>)
          else (Inr (transitioned, None), db1)))"

text \<open>\<open>SELECT ... FOR UPDATE\<close> of an order and of its checkout row; \<open>scalar_one\<close> raises when
  there is none.\<close>

definition locked_rows :: "uuid \<Rightarrow> commerce_db \<Rightarrow> (order_row \<times> checkout_row) option" where
  "locked_rows order_id db =
     (case (get_row o_id order_id (orders db), get_row c_order_id order_id (checkouts db)) of
        (Some order, Some checkout) \<Rightarrow> Some (order, checkout) | _ \<Rightarrow> None)"

definition apply_reconciliation ::
  "fault \<Rightarrow> int \<Rightarrow> uuid \<Rightarrow> string \<Rightarrow> uuid \<Rightarrow> payment_evidence \<Rightarrow> string \<Rightarrow> (commerce_db, commerce_error, unit) call" where
  "apply_reconciliation ft now outbox_id event_id order_id ev target =
     transaction ft (Persistence_Unavailable ''payment reconciliation could not be persisted'') (\<lambda>db.
       case get_row e_id event_id (inbox db) of
         None \<Rightarrow> (Inl (Persistence_Unavailable ''payment reconciliation could not be persisted''), db)
       | Some row \<Rightarrow>
           (if e_state row = E_Processed then (Inr (), db)
            else case locked_rows order_id db of
              None \<Rightarrow> (Inl (Persistence_Unavailable ''payment reconciliation could not be persisted''), db)
            | Some (order, checkout) \<Rightarrow>
                (case apply_payment_transition_locked now outbox_id order checkout ev target (Some event_id) db of
                   (Inl e, db') \<Rightarrow> (Inl (on_integrity ''payment reconciliation could not be persisted'' e), db')
                 | (Inr (_, Some code), db') \<Rightarrow>
                     (Inr (), db'\<lparr>inbox := put_row e_id
                        (row\<lparr>e_state := E_Attention, e_failure := Some code, e_processed_at := Some now\<rparr>) (inbox db')\<rparr>)
                 | (Inr (_, None), db') \<Rightarrow>
                     (Inr (), db'\<lparr>inbox := put_row e_id
                        (row\<lparr>e_state := E_Processed, e_failure := None, e_processed_at := Some now\<rparr>) (inbox db')\<rparr>))))"

definition apply_poll_reconciliation ::
  "fault \<Rightarrow> int \<Rightarrow> uuid \<Rightarrow> uuid \<Rightarrow> uuid \<Rightarrow> payment_evidence \<Rightarrow> string \<Rightarrow> string \<Rightarrow> int
   \<Rightarrow> (commerce_db, commerce_error, string \<times> string option) call" where
  "apply_poll_reconciliation ft now outbox_id receipt_id order_id ev target evidence_sha observed_at =
     transaction ft (Persistence_Unavailable ''payment poll reconciliation could not be persisted'') (\<lambda>db.
       case locked_rows order_id db of
         None \<Rightarrow> (Inl (Persistence_Unavailable ''payment poll reconciliation could not be persisted''), db)
       | Some (order, checkout) \<Rightarrow>
           (case apply_payment_transition_locked now outbox_id order checkout ev target None db of
              (Inl e, db') \<Rightarrow> (Inl (on_integrity
                 ''payment poll reconciliation receipt conflicted with durable authority'' e), db')
            | (Inr (_, Some code), db') \<Rightarrow> (Inr (''attention'', Some code), db')
            | (Inr (False, None), db') \<Rightarrow> (Inr (''already_terminal'', None), db')
            | (Inr (True, None), db') \<Rightarrow>
                (if get_row r_order_id order_id (receipts db') \<noteq> None \<or> get_row r_id receipt_id (receipts db') \<noteq> None
                 then (Inl (Persistence_Unavailable ''payment poll reconciliation receipt conflicted with durable authority''), db')
                 else (Inr (''transitioned'', None), db'\<lparr>receipts := add_row
                   \<lparr>r_id = receipt_id, r_order_id = order_id, r_session_id = pe_session_id ev,
                    r_session_status = pe_status ev, r_payment_status = pe_payment_status ev,
                    r_payment_intent = pe_payment_intent ev, r_livemode = pe_livemode ev,
                    r_evidence_sha = evidence_sha, r_target = target, r_observed_at = observed_at,
                    r_created_at = now\<rparr> (receipts db')\<rparr>))))"

section \<open>The outbox dispatcher\<close>

definition unpublished :: "outbox_row \<Rightarrow> bool" where
  "unpublished x = (x_type x = paid_outbox_type \<and> x_version x = ''1'' \<and> x_published_at x = None)"

text \<open>\<open>ORDER BY created_at, outbox_id LIMIT 1\<close>; UUIDs compare as 128-bit numbers.\<close>

definition outbox_before :: "outbox_row \<Rightarrow> outbox_row \<Rightarrow> bool" where
  "outbox_before a b = (x_created_at a < x_created_at b \<or> (x_created_at a = x_created_at b \<and> x_id a < x_id b))"

fun first_outbox :: "outbox_row list \<Rightarrow> outbox_row option" where
  "first_outbox [] = None"
| "first_outbox (x # xs) = (case first_outbox xs of None \<Rightarrow> Some x
     | Some y \<Rightarrow> Some (if outbox_before y x then y else x))"

definition load_next_unpublished :: "fault \<Rightarrow> (commerce_db, commerce_error, outbox_row option) call" where
  "load_next_unpublished ft =
     reading ft (Persistence_Unavailable ''commerce outbox is unavailable'')
       (\<lambda>db. Inr (first_outbox (filter unpublished (outbox db))))"

definition mark_published :: "fault \<Rightarrow> int \<Rightarrow> uuid \<Rightarrow> (commerce_db, commerce_error, unit) call" where
  "mark_published ft now event_id =
     transaction ft (Persistence_Unavailable ''commerce outbox publish state could not be persisted'') (\<lambda>db.
       case List.find (\<lambda>x. x_id x = event_id \<and> x_type x = paid_outbox_type) (outbox db) of
         None \<Rightarrow> (Inl (Persistence_Unavailable ''commerce outbox event identity is unavailable''), db)
       | Some row \<Rightarrow>
           (if x_published_at row = None
            then (Inr (), db\<lparr>outbox := put_row x_id (row\<lparr>x_published_at := Some now\<rparr>) (outbox db)\<rparr>)
            else (Inr (), db)))"

text \<open>The HTTP client: a status code, or no definite response.\<close>

datatype dispatch_error = Transport_Error | Rejected int

definition webhook_send :: "(outbox_row \<Rightarrow> int option) \<Rightarrow> outbox_row \<Rightarrow> (dispatch_error, int) result" where
  "webhook_send post ev = (case post ev of None \<Rightarrow> Inl Transport_Error
     | Some status \<Rightarrow> if 200 \<le> status \<and> status < 300 then Inr status else Inl (Rejected status))"

datatype dispatch_result = Dispatch_Empty | Dispatch_Published uuid uuid int | Dispatch_Unpublished uuid uuid

definition dispatch_once ::
  "fault \<Rightarrow> fault \<Rightarrow> (outbox_row \<Rightarrow> int option) \<Rightarrow> int \<Rightarrow> (commerce_db, commerce_error, dispatch_result) call" where
  "dispatch_once ft ft2 post now =
     cbind (load_next_unpublished ft) (\<lambda>next. case next of
       None \<Rightarrow> (\<lambda>db. (Inr Dispatch_Empty, db))
     | Some ev \<Rightarrow>
         (case webhook_send post ev of
            Inl _ \<Rightarrow> (\<lambda>db. (Inr (Dispatch_Unpublished (x_id ev) (x_order_id ev)), db))
          | Inr status \<Rightarrow> cbind (mark_published ft2 now (x_id ev))
              (\<lambda>_ db. (Inr (Dispatch_Published (x_id ev) (x_order_id ev) status), db))))"

section \<open>The invariant of the commerce tables\<close>

definition unpaid :: "order_row \<Rightarrow> bool" where
  "unpaid ord = (o_payment ord = P_Pending \<or> o_payment ord = P_Expired)"

definition pay_consistent :: "order_row \<Rightarrow> bool" where
  "pay_consistent ord = ((o_state ord = O_Pending) = (o_payment ord = P_Pending)
     \<and> (o_state ord = O_Expired) = (o_payment ord = P_Expired))"

definition paid_count :: "uuid \<Rightarrow> outbox_row list \<Rightarrow> nat" where
  "paid_count u rows = length (filter (\<lambda>x. x_order_id x = u) rows)"

text \<open>An order has its checkout row, agreeing order and payment states, and exactly one paid
  event once it was paid, none before or when it expired.\<close>

definition order_ok :: "commerce_db \<Rightarrow> order_row \<Rightarrow> bool" where
  "order_ok db ord = (pay_consistent ord \<and> get_row c_order_id (o_id ord) (checkouts db) \<noteq> None
     \<and> paid_count (o_id ord) (outbox db) = (if unpaid ord then 0 else 1))"

definition receipt_ok :: "receipt_row \<Rightarrow> order_row \<Rightarrow> bool" where
  "receipt_ok r ord = ((r_target r = ''paid'' \<longrightarrow> \<not> unpaid ord)
     \<and> (r_target r = ''expired'' \<longrightarrow> o_payment ord = P_Expired) \<and> r_target r \<in> {''paid'', ''expired''})"

definition commerce_keys :: "commerce_db \<Rightarrow> bool" where
  "commerce_keys db = (distinct (map o_id (orders db)) \<and> distinct (map i_key_digest (idempotency db))
     \<and> distinct (map c_order_id (checkouts db)) \<and> distinct (map e_id (inbox db))
     \<and> distinct (map x_id (outbox db)) \<and> distinct (map r_order_id (receipts db)))"

definition commerce_inv :: "commerce_db \<Rightarrow> bool" where
  "commerce_inv db = (commerce_keys db
     \<and> (\<forall>u ord. get_row o_id u (orders db) = Some ord \<longrightarrow> order_ok db ord)
     \<and> (\<forall>x \<in> set (outbox db). x_type x = paid_outbox_type \<and> get_row o_id (x_order_id x) (orders db) \<noteq> None)
     \<and> (\<forall>i \<in> set (idempotency db). \<exists>ord. get_row o_id (i_order_id i) (orders db) = Some ord
           \<and> o_request_hash ord = i_request_hash i)
     \<and> (\<forall>r \<in> set (receipts db). \<exists>ord. get_row o_id (r_order_id r) (orders db) = Some ord \<and> receipt_ok r ord))"

lemma commerce_invD:
  assumes "commerce_inv db"
  shows "commerce_keys db"
    and "get_row o_id u (orders db) = Some ord \<Longrightarrow> order_ok db ord"
    and "x \<in> set (outbox db) \<Longrightarrow> x_type x = paid_outbox_type \<and> get_row o_id (x_order_id x) (orders db) \<noteq> None"
    and "i \<in> set (idempotency db) \<Longrightarrow> \<exists>ord. get_row o_id (i_order_id i) (orders db) = Some ord
           \<and> o_request_hash ord = i_request_hash i"
    and "r \<in> set (receipts db) \<Longrightarrow> \<exists>ord. get_row o_id (r_order_id r) (orders db) = Some ord \<and> receipt_ok r ord"
  using assms by (auto simp: commerce_inv_def)

lemma get_row_key: "get_row key k rows = Some r \<Longrightarrow> key r = k"
  using get_row_Some by fastforce

lemma put_row_lookup:
  "get_row key (key r) rows \<noteq> None \<Longrightarrow>
   get_row key k (put_row key r rows) = (if key r = k then Some r else get_row key k rows)"
  by (rule rows.lookup_store)

lemma add_row_lookup:
  "get_row key (key r) rows = None \<Longrightarrow>
   get_row key k (add_row r rows) = (if key r = k then Some r else get_row key k rows)"
  by (rule rows.lookup_insert)

lemma distinct_add_row:
  "distinct (map key rows) \<Longrightarrow> get_row key (key r) rows = None \<Longrightarrow> distinct (map key (add_row r rows))"
  by (simp add: keys_add_row get_row_None)

lemma empty_commerce_inv: "commerce_inv empty_commerce"
  by (simp add: commerce_inv_def commerce_keys_def empty_commerce_def get_row_def)

text \<open>Frame rules: writing a checkout or an inbox row leaves the invariant.\<close>

lemma commerce_inv_checkout:
  assumes "commerce_inv db" "get_row c_order_id (c_order_id row) (checkouts db) \<noteq> None"
  shows "commerce_inv (db\<lparr>checkouts := put_row c_order_id row (checkouts db)\<rparr>)"
  using assms unfolding commerce_inv_def
  by (auto simp: commerce_keys_def keys_put_row order_ok_def put_row_lookup)

lemma commerce_inv_inbox:
  assumes "commerce_inv db" "distinct (map e_id rows)"
  shows "commerce_inv (db\<lparr>inbox := rows\<rparr>)"
  using assms unfolding commerce_inv_def by (auto simp: commerce_keys_def order_ok_def)

lemma paid_count_0: "paid_count u rows = 0 \<longleftrightarrow> (\<forall>x \<in> set rows. x_order_id x \<noteq> u)"
  by (simp add: paid_count_def filter_empty_conv)

lemma paid_outbox_None:
  "paid_count u rows = 0 \<Longrightarrow> paid_outbox u rows = None"
  by (auto simp: paid_outbox_def find_None_iff paid_count_0)

text \<open>The general rule for rewriting one order, with a new outbox.\<close>

lemma commerce_inv_order:
  assumes inv: "commerce_inv db" and ord: "get_row o_id u (orders db) = Some ord"
    and ord': "o_id ord' = u" "o_request_hash ord' = o_request_hash ord" "order_ok (db\<lparr>outbox := ob\<rparr>) ord'"
    and ob: "distinct (map x_id ob)" "\<And>v. v \<noteq> u \<Longrightarrow> paid_count v ob = paid_count v (outbox db)"
      "\<And>x. x \<in> set ob \<Longrightarrow> x_type x = paid_outbox_type \<and> (x_order_id x = u \<or> x \<in> set (outbox db))"
    and rc: "\<And>r. r \<in> set (receipts db) \<Longrightarrow> r_order_id r = u \<Longrightarrow> receipt_ok r ord \<Longrightarrow> receipt_ok r ord'"
  shows "commerce_inv (db\<lparr>orders := put_row o_id ord' (orders db), outbox := ob\<rparr>)" (is "commerce_inv ?db")
proof -
  have lk: "get_row o_id v (put_row o_id ord' (orders db)) = (if u = v then Some ord' else get_row o_id v (orders db))" for v
    using put_row_lookup [of o_id ord' "orders db" v] ord ord'(1) by simp
  have "commerce_keys ?db" using commerce_invD(1) [OF inv] ob(1) by (simp add: commerce_keys_def keys_put_row)
  moreover have "order_ok ?db o2" if "get_row o_id v (orders ?db) = Some o2" for v o2
    using that ord' commerce_invD(2) [OF inv, of v o2] ob(2) [of v]
    by (auto simp: lk order_ok_def dest: get_row_key split: if_splits)
  moreover have "x_type x = paid_outbox_type \<and> get_row o_id (x_order_id x) (orders ?db) \<noteq> None"
    if "x \<in> set (outbox ?db)" for x
    using ob(3) [of x] commerce_invD(3) [OF inv, of x] that by (auto simp: lk)
  moreover have "\<exists>o2. get_row o_id (i_order_id i) (orders ?db) = Some o2 \<and> o_request_hash o2 = i_request_hash i"
    if "i \<in> set (idempotency ?db)" for i
    using commerce_invD(4) [OF inv, of i] that ord ord'(2) by (auto simp: lk)
  moreover have "\<exists>o2. get_row o_id (r_order_id r) (orders ?db) = Some o2 \<and> receipt_ok r o2"
    if "r \<in> set (receipts ?db)" for r
    using commerce_invD(5) [OF inv, of r] that ord rc [of r] by (auto simp: lk)
  ultimately show ?thesis unfolding commerce_inv_def by blast
qed

lemma commerce_inv_pending_paid:
  assumes inv: "commerce_inv db" and ord: "get_row o_id u (orders db) = Some ord" "o_payment ord = P_Pending"
    and x: "get_row x_id (x_id x) (outbox db) = None" "x_order_id x = u" "x_type x = paid_outbox_type"
  shows "commerce_inv (db\<lparr>orders := put_row o_id
    (ord\<lparr>o_state := O_Paid, o_payment := P_Paid, o_updated_at := now\<rparr>) (orders db), outbox := add_row x (outbox db)\<rparr>)"
proof (rule commerce_inv_order [OF inv ord(1)])
  have ok: "order_ok db ord" "o_id ord = u" using commerce_invD(2) [OF inv ord(1)] ord(1) by (auto dest: get_row_key)
  then show "order_ok (db\<lparr>outbox := add_row x (outbox db)\<rparr>)
      (ord\<lparr>o_state := O_Paid, o_payment := P_Paid, o_updated_at := now\<rparr>)"
    using ord(2) x(2) by (auto simp: order_ok_def unpaid_def pay_consistent_def paid_count_def add_row_def)
  show "distinct (map x_id (add_row x (outbox db)))"
    using commerce_invD(1) [OF inv] x(1) by (simp add: commerce_keys_def distinct_add_row)
qed (use ord x commerce_invD(3) [OF inv] in
      \<open>auto simp: paid_count_def add_row_def receipt_ok_def unpaid_def dest: get_row_key\<close>)

lemma commerce_inv_pending_expired:
  assumes inv: "commerce_inv db" and ord: "get_row o_id u (orders db) = Some ord" "o_payment ord = P_Pending"
  shows "commerce_inv (db\<lparr>orders := put_row o_id
    (ord\<lparr>o_state := O_Expired, o_payment := P_Expired, o_updated_at := now\<rparr>) (orders db)\<rparr>)"
proof -
  let ?ord = "ord\<lparr>o_state := O_Expired, o_payment := P_Expired, o_updated_at := now\<rparr>"
  have "commerce_inv (db\<lparr>orders := put_row o_id ?ord (orders db), outbox := outbox db\<rparr>)"
  proof (rule commerce_inv_order [OF inv ord(1)])
    have "order_ok db ord" using commerce_invD(2) [OF inv ord(1)] .
    then show "order_ok (db\<lparr>outbox := outbox db\<rparr>) ?ord"
      using ord(2) by (auto simp: order_ok_def unpaid_def pay_consistent_def)
    show "distinct (map x_id (outbox db))" using commerce_invD(1) [OF inv] by (simp add: commerce_keys_def)
  qed (use ord commerce_invD(3) [OF inv] in \<open>auto simp: receipt_ok_def unpaid_def dest: get_row_key\<close>)
  then show ?thesis by simp
qed

text \<open>A receipt for an order that just moved.\<close>

lemma commerce_inv_receipt:
  assumes "commerce_inv db" "get_row o_id (r_order_id r) (orders db) = Some ord" "receipt_ok r ord"
    and "get_row r_order_id (r_order_id r) (receipts db) = None"
  shows "commerce_inv (db\<lparr>receipts := add_row r (receipts db)\<rparr>)"
  using assms unfolding commerce_inv_def
  by (auto simp: commerce_keys_def distinct_add_row order_ok_def in_add_row)

section \<open>Every operation keeps the invariant\<close>

lemma locked_rowsD:
  "locked_rows u db = Some (ord, chk) \<Longrightarrow> get_row o_id u (orders db) = Some ord \<and> o_id ord = u
    \<and> get_row c_order_id u (checkouts db) = Some chk \<and> c_order_id chk = u"
  by (auto simp: locked_rows_def dest: get_row_key split: option.splits)

lemma transition_check_Inr:
  assumes "transition_check ord chk ev target = Inr (t, f)"
  shows "(f \<noteq> None \<and> \<not> t)
    \<or> (f = None \<and> t \<and> o_state ord = O_Pending \<and> o_payment ord = P_Pending \<and> target \<in> {''paid'', ''expired''})
    \<or> (f = None \<and> \<not> t \<and> ((target = ''paid'' \<and> o_state ord = O_Paid \<and> o_payment ord = P_Paid)
          \<or> (target = ''expired'' \<and> o_state ord = O_Expired \<and> o_payment ord = P_Expired)))"
  using assms by (auto simp: transition_check_def split: if_splits)

lemma reconcile_checkout_id [simp]: "c_order_id (reconcile_checkout now ev e c) = c_order_id c"
  by (simp add: reconcile_checkout_def)

text \<open>The four ways the locked transition can end without an exception.\<close>

lemma apply_locked_cases:
  assumes inv: "commerce_inv db" and rows: "locked_rows u db = Some (ord, chk)"
    and run: "apply_payment_transition_locked now xid ord chk ev target eid db = (Inr (t, f), db')"
  obtains (refused) code where "f = Some code" "\<not> t" "db' = db"
  | (already) "f = None" "\<not> t"
      "(target = ''paid'' \<and> o_payment ord = P_Paid) \<or> (target = ''expired'' \<and> o_payment ord = P_Expired)"
      "db' = db\<lparr>checkouts := put_row c_order_id (reconcile_checkout now ev eid chk) (checkouts db)\<rparr>"
  | (paid) x where "f = None" "t" "target = ''paid''" "o_payment ord = P_Pending"
      "get_row x_id (x_id x) (outbox db) = None" "x_order_id x = u" "x_type x = paid_outbox_type"
      "x_published_at x = None"
      "db' = db\<lparr>checkouts := put_row c_order_id (reconcile_checkout now ev eid chk) (checkouts db),
         orders := put_row o_id (ord\<lparr>o_state := O_Paid, o_payment := P_Paid, o_updated_at := now\<rparr>) (orders db),
         outbox := add_row x (outbox db)\<rparr>"
  | (expired) "f = None" "t" "target = ''expired''" "o_payment ord = P_Pending"
      "db' = db\<lparr>checkouts := put_row c_order_id (reconcile_checkout now ev eid chk) (checkouts db),
         orders := put_row o_id (ord\<lparr>o_state := O_Expired, o_payment := P_Expired, o_updated_at := now\<rparr>) (orders db)\<rparr>"
proof -
  obtain t' f' where tc: "transition_check ord chk ev target = Inr (t', f')"
    using run by (cases "transition_check ord chk ev target") (auto simp: apply_payment_transition_locked_def)
  note row = locked_rowsD [OF rows]
  show thesis
  proof (cases f')
    case (Some code)
    with run tc transition_check_Inr [OF tc] show thesis
      by (intro refused) (auto simp: apply_payment_transition_locked_def)
  next
    case None
    then have run': "(if c_session_id chk = None \<and> \<not> unique_session (pe_session_id ev) (checkouts db) then True else False) = False"
      using run tc by (auto simp: apply_payment_transition_locked_def Let_def split: if_splits)
    from transition_check_Inr [OF tc] None
    consider (p) "t'" "o_payment ord = P_Pending" "target = ''paid''"
      | (e) "t'" "o_payment ord = P_Pending" "target = ''expired''"
      | (n) "\<not> t'" "(target = ''paid'' \<and> o_payment ord = P_Paid) \<or> (target = ''expired'' \<and> o_payment ord = P_Expired)"
      by auto
    then show thesis
    proof cases
      case n
      with run tc None run' show thesis
        by (intro already) (auto simp: apply_payment_transition_locked_def Let_def split: if_splits)
    next
      case e
      with run tc None run' show thesis
        by (intro expired) (auto simp: apply_payment_transition_locked_def Let_def split: if_splits)
    next
      case p
      have "paid_count u (outbox db) = 0"
        using commerce_invD(2) [OF inv, of u ord] row p(2) by (simp add: order_ok_def unpaid_def)
      then have "paid_outbox (o_id ord) (outbox db) = None" using row by (simp add: paid_outbox_None)
      with p run tc None run' row show thesis
        by (intro paid [of "\<lparr>x_id = xid, x_order_id = o_id ord, x_type = paid_outbox_type,
              x_version = ''1'', x_created_at = now, x_published_at = None\<rparr>"])
           (auto simp: apply_payment_transition_locked_def Let_def split: if_splits)
    qed
  qed
qed

lemma apply_locked_inv:
  assumes inv: "commerce_inv db" and rows: "locked_rows u db = Some (ord, chk)"
    and run: "apply_payment_transition_locked now xid ord chk ev target eid db = (Inr (t, f), db')"
  shows "commerce_inv db'"
proof -
  let ?db = "db\<lparr>checkouts := put_row c_order_id (reconcile_checkout now ev eid chk) (checkouts db)\<rparr>"
  have inv1: "commerce_inv ?db"
    using inv locked_rowsD [OF rows] by (intro commerce_inv_checkout) auto
  have ord: "get_row o_id u (orders ?db) = Some ord" using locked_rowsD [OF rows] by simp
  from inv rows run show ?thesis
  proof (cases rule: apply_locked_cases)
    case (paid x)
    then show ?thesis using commerce_inv_pending_paid [OF inv1 ord, of x now] by simp
  next
    case expired
    then show ?thesis using commerce_inv_pending_expired [OF inv1 ord, of now] by simp
  qed (use inv inv1 in simp_all)
qed

lemma apply_locked_inbox:
  "apply_payment_transition_locked now xid ord chk ev target eid db = (r, db') \<Longrightarrow>
   inbox db' = inbox db \<and> receipts db' = receipts db \<and> idempotency db' = idempotency db"
  by (auto simp: apply_payment_transition_locked_def Let_def split: sum.splits prod.splits option.splits if_splits)

lemma distinct_inbox: "commerce_inv db \<Longrightarrow> distinct (map e_id (inbox db))"
  by (simp add: commerce_inv_def commerce_keys_def)

lemma apply_reconciliation_inv:
  assumes "commerce_inv db"
  shows "commerce_inv (snd (apply_reconciliation ft now xid eid u ev target db))"
  unfolding apply_reconciliation_def
proof (rule transaction_inv [where P = commerce_inv, OF assms], goal_cases)
  case (1 x s')
  from 1 show "commerce_inv s'"
    using assms
    by (auto split: option.splits if_splits prod.splits sum.splits
        intro!: commerce_inv_inbox simp: keys_put_row distinct_inbox dest: apply_locked_inv)
qed

lemma apply_poll_reconciliation_inv:
  assumes inv: "commerce_inv db"
  shows "commerce_inv (snd (apply_poll_reconciliation ft now xid rid u ev target sha obs db))"
  unfolding apply_poll_reconciliation_def
proof (rule transaction_inv [where P = commerce_inv, OF inv], goal_cases)
  case run: (1 x s')
  let ?r = "\<lparr>r_id = rid, r_order_id = u, r_session_id = pe_session_id ev,
      r_session_status = pe_status ev, r_payment_status = pe_payment_status ev,
      r_payment_intent = pe_payment_intent ev, r_livemode = pe_livemode ev,
      r_evidence_sha = sha, r_target = target, r_observed_at = obs, r_created_at = now\<rparr>"
  from run obtain ord chk t f db' where rows: "locked_rows u db = Some (ord, chk)"
    and ap: "apply_payment_transition_locked now xid ord chk ev target None db = (Inr (t, f), db')"
    by (auto split: option.splits prod.splits sum.splits)
  note inv' = apply_locked_inv [OF inv rows ap]
  show "commerce_inv s'"
  proof (cases "f = None \<and> t")
    case False
    then have "s' = db'" using run rows ap by (auto split: option.splits bool.splits)
    with inv' show ?thesis by simp
  next
    case True
    then have s': "s' = db'\<lparr>receipts := add_row ?r (receipts db')\<rparr>" "get_row r_order_id u (receipts db') = None"
      using run rows ap by (auto split: if_splits)
    have ord': "\<exists>o2. get_row o_id u (orders db') = Some o2 \<and> receipt_ok ?r o2"
      using inv rows ap
    proof (cases rule: apply_locked_cases)
      case (paid y)
      with locked_rowsD [OF rows] show ?thesis
        by (auto simp: put_row_lookup receipt_ok_def unpaid_def)
    next
      case expired
      with locked_rowsD [OF rows] show ?thesis
        by (auto simp: put_row_lookup receipt_ok_def unpaid_def)
    qed (use True in auto)
    with s' inv' show ?thesis by (auto intro: commerce_inv_receipt)
  qed
qed

lemma insert_order_inv:
  assumes inv: "commerce_inv db"
    and ins: "insert_order now u key rq h cat price q opv su cu db = Some db'" and h: "h = canonical_hash rq"
  shows "commerce_inv db'"
proof -
  let ?o = "\<lparr>o_id = u, o_product_code = ''location_report_v1'', o_catalog_version = cat,
      o_customer_email = rq_customer_email rq, o_purchase_intent = rq_purchase_intent rq, o_request_hash = h,
      o_state = O_Pending, o_payment = P_Pending, o_fulfillment = F_Not_Started, o_created_at = now, o_updated_at = now\<rparr>"
  have fresh: "get_row o_id u (orders db) = None" "get_row i_key_digest key (idempotency db) = None"
      "get_row c_order_id u (checkouts db) = None"
    using ins by (auto simp: insert_order_def split: if_splits)
  have o': "orders db' = add_row ?o (orders db)" "outbox db' = outbox db" "receipts db' = receipts db" "inbox db' = inbox db"
    using ins by (auto simp: insert_order_def split: if_splits)
  have lk: "get_row o_id v (orders db') = (if v = u then Some ?o else get_row o_id v (orders db))" for v
    using add_row_lookup [of o_id ?o "orders db" v] fresh(1) by (simp add: o'(1))
  obtain i where i: "idempotency db' = add_row i (idempotency db)" "i_key_digest i = key" "i_order_id i = u" "i_request_hash i = h"
    using ins by (auto simp: insert_order_def split: if_splits)
  obtain c where c: "checkouts db' = add_row c (checkouts db)" "c_order_id c = u"
    using ins by (auto simp: insert_order_def split: if_splits)
  have ck: "get_row c_order_id w (checkouts db') = (if u = w then Some c else get_row c_order_id w (checkouts db))" for w
    using add_row_lookup [of c_order_id c "checkouts db" w] fresh(3) c by simp
  have "commerce_keys db'"
    using commerce_invD(1) [OF inv] fresh i(2) c(2)
    by (simp add: commerce_keys_def o' i(1) c(1) distinct_add_row)
  moreover have "paid_count u (outbox db) = 0"
    using commerce_invD(3) [OF inv] fresh(1) unfolding paid_count_0 by metis
  moreover have "order_ok db' o2" if "get_row o_id v (orders db') = Some o2" for v o2
  proof (cases "v = u")
    case True
    then show ?thesis using that calculation(2)
      by (auto simp: lk o'(2) ck order_ok_def pay_consistent_def unpaid_def)
  next
    case False
    then have "get_row o_id v (orders db) = Some o2" using that by (simp add: lk)
    with False commerce_invD(2) [OF inv this] show ?thesis
      by (auto simp: o'(2) ck order_ok_def dest: get_row_key)
  qed
  moreover have "\<exists>o2. get_row o_id (i_order_id j) (orders db') = Some o2 \<and> o_request_hash o2 = i_request_hash j"
    if "j \<in> set (idempotency db')" for j
    using that commerce_invD(4) [OF inv, of j] fresh(1) i by (auto simp: lk in_add_row)
  moreover have "x_type x = paid_outbox_type \<and> get_row o_id (x_order_id x) (orders db') \<noteq> None"
    if "x \<in> set (outbox db')" for x
    using that commerce_invD(3) [OF inv, of x] by (auto simp: lk o'(2))
  moreover have "\<exists>o2. get_row o_id (r_order_id r) (orders db') = Some o2 \<and> receipt_ok r o2"
    if "r \<in> set (receipts db')" for r
    using that commerce_invD(5) [OF inv, of r] fresh(1) by (auto simp: lk o'(3))
  ultimately show ?thesis unfolding commerce_inv_def by blast
qed

lemma get_or_create_order_inv:
  assumes "commerce_inv (race db)"
  shows "commerce_inv (snd (get_or_create_order ft ft2 race ch now u key rq cat price q opv su cu db))"
  using assms insert_order_inv [OF assms]
  by (auto simp: get_or_create_order_def Let_def split: option.splits if_splits)

lemma bind_checkout_inv:
  assumes "commerce_inv db" shows "commerce_inv (snd (bind_checkout ft now u sid url ex db))"
  unfolding bind_checkout_def
proof (rule transaction_inv [where P = commerce_inv, OF assms], goal_cases)
  case (1 x s')
  then show ?case using assms
    by (auto simp: Let_def split: option.splits if_splits intro!: commerce_inv_checkout simp: get_row_key [of c_order_id])
qed

lemma record_stripe_event_inv:
  assumes "commerce_inv db" shows "commerce_inv (snd (record_stripe_event ft now ev sha db))"
  unfolding record_stripe_event_def
proof (rule transaction_inv [where P = commerce_inv, OF assms], goal_cases)
  case (1 x s')
  then show ?case using assms
    by (auto split: option.splits if_splits intro!: commerce_inv_inbox
        simp: keys_put_row distinct_inbox distinct_add_row)
qed

lemma finish_event_inv:
  assumes "commerce_inv db" shows "commerce_inv (snd (finish_event ft now eid st code db))"
  unfolding finish_event_def
proof (rule transaction_inv [where P = commerce_inv, OF assms], goal_cases)
  case (1 x s')
  then show ?case using assms
    by (auto split: option.splits if_splits intro!: commerce_inv_inbox simp: keys_put_row distinct_inbox)
qed

lemma paid_count_put:
  assumes "row \<in> set rows" "distinct (map x_id rows)" "x_id row' = x_id row" "x_order_id row' = x_order_id row"
  shows "paid_count u (put_row x_id row' rows) = paid_count u rows"
  unfolding paid_count_def
  by (rule filter_put_row_same) (metis assms distinct_keys_unique)

lemma commerce_inv_outbox_put:
  assumes inv: "commerce_inv db" and row: "row \<in> set (outbox db)"
    and row': "x_id row' = x_id row" "x_order_id row' = x_order_id row" "x_type row' = x_type row"
  shows "commerce_inv (db\<lparr>outbox := put_row x_id row' (outbox db)\<rparr>)"
proof -
  have d: "distinct (map x_id (outbox db))" using commerce_invD(1) [OF inv] by (simp add: commerce_keys_def)
  note cnt = paid_count_put [OF row d row'(1,2)]
  have "x_type x = paid_outbox_type \<and> get_row o_id (x_order_id x) (orders db) \<noteq> None"
    if "x \<in> set (put_row x_id row' (outbox db))" for x
    using in_put_row [OF that] commerce_invD(3) [OF inv, of x] commerce_invD(3) [OF inv row] row' by auto
  then show ?thesis
    using inv unfolding commerce_inv_def by (auto simp: commerce_keys_def keys_put_row order_ok_def cnt)
qed

lemma mark_published_inv:
  assumes "commerce_inv db" shows "commerce_inv (snd (mark_published ft now xid db))"
  unfolding mark_published_def
proof (rule transaction_inv [where P = commerce_inv, OF assms], goal_cases)
  case (1 x s')
  then obtain row where row: "List.find (\<lambda>x. x_id x = xid \<and> x_type x = paid_outbox_type) (outbox db) = Some row"
    by (auto split: option.splits)
  then have "row \<in> set (outbox db)" by (auto simp: find_Some_iff)
  from commerce_inv_outbox_put [OF assms this] 1 row assms show ?case by (auto split: if_splits)
qed

lemma dispatch_once_inv:
  assumes "commerce_inv db" shows "commerce_inv (snd (dispatch_once ft ft2 post now db))"
  unfolding dispatch_once_def
proof (rule cbind_inv)
  show "commerce_inv (snd (load_next_unpublished ft db))" using assms by (simp add: load_next_unpublished_def)
next
  fix nx s' assume s': "commerce_inv s'"
  have "commerce_inv (snd (cbind (mark_published ft2 now xid) (\<lambda>_ db. (Inr v, db)) s'))" for xid v
    by (rule cbind_inv) (simp_all add: mark_published_inv s')
  with s' show "commerce_inv (snd ((case nx of
       None \<Rightarrow> (\<lambda>db. (Inr Dispatch_Empty, db))
     | Some ev \<Rightarrow>
         (case webhook_send post ev of
            Inl _ \<Rightarrow> (\<lambda>db. (Inr (Dispatch_Unpublished (x_id ev) (x_order_id ev)), db))
          | Inr status \<Rightarrow> cbind (mark_published ft2 now (x_id ev))
              (\<lambda>_ db. (Inr (Dispatch_Published (x_id ev) (x_order_id ev) status), db)))) s'))"
    by (auto split: option.splits sum.splits)
qed

section \<open>Reachable commerce states\<close>

text \<open>
  The databases that any interleaving of the store's operations can produce, each with any clock,
  fresh identifiers, evidence and database fault. The transactions that slip into an order
  creation are themselves reachable behaviour.
\<close>

inductive commerce_reachable :: "commerce_db \<Rightarrow> bool" where
  start: "commerce_reachable empty_commerce"
| create: "commerce_reachable db \<Longrightarrow> commerce_reachable (race db) \<Longrightarrow>
    commerce_reachable (snd (get_or_create_order ft ft2 race ch now u key rq cat price q opv su cu db))"
| bind: "commerce_reachable db \<Longrightarrow> commerce_reachable (snd (bind_checkout ft now u sid url ex db))"
| record_event: "commerce_reachable db \<Longrightarrow> commerce_reachable (snd (record_stripe_event ft now ev sha db))"
| finish: "commerce_reachable db \<Longrightarrow> commerce_reachable (snd (finish_event ft now eid st code db))"
| webhook: "commerce_reachable db \<Longrightarrow>
    commerce_reachable (snd (apply_reconciliation ft now xid eid u pe target db))"
| poll: "commerce_reachable db \<Longrightarrow>
    commerce_reachable (snd (apply_poll_reconciliation ft now xid rid u pe target sha obs db))"
| dispatch: "commerce_reachable db \<Longrightarrow> commerce_reachable (snd (dispatch_once ft ft2 post now db))"
| publish: "commerce_reachable db \<Longrightarrow> commerce_reachable (snd (mark_published ft now xid db))"

lemma commerce_reachable_inv: "commerce_reachable db \<Longrightarrow> commerce_inv db"
  by (induction rule: commerce_reachable.induct)
     (simp_all add: empty_commerce_inv get_or_create_order_inv bind_checkout_inv record_stripe_event_inv
        finish_event_inv apply_reconciliation_inv apply_poll_reconciliation_inv dispatch_once_inv mark_published_inv)

text \<open>
  C1: in every reachable commerce database, whatever the interleaving, the faults and the
  evidence, order and payment state agree, a paid order has exactly one \<open>order.paid.v1\<close> event
  and an order that is pending or expired has none, and a poll receipt exists at most once per
  order and only for the terminal state that the order is in.
\<close>

theorem paid_event_exactly_once:
  assumes "commerce_reachable db" "ord \<in> set (orders db)"
  shows "(o_state ord = O_Pending \<longleftrightarrow> o_payment ord = P_Pending)
    \<and> (o_state ord = O_Expired \<longleftrightarrow> o_payment ord = P_Expired)
    \<and> length (filter (\<lambda>x. x_order_id x = o_id ord) (outbox db))
        = (if o_payment ord = P_Pending \<or> o_payment ord = P_Expired then 0 else 1)
    \<and> (\<forall>r \<in> set (receipts db). r_order_id r = o_id ord \<longrightarrow>
        (if r_target r = ''paid'' then o_payment ord \<notin> {P_Pending, P_Expired} else o_payment ord = P_Expired))
    \<and> length (filter (\<lambda>r. r_order_id r = o_id ord) (receipts db)) \<le> 1"
proof -
  have inv: "commerce_inv db" by (rule commerce_reachable_inv [OF assms(1)])
  have row: "get_row o_id (o_id ord) (orders db) = Some ord"
    using commerce_invD(1) [OF inv] assms(2) by (auto simp: commerce_keys_def intro: get_row_distinct)
  have "order_ok db ord" using commerce_invD(2) [OF inv row] .
  moreover have "receipt_ok r ord" if "r \<in> set (receipts db)" "r_order_id r = o_id ord" for r
    using commerce_invD(5) [OF inv that(1)] row that(2) by auto
  moreover have one: "length (filter (\<lambda>r. r_order_id r = o_id ord) rs) \<le> 1" if "distinct (map r_order_id rs)" for rs
    using that by (induction rs) (auto simp: filter_empty_conv image_iff)
  moreover have "distinct (map r_order_id (receipts db))"
    using commerce_invD(1) [OF inv] by (simp add: commerce_keys_def)
  note one [OF this]
  ultimately show ?thesis
    by (auto simp: order_ok_def pay_consistent_def unpaid_def paid_count_def receipt_ok_def)
qed

section \<open>Terminal payments, retries and races\<close>

lemma apply_locked_terminal:
  assumes inv: "commerce_inv db" and rows: "locked_rows v db = Some (ord', chk)"
    and run: "apply_payment_transition_locked now xid ord' chk ev target eid db = (Inr (t, f), db')"
    and ord: "get_row o_id u (orders db) = Some ord" "o_payment ord \<noteq> P_Pending"
  shows "get_row o_id u (orders db') = Some ord \<and> paid_count u (outbox db') = paid_count u (outbox db)"
  using inv rows run
proof (cases rule: apply_locked_cases)
  case (paid x)
  then have "u \<noteq> v" using ord locked_rowsD [OF rows] by auto
  with paid ord locked_rowsD [OF rows] show ?thesis
    by (simp add: put_row_lookup paid_count_def add_row_def)
next
  case expired
  then have "u \<noteq> v" using ord locked_rowsD [OF rows] by auto
  with expired ord locked_rowsD [OF rows] show ?thesis by (simp add: put_row_lookup)
qed (use ord in simp_all)

lemma webhook_terminal:
  assumes inv: "commerce_inv db" and ord: "get_row o_id u (orders db) = Some ord" "o_payment ord \<noteq> P_Pending"
  shows "get_row o_id u (orders (snd (apply_reconciliation ft now xid eid v ev target db))) = Some ord \<and>
    paid_count u (outbox (snd (apply_reconciliation ft now xid eid v ev target db))) = paid_count u (outbox db)"
    (is "?P (snd (apply_reconciliation ft now xid eid v ev target db))")
  unfolding apply_reconciliation_def
proof (rule transaction_inv [where P = ?P], goal_cases)
  case (2 x s')
  then show ?case using ord
    by (auto split: option.splits if_splits prod.splits sum.splits
        dest: apply_locked_terminal [OF inv _ _ ord])
qed (use ord in simp)

lemma poll_terminal:
  assumes inv: "commerce_inv db" and ord: "get_row o_id u (orders db) = Some ord" "o_payment ord \<noteq> P_Pending"
  shows "get_row o_id u (orders (snd (apply_poll_reconciliation ft now xid rid v ev target sha obs db))) = Some ord \<and>
    paid_count u (outbox (snd (apply_poll_reconciliation ft now xid rid v ev target sha obs db))) = paid_count u (outbox db)"
    (is "?P (snd (apply_poll_reconciliation ft now xid rid v ev target sha obs db))")
  unfolding apply_poll_reconciliation_def
proof (rule transaction_inv [where P = ?P], goal_cases)
  case (2 x s')
  then show ?case using ord
    by (auto split: option.splits if_splits prod.splits sum.splits bool.splits
        dest: apply_locked_terminal [OF inv _ _ ord])
qed (use ord in simp)

text \<open>
  C25: paid and expired are final for the payment store. No webhook event and no server poll, for
  this or for another order, with whatever evidence and target, changes an order whose payment
  is no longer pending, or adds to its paid events.
\<close>

theorem terminal_payment_is_final:
  assumes "commerce_reachable db" "get_row o_id u (orders db) = Some ord" "o_payment ord \<noteq> P_Pending"
    and "s = snd (apply_reconciliation ft now xid eid v ev target db)
      \<or> s = snd (apply_poll_reconciliation ft now xid rid v ev target sha obs db)"
  shows "get_row o_id u (orders s) = Some ord \<and> paid_count u (outbox s) = paid_count u (outbox db)"
  using assms(4) webhook_terminal [OF commerce_reachable_inv [OF assms(1)] assms(2,3)]
    poll_terminal [OF commerce_reachable_inv [OF assms(1)] assms(2,3)] by metis

lemma put_put: "key r = key r' \<Longrightarrow> put_row key r (put_row key r' rows) = put_row key r rows"
  by (auto simp: put_row_def)

lemma transaction_commit:
  "ft \<noteq> Rolled_back \<Longrightarrow> snd (transaction ft u body s) = (case body s of (Inl _, _) \<Rightarrow> s | (Inr _, s') \<Rightarrow> s')"
  by (cases ft) (auto simp: transaction_def split: prod.splits sum.splits)

text \<open>
  C26: a webhook reconciliation can be repeated. When it succeeded, or was committed and only its
  acknowledgement was lost, and the same event is reconciled again, later and with another fresh outbox
  id, then the retry changes nothing at all if the event was processed; if it needed attention, it stays
  so with the same failure code and the retry only renews the time of that inbox row.
\<close>

theorem reconciliation_retry_converges:
  assumes "ft \<noteq> Rolled_back" "fst (apply_reconciliation Healthy now xid eid u ev target db) = Inr ()"
    and "s = snd (apply_reconciliation ft now xid eid u ev target db)"
  shows "\<exists>row. get_row e_id eid (inbox s) = Some row \<and> e_state row \<in> {E_Processed, E_Attention}
    \<and> snd (apply_reconciliation Healthy now' xid' eid u ev target s)
        = (if e_state row = E_Processed then s
           else s\<lparr>inbox := put_row e_id (row\<lparr>e_processed_at := Some now'\<rparr>) (inbox s)\<rparr>)"
proof -
  let ?run = "apply_reconciliation Healthy now xid eid u ev target db"
  have s: "s = snd ?run" using assms(1,3) unfolding apply_reconciliation_def by (simp add: transaction_commit)
  obtain row where row: "get_row e_id eid (inbox db) = Some row"
    using assms(2) by (auto simp: apply_reconciliation_def transaction_def split: prod.splits sum.splits option.splits)
  show ?thesis
  proof (cases "e_state row = E_Processed")
    case True
    with row have "s = db" by (simp add: s apply_reconciliation_def transaction_def)
    with row True show ?thesis by (simp add: apply_reconciliation_def transaction_def)
  next
    case False
    then obtain ord chk t f db' where rows: "locked_rows u db = Some (ord, chk)"
      and ap: "apply_payment_transition_locked now xid ord chk ev target (Some eid) db = (Inr (t, f), db')"
      using assms(2) row by (auto simp: apply_reconciliation_def transaction_def split: prod.splits sum.splits option.splits)
    have ib: "inbox db' = inbox db" using apply_locked_inbox [OF ap] by simp
    define row' where "row' = (case f of None \<Rightarrow> row\<lparr>e_state := E_Processed, e_failure := None, e_processed_at := Some now\<rparr>
      | Some code \<Rightarrow> row\<lparr>e_state := E_Attention, e_failure := Some code, e_processed_at := Some now\<rparr>)"
    have s1: "s = db'\<lparr>inbox := put_row e_id row' (inbox db)\<rparr>"
      using row False rows ap ib by (auto simp: s apply_reconciliation_def transaction_def row'_def split: option.splits)
    have id': "e_id row' = eid" "e_id row = eid" using get_row_key [OF row] by (auto simp: row'_def split: option.splits)
    have lk: "get_row e_id eid (put_row e_id row' (inbox db)) = Some row'" using row id' by (intro get_put_same) auto
    show ?thesis
    proof (cases f)
      case None
      then show ?thesis unfolding s1
        by (simp add: apply_reconciliation_def transaction_def lk) (simp add: row'_def)
    next
      case (Some code)
      then have st: "e_state row' = E_Attention" "e_failure row' = Some code" by (simp_all add: row'_def)
      have "db' = db" and tc: "transition_check ord chk ev target = Inr (t, Some code)"
        using ap Some by (auto simp: apply_payment_transition_locked_def Let_def split: sum.splits prod.splits option.splits if_splits)
      then have s2: "s = db\<lparr>inbox := put_row e_id row' (inbox db)\<rparr>" using s1 by simp
      have "locked_rows u s = Some (ord, chk)" using rows by (simp add: s2 locked_rows_def)
      moreover have "apply_payment_transition_locked now' xid' ord chk ev target (Some eid) s = (Inr (t, Some code), s)"
        using tc by (simp add: apply_payment_transition_locked_def)
      moreover have "get_row e_id eid (inbox s) = Some row'" by (simp add: s2 lk)
      moreover have e: "row'\<lparr>e_state := E_Attention, e_failure := Some code, e_processed_at := Some now'\<rparr> = row'\<lparr>e_processed_at := Some now'\<rparr>"
        using st by (cases row') simp
      ultimately show ?thesis using st by (simp add: apply_reconciliation_def transaction_def e)
    qed
  qed
qed

text \<open>
  An order created under an idempotency key is the one order of that key, also when two
  requests race. Whenever the call returns an order id, the database then holds exactly that id
  for the key, with the hash of this request, and the order exists with the same hash: the loser
  of a race gets the winner's order, and a key reused for another request never returns.
\<close>

theorem create_order_returns_key_owner:
  assumes "commerce_reachable db" "commerce_reachable (race db)"
    and "\<And>k i. get_row i_key_digest k (idempotency db) = Some i \<Longrightarrow>
        get_row i_key_digest k (idempotency (race db)) = Some i"
    and "get_or_create_order ft ft2 race ch now cand key rq cat price q opv su cu db = (Inr u, db')"
  shows "\<exists>i ord. get_row i_key_digest key (idempotency db') = Some i \<and> i_order_id i = u
    \<and> i_request_hash i = ch rq \<and> get_row o_id u (orders db') = Some ord \<and> o_request_hash ord = ch rq
    \<and> length (filter (\<lambda>i. i_key_digest i = key) (idempotency db')) = 1"
proof -
  have inv: "commerce_inv db'"
    using get_or_create_order_inv [where race = race and db = db, OF commerce_reachable_inv [OF assms(2)],
        of ft ft2 ch now cand key rq cat price q opv su cu] assms(4) by simp
  have "\<exists>i. get_row i_key_digest key (idempotency db') = Some i \<and> i_order_id i = u \<and> i_request_hash i = ch rq"
  proof (cases "get_row i_key_digest key (idempotency db)")
    case (Some i)
    then show ?thesis using assms(3) [OF Some] assms(4)
      by (auto simp: get_or_create_order_def Let_def split: if_splits)
  next
    case None
    then show ?thesis using assms(4)
      by (auto simp: get_or_create_order_def Let_def insert_order_def add_row_lookup split: if_splits option.splits)
  qed
  then obtain i where i: "get_row i_key_digest key (idempotency db') = Some i" "i_order_id i = u" "i_request_hash i = ch rq"
    by blast
  obtain ord where "get_row o_id u (orders db') = Some ord" "o_request_hash ord = ch rq"
    using commerce_invD(4) [OF inv, of i] i get_row_Some [OF i(1)] by auto
  moreover have "length (filter (\<lambda>i. i_key_digest i = key) (idempotency db')) = 1"
    using commerce_invD(1) [OF inv] get_row_Some [OF i(1)]
    by (intro filter_key_once [of _ _ i]) (auto simp: commerce_keys_def)
  ultimately show ?thesis using i by blast
qed

text \<open>The two outcomes of a paid observation on a bound checkout.\<close>

lemma apply_locked_paid_pending:
  assumes "o_state ord = O_Pending" "o_payment ord = P_Pending" "c_session_id chk = Some (pe_session_id ev)"
    and "paid_count (o_id ord) (outbox db) = 0" "get_row x_id xid (outbox db) = None"
  shows "apply_payment_transition_locked now xid ord chk ev ''paid'' eid db = (Inr (True, None),
    db\<lparr>checkouts := put_row c_order_id (reconcile_checkout now ev eid chk) (checkouts db),
       orders := put_row o_id (ord\<lparr>o_state := O_Paid, o_payment := P_Paid, o_updated_at := now\<rparr>) (orders db),
       outbox := add_row \<lparr>x_id = xid, x_order_id = o_id ord, x_type = paid_outbox_type, x_version = ''1'',
          x_created_at = now, x_published_at = None\<rparr> (outbox db)\<rparr>)"
  using assms by (simp add: apply_payment_transition_locked_def transition_check_def Let_def paid_outbox_None)

lemma apply_locked_paid_again:
  assumes "o_state ord = O_Paid" "o_payment ord = P_Paid" "c_session_id chk = Some (pe_session_id ev)"
  shows "apply_payment_transition_locked now xid ord chk ev ''paid'' eid db = (Inr (False, None),
    db\<lparr>checkouts := put_row c_order_id (reconcile_checkout now ev eid chk) (checkouts db)\<rparr>)"
  using assms by (simp add: apply_payment_transition_locked_def transition_check_def Let_def)

text \<open>
  C24: a webhook and a server poll that both observe the payment of a pending order can run in
  either order. Both orders end with the order paid, exactly one paid event and the webhook event
  processed; a poll receipt is written exactly when the poll came first.
\<close>

theorem webhook_poll_race:
  fixes now now2 obs :: int and u xid xid2 rid :: uuid and eid sid sha :: string
    and ev ev2 :: payment_evidence and db :: commerce_db
  assumes reach: "commerce_reachable db"
    and ord: "get_row o_id u (orders db) = Some ord" "o_payment ord = P_Pending"
    and chk: "get_row c_order_id u (checkouts db) = Some chk" "c_session_id chk = Some sid"
    and ev: "pe_session_id ev = sid" "pe_session_id ev2 = sid"
    and row: "get_row e_id eid (inbox db) = Some row" "e_state row = E_Received"
    and fresh: "get_row x_id xid (outbox db) = None" "get_row x_id xid2 (outbox db) = None"
      "get_row r_id rid (receipts db) = None"
  defines "hook \<equiv> \<lambda>s. snd (apply_reconciliation Healthy now xid eid u ev ''paid'' s)"
    and "poll \<equiv> \<lambda>s. snd (apply_poll_reconciliation Healthy now2 xid2 rid u ev2 ''paid'' sha obs s)"
  shows "(\<forall>s \<in> {poll (hook db), hook (poll db)}.
      (\<exists>o2. get_row o_id u (orders s) = Some o2 \<and> o_state o2 = O_Paid \<and> o_payment o2 = P_Paid)
      \<and> paid_count u (outbox s) = 1
      \<and> (\<exists>r2. get_row e_id eid (inbox s) = Some r2 \<and> e_state r2 = E_Processed))
    \<and> receipts (poll (hook db)) = receipts db
    \<and> (\<exists>r. receipts (hook (poll db)) = add_row r (receipts db) \<and> r_order_id r = u \<and> r_target r = ''paid'')"
proof -
  have inv: "commerce_inv db" by (rule commerce_reachable_inv [OF reach])
  have k: "o_id ord = u" "c_order_id chk = u" "e_id row = eid"
    using ord(1) chk(1) row(1) by (auto dest: get_row_key)
  have ok: "o_state ord = O_Pending" "paid_count u (outbox db) = 0"
    using commerce_invD(2) [OF inv ord(1)] ord(2) k by (auto simp: order_ok_def pay_consistent_def unpaid_def)
  have "r_order_id r \<noteq> u" if "r \<in> set (receipts db)" for r
    using commerce_invD(5) [OF inv that] ord by (auto simp: receipt_ok_def unpaid_def)
  then have nr: "get_row r_order_id u (receipts db) = None" by (auto simp: get_row_None)
  have one: "paid_count u (add_row x (outbox db)) = 1" if "x_order_id x = u" for x
    using ok(2) that by (simp add: paid_count_def add_row_def)
  have ap: "apply_payment_transition_locked n y ord chk e ''paid'' i db = (Inr (True, None),
    db\<lparr>checkouts := put_row c_order_id (reconcile_checkout n e i chk) (checkouts db),
       orders := put_row o_id (ord\<lparr>o_state := O_Paid, o_payment := P_Paid, o_updated_at := n\<rparr>) (orders db),
       outbox := add_row \<lparr>x_id = y, x_order_id = u, x_type = paid_outbox_type, x_version = ''1'',
          x_created_at = n, x_published_at = None\<rparr> (outbox db)\<rparr>)"
    if "pe_session_id e = sid" "get_row x_id y (outbox db) = None" for n y e i
    using apply_locked_paid_pending [of ord chk e db y n i] ok ord(2) chk(2) that k by simp
  have lr: "locked_rows u db = Some (ord, chk)" by (simp add: locked_rows_def ord chk)
  have rc: "c_session_id (reconcile_checkout n e i chk) = Some sid" for n e i
    using chk(2) by (simp add: reconcile_checkout_def)
  note lk = put_row_lookup [of o_id] put_row_lookup [of c_order_id] put_row_lookup [of e_id]
  note run = apply_reconciliation_def apply_poll_reconciliation_def transaction_def
  have hook: "hook db = (snd (apply_payment_transition_locked now xid ord chk ev ''paid'' (Some eid) db))
      \<lparr>inbox := put_row e_id (row\<lparr>e_state := E_Processed, e_failure := None, e_processed_at := Some now\<rparr>) (inbox db)\<rparr>"
    unfolding hook_def using row lr ap [OF ev(1) fresh(1)] by (simp add: run)
  define r where "r = \<lparr>r_id = rid, r_order_id = u, r_session_id = pe_session_id ev2,
      r_session_status = pe_status ev2, r_payment_status = pe_payment_status ev2,
      r_payment_intent = pe_payment_intent ev2, r_livemode = pe_livemode ev2,
      r_evidence_sha = sha, r_target = ''paid'', r_observed_at = obs, r_created_at = now2\<rparr>"
  have r: "r_order_id r = u" "r_target r = ''paid''" by (simp_all add: r_def)
  have poll: "poll db = (snd (apply_payment_transition_locked now2 xid2 ord chk ev2 ''paid'' None db))
      \<lparr>receipts := add_row r (receipts db)\<rparr>"
    unfolding r_def poll_def using lr ap [OF ev(2) fresh(2)] nr fresh(3) by (simp add: run)
  have "poll (hook db) = (hook db)\<lparr>checkouts := put_row c_order_id (reconcile_checkout now2 ev2 None
      (reconcile_checkout now ev (Some eid) chk)) (checkouts (hook db))\<rparr>"
    unfolding poll_def hook ap [OF ev(1) fresh(1)] using ord(1) chk(1) k rc ev
    by (simp add: run locked_rows_def lk apply_locked_paid_again)
  moreover have "hook (poll db) = (poll db)\<lparr>checkouts := put_row c_order_id (reconcile_checkout now ev (Some eid)
      (reconcile_checkout now2 ev2 None chk)) (checkouts (poll db)),
      inbox := put_row e_id (row\<lparr>e_state := E_Processed, e_failure := None, e_processed_at := Some now\<rparr>) (inbox db)\<rparr>"
    unfolding hook_def poll ap [OF ev(2) fresh(2)] using ord(1) chk(1) row k rc ev
    by (simp add: run locked_rows_def lk apply_locked_paid_again)
  ultimately show ?thesis
    using ord(1) row(1) k one r
    by (auto simp: hook poll ap [OF ev(1) fresh(1)] ap [OF ev(2) fresh(2)] lk intro!: exI [of _ r])
qed

section \<open>The dispatcher\<close>

lemma first_outbox_None: "first_outbox xs = None \<longleftrightarrow> xs = []"
  by (induction xs) (auto split: option.splits)

lemma outbox_before_trans: "\<not> outbox_before b a \<Longrightarrow> \<not> outbox_before c b \<Longrightarrow> \<not> outbox_before c a"
  by (auto simp: outbox_before_def)

lemma outbox_before_asym: "outbox_before a b \<Longrightarrow> \<not> outbox_before b a"
  by (auto simp: outbox_before_def)

lemma first_outbox_Some:
  "first_outbox xs = Some y \<Longrightarrow> y \<in> set xs \<and> (\<forall>x \<in> set xs. \<not> outbox_before x y)"
proof (induction xs arbitrary: y)
  case (Cons x xs)
  show ?case
  proof (cases "first_outbox xs")
    case None
    with Cons.prems show ?thesis by (simp add: first_outbox_None) (simp add: outbox_before_def)
  next
    case (Some z)
    have z: "z \<in> set xs" "\<forall>w \<in> set xs. \<not> outbox_before w z" using Cons.IH [OF Some] by auto
    show ?thesis
    proof (cases "outbox_before z x")
      case True
      with Cons.prems Some z outbox_before_asym [OF True] show ?thesis by auto
    next
      case False
      with Cons.prems Some have y: "y = x" by simp
      have "\<not> outbox_before w x" if "w \<in> set xs" for w
        using outbox_before_trans [OF False] z(2) that by blast
      with y show ?thesis by (auto simp: outbox_before_def)
    qed
  qed
qed simp

lemma unpublished_type: "unpublished x \<Longrightarrow> x_type x = paid_outbox_type"
  by (simp add: unpublished_def)

lemma find_by_id:
  assumes "distinct (map x_id rows)" "x \<in> set rows" "x_type x = paid_outbox_type"
  shows "List.find (\<lambda>y. x_id y = x_id x \<and> x_type y = paid_outbox_type) rows = Some x"
proof (cases "List.find (\<lambda>y. x_id y = x_id x \<and> x_type y = paid_outbox_type) rows")
  case None
  with assms show ?thesis by (auto simp: find_None_iff)
next
  case (Some y)
  then have "y \<in> set rows" "x_id y = x_id x" by (auto simp: find_Some_iff)
  with assms Some show ?thesis by (auto dest: distinct_keys_unique)
qed

lemma dispatch_once_healthy:
  assumes inv: "commerce_inv db" and nx: "first_outbox (filter unpublished (outbox db)) = Some x"
  shows "dispatch_once Healthy Healthy post now db =
    (case webhook_send post x of
       Inl _ \<Rightarrow> (Inr (Dispatch_Unpublished (x_id x) (x_order_id x)), db)
     | Inr status \<Rightarrow> (Inr (Dispatch_Published (x_id x) (x_order_id x) status),
         db\<lparr>outbox := put_row x_id (x\<lparr>x_published_at := Some now\<rparr>) (outbox db)\<rparr>))"
proof -
  have x: "x \<in> set (outbox db)" "unpublished x" using first_outbox_Some [OF nx] by auto
  have "List.find (\<lambda>y. x_id y = x_id x \<and> x_type y = paid_outbox_type) (outbox db) = Some x"
    using commerce_invD(1) [OF inv] x unpublished_type by (intro find_by_id) (auto simp: commerce_keys_def)
  then have "mark_published Healthy now (x_id x) db
      = (Inr (), db\<lparr>outbox := put_row x_id (x\<lparr>x_published_at := Some now\<rparr>) (outbox db)\<rparr>)"
    using x(2) by (simp add: mark_published_def transaction_def unpublished_def)
  then show ?thesis using nx
    by (auto simp: dispatch_once_def cbind_def load_next_unpublished_def reading_def split: sum.splits)
qed

text \<open>
  One run of the dispatcher sends the oldest unpublished paid event and no other. It marks
  exactly that event as published, and only after a 2xx answer; a refusal, a lost answer or an
  empty outbox leaves the database as it was.
\<close>

theorem dispatch_once_sound:
  assumes "commerce_reachable db" "dispatch_once Healthy Healthy post now db = (Inr res, db')"
  shows "case res of
      Dispatch_Empty \<Rightarrow> db' = db \<and> (\<forall>x \<in> set (outbox db). \<not> unpublished x)
    | Dispatch_Unpublished xid oid \<Rightarrow> db' = db \<and>
        (\<exists>x \<in> set (outbox db). unpublished x \<and> x_id x = xid \<and> x_order_id x = oid
           \<and> (case post x of None \<Rightarrow> True | Some st \<Rightarrow> st < 200 \<or> 300 \<le> st))
    | Dispatch_Published xid oid st \<Rightarrow> 200 \<le> st \<and> st < 300 \<and>
        (\<exists>x \<in> set (outbox db). unpublished x \<and> x_id x = xid \<and> x_order_id x = oid \<and> post x = Some st
           \<and> (\<forall>y \<in> set (outbox db). unpublished y \<longrightarrow> \<not> outbox_before y x)
           \<and> db' = db\<lparr>outbox := put_row x_id (x\<lparr>x_published_at := Some now\<rparr>) (outbox db)\<rparr>)"
proof (cases "first_outbox (filter unpublished (outbox db))")
  case None
  then have "\<forall>x \<in> set (outbox db). \<not> unpublished x" by (simp add: first_outbox_None filter_empty_conv)
  moreover have "res = Dispatch_Empty" "db' = db"
    using assms(2) None by (auto simp: dispatch_once_def cbind_def load_next_unpublished_def reading_def)
  ultimately show ?thesis by simp
next
  case (Some x)
  then have x: "x \<in> set (outbox db)" "unpublished x" "\<forall>y \<in> set (outbox db). unpublished y \<longrightarrow> \<not> outbox_before y x"
    using first_outbox_Some [OF Some] by auto
  show ?thesis
    using assms(2) x unfolding dispatch_once_healthy [OF commerce_reachable_inv [OF assms(1)] Some]
    by (auto simp: webhook_send_def intro!: bexI [of _ x] split: option.splits if_splits)
qed

lemma unpublished_count_put:
  assumes "distinct (map x_id rows)" "x \<in> set rows" "unpublished x"
  shows "length (filter unpublished (put_row x_id (x\<lparr>x_published_at := Some now\<rparr>) rows))
    = length (filter unpublished rows) - 1 \<and> 0 < length (filter unpublished rows)"
  using assms
proof (induction rows)
  case (Cons y rows)
  show ?case
  proof (cases "x_id y = x_id x")
    case True
    then have "y = x" "x \<notin> set rows" using Cons.prems by (auto simp: image_iff)
    moreover have "put_row x_id (x\<lparr>x_published_at := Some now\<rparr>) rows = rows"
      using Cons.prems(1) True by (auto simp: put_row_def image_iff intro!: map_idI)
    ultimately show ?thesis using Cons.prems(3) by (simp add: put_row_def unpublished_def)
  next
    case False
    with Cons show ?thesis by (auto simp: put_row_def)
  qed
qed simp

text \<open>
  The outbox drains. With a healthy database and an n8n ingress that accepts, running the
  dispatcher as many times as there are unpublished events publishes all of them.
\<close>

theorem dispatcher_drains:
  assumes "commerce_reachable db" "\<And>x. post x = Some 200"
    and "n = length (filter unpublished (outbox db))"
  shows "filter unpublished (outbox (((\<lambda>s. snd (dispatch_once Healthy Healthy post now s)) ^^ n) db)) = []"
  using assms(1,3)
proof (induction n arbitrary: db)
  case (Suc n)
  note inv = commerce_reachable_inv [OF Suc.prems(1)]
  obtain x where nx: "first_outbox (filter unpublished (outbox db)) = Some x"
    using Suc.prems(2) first_outbox_None by fastforce
  then have x: "x \<in> set (outbox db)" "unpublished x" using first_outbox_Some [OF nx] by auto
  let ?db = "snd (dispatch_once Healthy Healthy post now db)"
  have db: "?db = db\<lparr>outbox := put_row x_id (x\<lparr>x_published_at := Some now\<rparr>) (outbox db)\<rparr>"
    unfolding dispatch_once_healthy [OF inv nx] by (simp add: webhook_send_def assms(2))
  have "n = length (filter unpublished (outbox ?db))"
    using unpublished_count_put [OF _ x, of now] commerce_invD(1) [OF inv] Suc.prems(2)
    by (simp add: db commerce_keys_def)
  from Suc.IH [OF commerce_reachable.dispatch [OF Suc.prems(1)] this]
  show ?case by (simp add: funpow_Suc_right del: funpow.simps)
qed simp

section \<open>Concrete runs\<close>

text \<open>An order is created, its checkout bound, a webhook event recorded, the payment applied.\<close>

definition run_request :: order_request where
  "run_request = \<lparr>rq_customer_email = ''a@b.co'', rq_purchase_intent = JObj [(''analysis_request'', JObj [(''sector'', JStr ''gym'')])]\<rparr>"

definition run_event :: stripe_event where
  "run_event = \<lparr>ev_id = ''evt_1'', ev_type = ''checkout.session.completed'', ev_api_version = None,
     ev_livemode = False, ev_created_at = 3, ev_session_id = Some ''cs_1'', ev_candidate_order = Some (uuid_str 7)\<rparr>"

definition run_evidence :: payment_evidence where
  "run_evidence = \<lparr>pe_session_id = ''cs_1'', pe_status = ''complete'', pe_payment_status = ''paid'',
     pe_payment_intent = Some ''pi_1'', pe_livemode = False\<rparr>"

definition run_created :: commerce_db where
  "run_created = snd (get_or_create_order Healthy Healthy (\<lambda>db. db) (\<lambda>_. ''h'') 1 7 ''k'' run_request
     ''2026-07-01'' ''price_1'' 1 ''v1'' ''https://s'' ''https://c'' empty_commerce)"

definition run_received :: commerce_db where
  "run_received = snd (record_stripe_event Healthy 3 run_event ''ab''
     (snd (bind_checkout Healthy 2 7 ''cs_1'' ''https://stripe'' None run_created)))"

definition run_paid :: commerce_db where
  "run_paid = snd (apply_reconciliation Healthy 4 100 ''evt_1'' 7 run_evidence ''paid'' run_received)"

lemma run_reachable: "commerce_reachable run_created" "commerce_reachable run_received" "commerce_reachable run_paid"
proof -
  show c: "commerce_reachable run_created" unfolding run_created_def
    by (rule commerce_reachable.create) (rule commerce_reachable.start)+
  show r: "commerce_reachable run_received" unfolding run_received_def
    by (rule commerce_reachable.record_event, rule commerce_reachable.bind, rule c)
  show "commerce_reachable run_paid" unfolding run_paid_def by (rule commerce_reachable.webhook, rule r)
qed

lemmas run_simps = run_created_def run_received_def run_paid_def run_request_def run_event_def run_evidence_def
  get_or_create_order_def insert_order_def bind_checkout_def record_stripe_event_def apply_reconciliation_def
  apply_payment_transition_locked_def transition_check_def locked_rows_def reconcile_checkout_def
  transaction_def empty_commerce_def get_row_def put_row_def add_row_def unique_session_def paid_outbox_def Let_def

lemma run_received_rows:
  "\<exists>ord chk row. get_row o_id 7 (orders run_received) = Some ord \<and> o_payment ord = P_Pending
    \<and> get_row c_order_id 7 (checkouts run_received) = Some chk \<and> c_session_id chk = Some ''cs_1''
    \<and> get_row e_id ''evt_1'' (inbox run_received) = Some row \<and> e_state row = E_Received
    \<and> outbox run_received = [] \<and> receipts run_received = []"
  by (simp add: run_simps)

lemma run_paid_rows:
  "\<exists>ord x. get_row o_id 7 (orders run_paid) = Some ord \<and> o_state ord = O_Paid \<and> o_payment ord = P_Paid
    \<and> o_id ord = 7 \<and> orders run_paid = [ord] \<and> outbox run_paid = [x] \<and> unpublished x \<and> x_id x = 100 \<and> x_order_id x = 7"
  by (simp add: run_simps unpublished_def)

theorem paid_event_exactly_once_witness:
  "\<exists>ord. orders run_paid = [ord] \<and> o_payment ord = P_Paid
    \<and> length (filter (\<lambda>x. x_order_id x = o_id ord) (outbox run_paid)) = 1"
proof -
  obtain ord where od: "orders run_paid = [ord]" "o_payment ord = P_Paid" using run_paid_rows by blast
  from paid_event_exactly_once [OF run_reachable(3), of ord] od show ?thesis by simp
qed

theorem terminal_payment_is_final_witness:
  "\<exists>ord. get_row o_id 7 (orders (snd (apply_reconciliation Healthy 9 101 ''evt_1'' 7 run_evidence ''expired'' run_paid)))
     = Some ord \<and> o_payment ord = P_Paid"
proof -
  obtain ord where od: "get_row o_id 7 (orders run_paid) = Some ord" "o_payment ord = P_Paid" using run_paid_rows by blast
  have "o_payment ord \<noteq> P_Pending" using od(2) by simp
  from terminal_payment_is_final [OF run_reachable(3) od(1) this disjI1 [OF refl]] od(2) show ?thesis by blast
qed

theorem reconciliation_retry_converges_witness:
  "snd (apply_reconciliation Healthy 9 200 ''evt_1'' 7 run_evidence ''paid''
      (snd (apply_reconciliation Ack_lost 4 100 ''evt_1'' 7 run_evidence ''paid'' run_received))) = run_paid"
proof -
  have ok: "fst (apply_reconciliation Healthy 4 100 ''evt_1'' 7 run_evidence ''paid'' run_received) = Inr ()" by code_simp
  have s: "run_paid = snd (apply_reconciliation Ack_lost 4 100 ''evt_1'' 7 run_evidence ''paid'' run_received)"
    unfolding run_paid_def apply_reconciliation_def by (simp add: transaction_commit)
  have row: "map_option e_state (get_row e_id ''evt_1'' (inbox run_paid)) = Some E_Processed" by code_simp
  from reconciliation_retry_converges [OF _ ok s, of 9 200] row show ?thesis unfolding s [symmetric] by auto
qed

theorem create_order_returns_key_owner_witness:
  "\<exists>i. get_row i_key_digest ''k'' (idempotency run_created) = Some i \<and> i_order_id i = 7"
proof -
  have run: "get_or_create_order Healthy Healthy (\<lambda>_. run_created) (\<lambda>_. ''h'') 5 9 ''k'' run_request
     ''2026-07-01'' ''price_1'' 1 ''v1'' ''https://s'' ''https://c'' empty_commerce = (Inr 7, run_created)"
    by (simp add: run_simps)
  have keep: "get_row i_key_digest k (idempotency empty_commerce) = Some i \<Longrightarrow>
      get_row i_key_digest k (idempotency run_created) = Some i" for k i
    by (simp add: empty_commerce_def get_row_def)
  from create_order_returns_key_owner [OF commerce_reachable.start run_reachable(1) keep run]
  show ?thesis by blast
qed

theorem webhook_poll_race_witness:
  "paid_count 7 (outbox (snd (apply_poll_reconciliation Healthy 6 200 300 7 run_evidence ''paid'' ''ab'' 5 run_paid))) = 1"
proof -
  obtain ord chk row where r: "get_row o_id 7 (orders run_received) = Some ord" "o_payment ord = P_Pending"
      "get_row c_order_id 7 (checkouts run_received) = Some chk" "c_session_id chk = Some ''cs_1''"
      "get_row e_id ''evt_1'' (inbox run_received) = Some row" "e_state row = E_Received"
      "outbox run_received = []" "receipts run_received = []"
    using run_received_rows by blast
  have ev: "pe_session_id run_evidence = ''cs_1''" by (simp add: run_evidence_def)
  have "get_row x_id 100 (outbox run_received) = None" "get_row x_id 200 (outbox run_received) = None"
    "get_row r_id 300 (receipts run_received) = None" using r(7,8) by (simp_all add: get_row_def)
  from webhook_poll_race [OF run_reachable(2) r(1-4) ev ev r(5,6) this, of 6 "''ab''" 5 4]
  show ?thesis unfolding run_paid_def by blast
qed

theorem dispatch_once_sound_witness:
  "\<exists>db'. dispatch_once Healthy Healthy (\<lambda>_. Some 200) 8 run_paid = (Inr (Dispatch_Published 100 7 200), db')
    \<and> (\<exists>x. outbox db' = [x] \<and> x_published_at x = Some 8)"
proof -
  have run: "\<exists>db'. dispatch_once Healthy Healthy (\<lambda>_. Some 200) 8 run_paid = (Inr (Dispatch_Published 100 7 200), db')"
    by (simp add: dispatch_once_def load_next_unpublished_def reading_def cbind_def unpublished_def webhook_send_def
        mark_published_def run_simps)
  then obtain db' where db': "dispatch_once Healthy Healthy (\<lambda>_. Some 200) 8 run_paid = (Inr (Dispatch_Published 100 7 200), db')"
    by blast
  obtain y where y: "outbox run_paid = [y]" using run_paid_rows by blast
  from dispatch_once_sound [OF run_reachable(3) db'] y db' show ?thesis by (auto simp: put_row_def)
qed

theorem dispatcher_drains_witness:
  "filter unpublished (outbox (snd (dispatch_once Healthy Healthy (\<lambda>_. Some 200) 8 run_paid))) = []"
proof -
  obtain y where y: "outbox run_paid = [y]" "unpublished y" using run_paid_rows by blast
  then have n: "1 = length (filter unpublished (outbox run_paid))" by simp
  from dispatcher_drains [OF run_reachable(3) refl n] show ?thesis by simp
qed

end
