(* ===== verification/CommerceOrders.thy ===== *)
theory CommerceOrders
  imports CommerceDb
begin

text \<open>
  The two services that write the commerce store: order creation with its Stripe Checkout
  session (\<open>service.py\<close>, \<open>checkout.py\<close>) and the Stripe webhook (\<open>webhook.py\<close>). The Stripe
  library is a parameter: creating a session, verifying and parsing an event, retrieving the
  evidence of a session. Each store call of a service has its own database fault, and what other
  transactions commit while Stripe is called is the argument \<open>other\<close>.
\<close>

section \<open>Settings and errors\<close>

record settings =
  s_price_id :: string
  s_success_url_base :: string
  s_cancel_url_base :: string
  s_api_version :: string
  s_expected_livemode :: bool
  s_target_id :: string
  s_base_url :: string
  s_automation_key :: string

datatype service_error = Store_Error commerce_error
  | Invalid_Idempotency_Key string
  | Checkout_Invariant string
  | Provider_Unavailable string
  | Runtime_Error string
  | Body_Too_Large
  | Verification_Error string

definition store_call :: "('s, commerce_error, 'a) call \<Rightarrow> ('s, service_error, 'a) call" where
  "store_call m s = (case m s of (Inl e, s') \<Rightarrow> (Inl (Store_Error e), s') | (Inr x, s') \<Rightarrow> (Inr x, s'))"

definition fail :: "'e \<Rightarrow> ('s, 'e, 'a) call" where
  "fail e s = (Inl e, s)"

definition done_with :: "'a \<Rightarrow> ('s, 'e, 'a) call" where
  "done_with x s = (Inr x, s)"

section \<open>Checkout sessions\<close>

definition catalog_version :: string where "catalog_version = ''v1''"
definition checkout_operation_version :: string where "checkout_operation_version = ''stripe_checkout_v1''"
definition location_report_v1 :: string where "location_report_v1 = ''location_report_v1''"

record checkout_operation =
  op_order_id :: uuid
  op_provider_key :: string
  op_version :: string
  op_product_code :: string
  op_catalog_version :: string
  op_price_id :: string
  op_quantity :: int
  op_customer_email :: string
  op_success_url :: string
  op_cancel_url :: string

record checkout_result =
  cr_session_id :: string
  cr_url :: string
  cr_expires_at :: "int option"
  cr_mode :: string
  cr_client_reference :: string
  cr_metadata :: "(string \<times> string) list"

definition success_url :: "settings \<Rightarrow> uuid \<Rightarrow> string" where
  "success_url st u = s_success_url_base st @ ''?order_id='' @ uuid_str u @ ''&session_id={CHECKOUT_SESSION_ID}''"

definition cancel_url :: "settings \<Rightarrow> uuid \<Rightarrow> string" where
  "cancel_url st u = s_cancel_url_base st @ ''?order_id='' @ uuid_str u"

text \<open>The provider: \<open>None\<close> when the Stripe call raised.\<close>

definition create_checkout ::
  "(checkout_operation \<Rightarrow> checkout_result option) \<Rightarrow> checkout_operation \<Rightarrow> (service_error, checkout_result) result" where
  "create_checkout stripe op = (
     if op_version op \<noteq> checkout_operation_version
     then Inl (Checkout_Invariant ''unsupported durable checkout operation version'')
     else if op_quantity op \<noteq> 1 then Inl (Checkout_Invariant ''checkout quantity invariant failed'')
     else case stripe op of
       None \<Rightarrow> Inl (Provider_Unavailable ''checkout provider is unavailable'')
     | Some r \<Rightarrow> Inr r)"

definition validate_checkout_result :: "checkout_result \<Rightarrow> checkout_operation \<Rightarrow> (service_error, unit) result" where
  "validate_checkout_result r op = (
     if \<not> starts_with ''cs_'' (cr_session_id r)
     then Inl (Checkout_Invariant ''checkout provider returned an invalid session identity'')
     else if \<not> starts_with ''https://'' (cr_url r)
     then Inl (Checkout_Invariant ''checkout provider returned an invalid hosted URL'')
     else if cr_mode r \<noteq> ''payment'' then Inl (Checkout_Invariant ''checkout mode binding mismatch'')
     else if cr_client_reference r \<noteq> uuid_str (op_order_id op)
     then Inl (Checkout_Invariant ''checkout order binding mismatch'')
     else if map_of (cr_metadata r) ''sitescore_order_id'' \<noteq> Some (uuid_str (op_order_id op))
          \<or> map_of (cr_metadata r) ''sitescore_product_code'' \<noteq> Some (op_product_code op)
          \<or> map_of (cr_metadata r) ''sitescore_catalog_version'' \<noteq> Some (op_catalog_version op)
     then Inl (Checkout_Invariant ''checkout metadata binding mismatch'')
     else Inr ())"

section \<open>Order creation\<close>

text \<open>\<open>len(value.encode("utf-8"))\<close>: a string here is its UTF-8 encoding. \<open>sha\<close> is
  \<open>hashlib.sha256(...).hexdigest()\<close>.\<close>

definition digest_idempotency_key :: "(string \<Rightarrow> string) \<Rightarrow> string \<Rightarrow> (service_error, string) result" where
  "digest_idempotency_key sha v = (
     if strip v = [] then Inl (Invalid_Idempotency_Key ''Idempotency-Key must not be blank'')
     else if 200 < length v then Inl (Invalid_Idempotency_Key ''Idempotency-Key exceeds 200 UTF-8 bytes'')
     else Inr (sha v))"

definition operation_of :: "uuid \<Rightarrow> checkout_row \<Rightarrow> checkout_operation" where
  "operation_of u c = \<lparr>op_order_id = u, op_provider_key = c_provider_key c, op_version = c_operation_version c,
     op_product_code = c_product_code c, op_catalog_version = c_catalog_version c,
     op_price_id = c_price_id c, op_quantity = c_quantity c, op_customer_email = c_customer_email c,
     op_success_url = c_success_url c, op_cancel_url = c_cancel_url c\<rparr>"

record order_response =
  or_order_id :: uuid
  or_checkout_url :: string
  or_expires_at :: "int option"

record create_faults =
  cf_create :: fault
  cf_reread :: fault
  cf_load :: fault
  cf_bind :: fault

definition create_order ::
  "create_faults \<Rightarrow> (commerce_db \<Rightarrow> commerce_db) \<Rightarrow> (commerce_db \<Rightarrow> commerce_db) \<Rightarrow> settings
   \<Rightarrow> (checkout_operation \<Rightarrow> checkout_result option) \<Rightarrow> (string \<Rightarrow> string) \<Rightarrow> (order_request \<Rightarrow> string)
   \<Rightarrow> int \<Rightarrow> uuid \<Rightarrow> order_request \<Rightarrow> string \<Rightarrow> (commerce_db, service_error, order_response) call" where
  "create_order cf race other st stripe sha canonical_hash now candidate rq key db =
     (case digest_idempotency_key sha key of
        Inl e \<Rightarrow> (Inl e, db)
      | Inr key_digest \<Rightarrow>
     cbind (store_call (get_or_create_order (cf_create cf) (cf_reread cf) race canonical_hash now candidate
              key_digest rq catalog_version (s_price_id st) 1 checkout_operation_version
              (success_url st candidate) (cancel_url st candidate))) (\<lambda>order_id.
     cbind (store_call (load_order_and_checkout (cf_load cf) order_id)) (\<lambda>(order, checkout).
     let op = operation_of order_id checkout in
     if op_product_code op \<noteq> location_report_v1
     then fail (Checkout_Invariant ''durable checkout operation snapshot is invalid'')
     else if op_customer_email op \<noteq> o_customer_email order \<or> op_product_code op \<noteq> o_product_code order
          \<or> op_catalog_version op \<noteq> o_catalog_version order
     then fail (Checkout_Invariant ''durable checkout operation/order binding mismatch'')
     else
       cbind (case c_url checkout of
          Some _ \<Rightarrow> done_with checkout
        | None \<Rightarrow>
            (case create_checkout stripe op of
               Inl e \<Rightarrow> fail e
             | Inr r \<Rightarrow>
                 (case validate_checkout_result r op of
                    Inl e \<Rightarrow> fail e
                  | Inr _ \<Rightarrow> (\<lambda>db. store_call (bind_checkout (cf_bind cf) now order_id (cr_session_id r)
                      (cr_url r) (cr_expires_at r)) (other db)))))
       (\<lambda>checkout.
         if o_state order \<noteq> O_Pending \<or> o_payment order \<noteq> P_Pending \<or> o_fulfillment order \<noteq> F_Not_Started
         then fail (Runtime_Error ''6.0 order state invariant failed'')
         else case c_url checkout of
           None \<Rightarrow> fail (Runtime_Error ''checkout binding invariant failed'')
         | Some url \<Rightarrow> done_with \<lparr>or_order_id = order_id, or_checkout_url = url,
             or_expires_at = c_expires_at checkout\<rparr>)))
     db)"

section \<open>The Stripe webhook\<close>

definition max_webhook_body_bytes :: nat where "max_webhook_body_bytes = 256 * 1024"

definition supported_events :: "string list" where
  "supported_events = [''checkout.session.completed'', ''checkout.session.expired'']"

definition async_events :: "string list" where
  "async_events = [''checkout.session.async_payment_succeeded'', ''checkout.session.async_payment_failed'']"

text \<open>The event object of the Stripe library; a missing required key is \<open>None\<close>.\<close>

record raw_event =
  re_id :: "string option"
  re_type :: "string option"
  re_created :: "int option"
  re_api_version :: "string option"
  re_livemode :: "bool option"
  re_object_id :: "string option"
  re_client_reference :: "string option"
  re_metadata_order :: "string option"

text \<open>\<open>str(x) if x else None\<close>\<close>

definition truthy :: "string option \<Rightarrow> string option" where
  "truthy x = (case x of Some s \<Rightarrow> if s = [] then None else Some s | None \<Rightarrow> None)"

definition verify :: "(string \<Rightarrow> string \<Rightarrow> raw_event option) \<Rightarrow> string \<Rightarrow> string \<Rightarrow> (service_error, stripe_event) result" where
  "verify construct_event raw_body sig = (case construct_event raw_body sig of
     None \<Rightarrow> Inl (Verification_Error ''Stripe webhook signature verification failed'')
   | Some e \<Rightarrow>
       (case (re_id e, re_type e, re_created e, re_livemode e) of
          (Some i, Some t, Some c, Some l) \<Rightarrow>
            (if \<not> starts_with ''evt_'' i
             then Inl (Verification_Error ''verified Stripe event identity is malformed'')
             else Inr \<lparr>ev_id = i, ev_type = t, ev_api_version = re_api_version e, ev_livemode = l,
               ev_created_at = c, ev_session_id = truthy (re_object_id e),
               ev_candidate_order = (case truthy (re_client_reference e) of
                 Some r \<Rightarrow> Some r | None \<Rightarrow> truthy (re_metadata_order e))\<rparr>)
        | _ \<Rightarrow> Inl (Verification_Error ''verified Stripe event schema is malformed'')))"

record line_item =
  li_price_id :: string
  li_quantity :: int
  li_currency :: string

record checkout_evidence =
  ce_session_id :: string
  ce_object_type :: string
  ce_mode :: string
  ce_livemode :: bool
  ce_client_reference :: string
  ce_metadata :: "(string \<times> string) list"
  ce_status :: string
  ce_payment_status :: string
  ce_payment_intent :: "string option"
  ce_line_items :: "line_item list"

definition payment_part :: "checkout_evidence \<Rightarrow> payment_evidence" where
  "payment_part e = \<lparr>pe_session_id = ce_session_id e, pe_status = ce_status e,
     pe_payment_status = ce_payment_status e, pe_payment_intent = ce_payment_intent e,
     pe_livemode = ce_livemode e\<rparr>"

definition validate_binding :: "checkout_evidence \<Rightarrow> order_row \<Rightarrow> checkout_row \<Rightarrow> bool \<Rightarrow> (service_error, unit) result" where
  "validate_binding e order checkout expected_livemode = (
     if ce_object_type e \<noteq> ''checkout.session'' then Inl (Checkout_Invariant ''Stripe object type mismatch'')
     else if ce_mode e \<noteq> ''payment'' then Inl (Checkout_Invariant ''Checkout mode mismatch'')
     else if ce_livemode e \<noteq> expected_livemode then Inl (Checkout_Invariant ''Checkout livemode mismatch'')
     else if ce_client_reference e \<noteq> uuid_str (o_id order)
     then Inl (Checkout_Invariant ''Checkout client reference mismatch'')
     else if map_of (ce_metadata e) ''sitescore_order_id'' \<noteq> Some (uuid_str (o_id order))
          \<or> map_of (ce_metadata e) ''sitescore_product_code'' \<noteq> Some (o_product_code order)
          \<or> map_of (ce_metadata e) ''sitescore_catalog_version'' \<noteq> Some (o_catalog_version order)
     then Inl (Checkout_Invariant ''Checkout metadata binding mismatch'')
     else if c_session_id checkout \<noteq> None \<and> c_session_id checkout \<noteq> Some (ce_session_id e)
     then Inl (Checkout_Invariant ''Checkout Session identity mismatch'')
     else case ce_line_items e of
       [item] \<Rightarrow>
         (if li_price_id item \<noteq> c_price_id checkout then Inl (Checkout_Invariant ''Checkout Price binding mismatch'')
          else if li_quantity item \<noteq> c_quantity checkout \<or> li_quantity item \<noteq> 1
          then Inl (Checkout_Invariant ''Checkout quantity mismatch'')
          else if li_currency item \<noteq> ''USD'' then Inl (Checkout_Invariant ''Checkout currency mismatch'')
          else Inr ())
     | _ \<Rightarrow> Inl (Checkout_Invariant ''Checkout line-item count mismatch''))"

record webhook_faults =
  wf_record :: fault
  wf_state :: fault
  wf_load :: fault
  wf_final :: fault

definition mark_attention :: "webhook_faults \<Rightarrow> int \<Rightarrow> stripe_event \<Rightarrow> string \<Rightarrow> (commerce_db, service_error, unit) call" where
  "mark_attention fl now ev code = store_call (mark_event_attention (wf_final fl) now (ev_id ev) code)"

text \<open>The part of \<open>handle\<close> after the evidence was retrieved.\<close>

definition settle_event ::
  "webhook_faults \<Rightarrow> settings \<Rightarrow> int \<Rightarrow> uuid \<Rightarrow> stripe_event \<Rightarrow> uuid \<Rightarrow> order_row \<Rightarrow> checkout_row \<Rightarrow> checkout_evidence
   \<Rightarrow> (commerce_db, service_error, unit) call" where
  "settle_event fl st now outbox_id ev order_id order checkout evidence = (
     if Some (ce_session_id evidence) \<noteq> ev_session_id ev
     then mark_attention fl now ev ''provider_session_id_mismatch''
     else if raised (validate_binding evidence order checkout (s_expected_livemode st))
     then mark_attention fl now ev ''provider_binding_mismatch''
     else if ev_type ev = ''checkout.session.completed'' then
       (if ce_status evidence \<noteq> ''complete'' \<or> ce_payment_status evidence \<noteq> ''paid''
           \<or> truthy (ce_payment_intent evidence) = None
        then mark_attention fl now ev ''payment_not_authoritative''
        else store_call (apply_reconciliation (wf_final fl) now outbox_id (ev_id ev) order_id
               (payment_part evidence) ''paid''))
     else if ev_type ev = ''checkout.session.expired'' then
       (if ce_status evidence \<noteq> ''expired'' \<or> ce_payment_status evidence \<noteq> ''unpaid''
        then mark_attention fl now ev ''expiration_not_authoritative''
        else store_call (apply_reconciliation (wf_final fl) now outbox_id (ev_id ev) order_id
               (payment_part evidence) ''expired''))
     else done_with ())"

definition correlate_event ::
  "webhook_faults \<Rightarrow> (commerce_db \<Rightarrow> commerce_db) \<Rightarrow> settings \<Rightarrow> (string \<Rightarrow> checkout_evidence option) \<Rightarrow> int \<Rightarrow> uuid
   \<Rightarrow> stripe_event \<Rightarrow> (commerce_db, service_error, unit) call" where
  "correlate_event fl other st retrieve now outbox_id ev =
     (case (Option.bind (ev_candidate_order ev) parse_uuid, ev_session_id ev) of
        (Some order_id, Some session_id) \<Rightarrow>
          (\<lambda>db. case load_order_and_checkout (wf_load fl) order_id db of
             (Inl _, db') \<Rightarrow> mark_attention fl now ev ''local_order_not_found'' db'
           | (Inr (order, checkout), db') \<Rightarrow>
               (case retrieve session_id of
                  None \<Rightarrow> (Inl (Provider_Unavailable ''Stripe Checkout reconciliation is unavailable''), db')
                | Some evidence \<Rightarrow> settle_event fl st now outbox_id ev order_id order checkout evidence (other db')))
      | _ \<Rightarrow> mark_attention fl now ev ''event_correlation_invalid'')"

text \<open>The part of \<open>handle\<close> after the event was recorded.\<close>

definition process_event ::
  "webhook_faults \<Rightarrow> (commerce_db \<Rightarrow> commerce_db) \<Rightarrow> settings \<Rightarrow> (string \<Rightarrow> checkout_evidence option) \<Rightarrow> int \<Rightarrow> uuid
   \<Rightarrow> stripe_event \<Rightarrow> (commerce_db, service_error, unit) call" where
  "process_event fl other st retrieve now outbox_id ev = (
     if ev_api_version ev \<noteq> None \<and> ev_api_version ev \<noteq> Some (s_api_version st)
     then mark_attention fl now ev ''event_api_version_mismatch''
     else if ev_livemode ev \<noteq> s_expected_livemode st
     then mark_attention fl now ev ''event_livemode_mismatch''
     else if ev_type ev \<in> set async_events \<or> ev_type ev \<notin> set supported_events
     then store_call (mark_event_ignored (wf_final fl) now (ev_id ev) ''unsupported_event'')
     else cbind (store_call (get_event_state (wf_state fl) (ev_id ev))) (\<lambda>state.
       if state \<in> {E_Processed, E_Ignored, E_Attention} then done_with ()
       else correlate_event fl other st retrieve now outbox_id ev))"

definition handle ::
  "webhook_faults \<Rightarrow> (commerce_db \<Rightarrow> commerce_db) \<Rightarrow> settings \<Rightarrow> (string \<Rightarrow> string \<Rightarrow> raw_event option)
   \<Rightarrow> (string \<Rightarrow> checkout_evidence option) \<Rightarrow> (string \<Rightarrow> string) \<Rightarrow> int \<Rightarrow> uuid \<Rightarrow> string \<Rightarrow> string option
   \<Rightarrow> (commerce_db, service_error, unit) call" where
  "handle fl other st construct_event retrieve sha now outbox_id raw_body signature = (
     if max_webhook_body_bytes < length raw_body then fail Body_Too_Large
     else case truthy signature of
       None \<Rightarrow> fail (Verification_Error ''Stripe-Signature header is required'')
     | Some sig \<Rightarrow>
         (case verify construct_event raw_body sig of
            Inl e \<Rightarrow> fail e
          | Inr ev \<Rightarrow>
              cbind (store_call (record_stripe_event (wf_record fl) now ev (sha raw_body)))
                (\<lambda>_. process_event fl other st retrieve now outbox_id ev)))"

section \<open>Only authoritative evidence moves an order\<close>

lemma record_orders: "orders (snd (record_stripe_event f now ev sha db)) = orders db
    \<and> checkouts (snd (record_stripe_event f now ev sha db)) = checkouts db"
  unfolding record_stripe_event_def
  by (rule transaction_inv [where P = "\<lambda>d. orders d = orders db \<and> checkouts d = checkouts db"])
     (auto split: option.splits if_splits)

lemma finish_orders: "orders (snd (finish_event f now eid st code db)) = orders db
    \<and> checkouts (snd (finish_event f now eid st code db)) = checkouts db"
  unfolding finish_event_def
  by (rule transaction_inv [where P = "\<lambda>d. orders d = orders db \<and> checkouts d = checkouts db"])
     (auto split: option.splits if_splits)

lemma store_call_state [simp]: "snd (store_call m s) = snd (m s)"
  by (simp add: store_call_def split: prod.splits sum.splits)

lemma mark_attention_orders: "orders (snd (mark_attention fl now ev code db)) = orders db
    \<and> checkouts (snd (mark_attention fl now ev code db)) = checkouts db"
  by (simp add: mark_attention_def mark_event_attention_def finish_orders)

lemma apply_reconciliation_orders:
  assumes inv: "commerce_inv db" and ord: "get_row o_id u (orders db) = Some ord"
    and ch: "get_row o_id u (orders (snd (apply_reconciliation f now xid eid v pe target db))) \<noteq> Some ord"
  shows "v = u \<and> ((target = ''paid'' \<and> (\<exists>o2. get_row o_id u (orders (snd (apply_reconciliation f now xid eid v pe target db)))
            = Some o2 \<and> o_payment o2 = P_Paid))
      \<or> (target = ''expired'' \<and> (\<exists>o2. get_row o_id u (orders (snd (apply_reconciliation f now xid eid v pe target db)))
            = Some o2 \<and> o_payment o2 = P_Expired)))"
proof -
  let ?Q = "\<lambda>d. get_row o_id u (orders d) \<noteq> Some ord \<longrightarrow> v = u \<and>
      ((target = ''paid'' \<and> (\<exists>o2. get_row o_id u (orders d) = Some o2 \<and> o_payment o2 = P_Paid))
      \<or> (target = ''expired'' \<and> (\<exists>o2. get_row o_id u (orders d) = Some o2 \<and> o_payment o2 = P_Expired)))"
  have ap: "?Q d" if rows: "locked_rows v db = Some (o1, chk)"
    and run: "apply_payment_transition_locked now xid o1 chk pe target eid' db = (Inr (t, fc), d)" for o1 chk eid' t fc d
    using inv rows run
  proof (cases rule: apply_locked_cases)
    case (paid x)
    with ord locked_rowsD [OF rows] show ?thesis by (auto simp: put_row_lookup)
  next
    case expired
    with ord locked_rowsD [OF rows] show ?thesis by (auto simp: put_row_lookup)
  qed (use ord in simp_all)
  have "?Q (snd (apply_reconciliation f now xid eid v pe target db))"
    unfolding apply_reconciliation_def
  proof (rule transaction_inv [where P = ?Q], goal_cases)
    case (2 x s')
    then have "orders s' = orders db \<or> (\<exists>o1 chk t fc d. locked_rows v db = Some (o1, chk) \<and>
        apply_payment_transition_locked now xid o1 chk pe target (Some eid) db = (Inr (t, fc), d) \<and> orders s' = orders d)"
      by (auto split: option.splits if_splits prod.splits sum.splits)
    then show ?case using ord ap by (elim disjE exE conjE) simp_all
  qed (use ord in simp)
  with ch show ?thesis by blast
qed

lemma validate_binding_Inr:
  "\<not> raised (validate_binding e order chk lm) \<Longrightarrow>
   ce_mode e = ''payment'' \<and> ce_livemode e = lm \<and> ce_client_reference e = uuid_str (o_id order)
   \<and> map_of (ce_metadata e) ''sitescore_order_id'' = Some (uuid_str (o_id order))
   \<and> (\<exists>item. ce_line_items e = [item] \<and> li_price_id item = c_price_id chk \<and> li_quantity item = 1 \<and> li_currency item = ''USD'')"
  by (auto simp: validate_binding_def split: if_splits list.splits)

text \<open>What a webhook must have retrieved before it may move an order.\<close>

definition authoritative :: "settings \<Rightarrow> stripe_event \<Rightarrow> uuid \<Rightarrow> checkout_row \<Rightarrow> checkout_evidence \<Rightarrow> bool" where
  "authoritative st ev u chk e = (ev_session_id ev = Some (ce_session_id e) \<and> ce_mode e = ''payment''
     \<and> ce_livemode e = s_expected_livemode st \<and> ce_client_reference e = uuid_str u
     \<and> map_of (ce_metadata e) ''sitescore_order_id'' = Some (uuid_str u)
     \<and> (\<exists>item. ce_line_items e = [item] \<and> li_price_id item = c_price_id chk \<and> li_quantity item = 1
          \<and> li_currency item = ''USD''))"

definition paid_by :: "stripe_event \<Rightarrow> checkout_evidence \<Rightarrow> bool" where
  "paid_by ev e = (ev_type ev = ''checkout.session.completed'' \<and> ce_status e = ''complete''
     \<and> ce_payment_status e = ''paid'' \<and> truthy (ce_payment_intent e) \<noteq> None)"

definition expired_by :: "stripe_event \<Rightarrow> checkout_evidence \<Rightarrow> bool" where
  "expired_by ev e = (ev_type ev = ''checkout.session.expired'' \<and> ce_status e = ''expired'' \<and> ce_payment_status e = ''unpaid'')"

lemma settle_event_orders:
  assumes inv: "commerce_inv db" and ord: "get_row o_id u (orders db) = Some ord"
    and ch: "get_row o_id u (orders (snd (settle_event fl st now xid ev v order chk e db))) \<noteq> Some ord"
    and v: "o_id order = v"
  shows "v = u \<and> authoritative st ev u chk e \<and>
    (\<exists>o2. get_row o_id u (orders (snd (settle_event fl st now xid ev v order chk e db))) = Some o2 \<and>
      ((paid_by ev e \<and> o_payment o2 = P_Paid) \<or> (expired_by ev e \<and> o_payment o2 = P_Expired)))"
proof -
  have b: "Some (ce_session_id e) = ev_session_id ev" "\<not> raised (validate_binding e order chk (s_expected_livemode st))"
    using ch ord by (auto simp: settle_event_def mark_attention_orders split: if_splits)
  note auth = validate_binding_Inr [OF b(2)]
  consider (p) "paid_by ev e" "settle_event fl st now xid ev v order chk e
        = store_call (apply_reconciliation (wf_final fl) now xid (ev_id ev) v (payment_part e) ''paid'')"
    | (x) "expired_by ev e" "settle_event fl st now xid ev v order chk e
        = store_call (apply_reconciliation (wf_final fl) now xid (ev_id ev) v (payment_part e) ''expired'')"
    using ch ord b
    by (auto simp: settle_event_def mark_attention_orders paid_by_def expired_by_def done_with_def split: if_splits)
  then show ?thesis
  proof cases
    case p
    then have "snd (settle_event fl st now xid ev v order chk e db)
        = snd (apply_reconciliation (wf_final fl) now xid (ev_id ev) v (payment_part e) ''paid'' db)" by simp
    with apply_reconciliation_orders [OF inv ord] ch
    have "v = u" "\<exists>o2. get_row o_id u (orders (snd (settle_event fl st now xid ev v order chk e db))) = Some o2 \<and> o_payment o2 = P_Paid"
      by force+
    with auth b(1) v p(1) show ?thesis unfolding authoritative_def by metis
  next
    case x
    then have "snd (settle_event fl st now xid ev v order chk e db)
        = snd (apply_reconciliation (wf_final fl) now xid (ev_id ev) v (payment_part e) ''expired'' db)" by simp
    with apply_reconciliation_orders [OF inv ord] ch
    have "v = u" "\<exists>o2. get_row o_id u (orders (snd (settle_event fl st now xid ev v order chk e db))) = Some o2 \<and> o_payment o2 = P_Expired"
      by force+
    with auth b(1) v x(1) show ?thesis unfolding authoritative_def by metis
  qed
qed

lemma process_event_orders:
  assumes "orders (snd (process_event fl other st retrieve now xid ev db)) \<noteq> orders db"
  shows "snd (process_event fl other st retrieve now xid ev db) = snd (correlate_event fl other st retrieve now xid ev db)"
proof -
  let ?st = "store_call (get_event_state (wf_state fl) (ev_id ev)) db"
  have st: "snd ?st = db" by (simp add: get_event_state_def)
  have "process_event fl other st retrieve now xid ev db = cbind (store_call (get_event_state (wf_state fl) (ev_id ev)))
      (\<lambda>state. if state \<in> {E_Processed, E_Ignored, E_Attention} then done_with ()
       else correlate_event fl other st retrieve now xid ev) db"
    using assms by (auto simp: process_event_def mark_attention_orders mark_event_ignored_def finish_orders split: if_splits)
  with assms st show ?thesis
    by (cases ?st; cases "fst ?st") (auto simp: cbind_def done_with_def split: if_splits)
qed

text \<open>
  C3: no payment without evidence. If handling a webhook moves an order (while no other
  transaction touches that order), then the signed event named the order, Stripe was asked for
  the session of the event, and the answer is a payment-mode session of the expected mode,
  bound by client reference and metadata to this order, with one line item of the recorded
  price, quantity 1, in USD; the order became paid only on a complete, paid session with a
  payment intent, and expired only on an expired, unpaid one.
\<close>

theorem webhook_pays_only_on_evidence:
  assumes "commerce_reachable db" "\<And>d. commerce_reachable d \<Longrightarrow> commerce_reachable (other d)"
    and "\<And>d. get_row o_id u (orders (other d)) = get_row o_id u (orders d)"
    and "get_row o_id u (orders db) = Some ord"
    and "db' = snd (handle fl other st construct_event retrieve sha now xid raw_body sig db)"
    and "get_row o_id u (orders db') \<noteq> Some ord"
  shows "\<exists>ev sid e chk o2. verify construct_event raw_body (the sig) = Inr ev
    \<and> Option.bind (ev_candidate_order ev) parse_uuid = Some u \<and> ev_session_id ev = Some sid
    \<and> retrieve sid = Some e \<and> get_row c_order_id u (checkouts db) = Some chk
    \<and> authoritative st ev u chk e \<and> get_row o_id u (orders db') = Some o2
    \<and> ((paid_by ev e \<and> o_payment o2 = P_Paid) \<or> (expired_by ev e \<and> o_payment o2 = P_Expired))"
proof -
  obtain sg ev where sg: "truthy sig = Some sg" and ev: "verify construct_event raw_body sg = Inr ev"
    using assms(4,5,6) by (auto simp: handle_def fail_def split: option.splits sum.splits if_splits)
  have sig: "the sig = sg" using sg by (auto simp: truthy_def split: option.splits if_splits)
  define d1 where "d1 = snd (record_stripe_event (wf_record fl) now ev (sha raw_body) db)"
  have d1: "commerce_reachable d1" "orders d1 = orders db" "checkouts d1 = checkouts db"
    unfolding d1_def using assms(1) by (auto intro: commerce_reachable.record_event simp: record_orders)
  have "db' = d1 \<or> db' = snd (process_event fl other st retrieve now xid ev d1)"
    using assms(4,6) unfolding assms(5)
    by (cases "record_stripe_event (wf_record fl) now ev (sha raw_body) db";
        cases "fst (record_stripe_event (wf_record fl) now ev (sha raw_body) db)")
       (auto simp: handle_def fail_def sg ev cbind_def store_call_def d1_def split: if_splits)
  moreover have "orders db' \<noteq> orders d1" using assms(4,6) d1(2) by auto
  ultimately have db': "db' = snd (correlate_event fl other st retrieve now xid ev d1)"
    using process_event_orders [of fl other st retrieve now xid ev d1] by metis
  obtain v sid where v: "Option.bind (ev_candidate_order ev) parse_uuid = Some v" and sid: "ev_session_id ev = Some sid"
    using assms(4,6) d1(2) unfolding db'
    by (auto simp: correlate_event_def mark_attention_orders split: option.splits)
  obtain order chk where ld: "load_order_and_checkout (wf_load fl) v d1 = (Inr (order, chk), d1)"
    using assms(4,6) d1(2) unfolding db'
    by (cases "load_order_and_checkout (wf_load fl) v d1"; cases "fst (load_order_and_checkout (wf_load fl) v d1)")
       (auto simp: correlate_event_def v sid mark_attention_orders load_order_and_checkout_def reading_def)
  then have row: "get_row o_id v (orders db) = Some order" "get_row c_order_id v (checkouts db) = Some chk"
    using d1 by (auto simp: load_order_and_checkout_def reading_def split: if_splits option.splits)
  obtain e where e: "retrieve sid = Some e"
    using assms(4,6) d1(2) unfolding db' by (auto simp: correlate_event_def v sid ld split: option.splits)
  have s: "db' = snd (settle_event fl st now xid ev v order chk e (other d1))"
    unfolding db' by (simp add: correlate_event_def v sid ld e)
  have o1: "get_row o_id u (orders (other d1)) = Some ord" using assms(3,4) d1(2) by simp
  have "commerce_inv (other d1)" by (rule commerce_reachable_inv [OF assms(2) [OF d1(1)]])
  from settle_event_orders [OF this o1, of fl st now xid ev v order chk e] assms(6) get_row_key [OF row(1)]
  have "v = u" "authoritative st ev u chk e" "\<exists>o2. get_row o_id u (orders db') = Some o2 \<and>
      ((paid_by ev e \<and> o_payment o2 = P_Paid) \<or> (expired_by ev e \<and> o_payment o2 = P_Expired))"
    unfolding s by auto
  with sig ev v sid e row show ?thesis by blast
qed

section \<open>Order creation is idempotent\<close>

lemma store_call_Inr [simp]: "store_call m s = (Inr x, s') \<longleftrightarrow> m s = (Inr x, s')"
  by (auto simp: store_call_def split: prod.splits sum.splits)

lemma get_or_create_keeps:
  "get_or_create_order f1 f2 (\<lambda>d. d) ch now cand k rq cat price q opv su cu db = (Inr u, db') \<Longrightarrow>
   \<exists>i. get_row i_key_digest k (idempotency db') = Some i \<and> i_order_id i = u \<and> i_request_hash i = ch rq"
  by (auto simp: get_or_create_order_def Let_def insert_order_def add_row_lookup split: if_splits option.splits)

lemma bind_checkout_Inr:
  assumes "bind_checkout f now u sid url ex db = (Inr c, db')" "get_row c_order_id u (checkouts db) = Some chk" "c_url chk = None"
    and "c_url c \<noteq> None"
  shows "get_row c_order_id u (checkouts db') = Some c \<and> idempotency db' = idempotency db \<and> orders db' = orders db
    \<and> operation_of u c = operation_of u chk"
  using assms get_row_key [OF assms(2)]
  by (auto simp: bind_checkout_def transaction_Inr_iff Let_def put_row_lookup operation_of_def split: option.splits if_splits)

text \<open>
  A client that repeats a successful order request under the same idempotency key gets the
  same order and the same checkout session, and nothing is written: the provider is not called
  again, whatever it would answer, and no second order or checkout row appears.
\<close>

theorem create_order_replay:
  assumes run: "create_order cf (\<lambda>d. d) (\<lambda>d. d) st stripe sha ch now cand rq key db = (Inr resp, db1)"
    and healthy: "cf2 = \<lparr>cf_create = Healthy, cf_reread = Healthy, cf_load = Healthy, cf_bind = Healthy\<rparr>"
  shows "create_order cf2 (\<lambda>d. d) (\<lambda>d. d) st2 stripe2 sha ch now2 cand2 rq key db1 = (Inr resp, db1)"
proof -
  obtain kd where kd: "digest_idempotency_key sha key = Inr kd"
    using run by (auto simp: create_order_def split: sum.splits)
  obtain u dA where goc: "get_or_create_order (cf_create cf) (cf_reread cf) (\<lambda>d. d) ch now cand kd rq catalog_version
      (s_price_id st) 1 checkout_operation_version (success_url st cand) (cancel_url st cand) db = (Inr u, dA)"
    and rest: "cbind (store_call (load_order_and_checkout (cf_load cf) u)) (\<lambda>(order, checkout).
     let op = operation_of u checkout in
     if op_product_code op \<noteq> location_report_v1
     then fail (Checkout_Invariant ''durable checkout operation snapshot is invalid'')
     else if op_customer_email op \<noteq> o_customer_email order \<or> op_product_code op \<noteq> o_product_code order
          \<or> op_catalog_version op \<noteq> o_catalog_version order
     then fail (Checkout_Invariant ''durable checkout operation/order binding mismatch'')
     else
       cbind (case c_url checkout of
          Some _ \<Rightarrow> done_with checkout
        | None \<Rightarrow>
            (case create_checkout stripe op of
               Inl e \<Rightarrow> fail e
             | Inr r \<Rightarrow>
                 (case validate_checkout_result r op of
                    Inl e \<Rightarrow> fail e
                  | Inr _ \<Rightarrow> (\<lambda>db. store_call (bind_checkout (cf_bind cf) now u (cr_session_id r)
                      (cr_url r) (cr_expires_at r)) db))))
       (\<lambda>checkout.
         if o_state order \<noteq> O_Pending \<or> o_payment order \<noteq> P_Pending \<or> o_fulfillment order \<noteq> F_Not_Started
         then fail (Runtime_Error ''6.0 order state invariant failed'')
         else case c_url checkout of
           None \<Rightarrow> fail (Runtime_Error ''checkout binding invariant failed'')
         | Some url \<Rightarrow> done_with \<lparr>or_order_id = u, or_checkout_url = url,
             or_expires_at = c_expires_at checkout\<rparr>)) dA = (Inr resp, db1)"
    using run unfolding create_order_def kd sum.case by (auto dest!: cbind_InrD)
  from cbind_InrD [OF rest] obtain p s1 where ld: "load_order_and_checkout (cf_load cf) u dA = (Inr p, s1)"
    and k: "(case p of (order, checkout) \<Rightarrow>
     let op = operation_of u checkout in
     if op_product_code op \<noteq> location_report_v1
     then fail (Checkout_Invariant ''durable checkout operation snapshot is invalid'')
     else if op_customer_email op \<noteq> o_customer_email order \<or> op_product_code op \<noteq> o_product_code order
          \<or> op_catalog_version op \<noteq> o_catalog_version order
     then fail (Checkout_Invariant ''durable checkout operation/order binding mismatch'')
     else
       cbind (case c_url checkout of
          Some _ \<Rightarrow> done_with checkout
        | None \<Rightarrow>
            (case create_checkout stripe op of
               Inl e \<Rightarrow> fail e
             | Inr r \<Rightarrow>
                 (case validate_checkout_result r op of
                    Inl e \<Rightarrow> fail e
                  | Inr _ \<Rightarrow> (\<lambda>db. store_call (bind_checkout (cf_bind cf) now u (cr_session_id r)
                      (cr_url r) (cr_expires_at r)) db))))
       (\<lambda>checkout.
         if o_state order \<noteq> O_Pending \<or> o_payment order \<noteq> P_Pending \<or> o_fulfillment order \<noteq> F_Not_Started
         then fail (Runtime_Error ''6.0 order state invariant failed'')
         else case c_url checkout of
           None \<Rightarrow> fail (Runtime_Error ''checkout binding invariant failed'')
         | Some url \<Rightarrow> done_with \<lparr>or_order_id = u, or_checkout_url = url,
             or_expires_at = c_expires_at checkout\<rparr>)) s1 = (Inr resp, db1)"
    by auto
  obtain order chk where p: "p = (order, chk)" by (cases p)
  have rows: "get_row o_id u (orders dA) = Some order" "get_row c_order_id u (checkouts dA) = Some chk" "s1 = dA"
    using ld by (auto simp: p load_order_and_checkout_def reading_def split: option.splits if_splits)
  have step: "op_product_code (operation_of u chk) = location_report_v1"
      "op_customer_email (operation_of u chk) = o_customer_email order"
      "op_product_code (operation_of u chk) = o_product_code order"
      "op_catalog_version (operation_of u chk) = o_catalog_version order"
    using k by (auto simp: p Let_def fail_def split: if_splits)
  with k obtain c s2 where b: "(case c_url chk of
          Some _ \<Rightarrow> done_with chk
        | None \<Rightarrow>
            (case create_checkout stripe (operation_of u chk) of
               Inl e \<Rightarrow> fail e
             | Inr r \<Rightarrow>
                 (case validate_checkout_result r (operation_of u chk) of
                    Inl e \<Rightarrow> fail e
                  | Inr _ \<Rightarrow> (\<lambda>db. store_call (bind_checkout (cf_bind cf) now u (cr_session_id r)
                      (cr_url r) (cr_expires_at r)) db)))) dA = (Inr c, s2)"
    and f: "(if o_state order \<noteq> O_Pending \<or> o_payment order \<noteq> P_Pending \<or> o_fulfillment order \<noteq> F_Not_Started
         then fail (Runtime_Error ''6.0 order state invariant failed'')
         else case c_url c of
           None \<Rightarrow> fail (Runtime_Error ''checkout binding invariant failed'')
         | Some url \<Rightarrow> done_with \<lparr>or_order_id = u, or_checkout_url = url,
             or_expires_at = c_expires_at c\<rparr>) s2 = (Inr resp, db1)"
    by (auto simp: p Let_def rows(3) dest!: cbind_InrD)
  have fin: "o_state order = O_Pending" "o_payment order = P_Pending" "o_fulfillment order = F_Not_Started" "s2 = db1"
    using f by (auto simp: fail_def done_with_def split: if_splits option.splits)
  obtain url where url: "c_url c = Some url"
      "resp = \<lparr>or_order_id = u, or_checkout_url = url, or_expires_at = c_expires_at c\<rparr>"
    using f by (auto simp: fail_def done_with_def split: if_splits option.splits)
  have c: "get_row c_order_id u (checkouts db1) = Some c \<and> operation_of u c = operation_of u chk
      \<and> idempotency db1 = idempotency dA \<and> orders db1 = orders dA"
  proof (cases "c_url chk")
    case None
    then obtain sid ur ex where "bind_checkout (cf_bind cf) now u sid ur ex dA = (Inr c, db1)"
      using b fin(4) by (auto simp: fail_def split: sum.splits)
    from bind_checkout_Inr [OF this rows(2) None] url(1) show ?thesis by simp
  next
    case (Some x)
    then show ?thesis using b rows(2) fin(4) by (simp add: done_with_def)
  qed
  obtain i where "get_row i_key_digest kd (idempotency db1) = Some i" "i_order_id i = u" "i_request_hash i = ch rq"
    using get_or_create_keeps [OF goc] c by auto
  then show ?thesis
    using rows(1) c step fin url
    by (simp add: create_order_def kd healthy cbind_def store_call_def get_or_create_order_def
        load_order_and_checkout_def reading_def Let_def done_with_def)
qed

section \<open>Two behaviours the callers should know\<close>

text \<open>
  A database outage while the webhook loads the order is answered with success and recorded as
  \<open>local_order_not_found\<close>, a final state of the event: Stripe does not retry, and if the same
  event is delivered again with everything healthy, it is accepted without touching the order.
\<close>

theorem load_outage_drops_event:
  assumes "length raw \<le> max_webhook_body_bytes" "truthy sig = Some sg" "verify construct_event raw sg = Inr ev"
    and "get_row e_id (ev_id ev) (inbox db) = None"
    and "ev_api_version ev = None \<or> ev_api_version ev = Some (s_api_version st)" "ev_livemode ev = s_expected_livemode st"
    and "ev_type ev = ''checkout.session.completed''"
    and "Option.bind (ev_candidate_order ev) parse_uuid = Some u" "ev_session_id ev = Some sid"
    and "fl = \<lparr>wf_record = Healthy, wf_state = Healthy, wf_load = Rolled_back, wf_final = Healthy\<rparr>"
    and "fl2 = \<lparr>wf_record = Healthy, wf_state = Healthy, wf_load = Healthy, wf_final = Healthy\<rparr>"
  shows "\<exists>db1 db2 r. handle fl other st construct_event retrieve sha now xid raw sig db = (Inr (), db1) \<and> orders db1 = orders db
    \<and> get_row e_id (ev_id ev) (inbox db1) = Some r \<and> e_state r = E_Attention \<and> e_failure r = Some ''local_order_not_found''
    \<and> handle fl2 other st construct_event retrieve sha now2 xid2 raw sig db1 = (Inr (), db2) \<and> orders db2 = orders db"
proof -
  let ?row = "\<lparr>e_id = ev_id ev, e_type = ev_type ev, e_object_id = ev_session_id ev,
            e_candidate_order = ev_candidate_order ev, e_api_version = ev_api_version ev,
            e_livemode = ev_livemode ev, e_event_created = ev_created_at ev, e_raw_sha = sha raw,
            e_state = E_Received, e_failure = None, e_received_at = now, e_processed_at = None,
            e_attempts = 1\<rparr>"
  let ?row2 = "?row\<lparr>e_state := E_Attention, e_failure := Some ''local_order_not_found'', e_processed_at := Some now\<rparr>"
  let ?db1 = "db\<lparr>inbox := put_row e_id ?row2 (add_row ?row (inbox db))\<rparr>"
  have lk: "get_row e_id (ev_id ev) (add_row ?row (inbox db)) = Some ?row"
    using add_row_lookup [of e_id ?row "inbox db" "ev_id ev"] assms(4) by simp
  have lk2: "get_row e_id (ev_id ev) (put_row e_id ?row2 (add_row ?row (inbox db))) = Some ?row2"
    using put_row_lookup [of e_id ?row2 "add_row ?row (inbox db)" "ev_id ev"] lk by simp
  have ty: "''checkout.session.completed'' \<notin> set async_events" "''checkout.session.completed'' \<in> set supported_events"
    by (simp_all add: async_events_def supported_events_def)
  have h1: "handle fl other st construct_event retrieve sha now xid raw sig db = (Inr (), ?db1)"
    using assms lk ty
    by (auto simp: handle_def process_event_def correlate_event_def cbind_def store_call_def record_stripe_event_def
        transaction_def get_event_state_def reading_def load_order_and_checkout_def mark_attention_def
        mark_event_attention_def finish_event_def)
  have "\<exists>db2. handle fl2 other st construct_event retrieve sha now2 xid2 raw sig ?db1 = (Inr (), db2) \<and> orders db2 = orders db"
    using assms(1-3,5-7,11) lk2 ty
    by (auto simp: handle_def process_event_def cbind_def store_call_def record_stripe_event_def
        transaction_def get_event_state_def reading_def essential_def incoming_def put_row_lookup done_with_def)
  with h1 lk2 show ?thesis by auto
qed

text \<open>
  Once the order is paid, repeating the creation request under the same idempotency key raises
  the internal \<open>RuntimeError\<close> instead of answering with the order.
\<close>

theorem create_order_replay_after_payment:
  assumes "digest_idempotency_key sha key = Inr kd" "get_row i_key_digest kd (idempotency db) = Some i"
    and "i_request_hash i = ch rq" "get_row o_id (i_order_id i) (orders db) = Some ord" "o_payment ord = P_Paid"
    and "get_row c_order_id (i_order_id i) (checkouts db) = Some c" "c_url c = Some url"
    and "c_product_code c = location_report_v1" "c_customer_email c = o_customer_email ord"
    and "c_product_code c = o_product_code ord" "c_catalog_version c = o_catalog_version ord"
    and "cf = \<lparr>cf_create = Healthy, cf_reread = Healthy, cf_load = Healthy, cf_bind = Healthy\<rparr>"
  shows "create_order cf (\<lambda>d. d) (\<lambda>d. d) st stripe sha ch now cand rq key db
    = (Inl (Runtime_Error ''6.0 order state invariant failed''), db)"
  using assms
  by (simp add: create_order_def cbind_def store_call_def get_or_create_order_def load_order_and_checkout_def
      reading_def Let_def done_with_def fail_def operation_of_def)

section \<open>Concrete runs of the services\<close>

definition run_settings :: settings where
  "run_settings = \<lparr>s_price_id = ''price_1'', s_success_url_base = ''https://s'', s_cancel_url_base = ''https://c'',
     s_api_version = ''2024'', s_expected_livemode = False, s_target_id = ''api-1'',
     s_base_url = ''https://api'', s_automation_key = ''automation-key-0123456789''\<rparr>"

text \<open>A provider that echoes the operation, as Stripe does.\<close>

definition echo_stripe :: "checkout_operation \<Rightarrow> checkout_result option" where
  "echo_stripe op = Some \<lparr>cr_session_id = ''cs_1'', cr_url = ''https://stripe'', cr_expires_at = None,
     cr_mode = ''payment'', cr_client_reference = uuid_str (op_order_id op),
     cr_metadata = [(''sitescore_order_id'', uuid_str (op_order_id op)),
       (''sitescore_product_code'', op_product_code op), (''sitescore_catalog_version'', op_catalog_version op)]\<rparr>"

definition all_healthy :: create_faults where
  "all_healthy = \<lparr>cf_create = Healthy, cf_reread = Healthy, cf_load = Healthy, cf_bind = Healthy\<rparr>"

definition run_create :: "commerce_db \<Rightarrow> (service_error, order_response) result \<times> commerce_db" where
  "run_create = create_order all_healthy (\<lambda>d. d) (\<lambda>d. d) run_settings echo_stripe (\<lambda>_. ''k'') (\<lambda>_. ''h'') 1 7 run_request ''idem-1''"

lemma run_create_ok:
  "\<exists>db1. run_create empty_commerce = (Inr \<lparr>or_order_id = 7, or_checkout_url = ''https://stripe'', or_expires_at = None\<rparr>, db1)"
  by (simp add: run_create_def create_order_def digest_idempotency_key_def strip_def strip_chars_def is_space_def
      all_healthy_def cbind_def store_call_def load_order_and_checkout_def reading_def operation_of_def location_report_v1_def
      done_with_def create_checkout_def checkout_operation_version_def echo_stripe_def validate_checkout_result_def
      starts_with_def run_settings_def run_simps)

theorem create_order_replay_witness:
  "\<exists>db1. run_create (snd (run_create empty_commerce)) = (Inr \<lparr>or_order_id = 7, or_checkout_url = ''https://stripe'', or_expires_at = None\<rparr>, db1)
     \<and> orders db1 = orders (snd (run_create empty_commerce))"
proof -
  obtain db1 where run: "run_create empty_commerce = (Inr \<lparr>or_order_id = 7, or_checkout_url = ''https://stripe'', or_expires_at = None\<rparr>, db1)"
    using run_create_ok by blast
  from create_order_replay [OF run [unfolded run_create_def] all_healthy_def]
  have "run_create db1 = (Inr \<lparr>or_order_id = 7, or_checkout_url = ''https://stripe'', or_expires_at = None\<rparr>, db1)"
    by (simp add: run_create_def)
  with run show ?thesis by simp
qed

theorem create_order_replay_after_payment_witness:
  "create_order all_healthy (\<lambda>d. d) (\<lambda>d. d) run_settings echo_stripe (\<lambda>_. ''k'') (\<lambda>_. ''h'') 9 8 run_request ''idem-1''
     (run_paid\<lparr>checkouts := map (\<lambda>c. c\<lparr>c_catalog_version := ''2026-07-01''\<rparr>) (checkouts run_paid)\<rparr>)
   = (Inl (Runtime_Error ''6.0 order state invariant failed''),
      run_paid\<lparr>checkouts := map (\<lambda>c. c\<lparr>c_catalog_version := ''2026-07-01''\<rparr>) (checkouts run_paid)\<rparr>)"
proof -
  let ?db = "run_paid\<lparr>checkouts := map (\<lambda>c. c\<lparr>c_catalog_version := ''2026-07-01''\<rparr>) (checkouts run_paid)\<rparr>"
  have "\<exists>i ord c. get_row i_key_digest ''k'' (idempotency ?db) = Some i \<and> i_request_hash i = ''h''
      \<and> get_row o_id (i_order_id i) (orders ?db) = Some ord \<and> o_payment ord = P_Paid
      \<and> get_row c_order_id (i_order_id i) (checkouts ?db) = Some c \<and> c_url c = Some ''https://stripe''
      \<and> c_product_code c = location_report_v1 \<and> c_customer_email c = o_customer_email ord
      \<and> c_product_code c = o_product_code ord \<and> c_catalog_version c = o_catalog_version ord"
    by (simp add: run_simps location_report_v1_def)
  then obtain i ord c where r: "get_row i_key_digest ''k'' (idempotency ?db) = Some i" "i_request_hash i = ''h''"
      "get_row o_id (i_order_id i) (orders ?db) = Some ord" "o_payment ord = P_Paid"
      "get_row c_order_id (i_order_id i) (checkouts ?db) = Some c" "c_url c = Some ''https://stripe''"
      "c_product_code c = location_report_v1" "c_customer_email c = o_customer_email ord"
      "c_product_code c = o_product_code ord" "c_catalog_version c = o_catalog_version ord"
    by blast
  have dig: "digest_idempotency_key (\<lambda>_. ''k'') ''idem-1'' = Inr ''k''"
    by (simp add: digest_idempotency_key_def strip_def strip_chars_def is_space_def)
  show ?thesis
    by (rule create_order_replay_after_payment [OF dig r(1) _ r(3-10) all_healthy_def]) (simp add: r(2))
qed

definition run_raw :: "string \<Rightarrow> string \<Rightarrow> raw_event option" where
  "run_raw b sg = Some \<lparr>re_id = Some ''evt_1'', re_type = Some ''checkout.session.completed'', re_created = Some 3,
     re_api_version = None, re_livemode = Some False, re_object_id = Some ''cs_1'',
     re_client_reference = Some (uuid_str 7), re_metadata_order = None\<rparr>"

definition run_session :: "string \<Rightarrow> checkout_evidence option" where
  "run_session sid = Some \<lparr>ce_session_id = ''cs_1'', ce_object_type = ''checkout.session'', ce_mode = ''payment'',
     ce_livemode = False, ce_client_reference = uuid_str 7,
     ce_metadata = [(''sitescore_order_id'', uuid_str 7), (''sitescore_product_code'', ''location_report_v1''),
       (''sitescore_catalog_version'', ''2026-07-01'')],
     ce_status = ''complete'', ce_payment_status = ''paid'', ce_payment_intent = Some ''pi_1'',
     ce_line_items = [\<lparr>li_price_id = ''price_1'', li_quantity = 1, li_currency = ''USD''\<rparr>]\<rparr>"

lemma uuid_str_nonempty: "uuid_str u \<noteq> []"
  by (simp add: uuid_str_def Let_def)

lemma run_verify: "verify run_raw b sg = Inr run_event"
  by (simp add: verify_def run_raw_def run_event_def truthy_def starts_with_def uuid_str_nonempty)

definition healthy_webhook :: webhook_faults where
  "healthy_webhook = \<lparr>wf_record = Healthy, wf_state = Healthy, wf_load = Healthy, wf_final = Healthy\<rparr>"

definition run_handled :: commerce_db where
  "run_handled = snd (handle healthy_webhook (\<lambda>d. d) run_settings run_raw run_session (\<lambda>_. ''ab'') 4 100 ''{}'' (Some ''t=1'') run_received)"

lemma run_handled_paid: "\<exists>ord ord2. get_row o_id 7 (orders run_received) = Some ord
    \<and> get_row o_id 7 (orders run_handled) = Some ord2 \<and> o_payment ord \<noteq> P_Paid \<and> o_payment ord2 = P_Paid"
  unfolding run_handled_def
  by (simp add: handle_def max_webhook_body_bytes_def truthy_def run_verify process_event_def supported_events_def
      async_events_def cbind_def store_call_def get_event_state_def reading_def correlate_event_def done_with_def
      load_order_and_checkout_def settle_event_def validate_binding_def healthy_webhook_def run_settings_def
      run_session_def payment_part_def essential_def incoming_def uuid_str_nonempty run_simps)

theorem webhook_pays_only_on_evidence_witness:
  "\<exists>e o2. run_session ''cs_1'' = Some e \<and> paid_by run_event e \<and> get_row o_id 7 (orders run_handled) = Some o2 \<and> o_payment o2 = P_Paid"
proof -
  obtain ord ord2 where r: "get_row o_id 7 (orders run_received) = Some ord"
      "get_row o_id 7 (orders run_handled) = Some ord2" "o_payment ord \<noteq> P_Paid" "o_payment ord2 = P_Paid"
    using run_handled_paid by blast
  have ne: "get_row o_id 7 (orders run_handled) \<noteq> Some ord" using r by auto
  have "\<exists>ev sid e chk o2. verify run_raw ''{}'' (the (Some ''t=1'')) = Inr ev
    \<and> Option.bind (ev_candidate_order ev) parse_uuid = Some 7 \<and> ev_session_id ev = Some sid
    \<and> run_session sid = Some e \<and> get_row c_order_id 7 (checkouts run_received) = Some chk
    \<and> authoritative run_settings ev 7 chk e \<and> get_row o_id 7 (orders run_handled) = Some o2
    \<and> ((paid_by ev e \<and> o_payment o2 = P_Paid) \<or> (expired_by ev e \<and> o_payment o2 = P_Expired))"
    by (rule webhook_pays_only_on_evidence [OF run_reachable(2) _ _ r(1) run_handled_def ne]) simp_all
  then show ?thesis using r
    by (auto simp: run_verify run_event_def)
qed

theorem load_outage_drops_event_witness:
  "\<exists>db1. handle \<lparr>wf_record = Healthy, wf_state = Healthy, wf_load = Rolled_back, wf_final = Healthy\<rparr> (\<lambda>d. d)
       run_settings run_raw run_session (\<lambda>_. ''ab'') 4 100 ''{}'' (Some ''t=1'') run_created = (Inr (), db1)
     \<and> (\<exists>r. get_row e_id ''evt_1'' (inbox db1) = Some r \<and> e_failure r = Some ''local_order_not_found'')"
proof -
  have "length ''{}'' \<le> max_webhook_body_bytes" "truthy (Some ''t=1'') = Some ''t=1''"
    "get_row e_id (ev_id run_event) (inbox run_created) = None"
    "ev_api_version run_event = None \<or> ev_api_version run_event = Some (s_api_version run_settings)"
    "ev_livemode run_event = s_expected_livemode run_settings" "ev_type run_event = ''checkout.session.completed''"
    "Option.bind (ev_candidate_order run_event) parse_uuid = Some 7" "ev_session_id run_event = Some ''cs_1''"
    by (simp_all add: max_webhook_body_bytes_def truthy_def run_settings_def run_simps)
  note hyps = this
  have ex: "\<exists>db1 db2 r. handle \<lparr>wf_record = Healthy, wf_state = Healthy, wf_load = Rolled_back, wf_final = Healthy\<rparr> (\<lambda>d. d)
       run_settings run_raw run_session (\<lambda>_. ''ab'') 4 100 ''{}'' (Some ''t=1'') run_created = (Inr (), db1)
     \<and> orders db1 = orders run_created \<and> get_row e_id (ev_id run_event) (inbox db1) = Some r \<and> e_state r = E_Attention
     \<and> e_failure r = Some ''local_order_not_found''
     \<and> handle healthy_webhook (\<lambda>d. d) run_settings run_raw run_session (\<lambda>_. ''ab'') 5 101 ''{}'' (Some ''t=1'') db1
         = (Inr (), db2) \<and> orders db2 = orders run_created"
    by (rule load_outage_drops_event [OF hyps(1,2) run_verify hyps(3-8) refl healthy_webhook_def])
  have "ev_id run_event = ''evt_1''" by (simp add: run_event_def)
  with ex show ?thesis by metis
qed

end
