(* ===== verification/CommerceFulfillment.thy ===== *)
theory CommerceFulfillment
  imports CommerceOrders
begin

text \<open>
  Fulfilment of a paid order (\<open>sitescore_commerce/fulfillment.py\<close>): the bindings of an order to
  its analysis and its report, the eligibility for a refund, the refund operation, the two
  gateways (the SiteScore HTTP API and Stripe refunds) and the service that advances an order by
  one step. The database is the commerce database with three more tables. HTTP and Stripe are
  parameters; a refund gateway works on a state \<open>'w\<close> of the provider, so that a creation is
  visible. \<open>canonical\<close> is \<open>_canonical_json\<close> and \<open>sha\<close> the hex digest of SHA-256.
\<close>

section \<open>Constants\<close>

definition analysis_operation_version :: string where "analysis_operation_version = ''sitescore_analysis_v1''"
definition refund_operation_version :: string where "refund_operation_version = ''stripe_full_refund_v1''"

definition analysis_states :: "string list" where
  "analysis_states = [''queued'', ''running'', ''completed'', ''not_score_ready'', ''failed'', ''timed_out'']"

definition report_states :: "string list" where
  "report_states = [''ready'', ''failed'']"

definition refund_statuses :: "string list" where
  "refund_statuses = [''pending'', ''requires_action'', ''succeeded'', ''failed'', ''canceled'']"

fun refund_reasons :: "fulfillment_state \<Rightarrow> string option" where
  "refund_reasons F_Not_Score_Ready = Some ''analysis_not_score_ready''"
| "refund_reasons F_Analysis_Failed = Some ''analysis_failed''"
| "refund_reasons F_Analysis_Timed_Out = Some ''analysis_timed_out''"
| "refund_reasons F_Report_Failed = Some ''report_failed''"
| "refund_reasons _ = None"

definition refund_reason_states :: "string \<Rightarrow> (string \<times> string) option" where
  "refund_reason_states = map_of
     [(''analysis_not_score_ready'', (''analysis'', ''not_score_ready'')),
      (''analysis_failed'', (''analysis'', ''failed'')),
      (''analysis_timed_out'', (''analysis'', ''timed_out'')),
      (''report_failed'', (''report'', ''failed''))]"

datatype fulfillment_error = Fulfillment_Invariant string
  | Fulfillment_Not_Found string
  | Automation_Unauthorized string
  | SiteScore_Unavailable string bool
  | Refund_Unavailable string
  | Fulfillment_Persistence string

section \<open>Rows and operations\<close>

record analysis_operation =
  ao_order_id :: uuid
  ao_target_id :: string
  ao_base_url :: string
  ao_version :: string
  ao_key :: string
  ao_request :: json
  ao_request_sha :: string
  ao_analysis_id :: "uuid option"
  ao_analysis_state :: "string option"
  ao_report_id :: "uuid option"
  ao_report_state :: "string option"

record analysis_evidence =
  ae_analysis_id :: uuid
  ae_state :: string

record report_evidence =
  rp_report_id :: uuid
  rp_analysis_id :: uuid
  rp_state :: string

record payment_intent_evidence =
  pi_id :: string
  pi_amount_received :: int
  pi_currency :: string
  pi_livemode :: bool
  pi_metadata :: "(string \<times> string) list"

record refund_evidence =
  rf_id :: string
  rf_payment_intent :: string
  rf_amount :: int
  rf_currency :: string
  rf_status :: string
  rf_metadata :: "(string \<times> string) list"

record refund_operation =
  ro_order_id :: uuid
  ro_version :: string
  ro_key :: string
  ro_reason :: string
  ro_resource_type :: string
  ro_resource_id :: uuid
  ro_payment_intent :: string
  ro_amount :: int
  ro_currency :: string

definition refund_metadata :: "refund_operation \<Rightarrow> (string \<times> string) list" where
  "refund_metadata op = [(''sitescore_order_id'', uuid_str (ro_order_id op)),
     (''sitescore_refund_operation'', ro_version op), (''sitescore_refund_reason'', ro_reason op)]"

record automation_status =
  as_order_id :: uuid
  as_order_state :: order_state
  as_payment_state :: payment_state
  as_fulfillment_state :: fulfillment_state
  as_retryable :: bool
  as_terminal :: bool
  as_next_action :: string

record binding_row =
  b_order_id :: uuid
  b_target_id :: string
  b_base_url :: string
  b_version :: string
  b_key :: string
  b_request :: json
  b_request_sha :: string
  b_analysis_id :: "uuid option"
  b_analysis_state :: "string option"
  b_analysis_observed :: "int option"
  b_report_id :: "uuid option"
  b_report_state :: "string option"
  b_report_observed :: "int option"
  b_created_at :: int
  b_updated_at :: int

record eligibility_row =
  el_order_id :: uuid
  el_reason :: string
  el_resource_type :: string
  el_resource_id :: uuid
  el_terminal_state :: string
  el_observed_at :: int
  el_target_id :: string

record refund_row =
  rr_order_id :: uuid
  rr_version :: string
  rr_key :: string
  rr_reason :: string
  rr_resource_type :: string
  rr_resource_id :: uuid
  rr_payment_intent :: string
  rr_amount :: int
  rr_currency :: string
  rr_refund_id :: "string option"
  rr_refund_status :: "string option"
  rr_refund_amount :: "int option"
  rr_failure :: "string option"
  rr_created_at :: int
  rr_updated_at :: int
  rr_reconciled_at :: "int option"

record fulfillment_db =
  shop :: commerce_db
  bindings :: "binding_row list"
  eligibilities :: "eligibility_row list"
  refunds :: "refund_row list"

definition empty_fulfillment :: fulfillment_db where
  "empty_fulfillment = \<lparr>shop = empty_commerce, bindings = [], eligibilities = [], refunds = []\<rparr>"

definition order_of :: "uuid \<Rightarrow> fulfillment_db \<Rightarrow> order_row option" where
  "order_of u db = get_row o_id u (orders (shop db))"

definition put_order :: "order_row \<Rightarrow> fulfillment_db \<Rightarrow> fulfillment_db" where
  "put_order ord db = db\<lparr>shop := (shop db)\<lparr>orders := put_row o_id ord (orders (shop db))\<rparr>\<rparr>"

section \<open>Helpers\<close>

definition analysis_request_from_order :: "order_row \<Rightarrow> (fulfillment_error, json) result" where
  "analysis_request_from_order ord =
     (if \<not> is_object (o_purchase_intent ord) then Inl (Fulfillment_Invariant ''durable purchase intent is invalid'')
      else let payload = json_get ''analysis_request'' (o_purchase_intent ord) in
        if \<not> is_object payload then Inl (Fulfillment_Invariant ''durable analysis request snapshot is unavailable'')
        else Inr (json_sorted payload))"

definition analysis_provider_key :: "uuid \<Rightarrow> string" where
  "analysis_provider_key u = ''sitescore:analysis:v1:'' @ uuid_str u"

definition refund_provider_key :: "uuid \<Rightarrow> string" where
  "refund_provider_key u = ''sitescore:refund:v1:'' @ uuid_str u"

definition operation_from_row :: "binding_row \<Rightarrow> analysis_operation" where
  "operation_from_row row = \<lparr>ao_order_id = b_order_id row, ao_target_id = b_target_id row,
     ao_base_url = b_base_url row, ao_version = b_version row, ao_key = b_key row,
     ao_request = json_sorted (b_request row), ao_request_sha = b_request_sha row,
     ao_analysis_id = b_analysis_id row, ao_analysis_state = b_analysis_state row,
     ao_report_id = b_report_id row, ao_report_state = b_report_state row\<rparr>"

definition analysis_fulfillment :: "string \<Rightarrow> fulfillment_state option" where
  "analysis_fulfillment = map_of
     [(''queued'', F_Analysis_Pending), (''running'', F_Analysis_Running), (''completed'', F_Report_Pending),
      (''not_score_ready'', F_Not_Score_Ready), (''failed'', F_Analysis_Failed), (''timed_out'', F_Analysis_Timed_Out)]"

definition apply_analysis_state :: "order_row \<Rightarrow> string \<Rightarrow> int \<Rightarrow> (fulfillment_error, order_row) result" where
  "apply_analysis_state ord state now = (case analysis_fulfillment state of
     None \<Rightarrow> Inl (Fulfillment_Invariant ''unknown SiteScore analysis state'')
   | Some f \<Rightarrow> Inr (ord\<lparr>o_state := O_In_Progress, o_payment := P_Paid, o_fulfillment := f, o_updated_at := now\<rparr>))"

definition apply_report_state :: "order_row \<Rightarrow> string \<Rightarrow> int \<Rightarrow> (fulfillment_error, order_row) result" where
  "apply_report_state ord state now = (
     let ord = ord\<lparr>o_state := O_In_Progress, o_payment := P_Paid\<rparr> in
     if state = ''ready'' then Inr (ord\<lparr>o_fulfillment := F_Delivery_Pending, o_updated_at := now\<rparr>)
     else if state = ''failed'' then Inr (ord\<lparr>o_fulfillment := F_Report_Failed, o_updated_at := now\<rparr>)
     else Inl (Fulfillment_Invariant ''unknown SiteScore report state''))"

section \<open>The fulfilment store\<close>

definition load_order_for_update :: "uuid \<Rightarrow> fulfillment_db \<Rightarrow> (fulfillment_error, order_row) result" where
  "load_order_for_update u db = (case order_of u db of
     None \<Rightarrow> Inl (Fulfillment_Not_Found ''order not found'') | Some ord \<Rightarrow> Inr ord)"

text \<open>The checks \<open>prepare_analysis_operation\<close> makes on the operation it is about to return.\<close>

definition check_operation ::
  "(json \<Rightarrow> string) \<Rightarrow> (string \<Rightarrow> string) \<Rightarrow> uuid \<Rightarrow> order_row \<Rightarrow> analysis_operation
   \<Rightarrow> (fulfillment_error, analysis_operation) result" where
  "check_operation canonical sha u ord op = (
     if ao_version op \<noteq> analysis_operation_version
     then Inl (Fulfillment_Invariant ''unsupported durable analysis operation version'')
     else if ao_key op \<noteq> analysis_provider_key u
     then Inl (Fulfillment_Invariant ''analysis idempotency identity drift'')
     else if sha (canonical (ao_request op)) \<noteq> ao_request_sha op
     then Inl (Fulfillment_Invariant ''durable analysis request hash mismatch'')
     else rbind (analysis_request_from_order ord) (\<lambda>payload.
       if ao_request op \<noteq> payload then Inl (Fulfillment_Invariant ''durable analysis payload/order mismatch'')
       else Inr op))"

definition new_binding_row ::
  "(json \<Rightarrow> string) \<Rightarrow> (string \<Rightarrow> string) \<Rightarrow> settings \<Rightarrow> int \<Rightarrow> uuid \<Rightarrow> json \<Rightarrow> binding_row" where
  "new_binding_row canonical sha st now u payload = \<lparr>b_order_id = u, b_target_id = s_target_id st,
     b_base_url = s_base_url st, b_version = analysis_operation_version, b_key = analysis_provider_key u,
     b_request = payload, b_request_sha = sha (canonical payload), b_analysis_id = None,
     b_analysis_state = None, b_analysis_observed = None, b_report_id = None, b_report_state = None,
     b_report_observed = None, b_created_at = now, b_updated_at = now\<rparr>"

definition prepare_analysis_operation ::
  "fault \<Rightarrow> (json \<Rightarrow> string) \<Rightarrow> (string \<Rightarrow> string) \<Rightarrow> settings \<Rightarrow> int \<Rightarrow> uuid
   \<Rightarrow> (fulfillment_db, fulfillment_error, analysis_operation) call" where
  "prepare_analysis_operation ft canonical sha st now u =
     transaction ft (Fulfillment_Persistence ''fulfillment persistence is unavailable'') (\<lambda>db.
       case load_order_for_update u db of
         Inl e \<Rightarrow> (Inl e, db)
       | Inr ord \<Rightarrow>
           if o_payment ord \<noteq> P_Paid then (Inl (Fulfillment_Invariant ''analysis requires a paid order''), db)
           else if o_state ord \<notin> {O_Paid, O_In_Progress}
           then (Inl (Fulfillment_Invariant ''order state does not permit analysis''), db)
           else if o_fulfillment ord \<in> {F_Completed, F_Delivery_Pending}
           then (Inl (Fulfillment_Invariant ''fulfillment state does not permit analysis creation''), db)
           else case get_row b_order_id u (bindings db) of
             Some row \<Rightarrow> (check_operation canonical sha u ord (operation_from_row row), db)
           | None \<Rightarrow>
               (case analysis_request_from_order ord of
                  Inl e \<Rightarrow> (Inl e, db)
                | Inr payload \<Rightarrow>
                    if get_row b_key (analysis_provider_key u) (bindings db) \<noteq> None
                    then (Inl (Fulfillment_Persistence ''fulfillment persistence is unavailable''), db)
                    else
                      let row = new_binding_row canonical sha st now u payload;
                          db1 = db\<lparr>bindings := add_row row (bindings db)\<rparr>;
                          ord1 = (if o_state ord = O_Paid
                            then ord\<lparr>o_state := O_In_Progress, o_fulfillment := F_Analysis_Pending, o_updated_at := now\<rparr>
                            else ord);
                          db2 = (if o_state ord = O_Paid then put_order ord1 db1 else db1) in
                      (check_operation canonical sha u ord1 (operation_from_row row), db2)))"

definition get_binding :: "fault \<Rightarrow> uuid \<Rightarrow> (fulfillment_db, fulfillment_error, analysis_operation option) call" where
  "get_binding ft u = reading ft (Fulfillment_Persistence ''fulfillment persistence is unavailable'')
     (\<lambda>db. Inr (map_option operation_from_row (get_row b_order_id u (bindings db))))"

definition bind_analysis ::
  "fault \<Rightarrow> int \<Rightarrow> uuid \<Rightarrow> analysis_evidence \<Rightarrow> (fulfillment_db, fulfillment_error, analysis_operation) call" where
  "bind_analysis ft now u ev db = (
     if ae_state ev \<notin> set analysis_states
     then (Inl (Fulfillment_Invariant ''unknown SiteScore analysis state''), db)
     else transaction ft (Fulfillment_Persistence ''analysis binding could not be persisted'') (\<lambda>db.
       case load_order_for_update u db of
         Inl e \<Rightarrow> (Inl e, db)
       | Inr ord \<Rightarrow>
           (case get_row b_order_id u (bindings db) of
              None \<Rightarrow> (Inl (Fulfillment_Invariant ''analysis operation snapshot is unavailable''), db)
            | Some row \<Rightarrow>
                if b_analysis_id row \<noteq> None \<and> b_analysis_id row \<noteq> Some (ae_analysis_id ev)
                then (Inl (Fulfillment_Invariant ''analysis binding conflict''), db)
                else case apply_analysis_state ord (ae_state ev) now of
                  Inl e \<Rightarrow> (Inl e, db)
                | Inr ord' \<Rightarrow>
                    if \<not> list_all (\<lambda>b. b_order_id b = u \<or> b_analysis_id b \<noteq> Some (ae_analysis_id ev)) (bindings db)
                    then (Inl (Fulfillment_Invariant ''analysis identity is already bound to another order''), db)
                    else
                      let row' = row\<lparr>b_analysis_id := Some (ae_analysis_id ev), b_analysis_state := Some (ae_state ev),
                            b_analysis_observed := Some now, b_updated_at := now\<rparr> in
                      (Inr (operation_from_row row'),
                       put_order ord' (db\<lparr>bindings := put_row b_order_id row' (bindings db)\<rparr>)))) db)"

definition bind_report ::
  "fault \<Rightarrow> int \<Rightarrow> uuid \<Rightarrow> report_evidence \<Rightarrow> (fulfillment_db, fulfillment_error, analysis_operation) call" where
  "bind_report ft now u ev db = (
     if rp_state ev \<notin> set report_states
     then (Inl (Fulfillment_Invariant ''unknown SiteScore report state''), db)
     else transaction ft (Fulfillment_Persistence ''report binding could not be persisted'') (\<lambda>db.
       case load_order_for_update u db of
         Inl e \<Rightarrow> (Inl e, db)
       | Inr ord \<Rightarrow>
           (case get_row b_order_id u (bindings db) of
              None \<Rightarrow> (Inl (Fulfillment_Invariant ''report requires a completed bound analysis''), db)
            | Some row \<Rightarrow>
                if b_analysis_id row = None \<or> b_analysis_state row \<noteq> Some ''completed''
                then (Inl (Fulfillment_Invariant ''report requires a completed bound analysis''), db)
                else if Some (rp_analysis_id ev) \<noteq> b_analysis_id row
                then (Inl (Fulfillment_Invariant ''report analysis binding mismatch''), db)
                else if b_report_id row \<noteq> None \<and> b_report_id row \<noteq> Some (rp_report_id ev)
                then (Inl (Fulfillment_Invariant ''report binding conflict''), db)
                else case apply_report_state ord (rp_state ev) now of
                  Inl e \<Rightarrow> (Inl e, db)
                | Inr ord' \<Rightarrow>
                    if \<not> list_all (\<lambda>b. b_order_id b = u \<or> b_report_id b \<noteq> Some (rp_report_id ev)) (bindings db)
                    then (Inl (Fulfillment_Invariant ''report identity is already bound to another order''), db)
                    else
                      let row' = row\<lparr>b_report_id := Some (rp_report_id ev), b_report_state := Some (rp_state ev),
                            b_report_observed := Some now, b_updated_at := now\<rparr> in
                      (Inr (operation_from_row row'),
                       put_order ord' (db\<lparr>bindings := put_row b_order_id row' (bindings db)\<rparr>)))) db)"

definition persist_refund_eligibility ::
  "fault \<Rightarrow> int \<Rightarrow> uuid \<Rightarrow> string \<Rightarrow> string \<Rightarrow> uuid \<Rightarrow> string \<Rightarrow> (fulfillment_db, fulfillment_error, unit) call" where
  "persist_refund_eligibility ft now u reason resource_type resource_id terminal_state db = (
     if refund_reason_states reason \<noteq> Some (resource_type, terminal_state)
     then (Inl (Fulfillment_Invariant ''refund eligibility evidence mismatch''), db)
     else transaction ft (Fulfillment_Persistence ''refund eligibility could not be persisted'') (\<lambda>db.
       case load_order_for_update u db of
         Inl e \<Rightarrow> (Inl e, db)
       | Inr ord \<Rightarrow>
           (case get_row b_order_id u (bindings db) of
              None \<Rightarrow> (Inl (Fulfillment_Invariant ''refund eligibility requires a fulfillment binding''), db)
            | Some binding \<Rightarrow>
                if o_state ord = O_Fulfilled \<or> o_fulfillment ord = F_Completed
                then (Inl (Fulfillment_Invariant ''fulfilled order is not automatically refundable''), db)
                else if o_payment ord \<notin> {P_Paid, P_Refund_Pending, P_Refund_Failed}
                then (Inl (Fulfillment_Invariant ''refund eligibility requires paid money authority''), db)
                else case get_row el_order_id u (eligibilities db) of
                  Some ex \<Rightarrow>
                    (if (el_reason ex, el_resource_type ex, el_resource_id ex, el_terminal_state ex, el_target_id ex)
                        \<noteq> (reason, resource_type, resource_id, terminal_state, b_target_id binding)
                     then (Inl (Fulfillment_Invariant ''refund eligibility identity conflict''), db)
                     else (Inr (), db))
                | None \<Rightarrow> (Inr (), db\<lparr>eligibilities := add_row
                    \<lparr>el_order_id = u, el_reason = reason, el_resource_type = resource_type,
                     el_resource_id = resource_id, el_terminal_state = terminal_state, el_observed_at = now,
                     el_target_id = b_target_id binding\<rparr> (eligibilities db)\<rparr>))) db)"

definition load_refund_context ::
  "fault \<Rightarrow> uuid \<Rightarrow> (fulfillment_db, fulfillment_error,
      order_row \<times> checkout_row \<times> eligibility_row \<times> refund_row option) call" where
  "load_refund_context ft u = reading ft (Fulfillment_Persistence ''refund context is unavailable'') (\<lambda>db.
     case order_of u db of
       None \<Rightarrow> Inl (Fulfillment_Not_Found ''order not found'')
     | Some ord \<Rightarrow>
         (case (get_row c_order_id u (checkouts (shop db)), get_row el_order_id u (eligibilities db)) of
            (Some checkout, Some el) \<Rightarrow> Inr (ord, checkout, el, get_row rr_order_id u (refunds db))
          | _ \<Rightarrow> Inl (Fulfillment_Invariant ''refund context is incomplete'')))"

text \<open>The identity of a refund operation: what never changes once it was written.\<close>

definition refund_identity :: "refund_row \<Rightarrow> string \<times> string \<times> string \<times> string \<times> uuid \<times> string \<times> int \<times> string" where
  "refund_identity r = (rr_version r, rr_key r, rr_reason r, rr_resource_type r, rr_resource_id r,
     rr_payment_intent r, rr_amount r, rr_currency r)"

definition refund_of_row :: "refund_row \<Rightarrow> refund_operation" where
  "refund_of_row r = \<lparr>ro_order_id = rr_order_id r, ro_version = rr_version r, ro_key = rr_key r,
     ro_reason = rr_reason r, ro_resource_type = rr_resource_type r, ro_resource_id = rr_resource_id r,
     ro_payment_intent = rr_payment_intent r, ro_amount = rr_amount r, ro_currency = rr_currency r\<rparr>"

definition new_refund_row :: "int \<Rightarrow> uuid \<Rightarrow> eligibility_row \<Rightarrow> payment_intent_evidence \<Rightarrow> refund_row" where
  "new_refund_row now u el intent = \<lparr>rr_order_id = u, rr_version = refund_operation_version,
     rr_key = refund_provider_key u, rr_reason = el_reason el, rr_resource_type = el_resource_type el,
     rr_resource_id = el_resource_id el, rr_payment_intent = pi_id intent, rr_amount = pi_amount_received intent,
     rr_currency = pi_currency intent, rr_refund_id = None, rr_refund_status = None, rr_refund_amount = None,
     rr_failure = None, rr_created_at = now, rr_updated_at = now, rr_reconciled_at = None\<rparr>"

definition prepare_refund_operation ::
  "fault \<Rightarrow> int \<Rightarrow> uuid \<Rightarrow> payment_intent_evidence \<Rightarrow> (fulfillment_db, fulfillment_error, refund_operation) call" where
  "prepare_refund_operation ft now u intent =
     transaction ft (Fulfillment_Persistence ''refund operation could not be persisted'') (\<lambda>db.
       case load_order_for_update u db of
         Inl e \<Rightarrow> (Inl e, db)
       | Inr ord \<Rightarrow>
           (case (get_row c_order_id u (checkouts (shop db)), get_row el_order_id u (eligibilities db)) of
              (Some checkout, Some el) \<Rightarrow>
                if o_state ord = O_Fulfilled \<or> o_fulfillment ord = F_Completed
                then (Inl (Fulfillment_Invariant ''fulfilled order is not automatically refundable''), db)
                else if c_payment_intent checkout \<noteq> Some (pi_id intent)
                then (Inl (Fulfillment_Invariant ''PaymentIntent binding mismatch''), db)
                else if pi_amount_received intent \<le> 0 \<or> pi_currency intent \<noteq> ''USD''
                then (Inl (Fulfillment_Invariant ''PaymentIntent amount/currency invariant failed''), db)
                else case get_row rr_order_id u (refunds db) of
                  Some ex \<Rightarrow>
                    (if refund_identity ex \<noteq> refund_identity (new_refund_row now u el intent)
                     then (Inl (Fulfillment_Invariant ''durable refund operation identity conflict''), db)
                     else (Inr (refund_of_row ex), db))
                | None \<Rightarrow>
                    (if get_row rr_key (refund_provider_key u) (refunds db) \<noteq> None
                     then (Inl (Fulfillment_Persistence ''refund operation could not be persisted''), db)
                     else let row = new_refund_row now u el intent in
                       (Inr (refund_of_row row), db\<lparr>refunds := add_row row (refunds db)\<rparr>))
            | _ \<Rightarrow> (Inl (Fulfillment_Invariant ''refund operation prerequisites are unavailable''), db)))"

definition metadata_matches :: "(string \<times> string) list \<Rightarrow> refund_operation \<Rightarrow> bool" where
  "metadata_matches md op = list_all (\<lambda>(k, v). map_of md k = Some v) (refund_metadata op)"

text \<open>What \<open>bind_refund\<close> writes into the order for each status of the Stripe refund.\<close>

definition refunded_order :: "string \<Rightarrow> int \<Rightarrow> order_row \<Rightarrow> order_row" where
  "refunded_order status now ord = (
     let ord = (if status = ''succeeded'' then ord\<lparr>o_state := O_Refunded, o_payment := P_Refunded\<rparr>
       else if status = ''pending'' then ord\<lparr>o_payment := P_Refund_Pending\<rparr>
       else if status = ''requires_action'' then ord\<lparr>o_state := O_Attention, o_payment := P_Refund_Pending\<rparr>
       else if status = ''failed'' \<or> status = ''canceled''
       then ord\<lparr>o_state := O_Attention, o_payment := P_Refund_Failed\<rparr>
       else ord) in ord\<lparr>o_updated_at := now\<rparr>)"

definition reconciled_row :: "int \<Rightarrow> refund_evidence \<Rightarrow> bool \<Rightarrow> refund_row \<Rightarrow> refund_row" where
  "reconciled_row now ev external_full row = row\<lparr>
     rr_refund_id := (if rf_id ev = [] then rr_refund_id row else Some (rf_id ev)),
     rr_refund_status := Some (rf_status ev), rr_refund_amount := Some (rf_amount ev),
     rr_failure := (if rf_status ev \<in> {''failed'', ''canceled''} then Some (''stripe_refund_'' @ rf_status ev)
       else if external_full then Some ''provider_already_fully_refunded'' else None),
     rr_updated_at := now, rr_reconciled_at := Some now\<rparr>"

definition bind_refund ::
  "fault \<Rightarrow> int \<Rightarrow> refund_operation \<Rightarrow> refund_evidence \<Rightarrow> bool \<Rightarrow> (fulfillment_db, fulfillment_error, unit) call" where
  "bind_refund ft now op ev external_full db = (
     if rf_status ev \<notin> set refund_statuses then (Inl (Fulfillment_Invariant ''unknown Stripe Refund status''), db)
     else if rf_payment_intent ev \<noteq> ro_payment_intent op
     then (Inl (Fulfillment_Invariant ''Refund PaymentIntent mismatch''), db)
     else if rf_amount ev \<noteq> ro_amount op \<or> rf_currency ev \<noteq> ro_currency op
     then (Inl (Fulfillment_Invariant ''Refund amount/currency mismatch''), db)
     else if \<not> external_full \<and> \<not> metadata_matches (rf_metadata ev) op
     then (Inl (Fulfillment_Invariant ''Refund metadata binding mismatch''), db)
     else transaction ft (Fulfillment_Persistence ''refund reconciliation could not be persisted'') (\<lambda>db.
       case load_order_for_update (ro_order_id op) db of
         Inl e \<Rightarrow> (Inl e, db)
       | Inr ord \<Rightarrow>
           (case get_row rr_order_id (ro_order_id op) (refunds db) of
              None \<Rightarrow> (Inl (Fulfillment_Invariant ''refund operation snapshot is unavailable''), db)
            | Some row \<Rightarrow>
                if rr_refund_id row \<noteq> None \<and> rr_refund_id row \<noteq> Some (rf_id ev)
                then (Inl (Fulfillment_Invariant ''refund binding conflict''), db)
                else if rf_id ev \<noteq> [] \<and> \<not> list_all (\<lambda>r. rr_order_id r = ro_order_id op
                      \<or> rr_refund_id r \<noteq> Some (rf_id ev)) (refunds db)
                then (Inl (Fulfillment_Invariant ''Stripe Refund identity is already bound to another order''), db)
                else
                  let row' = reconciled_row now ev external_full row in
                  (Inr (), put_order (refunded_order (rf_status ev) now ord)
                     (db\<lparr>refunds := put_row rr_order_id row' (refunds db)\<rparr>)))) db)"

definition fulfillment_attention :: "fault \<Rightarrow> int \<Rightarrow> uuid \<Rightarrow> string \<Rightarrow> bool \<Rightarrow> (fulfillment_db, fulfillment_error, unit) call" where
  "fulfillment_attention ft now u code refund_failure =
     transaction ft (Fulfillment_Persistence ''attention state could not be persisted'') (\<lambda>db.
       case load_order_for_update u db of
         Inl e \<Rightarrow> (Inl e, db)
       | Inr ord \<Rightarrow>
           (let ord = ord\<lparr>o_state := O_Attention\<rparr>;
                ord = (if refund_failure then ord\<lparr>o_payment := P_Refund_Failed\<rparr> else ord);
                db1 = put_order (ord\<lparr>o_updated_at := now\<rparr>) db in
            (Inr (), case get_row rr_order_id u (refunds db) of
               None \<Rightarrow> db1
             | Some r \<Rightarrow> db1\<lparr>refunds := put_row rr_order_id
                 (r\<lparr>rr_failure := Some (take 80 code), rr_updated_at := now\<rparr>) (refunds db1)\<rparr>)))"

definition status_of_order :: "order_row \<Rightarrow> automation_status" where
  "status_of_order ord = (
     let terminal = (o_state ord \<in> {O_Refunded, O_Fulfilled, O_Expired});
         (action, retryable) =
           (if o_fulfillment ord = F_Delivery_Pending then (''delivery'', False)
            else if refund_reasons (o_fulfillment ord) \<noteq> None then (''refund'', True)
            else if terminal \<or> o_state ord = O_Attention then (''none'', False)
            else if o_payment ord = P_Paid then (''advance'', True)
            else (''wait'', False)) in
     \<lparr>as_order_id = o_id ord, as_order_state = o_state ord, as_payment_state = o_payment ord,
      as_fulfillment_state = o_fulfillment ord, as_retryable = retryable, as_terminal = terminal,
      as_next_action = action\<rparr>)"

definition get_status :: "fault \<Rightarrow> uuid \<Rightarrow> (fulfillment_db, fulfillment_error, automation_status) call" where
  "get_status ft u = reading ft (Fulfillment_Persistence ''fulfillment status is unavailable'') (\<lambda>db.
     case order_of u db of
       None \<Rightarrow> Inl (Fulfillment_Not_Found ''order not found'')
     | Some ord \<Rightarrow> Inr (status_of_order ord))"

section \<open>The SiteScore gateway\<close>

record http_request =
  hr_method :: string
  hr_base_url :: string
  hr_path :: string
  hr_body :: "json option"
  hr_key :: "string option"

text \<open>The answer of \<open>httpx.request\<close>: no response, or a status with the JSON of the body (none when
  \<open>response.json()\<close> raises).\<close>

datatype http_outcome = Network_Error | Http_Response int "json option"

type_synonym sitescore_http = "http_request \<Rightarrow> http_outcome"

definition sitescore_request :: "sitescore_http \<Rightarrow> http_request \<Rightarrow> (fulfillment_error, json) result" where
  "sitescore_request http rq = (case http rq of
     Network_Error \<Rightarrow> Inl (SiteScore_Unavailable ''sitescore_network_error'' True)
   | Http_Response status body \<Rightarrow>
       if status < 200 \<or> 300 \<le> status then
         (if status \<in> {429, 500, 502, 503, 504}
          then Inl (SiteScore_Unavailable ''sitescore_retryable_http_error'' True)
          else if status = 404 then Inl (SiteScore_Unavailable ''sitescore_resource_not_found'' False)
          else if status = 401 \<or> status = 403 then Inl (SiteScore_Unavailable ''sitescore_auth_error'' False)
          else Inl (SiteScore_Unavailable ''sitescore_http_error'' False))
       else case body of
         None \<Rightarrow> Inl (SiteScore_Unavailable ''sitescore_malformed_response'' False)
       | Some data \<Rightarrow>
           (if is_object data then Inr data
            else Inl (SiteScore_Unavailable ''sitescore_malformed_response'' False)))"

definition gateway_uuid :: "json \<Rightarrow> string \<Rightarrow> (fulfillment_error, uuid) result" where
  "gateway_uuid v code = (case json_uuid v of
     None \<Rightarrow> Inl (SiteScore_Unavailable code False) | Some u \<Rightarrow> Inr u)"

definition api_v1 :: "json \<Rightarrow> (fulfillment_error, unit) result" where
  "api_v1 data = (if json_get ''api_version'' data \<noteq> JStr ''v1''
     then Inl (SiteScore_Unavailable ''sitescore_api_version_mismatch'' False) else Inr ())"

text \<open>\<open>str(data.get("state", ""))\<close>\<close>

definition state_text :: "json \<Rightarrow> string" where
  "state_text data = (if has_key ''state'' data then json_text (json_get ''state'' data) else [])"

definition analysis_answer :: "json \<Rightarrow> uuid option \<Rightarrow> (fulfillment_error, analysis_evidence) result" where
  "analysis_answer data expected =
     rbind (api_v1 data) (\<lambda>_.
     rbind (gateway_uuid (json_get ''analysis_id'' data) ''sitescore_analysis_id_invalid'') (\<lambda>aid.
       if state_text data \<notin> set analysis_states
       then Inl (SiteScore_Unavailable ''sitescore_analysis_state_unknown'' False)
       else if expected \<noteq> None \<and> expected \<noteq> Some aid
       then Inl (SiteScore_Unavailable ''sitescore_analysis_id_mismatch'' False)
       else Inr \<lparr>ae_analysis_id = aid, ae_state = state_text data\<rparr>))"

definition submit_analysis :: "sitescore_http \<Rightarrow> analysis_operation \<Rightarrow> (fulfillment_error, analysis_evidence) result" where
  "submit_analysis http op = (
     if ao_version op \<noteq> analysis_operation_version
     then Inl (Fulfillment_Invariant ''unsupported analysis operation version'')
     else rbind (sitescore_request http \<lparr>hr_method = ''POST'', hr_base_url = ao_base_url op,
              hr_path = ''/v1/analyses'', hr_body = Some (ao_request op), hr_key = Some (ao_key op)\<rparr>)
            (\<lambda>data. analysis_answer data (ao_analysis_id op)))"

definition get_analysis :: "sitescore_http \<Rightarrow> string \<Rightarrow> uuid \<Rightarrow> (fulfillment_error, analysis_evidence) result" where
  "get_analysis http url aid =
     rbind (sitescore_request http \<lparr>hr_method = ''GET'', hr_base_url = url,
              hr_path = ''/v1/analyses/'' @ uuid_str aid, hr_body = None, hr_key = None\<rparr>)
       (\<lambda>data. analysis_answer data (Some aid))"

definition report_answer :: "json \<Rightarrow> uuid \<Rightarrow> uuid option \<Rightarrow> (fulfillment_error, report_evidence) result" where
  "report_answer data expected_analysis expected_report =
     rbind (api_v1 data) (\<lambda>_.
     rbind (gateway_uuid (json_get ''report_id'' data) ''sitescore_report_id_invalid'') (\<lambda>rid.
     rbind (gateway_uuid (json_get ''analysis_id'' data) ''sitescore_report_analysis_id_invalid'') (\<lambda>aid.
       if state_text data \<notin> set report_states
       then Inl (SiteScore_Unavailable ''sitescore_report_state_unknown'' False)
       else if aid \<noteq> expected_analysis
       then Inl (SiteScore_Unavailable ''sitescore_report_analysis_id_mismatch'' False)
       else if expected_report \<noteq> None \<and> expected_report \<noteq> Some rid
       then Inl (SiteScore_Unavailable ''sitescore_report_id_mismatch'' False)
       else Inr \<lparr>rp_report_id = rid, rp_analysis_id = aid, rp_state = state_text data\<rparr>)))"

definition resolve_report :: "sitescore_http \<Rightarrow> string \<Rightarrow> uuid \<Rightarrow> (fulfillment_error, report_evidence) result" where
  "resolve_report http url aid =
     rbind (sitescore_request http \<lparr>hr_method = ''POST'', hr_base_url = url, hr_path = ''/v1/reports'',
              hr_body = Some (JObj [(''analysis_id'', JStr (uuid_str aid))]), hr_key = None\<rparr>)
       (\<lambda>data. report_answer data aid None)"

definition get_report :: "sitescore_http \<Rightarrow> string \<Rightarrow> uuid \<Rightarrow> (fulfillment_error, report_evidence) result" where
  "get_report http url rid =
     rbind (sitescore_request http \<lparr>hr_method = ''GET'', hr_base_url = url,
              hr_path = ''/v1/reports/'' @ uuid_str rid, hr_body = None, hr_key = None\<rparr>)
       (\<lambda>data. rbind (gateway_uuid (json_get ''analysis_id'' data) ''sitescore_report_analysis_id_invalid'')
         (\<lambda>aid. report_answer data aid (Some rid)))"

section \<open>The refund gateway\<close>

text \<open>A Stripe object: an attribute that \<open>getattr\<close> does not find is \<open>None\<close>. \<open>x or 0\<close> and
  \<open>x or ""\<close> turn a missing amount and currency into 0 and the empty string.\<close>

record stripe_object =
  so_id :: "string option"
  so_payment_intent :: "string option"
  so_amount :: "int option"
  so_currency :: "string option"
  so_livemode :: "bool option"
  so_status :: "string option"
  so_metadata :: "(string \<times> string) list"

definition text_or_empty :: "string option \<Rightarrow> string" where
  "text_or_empty x = (case x of None \<Rightarrow> [] | Some s \<Rightarrow> s)"

definition upper_char :: "char \<Rightarrow> char" where
  "upper_char c = (if CHR ''a'' \<le> c \<and> c \<le> CHR ''z'' then char_of (of_char c - 32 :: nat) else c)"

text \<open>\<open>str.upper\<close> on ASCII currency codes.\<close>

definition upper :: "string \<Rightarrow> string" where
  "upper s = map upper_char s"

definition refund_evidence_of :: "stripe_object \<Rightarrow> refund_evidence" where
  "refund_evidence_of obj = \<lparr>rf_id = text_or_empty (so_id obj), rf_payment_intent = text_or_empty (so_payment_intent obj),
     rf_amount = (case so_amount obj of None \<Rightarrow> 0 | Some n \<Rightarrow> n), rf_currency = upper (text_or_empty (so_currency obj)),
     rf_status = text_or_empty (so_status obj), rf_metadata = so_metadata obj\<rparr>"

text \<open>The client: each call may raise (\<open>None\<close>); only \<open>refunds.create\<close> changes the provider.\<close>

record 'w stripe_client =
  sc_intent :: "string \<Rightarrow> 'w \<Rightarrow> stripe_object option"
  sc_list :: "string \<Rightarrow> 'w \<Rightarrow> stripe_object list option"
  sc_create :: "refund_operation \<Rightarrow> 'w \<Rightarrow> stripe_object option \<times> 'w"

definition retrieve_payment_intent ::
  "'w stripe_client \<Rightarrow> string \<Rightarrow> 'w \<Rightarrow> (fulfillment_error, payment_intent_evidence) result" where
  "retrieve_payment_intent sc pid w = (case sc_intent sc pid w of
     None \<Rightarrow> Inl (Refund_Unavailable ''Stripe PaymentIntent reconciliation is unavailable'')
   | Some obj \<Rightarrow> Inr \<lparr>pi_id = text_or_empty (so_id obj),
       pi_amount_received = (case so_amount obj of None \<Rightarrow> 0 | Some n \<Rightarrow> n),
       pi_currency = upper (text_or_empty (so_currency obj)),
       pi_livemode = (so_livemode obj = Some True), pi_metadata = so_metadata obj\<rparr>)"

definition list_refunds ::
  "'w stripe_client \<Rightarrow> string \<Rightarrow> 'w \<Rightarrow> (fulfillment_error, refund_evidence list) result" where
  "list_refunds sc pid w = (case sc_list sc pid w of
     None \<Rightarrow> Inl (Refund_Unavailable ''Stripe Refund reconciliation is unavailable'')
   | Some objs \<Rightarrow> Inr (map refund_evidence_of objs))"

definition create_refund ::
  "'w stripe_client \<Rightarrow> refund_operation \<Rightarrow> 'w \<Rightarrow> (fulfillment_error, refund_evidence) result \<times> 'w" where
  "create_refund sc op w = (case sc_create sc op w of
     (None, w') \<Rightarrow> (Inl (Refund_Unavailable ''Stripe Refund creation is unavailable''), w')
   | (Some obj, w') \<Rightarrow> (Inr (refund_evidence_of obj), w'))"

definition validate_payment_intent ::
  "payment_intent_evidence \<Rightarrow> order_row \<Rightarrow> checkout_row \<Rightarrow> bool \<Rightarrow> (fulfillment_error, unit) result" where
  "validate_payment_intent ev ord checkout expected_livemode = (
     if \<not> starts_with ''pi_'' (pi_id ev) then Inl (Fulfillment_Invariant ''PaymentIntent identity is invalid'')
     else if c_payment_intent checkout \<noteq> Some (pi_id ev)
     then Inl (Fulfillment_Invariant ''PaymentIntent does not match durable checkout binding'')
     else if pi_currency ev \<noteq> ''USD'' \<or> pi_amount_received ev \<le> 0
     then Inl (Fulfillment_Invariant ''PaymentIntent money evidence is invalid'')
     else if pi_livemode ev \<noteq> expected_livemode then Inl (Fulfillment_Invariant ''PaymentIntent livemode mismatch'')
     else if map_of (pi_metadata ev) ''sitescore_order_id'' \<noteq> Some (uuid_str (o_id ord))
     then Inl (Fulfillment_Invariant ''PaymentIntent order metadata mismatch'')
     else if map_of (pi_metadata ev) ''sitescore_product_code'' \<noteq> Some (o_product_code ord)
     then Inl (Fulfillment_Invariant ''PaymentIntent product metadata mismatch'')
     else Inr ())"

definition validate_refund_for_operation ::
  "refund_evidence \<Rightarrow> refund_operation \<Rightarrow> bool \<Rightarrow> (fulfillment_error, unit) result" where
  "validate_refund_for_operation ev op require_metadata = (
     if \<not> starts_with ''re_'' (rf_id ev) then Inl (Fulfillment_Invariant ''Refund identity is invalid'')
     else if rf_status ev \<notin> set refund_statuses then Inl (Fulfillment_Invariant ''unknown Stripe Refund status'')
     else if rf_payment_intent ev \<noteq> ro_payment_intent op
     then Inl (Fulfillment_Invariant ''Refund PaymentIntent mismatch'')
     else if rf_amount ev \<noteq> ro_amount op \<or> rf_currency ev \<noteq> ro_currency op
     then Inl (Fulfillment_Invariant ''Refund money binding mismatch'')
     else if require_metadata \<and> \<not> metadata_matches (rf_metadata ev) op
     then Inl (Fulfillment_Invariant ''Refund metadata binding mismatch'')
     else Inr ())"

definition is_matching_refund :: "refund_evidence \<Rightarrow> refund_operation \<Rightarrow> bool" where
  "is_matching_refund rf op = metadata_matches (rf_metadata rf) op"

definition has_reserved_refund_metadata :: "refund_evidence \<Rightarrow> refund_operation \<Rightarrow> bool" where
  "has_reserved_refund_metadata rf op =
     list_ex (\<lambda>k. k \<in> fst ` set (rf_metadata rf)) (map fst (refund_metadata op))"

section \<open>The fulfilment service\<close>

text \<open>
  A service call works on the database and the provider's state. Each store call has its own
  fault, and \<open>fe_other\<close> is what other transactions commit before it.
\<close>

record fulfillment_env =
  fe_status :: fault
  fe_prepare :: fault
  fe_binding :: fault
  fe_bind :: fault
  fe_eligibility :: fault
  fe_context :: fault
  fe_refund :: fault
  fe_bind_refund :: fault
  fe_attention :: fault
  fe_final :: fault
  fe_other :: "fulfillment_db \<Rightarrow> fulfillment_db"

definition store_step ::
  "fulfillment_env \<Rightarrow> (fulfillment_db, fulfillment_error, 'a) call \<Rightarrow> (fulfillment_db \<times> 'w, fulfillment_error, 'a) call" where
  "store_step fe m s = (case m (fe_other fe (fst s)) of (r, db) \<Rightarrow> (r, (db, snd s)))"

definition answer :: "(fulfillment_error, 'a) result \<Rightarrow> ('s, fulfillment_error, 'a) call" where
  "answer r s = (r, s)"

definition ask :: "('w \<Rightarrow> (fulfillment_error, 'a) result) \<Rightarrow> (fulfillment_db \<times> 'w, fulfillment_error, 'a) call" where
  "ask f s = (f (snd s), s)"

definition act :: "('w \<Rightarrow> (fulfillment_error, 'a) result \<times> 'w) \<Rightarrow> (fulfillment_db \<times> 'w, fulfillment_error, 'a) call" where
  "act f s = (case f (snd s) of (r, w) \<Rightarrow> (r, (fst s, w)))"

text \<open>\<open>except FulfillmentInvariantError\<close>\<close>

definition on_invariant_error ::
  "('s, fulfillment_error, 'a) call \<Rightarrow> ('s, fulfillment_error, 'a) call \<Rightarrow> ('s, fulfillment_error, 'a) call" where
  "on_invariant_error m h s = (case m s of
     (Inl (Fulfillment_Invariant _), s') \<Rightarrow> h s'
   | r \<Rightarrow> r)"

definition authorize_automation :: "settings \<Rightarrow> string option \<Rightarrow> (fulfillment_error, unit) result" where
  "authorize_automation st authorization = (case authorization of
     None \<Rightarrow> Inl (Automation_Unauthorized ''automation credential required'')
   | Some a \<Rightarrow>
       if a = [] \<or> \<not> starts_with ''Bearer '' a
       then Inl (Automation_Unauthorized ''automation credential required'')
       else if drop 7 a = [] \<or> drop 7 a \<noteq> s_automation_key st
       then Inl (Automation_Unauthorized ''automation credential invalid'')
       else Inr ())"

definition ensure_analysis ::
  "fulfillment_env \<Rightarrow> sitescore_http \<Rightarrow> (json \<Rightarrow> string) \<Rightarrow> (string \<Rightarrow> string) \<Rightarrow> settings \<Rightarrow> int \<Rightarrow> uuid
   \<Rightarrow> (fulfillment_db \<times> 'w, fulfillment_error, unit) call" where
  "ensure_analysis fe http canonical sha st now u =
     cbind (store_step fe (prepare_analysis_operation (fe_prepare fe) canonical sha st now u)) (\<lambda>op.
     cbind (answer (submit_analysis http op)) (\<lambda>ev.
     cbind (store_step fe (bind_analysis (fe_bind fe) now u ev)) (\<lambda>_. answer (Inr ()))))"

definition reconcile_analysis ::
  "fulfillment_env \<Rightarrow> sitescore_http \<Rightarrow> int \<Rightarrow> uuid \<Rightarrow> (fulfillment_db \<times> 'w, fulfillment_error, unit) call" where
  "reconcile_analysis fe http now u =
     cbind (store_step fe (get_binding (fe_binding fe) u)) (\<lambda>op.
       case op of
         None \<Rightarrow> answer (Inl (Fulfillment_Invariant ''bound analysis is unavailable''))
       | Some op \<Rightarrow>
           (case ao_analysis_id op of
              None \<Rightarrow> answer (Inl (Fulfillment_Invariant ''bound analysis is unavailable''))
            | Some aid \<Rightarrow>
                cbind (answer (get_analysis http (ao_base_url op) aid)) (\<lambda>ev.
                cbind (store_step fe (bind_analysis (fe_bind fe) now u ev)) (\<lambda>_. answer (Inr ())))))"

definition ensure_report ::
  "fulfillment_env \<Rightarrow> sitescore_http \<Rightarrow> int \<Rightarrow> uuid \<Rightarrow> (fulfillment_db \<times> 'w, fulfillment_error, unit) call" where
  "ensure_report fe http now u =
     cbind (store_step fe (get_binding (fe_binding fe) u)) (\<lambda>op.
       case op of
         None \<Rightarrow> answer (Inl (Fulfillment_Invariant ''completed bound analysis is required''))
       | Some op \<Rightarrow>
           (case ao_analysis_id op of
              None \<Rightarrow> answer (Inl (Fulfillment_Invariant ''completed bound analysis is required''))
            | Some aid \<Rightarrow>
                if ao_analysis_state op \<noteq> Some ''completed''
                then answer (Inl (Fulfillment_Invariant ''completed bound analysis is required''))
                else
                  cbind (answer (case ao_report_id op of
                      None \<Rightarrow> resolve_report http (ao_base_url op) aid
                    | Some rid \<Rightarrow> rbind (get_report http (ao_base_url op) rid) (\<lambda>ev.
                        if rp_analysis_id ev \<noteq> aid
                        then Inl (Fulfillment_Invariant ''report analysis binding mismatch'') else Inr ev))) (\<lambda>ev.
                  cbind (store_step fe (bind_report (fe_bind fe) now u ev)) (\<lambda>_. answer (Inr ())))))"

definition reprove_eligibility ::
  "fulfillment_env \<Rightarrow> sitescore_http \<Rightarrow> uuid \<Rightarrow> fulfillment_state
   \<Rightarrow> (fulfillment_db \<times> 'w, fulfillment_error, string \<times> string \<times> uuid \<times> string) call" where
  "reprove_eligibility fe http u f = (case refund_reasons f of
     None \<Rightarrow> answer (Inl (Fulfillment_Invariant ''fulfillment state is not refundable''))
   | Some reason \<Rightarrow>
       cbind (store_step fe (get_binding (fe_binding fe) u)) (\<lambda>op.
         case op of
           None \<Rightarrow> answer (Inl (Fulfillment_Invariant ''fulfillment binding is unavailable''))
         | Some op \<Rightarrow>
             (case refund_reason_states reason of
                None \<Rightarrow> answer (Inl (Fulfillment_Invariant ''KeyError''))
              | Some (resource_type, terminal_state) \<Rightarrow>
                  if resource_type = ''analysis'' then
                    (case ao_analysis_id op of
                       None \<Rightarrow> answer (Inl (Fulfillment_Invariant ''analysis refund evidence is unavailable''))
                     | Some aid \<Rightarrow>
                         cbind (answer (get_analysis http (ao_base_url op) aid)) (\<lambda>ev.
                           if ae_state ev \<noteq> terminal_state
                           then answer (Inl (Fulfillment_Invariant ''analysis terminal refund truth changed''))
                           else answer (Inr (reason, resource_type, aid, terminal_state))))
                  else
                    (case ao_report_id op of
                       None \<Rightarrow> answer (Inl (Fulfillment_Invariant ''report refund evidence is unavailable''))
                     | Some rid \<Rightarrow>
                         cbind (answer (get_report http (ao_base_url op) rid)) (\<lambda>ev.
                           if Some (rp_analysis_id ev) \<noteq> ao_analysis_id op \<or> rp_state ev \<noteq> terminal_state
                           then answer (Inl (Fulfillment_Invariant ''report terminal refund truth changed''))
                           else answer (Inr (reason, resource_type, rid, terminal_state)))))))"

text \<open>The part of \<open>_ensure_refund\<close> after the refund operation was prepared.\<close>

definition settle_refund ::
  "fulfillment_env \<Rightarrow> 'w stripe_client \<Rightarrow> int \<Rightarrow> uuid \<Rightarrow> refund_operation
   \<Rightarrow> (fulfillment_db \<times> 'w, fulfillment_error, unit) call" where
  "settle_refund fe sc now u op =
     (let attention = (\<lambda>code. store_step fe (fulfillment_attention (fe_attention fe) now u code True));
          bind = (\<lambda>ev ext. store_step fe (bind_refund (fe_bind_refund fe) now op ev ext)) in
     cbind (ask (list_refunds sc (ro_payment_intent op))) (\<lambda>provider_refunds.
       case filter (\<lambda>rf. is_matching_refund rf op) provider_refunds of
         _ # _ # _ \<Rightarrow> attention ''multiple_matching_refunds''
       | [m] \<Rightarrow>
           on_invariant_error
             (cbind (answer (validate_refund_for_operation m op True)) (\<lambda>_. bind m False))
             (attention ''matching_refund_conflict'')
       | [] \<Rightarrow>
           if provider_refunds \<noteq> [] then
             (if list_ex (\<lambda>rf. has_reserved_refund_metadata rf op) provider_refunds
              then attention ''conflicting_refund_metadata''
              else case filter (\<lambda>rf. rf_payment_intent rf = ro_payment_intent op \<and> rf_currency rf = ro_currency op
                       \<and> rf_amount rf > 0) provider_refunds of
                [v] \<Rightarrow>
                  (if rf_status v = ''succeeded'' \<and> rf_amount v = ro_amount op then bind v True
                   else attention ''conflicting_existing_refund'')
              | _ \<Rightarrow> attention ''conflicting_existing_refund'')
           else
             on_invariant_error
               (cbind (act (create_refund sc op)) (\<lambda>ev.
                cbind (answer (validate_refund_for_operation ev op True)) (\<lambda>_. bind ev False)))
               (attention ''refund_provider_binding_mismatch'')))"

definition ensure_refund ::
  "fulfillment_env \<Rightarrow> sitescore_http \<Rightarrow> 'w stripe_client \<Rightarrow> settings \<Rightarrow> int \<Rightarrow> uuid \<Rightarrow> fulfillment_state
   \<Rightarrow> (fulfillment_db \<times> 'w, fulfillment_error, unit) call" where
  "ensure_refund fe http sc st now u f =
     cbind (reprove_eligibility fe http u f) (\<lambda>(reason, resource_type, resource_id, terminal_state).
     cbind (store_step fe (persist_refund_eligibility (fe_eligibility fe) now u reason resource_type resource_id
              terminal_state)) (\<lambda>_.
     cbind (store_step fe (load_refund_context (fe_context fe) u)) (\<lambda>(ord, checkout, _, _).
       case c_payment_intent checkout of
         None \<Rightarrow> store_step fe (fulfillment_attention (fe_attention fe) now u ''payment_intent_missing'' False)
       | Some pid \<Rightarrow>
           cbind (ask (retrieve_payment_intent sc pid)) (\<lambda>intent.
             if raised (validate_payment_intent intent ord checkout (s_expected_livemode st))
             then store_step fe (fulfillment_attention (fe_attention fe) now u ''payment_intent_binding_mismatch'' False)
             else
               cbind (store_step fe (prepare_refund_operation (fe_refund fe) now u intent)) (\<lambda>op.
               settle_refund fe sc now u op)))))"

definition advance ::
  "fulfillment_env \<Rightarrow> sitescore_http \<Rightarrow> 'w stripe_client \<Rightarrow> (json \<Rightarrow> string) \<Rightarrow> (string \<Rightarrow> string) \<Rightarrow> settings
   \<Rightarrow> int \<Rightarrow> uuid \<Rightarrow> (fulfillment_db \<times> 'w, fulfillment_error, automation_status) call" where
  "advance fe http sc canonical sha st now u =
     cbind (store_step fe (get_status (fe_status fe) u)) (\<lambda>status.
       if as_order_state status \<in> {O_Refunded, O_Fulfilled, O_Expired, O_Attention} then answer (Inr status)
       else if as_payment_state status \<noteq> P_Paid \<and> refund_reasons (as_fulfillment_state status) = None
       then answer (Inr status)
       else
         cbind (if as_fulfillment_state status = F_Not_Started then ensure_analysis fe http canonical sha st now u
                else if as_fulfillment_state status \<in> {F_Analysis_Pending, F_Analysis_Running}
                then reconcile_analysis fe http now u
                else if as_fulfillment_state status = F_Report_Pending then ensure_report fe http now u
                else if refund_reasons (as_fulfillment_state status) \<noteq> None
                then ensure_refund fe http sc st now u (as_fulfillment_state status)
                else answer (Inr ()))
           (\<lambda>_. store_step fe (get_status (fe_final fe) u)))"

section \<open>The crash-window-aware driver\<close>

text \<open>\<open>FulfillmentRuntimeService\<close> (\<open>fulfillment_runtime.py\<close>) is the service the HTTP API builds. It
  overrides the two methods below; everything else is inherited.\<close>

definition runtime_settle_refund ::
  "fulfillment_env \<Rightarrow> 'w stripe_client \<Rightarrow> int \<Rightarrow> uuid \<Rightarrow> refund_operation
   \<Rightarrow> (fulfillment_db \<times> 'w, fulfillment_error, unit) call" where
  "runtime_settle_refund fe sc now u op =
     (let attention = (\<lambda>code. store_step fe (fulfillment_attention (fe_attention fe) now u code True));
          bind = (\<lambda>ev ext. store_step fe (bind_refund (fe_bind_refund fe) now op ev ext)) in
     cbind (ask (list_refunds sc (ro_payment_intent op))) (\<lambda>provider_refunds.
       let matching = filter (\<lambda>rf. is_matching_refund rf op) provider_refunds in
       if length matching > 1 \<or> (matching \<noteq> [] \<and> length provider_refunds \<noteq> 1)
       then attention ''conflicting_existing_refunds''
       else if matching \<noteq> [] then
         on_invariant_error
           (cbind (answer (validate_refund_for_operation (hd matching) op True)) (\<lambda>_. bind (hd matching) False))
           (attention ''matching_refund_conflict'')
       else if provider_refunds \<noteq> [] then
         (if length provider_refunds \<noteq> 1 then attention ''conflicting_existing_refunds''
          else if has_reserved_refund_metadata (hd provider_refunds) op then attention ''conflicting_refund_metadata''
          else if rf_payment_intent (hd provider_refunds) = ro_payment_intent op
               \<and> rf_currency (hd provider_refunds) = ro_currency op
               \<and> rf_amount (hd provider_refunds) = ro_amount op \<and> rf_status (hd provider_refunds) = ''succeeded''
          then bind (hd provider_refunds) True
          else attention ''conflicting_existing_refund'')
       else
         on_invariant_error
           (cbind (act (create_refund sc op)) (\<lambda>ev.
            cbind (answer (validate_refund_for_operation ev op True)) (\<lambda>_. bind ev False)))
           (attention ''refund_provider_binding_mismatch'')))"

definition runtime_ensure_refund ::
  "fulfillment_env \<Rightarrow> sitescore_http \<Rightarrow> 'w stripe_client \<Rightarrow> settings \<Rightarrow> int \<Rightarrow> uuid \<Rightarrow> fulfillment_state
   \<Rightarrow> (fulfillment_db \<times> 'w, fulfillment_error, unit) call" where
  "runtime_ensure_refund fe http sc st now u f =
     cbind (reprove_eligibility fe http u f) (\<lambda>(reason, resource_type, resource_id, terminal_state).
     cbind (store_step fe (persist_refund_eligibility (fe_eligibility fe) now u reason resource_type resource_id
              terminal_state)) (\<lambda>_.
     cbind (store_step fe (load_refund_context (fe_context fe) u)) (\<lambda>(ord, checkout, _, _).
       case c_payment_intent checkout of
         None \<Rightarrow> store_step fe (fulfillment_attention (fe_attention fe) now u ''payment_intent_missing'' False)
       | Some pid \<Rightarrow>
           cbind (ask (retrieve_payment_intent sc pid)) (\<lambda>intent.
             if raised (validate_payment_intent intent ord checkout (s_expected_livemode st))
             then store_step fe (fulfillment_attention (fe_attention fe) now u ''payment_intent_binding_mismatch'' False)
             else
               cbind (store_step fe (prepare_refund_operation (fe_refund fe) now u intent)) (\<lambda>op.
               runtime_settle_refund fe sc now u op)))))"

definition runtime_step ::
  "fulfillment_env \<Rightarrow> sitescore_http \<Rightarrow> 'w stripe_client \<Rightarrow> (json \<Rightarrow> string) \<Rightarrow> (string \<Rightarrow> string) \<Rightarrow> settings
   \<Rightarrow> int \<Rightarrow> uuid \<Rightarrow> fulfillment_state \<Rightarrow> (fulfillment_db \<times> 'w, fulfillment_error, unit) call" where
  "runtime_step fe http sc canonical sha st now u f =
     (if f = F_Not_Started then ensure_analysis fe http canonical sha st now u
      else if f = F_Analysis_Pending then
        cbind (store_step fe (get_binding (fe_binding fe) u)) (\<lambda>binding.
          if (case binding of None \<Rightarrow> True | Some op \<Rightarrow> ao_analysis_id op = None)
          then ensure_analysis fe http canonical sha st now u
          else reconcile_analysis fe http now u)
      else if f = F_Analysis_Running then reconcile_analysis fe http now u
      else if f = F_Report_Pending then ensure_report fe http now u
      else if refund_reasons f \<noteq> None then runtime_ensure_refund fe http sc st now u f
      else answer (Inr ()))"

definition runtime_advance ::
  "fulfillment_env \<Rightarrow> sitescore_http \<Rightarrow> 'w stripe_client \<Rightarrow> (json \<Rightarrow> string) \<Rightarrow> (string \<Rightarrow> string) \<Rightarrow> settings
   \<Rightarrow> int \<Rightarrow> uuid \<Rightarrow> (fulfillment_db \<times> 'w, fulfillment_error, automation_status) call" where
  "runtime_advance fe http sc canonical sha st now u =
     cbind (store_step fe (get_status (fe_status fe) u)) (\<lambda>status.
       if as_order_state status \<in> {O_Refunded, O_Fulfilled, O_Expired, O_Attention} then answer (Inr status)
       else if as_payment_state status \<noteq> P_Paid \<and> refund_reasons (as_fulfillment_state status) = None
       then answer (Inr status)
       else
         cbind (runtime_step fe http sc canonical sha st now u (as_fulfillment_state status))
           (\<lambda>_. store_step fe (get_status (fe_final fe) u)))"

end
