(* ===== verification/CommerceDelivery.thy ===== *)
theory CommerceDelivery
  imports CommerceFulfillment
begin

text \<open>
  Delivery of a finished report (\<open>sitescore_commerce/delivery.py\<close>): download grants, delivery
  attempts through Postmark, and the download behind a capability token. The database is the
  fulfilment database with two more tables. HTTP answers, the random token, UUIDs and the parser
  of ISO timestamps are parameters; \<open>sha\<close> is the hex digest of SHA-256. Times are in
  microseconds.
\<close>

section \<open>Constants and errors\<close>

definition delivery_grant_ttl :: int where "delivery_grant_ttl = 7 * 24 * 60 * 60 * 1000000"
definition delivery_max_attempts :: int where "delivery_max_attempts = 3"

text \<open>\<open>TOKEN_DIGEST_RE.fullmatch\<close>\<close>

definition token_digest_ok :: "string \<Rightarrow> bool" where
  "token_digest_ok s = (length s = 64 \<and> list_all (\<lambda>c. (CHR ''0'' \<le> c \<and> c \<le> CHR ''9'') \<or> (CHR ''a'' \<le> c \<and> c \<le> CHR ''f'')) s)"

definition alnum :: "char \<Rightarrow> bool" where
  "alnum c = ((CHR ''A'' \<le> c \<and> c \<le> CHR ''Z'') \<or> (CHR ''a'' \<le> c \<and> c \<le> CHR ''z'') \<or> (CHR ''0'' \<le> c \<and> c \<le> CHR ''9''))"

text \<open>\<open>SAFE_FILENAME_RE.fullmatch\<close>\<close>

definition safe_filename_re :: "string \<Rightarrow> bool" where
  "safe_filename_re s = (5 \<le> length s \<and> length s \<le> 131 \<and> alnum (hd s)
     \<and> drop (length s - 4) s = ''.pdf''
     \<and> list_all (\<lambda>c. alnum c \<or> c \<in> {CHR ''.'', CHR ''_'', CHR '' '', CHR ''-''}) s)"

datatype delivery_error = Delivery_Invariant string
  | Delivery_Capability
  | Delivery_Upstream string bool
  | Delivery_Not_Found
  | Delivery_Persistence string

datatype postmark_error = Postmark_Rejected string bool | Postmark_Uncertain string

definition capability :: string where "capability = ''delivery capability is unavailable''"

section \<open>Rows\<close>

record delivery_context =
  dc_order_id :: uuid
  dc_customer_email :: string
  dc_order_state :: order_state
  dc_payment_state :: payment_state
  dc_fulfillment_state :: fulfillment_state
  dc_analysis_id :: uuid
  dc_analysis_state :: string
  dc_report_id :: uuid
  dc_report_state :: string
  dc_base_url :: string

record report_resource =
  rs_report_id :: uuid
  rs_analysis_id :: uuid
  rs_state :: string
  rs_content_sha :: string
  rs_mime_type :: string
  rs_filename :: string
  rs_byte_length :: int

record prepared_attempt =
  pa_attempt_id :: uuid
  pa_grant_id :: uuid
  pa_order_id :: uuid
  pa_report_id :: uuid
  pa_recipient :: string
  pa_template_alias :: string
  pa_number :: int
  pa_issued_at :: int
  pa_expires_at :: int

record postmark_acceptance =
  pm_message_id :: string
  pm_submitted_at :: int
  pm_recipient :: string

record download_payload =
  dp_content :: string
  dp_filename :: string
  dp_content_sha :: string

record grant_row =
  g_id :: uuid
  g_order_id :: uuid
  g_report_id :: uuid
  g_token_digest :: string
  g_issued_at :: int
  g_expires_at :: int
  g_revoked_at :: "int option"
  g_created_at :: int
  g_updated_at :: int

datatype attempt_status = At_Prepared | At_Dispatch_Started | At_Accepted | At_Rejected | At_Uncertain

record attempt_row =
  at_id :: uuid
  at_order_id :: uuid
  at_report_id :: uuid
  at_grant_id :: uuid
  at_provider :: string
  at_recipient :: string
  at_template_alias :: string
  at_number :: int
  at_started_at :: int
  at_message_id :: "string option"
  at_submitted_at :: "int option"
  at_status :: attempt_status
  at_failure :: "string option"
  at_created_at :: int
  at_updated_at :: int

record delivery_db =
  core :: fulfillment_db
  grants :: "grant_row list"
  attempts :: "attempt_row list"

definition delivery_order :: "uuid \<Rightarrow> delivery_db \<Rightarrow> order_row option" where
  "delivery_order u d = order_of u (core d)"

definition delivery_binding :: "uuid \<Rightarrow> delivery_db \<Rightarrow> binding_row option" where
  "delivery_binding u d = get_row b_order_id u (bindings (core d))"

definition set_order :: "order_row \<Rightarrow> delivery_db \<Rightarrow> delivery_db" where
  "set_order x d = d\<lparr>core := put_order x (core d)\<rparr>"

section \<open>The delivery store\<close>

definition text_of :: "string option \<Rightarrow> string" where
  "text_of s = (case s of None \<Rightarrow> [] | Some t \<Rightarrow> t)"

definition context_of :: "order_row \<Rightarrow> binding_row \<Rightarrow> (delivery_error, delivery_context) result" where
  "context_of ord binding = (case (b_analysis_id binding, b_report_id binding) of
     (Some aid, Some rid) \<Rightarrow> Inr \<lparr>dc_order_id = o_id ord, dc_customer_email = o_customer_email ord,
       dc_order_state = o_state ord, dc_payment_state = o_payment ord, dc_fulfillment_state = o_fulfillment ord,
       dc_analysis_id = aid, dc_analysis_state = text_of (b_analysis_state binding),
       dc_report_id = rid, dc_report_state = text_of (b_report_state binding), dc_base_url = b_base_url binding\<rparr>
   | _ \<Rightarrow> Inl (Delivery_Invariant ''delivery binding is incomplete''))"

definition validate_ready_context :: "order_row \<Rightarrow> binding_row \<Rightarrow> bool \<Rightarrow> (delivery_error, unit) result" where
  "validate_ready_context ord binding require_pending = (
     if o_payment ord \<noteq> P_Paid then Inl (Delivery_Invariant ''delivery requires paid payment authority'')
     else if b_analysis_id binding = None \<or> b_analysis_state binding \<noteq> Some ''completed''
     then Inl (Delivery_Invariant ''delivery requires exact completed bound analysis'')
     else if b_report_id binding = None \<or> b_report_state binding \<noteq> Some ''ready''
     then Inl (Delivery_Invariant ''delivery requires exact ready bound report'')
     else if require_pending then
       (if o_state ord \<noteq> O_In_Progress \<or> o_fulfillment ord \<noteq> F_Delivery_Pending
        then Inl (Delivery_Invariant ''order is not delivery pending'') else Inr ())
     else if o_fulfillment ord \<notin> {F_Delivery_Pending, F_Completed, F_Delivery_Failed}
     then Inl Delivery_Capability
     else Inr ())"

definition load_context :: "fault \<Rightarrow> uuid \<Rightarrow> (delivery_db, delivery_error, delivery_context) call" where
  "load_context ft u = reading ft (Delivery_Persistence ''delivery context is unavailable'') (\<lambda>d.
     case delivery_order u d of
       None \<Rightarrow> Inl Delivery_Not_Found
     | Some ord \<Rightarrow>
         (case delivery_binding u d of
            None \<Rightarrow> Inl (Delivery_Invariant ''fulfillment binding is unavailable'')
          | Some binding \<Rightarrow> rbind (validate_ready_context ord binding True) (\<lambda>_. context_of ord binding)))"

definition fulfilled :: "int \<Rightarrow> order_row \<Rightarrow> order_row" where
  "fulfilled now ord = ord\<lparr>o_state := O_Fulfilled, o_payment := P_Paid, o_fulfillment := F_Completed, o_updated_at := now\<rparr>"

text \<open>\<open>ORDER BY attempt_number LIMIT 1\<close> of the accepted attempts of an order.\<close>

definition first_accepted :: "uuid \<Rightarrow> attempt_row list \<Rightarrow> attempt_row option" where
  "first_accepted u rows =
     (case sort_key at_number (filter (\<lambda>a. at_order_id a = u \<and> at_status a = At_Accepted) rows) of
        [] \<Rightarrow> None | a # _ \<Rightarrow> Some a)"

definition converge_known_acceptance :: "fault \<Rightarrow> int \<Rightarrow> uuid \<Rightarrow> (delivery_db, delivery_error, bool) call" where
  "converge_known_acceptance ft now u =
     transaction ft (Delivery_Persistence ''accepted delivery convergence is unavailable'') (\<lambda>d.
       case delivery_order u d of
         None \<Rightarrow> (Inl Delivery_Not_Found, d)
       | Some ord \<Rightarrow>
           (case first_accepted u (attempts d) of
              None \<Rightarrow> (Inr False, d)
            | Some a \<Rightarrow>
                (case (get_row g_id (at_grant_id a) (grants d), delivery_binding u d) of
                   (Some grant, Some binding) \<Rightarrow>
                     (if at_message_id a = None \<or> at_submitted_at a = None
                      then (Inl (Delivery_Invariant ''accepted provider evidence is incomplete''), d)
                      else if g_order_id grant \<noteq> u \<or> g_report_id grant \<noteq> at_report_id a
                      then (Inl (Delivery_Invariant ''accepted delivery grant binding mismatch''), d)
                      else if g_revoked_at grant \<noteq> None \<or> g_expires_at grant \<le> now
                      then (Inl (Delivery_Invariant ''accepted delivery grant is not valid''), d)
                      else case validate_ready_context ord binding False of
                        Inl e \<Rightarrow> (Inl e, d)
                      | Inr _ \<Rightarrow>
                          if b_report_id binding \<noteq> Some (at_report_id a)
                          then (Inl (Delivery_Invariant ''accepted attempt report binding mismatch''), d)
                          else (Inr True, set_order (fulfilled now ord) d))
                 | _ \<Rightarrow> (Inl (Delivery_Invariant ''accepted delivery evidence is incomplete''), d))))"

definition last_number :: "uuid \<Rightarrow> attempt_row list \<Rightarrow> int" where
  "last_number u rows = foldr (\<lambda>a n. if at_order_id a = u then max (at_number a) n else n) rows 0"

definition new_grant :: "int \<Rightarrow> uuid \<Rightarrow> uuid \<Rightarrow> uuid \<Rightarrow> string \<Rightarrow> grant_row" where
  "new_grant now gid u rid digest = \<lparr>g_id = gid, g_order_id = u, g_report_id = rid, g_token_digest = digest,
     g_issued_at = now, g_expires_at = now + delivery_grant_ttl, g_revoked_at = None, g_created_at = now,
     g_updated_at = now\<rparr>"

definition new_attempt :: "int \<Rightarrow> uuid \<Rightarrow> uuid \<Rightarrow> order_row \<Rightarrow> uuid \<Rightarrow> string \<Rightarrow> int \<Rightarrow> attempt_row" where
  "new_attempt now aid gid ord rid alias n = \<lparr>at_id = aid, at_order_id = o_id ord, at_report_id = rid, at_grant_id = gid,
     at_provider = ''postmark'', at_recipient = o_customer_email ord, at_template_alias = alias, at_number = n,
     at_started_at = now, at_message_id = None, at_submitted_at = None, at_status = At_Prepared,
     at_failure = None, at_created_at = now, at_updated_at = now\<rparr>"

text \<open>The branch of an exhausted order also writes the order, but raises inside the transaction:
  the write is in the state that the raising body leaves behind.\<close>

definition prepare_attempt ::
  "fault \<Rightarrow> int \<Rightarrow> uuid \<Rightarrow> uuid \<Rightarrow> uuid \<Rightarrow> report_resource \<Rightarrow> string \<Rightarrow> string
   \<Rightarrow> (delivery_db, delivery_error, prepared_attempt) call" where
  "prepare_attempt ft now gid aid u ev digest alias d = (
     if \<not> token_digest_ok digest then (Inl (Delivery_Invariant ''delivery token digest is invalid''), d)
     else transaction ft (Delivery_Persistence ''delivery attempt could not be prepared'') (\<lambda>d.
       case delivery_order u d of
         None \<Rightarrow> (Inl Delivery_Not_Found, d)
       | Some ord \<Rightarrow>
           (case delivery_binding u d of
              None \<Rightarrow> (Inl (Delivery_Invariant ''fulfillment binding is unavailable''), d)
            | Some binding \<Rightarrow>
                (case validate_ready_context ord binding True of
                   Inl e \<Rightarrow> (Inl e, d)
                 | Inr _ \<Rightarrow>
                     if Some (rs_report_id ev) \<noteq> b_report_id binding \<or> Some (rs_analysis_id ev) \<noteq> b_analysis_id binding
                        \<or> rs_state ev \<noteq> ''ready''
                     then (Inl (Delivery_Invariant ''fresh report evidence does not match durable binding''), d)
                     else if list_ex (\<lambda>a. at_order_id a = u \<and> at_status a = At_Accepted) (attempts d)
                     then (Inl (Delivery_Invariant ''provider acceptance already exists''), d)
                     else if last_number u (attempts d) + 1 > delivery_max_attempts
                     then (Inl (Delivery_Invariant ''delivery retry limit is exhausted''),
                           set_order (ord\<lparr>o_state := O_Attention, o_fulfillment := F_Delivery_Failed, o_updated_at := now\<rparr>) d)
                     else if get_row g_id gid (grants d) \<noteq> None \<or> get_row g_token_digest digest (grants d) \<noteq> None
                          \<or> get_row at_id aid (attempts d) \<noteq> None
                     then (Inl (Delivery_Invariant ''delivery attempt identity conflict''), d)
                     else
                       (Inr \<lparr>pa_attempt_id = aid, pa_grant_id = gid, pa_order_id = u, pa_report_id = rs_report_id ev,
                          pa_recipient = o_customer_email ord, pa_template_alias = alias,
                          pa_number = last_number u (attempts d) + 1, pa_issued_at = now,
                          pa_expires_at = now + delivery_grant_ttl\<rparr>,
                        d\<lparr>grants := add_row (new_grant now gid u (rs_report_id ev) digest) (grants d),
                          attempts := add_row (new_attempt now aid gid ord (rs_report_id ev) alias
                            (last_number u (attempts d) + 1)) (attempts d)\<rparr>)))) d)"

definition mark_dispatch_started :: "fault \<Rightarrow> int \<Rightarrow> uuid \<Rightarrow> (delivery_db, delivery_error, unit) call" where
  "mark_dispatch_started ft now aid =
     transaction ft (Delivery_Persistence ''delivery dispatch state could not be persisted'') (\<lambda>d.
       case get_row at_id aid (attempts d) of
         None \<Rightarrow> (Inl (Delivery_Invariant ''delivery attempt is unavailable''), d)
       | Some a \<Rightarrow>
           if at_status a = At_Prepared
           then (Inr (), d\<lparr>attempts := put_row at_id (a\<lparr>at_status := At_Dispatch_Started, at_updated_at := now\<rparr>) (attempts d)\<rparr>)
           else if at_status a \<noteq> At_Dispatch_Started
           then (Inl (Delivery_Invariant ''delivery attempt cannot be dispatched''), d)
           else (Inr (), d))"

definition record_accepted :: "fault \<Rightarrow> int \<Rightarrow> uuid \<Rightarrow> postmark_acceptance \<Rightarrow> (delivery_db, delivery_error, unit) call" where
  "record_accepted ft now aid ev =
     transaction ft (Delivery_Persistence ''provider acceptance could not be persisted'') (\<lambda>d.
       case get_row at_id aid (attempts d) of
         None \<Rightarrow> (Inl (Delivery_Invariant ''delivery attempt is unavailable''), d)
       | Some a \<Rightarrow>
           (case (delivery_order (at_order_id a) d, get_row g_id (at_grant_id a) (grants d),
                  delivery_binding (at_order_id a) d) of
              (Some ord, Some grant, Some binding) \<Rightarrow>
                (if at_status a = At_Accepted then
                   (if at_message_id a \<noteq> Some (pm_message_id ev)
                    then (Inl (Delivery_Invariant ''provider MessageID rebinding conflict''), d)
                    else (Inr (), d))
                 else if at_status a \<notin> {At_Prepared, At_Dispatch_Started}
                 then (Inl (Delivery_Invariant ''delivery attempt cannot accept provider evidence''), d)
                 else if pm_recipient ev \<noteq> at_recipient a
                 then (Inl (Delivery_Invariant ''provider recipient evidence mismatch''), d)
                 else if g_order_id grant \<noteq> at_order_id a \<or> g_report_id grant \<noteq> at_report_id a
                 then (Inl (Delivery_Invariant ''delivery grant binding mismatch''), d)
                 else if g_revoked_at grant \<noteq> None \<or> g_expires_at grant \<le> now
                 then (Inl (Delivery_Invariant ''accepted attempt grant is not valid''), d)
                 else case validate_ready_context ord binding True of
                   Inl e \<Rightarrow> (Inl e, d)
                 | Inr _ \<Rightarrow>
                     if b_report_id binding \<noteq> Some (at_report_id a)
                     then (Inl (Delivery_Invariant ''accepted attempt report binding mismatch''), d)
                     else if list_ex (\<lambda>b. at_id b \<noteq> aid \<and> at_message_id b = Some (pm_message_id ev)) (attempts d)
                     then (Inl (Delivery_Invariant ''provider MessageID is already bound to another attempt''), d)
                     else (Inr (), set_order (fulfilled now ord) (d\<lparr>attempts := put_row at_id
                       (a\<lparr>at_message_id := Some (pm_message_id ev), at_submitted_at := Some (pm_submitted_at ev),
                          at_status := At_Accepted, at_failure := None, at_updated_at := now\<rparr>) (attempts d)\<rparr>)))
            | _ \<Rightarrow> (Inl (Delivery_Persistence ''provider acceptance could not be persisted''), d)))"

definition safe_code :: "string \<Rightarrow> string" where
  "safe_code code = (let s = take 80 (map (\<lambda>c. if alnum c \<or> c \<in> {CHR ''_'', CHR ''.'', CHR ''-''} then c else CHR ''_'') code)
     in if s = [] then ''delivery_failure'' else s)"

definition record_failure ::
  "fault \<Rightarrow> int \<Rightarrow> uuid \<Rightarrow> attempt_status \<Rightarrow> string \<Rightarrow> bool \<Rightarrow> (delivery_db, delivery_error, unit) call" where
  "record_failure ft now aid status code retryable d = (
     if status \<notin> {At_Rejected, At_Uncertain} then (Inl (Delivery_Invariant ''unsupported delivery failure state''), d)
     else transaction ft (Delivery_Persistence ''delivery failure evidence could not be persisted'') (\<lambda>d.
       case get_row at_id aid (attempts d) of
         None \<Rightarrow> (Inl (Delivery_Invariant ''delivery attempt is unavailable''), d)
       | Some a \<Rightarrow>
           if at_status a = At_Accepted then (Inr (), d)
           else case delivery_order (at_order_id a) d of
             None \<Rightarrow> (Inl (Delivery_Persistence ''delivery failure evidence could not be persisted''), d)
           | Some ord \<Rightarrow>
               (let d1 = d\<lparr>attempts := put_row at_id (a\<lparr>at_status := status, at_failure := Some (safe_code code),
                      at_updated_at := now\<rparr>) (attempts d)\<rparr> in
                (Inr (), if \<not> retryable \<or> delivery_max_attempts \<le> at_number a
                   then set_order (ord\<lparr>o_state := O_Attention, o_payment := P_Paid, o_fulfillment := F_Delivery_Failed,
                          o_updated_at := now\<rparr>) d1
                   else d1))) d)"

definition record_rejected :: "fault \<Rightarrow> int \<Rightarrow> uuid \<Rightarrow> string \<Rightarrow> bool \<Rightarrow> (delivery_db, delivery_error, unit) call" where
  "record_rejected ft now aid code retryable = record_failure ft now aid At_Rejected code retryable"

definition record_uncertain :: "fault \<Rightarrow> int \<Rightarrow> uuid \<Rightarrow> string \<Rightarrow> (delivery_db, delivery_error, unit) call" where
  "record_uncertain ft now aid code = record_failure ft now aid At_Uncertain code True"

definition resolve_grant :: "fault \<Rightarrow> string \<Rightarrow> int \<Rightarrow> (delivery_db, delivery_error, delivery_context) call" where
  "resolve_grant ft digest now d = (
     if \<not> token_digest_ok digest then (Inl Delivery_Capability, d)
     else reading ft (Delivery_Persistence ''delivery capability lookup is unavailable'') (\<lambda>d.
       case get_row g_token_digest digest (grants d) of
         None \<Rightarrow> Inl Delivery_Capability
       | Some grant \<Rightarrow>
           if g_revoked_at grant \<noteq> None \<or> g_expires_at grant \<le> now then Inl Delivery_Capability
           else case (delivery_order (g_order_id grant) d, delivery_binding (g_order_id grant) d) of
             (Some ord, Some binding) \<Rightarrow>
               (if raised (validate_ready_context ord binding False) then Inl Delivery_Capability
                else if b_report_id binding \<noteq> Some (g_report_id grant) then Inl Delivery_Capability
                else context_of ord binding)
           | _ \<Rightarrow> Inl Delivery_Capability) d)"

section \<open>The SiteScore gateway of the delivery\<close>

text \<open>\<open>str.lower\<close> on ASCII letters.\<close>

definition lower_char :: "char \<Rightarrow> char" where
  "lower_char c = (if CHR ''A'' \<le> c \<and> c \<le> CHR ''Z'' then char_of (of_char c + 32 :: nat) else c)"

definition lower :: "string \<Rightarrow> string" where
  "lower s = map lower_char s"

definition upstream :: "string \<Rightarrow> bool \<Rightarrow> (delivery_error, 'a) result" where
  "upstream code retryable = Inl (Delivery_Upstream code retryable)"

definition delivery_uuid :: "json \<Rightarrow> string \<Rightarrow> (delivery_error, uuid) result" where
  "delivery_uuid v code = (case json_uuid v of None \<Rightarrow> upstream code False | Some u \<Rightarrow> Inr u)"

text \<open>\<open>PurePath(value).name != value\<close> holds of the names that are empty, a single point, or contain
  a slash; all of these also fail the regular expression.\<close>

definition safe_filename :: "json \<Rightarrow> (delivery_error, string) result" where
  "safe_filename v = (case v of
     JStr s \<Rightarrow>
       (if 128 < length s then upstream ''sitescore_report_filename_invalid'' False
        else if s = [] \<or> s = ''.'' \<or> CHR ''/'' \<in> set s \<or> CHR 0x5C \<in> set s \<or> \<not> safe_filename_re s
        then upstream ''sitescore_report_filename_invalid'' False
        else Inr s)
   | _ \<Rightarrow> upstream ''sitescore_report_filename_invalid'' False)"

definition raise_http :: "int \<Rightarrow> (delivery_error, 'a) result" where
  "raise_http status = (
     if status \<in> {429, 500, 502, 503, 504} then upstream ''sitescore_retryable_http_error'' True
     else if status \<in> {401, 403} then upstream ''sitescore_auth_error'' False
     else if status = 404 then upstream ''sitescore_report_not_found'' False
     else if status = 409 then upstream ''sitescore_report_conflict'' False
     else upstream ''sitescore_http_error'' False)"

text \<open>\<open>str(data.get(key) or "")\<close>: the false values of JSON become the empty string.\<close>

definition text_or_blank :: "json \<Rightarrow> string" where
  "text_or_blank v = (if v \<in> {JNull, JBool False, JInt 0} then [] else json_text v)"

definition report_of_json :: "json \<Rightarrow> uuid \<Rightarrow> uuid \<Rightarrow> (delivery_error, report_resource) result" where
  "report_of_json data rid aid =
     rbind (delivery_uuid (json_get ''report_id'' data) ''sitescore_report_id_invalid'') (\<lambda>orid.
     rbind (delivery_uuid (json_get ''analysis_id'' data) ''sitescore_report_analysis_id_invalid'') (\<lambda>oaid.
       if orid \<noteq> rid \<or> oaid \<noteq> aid then upstream ''sitescore_report_binding_mismatch'' False
       else if json_get ''state'' data \<noteq> JStr ''ready'' then upstream ''sitescore_report_not_ready'' False
       else if \<not> token_digest_ok (text_or_blank (json_get ''content_sha256'' data))
       then upstream ''sitescore_report_hash_invalid'' False
       else if lower (text_or_blank (json_get ''mime_type'' data)) \<noteq> ''application/pdf''
       then upstream ''sitescore_report_mime_invalid'' False
       else rbind (safe_filename (json_get ''filename'' data)) (\<lambda>name.
         case json_get ''byte_length'' data of
           JInt n \<Rightarrow>
             (if n \<le> 0 then upstream ''sitescore_report_length_invalid'' False
              else Inr \<lparr>rs_report_id = orid, rs_analysis_id = oaid, rs_state = ''ready'',
                rs_content_sha = text_or_blank (json_get ''content_sha256'' data),
                rs_mime_type = ''application/pdf'', rs_filename = name, rs_byte_length = n\<rparr>)
         | _ \<Rightarrow> upstream ''sitescore_report_length_invalid'' False)))"

definition get_report_resource :: "sitescore_http \<Rightarrow> string \<Rightarrow> uuid \<Rightarrow> uuid \<Rightarrow> (delivery_error, report_resource) result" where
  "get_report_resource http url rid aid =
     (case http \<lparr>hr_method = ''GET'', hr_base_url = url, hr_path = ''/v1/reports/'' @ uuid_str rid,
             hr_body = None, hr_key = None\<rparr> of
        Network_Error \<Rightarrow> upstream ''sitescore_network_error'' True
      | Http_Response status body \<Rightarrow>
          if status \<noteq> 200 then raise_http status
          else case body of
            None \<Rightarrow> upstream ''sitescore_malformed_report'' False
          | Some data \<Rightarrow>
              (if is_object data then report_of_json data rid aid
               else upstream ''sitescore_malformed_report'' False))"

text \<open>The answer with the content: status, \<open>response.headers.get\<close> and the bytes of the body.\<close>

datatype content_outcome = No_Response | Content_Response int "string \<Rightarrow> string option" string

text \<open>\<open>int(text)\<close>: surrounding white space, a sign, digits with single underscores.\<close>

fun dec_digits :: "bool \<Rightarrow> nat \<Rightarrow> string \<Rightarrow> nat option" where
  "dec_digits after_digit acc [] = (if after_digit then Some acc else None)"
| "dec_digits after_digit acc (c # cs) =
     (if c = CHR ''_'' then (if after_digit \<and> cs \<noteq> [] then dec_digits False acc cs else None)
      else if CHR ''0'' \<le> c \<and> c \<le> CHR ''9'' then dec_digits True (acc * 10 + (of_char c - 48)) cs
      else None)"

definition int_base10 :: "string \<Rightarrow> int option" where
  "int_base10 s = (
     let t = strip s in
     if starts_with ''-'' t then map_option (\<lambda>n. - int n) (dec_digits False 0 (tl t))
     else map_option int (dec_digits False 0 (if starts_with ''+'' t then tl t else t)))"

definition content_of_response ::
  "(string \<Rightarrow> string) \<Rightarrow> report_resource \<Rightarrow> (string \<Rightarrow> string option) \<Rightarrow> string \<Rightarrow> (delivery_error, download_payload) result" where
  "content_of_response sha ev header content = (
     if lower (strip (takeWhile (\<lambda>c. c \<noteq> CHR '';'') (text_of (header ''Content-Type'')))) \<noteq> ''application/pdf''
     then upstream ''sitescore_content_mime_mismatch'' False
     else if lower (strip (text_of (header ''Content-SHA256''))) \<noteq> rs_content_sha ev
     then upstream ''sitescore_content_hash_header_mismatch'' False
     else if int (length content) \<noteq> rs_byte_length ev
     then upstream ''sitescore_content_length_mismatch'' False
     else case map_option int_base10 (header ''Content-Length'') of
       Some None \<Rightarrow> upstream ''sitescore_content_length_header_invalid'' False
     | lh \<Rightarrow>
         if lh \<noteq> None \<and> lh \<noteq> Some (Some (rs_byte_length ev))
         then upstream ''sitescore_content_length_header_mismatch'' False
         else if sha content \<noteq> rs_content_sha ev
         then upstream ''sitescore_content_hash_mismatch'' False
         else if \<not> starts_with ''%PDF-'' content
         then upstream ''sitescore_content_pdf_invalid'' False
         else Inr \<lparr>dp_content = content, dp_filename = rs_filename ev, dp_content_sha = sha content\<rparr>)"

definition get_content ::
  "(string \<Rightarrow> uuid \<Rightarrow> content_outcome) \<Rightarrow> (string \<Rightarrow> string) \<Rightarrow> string \<Rightarrow> report_resource
   \<Rightarrow> (delivery_error, download_payload) result" where
  "get_content fetch sha url ev = (case fetch url (rs_report_id ev) of
     No_Response \<Rightarrow> upstream ''sitescore_content_network_error'' True
   | Content_Response status header content \<Rightarrow>
       if status \<noteq> 200 then raise_http status else content_of_response sha ev header content)"

section \<open>The Postmark gateway\<close>

record email =
  em_from :: string
  em_to :: string
  em_template_alias :: string
  em_order_reference :: uuid
  em_report_reference :: uuid
  em_download_url :: string
  em_expires_at :: int

text \<open>\<open>datetime.fromisoformat\<close>: none for an invalid text, else the local time and its UTC offset,
  if it has one.\<close>

type_synonym iso_parser = "string \<Rightarrow> (int \<times> int option) option"

definition parse_provider_timestamp :: "iso_parser \<Rightarrow> json \<Rightarrow> (postmark_error, int) result" where
  "parse_provider_timestamp from_iso v = (case v of
     JStr s \<Rightarrow>
       (if strip s = [] then Inl (Postmark_Uncertain ''postmark_submitted_at_invalid'')
        else case from_iso (concat (map (\<lambda>c. if c = CHR ''Z'' then ''+00:00'' else [c]) (strip s))) of
          Some (t, Some offset) \<Rightarrow> Inr (t - offset)
        | _ \<Rightarrow> Inl (Postmark_Uncertain ''postmark_submitted_at_invalid''))
   | _ \<Rightarrow> Inl (Postmark_Uncertain ''postmark_submitted_at_invalid''))"

text \<open>The errors cut their code to 80 characters.\<close>

definition postmark_rejected :: "string \<Rightarrow> bool \<Rightarrow> (postmark_error, 'a) result" where
  "postmark_rejected code retryable = Inl (Postmark_Rejected (take 80 code) retryable)"

definition postmark_acceptance_of :: "iso_parser \<Rightarrow> string \<Rightarrow> json \<Rightarrow> (postmark_error, postmark_acceptance) result" where
  "postmark_acceptance_of from_iso recipient data = (case json_get ''ErrorCode'' data of
     JInt n \<Rightarrow>
       (if n \<noteq> 0 then postmark_rejected (''postmark_error_'' @ int_dec n) False
        else case json_get ''MessageID'' data of
          JStr s \<Rightarrow>
            (if strip s = [] then Inl (Postmark_Uncertain ''postmark_message_id_missing'')
             else if parse_uuid (strip s) = None then Inl (Postmark_Uncertain ''postmark_message_id_invalid'')
             else if json_get ''To'' data \<noteq> JStr recipient then Inl (Postmark_Uncertain ''postmark_recipient_mismatch'')
             else rbind (parse_provider_timestamp from_iso (json_get ''SubmittedAt'' data)) (\<lambda>t.
               Inr \<lparr>pm_message_id = strip s, pm_submitted_at = t, pm_recipient = recipient\<rparr>))
        | _ \<Rightarrow> Inl (Postmark_Uncertain ''postmark_message_id_missing''))
   | _ \<Rightarrow> Inl (Postmark_Uncertain ''postmark_error_code_invalid''))"

text \<open>The mail provider may act on a message whatever it answers: \<open>post\<close> changes the world \<open>'w\<close>.\<close>

definition postmark_send ::
  "(email \<Rightarrow> 'w \<Rightarrow> http_outcome \<times> 'w) \<Rightarrow> iso_parser \<Rightarrow> email \<Rightarrow> 'w \<Rightarrow> (postmark_error, postmark_acceptance) result \<times> 'w" where
  "postmark_send post from_iso em w = (case post em w of (outcome, w') \<Rightarrow>
     ((case outcome of
         Network_Error \<Rightarrow> Inl (Postmark_Uncertain ''postmark_transport_uncertain'')
       | Http_Response status body \<Rightarrow>
           if status \<noteq> 200
           then postmark_rejected (''postmark_http_'' @ int_dec status) (status = 429 \<or> 500 \<le> status)
           else case body of
             None \<Rightarrow> Inl (Postmark_Uncertain ''postmark_malformed_response'')
           | Some data \<Rightarrow>
               (if is_object data then postmark_acceptance_of from_iso (em_to em) data
                else Inl (Postmark_Uncertain ''postmark_malformed_response''))), w'))"

section \<open>The delivery service\<close>

text \<open>
  The state of a run is the database and the world outside. Every transaction meets a fault of
  its own, a clock of its own, and \<open>de_other\<close> is what other transactions commit before it.
\<close>

record delivery_env =
  de_converge :: fault
  de_load :: fault
  de_prepare :: fault
  de_mark :: fault
  de_record :: fault
  de_now_converge :: int
  de_now_prepare :: int
  de_now_mark :: int
  de_now_record :: int
  de_other :: "delivery_db \<Rightarrow> delivery_db"

definition delivery_tx ::
  "delivery_env \<Rightarrow> (delivery_db, delivery_error, 'a) call \<Rightarrow> (delivery_db \<times> 'w, delivery_error, 'a) call" where
  "delivery_tx de m s = (case m (de_other de (fst s)) of (r, db) \<Rightarrow> (r, (db, snd s)))"

definition delivery_pure :: "(delivery_error, 'a) result \<Rightarrow> (delivery_db \<times> 'w, delivery_error, 'a) call" where
  "delivery_pure r s = (r, s)"

text \<open>The settings the service reads.\<close>

record delivery_settings =
  ds_template_alias :: string
  ds_from_email :: string
  ds_public_base_url :: string

definition delivery_email :: "delivery_settings \<Rightarrow> string \<Rightarrow> prepared_attempt \<Rightarrow> email" where
  "delivery_email st token p = \<lparr>em_from = ds_from_email st, em_to = pa_recipient p, em_template_alias = ds_template_alias st,
     em_order_reference = pa_order_id p, em_report_reference = pa_report_id p,
     em_download_url = ds_public_base_url st @ ''/d/'' @ token, em_expires_at = pa_expires_at p\<rparr>"

text \<open>\<open>postmark.send\<close> and the three ways its result is recorded.\<close>

definition send_and_record ::
  "delivery_env \<Rightarrow> (email \<Rightarrow> 'w \<Rightarrow> http_outcome \<times> 'w) \<Rightarrow> iso_parser \<Rightarrow> email \<Rightarrow> prepared_attempt
   \<Rightarrow> (delivery_db \<times> 'w, delivery_error, unit) call" where
  "send_and_record de post from_iso em p s = (case postmark_send post from_iso em (snd s) of (r, w) \<Rightarrow>
     (case r of
        Inl (Postmark_Uncertain code) \<Rightarrow>
          delivery_tx de (record_uncertain (de_record de) (de_now_record de) (pa_attempt_id p) code)
      | Inl (Postmark_Rejected code retryable) \<Rightarrow>
          delivery_tx de (record_rejected (de_record de) (de_now_record de) (pa_attempt_id p) code retryable)
      | Inr acceptance \<Rightarrow>
          delivery_tx de (record_accepted (de_record de) (de_now_record de) (pa_attempt_id p) acceptance))
     (fst s, w))"

definition deliver ::
  "delivery_env \<Rightarrow> sitescore_http \<Rightarrow> (email \<Rightarrow> 'w \<Rightarrow> http_outcome \<times> 'w) \<Rightarrow> iso_parser \<Rightarrow> (string \<Rightarrow> string)
   \<Rightarrow> delivery_settings \<Rightarrow> uuid \<Rightarrow> uuid \<Rightarrow> string \<Rightarrow> uuid \<Rightarrow> (delivery_db \<times> 'w, delivery_error, unit) call" where
  "deliver de http post from_iso sha st gid aid token u =
     cbind (delivery_tx de (converge_known_acceptance (de_converge de) (de_now_converge de) u)) (\<lambda>known.
       if known then delivery_pure (Inr ())
       else
     cbind (delivery_tx de (load_context (de_load de) u)) (\<lambda>ctx.
     cbind (delivery_pure (get_report_resource http (dc_base_url ctx) (dc_report_id ctx) (dc_analysis_id ctx))) (\<lambda>report.
     cbind (delivery_tx de (prepare_attempt (de_prepare de) (de_now_prepare de) gid aid u report (sha token)
              (ds_template_alias st))) (\<lambda>p.
     cbind (delivery_tx de (mark_dispatch_started (de_mark de) (de_now_mark de) (pa_attempt_id p))) (\<lambda>_.
       send_and_record de post from_iso (delivery_email st token p) p)))))"

text \<open>Outside ASCII, \<open>raw_token.encode("ascii")\<close> raises.\<close>

definition download ::
  "fault \<Rightarrow> sitescore_http \<Rightarrow> (string \<Rightarrow> uuid \<Rightarrow> content_outcome) \<Rightarrow> (string \<Rightarrow> string) \<Rightarrow> int \<Rightarrow> string
   \<Rightarrow> (delivery_db, delivery_error, download_payload) call" where
  "download ft http fetch sha now token d = (
     if length token < 40 \<or> 128 < length token \<or> list_ex (\<lambda>c. 128 \<le> (of_char c :: nat)) token
     then (Inl Delivery_Capability, d)
     else cbind (resolve_grant ft (sha token) now) (\<lambda>ctx d.
       (rbind (get_report_resource http (dc_base_url ctx) (dc_report_id ctx) (dc_analysis_id ctx)) (\<lambda>report.
          get_content fetch sha (dc_base_url ctx) report), d)) d)"

end
