(* ===== verification/FulfillmentProofs.thy ===== *)
theory FulfillmentProofs
  imports CommerceFulfillment
begin

text \<open>
  What fulfilment guarantees: the invariant of the fulfilment tables and the write-once identities
  under every interleaving of store steps, the refinement of these steps by the production driver,
  the single creation of a refund, the closed crash windows, and concrete runs.
\<close>

section \<open>Steps of the commerce store, and what they leave alone\<close>

text \<open>One transaction of the commerce store; the transactions that slip into an order creation are
  steps themselves.\<close>

inductive commerce_step :: "commerce_db \<Rightarrow> commerce_db \<Rightarrow> bool" where
  create: "commerce_step\<^sup>*\<^sup>* d (race d) \<Longrightarrow>
    commerce_step d (snd (get_or_create_order ft ft2 race ch now u key rq cat price q opv su cu d))"
| bind: "commerce_step d (snd (bind_checkout ft now u sid url ex d))"
| record_event: "commerce_step d (snd (record_stripe_event ft now ev sha d))"
| finish: "commerce_step d (snd (finish_event ft now eid st code d))"
| webhook: "commerce_step d (snd (apply_reconciliation ft now xid eid u pe target d))"
| poll: "commerce_step d (snd (apply_poll_reconciliation ft now xid rid u pe target sha obs d))"
| dispatch: "commerce_step d (snd (dispatch_once ft ft2 post now d))"

text \<open>What a commerce step keeps: every order that left \<open>pending\<close>, and no order becomes refunded
  or completed.\<close>

definition order_frame :: "commerce_db \<Rightarrow> commerce_db \<Rightarrow> bool" where
  "order_frame d d' = (\<forall>v x. (get_row o_id v (orders d) = Some x \<and> o_payment x \<noteq> P_Pending
        \<longrightarrow> get_row o_id v (orders d') = Some x)
     \<and> (get_row o_id v (orders d') = Some x \<and> o_payment x = P_Refunded \<longrightarrow> get_row o_id v (orders d) = Some x)
     \<and> (get_row o_id v (orders d') = Some x \<and> o_fulfillment x = F_Completed
        \<longrightarrow> (\<exists>y. get_row o_id v (orders d) = Some y \<and> o_fulfillment y = F_Completed)))"

lemma order_frame_refl: "orders d' = orders d \<Longrightarrow> order_frame d d'"
  by (simp add: order_frame_def)

lemma order_frame_trans: "order_frame d d' \<Longrightarrow> order_frame d' d'' \<Longrightarrow> order_frame d d''"
  unfolding order_frame_def by (metis payment_state.distinct(9))

lemma apply_locked_frame:
  assumes inv: "commerce_inv d" and rows: "locked_rows u d = Some (ord, chk)"
    and run: "apply_payment_transition_locked now xid ord chk ev target eid d = (Inr (t, f), d')"
  shows "order_frame d d'"
  using inv rows run
proof (cases rule: apply_locked_cases)
  case (paid x)
  with locked_rowsD [OF rows] show ?thesis by (auto simp: order_frame_def put_row_lookup)
next
  case expired
  with locked_rowsD [OF rows] show ?thesis by (auto simp: order_frame_def put_row_lookup)
qed (simp_all add: order_frame_refl)

lemma order_frame_orders: "orders d1 = orders d2 \<Longrightarrow> order_frame d d1 = order_frame d d2"
  by (simp add: order_frame_def)

lemma insert_order_orders:
  "insert_order now u key rq h cat price q opv su cu d = Some d' \<Longrightarrow> \<exists>x. orders d' = add_row x (orders d)
    \<and> o_id x = u \<and> o_payment x = P_Pending \<and> o_fulfillment x \<noteq> F_Completed \<and> get_row o_id u (orders d) = None"
  by (auto simp: insert_order_def split: if_splits)

lemma commerce_step_frame:
  assumes "commerce_step d d'" and "commerce_inv d"
  shows "commerce_inv d' \<and> order_frame d d'"
  using assms
proof (induction rule: commerce_step.induct)
  case (create d race ft ft2 ch now u key rq cat price q opv su cu)
  have race: "commerce_inv (race d) \<and> order_frame d (race d)"
    using create.IH create.prems
    by (induction rule: rtranclp_induct) (auto simp: order_frame_refl intro: order_frame_trans)
  let ?d' = "snd (get_or_create_order ft ft2 race ch now u key rq cat price q opv su cu d)"
  have "order_frame (race d) ?d'"
  proof (cases "?d' = race d")
    case False
    then obtain d2 where d2: "insert_order now u key rq (ch rq) cat price q opv su cu (race d) = Some d2" "?d' = d2"
      by (auto simp: get_or_create_order_def Let_def split: option.splits if_splits)
    from insert_order_orders [OF d2(1)]
    show ?thesis unfolding d2(2) by (auto simp: order_frame_def add_row_lookup split: if_splits)
  qed (simp add: order_frame_refl)
  with race show ?case by (auto intro: get_or_create_order_inv order_frame_trans)
next
  case (bind d ft now u sid url ex)
  have "orders (snd (bind_checkout ft now u sid url ex d)) = orders d"
    unfolding bind_checkout_def
    by (rule transaction_inv [where P = "\<lambda>s. orders s = orders d"]) (auto simp: Let_def split: option.splits if_splits)
  with bind show ?case by (simp add: bind_checkout_inv order_frame_refl)
next
  case (webhook d ft now xid eid u pe target)
  have "order_frame d (snd (apply_reconciliation ft now xid eid u pe target d))"
    unfolding apply_reconciliation_def
    by (rule transaction_inv [where P = "order_frame d"])
       (auto simp: order_frame_refl order_frame_orders [of "inbox_update _ _"]
          split: option.splits if_splits prod.splits sum.splits dest!: apply_locked_frame [OF webhook])
  with webhook show ?case by (simp add: apply_reconciliation_inv)
next
  case (poll d ft now xid rid u pe target sha obs)
  have "order_frame d (snd (apply_poll_reconciliation ft now xid rid u pe target sha obs d))"
    unfolding apply_poll_reconciliation_def
    by (rule transaction_inv [where P = "order_frame d"])
       (auto simp: order_frame_refl order_frame_orders [of "receipts_update _ _"]
          split: option.splits if_splits prod.splits sum.splits bool.splits dest!: apply_locked_frame [OF poll])
  with poll show ?case by (simp add: apply_poll_reconciliation_inv)
next
  case (dispatch d ft ft2 post now)
  have mp: "orders (snd (mark_published ft2 now xid s)) = orders s" for xid and s :: commerce_db
    unfolding mark_published_def
    by (rule transaction_inv [where P = "\<lambda>t. orders t = orders s"]) (auto split: option.splits if_splits)
  have "orders (snd (dispatch_once ft ft2 post now d)) = orders d"
    unfolding dispatch_once_def
  proof (rule cbind_inv)
    fix nx and s :: commerce_db assume "orders s = orders d"
    moreover have "orders (snd (cbind (mark_published ft2 now xid) (\<lambda>_ db. (Inr v, db)) s)) = orders s" for xid v
      by (rule cbind_inv) (simp_all add: mp)
    ultimately show "orders (snd ((case nx of
       None \<Rightarrow> (\<lambda>db. (Inr Dispatch_Empty, db))
     | Some ev \<Rightarrow>
         (case webhook_send post ev of
            Inl _ \<Rightarrow> (\<lambda>db. (Inr (Dispatch_Unpublished (x_id ev) (x_order_id ev)), db))
          | Inr status \<Rightarrow> cbind (mark_published ft2 now (x_id ev))
              (\<lambda>_ db. (Inr (Dispatch_Published (x_id ev) (x_order_id ev) status), db)))) s)) = orders d"
      by (auto split: option.splits sum.splits)
  qed (simp add: load_next_unpublished_def)
  with dispatch show ?case by (simp add: dispatch_once_inv order_frame_refl)
qed (simp_all add: record_stripe_event_inv finish_event_inv record_orders finish_orders order_frame_refl)

section \<open>What each operation of the fulfilment store writes\<close>

lemma order_of_put [simp]:
  "order_of (o_id x) d \<noteq> None \<Longrightarrow> order_of v (put_order x d) = (if v = o_id x then Some x else order_of v d)"
  by (auto simp: order_of_def put_order_def put_row_lookup)

lemma put_order_fields [simp]:
  "bindings (put_order x d) = bindings d" "eligibilities (put_order x d) = eligibilities d"
  "refunds (put_order x d) = refunds d" "checkouts (shop (put_order x d)) = checkouts (shop d)"
  by (simp_all add: put_order_def)

lemma order_of_bindings [simp]: "order_of u (d\<lparr>bindings := bs\<rparr>) = order_of u d"
  "order_of u (d\<lparr>refunds := rs\<rparr>) = order_of u d" "order_of u (d\<lparr>eligibilities := es\<rparr>) = order_of u d"
  by (simp_all add: order_of_def)

lemma order_of_id: "order_of u d = Some x \<Longrightarrow> o_id x = u"
  by (auto simp: order_of_def dest: get_row_key)

text \<open>The fields of a binding that are fixed when it is written.\<close>

definition binding_fixed :: "binding_row \<Rightarrow> uuid \<times> string \<times> string \<times> string \<times> string \<times> json \<times> string" where
  "binding_fixed b = (b_order_id b, b_target_id b, b_base_url b, b_version b, b_key b, b_request b, b_request_sha b)"

lemma prepare_analysis_effect:
  assumes "d' = snd (prepare_analysis_operation ft canonical sha st now u d)"
  shows "d' = d \<or> (\<exists>ord row. order_of u d = Some ord \<and> o_payment ord = P_Paid
    \<and> get_row b_order_id u (bindings d) = None \<and> b_order_id row = u \<and> b_key row = analysis_provider_key u
    \<and> (d' = d\<lparr>bindings := add_row row (bindings d)\<rparr>
       \<or> d' = put_order (ord\<lparr>o_state := O_In_Progress, o_fulfillment := F_Analysis_Pending, o_updated_at := now\<rparr>)
               (d\<lparr>bindings := add_row row (bindings d)\<rparr>)))"
  unfolding assms prepare_analysis_operation_def
proof (rule transaction_inv, goal_cases)
  case (2 x s')
  then obtain ord where ord: "order_of u d = Some ord" "o_payment ord = P_Paid"
    by (auto simp: load_order_for_update_def split: option.splits if_splits)
  show ?case
  proof (cases "get_row b_order_id u (bindings d)")
    case (Some row)
    with 2 show ?thesis by (auto split: sum.splits if_splits)
  next
    case None
    with 2 ord obtain payload where pl: "analysis_request_from_order ord = Inr payload"
      by (auto simp: load_order_for_update_def split: sum.splits if_splits)
    show ?thesis
      by (rule disjI2, rule exI [of _ ord], rule exI [of _ "new_binding_row canonical sha st now u payload"])
         (use 2 ord None pl in \<open>auto simp: Let_def load_order_for_update_def new_binding_row_def split: if_splits\<close>)
  qed
qed simp

text \<open>Both bindings write the same way: the bound identity is kept once it is there.\<close>

definition rebinds :: "int \<Rightarrow> uuid \<Rightarrow> fulfillment_db \<Rightarrow> fulfillment_db \<Rightarrow> bool" where
  "rebinds now u d d' = (\<exists>ord row row' f. order_of u d = Some ord \<and> get_row b_order_id u (bindings d) = Some row
     \<and> f \<noteq> F_Completed
     \<and> binding_fixed row' = binding_fixed row
     \<and> (b_analysis_id row \<noteq> None \<longrightarrow> b_analysis_id row' = b_analysis_id row)
     \<and> (b_report_id row \<noteq> None \<longrightarrow> b_report_id row' = b_report_id row)
     \<and> d' = put_order (ord\<lparr>o_state := O_In_Progress, o_payment := P_Paid, o_fulfillment := f, o_updated_at := now\<rparr>)
             (d\<lparr>bindings := put_row b_order_id row' (bindings d)\<rparr>))"

lemma analysis_never_completes: "analysis_fulfillment state = Some f \<Longrightarrow> f \<noteq> F_Completed"
  by (auto simp: analysis_fulfillment_def split: if_splits)

lemma bind_analysis_effect:
  "snd (bind_analysis ft now u ev d) = d \<or> rebinds now u d (snd (bind_analysis ft now u ev d))"
proof (cases "ae_state ev \<in> set analysis_states")
  case True
  then show ?thesis
    unfolding bind_analysis_def
  proof (simp, intro transaction_inv [where P = "\<lambda>d'. d' = d \<or> rebinds now u d d'"], goal_cases)
    case (2 x s')
    then obtain ord row f where r: "order_of u d = Some ord" "get_row b_order_id u (bindings d) = Some row"
        "analysis_fulfillment (ae_state ev) = Some f"
        "b_analysis_id row \<noteq> None \<longrightarrow> b_analysis_id row = Some (ae_analysis_id ev)"
        "s' = put_order (ord\<lparr>o_state := O_In_Progress, o_payment := P_Paid, o_fulfillment := f, o_updated_at := now\<rparr>)
          (d\<lparr>bindings := put_row b_order_id (row\<lparr>b_analysis_id := Some (ae_analysis_id ev),
             b_analysis_state := Some (ae_state ev), b_analysis_observed := Some now, b_updated_at := now\<rparr>) (bindings d)\<rparr>)"
      by (auto simp: load_order_for_update_def apply_analysis_state_def Let_def split: option.splits if_splits sum.splits)
    then show ?case unfolding rebinds_def
      by (intro disjI2 exI [of _ ord] exI [of _ row] exI [of _ f]
        exI [of _ "row\<lparr>b_analysis_id := Some (ae_analysis_id ev), b_analysis_state := Some (ae_state ev),
          b_analysis_observed := Some now, b_updated_at := now\<rparr>"]) (auto simp: binding_fixed_def dest: analysis_never_completes)
  qed simp
qed (simp add: bind_analysis_def)

lemma apply_report_state_effect:
  "apply_report_state ord state now = Inr ord' \<Longrightarrow> \<exists>f. f \<noteq> F_Completed
     \<and> ord' = ord\<lparr>o_state := O_In_Progress, o_payment := P_Paid, o_fulfillment := f, o_updated_at := now\<rparr>"
  by (auto simp: apply_report_state_def Let_def split: if_splits)

lemma bind_report_effect:
  "snd (bind_report ft now u ev d) = d \<or> rebinds now u d (snd (bind_report ft now u ev d))"
proof (cases "rp_state ev \<in> set report_states")
  case True
  then show ?thesis
    unfolding bind_report_def
  proof (simp, intro transaction_inv [where P = "\<lambda>d'. d' = d \<or> rebinds now u d d'"], goal_cases)
    case (2 x s')
    then obtain ord row f where r: "order_of u d = Some ord" "get_row b_order_id u (bindings d) = Some row"
        "b_report_id row \<noteq> None \<longrightarrow> b_report_id row = Some (rp_report_id ev)" "f \<noteq> F_Completed"
        "s' = put_order (ord\<lparr>o_state := O_In_Progress, o_payment := P_Paid, o_fulfillment := f, o_updated_at := now\<rparr>)
          (d\<lparr>bindings := put_row b_order_id (row\<lparr>b_report_id := Some (rp_report_id ev),
             b_report_state := Some (rp_state ev), b_report_observed := Some now, b_updated_at := now\<rparr>) (bindings d)\<rparr>)"
      by (fastforce simp: load_order_for_update_def Let_def split: option.splits if_splits sum.splits dest!: apply_report_state_effect)
    then show ?case unfolding rebinds_def
      by (intro disjI2 exI [of _ ord] exI [of _ row] exI [of _ f]
        exI [of _ "row\<lparr>b_report_id := Some (rp_report_id ev), b_report_state := Some (rp_state ev),
          b_report_observed := Some now, b_updated_at := now\<rparr>"]) (auto simp: binding_fixed_def)
  qed simp
qed (simp add: bind_report_def)

lemma eligibility_effect:
  assumes "d' = snd (persist_refund_eligibility ft now u reason ty rid tst d)"
  shows "d' = d \<or> (\<exists>el. get_row el_order_id u (eligibilities d) = None \<and> el_order_id el = u
    \<and> get_row b_order_id u (bindings d) \<noteq> None
    \<and> refund_reason_states (el_reason el) = Some (el_resource_type el, el_terminal_state el)
    \<and> el_resource_type el = ty \<and> el_resource_id el = rid
    \<and> d' = d\<lparr>eligibilities := add_row el (eligibilities d)\<rparr>)" (is "?P d'")
proof (cases "refund_reason_states reason = Some (ty, tst)")
  case True
  then have nt: "(refund_reason_states reason \<noteq> Some (ty, tst)) = False" by simp
  show ?thesis unfolding assms persist_refund_eligibility_def nt if_False
  proof (rule transaction_inv [where P = ?P], goal_cases)
    case (2 x s')
    let ?el = "\<lambda>b. \<lparr>el_order_id = u, el_reason = reason, el_resource_type = ty, el_resource_id = rid,
        el_terminal_state = tst, el_observed_at = now, el_target_id = b_target_id b\<rparr>"
    from 2 obtain b where b: "get_row b_order_id u (bindings d) = Some b"
      by (auto simp: load_order_for_update_def split: option.splits if_splits)
    with 2 have "s' = d \<or> (get_row el_order_id u (eligibilities d) = None
        \<and> s' = d\<lparr>eligibilities := add_row (?el b) (eligibilities d)\<rparr>)"
      by (auto simp: load_order_for_update_def split: option.splits if_splits)
    then show ?case
    proof (elim disjE)
      assume "get_row el_order_id u (eligibilities d) = None
        \<and> s' = d\<lparr>eligibilities := add_row (?el b) (eligibilities d)\<rparr>"
      with True b show ?thesis by (intro disjI2 exI [of _ "?el b"]) simp
    qed simp
  qed simp
qed (simp add: assms persist_refund_eligibility_def)

text \<open>The eligibility and the money evidence behind a refund operation.\<close>

definition refund_ok :: "fulfillment_db \<Rightarrow> refund_row \<Rightarrow> bool" where
  "refund_ok d r = (rr_version r = refund_operation_version \<and> rr_key r = refund_provider_key (rr_order_id r)
     \<and> rr_amount r > 0 \<and> rr_currency r = ''USD''
     \<and> (\<exists>el. get_row el_order_id (rr_order_id r) (eligibilities d) = Some el \<and> rr_reason r = el_reason el
          \<and> rr_resource_type r = el_resource_type el \<and> rr_resource_id r = el_resource_id el))"

lemma prepare_refund_effect:
  assumes "d' = snd (prepare_refund_operation ft now u intent d)"
  shows "d' = d \<or> (\<exists>r. get_row rr_order_id u (refunds d) = None \<and> rr_order_id r = u \<and> refund_ok d r
    \<and> rr_refund_id r = None \<and> d' = d\<lparr>refunds := add_row r (refunds d)\<rparr>)"
  unfolding assms prepare_refund_operation_def
proof (rule transaction_inv, goal_cases)
  case (2 x s')
  then obtain el where el: "get_row el_order_id u (eligibilities d) = Some el" "pi_amount_received intent > 0" "pi_currency intent = ''USD''"
    by (auto simp: load_order_for_update_def split: option.splits if_splits)
  with 2 have "s' = d \<or> (get_row rr_order_id u (refunds d) = None
      \<and> s' = d\<lparr>refunds := add_row (new_refund_row now u el intent) (refunds d)\<rparr>)"
    by (auto simp: load_order_for_update_def Let_def split: option.splits if_splits)
  moreover have "refund_ok d (new_refund_row now u el intent)" using el by (simp add: refund_ok_def new_refund_row_def)
  ultimately show ?case
    by (elim disjE) (simp, intro disjI2 exI [of _ "new_refund_row now u el intent"], simp add: new_refund_row_def)
qed simp

lemma bind_refund_effect:
  assumes "d' = snd (bind_refund ft now op ev ext d)"
  shows "d' = d \<or> (\<exists>ord row row'. order_of (ro_order_id op) d = Some ord
    \<and> get_row rr_order_id (ro_order_id op) (refunds d) = Some row \<and> refund_of_row row' = refund_of_row row
    \<and> (rr_refund_id row \<noteq> None \<longrightarrow> rr_refund_id row' = rr_refund_id row)
    \<and> rr_refund_status row' = Some (rf_status ev) \<and> rr_refund_amount row' = Some (ro_amount op)
    \<and> rf_status ev \<in> set refund_statuses
    \<and> d' = put_order (refunded_order (rf_status ev) now ord) (d\<lparr>refunds := put_row rr_order_id row' (refunds d)\<rparr>))"
    (is "?P d'")
proof (cases "rf_status ev \<in> set refund_statuses \<and> rf_payment_intent ev = ro_payment_intent op
    \<and> rf_amount ev = ro_amount op \<and> rf_currency ev = ro_currency op \<and> (ext \<or> metadata_matches (rf_metadata ev) op)")
  case True
  then have g: "(rf_status ev \<notin> set refund_statuses) = False" "(rf_payment_intent ev \<noteq> ro_payment_intent op) = False"
      "(rf_amount ev \<noteq> ro_amount op \<or> rf_currency ev \<noteq> ro_currency op) = False"
      "(\<not> ext \<and> \<not> metadata_matches (rf_metadata ev) op) = False" by auto
  show ?thesis unfolding assms bind_refund_def g if_False
  proof (rule transaction_inv [where P = ?P], goal_cases)
    case (2 x s')
    then obtain ord row where r: "order_of (ro_order_id op) d = Some ord"
        "get_row rr_order_id (ro_order_id op) (refunds d) = Some row"
        "rr_refund_id row \<noteq> None \<longrightarrow> rr_refund_id row = Some (rf_id ev)"
      by (auto simp: load_order_for_update_def split: option.splits if_splits)
    let ?row = "reconciled_row now ev ext row"
    have "s' = put_order (refunded_order (rf_status ev) now ord) (d\<lparr>refunds := put_row rr_order_id ?row (refunds d)\<rparr>)"
      using 2 r by (simp add: load_order_for_update_def Let_def split: if_splits)
    moreover have "refund_of_row ?row = refund_of_row row" "rr_refund_id row \<noteq> None \<longrightarrow> rr_refund_id ?row = rr_refund_id row"
      "rr_refund_status ?row = Some (rf_status ev)" "rr_refund_amount ?row = Some (ro_amount op)"
      using True r(3) by (simp_all add: reconciled_row_def refund_of_row_def)
    ultimately show ?case using r(1,2) True by blast
  qed simp
next
  case False
  then show ?thesis by (auto simp: assms bind_refund_def)
qed

lemma attention_effect:
  assumes "d' = snd (fulfillment_attention ft now u code rfail d)"
  shows "d' = d \<or> (\<exists>ord rs. order_of u d = Some ord
    \<and> d' = put_order (ord\<lparr>o_state := O_Attention, o_payment := (if rfail then P_Refund_Failed else o_payment ord),
                           o_updated_at := now\<rparr>) (d\<lparr>refunds := rs\<rparr>)
    \<and> map rr_order_id rs = map rr_order_id (refunds d)
    \<and> (\<forall>v. case get_row rr_order_id v (refunds d) of None \<Rightarrow> get_row rr_order_id v rs = None
       | Some r \<Rightarrow> (\<exists>r'. get_row rr_order_id v rs = Some r' \<and> refund_of_row r' = refund_of_row r
           \<and> rr_refund_id r' = rr_refund_id r \<and> rr_refund_status r' = rr_refund_status r
           \<and> rr_refund_amount r' = rr_refund_amount r)))" (is "?P d'")
  unfolding assms fulfillment_attention_def
proof (rule transaction_inv [where P = ?P], goal_cases)
  case (2 x s')
  then obtain ord where ord: "order_of u d = Some ord" by (auto simp: load_order_for_update_def split: option.splits)
  let ?ord = "ord\<lparr>o_state := O_Attention, o_payment := (if rfail then P_Refund_Failed else o_payment ord), o_updated_at := now\<rparr>"
  have upd: "refunds_update (\<lambda>_. rs) (put_order ?ord d) = put_order ?ord (d\<lparr>refunds := rs\<rparr>)" for rs
    by (simp add: put_order_def)
  show ?case
  proof (cases "get_row rr_order_id u (refunds d)")
    case None
    with 2 ord have "s' = put_order ?ord (d\<lparr>refunds := refunds d\<rparr>)"
      by (auto simp: load_order_for_update_def Let_def)
    with ord show ?thesis
      by (intro disjI2 exI [of _ ord] exI [of _ "refunds d"]) (auto split: option.splits)
  next
    case (Some r)
    let ?rs = "put_row rr_order_id (r\<lparr>rr_failure := Some (take 80 code), rr_updated_at := now\<rparr>) (refunds d)"
    have "s' = put_order ?ord (d\<lparr>refunds := ?rs\<rparr>)"
      using 2 ord Some by (auto simp: load_order_for_update_def Let_def put_order_def)
    moreover have "case get_row rr_order_id v (refunds d) of None \<Rightarrow> get_row rr_order_id v ?rs = None
       | Some r \<Rightarrow> (\<exists>r'. get_row rr_order_id v ?rs = Some r' \<and> refund_of_row r' = refund_of_row r
           \<and> rr_refund_id r' = rr_refund_id r \<and> rr_refund_status r' = rr_refund_status r
           \<and> rr_refund_amount r' = rr_refund_amount r)" for v
      using Some get_row_key [OF Some] by (auto simp: put_row_lookup refund_of_row_def split: option.splits)
    ultimately show ?thesis using ord
      by (intro disjI2 exI [of _ ord] exI [of _ ?rs]) (auto simp: keys_put_row)
  qed
qed simp

section \<open>The invariant of the fulfilment tables\<close>

definition refund_proved :: "fulfillment_db \<Rightarrow> uuid \<Rightarrow> bool" where
  "refund_proved d u = (\<exists>r. get_row rr_order_id u (refunds d) = Some r \<and> rr_refund_status r = Some ''succeeded''
     \<and> rr_refund_amount r = Some (rr_amount r))"

definition fulfillment_inv :: "fulfillment_db \<Rightarrow> bool" where
  "fulfillment_inv d = (commerce_inv (shop d)
     \<and> distinct (map b_order_id (bindings d)) \<and> distinct (map el_order_id (eligibilities d))
     \<and> distinct (map rr_order_id (refunds d))
     \<and> (\<forall>u b. get_row b_order_id u (bindings d) = Some b \<longrightarrow>
          b_key b = analysis_provider_key u \<and> (\<exists>ord. order_of u d = Some ord \<and> \<not> unpaid ord))
     \<and> (\<forall>u el. get_row el_order_id u (eligibilities d) = Some el \<longrightarrow> get_row b_order_id u (bindings d) \<noteq> None
          \<and> refund_reason_states (el_reason el) = Some (el_resource_type el, el_terminal_state el))
     \<and> (\<forall>u r. get_row rr_order_id u (refunds d) = Some r \<longrightarrow> refund_ok d r)
     \<and> (\<forall>u ord. order_of u d = Some ord \<and> o_payment ord = P_Refunded \<longrightarrow> refund_proved d u))"

lemma fulfillment_invD:
  assumes "fulfillment_inv d"
  shows "commerce_inv (shop d)"
    and "get_row b_order_id u (bindings d) = Some b \<Longrightarrow>
          b_key b = analysis_provider_key u \<and> (\<exists>ord. order_of u d = Some ord \<and> \<not> unpaid ord)"
    and "get_row el_order_id u (eligibilities d) = Some el \<Longrightarrow> get_row b_order_id u (bindings d) \<noteq> None
          \<and> refund_reason_states (el_reason el) = Some (el_resource_type el, el_terminal_state el)"
    and "get_row rr_order_id u (refunds d) = Some r \<Longrightarrow> refund_ok d r"
    and "order_of u d = Some x \<Longrightarrow> o_payment x = P_Refunded \<Longrightarrow> refund_proved d u"
  using assms by (auto simp: fulfillment_inv_def)

text \<open>Writing an order that was paid: the payment tables keep their invariant.\<close>

lemma put_order_commerce_inv:
  assumes inv: "commerce_inv (shop d)" and ord: "order_of u d = Some x" "\<not> unpaid x"
    and x': "o_id x' = u" "o_request_hash x' = o_request_hash x" "\<not> unpaid x'" "o_state x' \<notin> {O_Pending, O_Expired}"
  shows "commerce_inv (shop (put_order x' d))"
proof -
  have row: "get_row o_id u (orders (shop d)) = Some x" using ord(1) by (simp add: order_of_def)
  have ok: "order_ok (shop d) x" by (rule commerce_invD(2) [OF inv row])
  have "commerce_inv ((shop d)\<lparr>orders := put_row o_id x' (orders (shop d)), outbox := outbox (shop d)\<rparr>)"
  proof (rule commerce_inv_order [OF inv row x'(1,2)])
    show "order_ok ((shop d)\<lparr>outbox := outbox (shop d)\<rparr>) x'"
      using ok x' ord(2) get_row_key [OF row] by (auto simp: order_ok_def pay_consistent_def unpaid_def)
    show "distinct (map x_id (outbox (shop d)))" using commerce_invD(1) [OF inv] by (simp add: commerce_keys_def)
  qed (use x' ord commerce_invD(3) [OF inv] in \<open>auto simp: receipt_ok_def unpaid_def\<close>)
  then show ?thesis by (simp add: put_order_def)
qed

section \<open>Steps of the fulfilment store\<close>

text \<open>The resource that an eligibility of an order may name: the analysis or the report bound to the order.\<close>

definition names_resource :: "string \<Rightarrow> uuid \<Rightarrow> binding_row \<Rightarrow> bool" where
  "names_resource ty rid b = (if ty = ''analysis'' then b_analysis_id b = Some rid else b_report_id b = Some rid)"

text \<open>
  One transaction on the database. \<open>persist_refund_eligibility\<close> is called with the resource that
  \<open>_reprove_eligibility\<close> read from the binding of the order, \<open>bind_refund\<close> with an operation that
  \<open>prepare_refund_operation\<close> returned, and \<open>mark_attention\<close> after the eligibility was persisted:
  the three guards; that the service respects them is proved below (\<open>runtime_advance_refines\<close>).
\<close>

inductive fulfillment_step :: "fulfillment_db \<Rightarrow> fulfillment_db \<Rightarrow> bool" where
  shop: "commerce_step (shop d) s \<Longrightarrow> fulfillment_step d (d\<lparr>shop := s\<rparr>)"
| prepare: "fulfillment_step d (snd (prepare_analysis_operation ft canonical sha st now u d))"
| analysis: "fulfillment_step d (snd (bind_analysis ft now u ae d))"
| report: "fulfillment_step d (snd (bind_report ft now u re d))"
| eligibility: "get_row b_order_id u (bindings d) = Some b \<Longrightarrow> names_resource ty rid b \<Longrightarrow>
    fulfillment_step d (snd (persist_refund_eligibility ft now u reason ty rid tst d))"
| refund: "fulfillment_step d (snd (prepare_refund_operation ft now u intent d))"
| bind_refund: "get_row rr_order_id (ro_order_id op) (refunds d) = Some row \<Longrightarrow> refund_of_row row = op \<Longrightarrow>
    fulfillment_step d (snd (bind_refund ft now op rf ext d))"
| attention: "get_row el_order_id u (eligibilities d) \<noteq> None \<Longrightarrow>
    fulfillment_step d (snd (fulfillment_attention ft now u code rfail d))"

text \<open>What a step never takes back: identities, once they are written.\<close>

definition fulfillment_mono :: "fulfillment_db \<Rightarrow> fulfillment_db \<Rightarrow> bool" where
  "fulfillment_mono d d' = (
     (\<forall>u b. get_row b_order_id u (bindings d) = Some b \<longrightarrow> (\<exists>b'. get_row b_order_id u (bindings d') = Some b'
        \<and> binding_fixed b' = binding_fixed b
        \<and> (b_analysis_id b \<noteq> None \<longrightarrow> b_analysis_id b' = b_analysis_id b)
        \<and> (b_report_id b \<noteq> None \<longrightarrow> b_report_id b' = b_report_id b)))
     \<and> (\<forall>u el. get_row el_order_id u (eligibilities d) = Some el \<longrightarrow> get_row el_order_id u (eligibilities d') = Some el)
     \<and> (\<forall>u r. get_row rr_order_id u (refunds d) = Some r \<longrightarrow> (\<exists>r'. get_row rr_order_id u (refunds d') = Some r'
        \<and> refund_of_row r' = refund_of_row r \<and> (rr_refund_id r \<noteq> None \<longrightarrow> rr_refund_id r' = rr_refund_id r))))"

lemma fulfillment_monoD:
  assumes "fulfillment_mono d d'"
  shows "get_row b_order_id u (bindings d) = Some b \<Longrightarrow> \<exists>b'. get_row b_order_id u (bindings d') = Some b'
        \<and> binding_fixed b' = binding_fixed b
        \<and> (b_analysis_id b \<noteq> None \<longrightarrow> b_analysis_id b' = b_analysis_id b)
        \<and> (b_report_id b \<noteq> None \<longrightarrow> b_report_id b' = b_report_id b)"
    and "get_row el_order_id u (eligibilities d) = Some el \<Longrightarrow> get_row el_order_id u (eligibilities d') = Some el"
    and "get_row rr_order_id u (refunds d) = Some r \<Longrightarrow> \<exists>r'. get_row rr_order_id u (refunds d') = Some r'
        \<and> refund_of_row r' = refund_of_row r \<and> (rr_refund_id r \<noteq> None \<longrightarrow> rr_refund_id r' = rr_refund_id r)"
  using assms by (auto simp: fulfillment_mono_def)

lemma fulfillment_mono_tables:
  "bindings d' = bindings d \<Longrightarrow> eligibilities d' = eligibilities d \<Longrightarrow> refunds d' = refunds d \<Longrightarrow> fulfillment_mono d d'"
  by (simp add: fulfillment_mono_def)

lemma fulfillment_mono_refl [simp]: "fulfillment_mono d d"
  by (simp add: fulfillment_mono_tables)

lemma fulfillment_mono_trans: "fulfillment_mono d d' \<Longrightarrow> fulfillment_mono d' d'' \<Longrightarrow> fulfillment_mono d d''"
proof -
  assume m: "fulfillment_mono d d'" "fulfillment_mono d' d''"
  show ?thesis
    unfolding fulfillment_mono_def
  proof (intro conjI allI impI)
    fix u b assume "get_row b_order_id u (bindings d) = Some b"
    from fulfillment_monoD(1) [OF m(1) this] obtain b' where b': "get_row b_order_id u (bindings d') = Some b'"
      "binding_fixed b' = binding_fixed b" "b_analysis_id b \<noteq> None \<longrightarrow> b_analysis_id b' = b_analysis_id b"
      "b_report_id b \<noteq> None \<longrightarrow> b_report_id b' = b_report_id b" by blast
    from fulfillment_monoD(1) [OF m(2) b'(1)] b'(2-4)
    show "\<exists>b''. get_row b_order_id u (bindings d'') = Some b'' \<and> binding_fixed b'' = binding_fixed b
        \<and> (b_analysis_id b \<noteq> None \<longrightarrow> b_analysis_id b'' = b_analysis_id b)
        \<and> (b_report_id b \<noteq> None \<longrightarrow> b_report_id b'' = b_report_id b)" by fastforce
  next
    fix u r assume "get_row rr_order_id u (refunds d) = Some r"
    from fulfillment_monoD(3) [OF m(1) this] obtain r' where r': "get_row rr_order_id u (refunds d') = Some r'"
      "refund_of_row r' = refund_of_row r" "rr_refund_id r \<noteq> None \<longrightarrow> rr_refund_id r' = rr_refund_id r" by blast
    from fulfillment_monoD(3) [OF m(2) r'(1)] r'(2-3)
    show "\<exists>r''. get_row rr_order_id u (refunds d'') = Some r'' \<and> refund_of_row r'' = refund_of_row r
        \<and> (rr_refund_id r \<noteq> None \<longrightarrow> rr_refund_id r'' = rr_refund_id r)" by fastforce
  qed (use fulfillment_monoD(2) [OF m(1)] fulfillment_monoD(2) [OF m(2)] in blast)
qed

text \<open>The general rule: one order that was paid is rewritten, the rest of the invariant is given.\<close>

lemma fulfillment_inv_order:
  assumes inv: "fulfillment_inv d" and ord: "order_of u d = Some x" "\<not> unpaid x"
    and x': "o_id x' = u" "o_request_hash x' = o_request_hash x" "\<not> unpaid x'" "o_state x' \<notin> {O_Pending, O_Expired}"
    and keys: "distinct (map b_order_id bs)" "distinct (map rr_order_id rs)"
    and bs: "\<And>v b. get_row b_order_id v bs = Some b \<Longrightarrow> b_key b = analysis_provider_key v
          \<and> (v = u \<or> (\<exists>y. order_of v d = Some y \<and> \<not> unpaid y))"
    and el: "\<And>v el. get_row el_order_id v (eligibilities d) = Some el \<Longrightarrow> get_row b_order_id v bs \<noteq> None"
    and rs: "\<And>v r. get_row rr_order_id v rs = Some r \<Longrightarrow> refund_ok d r"
    and ref: "\<And>v y. order_of v d = Some y \<Longrightarrow> o_payment (if v = u then x' else y) = P_Refunded \<Longrightarrow>
        (\<exists>r. get_row rr_order_id v rs = Some r \<and> rr_refund_status r = Some ''succeeded'' \<and> rr_refund_amount r = Some (rr_amount r))"
  shows "fulfillment_inv (put_order x' (d\<lparr>bindings := bs, refunds := rs\<rparr>))"
proof -
  let ?d = "d\<lparr>bindings := bs, refunds := rs\<rparr>"
  have ci: "commerce_inv (shop (put_order x' ?d))"
    by (rule put_order_commerce_inv [OF _ _ ord(2) x']) (use fulfillment_invD(1) [OF inv] ord(1) in simp_all)
  have lk: "order_of v (put_order x' ?d) = (if v = u then Some x' else order_of v d)" for v
    using ord(1) x'(1) by simp
  have ok: "refund_ok (put_order x' ?d) r = refund_ok d r" for r by (simp add: refund_ok_def)
  have dis: "distinct (map el_order_id (eligibilities d))"
    and elig: "\<And>v el. get_row el_order_id v (eligibilities d) = Some el \<Longrightarrow>
      refund_reason_states (el_reason el) = Some (el_resource_type el, el_terminal_state el)"
    using inv by (auto simp: fulfillment_inv_def)
  show ?thesis
    unfolding fulfillment_inv_def
  proof (intro conjI allI impI)
    fix v b assume b: "get_row b_order_id v (bindings (put_order x' ?d)) = Some b"
    with bs [of v b] show "b_key b = analysis_provider_key v" by simp
    from b bs [of v b] x'(3) show "\<exists>y. order_of v (put_order x' ?d) = Some y \<and> \<not> unpaid y" unfolding lk by auto
  next
    fix v y assume "order_of v (put_order x' ?d) = Some y \<and> o_payment y = P_Refunded"
    then show "refund_proved (put_order x' ?d) v"
      using ref [of v] ord(1) unfolding lk refund_proved_def by (auto split: if_splits)
  qed (use ci keys dis elig el rs ok in auto)
qed

lemma refunded_order_fields [simp]:
  "o_id (refunded_order s now x) = o_id x" "o_request_hash (refunded_order s now x) = o_request_hash x"
  by (simp_all add: refunded_order_def Let_def)

lemma refunded_order_pay:
  "s \<in> set refund_statuses \<Longrightarrow> o_payment (refunded_order s now x) \<in> {P_Refunded, P_Refund_Pending, P_Refund_Failed}
    \<and> (o_payment (refunded_order s now x) = P_Refunded \<longrightarrow> s = ''succeeded'')"
  "o_state x \<notin> {O_Pending, O_Expired} \<Longrightarrow> o_state (refunded_order s now x) \<notin> {O_Pending, O_Expired}"
  by (auto simp: refunded_order_def Let_def refund_statuses_def)

section \<open>Every step keeps the invariant and the identities\<close>

lemma paid_state:
  "fulfillment_inv d \<Longrightarrow> order_of u d = Some x \<Longrightarrow> \<not> unpaid x \<Longrightarrow> o_state x \<notin> {O_Pending, O_Expired}"
  using commerce_invD(2) [OF fulfillment_invD(1), of d u x]
  by (auto simp: order_of_def order_ok_def pay_consistent_def unpaid_def)

lemma bound_order:
  assumes "fulfillment_inv d" "get_row b_order_id u (bindings d) \<noteq> None"
  obtains x where "order_of u d = Some x" "\<not> unpaid x"
  using fulfillment_invD(2) [OF assms(1), of u] assms(2) by auto

lemma eligible_order:
  assumes "fulfillment_inv d" "get_row el_order_id u (eligibilities d) \<noteq> None"
  obtains x where "order_of u d = Some x" "\<not> unpaid x"
  using fulfillment_invD(3) [OF assms(1), of u] assms(2) bound_order [OF assms(1), of u] by auto

lemma fulfillment_inv_keys:
  assumes "fulfillment_inv d"
  shows "distinct (map b_order_id (bindings d))" "distinct (map el_order_id (eligibilities d))"
    "distinct (map rr_order_id (refunds d))"
  using assms by (simp_all add: fulfillment_inv_def)

lemma order_frameD:
  assumes "order_frame d d'"
  shows "get_row o_id v (orders d) = Some x \<Longrightarrow> o_payment x \<noteq> P_Pending \<Longrightarrow> get_row o_id v (orders d') = Some x"
    and "get_row o_id v (orders d') = Some x \<Longrightarrow> o_payment x = P_Refunded \<Longrightarrow> get_row o_id v (orders d) = Some x"
  using assms unfolding order_frame_def by blast+

lemma shop_step:
  assumes inv: "fulfillment_inv d" and step: "commerce_step (shop d) s"
  shows "fulfillment_inv (d\<lparr>shop := s\<rparr>) \<and> fulfillment_mono d (d\<lparr>shop := s\<rparr>)"
proof -
  from commerce_step_frame [OF step fulfillment_invD(1) [OF inv]]
  have ci: "commerce_inv s" and fr: "order_frame (shop d) s" by simp_all
  have keep: "order_of u (d\<lparr>shop := s\<rparr>) = Some x" if "order_of u d = Some x" "\<not> unpaid x" for u x
    using order_frameD(1) [OF fr, of u x] that by (simp add: order_of_def unpaid_def)
  have was: "order_of u d = Some x" if "order_of u (d\<lparr>shop := s\<rparr>) = Some x" "o_payment x = P_Refunded" for u x
    using order_frameD(2) [OF fr, of u x] that by (simp add: order_of_def)
  have "fulfillment_inv (d\<lparr>shop := s\<rparr>)"
    unfolding fulfillment_inv_def
  proof (intro conjI allI impI)
    fix u b assume "get_row b_order_id u (bindings (d\<lparr>shop := s\<rparr>)) = Some b"
    with fulfillment_invD(2) [OF inv, of u b] keep [of u]
    show "b_key b = analysis_provider_key u" "\<exists>y. order_of u (d\<lparr>shop := s\<rparr>) = Some y \<and> \<not> unpaid y" by auto
  next
    fix u y assume "order_of u (d\<lparr>shop := s\<rparr>) = Some y \<and> o_payment y = P_Refunded"
    with was [of u y] fulfillment_invD(5) [OF inv, of u y] show "refund_proved (d\<lparr>shop := s\<rparr>) u"
      by (simp add: refund_proved_def)
  next
    fix u el assume "get_row el_order_id u (eligibilities (d\<lparr>shop := s\<rparr>)) = Some el"
    then have "get_row el_order_id u (eligibilities d) = Some el" by simp
    from fulfillment_invD(3) [OF inv this]
    show "get_row b_order_id u (bindings (d\<lparr>shop := s\<rparr>)) \<noteq> None"
      "refund_reason_states (el_reason el) = Some (el_resource_type el, el_terminal_state el)" by simp_all
  next
    fix u r assume "get_row rr_order_id u (refunds (d\<lparr>shop := s\<rparr>)) = Some r"
    then have "get_row rr_order_id u (refunds d) = Some r" by simp
    from fulfillment_invD(4) [OF inv this] show "refund_ok (d\<lparr>shop := s\<rparr>) r" by (simp add: refund_ok_def)
  qed (simp_all add: ci fulfillment_inv_keys [OF inv])
  then show ?thesis by (simp add: fulfillment_mono_tables)
qed

lemma binding_put_mono:
  assumes "get_row b_order_id u (bindings d) = Some row" "binding_fixed row' = binding_fixed row"
    "b_analysis_id row \<noteq> None \<longrightarrow> b_analysis_id row' = b_analysis_id row"
    "b_report_id row \<noteq> None \<longrightarrow> b_report_id row' = b_report_id row"
  shows "fulfillment_mono d (put_order x (d\<lparr>bindings := put_row b_order_id row' (bindings d)\<rparr>))"
proof -
  have id: "b_order_id row' = u" "b_order_id row = u" using assms(1,2) get_row_key [OF assms(1)] by (auto simp: binding_fixed_def)
  have lk: "get_row b_order_id v (put_row b_order_id row' (bindings d)) = (if v = u then Some row' else get_row b_order_id v (bindings d))" for v
    using put_row_lookup [of b_order_id row' "bindings d" v] assms(1) id by auto
  show ?thesis
    unfolding fulfillment_mono_def using assms by (auto simp: lk)
qed

lemma rebinds_step:
  assumes inv: "fulfillment_inv d" and "rebinds now u d d'"
  shows "fulfillment_inv d' \<and> fulfillment_mono d d'"
proof -
  obtain x row row' f where r: "order_of u d = Some x" "get_row b_order_id u (bindings d) = Some row"
     "binding_fixed row' = binding_fixed row"
     "b_analysis_id row \<noteq> None \<longrightarrow> b_analysis_id row' = b_analysis_id row"
     "b_report_id row \<noteq> None \<longrightarrow> b_report_id row' = b_report_id row"
     "d' = put_order (x\<lparr>o_state := O_In_Progress, o_payment := P_Paid, o_fulfillment := f, o_updated_at := now\<rparr>)
             (d\<lparr>bindings := put_row b_order_id row' (bindings d)\<rparr>)"
    using assms(2) by (auto simp: rebinds_def)
  let ?x = "x\<lparr>o_state := O_In_Progress, o_payment := P_Paid, o_fulfillment := f, o_updated_at := now\<rparr>"
  have np: "\<not> unpaid x" using bound_order [OF inv, of u] r(1,2) by auto
  have id: "b_order_id row' = u" using r(3) get_row_key [OF r(2)] by (simp add: binding_fixed_def)
  have lk: "get_row b_order_id v (put_row b_order_id row' (bindings d)) = (if v = u then Some row' else get_row b_order_id v (bindings d))" for v
    using put_row_lookup [of b_order_id row' "bindings d" v] r(2) id by auto
  have key: "b_key row' = analysis_provider_key u"
    using r(3) fulfillment_invD(2) [OF inv r(2)] by (simp add: binding_fixed_def)
  have "fulfillment_inv (put_order ?x (d\<lparr>bindings := put_row b_order_id row' (bindings d), refunds := refunds d\<rparr>))"
  proof (rule fulfillment_inv_order [OF inv r(1) np])
    show "distinct (map b_order_id (put_row b_order_id row' (bindings d)))"
      using fulfillment_inv_keys(1) [OF inv] by (simp add: keys_put_row)
  qed (use order_of_id [OF r(1)] fulfillment_inv_keys [OF inv] fulfillment_invD(2-5) [OF inv] key lk
      in \<open>auto simp: unpaid_def refund_proved_def split: if_splits\<close>)
  then show ?thesis using binding_put_mono [OF r(2-5)] unfolding r(6) by simp
qed

lemma add_binding_inv:
  assumes inv: "fulfillment_inv d" and row: "get_row b_order_id u (bindings d) = None" "b_order_id row = u"
    "b_key row = analysis_provider_key u" and ord: "order_of u d = Some x" "\<not> unpaid x"
  shows "fulfillment_inv (d\<lparr>bindings := add_row row (bindings d)\<rparr>)
    \<and> fulfillment_mono d (put_order y (d\<lparr>bindings := add_row row (bindings d)\<rparr>))
    \<and> fulfillment_mono d (d\<lparr>bindings := add_row row (bindings d)\<rparr>)"
proof -
  have lk: "get_row b_order_id v (add_row row (bindings d)) = (if v = u then Some row else get_row b_order_id v (bindings d))" for v
    using add_row_lookup [of b_order_id row "bindings d" v] row(1,2) by auto
  have "fulfillment_inv (d\<lparr>bindings := add_row row (bindings d)\<rparr>)"
    unfolding fulfillment_inv_def
  proof (intro conjI allI impI)
    fix v b assume "get_row b_order_id v (bindings (d\<lparr>bindings := add_row row (bindings d)\<rparr>)) = Some b"
    with fulfillment_invD(2) [OF inv, of v b] row ord
    show "b_key b = analysis_provider_key v" "\<exists>y. order_of v (d\<lparr>bindings := add_row row (bindings d)\<rparr>) = Some y \<and> \<not> unpaid y"
      by (auto simp: lk split: if_splits)
  next
    fix v y assume "order_of v (d\<lparr>bindings := add_row row (bindings d)\<rparr>) = Some y \<and> o_payment y = P_Refunded"
    with fulfillment_invD(5) [OF inv, of v y] show "refund_proved (d\<lparr>bindings := add_row row (bindings d)\<rparr>) v"
      by (simp add: refund_proved_def)
  qed (use fulfillment_inv_keys [OF inv] fulfillment_invD(1,3,4) [OF inv] row(1,2) lk
      in \<open>auto simp: distinct_add_row refund_ok_def\<close>)
  then show ?thesis using row(1) by (auto simp: fulfillment_mono_def lk)
qed

lemma prepare_step:
  assumes inv: "fulfillment_inv d"
  shows "fulfillment_inv (snd (prepare_analysis_operation ft canonical sha st now u d))
    \<and> fulfillment_mono d (snd (prepare_analysis_operation ft canonical sha st now u d))"
  using prepare_analysis_effect [OF refl, of ft canonical sha st now u d]
proof (elim disjE exE conjE)
  fix x and row :: binding_row
  assume r: "order_of u d = Some x" "o_payment x = P_Paid" "get_row b_order_id u (bindings d) = None"
    "b_order_id row = u" "b_key row = analysis_provider_key u"
  let ?d = "d\<lparr>bindings := add_row row (bindings d)\<rparr>"
  let ?x = "x\<lparr>o_state := O_In_Progress, o_fulfillment := F_Analysis_Pending, o_updated_at := now\<rparr>"
  have np: "\<not> unpaid x" using r(2) by (simp add: unpaid_def)
  have add: "fulfillment_inv ?d" "fulfillment_mono d (put_order ?x ?d)" "fulfillment_mono d ?d"
    using add_binding_inv [OF inv r(3-5,1) np] by auto
  {
    assume e: "snd (prepare_analysis_operation ft canonical sha st now u d) = ?d"
    show ?thesis unfolding e using add by simp
  }
  {
    assume e: "snd (prepare_analysis_operation ft canonical sha st now u d) = put_order ?x ?d"
    have ox: "order_of u ?d = Some x" using r(1) by simp
    have "fulfillment_inv (put_order ?x (?d\<lparr>bindings := bindings ?d, refunds := refunds ?d\<rparr>))"
      by (rule fulfillment_inv_order [OF add(1) ox np])
         (use order_of_id [OF r(1)] r(2) fulfillment_inv_keys [OF add(1)] fulfillment_invD(2-5) [OF add(1)] np
           in \<open>auto simp: unpaid_def refund_proved_def split: if_splits\<close>)
    then show ?thesis unfolding e using add(2) by simp
  }
qed (use inv in simp)

lemma eligibility_step:
  assumes inv: "fulfillment_inv d"
  shows "fulfillment_inv (snd (persist_refund_eligibility ft now u reason ty rid tst d))
    \<and> fulfillment_mono d (snd (persist_refund_eligibility ft now u reason ty rid tst d))"
  using eligibility_effect [OF refl, of ft now u reason ty rid tst d]
proof (elim disjE exE conjE)
  fix el :: eligibility_row
  let ?d = "d\<lparr>eligibilities := add_row el (eligibilities d)\<rparr>"
  assume r: "get_row el_order_id u (eligibilities d) = None" "el_order_id el = u" "get_row b_order_id u (bindings d) \<noteq> None"
    "refund_reason_states (el_reason el) = Some (el_resource_type el, el_terminal_state el)"
    "el_resource_type el = ty" "el_resource_id el = rid"
    and e: "snd (persist_refund_eligibility ft now u reason ty rid tst d) = ?d"
  have lk: "get_row el_order_id v (add_row el (eligibilities d)) = (if v = u then Some el else get_row el_order_id v (eligibilities d))" for v
    using add_row_lookup [of el_order_id el "eligibilities d" v] r(1,2) by auto
  have "fulfillment_inv ?d"
    unfolding fulfillment_inv_def
  proof (intro conjI allI impI)
    fix v b assume "get_row b_order_id v (bindings ?d) = Some b"
    with fulfillment_invD(2) [OF inv, of v b]
    show "b_key b = analysis_provider_key v" "\<exists>y. order_of v ?d = Some y \<and> \<not> unpaid y" by simp_all
  next
    fix v el' assume "get_row el_order_id v (eligibilities ?d) = Some el'"
    with fulfillment_invD(3) [OF inv, of v el'] r(3,4)
    show "get_row b_order_id v (bindings ?d) \<noteq> None"
      "refund_reason_states (el_reason el') = Some (el_resource_type el', el_terminal_state el')"
      by (auto simp: lk split: if_splits)
  next
    fix v r' assume "get_row rr_order_id v (refunds ?d) = Some r'"
    then have "get_row rr_order_id v (refunds d) = Some r'" by simp
    from fulfillment_invD(4) [OF inv this] r(1) show "refund_ok ?d r'" by (auto simp: refund_ok_def lk)
  next
    fix v y assume "order_of v ?d = Some y \<and> o_payment y = P_Refunded"
    with fulfillment_invD(5) [OF inv, of v y] show "refund_proved ?d v" by (simp add: refund_proved_def)
  qed (use fulfillment_inv_keys [OF inv] fulfillment_invD(1) [OF inv] r(1,2) in \<open>simp_all add: distinct_add_row\<close>)
  moreover have "fulfillment_mono d ?d" using r(1) by (auto simp: fulfillment_mono_def lk)
  ultimately show ?thesis unfolding e by simp
qed (use inv in simp)

lemma refund_step:
  assumes inv: "fulfillment_inv d"
  shows "fulfillment_inv (snd (prepare_refund_operation ft now u intent d))
    \<and> fulfillment_mono d (snd (prepare_refund_operation ft now u intent d))"
  using prepare_refund_effect [OF refl, of ft now u intent d]
proof (elim disjE exE conjE)
  fix r :: refund_row
  let ?d = "d\<lparr>refunds := add_row r (refunds d)\<rparr>"
  assume r: "get_row rr_order_id u (refunds d) = None" "rr_order_id r = u" "refund_ok d r"
    and e: "snd (prepare_refund_operation ft now u intent d) = ?d"
  have lk: "get_row rr_order_id v (add_row r (refunds d)) = (if v = u then Some r else get_row rr_order_id v (refunds d))" for v
    using add_row_lookup [of rr_order_id r "refunds d" v] r(1,2) by auto
  have "fulfillment_inv ?d"
    unfolding fulfillment_inv_def
  proof (intro conjI allI impI)
    fix v b assume "get_row b_order_id v (bindings ?d) = Some b"
    with fulfillment_invD(2) [OF inv, of v b]
    show "b_key b = analysis_provider_key v" "\<exists>y. order_of v ?d = Some y \<and> \<not> unpaid y" by simp_all
  next
    fix v el' assume "get_row el_order_id v (eligibilities ?d) = Some el'"
    with fulfillment_invD(3) [OF inv, of v el']
    show "get_row b_order_id v (bindings ?d) \<noteq> None"
      "refund_reason_states (el_reason el') = Some (el_resource_type el', el_terminal_state el')" by simp_all
  next
    fix v r' assume "get_row rr_order_id v (refunds ?d) = Some r'"
    with fulfillment_invD(4) [OF inv, of v r'] r(3) show "refund_ok ?d r'"
      by (auto simp: lk refund_ok_def split: if_splits)
  next
    fix v y assume "order_of v ?d = Some y \<and> o_payment y = P_Refunded"
    with fulfillment_invD(5) [OF inv, of v y] r(1) show "refund_proved ?d v" by (auto simp: refund_proved_def lk)
  qed (use fulfillment_inv_keys [OF inv] fulfillment_invD(1) [OF inv] r(1,2) in \<open>simp_all add: distinct_add_row\<close>)
  moreover have "fulfillment_mono d ?d" using r(1) by (auto simp: fulfillment_mono_def lk)
  ultimately show ?thesis unfolding e by simp
qed (use inv in simp)

lemma refund_order:
  assumes inv: "fulfillment_inv d" and row: "get_row rr_order_id u (refunds d) = Some r"
  shows "refund_ok d r \<and> (\<exists>x. order_of u d = Some x \<and> \<not> unpaid x)"
proof -
  have ok: "refund_ok d r" by (rule fulfillment_invD(4) [OF inv row])
  then have "get_row el_order_id u (eligibilities d) \<noteq> None" using get_row_key [OF row] by (auto simp: refund_ok_def)
  from eligible_order [OF inv this] ok show ?thesis by blast
qed

lemma same_refund_ok: "refund_of_row r' = refund_of_row r \<Longrightarrow> refund_ok d r' = refund_ok d r"
  by (simp add: refund_of_row_def refund_ok_def)

lemma bind_refund_step:
  assumes inv: "fulfillment_inv d" and row: "get_row rr_order_id (ro_order_id op) (refunds d) = Some row0" "refund_of_row row0 = op"
  shows "fulfillment_inv (snd (bind_refund ft now op rf ext d)) \<and> fulfillment_mono d (snd (bind_refund ft now op rf ext d))"
  using bind_refund_effect [OF refl, of ft now op rf ext d]
proof (elim disjE exE conjE)
  fix x row row'
  let ?u = "ro_order_id op"
  let ?x = "refunded_order (rf_status rf) now x"
  let ?rs = "put_row rr_order_id row' (refunds d)"
  assume r: "order_of ?u d = Some x" "get_row rr_order_id ?u (refunds d) = Some row" "refund_of_row row' = refund_of_row row"
    "rr_refund_id row \<noteq> None \<longrightarrow> rr_refund_id row' = rr_refund_id row"
    "rr_refund_status row' = Some (rf_status rf)" "rr_refund_amount row' = Some (ro_amount op)"
    "rf_status rf \<in> set refund_statuses"
    and e: "snd (bind_refund ft now op rf ext d) = put_order ?x (d\<lparr>refunds := ?rs\<rparr>)"
  have same: "refund_of_row row' = op" using r(2,3) row by simp
  have id: "rr_order_id row' = ?u" "rr_amount row' = ro_amount op" using same by (auto simp: refund_of_row_def)
  have lk: "get_row rr_order_id v ?rs = (if v = ?u then Some row' else get_row rr_order_id v (refunds d))" for v
    using put_row_lookup [of rr_order_id row' "refunds d" v] r(2) id by auto
  have np: "\<not> unpaid x" using refund_order [OF inv r(2)] r(1) by auto
  note st = paid_state [OF inv r(1) np]
  have "fulfillment_inv (put_order ?x (d\<lparr>bindings := bindings d, refunds := ?rs\<rparr>))"
  proof (rule fulfillment_inv_order [OF inv r(1) np])
    show "\<not> unpaid ?x" using refunded_order_pay(1) [OF r(7), of now x] by (auto simp: unpaid_def)
    show "o_state ?x \<notin> {O_Pending, O_Expired}" by (rule refunded_order_pay(2) [OF st])
    show "refund_ok d r'" if "get_row rr_order_id v ?rs = Some r'" for v r'
    proof (cases "v = ?u")
      case True
      with that have "r' = row'" by (simp add: lk)
      then show ?thesis using refund_order [OF inv r(2)] same_refund_ok [OF r(3), of d] by simp
    next
      case False
      with that have "get_row rr_order_id v (refunds d) = Some r'" by (simp add: lk)
      then show ?thesis by (rule fulfillment_invD(4) [OF inv])
    qed
    show "\<exists>r. get_row rr_order_id v ?rs = Some r \<and> rr_refund_status r = Some ''succeeded'' \<and> rr_refund_amount r = Some (rr_amount r)"
      if "order_of v d = Some y" "o_payment (if v = ?u then ?x else y) = P_Refunded" for v y
      using that refunded_order_pay(1) [OF r(7), of now x] r(5,6) id(2) fulfillment_invD(5) [OF inv, of v y]
      by (auto simp: lk refund_proved_def split: if_splits)
    show "b_key b = analysis_provider_key v \<and> (v = ?u \<or> (\<exists>y. order_of v d = Some y \<and> \<not> unpaid y))"
      if "get_row b_order_id v (bindings d) = Some b" for v b
      using fulfillment_invD(2) [OF inv that] by simp
    show "get_row b_order_id v (bindings d) \<noteq> None" if "get_row el_order_id v (eligibilities d) = Some el" for v el
      using fulfillment_invD(3) [OF inv that] by simp
  qed (use fulfillment_inv_keys [OF inv] order_of_id [OF r(1)] in \<open>simp_all add: keys_put_row\<close>)
  moreover have "fulfillment_mono d (put_order ?x (d\<lparr>refunds := ?rs\<rparr>))"
    using r(2-4) by (auto simp: fulfillment_mono_def lk)
  ultimately show ?thesis unfolding e by simp
qed (use inv in simp)

lemma attention_step:
  assumes inv: "fulfillment_inv d" and el: "get_row el_order_id u (eligibilities d) \<noteq> None"
  shows "fulfillment_inv (snd (fulfillment_attention ft now u code rfail d))
    \<and> fulfillment_mono d (snd (fulfillment_attention ft now u code rfail d))"
  using attention_effect [OF refl, of ft now u code rfail d]
proof (elim disjE exE conjE)
  fix x :: order_row and rs :: "refund_row list"
  let ?x = "x\<lparr>o_state := O_Attention, o_payment := (if rfail then P_Refund_Failed else o_payment x), o_updated_at := now\<rparr>"
  assume r: "order_of u d = Some x" "map rr_order_id rs = map rr_order_id (refunds d)"
    and rs: "\<forall>v. case get_row rr_order_id v (refunds d) of None \<Rightarrow> get_row rr_order_id v rs = None
       | Some r \<Rightarrow> (\<exists>r'. get_row rr_order_id v rs = Some r' \<and> refund_of_row r' = refund_of_row r
           \<and> rr_refund_id r' = rr_refund_id r \<and> rr_refund_status r' = rr_refund_status r
           \<and> rr_refund_amount r' = rr_refund_amount r)"
    and e: "snd (fulfillment_attention ft now u code rfail d) = put_order ?x (d\<lparr>refunds := rs\<rparr>)"
  have fwd: "\<exists>r'. get_row rr_order_id v rs = Some r' \<and> refund_of_row r' = refund_of_row r0
      \<and> rr_refund_id r' = rr_refund_id r0 \<and> rr_refund_status r' = rr_refund_status r0
      \<and> rr_refund_amount r' = rr_refund_amount r0" if "get_row rr_order_id v (refunds d) = Some r0" for v r0
    using spec [OF rs, of v] that by simp
  have bwd: "\<exists>r0. get_row rr_order_id v (refunds d) = Some r0 \<and> refund_of_row r' = refund_of_row r0"
    if "get_row rr_order_id v rs = Some r'" for v r'
    using spec [OF rs, of v] that by (auto split: option.splits)
  have np: "\<not> unpaid x" using eligible_order [OF inv el] r(1) by auto
  have "fulfillment_inv (put_order ?x (d\<lparr>bindings := bindings d, refunds := rs\<rparr>))"
  proof (rule fulfillment_inv_order [OF inv r(1) np])
    show "refund_ok d r'" if "get_row rr_order_id v rs = Some r'" for v r'
      using bwd [OF that] fulfillment_invD(4) [OF inv] same_refund_ok by metis
    show "\<exists>r. get_row rr_order_id v rs = Some r \<and> rr_refund_status r = Some ''succeeded'' \<and> rr_refund_amount r = Some (rr_amount r)"
      if y: "order_of v d = Some y" "o_payment (if v = u then ?x else y) = P_Refunded" for v y
    proof -
      have "o_payment y = P_Refunded" using y r(1) by (auto split: if_splits)
      from fulfillment_invD(5) [OF inv y(1) this] obtain r0 where "get_row rr_order_id v (refunds d) = Some r0"
        "rr_refund_status r0 = Some ''succeeded''" "rr_refund_amount r0 = Some (rr_amount r0)"
        by (auto simp: refund_proved_def)
      with fwd show ?thesis by (fastforce simp: refund_of_row_def)
    qed
    show "b_key b = analysis_provider_key v \<and> (v = u \<or> (\<exists>y. order_of v d = Some y \<and> \<not> unpaid y))"
      if "get_row b_order_id v (bindings d) = Some b" for v b
      using fulfillment_invD(2) [OF inv that] by simp
    show "get_row b_order_id v (bindings d) \<noteq> None" if "get_row el_order_id v (eligibilities d) = Some el" for v el
      using fulfillment_invD(3) [OF inv that] by simp
    show "distinct (map rr_order_id rs)" using fulfillment_inv_keys(3) [OF inv] r(2) by simp
  qed (use fulfillment_inv_keys [OF inv] order_of_id [OF r(1)] np in \<open>simp_all add: unpaid_def\<close>)
  moreover have "fulfillment_mono d (put_order ?x (d\<lparr>refunds := rs\<rparr>))"
    using fwd by (auto simp: fulfillment_mono_def)
  ultimately show ?thesis unfolding e by simp
qed (use inv in simp)

lemma fulfillment_step_inv:
  assumes "fulfillment_step d d'" "fulfillment_inv d"
  shows "fulfillment_inv d' \<and> fulfillment_mono d d'"
  using assms
proof (cases rule: fulfillment_step.cases)
  case (analysis ft now u ae)
  with assms(2) bind_analysis_effect [of ft now u ae d] show ?thesis by (auto dest: rebinds_step)
next
  case (report ft now u re)
  with assms(2) bind_report_effect [of ft now u re d] show ?thesis by (auto dest: rebinds_step)
next
  case (bind_refund op row ft now rf ext)
  show ?thesis unfolding bind_refund(1) by (rule bind_refund_step [OF assms(2) bind_refund(2,3)])
next
  case (attention u ft now code rfail)
  show ?thesis unfolding attention(1) by (rule attention_step [OF assms(2) attention(2)])
qed (simp_all add: assms(2) shop_step prepare_step eligibility_step refund_step)

lemma fulfillment_steps_inv:
  assumes "fulfillment_step\<^sup>*\<^sup>* d d'" "fulfillment_inv d"
  shows "fulfillment_inv d' \<and> fulfillment_mono d d'"
  using assms
proof (induction rule: rtranclp_induct)
  case (step d1 d2)
  from fulfillment_step_inv [OF step(2)] step(3) [OF step(4)] show ?case
    by (blast intro: fulfillment_mono_trans)
qed simp

text \<open>Every eligibility names a resource that is bound to its order: the bound identities are write-once,
  so the resource that the driver read is still the bound one when the eligibility is written.\<close>

definition evidence_bound :: "fulfillment_db \<Rightarrow> bool" where
  "evidence_bound d = (\<forall>u el. get_row el_order_id u (eligibilities d) = Some el \<longrightarrow>
     (\<exists>b. get_row b_order_id u (bindings d) = Some b \<and> names_resource (el_resource_type el) (el_resource_id el) b))"

lemma names_resource_kept:
  assumes "fulfillment_mono d d'" "get_row b_order_id u (bindings d) = Some b" "names_resource ty rid b"
  shows "\<exists>b'. get_row b_order_id u (bindings d') = Some b' \<and> names_resource ty rid b'"
  using fulfillment_monoD(1) [OF assms(1,2)] assms(3) by (fastforce simp: names_resource_def split: if_splits)

lemma eligibilities_kept:
  "eligibilities (snd (prepare_analysis_operation ft canonical sha st now u d)) = eligibilities d"
  "eligibilities (snd (bind_analysis ft now u ae d)) = eligibilities d"
  "eligibilities (snd (bind_report ft now u re d)) = eligibilities d"
  "eligibilities (snd (prepare_refund_operation ft now u intent d)) = eligibilities d"
  "eligibilities (snd (bind_refund ft now op rf ext d)) = eligibilities d"
  "eligibilities (snd (fulfillment_attention ft now u code rfail d)) = eligibilities d"
  subgoal using prepare_analysis_effect [OF refl, of ft canonical sha st now u d] by (elim disjE exE conjE) simp_all
  subgoal using bind_analysis_effect [of ft now u ae d] unfolding rebinds_def by (elim disjE exE conjE) simp_all
  subgoal using bind_report_effect [of ft now u re d] unfolding rebinds_def by (elim disjE exE conjE) simp_all
  subgoal using prepare_refund_effect [OF refl, of ft now u intent d] by (elim disjE exE conjE) simp_all
  subgoal using bind_refund_effect [OF refl, of ft now op rf ext d] by (elim disjE exE conjE) simp_all
  subgoal using attention_effect [OF refl, of ft now u code rfail d] by (elim disjE exE conjE) simp_all
  done

lemma fulfillment_step_evidence:
  assumes step: "fulfillment_step d d'" and inv: "fulfillment_inv d" and ev: "evidence_bound d"
  shows "evidence_bound d'"
proof (cases "eligibilities d' = eligibilities d")
  case True
  with ev names_resource_kept [OF conjunct2 [OF fulfillment_step_inv [OF step inv]]] show ?thesis
    unfolding evidence_bound_def by fastforce
next
  case False
  with step obtain u b ft now reason ty rid tst where b: "get_row b_order_id u (bindings d) = Some b" "names_resource ty rid b"
    and d': "d' = snd (persist_refund_eligibility ft now u reason ty rid tst d)"
    by (cases rule: fulfillment_step.cases) (auto simp: eligibilities_kept)
  from eligibility_effect [OF d'] False obtain el where el: "get_row el_order_id u (eligibilities d) = None" "el_order_id el = u"
    "el_resource_type el = ty" "el_resource_id el = rid" "d' = d\<lparr>eligibilities := add_row el (eligibilities d)\<rparr>" by auto
  have "get_row el_order_id v (add_row el (eligibilities d)) = (if v = u then Some el else get_row el_order_id v (eligibilities d))" for v
    using add_row_lookup [of el_order_id el "eligibilities d" v] el(1,2) by auto
  with ev b el(3-5) show ?thesis by (auto simp: evidence_bound_def split: if_splits)
qed

lemma fulfillment_steps_evidence:
  assumes "fulfillment_step\<^sup>*\<^sup>* d d'" "fulfillment_inv d" "evidence_bound d"
  shows "evidence_bound d'"
  using assms
proof (induction rule: rtranclp_induct)
  case (step d1 d2)
  from step fulfillment_steps_inv [OF step(1,4)] show ?case by (blast intro: fulfillment_step_evidence)
qed simp

lemma empty_fulfillment_inv: "fulfillment_inv empty_fulfillment"
  by (simp add: fulfillment_inv_def empty_fulfillment_def empty_commerce_inv get_row_def order_of_def)
     (simp add: empty_commerce_def get_row_def)

definition fulfillment_reachable :: "fulfillment_db \<Rightarrow> bool" where
  "fulfillment_reachable d = fulfillment_step\<^sup>*\<^sup>* empty_fulfillment d"

lemma fulfillment_reachable_inv: "fulfillment_reachable d \<Longrightarrow> fulfillment_inv d"
  unfolding fulfillment_reachable_def using fulfillment_steps_inv [OF _ empty_fulfillment_inv] by blast

lemma fulfillment_reachable_evidence: "fulfillment_reachable d \<Longrightarrow> evidence_bound d"
  unfolding fulfillment_reachable_def
  by (erule fulfillment_steps_evidence [OF _ empty_fulfillment_inv]) (simp add: evidence_bound_def empty_fulfillment_def get_row_def)

lemma refund_resource_types:
  "refund_reason_states reason = Some (ty, tst) \<Longrightarrow> ty = ''analysis'' \<or> ty = ''report''"
  by (auto simp: refund_reason_states_def split: if_splits)

text \<open>
  C2: money goes back only with proof. In every reachable database, with webhooks, polls, order
  creations and fulfilment steps interleaved in any way and under any faults, an order that is
  \<open>refunded\<close> has exactly one refund operation, its Stripe status is \<open>succeeded\<close>, the refunded
  amount is the positive USD amount of the operation, its idempotency key is the order's, and it
  carries the persisted eligibility of the order: the terminal, unfulfillable state recorded with its
  reason, and as the resource exactly the analysis, or exactly the report, that is bound to this order.
\<close>

theorem refunded_only_with_evidence:
  assumes "fulfillment_reachable d" "order_of u d = Some x" "o_payment x = P_Refunded"
  shows "\<exists>r el. filter (\<lambda>r. rr_order_id r = u) (refunds d) = [r] \<and> rr_refund_status r = Some ''succeeded''
    \<and> rr_refund_amount r = Some (rr_amount r) \<and> rr_amount r > 0 \<and> rr_currency r = ''USD''
    \<and> rr_key r = refund_provider_key u \<and> get_row el_order_id u (eligibilities d) = Some el
    \<and> rr_reason r = el_reason el \<and> rr_resource_id r = el_resource_id el
    \<and> refund_reason_states (rr_reason r) = Some (rr_resource_type r, el_terminal_state el)
    \<and> (\<exists>b. get_row b_order_id u (bindings d) = Some b
         \<and> (rr_resource_type r = ''analysis'' \<and> b_analysis_id b = Some (rr_resource_id r)
            \<or> rr_resource_type r = ''report'' \<and> b_report_id b = Some (rr_resource_id r)))"
proof -
  have inv: "fulfillment_inv d" by (rule fulfillment_reachable_inv [OF assms(1)])
  from fulfillment_invD(5) [OF inv assms(2,3)] obtain r where r: "get_row rr_order_id u (refunds d) = Some r"
    "rr_refund_status r = Some ''succeeded''" "rr_refund_amount r = Some (rr_amount r)" by (auto simp: refund_proved_def)
  note ok = fulfillment_invD(4) [OF inv r(1)]
  have id: "rr_order_id r = u" "r \<in> set (refunds d)" using get_row_Some [OF r(1)] by auto
  from ok id obtain el where el: "get_row el_order_id u (eligibilities d) = Some el" "rr_reason r = el_reason el"
    "rr_resource_type r = el_resource_type el" "rr_resource_id r = el_resource_id el" by (auto simp: refund_ok_def)
  have "length (filter (\<lambda>r. rr_order_id r = u) (refunds d)) = 1"
    by (rule filter_key_once [OF fulfillment_inv_keys(3) [OF inv] id(2,1)])
  then obtain r' where r': "filter (\<lambda>r. rr_order_id r = u) (refunds d) = [r']" by (auto simp: length_Suc_conv)
  have "r \<in> set (filter (\<lambda>r. rr_order_id r = u) (refunds d))" using id by simp
  then have "filter (\<lambda>r. rr_order_id r = u) (refunds d) = [r]" using r' by simp
  moreover from fulfillment_reachable_evidence [OF assms(1)] el(1) obtain b
    where "get_row b_order_id u (bindings d) = Some b" "names_resource (el_resource_type el) (el_resource_id el) b"
    unfolding evidence_bound_def by blast
  moreover have "refund_reason_states (el_reason el) = Some (el_resource_type el, el_terminal_state el)"
    using fulfillment_invD(3) [OF inv el(1)] by blast
  moreover note refund_resource_types [OF this]
  ultimately show ?thesis using r ok id el by (auto simp: refund_ok_def names_resource_def)
qed

text \<open>
  C18: identities are write-once. Along any sequence of steps the payload, target and idempotency
  key of a bound analysis, its analysis id and report id, the refund eligibility, the identity of
  the refund operation (amount, payment intent, key) and the Stripe refund id never change.
\<close>

theorem identities_write_once:
  assumes "fulfillment_reachable d" "fulfillment_step\<^sup>*\<^sup>* d d'"
  shows "(get_row b_order_id u (bindings d) = Some b \<longrightarrow> (\<exists>b'. get_row b_order_id u (bindings d') = Some b'
        \<and> binding_fixed b' = binding_fixed b \<and> b_key b = analysis_provider_key u
        \<and> (b_analysis_id b \<noteq> None \<longrightarrow> b_analysis_id b' = b_analysis_id b)
        \<and> (b_report_id b \<noteq> None \<longrightarrow> b_report_id b' = b_report_id b)))
    \<and> (get_row el_order_id u (eligibilities d) = Some el \<longrightarrow> get_row el_order_id u (eligibilities d') = Some el)
    \<and> (get_row rr_order_id u (refunds d) = Some r \<longrightarrow> (\<exists>r'. get_row rr_order_id u (refunds d') = Some r'
        \<and> refund_of_row r' = refund_of_row r \<and> (rr_refund_id r \<noteq> None \<longrightarrow> rr_refund_id r' = rr_refund_id r)))"
proof -
  have inv: "fulfillment_inv d" by (rule fulfillment_reachable_inv [OF assms(1)])
  from fulfillment_steps_inv [OF assms(2) inv] have m: "fulfillment_mono d d'" ..
  show ?thesis
    using fulfillment_monoD(1) [OF m, of u b] fulfillment_monoD(2) [OF m, of u el] fulfillment_monoD(3) [OF m, of u r]
      fulfillment_invD(2) [OF inv, of u b] by blast
qed

section \<open>The service refines the step relation\<close>

text \<open>
  \<open>safe P m Q\<close>: from a database with \<open>P\<close>, the service call \<open>m\<close> only takes steps of the store, and
  a result \<open>x\<close> satisfies \<open>Q x\<close>. One rule per way the service composes calls.
\<close>

definition safe ::
  "(fulfillment_db \<Rightarrow> bool) \<Rightarrow> (fulfillment_db \<times> 'w, fulfillment_error, 'a) call \<Rightarrow> ('a \<Rightarrow> fulfillment_db \<Rightarrow> bool) \<Rightarrow> bool" where
  "safe P m Q = (\<forall>s. P (fst s) \<longrightarrow> fulfillment_step\<^sup>*\<^sup>* (fst s) (fst (snd (m s)))
     \<and> (\<forall>x. fst (m s) = Inr x \<longrightarrow> Q x (fst (snd (m s)))))"

definition lasting :: "(fulfillment_db \<Rightarrow> bool) \<Rightarrow> bool" where
  "lasting P = (\<forall>d d'. P d \<longrightarrow> fulfillment_step\<^sup>*\<^sup>* d d' \<longrightarrow> P d')"

lemma safeD:
  assumes "safe P m Q" "P (fst s)" "m s = (r, s')"
  shows "fulfillment_step\<^sup>*\<^sup>* (fst s) (fst s')" "r = Inr x \<Longrightarrow> Q x (fst s')"
  using spec [OF assms(1) [unfolded safe_def], of s] assms(2,3) by simp_all

lemma safe_run:
  assumes "safe P m Q" "P (fst s)"
  shows "fulfillment_step\<^sup>*\<^sup>* (fst s) (fst (snd (m s)))" "fst (m s) = Inr x \<Longrightarrow> Q x (fst (snd (m s)))"
  using spec [OF assms(1) [unfolded safe_def], of s] assms(2) by simp_all

lemma safe_weaken: "safe P m Q \<Longrightarrow> (\<And>x d. Q x d \<Longrightarrow> Q' x d) \<Longrightarrow> safe P m Q'"
  by (auto simp: safe_def)

lemma safe_cbind:
  fixes m :: "(fulfillment_db \<times> 'w, fulfillment_error, 'a) call"
  assumes "safe P m Q" "\<And>x. safe (Q x) (f x) R"
  shows "safe P (cbind m f) R"
  unfolding safe_def
proof (intro allI impI)
  fix s :: "fulfillment_db \<times> 'w" assume P: "P (fst s)"
  obtain r s1 where m: "m s = (r, s1)" by (cases "m s") auto
  have s1: "fulfillment_step\<^sup>*\<^sup>* (fst s) (fst s1)" "\<And>x. r = Inr x \<Longrightarrow> Q x (fst s1)"
    using safeD [OF assms(1) P m] by blast+
  show "fulfillment_step\<^sup>*\<^sup>* (fst s) (fst (snd (cbind m f s))) \<and>
      (\<forall>y. fst (cbind m f s) = Inr y \<longrightarrow> R y (fst (snd (cbind m f s))))"
  proof (cases r)
    case (Inl e)
    with m s1(1) show ?thesis by (simp add: cbind_def)
  next
    case (Inr x)
    with s1(2) have "fulfillment_step\<^sup>*\<^sup>* (fst s1) (fst (snd (f x s1)))"
        "\<And>y. fst (f x s1) = Inr y \<Longrightarrow> R y (fst (snd (f x s1)))"
      using safe_run [OF assms(2) [of x], of s1] by blast+
    with m Inr s1(1) show ?thesis by (auto simp: cbind_def)
  qed
qed

lemma safe_answer: "(\<And>x d. r = Inr x \<Longrightarrow> P d \<Longrightarrow> Q x d) \<Longrightarrow> safe P (answer r) Q"
  by (auto simp: safe_def answer_def)

lemma safe_ask: "(\<And>x d. P d \<Longrightarrow> Q x d) \<Longrightarrow> safe P (ask f) Q"
  by (auto simp: safe_def ask_def)

lemma safe_act: "(\<And>x d. P d \<Longrightarrow> Q x d) \<Longrightarrow> safe P (act f) Q"
  by (auto simp: safe_def act_def split: prod.splits)

lemma safe_catch:
  fixes m :: "(fulfillment_db \<times> 'w, fulfillment_error, 'a) call"
  assumes "lasting P" "safe P m Q" "safe P h Q"
  shows "safe P (on_invariant_error m h) Q"
  unfolding safe_def
proof (intro allI impI)
  fix s :: "fulfillment_db \<times> 'w" assume P: "P (fst s)"
  obtain r s1 where m: "m s = (r, s1)" by (cases "m s") auto
  have s1: "fulfillment_step\<^sup>*\<^sup>* (fst s) (fst s1)" "\<And>x. r = Inr x \<Longrightarrow> Q x (fst s1)"
    using safeD [OF assms(2) P m] by blast+
  show "fulfillment_step\<^sup>*\<^sup>* (fst s) (fst (snd (on_invariant_error m h s))) \<and>
      (\<forall>y. fst (on_invariant_error m h s) = Inr y \<longrightarrow> Q y (fst (snd (on_invariant_error m h s))))"
  proof (cases "\<exists>c. r = Inl (Fulfillment_Invariant c)")
    case True
    have "P (fst s1)" using assms(1) P s1(1) by (auto simp: lasting_def)
    then have "fulfillment_step\<^sup>*\<^sup>* (fst s1) (fst (snd (h s1)))"
        "\<And>y. fst (h s1) = Inr y \<Longrightarrow> Q y (fst (snd (h s1)))"
      using safe_run [OF assms(3), of s1] by blast+
    with True m s1(1) show ?thesis by (auto simp: on_invariant_error_def)
  next
    case False
    then have "on_invariant_error m h s = (r, s1)"
      using m by (auto simp: on_invariant_error_def split: sum.splits fulfillment_error.splits)
    with s1 show ?thesis by simp
  qed
qed

text \<open>What other transactions do between the calls of a service: steps of the store.\<close>

definition benign :: "fulfillment_env \<Rightarrow> bool" where
  "benign fe = (\<forall>d. fulfillment_step\<^sup>*\<^sup>* d (fe_other fe d))"

lemma safe_store:
  assumes fe: "benign fe" and P: "lasting P"
    and step: "\<And>d. P d \<Longrightarrow> snd (m d) = d \<or> fulfillment_step d (snd (m d))"
    and Q: "\<And>d x d'. P d \<Longrightarrow> P d' \<Longrightarrow> m d = (Inr x, d') \<Longrightarrow> Q x d'"
  shows "safe P (store_step fe m) Q"
  unfolding safe_def
proof (intro allI impI)
  fix s :: "fulfillment_db \<times> 'b" assume Ps: "P (fst s)"
  let ?d = "fe_other fe (fst s)"
  have o: "fulfillment_step\<^sup>*\<^sup>* (fst s) ?d" using fe by (simp add: benign_def)
  with Ps P have Pd: "P ?d" by (auto simp: lasting_def)
  have st: "fulfillment_step\<^sup>*\<^sup>* ?d (snd (m ?d))" using step [OF Pd] by auto
  with Pd P have "P (snd (m ?d))" by (auto simp: lasting_def)
  with o st Q [OF Pd] show "fulfillment_step\<^sup>*\<^sup>* (fst s) (fst (snd (store_step fe m s)))
      \<and> (\<forall>x. fst (store_step fe m s) = Inr x \<longrightarrow> Q x (fst (snd (store_step fe m s))))"
    by (cases "m ?d") (auto simp: store_step_def)
qed

definition eligible :: "uuid \<Rightarrow> fulfillment_db \<Rightarrow> bool" where
  "eligible u d = (fulfillment_inv d \<and> get_row el_order_id u (eligibilities d) \<noteq> None)"

definition bound_resource :: "uuid \<Rightarrow> string \<Rightarrow> uuid \<Rightarrow> fulfillment_db \<Rightarrow> bool" where
  "bound_resource u ty rid d = (fulfillment_inv d
     \<and> (\<exists>b. get_row b_order_id u (bindings d) = Some b \<and> names_resource ty rid b))"

lemma lasting_bound_resource: "lasting (bound_resource u ty rid)"
  unfolding lasting_def bound_resource_def
  by (metis fulfillment_steps_inv names_resource_kept)

definition prepared :: "uuid \<Rightarrow> refund_operation \<Rightarrow> fulfillment_db \<Rightarrow> bool" where
  "prepared u op d = (eligible u d \<and> (\<exists>row. get_row rr_order_id (ro_order_id op) (refunds d) = Some row \<and> refund_of_row row = op))"

lemma lasting_inv: "lasting fulfillment_inv"
  by (auto simp: lasting_def dest: fulfillment_steps_inv)

lemma lasting_eligible: "lasting (eligible u)"
  unfolding lasting_def eligible_def
  by (metis fulfillment_steps_inv fulfillment_monoD(2) not_None_eq)

lemma lasting_prepared: "lasting (prepared u op)"
  unfolding lasting_def
proof (intro allI impI)
  fix d d' assume p: "prepared u op d" and st: "fulfillment_step\<^sup>*\<^sup>* d d'"
  then have el: "eligible u d'" using lasting_eligible [of u] by (auto simp: prepared_def lasting_def)
  from p obtain row where row: "get_row rr_order_id (ro_order_id op) (refunds d) = Some row" "refund_of_row row = op"
    and inv: "fulfillment_inv d" by (auto simp: prepared_def eligible_def)
  from fulfillment_monoD(3) [OF conjunct2 [OF fulfillment_steps_inv [OF st inv]] row(1)] row(2) el
  show "prepared u op d'" by (auto simp: prepared_def)
qed

lemma safe_read:
  assumes "benign fe" "lasting P" "\<And>d. snd (m d) = d"
  shows "safe P (store_step fe m) (\<lambda>_. P)"
  by (rule safe_store [OF assms(1,2)]) (auto simp: assms(3))

lemma read_states: "snd (get_status ft u d) = d" "snd (get_binding ft u d) = d" "snd (load_refund_context ft u d) = d"
  by (simp_all add: get_status_def get_binding_def load_refund_context_def)

lemma safe_ensure_analysis:
  assumes "benign fe"
  shows "safe fulfillment_inv (ensure_analysis fe http canonical sha st now u) (\<lambda>_. fulfillment_inv)"
  unfolding ensure_analysis_def
  by (rule safe_cbind [of _ _ "\<lambda>_. fulfillment_inv"] safe_answer safe_store [OF assms lasting_inv]
      | blast intro: fulfillment_step.intros | assumption)+

lemma safe_reconcile_analysis:
  assumes "benign fe"
  shows "safe fulfillment_inv (reconcile_analysis fe http now u) (\<lambda>_. fulfillment_inv)"
  unfolding reconcile_analysis_def
  by (rule safe_cbind [of _ _ "\<lambda>_. fulfillment_inv"], rule safe_read [OF assms lasting_inv read_states(2)])
     (auto split: option.splits intro!: safe_cbind [of _ _ "\<lambda>_. fulfillment_inv"] safe_answer
        safe_store [OF assms lasting_inv] fulfillment_step.intros)

lemma safe_ensure_report:
  assumes "benign fe"
  shows "safe fulfillment_inv (ensure_report fe http now u) (\<lambda>_. fulfillment_inv)"
  unfolding ensure_report_def
  by (rule safe_cbind [of _ _ "\<lambda>_. fulfillment_inv"], rule safe_read [OF assms lasting_inv read_states(2)])
     (auto split: option.splits intro!: safe_cbind [of _ _ "\<lambda>_. fulfillment_inv"] safe_answer
        safe_store [OF assms lasting_inv] fulfillment_step.intros)

text \<open>\<open>_reprove_eligibility\<close> answers with the resource of the binding that it read.\<close>

definition read_binding :: "uuid \<Rightarrow> analysis_operation option \<Rightarrow> fulfillment_db \<Rightarrow> bool" where
  "read_binding u op d = (fulfillment_inv d
     \<and> (op \<noteq> None \<longrightarrow> (\<exists>b. get_row b_order_id u (bindings d) = Some b \<and> op = Some (operation_from_row b))))"

lemma safe_get_binding:
  assumes "benign fe"
  shows "safe fulfillment_inv (store_step fe (get_binding ft u)) (read_binding u)"
  by (rule safe_store [OF assms lasting_inv])
     (auto simp: read_states read_binding_def get_binding_def reading_def split: if_splits)

lemma safe_reprove:
  assumes "benign fe"
  shows "safe fulfillment_inv (reprove_eligibility fe http u f) (\<lambda>(reason, ty, rid, tst). bound_resource u ty rid)"
proof (cases "refund_reasons f")
  case (Some reason)
  show ?thesis unfolding reprove_eligibility_def Some option.case
  proof (rule safe_cbind [OF safe_get_binding [OF assms]], goal_cases)
    case (1 op)
    show ?case
      by (auto split: option.splits intro!: safe_cbind [of _ _ "\<lambda>_. read_binding u op"] safe_answer
          simp: read_binding_def bound_resource_def names_resource_def operation_from_row_def)
  qed
qed (auto simp: reprove_eligibility_def intro!: safe_answer)

lemma safe_attention:
  assumes "benign fe"
  shows "safe (eligible u) (store_step fe (fulfillment_attention ft now u code rfail)) (\<lambda>_. fulfillment_inv)"
    "safe (prepared u op) (store_step fe (fulfillment_attention ft now u code rfail)) (\<lambda>_. fulfillment_inv)"
  by (rule safe_store [OF assms lasting_eligible], auto simp: eligible_def intro: fulfillment_step.attention)
     (rule safe_store [OF assms lasting_prepared], auto simp: prepared_def eligible_def intro: fulfillment_step.attention)

lemma safe_bind:
  assumes "benign fe"
  shows "safe (prepared u op) (store_step fe (bind_refund ft now op rf ext)) (\<lambda>_. fulfillment_inv)"
  by (rule safe_store [OF assms lasting_prepared])
     (auto simp: prepared_def eligible_def intro: fulfillment_step.bind_refund)

lemma prepare_refund_prepared:
  assumes "prepare_refund_operation ft now u intent d = (Inr op, d')"
  shows "get_row rr_order_id (ro_order_id op) (refunds d') \<noteq> None
    \<and> refund_of_row (the (get_row rr_order_id (ro_order_id op) (refunds d'))) = op"
proof -
  have "\<exists>row. get_row rr_order_id u (refunds d') = Some row \<and> op = refund_of_row row"
    using assms add_row_lookup [of rr_order_id "new_refund_row now u el intent" "refunds d" u for el]
    by (auto simp: prepare_refund_operation_def transaction_Inr_iff Let_def load_order_for_update_def
        new_refund_row_def split: option.splits if_splits)
  then obtain row where row: "get_row rr_order_id u (refunds d') = Some row" "op = refund_of_row row" by blast
  then have "ro_order_id op = u" using get_row_key [OF row(1)] by (simp add: refund_of_row_def)
  with row show ?thesis by simp
qed

lemma safe_settle:
  assumes "benign fe"
  shows "safe (prepared u op) (runtime_settle_refund fe sc now u op) (\<lambda>_. fulfillment_inv)"
proof -
  note a = safe_attention(2) [OF assms]
  have b: "safe (prepared u op) (on_invariant_error
      (cbind (answer (validate_refund_for_operation m op True)) (\<lambda>_. store_step fe (bind_refund ft now op m False)))
      (store_step fe (fulfillment_attention ft2 now u code True))) (\<lambda>_. fulfillment_inv)" for m ft ft2 code
    by (rule safe_catch [OF lasting_prepared safe_cbind [of _ _ "\<lambda>_. prepared u op"] a])
       (auto intro!: safe_answer safe_bind [OF assms])
  have c: "safe (prepared u op) (on_invariant_error
      (cbind (act (create_refund sc op)) (\<lambda>ev. cbind (answer (validate_refund_for_operation ev op True))
        (\<lambda>_. store_step fe (bind_refund ft now op ev False))))
      (store_step fe (fulfillment_attention ft2 now u code True))) (\<lambda>_. fulfillment_inv)" for ft ft2 code
  proof (rule safe_catch [OF lasting_prepared _ a], rule safe_cbind [of _ _ "\<lambda>_. prepared u op"])
    show "safe (prepared u op) (act (create_refund sc op)) (\<lambda>_. prepared u op)" by (rule safe_act)
    show "safe (prepared u op) (cbind (answer (validate_refund_for_operation ev op True))
        (\<lambda>_. store_step fe (bind_refund ft now op ev False))) (\<lambda>_. fulfillment_inv)" for ev
      by (rule safe_cbind [of _ _ "\<lambda>_. prepared u op"]) (auto intro!: safe_answer safe_bind [OF assms])
  qed
  show ?thesis
    unfolding runtime_settle_refund_def Let_def
    by (rule safe_cbind [of _ _ "\<lambda>_. prepared u op"], rule safe_ask) (auto intro: a b c safe_bind [OF assms])
qed

lemma safe_ensure_refund:
  assumes "benign fe"
  shows "safe fulfillment_inv (runtime_ensure_refund fe http sc st now u f) (\<lambda>_. fulfillment_inv)"
proof -
  have pre: "safe (eligible u) (store_step fe (prepare_refund_operation ft now u intent)) (\<lambda>op. prepared u op)" for ft intent
    by (rule safe_store [OF assms lasting_eligible])
       (auto intro: fulfillment_step.refund dest!: prepare_refund_prepared simp: prepared_def)
  have el: "safe (bound_resource u b c) (store_step fe (persist_refund_eligibility ft now u a b c d)) (\<lambda>_. eligible u)" for ft a b c d
  proof (rule safe_store [OF assms lasting_bound_resource])
    fix d0 :: fulfillment_db and x d' assume "bound_resource u b c d0" "bound_resource u b c d'"
      "persist_refund_eligibility ft now u a b c d d0 = (Inr x, d')"
    then show "eligible u d'"
      by (auto simp: eligible_def bound_resource_def persist_refund_eligibility_def transaction_Inr_iff load_order_for_update_def add_row_lookup
          split: option.splits if_splits)
  qed (auto simp: bound_resource_def intro: fulfillment_step.eligibility)
  have body: "safe (eligible u) (case x of (ord, checkout, y, z) \<Rightarrow>
       (case c_payment_intent checkout of
         None \<Rightarrow> store_step fe (fulfillment_attention (fe_attention fe) now u ''payment_intent_missing'' False)
       | Some pid \<Rightarrow>
           cbind (ask (retrieve_payment_intent sc pid)) (\<lambda>intent.
             if raised (validate_payment_intent intent ord checkout (s_expected_livemode st))
             then store_step fe (fulfillment_attention (fe_attention fe) now u ''payment_intent_binding_mismatch'' False)
             else
               cbind (store_step fe (prepare_refund_operation (fe_refund fe) now u intent)) (\<lambda>op.
               runtime_settle_refund fe sc now u op)))) (\<lambda>_. fulfillment_inv)" for x
    by (cases x)
       (auto split: option.splits intro!: safe_attention(1) [OF assms] safe_cbind [of _ "ask _" "\<lambda>_. eligible u"] safe_ask
          safe_cbind [OF pre] safe_settle [OF assms])
  show ?thesis
    unfolding runtime_ensure_refund_def
  proof (rule safe_cbind [OF safe_reprove [OF assms]])
    fix x :: "string \<times> string \<times> uuid \<times> string"
    obtain a b c d where x: "x = (a, b, c, d)" by (cases x) auto
    show "safe (case x of (reason, ty, rid, tst) \<Rightarrow> bound_resource u ty rid) (case x of (reason, resource_type, resource_id, terminal_state) \<Rightarrow>
      cbind (store_step fe (persist_refund_eligibility (fe_eligibility fe) now u reason resource_type resource_id
              terminal_state)) (\<lambda>_.
      cbind (store_step fe (load_refund_context (fe_context fe) u)) (\<lambda>(ord, checkout, _, _).
       case c_payment_intent checkout of
         None \<Rightarrow> store_step fe (fulfillment_attention (fe_attention fe) now u ''payment_intent_missing'' False)
       | Some pid \<Rightarrow>
           cbind (ask (retrieve_payment_intent sc pid)) (\<lambda>intent.
             if raised (validate_payment_intent intent ord checkout (s_expected_livemode st))
             then store_step fe (fulfillment_attention (fe_attention fe) now u ''payment_intent_binding_mismatch'' False)
             else
               cbind (store_step fe (prepare_refund_operation (fe_refund fe) now u intent)) (\<lambda>op.
               runtime_settle_refund fe sc now u op))))) (\<lambda>_. fulfillment_inv)"
      unfolding x prod.case
      by (rule safe_cbind [OF el], rule safe_cbind [OF safe_read [OF assms lasting_eligible read_states(3)] body])
  qed
qed

lemma safe_runtime_advance:
  assumes "benign fe"
  shows "safe fulfillment_inv (runtime_advance fe http sc canonical sha st now u) (\<lambda>_. fulfillment_inv)"
proof -
  have read: "safe fulfillment_inv (store_step fe (get_status ft u)) (\<lambda>_. fulfillment_inv)" for ft
    by (rule safe_read [OF assms lasting_inv read_states(1)])
  have bind: "safe fulfillment_inv (store_step fe (get_binding ft u)) (\<lambda>_. fulfillment_inv)" for ft
    by (rule safe_read [OF assms lasting_inv read_states(2)])
  have pend: "safe fulfillment_inv (cbind (store_step fe (get_binding (fe_binding fe) u)) (\<lambda>binding.
          if (case binding of None \<Rightarrow> True | Some op \<Rightarrow> ao_analysis_id op = None)
          then ensure_analysis fe http canonical sha st now u
          else reconcile_analysis fe http now u)) (\<lambda>_. fulfillment_inv)"
    by (rule safe_cbind [OF bind]) (auto intro: safe_ensure_analysis [OF assms] safe_reconcile_analysis [OF assms])
  have step: "safe fulfillment_inv (runtime_step fe http sc canonical sha st now u f) (\<lambda>_. fulfillment_inv)" for f
    unfolding runtime_step_def
    by (auto intro: pend safe_ensure_analysis [OF assms] safe_reconcile_analysis [OF assms] safe_ensure_report [OF assms]
        safe_ensure_refund [OF assms] safe_answer)
  show ?thesis
    unfolding runtime_advance_def
    by (rule safe_cbind [OF read]) (auto intro!: safe_answer safe_cbind [OF step] read)
qed

text \<open>
  C4: the production driver only takes steps of the abstract store. Whatever the API and Stripe
  answer, whatever faults hit its transactions and whatever other transactions commit between its
  calls, \<open>FulfillmentRuntimeService.advance\<close> moves the database along steps of the relation: it
  never records a refund for an operation that was not prepared and never marks an order without
  a persisted eligibility, so every reachable-state property holds after it.
\<close>

theorem runtime_advance_refines:
  assumes "benign fe" "fulfillment_inv d"
  shows "fulfillment_step\<^sup>*\<^sup>* d (fst (snd (runtime_advance fe http sc canonical sha st now u (d, w))))
    \<and> fulfillment_inv (fst (snd (runtime_advance fe http sc canonical sha st now u (d, w))))"
proof -
  from safe_run(1) [OF safe_runtime_advance [OF assms(1)], of "(d, w)"] assms(2)
  have "fulfillment_step\<^sup>*\<^sup>* d (fst (snd (runtime_advance fe http sc canonical sha st now u (d, w))))" by simp
  with fulfillment_steps_inv [OF this assms(2)] show ?thesis by simp
qed

section \<open>At most one refund is created\<close>

text \<open>\<open>creates P m\<close>: the service call \<open>m\<close> leaves the provider alone or changes it as \<open>P\<close> says.\<close>

definition creates :: "('w \<Rightarrow> 'w \<Rightarrow> bool) \<Rightarrow> (fulfillment_db \<times> 'w, fulfillment_error, 'a) call \<Rightarrow> bool" where
  "creates P m = (\<forall>s. snd (snd (m s)) = snd s \<or> P (snd s) (snd (snd (m s))))"

definition quiet :: "(fulfillment_db \<times> 'w, fulfillment_error, 'a) call \<Rightarrow> bool" where
  "quiet m = (\<forall>s. snd (snd (m s)) = snd s)"

lemma quiet_creates: "quiet m \<Longrightarrow> creates P m"
  by (simp add: quiet_def creates_def)

lemma quietD: "quiet m \<Longrightarrow> snd (snd (m s)) = snd s"
  unfolding quiet_def by blast

lemma createsD: "creates P m \<Longrightarrow> snd (snd (m s)) = snd s \<or> P (snd s) (snd (snd (m s)))"
  unfolding creates_def by blast

lemma quiet_simps [simp]: "quiet (answer r)" "quiet (ask f)" "quiet (store_step fe m')"
  by (auto simp: quiet_def answer_def ask_def store_step_def split: prod.splits)

lemma quiet_cbind: "quiet m \<Longrightarrow> (\<And>x. quiet (f x)) \<Longrightarrow> quiet (cbind m f)"
  by (auto simp: quiet_def cbind_def split: prod.splits sum.splits) (metis snd_conv)+

lemma creates_cbind:
  assumes "quiet m" "\<And>x s. fst (m s) = Inr x \<Longrightarrow> creates P (f x)"
  shows "creates P (cbind m f)"
  unfolding creates_def
proof
  fix s
  obtain r s1 where m: "m s = (r, s1)" by (cases "m s") auto
  have w: "snd s1 = snd s" using assms(1) m by (metis quiet_def snd_conv)
  show "snd (snd (cbind m f s)) = snd s \<or> P (snd s) (snd (snd (cbind m f s)))"
  proof (cases r)
    case (Inl e)
    with m w show ?thesis by (simp add: cbind_def)
  next
    case (Inr x)
    then have "creates P (f x)" using assms(2) [of s x] m by simp
    then have "snd (snd (f x s1)) = snd s1 \<or> P (snd s1) (snd (snd (f x s1)))" unfolding creates_def by blast
    with m Inr w show ?thesis by (simp add: cbind_def)
  qed
qed

lemma creates_then_quiet:
  assumes "creates P m" "\<And>x. quiet (f x)"
  shows "creates P (cbind m f)"
  unfolding creates_def
proof
  fix s
  obtain r s1 where m: "m s = (r, s1)" by (cases "m s") auto
  have w: "snd s1 = snd s \<or> P (snd s) (snd s1)" using assms(1) m by (metis creates_def snd_conv)
  show "snd (snd (cbind m f s)) = snd s \<or> P (snd s) (snd (snd (cbind m f s)))"
    using quietD [OF assms(2), of _ s1] w m by (cases r) (simp_all add: cbind_def)
qed

lemma creates_catch:
  assumes "creates P m" "quiet h"
  shows "creates P (on_invariant_error m h)"
  unfolding creates_def
proof
  fix s
  obtain r s1 where m: "m s = (r, s1)" by (cases "m s") auto
  have w: "snd s1 = snd s \<or> P (snd s) (snd s1)" using assms(1) m by (metis creates_def snd_conv)
  have "on_invariant_error m h s = (r, s1) \<or> on_invariant_error m h s = h s1"
    using m by (auto simp: on_invariant_error_def split: sum.splits fulfillment_error.splits)
  then show "snd (snd (on_invariant_error m h s)) = snd s \<or> P (snd s) (snd (snd (on_invariant_error m h s)))"
    using w m quietD [OF assms(2), of s1] by (elim disjE) simp_all
qed

text \<open>The one way the driver may change the provider.\<close>

definition sole_refund :: "'w stripe_client \<Rightarrow> uuid \<Rightarrow> 'w \<Rightarrow> 'w \<Rightarrow> bool" where
  "sole_refund sc u w w' = (\<exists>op. w' = snd (sc_create sc op w) \<and> sc_list sc (ro_payment_intent op) w = Some []
     \<and> ro_order_id op = u \<and> ro_key op = refund_provider_key u \<and> ro_amount op > 0 \<and> ro_currency op = ''USD'')"

lemma prepare_refund_op:
  assumes "fst (prepare_refund_operation ft now u intent d) = Inr op"
  shows "ro_order_id op = u \<and> ro_key op = refund_provider_key u \<and> ro_amount op > 0 \<and> ro_currency op = ''USD''"
proof -
  obtain d' where "prepare_refund_operation ft now u intent d = (Inr op, d')"
    using assms by (cases "prepare_refund_operation ft now u intent d") auto
  then show ?thesis
    by (auto simp: prepare_refund_operation_def transaction_Inr_iff Let_def load_order_for_update_def refund_identity_def
        refund_of_row_def new_refund_row_def dest: get_row_key split: option.splits if_splits)
qed

lemma settle_creates:
  assumes op: "ro_order_id op = u \<and> ro_key op = refund_provider_key u \<and> ro_amount op > 0 \<and> ro_currency op = ''USD''"
  shows "creates (sole_refund sc u) (runtime_settle_refund fe sc now u op)"
  unfolding creates_def
proof
  fix s
  let ?at = "\<lambda>code. store_step fe (fulfillment_attention (fe_attention fe) now u code True)"
  have act: "creates (\<lambda>w w'. w' = snd (sc_create sc op w)) (on_invariant_error
        (cbind (act (create_refund sc op)) (\<lambda>ev. cbind (answer (validate_refund_for_operation ev op True))
          (\<lambda>_. store_step fe (bind_refund (fe_bind_refund fe) now op ev False)))) (?at ''refund_provider_binding_mismatch''))"
  proof (rule creates_catch, rule creates_then_quiet)
    show "creates (\<lambda>w w'. w' = snd (sc_create sc op w)) (act (create_refund sc op))"
      by (auto simp: creates_def act_def create_refund_def split: prod.splits option.splits)
  qed (auto intro: quiet_cbind)
  have adopt: "quiet (on_invariant_error (cbind (answer (validate_refund_for_operation m op True))
      (\<lambda>_. store_step fe (bind_refund (fe_bind_refund fe) now op m False))) (?at code))" for m code
  proof -
    have "creates (\<lambda>w w'. False) (on_invariant_error (cbind (answer (validate_refund_for_operation m op True))
      (\<lambda>_. store_step fe (bind_refund (fe_bind_refund fe) now op m False))) (?at code))"
      by (intro creates_catch quiet_creates quiet_cbind) auto
    then show ?thesis by (simp add: creates_def quiet_def)
  qed
  show "snd (snd (runtime_settle_refund fe sc now u op s)) = snd s
      \<or> sole_refund sc u (snd s) (snd (snd (runtime_settle_refund fe sc now u op s)))"
  proof (cases "sc_list sc (ro_payment_intent op) (snd s)")
    case None
    then show ?thesis by (simp add: runtime_settle_refund_def cbind_def ask_def list_refunds_def Let_def)
  next
    case (Some objs)
    note run = runtime_settle_refund_def cbind_def [of "ask _"] ask_def list_refunds_def Let_def
    show ?thesis
    proof (cases "objs = []")
      case True
      let ?m = "on_invariant_error
        (cbind (act (create_refund sc op)) (\<lambda>ev. cbind (answer (validate_refund_for_operation ev op True))
          (\<lambda>_. store_step fe (bind_refund (fe_bind_refund fe) now op ev False)))) (?at ''refund_provider_binding_mismatch'')"
      have "runtime_settle_refund fe sc now u op s = ?m s" using True Some by (simp add: run)
      with createsD [OF act, of s] Some True op show ?thesis unfolding sole_refund_def by auto
    next
      case False
      with Some show ?thesis
        by (simp add: run quietD [OF adopt] quietD [OF quiet_simps(3)])
    qed
  qed
qed

lemma quiet_advance_parts:
  "quiet (ensure_analysis fe http canonical sha st now u)" "quiet (reconcile_analysis fe http now u)"
  "quiet (ensure_report fe http now u)" "quiet (reprove_eligibility fe http u f)"
  unfolding ensure_analysis_def reconcile_analysis_def ensure_report_def reprove_eligibility_def
  by (auto intro!: quiet_cbind split: option.splits prod.splits)

lemma ensure_refund_creates: "creates (sole_refund sc u) (runtime_ensure_refund fe http sc st now u f)"
proof -
  have pre: "creates (sole_refund sc u) (cbind (store_step fe (prepare_refund_operation ft now u intent)) (\<lambda>op.
      runtime_settle_refund fe sc now u op))" for ft intent
  proof (rule creates_cbind)
    fix op s assume "fst (store_step fe (prepare_refund_operation ft now u intent) s) = Inr op"
    then have "fst (prepare_refund_operation ft now u intent (fe_other fe (fst s))) = Inr op"
      by (auto simp: store_step_def split: prod.splits)
    from settle_creates [OF prepare_refund_op [OF this]] show "creates (sole_refund sc u) (runtime_settle_refund fe sc now u op)" .
  qed simp
  show ?thesis
    unfolding runtime_ensure_refund_def
    by (auto intro!: creates_cbind quiet_creates [of "store_step _ _"] pre simp: quiet_advance_parts split: option.splits prod.splits)
qed

text \<open>
  C5: one call of the driver creates at most one refund, and only when Stripe lists none. If the
  provider's state changed at all, it changed by exactly one creation, of an operation of this
  order, under the order's own idempotency key, of a positive USD amount, and the listing of the
  payment intent's refunds had just come back empty.
\<close>

theorem refund_created_only_when_none_listed:
  assumes "snd (snd (runtime_advance fe http sc canonical sha st now u (d, w))) \<noteq> w"
  shows "\<exists>op. snd (snd (runtime_advance fe http sc canonical sha st now u (d, w))) = snd (sc_create sc op w)
    \<and> sc_list sc (ro_payment_intent op) w = Some []
    \<and> ro_order_id op = u \<and> ro_key op = refund_provider_key u \<and> ro_amount op > 0 \<and> ro_currency op = ''USD''"
proof -
  have pend: "quiet (cbind (store_step fe (get_binding (fe_binding fe) u)) (\<lambda>binding.
          if (case binding of None \<Rightarrow> True | Some op \<Rightarrow> ao_analysis_id op = None)
          then ensure_analysis fe http canonical sha st now u
          else reconcile_analysis fe http now u))"
    by (rule quiet_cbind) (simp_all add: quiet_advance_parts)
  have "creates (sole_refund sc u) (runtime_step fe http sc canonical sha st now u f)" for f
    by (auto simp: runtime_step_def quiet_advance_parts intro: quiet_creates ensure_refund_creates pend)
  then have "creates (sole_refund sc u) (cbind (runtime_step fe http sc canonical sha st now u f)
      (\<lambda>_. store_step fe (get_status (fe_final fe) u)))" for f
    by (rule creates_then_quiet) simp
  then have "creates (sole_refund sc u) (runtime_advance fe http sc canonical sha st now u)"
    unfolding runtime_advance_def
    by (intro creates_cbind [of "store_step _ _"]) (simp_all add: quiet_creates [of "answer _"])
  from createsD [OF this, of "(d, w)"] assms show ?thesis by (simp add: sole_refund_def)
qed

text \<open>
  The crash window of a refund closes. Suppose Stripe created the refund but the local commit
  was lost. When the driver settles the prepared operation again and Stripe lists exactly that
  refund with this operation's identity, the driver creates nothing: it binds the listed refund,
  and the order gets the payment state of the refund's status.
\<close>

theorem settle_adopts_listed_refund:
  assumes "sc_list sc (ro_payment_intent op) w = Some [obj]" "rf = refund_evidence_of obj"
    and "validate_refund_for_operation rf op True = Inr ()"
    and "order_of (ro_order_id op) d = Some x" "get_row rr_order_id (ro_order_id op) (refunds d) = Some row"
    and "rr_refund_id row = None \<or> rr_refund_id row = Some (rf_id rf)"
    and "list_all (\<lambda>r. rr_order_id r = ro_order_id op \<or> rr_refund_id r \<noteq> Some (rf_id rf)) (refunds d)"
    and "fe_bind_refund fe = Healthy" "fe_other fe = (\<lambda>d. d)"
  shows "\<exists>d'. runtime_settle_refund fe sc now u op (d, w) = (Inr (), (d', w))
    \<and> order_of (ro_order_id op) d' = Some (refunded_order (rf_status rf) now x)
    \<and> (\<exists>row'. get_row rr_order_id (ro_order_id op) (refunds d') = Some row' \<and> rr_refund_id row' = Some (rf_id rf)
        \<and> rr_refund_status row' = Some (rf_status rf))"
proof -
  have v: "starts_with ''re_'' (rf_id rf)" "rf_status rf \<in> set refund_statuses" "rf_payment_intent rf = ro_payment_intent op"
      "rf_amount rf = ro_amount op" "rf_currency rf = ro_currency op" "metadata_matches (rf_metadata rf) op"
    using assms(3) by (auto simp: validate_refund_for_operation_def split: if_splits)
  have ne: "rf_id rf \<noteq> []" using v(1) by (auto simp: starts_with_def)
  let ?row = "reconciled_row now rf False row"
  let ?d = "put_order (refunded_order (rf_status rf) now x) (d\<lparr>refunds := put_row rr_order_id ?row (refunds d)\<rparr>)"
  have b: "bind_refund Healthy now op rf False d = (Inr (), ?d)"
    using v ne assms(4-7) by (auto simp: bind_refund_def transaction_def load_order_for_update_def Let_def)
  have "runtime_settle_refund fe sc now u op (d, w) = (Inr (), (?d, w))"
    using assms(1-3,8,9) v(6) b
    by (simp add: runtime_settle_refund_def Let_def cbind_def ask_def list_refunds_def is_matching_refund_def
        on_invariant_error_def answer_def store_step_def)
  moreover have id: "rr_order_id ?row = ro_order_id op" using get_row_key [OF assms(5)] by (simp add: reconciled_row_def)
  moreover have "rr_refund_id ?row = Some (rf_id rf)" "rr_refund_status ?row = Some (rf_status rf)"
    using ne by (simp_all add: reconciled_row_def)
  moreover have "order_of (ro_order_id op) ?d = Some (refunded_order (rf_status rf) now x)"
    using assms(4) order_of_id [OF assms(4)] by simp
  moreover have "get_row rr_order_id (ro_order_id op) (put_row rr_order_id ?row (refunds d)) = Some ?row"
    using put_row_lookup [of rr_order_id ?row "refunds d"] id assms(5) by simp
  ultimately show ?thesis by auto
qed

text \<open>
  C23: a lost answer is retried with the same request. If the first attempt prepared the analysis
  (its commit may even have been reported as failed), then preparing again later, with other
  settings in force, returns the same operation and writes nothing, so the repeated POST has the
  same body, target and idempotency key.
\<close>

theorem resubmission_is_identical:
  assumes "prepare_analysis_operation Healthy canonical sha st now u d = (Inr op, d1)"
    and "ft \<noteq> Rolled_back" "d1' = snd (prepare_analysis_operation ft canonical sha st now u d)"
  shows "prepare_analysis_operation Healthy canonical sha st2 now2 u d1' = (Inr op, d1')"
proof -
  have same: "d1' = d1"
    using assms unfolding prepare_analysis_operation_def
    by (cases ft) (auto simp: transaction_def split: prod.splits sum.splits)
  obtain x where x: "order_of u d = Some x" "o_payment x = P_Paid" "o_state x \<in> {O_Paid, O_In_Progress}"
      "o_fulfillment x \<notin> {F_Completed, F_Delivery_Pending}"
    using assms(1) by (auto simp: prepare_analysis_operation_def transaction_Inr_iff load_order_for_update_def
        split: option.splits if_splits)
  show ?thesis
  proof (cases "get_row b_order_id u (bindings d)")
    case (Some row)
    then have "d1 = d" "check_operation canonical sha u x (operation_from_row row) = Inr op"
      using assms(1) x by (auto simp: prepare_analysis_operation_def transaction_Inr_iff load_order_for_update_def)
    with x Some show ?thesis
      by (auto simp: same prepare_analysis_operation_def transaction_def load_order_for_update_def)
  next
    case None
    obtain payload where pl: "analysis_request_from_order x = Inr payload"
      using assms(1) x None by (auto simp: prepare_analysis_operation_def transaction_Inr_iff load_order_for_update_def
        split: sum.splits if_splits)
    let ?row = "new_binding_row canonical sha st now u payload"
    let ?x = "if o_state x = O_Paid then x\<lparr>o_state := O_In_Progress, o_fulfillment := F_Analysis_Pending, o_updated_at := now\<rparr> else x"
    have id: "o_id x = u" by (rule order_of_id [OF x(1)])
    have r: "check_operation canonical sha u ?x (operation_from_row ?row) = Inr op"
      "d1 = (if o_state x = O_Paid then put_order ?x (d\<lparr>bindings := add_row ?row (bindings d)\<rparr>) else d\<lparr>bindings := add_row ?row (bindings d)\<rparr>)"
      using assms(1) x None pl
      by (auto simp: prepare_analysis_operation_def transaction_Inr_iff load_order_for_update_def Let_def split: if_splits)
    have ox: "order_of u d1 = Some ?x" using x(1) id unfolding r(2) by simp
    have "get_row b_order_id u (add_row ?row (bindings d)) = Some ?row"
      using add_row_lookup [of b_order_id ?row "bindings d" u] None by (simp add: new_binding_row_def)
    then have row: "get_row b_order_id u (bindings d1) = Some ?row" unfolding r(2) by simp
    have "o_payment ?x = P_Paid" "o_state ?x \<in> {O_Paid, O_In_Progress}" "o_fulfillment ?x \<notin> {F_Completed, F_Delivery_Pending}"
      using x by auto
    with ox row r(1) show ?thesis
      unfolding same by (simp add: prepare_analysis_operation_def transaction_def load_order_for_update_def)
  qed
qed

section \<open>A concrete order: paid, not score ready, refunded\<close>

definition run_env :: fulfillment_env where
  "run_env = \<lparr>fe_status = Healthy, fe_prepare = Healthy, fe_binding = Healthy, fe_bind = Healthy,
     fe_eligibility = Healthy, fe_context = Healthy, fe_refund = Healthy, fe_bind_refund = Healthy,
     fe_attention = Healthy, fe_final = Healthy, fe_other = (\<lambda>d. d)\<rparr>"

definition run_http :: sitescore_http where
  "run_http rq = Http_Response 200 (Some (JObj [(''api_version'', JStr ''v1''), (''analysis_id'', JStr (uuid_str 50)),
     (''state'', JStr ''not_score_ready'')]))"

text \<open>A provider whose state is the list of the refunds it created.\<close>

definition run_stripe :: "stripe_object list stripe_client" where
  "run_stripe = \<lparr>sc_intent = (\<lambda>pid w. Some \<lparr>so_id = Some pid, so_payment_intent = None, so_amount = Some 4900,
       so_currency = Some ''usd'', so_livemode = Some False, so_status = None,
       so_metadata = [(''sitescore_order_id'', uuid_str 7), (''sitescore_product_code'', ''location_report_v1'')]\<rparr>),
     sc_list = (\<lambda>pid w. Some w),
     sc_create = (\<lambda>op w. let obj = \<lparr>so_id = Some ''re_1'', so_payment_intent = Some (ro_payment_intent op),
         so_amount = Some (ro_amount op), so_currency = Some ''usd'', so_livemode = Some False,
         so_status = Some ''succeeded'', so_metadata = refund_metadata op\<rparr> in (Some obj, obj # w))\<rparr>"

definition run_driver :: "int \<Rightarrow> (fulfillment_db \<times> stripe_object list, fulfillment_error, automation_status) call" where
  "run_driver now = runtime_advance run_env run_http run_stripe (\<lambda>_. ''c'') (\<lambda>_. ''ab'') run_settings now 7"

definition run_fulfillment :: fulfillment_db where
  "run_fulfillment = \<lparr>shop = run_paid, bindings = [], eligibilities = [], refunds = []\<rparr>"

definition run_unready :: fulfillment_db where
  "run_unready = fst (snd (run_driver 10 (run_fulfillment, [])))"

definition run_refunded :: "fulfillment_db \<times> stripe_object list" where
  "run_refunded = snd (run_driver 11 (run_unready, []))"

lemma upper_usd: "upper ''usd'' = ''USD''"
  by code_simp

lemmas driver_simps = run_driver_def runtime_advance_def runtime_step_def ensure_analysis_def store_step_def cbind_def
  get_status_def reading_def status_of_order_def order_of_def run_env_def answer_def submit_analysis_def
  sitescore_request_def run_http_def analysis_answer_def api_v1_def gateway_uuid_def state_text_def analysis_states_def
  bind_analysis_def load_order_for_update_def transaction_def apply_analysis_state_def analysis_fulfillment_def
  prepare_analysis_operation_def analysis_request_from_order_def new_binding_row_def check_operation_def
  operation_from_row_def put_order_def Let_def

lemma run_paid_order: "orders run_paid = [\<lparr>o_id = 7, o_product_code = ''location_report_v1'', o_catalog_version = ''2026-07-01'',
    o_customer_email = ''a@b.co'', o_purchase_intent = JObj [(''analysis_request'', JObj [(''sector'', JStr ''gym'')])],
    o_request_hash = ''h'', o_state = O_Paid, o_payment = P_Paid, o_fulfillment = F_Not_Started, o_created_at = 1, o_updated_at = 4\<rparr>]"
  by (simp add: run_simps)

lemma run_paid_checkout: "\<exists>c. get_row c_order_id 7 (checkouts run_paid) = Some c \<and> c_payment_intent c = Some ''pi_1''"
  by (simp add: run_simps)

lemma run_unready_rows:
  "\<exists>b. bindings run_unready = [b] \<and> b_order_id b = 7 \<and> b_analysis_id b = Some 50 \<and> b_target_id b = ''api-1''
    \<and> checkouts (shop run_unready) = checkouts run_paid \<and> refunds run_unready = [] \<and> eligibilities run_unready = []
    \<and> (\<exists>x. orders (shop run_unready) = [x] \<and> o_id x = 7 \<and> o_product_code x = ''location_report_v1''
         \<and> o_state x = O_In_Progress \<and> o_payment x = P_Paid \<and> o_fulfillment x = F_Not_Score_Ready)"
  by (simp add: run_unready_def run_fulfillment_def run_paid_order driver_simps get_row_def put_row_def add_row_def
     run_settings_def)

lemma run_refunded_rows:
  "fst (run_driver 11 (run_unready, [])) \<noteq> Inl e \<and> length (snd run_refunded) = 1
    \<and> (\<exists>x. order_of 7 (fst run_refunded) = Some x \<and> o_state x = O_Refunded \<and> o_payment x = P_Refunded)
    \<and> (\<exists>r. refunds (fst run_refunded) = [r] \<and> rr_order_id r = 7 \<and> rr_refund_id r = Some ''re_1'')
    \<and> bindings (fst run_refunded) = bindings run_unready"
proof -
  obtain b x c where r: "bindings run_unready = [b]" "b_order_id b = 7" "b_analysis_id b = Some 50" "b_target_id b = ''api-1''"
    "checkouts (shop run_unready) = checkouts run_paid" "refunds run_unready = []" "eligibilities run_unready = []"
    "orders (shop run_unready) = [x]" "o_id x = 7" "o_product_code x = ''location_report_v1''"
    "o_state x = O_In_Progress" "o_payment x = P_Paid" "o_fulfillment x = F_Not_Score_Ready"
    "get_row c_order_id 7 (checkouts run_paid) = Some c" "c_payment_intent c = Some ''pi_1''"
    using run_unready_rows run_paid_checkout by blast
  have o: "order_of 7 run_unready = Some x" using r by (simp add: order_of_def get_row_def)
  show ?thesis
    unfolding run_refunded_def
    using r o
    by (simp add: run_driver_def runtime_advance_def runtime_step_def store_step_def cbind_def get_status_def reading_def
      status_of_order_def run_env_def answer_def runtime_ensure_refund_def reprove_eligibility_def get_binding_def
      operation_from_row_def refund_reason_states_def get_analysis_def sitescore_request_def run_http_def analysis_answer_def
      api_v1_def gateway_uuid_def state_text_def analysis_states_def persist_refund_eligibility_def transaction_def
      load_order_for_update_def load_refund_context_def ask_def retrieve_payment_intent_def run_stripe_def text_or_empty_def
      upper_usd validate_payment_intent_def starts_with_def run_settings_def prepare_refund_operation_def new_refund_row_def
      refund_of_row_def runtime_settle_refund_def list_refunds_def on_invariant_error_def act_def create_refund_def
      refund_evidence_of_def validate_refund_for_operation_def refund_statuses_def metadata_matches_def refund_metadata_def
      bind_refund_def refunded_order_def reconciled_row_def put_order_def order_of_def get_row_def put_row_def add_row_def
      refund_operation_version_def Let_def)
qed

lemma run_env_benign: "benign run_env"
  by (simp add: benign_def run_env_def)

lemma commerce_steps_shop: "commerce_step\<^sup>*\<^sup>* (shop d) s \<Longrightarrow> fulfillment_step\<^sup>*\<^sup>* d (d\<lparr>shop := s\<rparr>)"
proof (induction rule: rtranclp_induct)
  case (step s1 s2)
  have "fulfillment_step (d\<lparr>shop := s1\<rparr>) ((d\<lparr>shop := s1\<rparr>)\<lparr>shop := s2\<rparr>)"
    by (rule fulfillment_step.shop) (simp add: step)
  with step(3) show ?case by simp
qed simp

lemma run_fulfillment_reachable: "fulfillment_reachable run_fulfillment"
proof -
  have c: "commerce_step\<^sup>*\<^sup>* empty_commerce run_created"
    unfolding run_created_def by (rule r_into_rtranclp, rule commerce_step.create) simp
  have r: "commerce_step\<^sup>*\<^sup>* empty_commerce run_received" unfolding run_received_def
    by (rule rtranclp.rtrancl_into_rtrancl [OF rtranclp.rtrancl_into_rtrancl [OF c commerce_step.bind] commerce_step.record_event])
  have "commerce_step\<^sup>*\<^sup>* (shop empty_fulfillment) run_paid" unfolding run_paid_def empty_fulfillment_def
    using rtranclp.rtrancl_into_rtrancl [OF r commerce_step.webhook] by simp
  from commerce_steps_shop [OF this] show ?thesis
    by (simp add: fulfillment_reachable_def run_fulfillment_def empty_fulfillment_def)
qed

lemma run_driver_reachable:
  assumes "fulfillment_reachable d"
  shows "fulfillment_reachable (fst (snd (run_driver now (d, w))))"
proof -
  have "fulfillment_step\<^sup>*\<^sup>* (fst (d, w)) (fst (snd (run_driver now (d, w))))"
    unfolding run_driver_def
    by (rule safe_run(1) [OF safe_runtime_advance [OF run_env_benign]]) (simp add: fulfillment_reachable_inv [OF assms])
  then show ?thesis using assms unfolding fulfillment_reachable_def by simp
qed

lemma run_unready_reachable: "fulfillment_reachable run_unready"
  unfolding run_unready_def by (rule run_driver_reachable [OF run_fulfillment_reachable])

lemma run_refunded_reachable: "fulfillment_reachable (fst run_refunded)"
  unfolding run_refunded_def by (rule run_driver_reachable [OF run_unready_reachable])

theorem refunded_only_with_evidence_witness:
  "\<exists>r. filter (\<lambda>r. rr_order_id r = 7) (refunds (fst run_refunded)) = [r] \<and> rr_refund_status r = Some ''succeeded'' \<and> rr_amount r > 0
    \<and> (\<exists>b. get_row b_order_id 7 (bindings (fst run_refunded)) = Some b
         \<and> (b_analysis_id b = Some (rr_resource_id r) \<or> b_report_id b = Some (rr_resource_id r)))"
proof -
  obtain x where "order_of 7 (fst run_refunded) = Some x" "o_payment x = P_Refunded" using run_refunded_rows by blast
  from refunded_only_with_evidence [OF run_refunded_reachable this] show ?thesis by blast
qed

theorem identities_write_once_witness:
  "\<exists>b'. get_row b_order_id 7 (bindings (fst run_refunded)) = Some b' \<and> b_analysis_id b' = Some 50"
proof -
  obtain b where b: "bindings run_unready = [b]" "b_order_id b = 7" "b_analysis_id b = Some 50" using run_unready_rows by blast
  have row: "get_row b_order_id 7 (bindings run_unready) = Some b" using b by (simp add: get_row_def)
  have "fulfillment_step\<^sup>*\<^sup>* (fst (run_unready, [] :: stripe_object list)) (fst run_refunded)"
    unfolding run_refunded_def run_driver_def
    by (rule safe_run(1) [OF safe_runtime_advance [OF run_env_benign]]) (simp add: fulfillment_reachable_inv [OF run_unready_reachable])
  then have st: "fulfillment_step\<^sup>*\<^sup>* run_unready (fst run_refunded)" by simp
  from conjunct1 [OF identities_write_once [OF run_unready_reachable st, of 7 b]] row b(3) show ?thesis by auto
qed

theorem runtime_advance_refines_witness:
  "fulfillment_step\<^sup>*\<^sup>* run_fulfillment run_unready \<and> fulfillment_inv run_unready"
  unfolding run_unready_def run_driver_def
  by (rule runtime_advance_refines [OF run_env_benign fulfillment_reachable_inv [OF run_fulfillment_reachable]])

theorem refund_created_only_when_none_listed_witness:
  "snd run_refunded \<noteq> [] \<and> (\<exists>op. snd run_refunded = snd (sc_create run_stripe op []) \<and> ro_key op = refund_provider_key 7)"
proof -
  have ne: "snd run_refunded \<noteq> []" using run_refunded_rows by auto
  then have "snd (snd (runtime_advance run_env run_http run_stripe (\<lambda>_. ''c'') (\<lambda>_. ''ab'') run_settings 11 7 (run_unready, []))) \<noteq> []"
    by (simp add: run_refunded_def run_driver_def)
  from refund_created_only_when_none_listed [OF this] ne show ?thesis by (auto simp: run_refunded_def run_driver_def)
qed

theorem resubmission_is_identical_witness:
  "\<exists>op d1. prepare_analysis_operation Healthy (\<lambda>_. ''c'') (\<lambda>_. ''ab'') run_settings 10 7 run_fulfillment = (Inr op, d1)
     \<and> prepare_analysis_operation Healthy (\<lambda>_. ''c'') (\<lambda>_. ''ab'') (run_settings\<lparr>s_base_url := ''https://other''\<rparr>) 12 7 d1 = (Inr op, d1)"
proof -
  have "\<exists>op d1. prepare_analysis_operation Healthy (\<lambda>_. ''c'') (\<lambda>_. ''ab'') run_settings 10 7 run_fulfillment = (Inr op, d1)"
    by (simp add: run_fulfillment_def run_paid_order driver_simps get_row_def put_row_def add_row_def run_settings_def)
  then obtain op d1 where p: "prepare_analysis_operation Healthy (\<lambda>_. ''c'') (\<lambda>_. ''ab'') run_settings 10 7 run_fulfillment = (Inr op, d1)"
    by blast
  have "d1 = snd (prepare_analysis_operation Ack_lost (\<lambda>_. ''c'') (\<lambda>_. ''ab'') run_settings 10 7 run_fulfillment)"
    using p unfolding prepare_analysis_operation_def by (auto simp: transaction_def split: prod.splits sum.splits)
  from resubmission_is_identical [OF p _ this] p show ?thesis by blast
qed

theorem settle_adopts_listed_refund_witness:
  "\<exists>op obj d'. runtime_settle_refund run_env run_stripe 12 7 op (fst run_refunded, [obj]) = (Inr (), (d', [obj]))"
proof -
  let ?op = "\<lparr>ro_order_id = 7, ro_version = refund_operation_version, ro_key = refund_provider_key 7,
    ro_reason = ''analysis_failed'', ro_resource_type = ''analysis'', ro_resource_id = 50,
    ro_payment_intent = ''pi_1'', ro_amount = 4900, ro_currency = ''USD''\<rparr>"
  let ?obj = "\<lparr>so_id = Some ''re_1'', so_payment_intent = Some ''pi_1'', so_amount = Some 4900, so_currency = Some ''usd'',
    so_livemode = Some False, so_status = Some ''pending'', so_metadata = refund_metadata ?op\<rparr>"
  obtain x where x: "order_of 7 (fst run_refunded) = Some x" using run_refunded_rows by blast
  obtain r where r: "get_row rr_order_id 7 (refunds (fst run_refunded)) = Some r" "rr_refund_id r = Some ''re_1''"
    "list_all (\<lambda>r. rr_order_id r = 7 \<or> rr_refund_id r \<noteq> Some ''re_1'') (refunds (fst run_refunded))"
    using run_refunded_rows [of undefined] by (auto simp: get_row_def)
  have x': "order_of (ro_order_id ?op) (fst run_refunded) = Some x"
    and r': "get_row rr_order_id (ro_order_id ?op) (refunds (fst run_refunded)) = Some r" using x r(1) by simp_all
  have "\<exists>d'. runtime_settle_refund run_env run_stripe 12 7 ?op (fst run_refunded, [?obj]) = (Inr (), (d', [?obj]))
    \<and> order_of (ro_order_id ?op) d' = Some (refunded_order (rf_status (refund_evidence_of ?obj)) 12 x)
    \<and> (\<exists>row'. get_row rr_order_id (ro_order_id ?op) (refunds d') = Some row' \<and> rr_refund_id row' = Some (rf_id (refund_evidence_of ?obj))
        \<and> rr_refund_status row' = Some (rf_status (refund_evidence_of ?obj)))"
    by (rule settle_adopts_listed_refund [OF _ refl _ x' r'])
       (use r in \<open>simp_all add: run_stripe_def run_env_def refund_evidence_of_def validate_refund_for_operation_def
          text_or_empty_def upper_usd starts_with_def refund_statuses_def metadata_matches_def refund_metadata_def\<close>)
  then show ?thesis by blast
qed

section \<open>Behaviours the operators should know\<close>

text \<open>
  The base driver of \<open>fulfillment.py\<close> strands an order whose first analysis submission failed.
  Once the operation is prepared (the order is \<open>analysis_pending\<close>, no analysis is bound), every
  further \<open>FulfillmentService.advance\<close> raises, whatever the API answers, while the production
  driver resubmits the prepared operation.
\<close>

theorem base_driver_strands_pending_order:
  assumes "order_of u d = Some x" "o_state x = O_In_Progress" "o_payment x = P_Paid" "o_fulfillment x = F_Analysis_Pending"
    and "get_row b_order_id u (bindings d) = Some b" "b_analysis_id b = None"
    and "fe = run_env"
  shows "advance fe http sc canonical sha st now u (d, w)
      = (Inl (Fulfillment_Invariant ''bound analysis is unavailable''), (d, w))
    \<and> fst (runtime_step fe http sc canonical sha st now u (o_fulfillment x) (d, w))
      = fst (ensure_analysis fe http canonical sha st now u (d, w))"
  using assms
  by (simp_all add: advance_def runtime_step_def cbind_def store_step_def run_env_def get_status_def reading_def
      status_of_order_def answer_def reconcile_analysis_def get_binding_def operation_from_row_def)

text \<open>
  A late analysis answer overwrites a refund. \<open>bind_analysis\<close> checks the binding but not the
  order's state: an answer fetched before another driver refunded the order and committed after
  it turns the refunded order back into a paid one in progress.
\<close>

theorem late_analysis_overwrites_refund:
  assumes "order_of u d = Some x" "get_row b_order_id u (bindings d) = Some b"
    and "b_analysis_id b = Some (ae_analysis_id ev)" "analysis_fulfillment (ae_state ev) = Some f"
    and "list_all (\<lambda>b. b_order_id b = u \<or> b_analysis_id b \<noteq> Some (ae_analysis_id ev)) (bindings d)"
  shows "order_of u (snd (bind_analysis Healthy now u ev d))
    = Some (x\<lparr>o_state := O_In_Progress, o_payment := P_Paid, o_fulfillment := f, o_updated_at := now\<rparr>)"
proof -
  have "ae_state ev \<in> set analysis_states"
    using assms(4) by (auto simp: analysis_fulfillment_def analysis_states_def split: if_splits)
  then show ?thesis
    using assms order_of_id [OF assms(1)]
    by (simp add: bind_analysis_def transaction_def load_order_for_update_def apply_analysis_state_def Let_def)
qed

lemma starts_with_append: "starts_with p s \<longleftrightarrow> s = p @ drop (length p) s"
  unfolding starts_with_def by (metis append_eq_conv_conj append_take_drop_id)

text \<open>
  The automation endpoint accepts exactly the configured key as a bearer token.
\<close>

theorem authorize_automation_exact:
  "authorize_automation st authorization = Inr () \<longleftrightarrow>
     s_automation_key st \<noteq> [] \<and> authorization = Some (''Bearer '' @ s_automation_key st)"
proof -
  have bearer: "starts_with ''Bearer '' a \<and> drop 7 a = k \<longleftrightarrow> a = ''Bearer '' @ k" for a k
    using starts_with_append [of "''Bearer ''" a] by (auto simp: eval_nat_numeral)
  have "authorize_automation st (Some a) = Inr () \<longleftrightarrow> s_automation_key st \<noteq> [] \<and> a = ''Bearer '' @ s_automation_key st" for a
    using bearer [of a "s_automation_key st"] by (auto simp: authorize_automation_def)
  then show ?thesis
    by (cases authorization) (simp_all add: authorize_automation_def)
qed

theorem late_analysis_overwrites_refund_witness:
  "\<exists>x x'. order_of 7 (fst run_refunded) = Some x \<and> o_payment x = P_Refunded
    \<and> order_of 7 (snd (bind_analysis Healthy 20 7 \<lparr>ae_analysis_id = 50, ae_state = ''not_score_ready''\<rparr> (fst run_refunded))) = Some x'
    \<and> o_payment x' = P_Paid"
proof -
  obtain b where b: "bindings (fst run_refunded) = [b]" "b_order_id b = 7" "b_analysis_id b = Some 50"
    using run_unready_rows run_refunded_rows [of undefined] by auto
  obtain x where x: "order_of 7 (fst run_refunded) = Some x" "o_payment x = P_Refunded" using run_refunded_rows by blast
  have "order_of 7 (snd (bind_analysis Healthy 20 7 \<lparr>ae_analysis_id = 50, ae_state = ''not_score_ready''\<rparr> (fst run_refunded)))
    = Some (x\<lparr>o_state := O_In_Progress, o_payment := P_Paid, o_fulfillment := F_Not_Score_Ready, o_updated_at := 20\<rparr>)"
    by (rule late_analysis_overwrites_refund [OF x(1)]) (use b in \<open>simp_all add: get_row_def analysis_fulfillment_def\<close>)
  with x show ?thesis by simp
qed

theorem base_driver_strands_pending_order_witness:
  "\<exists>d1. d1 = snd (prepare_analysis_operation Healthy (\<lambda>_. ''c'') (\<lambda>_. ''ab'') run_settings 10 7 run_fulfillment)
    \<and> fst (advance run_env run_http run_stripe (\<lambda>_. ''c'') (\<lambda>_. ''ab'') run_settings 11 7 (d1, []))
        = Inl (Fulfillment_Invariant ''bound analysis is unavailable'')"
proof -
  let ?d1 = "snd (prepare_analysis_operation Healthy (\<lambda>_. ''c'') (\<lambda>_. ''ab'') run_settings 10 7 run_fulfillment)"
  have "\<exists>x b. order_of 7 ?d1 = Some x \<and> o_state x = O_In_Progress \<and> o_payment x = P_Paid \<and> o_fulfillment x = F_Analysis_Pending
      \<and> get_row b_order_id 7 (bindings ?d1) = Some b \<and> b_analysis_id b = None"
    by (simp add: run_fulfillment_def run_paid_order driver_simps get_row_def put_row_def add_row_def run_settings_def)
  then obtain x b where r: "order_of 7 ?d1 = Some x" "o_state x = O_In_Progress" "o_payment x = P_Paid" "o_fulfillment x = F_Analysis_Pending"
      "get_row b_order_id 7 (bindings ?d1) = Some b" "b_analysis_id b = None" by blast
  from base_driver_strands_pending_order [OF r refl, of run_http run_stripe "\<lambda>_. ''c''" "\<lambda>_. ''ab''" run_settings 11 "[]"]
  show ?thesis by simp
qed

end
