(* ===== verification/DeliveryProofs.thy ===== *)
theory DeliveryProofs
  imports CommerceDelivery FulfillmentProofs
begin

text \<open>
  Correctness of the delivery: what each store call writes, the step relation of the delivery
  database (a fulfilment step, or one transaction of the delivery store), its invariant, and the
  properties of the service and of the download capability.
\<close>

section \<open>No fulfilment step completes an order\<close>

lemma step_completed:
  assumes step: "fulfillment_step d d'" and inv: "fulfillment_inv d"
    and x: "order_of u d' = Some x" "o_fulfillment x = F_Completed"
  shows "\<exists>y. order_of u d = Some y \<and> o_fulfillment y = F_Completed"
  using step
proof (cases rule: fulfillment_step.cases)
  case (shop s)
  then have "order_frame (shop d) s" using commerce_step_frame fulfillment_invD(1) [OF inv] by blast
  moreover have "get_row o_id u (orders s) = Some x" using x(1) shop by (simp add: order_of_def)
  ultimately show ?thesis using x(2) unfolding order_frame_def order_of_def by blast
next
  case (prepare ft canonical sha st now v)
  from prepare_analysis_effect [OF prepare] x show ?thesis
    by (auto split: if_splits simp: order_of_id)
next
  case (analysis ft now v ae)
  from bind_analysis_effect [of ft now v ae d] x show ?thesis unfolding analysis [symmetric] rebinds_def
    by (auto split: if_splits simp: order_of_id)
next
  case (report ft now v re)
  from bind_report_effect [of ft now v re d] x show ?thesis unfolding report [symmetric] rebinds_def
    by (auto split: if_splits simp: order_of_id)
next
  case (eligibility v b ty rid ft now reason tst)
  from eligibility_effect [OF eligibility(1)] x show ?thesis by auto
next
  case (refund ft now v intent)
  from prepare_refund_effect [OF refund] x show ?thesis by auto
next
  case (bind_refund op row ft now rf ext)
  from bind_refund_effect [OF bind_refund(1)] x show ?thesis
    by (auto split: if_splits simp: order_of_id refunded_order_def Let_def)
next
  case (attention v ft now code rfail)
  from attention_effect [OF attention(1)] x show ?thesis by (auto split: if_splits simp: order_of_id)
qed

section \<open>What each operation of the delivery store writes\<close>

lemma delivery_selectors [simp]:
  "grants (set_order x d) = grants d" "attempts (set_order x d) = attempts d"
  "core (set_order x d) = put_order x (core d)"
  by (simp_all add: set_order_def)

lemma ready_contextD:
  assumes "validate_ready_context ord b pending = Inr ()"
  shows "o_payment ord = P_Paid" "b_report_id b \<noteq> None" "b_analysis_id b \<noteq> None" "b_report_state b = Some ''ready''"
  using assms by (auto simp: validate_ready_context_def split: if_splits)

lemma first_acceptedD:
  assumes "first_accepted u rows = Some a"
  shows "a \<in> set rows \<and> at_order_id a = u \<and> at_status a = At_Accepted"
proof -
  from assms obtain as where
    s: "sort_key at_number (filter (\<lambda>a. at_order_id a = u \<and> at_status a = At_Accepted) rows) = a # as"
    by (auto simp: first_accepted_def split: list.splits)
  have "a \<in> set (sort_key at_number (filter (\<lambda>a. at_order_id a = u \<and> at_status a = At_Accepted) rows))"
    unfolding s by simp
  then show ?thesis by simp
qed

lemma converge_effect:
  assumes "d' = snd (converge_known_acceptance ft now u d)"
  shows "d' = d \<or> (\<exists>ord a b. delivery_order u d = Some ord \<and> o_payment ord = P_Paid \<and> a \<in> set (attempts d)
    \<and> at_order_id a = u \<and> at_status a = At_Accepted \<and> delivery_binding u d = Some b
    \<and> b_report_id b = Some (at_report_id a) \<and> d' = set_order (fulfilled now ord) d)" (is "?P d'")
  unfolding assms converge_known_acceptance_def
proof (rule transaction_inv [where P = ?P], goal_cases)
  case (2 x s')
  show ?case
  proof (cases "s' = d")
    case False
    with 2 obtain ord a b where r: "delivery_order u d = Some ord" "first_accepted u (attempts d) = Some a"
        "delivery_binding u d = Some b" "validate_ready_context ord b False = Inr ()"
        "b_report_id b = Some (at_report_id a)" "s' = set_order (fulfilled now ord) d"
      by (auto split: option.splits if_splits sum.splits)
    with first_acceptedD [OF r(2)] ready_contextD(1) [OF r(4)] show ?thesis by auto
  qed simp
qed simp

lemma last_number_ge: "a \<in> set rows \<Longrightarrow> at_order_id a = u \<Longrightarrow> at_number a \<le> last_number u rows"
  by (induction rows) (auto simp: last_number_def)

lemma last_number_nonneg: "0 \<le> last_number u rows"
  by (induction rows) (auto simp: last_number_def)

lemma prepare_attempt_effect:
  assumes "prepare_attempt ft now gid aid u ev digest alias d = (r, d')"
  shows "(d' = d \<and> raised r) \<or> (\<exists>ord b p. delivery_order u d = Some ord \<and> delivery_binding u d = Some b
     \<and> b_report_id b = Some (rs_report_id ev) \<and> last_number u (attempts d) + 1 \<le> delivery_max_attempts
     \<and> get_row g_id gid (grants d) = None \<and> get_row g_token_digest digest (grants d) = None
     \<and> get_row at_id aid (attempts d) = None \<and> o_payment ord = P_Paid
     \<and> (r = Inr p \<or> raised r) \<and> pa_attempt_id p = aid \<and> pa_recipient p = o_customer_email ord
     \<and> pa_order_id p = u \<and> pa_report_id p = rs_report_id ev
     \<and> pa_expires_at p = now + delivery_grant_ttl
     \<and> (d' = d \<or> d' = d\<lparr>grants := add_row (new_grant now gid u (rs_report_id ev) digest) (grants d),
          attempts := add_row (new_attempt now aid gid ord (rs_report_id ev) alias
            (last_number u (attempts d) + 1)) (attempts d)\<rparr>) \<and> (r = Inr p \<longrightarrow> d' \<noteq> d))"
proof (cases "d' = d \<and> raised r")
  case False
  let ?p = "\<lambda>ord. \<lparr>pa_attempt_id = aid, pa_grant_id = gid, pa_order_id = u, pa_report_id = rs_report_id ev,
     pa_recipient = o_customer_email ord, pa_template_alias = alias,
     pa_number = last_number u (attempts d) + 1, pa_issued_at = now, pa_expires_at = now + delivery_grant_ttl\<rparr>"
  have nd: "d\<lparr>grants := add_row g gs, attempts := as\<rparr> \<noteq> d" if "gs = grants d" for g gs as
    using that by (auto simp: add_row_def dest: arg_cong [where f = "\<lambda>d. length (grants d)"])
  have tok: "token_digest_ok digest" using False assms by (auto simp: prepare_attempt_def split: if_splits)
  from assms False obtain ord where ord: "delivery_order u d = Some ord"
    unfolding prepare_attempt_def transaction_def by (auto split: if_splits option.splits fault.splits)
  from assms False ord obtain b where b: "delivery_binding u d = Some b"
    unfolding prepare_attempt_def transaction_def by (auto split: if_splits option.splits fault.splits)
  from assms False ord b have v: "validate_ready_context ord b True = Inr ()"
    unfolding prepare_attempt_def transaction_def by (auto split: if_splits sum.splits fault.splits)
  from assms False tok ord b v have
    "b_report_id b = Some (rs_report_id ev)" "last_number u (attempts d) + 1 \<le> delivery_max_attempts"
    "get_row g_id gid (grants d) = None" "get_row g_token_digest digest (grants d) = None"
    "get_row at_id aid (attempts d) = None"
    "(r = Inr (?p ord) \<or> raised r)" "(d' = d \<or> d' = d\<lparr>grants := add_row (new_grant now gid u (rs_report_id ev) digest) (grants d),
          attempts := add_row (new_attempt now aid gid ord (rs_report_id ev) alias
            (last_number u (attempts d) + 1)) (attempts d)\<rparr>)" "r = Inr (?p ord) \<longrightarrow> d' \<noteq> d"
    unfolding prepare_attempt_def transaction_def
    by (auto split: if_splits fault.splits simp: nd)
  with ord b ready_contextD(1) [OF v] show ?thesis
    by (intro disjI2 exI [of _ ord] exI [of _ b] exI [of _ "?p ord"]) simp
qed simp

text \<open>The fields of an attempt that are fixed when it is written.\<close>

definition attempt_fixed :: "attempt_row \<Rightarrow> uuid \<times> uuid \<times> uuid \<times> uuid \<times> string \<times> int" where
  "attempt_fixed a = (at_id a, at_order_id a, at_report_id a, at_grant_id a, at_recipient a, at_number a)"

text \<open>What the three writes to an attempt have in common: one attempt that is not accepted is
  rewritten, and with it perhaps its order.\<close>

definition amends :: "delivery_db \<Rightarrow> delivery_db \<Rightarrow> bool" where
  "amends d d' = (\<exists>a a'. get_row at_id (at_id a) (attempts d) = Some a \<and> attempt_fixed a' = attempt_fixed a
     \<and> at_status a \<noteq> At_Accepted \<and> at_status a' \<noteq> At_Prepared
     \<and> (at_status a' = At_Accepted \<longrightarrow> at_message_id a' \<noteq> None \<and> at_submitted_at a' \<noteq> None)
     \<and> (d' = d\<lparr>attempts := put_row at_id a' (attempts d)\<rparr>
        \<or> (\<exists>ord st f now. delivery_order (at_order_id a) d = Some ord \<and> st \<notin> {O_Pending, O_Expired}
            \<and> (f = F_Completed \<longrightarrow> at_status a' = At_Accepted)
            \<and> d' = set_order (ord\<lparr>o_state := st, o_payment := P_Paid, o_fulfillment := f, o_updated_at := now\<rparr>)
                     (d\<lparr>attempts := put_row at_id a' (attempts d)\<rparr>))))"

lemma amends_attempt:
  assumes "get_row at_id aid (attempts d) = Some a" "attempt_fixed a' = attempt_fixed a" "at_status a \<noteq> At_Accepted"
    "at_status a' \<noteq> At_Prepared" "at_status a' = At_Accepted \<longrightarrow> at_message_id a' \<noteq> None \<and> at_submitted_at a' \<noteq> None"
  shows "amends d (d\<lparr>attempts := put_row at_id a' (attempts d)\<rparr>)"
    and "delivery_order (at_order_id a) d = Some ord \<Longrightarrow> st \<notin> {O_Pending, O_Expired} \<Longrightarrow>
      f = F_Completed \<longrightarrow> at_status a' = At_Accepted \<Longrightarrow>
      amends d (set_order (ord\<lparr>o_state := st, o_payment := P_Paid, o_fulfillment := f, o_updated_at := now\<rparr>)
                     (d\<lparr>attempts := put_row at_id a' (attempts d)\<rparr>))"
proof -
  have id: "at_id a = aid" using assms(1) get_row_Some by fastforce
  show "amends d (d\<lparr>attempts := put_row at_id a' (attempts d)\<rparr>)"
    unfolding amends_def by (rule exI [of _ a], rule exI [of _ a']) (use assms id in simp)
  show "delivery_order (at_order_id a) d = Some ord \<Longrightarrow> st \<notin> {O_Pending, O_Expired} \<Longrightarrow>
      f = F_Completed \<longrightarrow> at_status a' = At_Accepted \<Longrightarrow>
      amends d (set_order (ord\<lparr>o_state := st, o_payment := P_Paid, o_fulfillment := f, o_updated_at := now\<rparr>)
                     (d\<lparr>attempts := put_row at_id a' (attempts d)\<rparr>))"
    unfolding amends_def by (rule exI [of _ a], rule exI [of _ a']) (use assms id in blast)
qed

lemma mark_effect:
  assumes "d' = snd (mark_dispatch_started ft now aid d)"
  shows "d' = d \<or> amends d d'" (is "?P d'")
  unfolding assms mark_dispatch_started_def
proof (rule transaction_inv [where P = ?P], goal_cases)
  case (2 x s')
  then show ?case
    by (auto intro!: amends_attempt(1) simp: attempt_fixed_def split: option.splits if_splits)
qed simp

lemma accept_effect:
  assumes "d' = snd (record_accepted ft now aid ev d)"
  shows "d' = d \<or> amends d d'" (is "?P d'")
  unfolding assms record_accepted_def
proof (rule transaction_inv [where P = ?P], goal_cases)
  case (2 x s')
  show ?case
  proof (cases "s' = d")
    case False
    with 2 obtain a ord where a: "get_row at_id aid (attempts d) = Some a"
        and ord: "delivery_order (at_order_id a) d = Some ord"
      by (auto split: option.splits)
    with 2 False have "at_status a \<noteq> At_Accepted"
        and s': "s' = set_order (fulfilled now ord) (d\<lparr>attempts := put_row at_id
           (a\<lparr>at_message_id := Some (pm_message_id ev), at_submitted_at := Some (pm_submitted_at ev),
              at_status := At_Accepted, at_failure := None, at_updated_at := now\<rparr>) (attempts d)\<rparr>)"
      by (auto split: option.splits if_splits sum.splits)
    then have "amends d s'" unfolding s' fulfilled_def
      by (intro amends_attempt(2) [OF a]) (simp_all add: attempt_fixed_def ord)
    then show ?thesis ..
  qed simp
qed simp

lemma failure_effect:
  assumes "d' = snd (record_failure ft now aid st code retryable d)"
  shows "d' = d \<or> amends d d'" (is "?P d'")
proof (cases "st \<in> {At_Rejected, At_Uncertain}")
  case True
  then have n: "(st \<notin> {At_Rejected, At_Uncertain}) = False" by simp
  show ?thesis unfolding assms record_failure_def n if_False
  proof (rule transaction_inv [where P = ?P], goal_cases)
    case (2 x s')
    show ?case
    proof (cases "s' = d")
      case False
      with 2 obtain a ord where a: "get_row at_id aid (attempts d) = Some a" "at_status a \<noteq> At_Accepted"
          and ord: "delivery_order (at_order_id a) d = Some ord"
        by (auto split: option.splits if_splits)
      let ?d = "d\<lparr>attempts := put_row at_id (a\<lparr>at_status := st, at_failure := Some (safe_code code), at_updated_at := now\<rparr>) (attempts d)\<rparr>"
      from 2 False a ord have "s' = ?d \<or> s' = set_order (ord\<lparr>o_state := O_Attention, o_payment := P_Paid,
          o_fulfillment := F_Delivery_Failed, o_updated_at := now\<rparr>) ?d"
        by (auto simp: Let_def split: if_splits)
      then have "amends d s'"
      proof
        assume s': "s' = ?d"
        show ?thesis unfolding s' using True by (intro amends_attempt(1) [OF a(1)]) (auto simp: attempt_fixed_def a)
      next
        assume s': "s' = set_order (ord\<lparr>o_state := O_Attention, o_payment := P_Paid,
          o_fulfillment := F_Delivery_Failed, o_updated_at := now\<rparr>) ?d"
        show ?thesis unfolding s' using True by (intro amends_attempt(2) [OF a(1)]) (auto simp: attempt_fixed_def a ord)
      qed
      then show ?thesis ..
    qed simp
  qed simp
qed (simp add: assms record_failure_def)

section \<open>Steps of the delivery database and their invariant\<close>

inductive delivery_step :: "delivery_db \<Rightarrow> delivery_db \<Rightarrow> bool" where
  core: "fulfillment_step (core d) c \<Longrightarrow> delivery_step d (d\<lparr>core := c\<rparr>)"
| converge: "delivery_step d (snd (converge_known_acceptance ft now u d))"
| prepare: "delivery_step d (snd (prepare_attempt ft now gid aid u ev digest alias d))"
| mark: "delivery_step d (snd (mark_dispatch_started ft now aid d))"
| accept: "delivery_step d (snd (record_accepted ft now aid ac d))"
| failure: "delivery_step d (snd (record_failure ft now aid st code retryable d))"

definition attempt_ok :: "delivery_db \<Rightarrow> attempt_row \<Rightarrow> bool" where
  "attempt_ok d a = (1 \<le> at_number a \<and> at_number a \<le> delivery_max_attempts
     \<and> (\<exists>g. get_row g_id (at_grant_id a) (grants d) = Some g \<and> g_order_id g = at_order_id a \<and> g_report_id g = at_report_id a)
     \<and> (\<exists>b. delivery_binding (at_order_id a) d = Some b \<and> b_report_id b = Some (at_report_id a))
     \<and> (at_status a = At_Accepted \<longrightarrow> at_message_id a \<noteq> None \<and> at_submitted_at a \<noteq> None))"

definition accepted_for :: "delivery_db \<Rightarrow> uuid \<Rightarrow> bool" where
  "accepted_for d u = (\<exists>a \<in> set (attempts d). at_order_id a = u \<and> at_status a = At_Accepted)"

definition delivery_inv :: "delivery_db \<Rightarrow> bool" where
  "delivery_inv d = (fulfillment_inv (core d)
     \<and> distinct (map at_id (attempts d)) \<and> distinct (map (\<lambda>a. (at_order_id a, at_number a)) (attempts d))
     \<and> distinct (map g_id (grants d)) \<and> distinct (map g_token_digest (grants d))
     \<and> (\<forall>a \<in> set (attempts d). attempt_ok d a)
     \<and> (\<forall>u x. delivery_order u d = Some x \<and> o_fulfillment x = F_Completed \<longrightarrow> accepted_for d u))"

definition delivery_mono :: "delivery_db \<Rightarrow> delivery_db \<Rightarrow> bool" where
  "delivery_mono d d' = (fulfillment_mono (core d) (core d')
     \<and> (\<forall>aid a. get_row at_id aid (attempts d) = Some a \<longrightarrow> (\<exists>a'. get_row at_id aid (attempts d') = Some a'
          \<and> attempt_fixed a' = attempt_fixed a \<and> (at_status a = At_Accepted \<longrightarrow> a' = a)
          \<and> (at_status a \<noteq> At_Prepared \<longrightarrow> at_status a' \<noteq> At_Prepared)))
     \<and> (\<forall>gid g. get_row g_id gid (grants d) = Some g \<longrightarrow> get_row g_id gid (grants d') = Some g))"

lemma delivery_monoD:
  assumes "delivery_mono d d'"
  shows "fulfillment_mono (core d) (core d')"
    and "get_row at_id aid (attempts d) = Some a \<Longrightarrow> \<exists>a'. get_row at_id aid (attempts d') = Some a'
          \<and> attempt_fixed a' = attempt_fixed a \<and> (at_status a = At_Accepted \<longrightarrow> a' = a)
          \<and> (at_status a \<noteq> At_Prepared \<longrightarrow> at_status a' \<noteq> At_Prepared)"
    and "get_row g_id gid (grants d) = Some g \<Longrightarrow> get_row g_id gid (grants d') = Some g"
  using assms by (auto simp: delivery_mono_def)

lemma delivery_mono_refl [simp]: "delivery_mono d d"
  by (simp add: delivery_mono_def)

lemma delivery_mono_trans: "delivery_mono d d' \<Longrightarrow> delivery_mono d' d'' \<Longrightarrow> delivery_mono d d''"
proof -
  assume m: "delivery_mono d d'" "delivery_mono d' d''"
  show ?thesis unfolding delivery_mono_def
  proof (intro conjI allI impI)
    fix aid a assume "get_row at_id aid (attempts d) = Some a"
    from delivery_monoD(2) [OF m(1) this] obtain a' where a': "get_row at_id aid (attempts d') = Some a'"
      "attempt_fixed a' = attempt_fixed a" "at_status a = At_Accepted \<longrightarrow> a' = a"
      "at_status a \<noteq> At_Prepared \<longrightarrow> at_status a' \<noteq> At_Prepared" by blast
    from delivery_monoD(2) [OF m(2) a'(1)] a'(2-4)
    show "\<exists>a''. get_row at_id aid (attempts d'') = Some a'' \<and> attempt_fixed a'' = attempt_fixed a
       \<and> (at_status a = At_Accepted \<longrightarrow> a'' = a) \<and> (at_status a \<noteq> At_Prepared \<longrightarrow> at_status a'' \<noteq> At_Prepared)"
      by metis
  next
    show "fulfillment_mono (core d) (core d'')"
      using delivery_monoD(1) [OF m(1)] delivery_monoD(1) [OF m(2)] by (rule fulfillment_mono_trans)
    show "get_row g_id gid (grants d'') = Some g" if "get_row g_id gid (grants d) = Some g" for gid g
      using delivery_monoD(3) [OF m(2) delivery_monoD(3) [OF m(1) that]] .
  qed
qed

lemma delivery_invD:
  assumes "delivery_inv d"
  shows "fulfillment_inv (core d)" "distinct (map at_id (attempts d))" "distinct (map g_id (grants d))"
    and "a \<in> set (attempts d) \<Longrightarrow> attempt_ok d a"
    and "delivery_order u d = Some x \<Longrightarrow> o_fulfillment x = F_Completed \<Longrightarrow> accepted_for d u"
  using assms by (auto simp: delivery_inv_def)

text \<open>Writing a paid order back, with a new state, keeps the invariant of the fulfilment database.\<close>

lemma fulfillment_inv_paid_order:
  assumes inv: "fulfillment_inv c" and b: "get_row b_order_id u (bindings c) = Some b"
    and x: "order_of u c = Some x" and st: "st \<notin> {O_Pending, O_Expired}"
  shows "fulfillment_inv (put_order (x\<lparr>o_state := st, o_payment := P_Paid, o_fulfillment := f, o_updated_at := now\<rparr>) c)"
proof -
  let ?x = "x\<lparr>o_state := st, o_payment := P_Paid, o_fulfillment := f, o_updated_at := now\<rparr>"
  have id: "o_id x = u" by (rule order_of_id [OF x])
  have np: "\<not> unpaid x" using fulfillment_invD(2) [OF inv b] x by simp
  have "fulfillment_inv (put_order ?x (c\<lparr>bindings := bindings c, refunds := refunds c\<rparr>))"
  proof (rule fulfillment_inv_order [OF inv x np])
    show "distinct (map b_order_id (bindings c))" "distinct (map rr_order_id (refunds c))"
      using inv by (simp_all add: fulfillment_inv_def)
    fix v
    show "b_key b = analysis_provider_key v \<and> (v = u \<or> (\<exists>y. order_of v c = Some y \<and> \<not> unpaid y))"
      if "get_row b_order_id v (bindings c) = Some b" for b
      using fulfillment_invD(2) [OF inv that] by blast
    show "get_row b_order_id v (bindings c) \<noteq> None" if "get_row el_order_id v (eligibilities c) = Some el" for el
      using fulfillment_invD(3) [OF inv that] by blast
    show "refund_ok c r" if "get_row rr_order_id v (refunds c) = Some r" for r
      by (rule fulfillment_invD(4) [OF inv that])
    show "\<exists>r. get_row rr_order_id v (refunds c) = Some r \<and> rr_refund_status r = Some ''succeeded''
        \<and> rr_refund_amount r = Some (rr_amount r)"
      if "order_of v c = Some y" "o_payment (if v = u then ?x else y) = P_Refunded" for y
      using fulfillment_invD(5) [OF inv that(1)] that(2) by (auto simp: refund_proved_def split: if_splits)
  qed (use id st in \<open>auto simp: unpaid_def\<close>)
  then show ?thesis by simp
qed

text \<open>The shape shared by all writes of the delivery store: some rows of attempts change, one order
  may be rewritten.\<close>

lemma get_row_in_set: "distinct (map key rows) \<Longrightarrow> r \<in> set rows \<longleftrightarrow> get_row key (key r) rows = Some r"
  using get_row_distinct get_row_Some by metis

lemma attempt_ok_binding: "attempt_ok d a \<Longrightarrow> \<exists>b. get_row b_order_id (at_order_id a) (bindings (core d)) = Some b"
  by (auto simp: attempt_ok_def delivery_binding_def)

lemma attempt_ok_frame:
  assumes "attempt_ok d a" and "fulfillment_mono (core d) (core d')"
    and "\<And>gid g. get_row g_id gid (grants d) = Some g \<Longrightarrow> get_row g_id gid (grants d') = Some g"
  shows "attempt_ok d' a"
proof -
  from assms(1) obtain b where b: "get_row b_order_id (at_order_id a) (bindings (core d)) = Some b"
      "b_report_id b = Some (at_report_id a)" by (auto simp: attempt_ok_def delivery_binding_def)
  from fulfillment_monoD(1) [OF assms(2) b(1)] b(2) assms(1,3) show ?thesis
    by (auto simp: attempt_ok_def delivery_binding_def)
qed

lemma attempt_ok_fixed:
  assumes "attempt_ok d a" "attempt_fixed a' = attempt_fixed a"
    "at_status a' = At_Accepted \<longrightarrow> at_message_id a' \<noteq> None \<and> at_submitted_at a' \<noteq> None"
  shows "attempt_ok d a'"
  using assms by (simp add: attempt_ok_def attempt_fixed_def)

lemma core_step_inv:
  assumes inv: "delivery_inv d" and step: "fulfillment_step (core d) c"
  shows "delivery_inv (d\<lparr>core := c\<rparr>) \<and> delivery_mono d (d\<lparr>core := c\<rparr>)"
proof -
  have c: "fulfillment_inv c" "fulfillment_mono (core d) c"
    using fulfillment_step_inv [OF step delivery_invD(1) [OF inv]] by auto
  have "attempt_ok (d\<lparr>core := c\<rparr>) a" if "a \<in> set (attempts d)" for a
    using delivery_invD(4) [OF inv that] by (rule attempt_ok_frame) (use c in simp_all)
  moreover have "accepted_for (d\<lparr>core := c\<rparr>) u"
    if "delivery_order u (d\<lparr>core := c\<rparr>) = Some x" "o_fulfillment x = F_Completed" for u x
  proof -
    note completed = that
    obtain y where "delivery_order u d = Some y" "o_fulfillment y = F_Completed"
      using step_completed [OF step delivery_invD(1) [OF inv], of u x] completed by (auto simp: delivery_order_def)
    from delivery_invD(5) [OF inv this] show ?thesis by (simp add: accepted_for_def)
  qed
  ultimately show ?thesis using inv c by (simp add: delivery_inv_def delivery_mono_def)
qed

lemma put_attempt_inv:
  assumes inv: "delivery_inv d" and a: "get_row at_id (at_id a) (attempts d) = Some a"
    and fx: "attempt_fixed a' = attempt_fixed a" and na: "at_status a \<noteq> At_Accepted" "at_status a' \<noteq> At_Prepared"
    and ev: "at_status a' = At_Accepted \<longrightarrow> at_message_id a' \<noteq> None \<and> at_submitted_at a' \<noteq> None"
  shows "delivery_inv (d\<lparr>attempts := put_row at_id a' (attempts d)\<rparr>)" (is "delivery_inv ?d")
    and "delivery_mono d (d\<lparr>attempts := put_row at_id a' (attempts d)\<rparr>)"
    and "a' \<in> set (put_row at_id a' (attempts d))"
proof -
  have id: "at_id a' = at_id a" using fx by (simp add: attempt_fixed_def)
  have mem: "a \<in> set (attempts d)" using get_row_Some [OF a] by simp
  show new: "a' \<in> set (put_row at_id a' (attempts d))" using mem id by (auto simp: put_row_def)
  have keep: "a0 \<in> set (put_row at_id a' (attempts d))" if "a0 \<in> set (attempts d)" "at_status a0 = At_Accepted" for a0
  proof -
    have "at_id a0 \<noteq> at_id a"
      using that na distinct_keys_unique [OF delivery_invD(2) [OF inv] that(1) mem] by auto
    then show ?thesis using that id by (intro in_put_rowI) auto
  qed
  have keys: "map (\<lambda>a. (at_order_id a, at_number a)) (put_row at_id a' (attempts d))
      = map (\<lambda>a. (at_order_id a, at_number a)) (attempts d)"
  proof -
    have "(at_order_id r, at_number r) = (at_order_id a', at_number a')" if "r \<in> set (attempts d)" "at_id r = at_id a'" for r
      using distinct_keys_unique [OF delivery_invD(2) [OF inv] that(1) mem] that(2) id fx by (auto simp: attempt_fixed_def)
    then show ?thesis by (auto simp: put_row_def)
  qed
  have frame: "attempt_ok ?d r = attempt_ok d r" for r by (simp add: attempt_ok_def delivery_binding_def)
  have "attempt_ok ?d r" if "r \<in> set (put_row at_id a' (attempts d))" for r
    using in_put_row [OF that] attempt_ok_fixed [OF delivery_invD(4) [OF inv mem] fx ev]
      delivery_invD(4) [OF inv] frame by auto
  moreover have "accepted_for ?d u" if "delivery_order u ?d = Some x" "o_fulfillment x = F_Completed" for u x
    using delivery_invD(5) [OF inv, of u x] that keep by (auto simp: accepted_for_def delivery_order_def)
  ultimately show "delivery_inv ?d"
    using inv keys by (simp add: delivery_inv_def row_simps)
  show "delivery_mono d ?d"
    unfolding delivery_mono_def
  proof (intro conjI allI impI)
    fix aid a0 assume a0: "get_row at_id aid (attempts d) = Some a0"
    show "\<exists>r. get_row at_id aid (attempts ?d) = Some r \<and> attempt_fixed r = attempt_fixed a0
        \<and> (at_status a0 = At_Accepted \<longrightarrow> r = a0) \<and> (at_status a0 \<noteq> At_Prepared \<longrightarrow> at_status r \<noteq> At_Prepared)"
      using a0 a id fx na by (cases "aid = at_id a") (auto simp: row_simps)
  qed simp_all
qed

lemma set_paid_order_inv:
  assumes inv: "delivery_inv d" and b: "delivery_binding u d = Some b" and x: "delivery_order u d = Some x"
    and st: "st \<notin> {O_Pending, O_Expired}" and acc: "f = F_Completed \<longrightarrow> accepted_for d u"
  shows "delivery_inv (set_order (x\<lparr>o_state := st, o_payment := P_Paid, o_fulfillment := f, o_updated_at := now\<rparr>) d)"
    (is "delivery_inv (set_order ?x d)")
    and "delivery_mono d (set_order (x\<lparr>o_state := st, o_payment := P_Paid, o_fulfillment := f, o_updated_at := now\<rparr>) d)"
proof -
  have xo: "order_of u (core d) = Some x" using x by (simp add: delivery_order_def)
  have id: "o_id x = u" by (rule order_of_id [OF xo])
  have c: "fulfillment_inv (put_order ?x (core d))"
    by (rule fulfillment_inv_paid_order [OF delivery_invD(1) [OF inv] _ xo st]) (use b in \<open>simp add: delivery_binding_def\<close>)
  have m: "fulfillment_mono (core d) (put_order ?x (core d))" by (simp add: fulfillment_mono_tables)
  have "attempt_ok (set_order ?x d) a" if "a \<in> set (attempts d)" for a
    using delivery_invD(4) [OF inv that] by (rule attempt_ok_frame) (use m in simp_all)
  moreover have "accepted_for (set_order ?x d) v"
    if "delivery_order v (set_order ?x d) = Some y" "o_fulfillment y = F_Completed" for v y
    using that acc delivery_invD(5) [OF inv, of v y] xo id
    by (auto simp: accepted_for_def delivery_order_def split: if_splits)
  ultimately show "delivery_inv (set_order ?x d)" using inv c by (simp add: delivery_inv_def)
  show "delivery_mono d (set_order ?x d)" using m by (simp add: delivery_mono_def)
qed

lemma amends_inv:
  assumes inv: "delivery_inv d" and am: "amends d d'"
  shows "delivery_inv d' \<and> delivery_mono d d'"
proof -
  from am obtain a a' where a: "get_row at_id (at_id a) (attempts d) = Some a" "attempt_fixed a' = attempt_fixed a"
      "at_status a \<noteq> At_Accepted" "at_status a' \<noteq> At_Prepared"
      "at_status a' = At_Accepted \<longrightarrow> at_message_id a' \<noteq> None \<and> at_submitted_at a' \<noteq> None"
    and d': "d' = d\<lparr>attempts := put_row at_id a' (attempts d)\<rparr>
        \<or> (\<exists>ord st f now. delivery_order (at_order_id a) d = Some ord \<and> st \<notin> {O_Pending, O_Expired}
            \<and> (f = F_Completed \<longrightarrow> at_status a' = At_Accepted)
            \<and> d' = set_order (ord\<lparr>o_state := st, o_payment := P_Paid, o_fulfillment := f, o_updated_at := now\<rparr>)
                     (d\<lparr>attempts := put_row at_id a' (attempts d)\<rparr>))"
    unfolding amends_def by blast
  let ?d = "d\<lparr>attempts := put_row at_id a' (attempts d)\<rparr>"
  note put = put_attempt_inv [OF inv a]
  from d' show ?thesis
  proof
    assume "d' = ?d"
    with put show ?thesis by simp
  next
    assume "\<exists>ord st f now. delivery_order (at_order_id a) d = Some ord \<and> st \<notin> {O_Pending, O_Expired}
            \<and> (f = F_Completed \<longrightarrow> at_status a' = At_Accepted)
            \<and> d' = set_order (ord\<lparr>o_state := st, o_payment := P_Paid, o_fulfillment := f, o_updated_at := now\<rparr>) ?d"
    then obtain ord st f now where o1: "delivery_order (at_order_id a) d = Some ord" "st \<notin> {O_Pending, O_Expired}"
      "f = F_Completed \<longrightarrow> at_status a' = At_Accepted"
      and d2: "d' = set_order (ord\<lparr>o_state := st, o_payment := P_Paid, o_fulfillment := f, o_updated_at := now\<rparr>) ?d" by blast
    have "a \<in> set (attempts d)" using get_row_Some [OF a(1)] by simp
    from delivery_invD(4) [OF inv this] obtain b where b: "delivery_binding (at_order_id a) ?d = Some b"
      by (auto simp: attempt_ok_def delivery_binding_def)
    have o2: "delivery_order (at_order_id a) ?d = Some ord" using o1(1) by (simp add: delivery_order_def)
    have acc: "f = F_Completed \<longrightarrow> accepted_for ?d (at_order_id a)"
      using o1(3) put(3) a(2) by (auto simp: accepted_for_def attempt_fixed_def)
    show ?thesis unfolding d2
      using set_paid_order_inv [OF put(1) b o2 o1(2) acc] delivery_mono_trans [OF put(2)] by blast
  qed
qed

lemma converge_inv:
  assumes inv: "delivery_inv d" and d': "d' = snd (converge_known_acceptance ft now u d)"
  shows "delivery_inv d' \<and> delivery_mono d d'"
proof (cases "d' = d")
  case False
  with converge_effect [OF d'] obtain ord a b where r: "delivery_order u d = Some ord" "o_payment ord = P_Paid"
    "a \<in> set (attempts d)" "at_order_id a = u" "at_status a = At_Accepted" "delivery_binding u d = Some b"
    and d2: "d' = set_order (fulfilled now ord) d" by blast
  have "F_Completed = F_Completed \<longrightarrow> accepted_for d u" using r by (auto simp: accepted_for_def)
  from set_paid_order_inv [OF inv r(6,1) _ this, of O_Fulfilled now] show ?thesis
    unfolding d2 fulfilled_def by simp
qed (simp add: inv)

lemma last_number_fresh: "(u, last_number u rows + 1) \<notin> (\<lambda>a. (at_order_id a, at_number a)) ` set rows"
  using last_number_ge by fastforce

lemma add_attempt_inv:
  assumes inv: "delivery_inv d" and b: "delivery_binding u d = Some b" "b_report_id b = Some rid"
    and fresh: "get_row g_id gid (grants d) = None" "get_row g_token_digest digest (grants d) = None"
      "get_row at_id aid (attempts d) = None" "last_number u (attempts d) + 1 \<le> delivery_max_attempts"
    and u: "o_id ord = u"
  shows "delivery_inv (d\<lparr>grants := add_row (new_grant now gid u rid digest) (grants d),
      attempts := add_row (new_attempt now aid gid ord rid alias (last_number u (attempts d) + 1)) (attempts d)\<rparr>)
    \<and> delivery_mono d (d\<lparr>grants := add_row (new_grant now gid u rid digest) (grants d),
      attempts := add_row (new_attempt now aid gid ord rid alias (last_number u (attempts d) + 1)) (attempts d)\<rparr>)"
    (is "delivery_inv ?d \<and> delivery_mono d ?d")
proof
  let ?a = "new_attempt now aid gid ord rid alias (last_number u (attempts d) + 1)"
  have keep: "get_row g_id k (grants ?d) = Some g" if "get_row g_id k (grants d) = Some g" for k g
    using that by (simp add: row_simps)
  have old: "attempt_ok ?d a" if "a \<in> set (attempts d)" for a
    using delivery_invD(4) [OF inv that] by (rule attempt_ok_frame) (use keep in simp_all)
  have new: "attempt_ok ?d ?a"
    using b u fresh last_number_nonneg [of u "attempts d"]
    by (simp add: attempt_ok_def new_attempt_def new_grant_def delivery_binding_def row_simps)
  have acc: "accepted_for ?d v" if "accepted_for d v" for v
    using that by (auto simp: accepted_for_def in_add_row)
  have "distinct (map (\<lambda>a. (at_order_id a, at_number a)) (attempts ?d))"
    using inv last_number_fresh [of u "attempts d"] u by (simp add: delivery_inv_def row_simps new_attempt_def)
  then show "delivery_inv ?d"
    using inv fresh old new acc
    by (auto simp: delivery_inv_def row_simps new_attempt_def new_grant_def get_row_None in_add_row delivery_order_def)
  show "delivery_mono d ?d" using keep by (simp add: delivery_mono_def row_simps)
qed

lemma prepare_inv:
  assumes inv: "delivery_inv d" and d': "d' = snd (prepare_attempt ft now gid aid u ev digest alias d)"
  shows "delivery_inv d' \<and> delivery_mono d d'"
proof (cases "d' = d")
  case False
  have run: "prepare_attempt ft now gid aid u ev digest alias d
      = (fst (prepare_attempt ft now gid aid u ev digest alias d), d')" using d' by simp
  from prepare_attempt_effect [OF run] False obtain ord b where r: "delivery_order u d = Some ord"
    "delivery_binding u d = Some b" "b_report_id b = Some (rs_report_id ev)"
    "get_row g_id gid (grants d) = None" "get_row g_token_digest digest (grants d) = None"
    "get_row at_id aid (attempts d) = None" "last_number u (attempts d) + 1 \<le> delivery_max_attempts"
    and d2: "d' = d\<lparr>grants := add_row (new_grant now gid u (rs_report_id ev) digest) (grants d),
          attempts := add_row (new_attempt now aid gid ord (rs_report_id ev) alias
            (last_number u (attempts d) + 1)) (attempts d)\<rparr>" by blast
  have "o_id ord = u" using r(1) by (auto simp: delivery_order_def order_of_id)
  from add_attempt_inv [OF inv r(2-7) this] show ?thesis unfolding d2 .
qed (simp add: inv)

lemma delivery_step_inv:
  assumes "delivery_step d d'" "delivery_inv d"
  shows "delivery_inv d' \<and> delivery_mono d d'"
  using assms
proof (cases rule: delivery_step.cases)
  case (core c)
  with core_step_inv [OF assms(2)] show ?thesis by simp
next
  case (mark ft now aid)
  from mark_effect [OF mark] amends_inv [OF assms(2)] assms(2) show ?thesis by auto
next
  case (accept ft now aid ac)
  from accept_effect [OF accept] amends_inv [OF assms(2)] assms(2) show ?thesis by auto
next
  case (failure ft now aid st code retryable)
  from failure_effect [OF failure] amends_inv [OF assms(2)] assms(2) show ?thesis by auto
next
  case (converge ft now u)
  from converge_inv [OF assms(2) converge] show ?thesis .
next
  case (prepare ft now gid aid u ev digest tmpl)
  from prepare_inv [OF assms(2) prepare] show ?thesis .
qed

lemma delivery_steps_inv:
  assumes "delivery_step\<^sup>*\<^sup>* d d'" "delivery_inv d"
  shows "delivery_inv d' \<and> delivery_mono d d'"
  using assms
proof (induction rule: rtranclp_induct)
  case (step d1 d2)
  from delivery_step_inv [OF step(2)] step(3) [OF step(4)] show ?case
    by (blast intro: delivery_mono_trans)
qed simp

definition empty_delivery :: "fulfillment_db \<Rightarrow> delivery_db" where
  "empty_delivery c = \<lparr>core = c, grants = [], attempts = []\<rparr>"

definition delivery_reachable :: "delivery_db \<Rightarrow> bool" where
  "delivery_reachable d = delivery_step\<^sup>*\<^sup>* (empty_delivery empty_fulfillment) d"

lemma empty_delivery_inv: "delivery_inv (empty_delivery empty_fulfillment)"
  using empty_fulfillment_inv by (simp add: delivery_inv_def empty_delivery_def delivery_order_def)
    (simp add: empty_fulfillment_def order_of_def empty_commerce_def get_row_def)

lemma delivery_reachable_inv: "delivery_reachable d \<Longrightarrow> delivery_inv d"
  using delivery_steps_inv [OF _ empty_delivery_inv] by (auto simp: delivery_reachable_def)

lemma delivery_reachable_steps: "delivery_reachable d \<Longrightarrow> delivery_step\<^sup>*\<^sup>* d d' \<Longrightarrow> delivery_reachable d'"
  by (simp add: delivery_reachable_def)

lemma fulfillment_steps_lift: "fulfillment_step\<^sup>*\<^sup>* c c' \<Longrightarrow> delivery_step\<^sup>*\<^sup>* (d\<lparr>core := c\<rparr>) (d\<lparr>core := c'\<rparr>)"
proof (induction rule: rtranclp_induct)
  case (step c1 c2)
  have "fulfillment_step (core (d\<lparr>core := c1\<rparr>)) c2" using step.hyps by simp
  from delivery_step.core [OF this] step.IH show ?case by (simp add: rtranclp.rtrancl_into_rtrancl)
qed simp

lemma fulfillment_reachable_delivery: "fulfillment_reachable c \<Longrightarrow> delivery_reachable (empty_delivery c)"
  using fulfillment_steps_lift [of empty_fulfillment c "empty_delivery empty_fulfillment"]
  by (simp add: fulfillment_reachable_def delivery_reachable_def empty_delivery_def)

section \<open>The delivery service takes the steps of the store\<close>

definition delivery_benign :: "delivery_env \<Rightarrow> bool" where
  "delivery_benign de = (\<forall>d. delivery_step\<^sup>*\<^sup>* d (de_other de d))"

text \<open>A store call that is a step, or that only reads.\<close>

definition store_move :: "(delivery_db, delivery_error, 'a) call \<Rightarrow> bool" where
  "store_move m = (\<forall>d. delivery_step\<^sup>*\<^sup>* d (snd (m d)))"

lemma store_moves [simp]:
  "store_move (converge_known_acceptance ft now u)" "store_move (load_context ft u)"
  "store_move (prepare_attempt ft now gid aid u ev digest alias)" "store_move (mark_dispatch_started ft now aid)"
  "store_move (record_accepted ft now aid ac)" "store_move (record_rejected ft now aid code retryable)"
  "store_move (record_uncertain ft now aid code)"
  by (simp_all add: store_move_def delivery_step.intros r_into_rtranclp load_context_def
      record_rejected_def record_uncertain_def)

lemma tx_snd [simp]: "snd (snd (delivery_tx de m s)) = snd s"
  by (simp add: delivery_tx_def split: prod.splits)

lemma tx_fst: "fst (snd (delivery_tx de m s)) = snd (m (de_other de (fst s)))"
  by (simp add: delivery_tx_def split: prod.splits)

lemma tx_steps:
  assumes "delivery_benign de" "store_move m"
  shows "delivery_step\<^sup>*\<^sup>* (fst s) (fst (snd (delivery_tx de m s)))"
proof -
  have "delivery_step\<^sup>*\<^sup>* (fst s) (de_other de (fst s))" using assms(1) by (simp add: delivery_benign_def)
  moreover have "delivery_step\<^sup>*\<^sup>* (de_other de (fst s)) (snd (m (de_other de (fst s))))"
    using assms(2) by (simp add: store_move_def)
  ultimately show ?thesis by (simp add: tx_fst)
qed

lemma pure_simps [simp]: "snd (delivery_pure r s) = s"
  by (simp add: delivery_pure_def)

lemma cbind_steps:
  assumes "delivery_step\<^sup>*\<^sup>* d (fst (snd (m s)))"
    and "\<And>x s'. delivery_step\<^sup>*\<^sup>* (fst s') (fst (snd (f x s')))"
  shows "delivery_step\<^sup>*\<^sup>* d (fst (snd (cbind m f s)))"
proof (rule cbind_inv [where P = "\<lambda>s. delivery_step\<^sup>*\<^sup>* d (fst s)"])
  show "delivery_step\<^sup>*\<^sup>* d (fst (snd (f x s')))" if "delivery_step\<^sup>*\<^sup>* d (fst s')" for x s'
    using that assms(2) by (rule rtranclp_trans)
qed (rule assms(1))

lemma record_steps:
  assumes "delivery_benign de"
  shows "delivery_step\<^sup>*\<^sup>* (fst s) (fst (snd (send_and_record de post from_iso em p s)))"
proof -
  obtain r w where send: "postmark_send post from_iso em (snd s) = (r, w)" by fastforce
  have m: "delivery_step\<^sup>*\<^sup>* (fst s) (fst (snd (delivery_tx de m (fst s, w))))"
    if "store_move m" for m :: "(delivery_db, delivery_error, unit) call"
    using tx_steps [OF assms that, of "(fst s, w)"] by simp
  show ?thesis
    by (auto simp: send_and_record_def send m split: sum.split postmark_error.split)
qed

lemma deliver_steps:
  assumes "delivery_benign de"
  shows "delivery_step\<^sup>*\<^sup>* (fst s) (fst (snd (deliver de http post from_iso sha st gid aid token u s)))"
  unfolding deliver_def
proof (rule cbind_steps)
  fix known and s :: "delivery_db \<times> 'a"
  show "delivery_step\<^sup>*\<^sup>* (fst s) (fst (snd ((if known then delivery_pure (Inr ()) else
     cbind (delivery_tx de (load_context (de_load de) u)) (\<lambda>ctx.
     cbind (delivery_pure (get_report_resource http (dc_base_url ctx) (dc_report_id ctx) (dc_analysis_id ctx))) (\<lambda>report.
     cbind (delivery_tx de (prepare_attempt (de_prepare de) (de_now_prepare de) gid aid u report (sha token)
              (ds_template_alias st))) (\<lambda>p.
     cbind (delivery_tx de (mark_dispatch_started (de_mark de) (de_now_mark de) (pa_attempt_id p))) (\<lambda>_.
       send_and_record de post from_iso (delivery_email st token p) p))))) s)))"
    by (cases known) (auto intro!: cbind_steps tx_steps record_steps assms)
qed (rule tx_steps [OF assms], simp)

section \<open>No message before a durable record of it\<close>

lemma send_world: "snd (snd (send_and_record de post from_iso em p s)) = snd (post em (snd s))"
proof -
  obtain r w where send: "postmark_send post from_iso em (snd s) = (r, w)" by fastforce
  then have "w = snd (post em (snd s))" by (auto simp: postmark_send_def split: prod.splits)
  then show ?thesis by (auto simp: send_and_record_def send split: sum.split postmark_error.split)
qed

text \<open>The run up to the message: every call before it returned.\<close>

lemma deliver_sends:
  assumes "snd (snd (deliver de http post from_iso sha st gid aid token u s)) \<noteq> snd s"
  obtains s1 s2 ctx rp s3 p s4 where
    "delivery_tx de (converge_known_acceptance (de_converge de) (de_now_converge de) u) s = (Inr False, s1)"
    "delivery_tx de (load_context (de_load de) u) s1 = (Inr ctx, s2)"
    "get_report_resource http (dc_base_url ctx) (dc_report_id ctx) (dc_analysis_id ctx) = Inr rp"
    "delivery_tx de (prepare_attempt (de_prepare de) (de_now_prepare de) gid aid u rp (sha token)
       (ds_template_alias st)) s2 = (Inr p, s3)"
    "delivery_tx de (mark_dispatch_started (de_mark de) (de_now_mark de) (pa_attempt_id p)) s3 = (Inr (), s4)"
    "snd s4 = snd s"
    "deliver de http post from_iso sha st gid aid token u s = send_and_record de post from_iso (delivery_email st token p) p s4"
proof -
  let ?c = "delivery_tx de (converge_known_acceptance (de_converge de) (de_now_converge de) u)"
  let ?l = "delivery_tx de (load_context (de_load de) u)"
  let ?p = "\<lambda>rp. delivery_tx de (prepare_attempt (de_prepare de) (de_now_prepare de) gid aid u rp (sha token) (ds_template_alias st))"
  let ?m = "\<lambda>p. delivery_tx de (mark_dispatch_started (de_mark de) (de_now_mark de) (pa_attempt_id p))"
  obtain r1 s1 where 1: "?c s = (r1, s1)" by (rule prod.exhaust)
  have w1: "snd s1 = snd s" using tx_snd [of de _ s] 1 by (metis snd_conv)
  from assms 1 w1 have r1: "r1 = Inr False"
    by (cases r1) (auto simp: deliver_def cbind_def split: if_splits)
  obtain r2 s2 where 2: "?l s1 = (r2, s2)" by (rule prod.exhaust)
  have w2: "snd s2 = snd s" using tx_snd [of de _ s1] 2 w1 by (metis snd_conv)
  from assms 1 r1 2 w2 obtain ctx where r2: "r2 = Inr ctx"
    by (cases r2) (auto simp: deliver_def cbind_def)
  let ?g = "get_report_resource http (dc_base_url ctx) (dc_report_id ctx) (dc_analysis_id ctx)"
  from assms 1 r1 2 w2 r2 obtain rp where g: "?g = Inr rp"
    by (cases ?g) (auto simp: deliver_def cbind_def delivery_pure_def)
  obtain r3 s3 where 3: "?p rp s2 = (r3, s3)" by (rule prod.exhaust)
  have w3: "snd s3 = snd s" using tx_snd [of de _ s2] 3 w2 by (metis snd_conv)
  from assms 1 r1 2 r2 g 3 w3 obtain p where r3: "r3 = Inr p"
    by (cases r3) (auto simp: deliver_def cbind_def delivery_pure_def)
  obtain r4 s4 where 4: "?m p s3 = (r4, s4)" by (rule prod.exhaust)
  have w4: "snd s4 = snd s" using tx_snd [of de _ s3] 4 w3 by (metis snd_conv)
  from assms 1 r1 2 r2 g 3 r3 4 w4 have r4: "r4 = Inr ()"
    by (cases r4) (auto simp: deliver_def cbind_def delivery_pure_def)
  have "deliver de http post from_iso sha st gid aid token u s = send_and_record de post from_iso (delivery_email st token p) p s4"
    using 1 r1 2 r2 g 3 r3 4 r4 by (simp add: deliver_def cbind_def delivery_pure_def)
  with 1 r1 2 r2 g 3 r3 4 r4 w4 show thesis by (intro that) simp_all
qed

lemma mark_started:
  assumes "mark_dispatch_started ft now aid d = (Inr (), d')"
  shows "\<exists>a. get_row at_id aid (attempts d') = Some a \<and> at_status a = At_Dispatch_Started"
proof -
  from assms obtain a where a: "get_row at_id aid (attempts d) = Some a"
    by (auto simp: mark_dispatch_started_def transaction_Inr_iff split: option.splits)
  have "at_id (a\<lparr>at_status := At_Dispatch_Started, at_updated_at := now\<rparr>) = aid" using get_row_Some [OF a] by simp
  from get_put_same [OF a this] a assms show ?thesis
    by (auto simp: mark_dispatch_started_def transaction_Inr_iff split: if_splits)
qed

text \<open>From the successful preparation to the message: the rows are there and stay there.\<close>

lemma prepared_rows:
  assumes "prepare_attempt ft now gid aid u ev digest tmpl d = (Inr p, d3)"
  obtains ord n where "pa_attempt_id p = aid" "pa_recipient p = o_customer_email ord" "pa_order_id p = u"
    "pa_report_id p = rs_report_id ev" "pa_expires_at p = now + delivery_grant_ttl" "o_id ord = u"
    "get_row at_id aid (attempts d3) = Some (new_attempt now aid gid ord (rs_report_id ev) tmpl n)"
    "get_row g_id gid (grants d3) = Some (new_grant now gid u (rs_report_id ev) digest)"
proof -
  let ?n = "last_number u (attempts d) + 1"
  from prepare_attempt_effect [OF assms] obtain ord b where pr: "delivery_order u d = Some ord"
      "get_row g_id gid (grants d) = None" "get_row at_id aid (attempts d) = None"
      "pa_attempt_id p = aid" "pa_recipient p = o_customer_email ord" "pa_order_id p = u"
      "pa_report_id p = rs_report_id ev" "pa_expires_at p = now + delivery_grant_ttl"
    and d3: "d3 = d\<lparr>grants := add_row (new_grant now gid u (rs_report_id ev) digest) (grants d),
          attempts := add_row (new_attempt now aid gid ord (rs_report_id ev) tmpl ?n) (attempts d)\<rparr>" by auto
  have "o_id ord = u" using pr(1) by (auto simp: delivery_order_def order_of_id)
  moreover have "get_row at_id aid (attempts d3) = Some (new_attempt now aid gid ord (rs_report_id ev) tmpl ?n)"
    using pr(3) by (simp add: d3 row_simps) (simp add: new_attempt_def)
  moreover have "get_row g_id gid (grants d3) = Some (new_grant now gid u (rs_report_id ev) digest)"
    using pr(2) by (simp add: d3 row_simps) (simp add: new_grant_def)
  ultimately show thesis using pr(4-8) by (intro that)
qed

lemma tx_run: "delivery_tx de m s = (r, s') \<Longrightarrow> m (de_other de (fst s)) = (r, fst s')"
  by (auto simp: delivery_tx_def split: prod.splits)

lemma tx_run_steps:
  assumes "delivery_benign de" "store_move m" "delivery_tx de m s = (r, s')"
  shows "delivery_step\<^sup>*\<^sup>* (fst s) (fst s')"
  using tx_steps [OF assms(1,2), of s] assms(3) by simp

text \<open>A step of a run that leaves the state alone, and raises unless the rest does.\<close>

lemma cbind_stuck:
  assumes "snd (m s) = s" and "\<And>x. fst (m s) = Inr x \<Longrightarrow> \<exists>e. f x s = (Inl e, s)"
  shows "\<exists>e. cbind m f s = (Inl e, s)"
  using assms by (cases "m s"; cases "fst (m s)") (auto simp: cbind_def)

lemma tx_still: "(\<And>x. de_other de x = x) \<Longrightarrow> delivery_tx de m (d, w) = (fst (m d), (snd (m d), w))"
  by (simp add: delivery_tx_def split: prod.splits)

section \<open>Properties\<close>

text \<open>
  C19: In every reachable database, an order whose fulfilment is completed has an accepted delivery
  attempt with the provider's message id and time, for exactly the report bound to the order, and
  the attempt's download grant is for the same order and report.
\<close>

theorem completed_order_was_delivered:
  assumes "delivery_reachable d" and "delivery_order u d = Some x" and "o_fulfillment x = F_Completed"
  shows "\<exists>a g b. a \<in> set (attempts d) \<and> at_order_id a = u \<and> at_status a = At_Accepted
    \<and> at_message_id a \<noteq> None \<and> at_submitted_at a \<noteq> None
    \<and> get_row g_id (at_grant_id a) (grants d) = Some g \<and> g_order_id g = u \<and> g_report_id g = at_report_id a
    \<and> delivery_binding u d = Some b \<and> b_report_id b = Some (at_report_id a)"
proof -
  note inv = delivery_reachable_inv [OF assms(1)]
  obtain a where a: "a \<in> set (attempts d)" "at_order_id a = u" "at_status a = At_Accepted"
    using delivery_invD(5) [OF inv assms(2,3)] by (auto simp: accepted_for_def)
  with delivery_invD(4) [OF inv a(1)] show ?thesis unfolding attempt_ok_def by blast
qed

text \<open>
  C22: However often the delivery of an order is retried, with whatever interleaving, faults and lost
  acknowledgements, the order has at most three delivery attempts, and so is mailed at most three
  times.
\<close>

theorem at_most_three_attempts:
  assumes "delivery_reachable d"
  shows "length (filter (\<lambda>a. at_order_id a = u) (attempts d)) \<le> 3"
proof -
  note inv = delivery_reachable_inv [OF assms]
  let ?rows = "filter (\<lambda>a. at_order_id a = u) (attempts d)"
  have keys: "distinct (map (\<lambda>a. (at_order_id a, at_number a)) ?rows)"
    using inv by (auto simp: delivery_inv_def intro: distinct_map_filter)
  have "distinct (map at_number ?rows)"
    using keys by (auto simp: distinct_map inj_on_def)
  then have "length ?rows = card (at_number ` set ?rows)"
    using distinct_card by fastforce
  also have "\<dots> \<le> card {1..3 :: int}"
  proof (rule card_mono)
    show "at_number ` set ?rows \<subseteq> {1..3}"
      using delivery_invD(4) [OF inv] by (auto simp: attempt_ok_def delivery_max_attempts_def)
  qed simp
  finally show ?thesis by simp
qed

text \<open>
  C20: The service never mails before it has a durable record of it. If a run of \<open>deliver\<close> touched
  the mail provider at all, whatever faults it met and whatever other transactions did, it sent
  exactly one message, and the database afterwards holds the attempt of that message, started, for
  the recipient and report the message names, and a grant with the digest of the token in the link.
\<close>

theorem no_message_before_record:
  assumes ben: "delivery_benign de" and reach: "delivery_reachable (fst s)"
    and run: "deliver de http post from_iso sha st gid aid token u s = (r, d', w')" and sent: "w' \<noteq> snd s"
  shows "\<exists>a g. get_row at_id aid (attempts d') = Some a \<and> at_order_id a = u \<and> at_status a \<noteq> At_Prepared
    \<and> at_grant_id a = gid \<and> get_row g_id gid (grants d') = Some g \<and> g_token_digest g = sha token
    \<and> w' = snd (post \<lparr>em_from = ds_from_email st, em_to = at_recipient a, em_template_alias = ds_template_alias st,
        em_order_reference = u, em_report_reference = at_report_id a,
        em_download_url = ds_public_base_url st @ ''/d/'' @ token, em_expires_at = g_expires_at g\<rparr> (snd s))"
proof -
  from run sent have ne: "snd (snd (deliver de http post from_iso sha st gid aid token u s)) \<noteq> snd s" by simp
  from ne obtain s1 s2 ctx rp s3 p s4 where c:
    "delivery_tx de (converge_known_acceptance (de_converge de) (de_now_converge de) u) s = (Inr False, s1)"
    "delivery_tx de (load_context (de_load de) u) s1 = (Inr ctx, s2)"
    "get_report_resource http (dc_base_url ctx) (dc_report_id ctx) (dc_analysis_id ctx) = Inr rp"
    "delivery_tx de (prepare_attempt (de_prepare de) (de_now_prepare de) gid aid u rp (sha token)
       (ds_template_alias st)) s2 = (Inr p, s3)"
    "delivery_tx de (mark_dispatch_started (de_mark de) (de_now_mark de) (pa_attempt_id p)) s3 = (Inr (), s4)"
    "snd s4 = snd s"
    "deliver de http post from_iso sha st gid aid token u s = send_and_record de post from_iso (delivery_email st token p) p s4"
    by (rule deliver_sends)
  note st = tx_run_steps [OF ben store_moves(1) c(1)] tx_run_steps [OF ben store_moves(2) c(2)]
    tx_run_steps [OF ben store_moves(3) c(4)] tx_run_steps [OF ben store_moves(4) c(5)]
  have d': "d' = fst (snd (send_and_record de post from_iso (delivery_email st token p) p s4))"
    "w' = snd (post (delivery_email st token p) (snd s))"
    using run c(6,7) send_world [of de post from_iso "delivery_email st token p" p s4] by simp_all
  have inv3: "delivery_inv (fst s3)"
    by (rule delivery_reachable_inv, rule delivery_reachable_steps [OF reach])
       (rule rtranclp_trans [OF rtranclp_trans [OF st(1,2)] st(3)])
  have m34: "delivery_mono (fst s3) (fst s4)" and inv4: "delivery_inv (fst s4)"
    using delivery_steps_inv [OF st(4) inv3] by auto
  have m45: "delivery_mono (fst s4) d'"
    using delivery_steps_inv [OF record_steps [OF ben] inv4] unfolding d'(1) by blast
  obtain ord n where p: "pa_attempt_id p = aid" "pa_recipient p = o_customer_email ord" "pa_order_id p = u"
    "pa_report_id p = rs_report_id rp" "pa_expires_at p = de_now_prepare de + delivery_grant_ttl" "o_id ord = u"
    and a3: "get_row at_id aid (attempts (fst s3))
      = Some (new_attempt (de_now_prepare de) aid gid ord (rs_report_id rp) (ds_template_alias st) n)" (is "_ = Some ?a")
    and g3: "get_row g_id gid (grants (fst s3)) = Some (new_grant (de_now_prepare de) gid u (rs_report_id rp) (sha token))"
      (is "_ = Some ?g")
    by (rule prepared_rows [OF tx_run [OF c(4)]])
  obtain a4 where a4: "get_row at_id aid (attempts (fst s4)) = Some a4" "at_status a4 = At_Dispatch_Started"
    using mark_started [OF tx_run [OF c(5)]] p(1) by auto
  from delivery_monoD(2) [OF m34 a3] a4 have f4: "attempt_fixed a4 = attempt_fixed ?a" by auto
  from delivery_monoD(2) [OF m45 a4(1)] a4(2) f4 obtain a5 where a5: "get_row at_id aid (attempts d') = Some a5"
    "attempt_fixed a5 = attempt_fixed ?a" "at_status a5 \<noteq> At_Prepared" by auto
  have g5: "get_row g_id gid (grants d') = Some ?g"
    by (rule delivery_monoD(3) [OF m45 delivery_monoD(3) [OF m34 g3]])
  from a5 g5 p d'(2) show ?thesis
    by (intro exI [of _ a5] exI [of _ ?g]) (simp add: attempt_fixed_def new_attempt_def new_grant_def delivery_email_def)
qed

text \<open>
  C21: What a download hands out. Content is returned only for a token whose SHA-256 digest is that
  of a grant which is neither revoked nor expired, of a paid order whose bound report is the one of
  the grant and ready; the content is a PDF whose digest the service has computed itself and whose
  file name cannot leave a directory. A download never changes the database.
\<close>

theorem download_capability_sound:
  assumes "download ft http fetch sha now token d = (Inr payload, d')"
  shows "d' = d \<and> 40 \<le> length token \<and> length token \<le> 128
    \<and> (\<exists>g x b. g \<in> set (grants d) \<and> g_token_digest g = sha token \<and> g_revoked_at g = None \<and> now < g_expires_at g
        \<and> delivery_order (g_order_id g) d = Some x \<and> o_payment x = P_Paid
        \<and> delivery_binding (g_order_id g) d = Some b \<and> b_report_id b = Some (g_report_id g) \<and> b_report_state b = Some ''ready''
        \<and> (\<exists>header. fetch (b_base_url b) (g_report_id g) = Content_Response 200 header (dp_content payload)))
    \<and> starts_with ''%PDF-'' (dp_content payload) \<and> dp_content_sha payload = sha (dp_content payload)
    \<and> token_digest_ok (dp_content_sha payload) \<and> CHR ''/'' \<notin> set (dp_filename payload)"
proof -
  from assms have len: "40 \<le> length token" "length token \<le> 128"
    by (auto simp: download_def split: if_splits)
  from assms obtain ctx d1 rp where
    r: "resolve_grant ft (sha token) now d = (Inr ctx, d1)" and
    rp: "get_report_resource http (dc_base_url ctx) (dc_report_id ctx) (dc_analysis_id ctx) = Inr rp" and
    pl: "get_content fetch sha (dc_base_url ctx) rp = Inr payload" "d' = d1"
    by (auto simp: download_def cbind_def rbind_Inr_iff split: if_splits prod.splits sum.splits)
  from r have d1: "d1 = d" by (auto simp: resolve_grant_def reading_def split: if_splits)
  from r obtain g where g: "get_row g_token_digest (sha token) (grants d) = Some g" "g_revoked_at g = None" "now < g_expires_at g"
    by (auto simp: resolve_grant_def reading_def split: if_splits option.splits)
  from r g obtain x b where x: "delivery_order (g_order_id g) d = Some x" "delivery_binding (g_order_id g) d = Some b"
    "validate_ready_context x b False = Inr ()" "b_report_id b = Some (g_report_id g)" "context_of x b = Inr ctx"
    by (auto simp: resolve_grant_def reading_def raised_def split: if_splits option.splits sum.splits)
  from x(4,5) have ctx: "dc_report_id ctx = g_report_id g" "dc_base_url ctx = b_base_url b"
    by (auto simp: context_of_def split: option.splits)
  from rp have ev: "rs_report_id rp = dc_report_id ctx \<and> token_digest_ok (rs_content_sha rp) \<and> CHR ''/'' \<notin> set (rs_filename rp)"
    by (auto simp: get_report_resource_def report_of_json_def raise_http_def upstream_def safe_filename_def rbind_Inr_iff
        split: http_outcome.splits if_splits option.splits json.splits)
  from pl(1) obtain header content where f: "fetch (dc_base_url ctx) (rs_report_id rp) = Content_Response 200 header content"
      "content_of_response sha rp header content = Inr payload"
    by (auto simp: get_content_def upstream_def raise_http_def split: content_outcome.splits if_splits)
  from f(2) have c: "dp_content payload = content" "starts_with ''%PDF-'' content" "dp_content_sha payload = sha content"
      "sha content = rs_content_sha rp" "dp_filename payload = rs_filename rp"
    by (auto simp: content_of_response_def upstream_def split: if_splits option.splits)
  from g(1) have "g \<in> set (grants d)" "g_token_digest g = sha token" using get_row_Some by fastforce+
  moreover from ready_contextD [OF x(3)] have "o_payment x = P_Paid" "b_report_state b = Some ''ready''" by auto
  ultimately show ?thesis using len pl(2) d1 g x ctx f c ev by auto
qed

text \<open>
  An order that used up its attempts without an outcome (the process stopped between the third
  message and the record of its answer) is stranded: every later run raises and changes nothing.
  The write of \<open>delivery_failed\<close> in \<open>prepare_attempt\<close> is rolled back by the exception that follows
  it, so the order stays \<open>delivery_pending\<close> and is never shown as needing attention.
\<close>

theorem exhausted_order_is_stranded:
  assumes "delivery_max_attempts \<le> last_number u (attempts d)" and "\<not> accepted_for d u"
    and "\<And>x. de_other de x = x"
  shows "\<exists>e. deliver de http post from_iso sha st gid aid token u (d, w) = (Inl e, (d, w))"
proof -
  have none: "first_accepted u (attempts d) = None"
    using assms(2) first_acceptedD by (cases "first_accepted u (attempts d)") (auto simp: accepted_for_def)
  have conv: "\<exists>r. converge_known_acceptance ft now u d = (r, d) \<and> (r = Inr False \<or> raised r)" for ft now
    by (cases ft) (auto simp: converge_known_acceptance_def transaction_def none split: option.split)
  have ld: "snd (load_context ft u d) = d" for ft by (simp add: load_context_def)
  have prep: "\<exists>e. prepare_attempt ft now gid aid u ev digest tmpl d = (Inl e, d)" for ft now ev digest tmpl
  proof -
    obtain r d' where p: "prepare_attempt ft now gid aid u ev digest tmpl d = (r, d')" by (rule prod.exhaust)
    with prepare_attempt_effect [OF p] assms(1) show ?thesis by (cases r) auto
  qed
  note tx = tx_still [of de, OF assms(3)]
  show ?thesis unfolding deliver_def
  proof (rule cbind_stuck, goal_cases)
    case 1
    show ?case using conv [of "de_converge de" "de_now_converge de"] by (auto simp: tx)
  next
    case (2 known)
    with conv [of "de_converge de" "de_now_converge de"] have "known = False" by (auto simp: tx)
    moreover have "fst (prepare_attempt (de_prepare de) (de_now_prepare de) gid aid u rp (sha token) (ds_template_alias st) d) \<noteq> Inr p"
      "snd (prepare_attempt (de_prepare de) (de_now_prepare de) gid aid u rp (sha token) (ds_template_alias st) d) = d" for rp p
      using prep [of "de_prepare de" "de_now_prepare de" rp "sha token" "ds_template_alias st"] by auto
    ultimately show ?case
      by (auto intro!: cbind_stuck simp: tx ld delivery_pure_def)
  qed
qed

section \<open>A concrete order: paid, analysed, reported, delivered\<close>

definition ready_http :: sitescore_http where
  "ready_http rq = Http_Response 200 (Some (JObj (
     (''api_version'', JStr ''v1'') # (''analysis_id'', JStr (uuid_str 50)) #
     (if starts_with ''/v1/reports'' (hr_path rq)
      then [(''state'', JStr ''ready''), (''report_id'', JStr (uuid_str 60)),
        (''content_sha256'', JStr (replicate 64 (CHR ''a''))), (''mime_type'', JStr ''application/pdf''),
        (''filename'', JStr ''r.pdf''), (''byte_length'', JInt 5)]
      else [(''state'', JStr ''completed'')]))))"

definition ready_driver :: "int \<Rightarrow> fulfillment_db \<Rightarrow> fulfillment_db" where
  "ready_driver now c = fst (snd (runtime_advance run_env ready_http run_stripe (\<lambda>_. ''c'') (\<lambda>_. ''ab'') run_settings now 7
     (c, [])))"

definition run_analysed :: fulfillment_db where
  "run_analysed = ready_driver 10 run_fulfillment"

definition run_ready :: fulfillment_db where
  "run_ready = ready_driver 11 run_analysed"

lemma ready_driver_reachable: "fulfillment_reachable c \<Longrightarrow> fulfillment_reachable (ready_driver now c)"
proof -
  assume c: "fulfillment_reachable c"
  have "fulfillment_step\<^sup>*\<^sup>* (fst (c, [] :: stripe_object list)) (ready_driver now c)"
    unfolding ready_driver_def
    by (rule safe_run(1) [OF safe_runtime_advance [OF run_env_benign]]) (simp add: fulfillment_reachable_inv [OF c])
  with c show ?thesis by (simp add: fulfillment_reachable_def)
qed

lemma run_ready_reachable: "delivery_reachable (empty_delivery run_ready)"
  unfolding run_ready_def run_analysed_def
  by (intro fulfillment_reachable_delivery ready_driver_reachable run_fulfillment_reachable)

lemma not_report_path: "\<not> starts_with ''/v1/reports'' ''/v1/analyses''" "starts_with ''/v1/reports'' ''/v1/reports''"
  "starts_with ''/v1/reports'' (''/v1/reports/'' @ t)"
  by (simp_all add: starts_with_def)

lemma run_analysed_rows:
  "\<exists>b. bindings run_analysed = [b] \<and> b_order_id b = 7 \<and> b_analysis_id b = Some 50 \<and> b_base_url b = ''https://api''
    \<and> b_analysis_state b = Some ''completed'' \<and> b_report_id b = None
    \<and> (\<exists>x. orders (shop run_analysed) = [x] \<and> o_id x = 7 \<and> o_product_code x = ''location_report_v1''
         \<and> o_customer_email x = ''a@b.co''
         \<and> o_state x = O_In_Progress \<and> o_payment x = P_Paid \<and> o_fulfillment x = F_Report_Pending)"
  by (simp add: run_analysed_def ready_driver_def run_fulfillment_def run_paid_order driver_simps ready_http_def
     not_report_path get_row_def put_row_def add_row_def run_settings_def)

lemma run_ready_rows:
  "\<exists>b. bindings run_ready = [b] \<and> b_order_id b = 7 \<and> b_analysis_id b = Some 50 \<and> b_base_url b = ''https://api''
    \<and> b_analysis_state b = Some ''completed'' \<and> b_report_id b = Some 60 \<and> b_report_state b = Some ''ready''
    \<and> (\<exists>x. orders (shop run_ready) = [x] \<and> o_id x = 7 \<and> o_customer_email x = ''a@b.co''
         \<and> o_state x = O_In_Progress \<and> o_payment x = P_Paid \<and> o_fulfillment x = F_Delivery_Pending)"
proof -
  obtain b x where r: "bindings run_analysed = [b]" "b_order_id b = 7" "b_analysis_id b = Some 50" "b_base_url b = ''https://api''"
    "b_analysis_state b = Some ''completed''" "b_report_id b = None" "orders (shop run_analysed) = [x]" "o_id x = 7"
    "o_customer_email x = ''a@b.co''" "o_product_code x = ''location_report_v1''"
    "o_state x = O_In_Progress" "o_payment x = P_Paid" "o_fulfillment x = F_Report_Pending"
    using run_analysed_rows by blast
  then show ?thesis
    by (simp add: run_ready_def ready_driver_def driver_simps ensure_report_def get_binding_def resolve_report_def
      ready_http_def not_report_path report_answer_def report_states_def bind_report_def apply_report_state_def
      get_row_def put_row_def add_row_def refund_reasons.simps)
qed

definition run_sha :: "string \<Rightarrow> string" where
  "run_sha t = take 1 t @ replicate 63 (CHR ''a'')"

definition run_token :: "char \<Rightarrow> string" where
  "run_token c = replicate 43 c"

text \<open>The mail provider is a counter of the messages it took.\<close>

definition run_post :: "email \<Rightarrow> nat \<Rightarrow> http_outcome \<times> nat" where
  "run_post em n = (Http_Response 200 (Some (JObj [(''ErrorCode'', JInt 0), (''MessageID'', JStr (uuid_str 90)),
     (''To'', JStr (em_to em)), (''SubmittedAt'', JStr ''2026-07-01'')])), Suc n)"

definition run_delivery_env :: "fault \<Rightarrow> delivery_env" where
  "run_delivery_env ft = \<lparr>de_converge = Healthy, de_load = Healthy, de_prepare = Healthy, de_mark = Healthy,
     de_record = ft, de_now_converge = 20, de_now_prepare = 20, de_now_mark = 20, de_now_record = 21,
     de_other = (\<lambda>d. d)\<rparr>"

definition run_deliver :: "fault \<Rightarrow> uuid \<Rightarrow> char \<Rightarrow> (delivery_db \<times> nat, delivery_error, unit) call" where
  "run_deliver ft k c = deliver (run_delivery_env ft) ready_http run_post (\<lambda>_. Some (30, Some 0)) run_sha
     \<lparr>ds_template_alias = ''t'', ds_from_email = ''f@b.co'', ds_public_base_url = ''https://s''\<rparr> (2 * k) (2 * k + 1) (run_token c) 7"

lemma run_delivery_benign: "delivery_benign (run_delivery_env ft)"
  by (simp add: delivery_benign_def run_delivery_env_def)

lemma run_deliver_reachable: "delivery_reachable (fst s) \<Longrightarrow> delivery_reachable (fst (snd (run_deliver ft k c s)))"
  unfolding run_deliver_def by (rule delivery_reachable_steps [OF _ deliver_steps [OF run_delivery_benign]])

text \<open>What a run of the concrete service does with a database that is ready for it.\<close>

lemma run_report: "get_report_resource ready_http url 60 50 = Inr \<lparr>rs_report_id = 60, rs_analysis_id = 50, rs_state = ''ready'',
   rs_content_sha = replicate 64 (CHR ''a''), rs_mime_type = ''application/pdf'', rs_filename = ''r.pdf'', rs_byte_length = 5\<rparr>"
proof -
  have "token_digest_ok (replicate 64 (CHR ''a''))" "lower ''application/pdf'' = ''application/pdf''"
      "safe_filename (JStr ''r.pdf'') = Inr ''r.pdf''"
    by code_simp+
  then show ?thesis
    by (simp add: get_report_resource_def ready_http_def starts_with_def report_of_json_def delivery_uuid_def text_or_blank_def)
qed

lemmas deliver_simps = run_deliver_def deliver_def cbind_def delivery_tx_def run_delivery_env_def converge_known_acceptance_def
  transaction_def first_accepted_def load_context_def reading_def validate_ready_context_def context_of_def delivery_pure_def
  run_report prepare_attempt_def new_attempt_def new_grant_def delivery_max_attempts_def last_number_def
  mark_dispatch_started_def send_and_record_def postmark_send_def run_post_def postmark_acceptance_of_def
  parse_provider_timestamp_def delivery_email_def record_accepted_def fulfilled_def set_order_def put_order_def
  delivery_order_def delivery_binding_def order_of_def

lemma run_digests: "token_digest_ok (run_sha (run_token (CHR ''a'')))" "token_digest_ok (run_sha (run_token (CHR ''b'')))"
  "token_digest_ok (run_sha (run_token (CHR ''c'')))"
  by code_simp+

lemma run_digests_distinct: "run_sha (run_token c) = run_sha (run_token c') \<longleftrightarrow> c = c'"
  by (simp add: run_sha_def run_token_def)

definition run_delivered :: "delivery_db \<times> nat" where
  "run_delivered = snd (run_deliver Healthy 1 (CHR ''a'') (empty_delivery run_ready, 0))"

definition run_crashed :: "delivery_db \<times> nat" where
  "run_crashed = snd (run_deliver Rolled_back 3 (CHR ''c'') (snd (run_deliver Rolled_back 2 (CHR ''b'')
     (snd (run_deliver Rolled_back 1 (CHR ''a'') (empty_delivery run_ready, 0))))))"

lemma run_delivered_reachable: "delivery_reachable (fst run_delivered)"
  unfolding run_delivered_def by (rule run_deliver_reachable) (simp add: run_ready_reachable)

lemma run_crashed_reachable: "delivery_reachable (fst run_crashed)"
  unfolding run_crashed_def by (rule run_deliver_reachable)+ (simp add: run_ready_reachable)

lemma strip_uuid: "strip (uuid_str u) = uuid_str u" "uuid_str u \<noteq> []"
proof -
  have "\<forall>c \<in> set (uuid_str u). \<not> is_space c"
    using set_uuid_str plain_hex_not by (fastforce simp: is_space_def)
  then show "strip (uuid_str u) = uuid_str u" unfolding strip_def by (rule strip_chars_none)
  have "length (uuid_str u) \<noteq> 0" by (simp add: uuid_str_def Let_def)
  then show "uuid_str u \<noteq> []" by auto
qed

lemma run_delivered_rows:
  "snd run_delivered = 1 \<and> (\<exists>x. delivery_order 7 (fst run_delivered) = Some x \<and> o_fulfillment x = F_Completed)
   \<and> (\<exists>g. grants (fst run_delivered) = [g] \<and> g_token_digest g = run_sha (run_token (CHR ''a''))
        \<and> g_expires_at g > 604000000000 \<and> g_order_id g = 7)"
proof -
  obtain b x where r: "bindings run_ready = [b]" "b_order_id b = 7" "b_analysis_id b = Some 50" "b_base_url b = ''https://api''"
    "b_analysis_state b = Some ''completed''" "b_report_id b = Some 60" "b_report_state b = Some ''ready''"
    "orders (shop run_ready) = [x]" "o_id x = 7" "o_customer_email x = ''a@b.co''"
    "o_state x = O_In_Progress" "o_payment x = P_Paid" "o_fulfillment x = F_Delivery_Pending"
    using run_ready_rows by blast
  have "strip ''2026-07-01'' = ''2026-07-01''" by code_simp
  with r strip_uuid [of 90] run_digests show ?thesis
    by (simp add: run_delivered_def deliver_simps empty_delivery_def get_row_def put_row_def add_row_def
       delivery_grant_ttl_def text_of_def Let_def)
qed

text \<open>A run whose last transaction is lost: the message is sent, the attempt stays started.\<close>

definition started_attempt :: "uuid \<Rightarrow> int \<Rightarrow> attempt_row" where
  "started_attempt k n = (\<lparr>at_id = 2 * k + 1, at_order_id = 7, at_report_id = 60, at_grant_id = 2 * k,
     at_provider = ''postmark'', at_recipient = ''a@b.co'', at_template_alias = ''t'', at_number = n,
     at_started_at = 20, at_message_id = None, at_submitted_at = None, at_status = At_Dispatch_Started,
     at_failure = None, at_created_at = 20, at_updated_at = 20\<rparr>)"

lemma deliver_chain:
  assumes "delivery_tx de (converge_known_acceptance (de_converge de) (de_now_converge de) u) s = (Inr False, s1)"
    "delivery_tx de (load_context (de_load de) u) s1 = (Inr ctx, s2)"
    "get_report_resource http (dc_base_url ctx) (dc_report_id ctx) (dc_analysis_id ctx) = Inr rp"
    "delivery_tx de (prepare_attempt (de_prepare de) (de_now_prepare de) gid aid u rp (sha token)
       (ds_template_alias st)) s2 = (Inr p, s3)"
    "delivery_tx de (mark_dispatch_started (de_mark de) (de_now_mark de) (pa_attempt_id p)) s3 = (Inr (), s4)"
  shows "deliver de http post from_iso sha st gid aid token u s
    = send_and_record de post from_iso (delivery_email st token p) p s4"
  using assms by (simp add: deliver_def cbind_def delivery_pure_def)

lemma put_fresh_row: "get_row key (key r) rows = None \<Longrightarrow> key r' = key r \<Longrightarrow> put_row key r' (rows @ [r]) = rows @ [r']"
  by (induction rows) (auto simp: get_row_def put_row_def split: if_splits)

lemma crashed_run:
  assumes d: "core d = run_ready" "first_accepted 7 (attempts d) = None" "\<not> accepted_for d 7"
      "last_number 7 (attempts d) + 1 = n" "n \<le> 3"
    and fresh: "get_row g_id (2 * k) (grants d) = None" "get_row g_token_digest (run_sha (run_token c)) (grants d) = None"
      "get_row at_id (2 * k + 1) (attempts d) = None" "token_digest_ok (run_sha (run_token c))"
  shows "snd (run_deliver Rolled_back k c (d, w)) = (d\<lparr>grants := grants d @ [new_grant 20 (2 * k) 7 60 (run_sha (run_token c))],
     attempts := attempts d @ [started_attempt k n]\<rparr>, Suc w)"
proof -
  obtain b x where r: "bindings run_ready = [b]" "b_order_id b = 7" "b_analysis_id b = Some 50" "b_base_url b = ''https://api''"
    "b_analysis_state b = Some ''completed''" "b_report_id b = Some 60" "b_report_state b = Some ''ready''"
    "orders (shop run_ready) = [x]" "o_id x = 7" "o_customer_email x = ''a@b.co''"
    "o_state x = O_In_Progress" "o_payment x = P_Paid" "o_fulfillment x = F_Delivery_Pending"
    using run_ready_rows by blast
  let ?env = "run_delivery_env Rolled_back"
  let ?rp = "\<lparr>rs_report_id = 60, rs_analysis_id = 50, rs_state = ''ready'', rs_content_sha = replicate 64 (CHR ''a''),
     rs_mime_type = ''application/pdf'', rs_filename = ''r.pdf'', rs_byte_length = 5\<rparr>"
  let ?a = "started_attempt k n"
  let ?d1 = "d\<lparr>grants := grants d @ [new_grant 20 (2 * k) 7 60 (run_sha (run_token c))],
     attempts := attempts d @ [?a\<lparr>at_status := At_Prepared\<rparr>]\<rparr>"
  let ?d2 = "?d1\<lparr>attempts := attempts d @ [?a]\<rparr>"
  have rows: "delivery_order 7 d = Some x" "delivery_binding 7 d = Some b" "\<not> list_ex (\<lambda>a. at_order_id a = 7 \<and> at_status a = At_Accepted) (attempts d)"
    using r d by (auto simp: delivery_order_def delivery_binding_def order_of_def get_row_def accepted_for_def list_ex_iff)
  have v: "validate_ready_context x b True = Inr ()" using r by (simp add: validate_ready_context_def)
  have e1: "converge_known_acceptance Healthy 20 7 d = (Inr False, d)"
    using rows d by (simp add: converge_known_acceptance_def transaction_def)
  obtain ctx where e2: "load_context Healthy 7 d = (Inr ctx, d)" "dc_report_id ctx = 60" "dc_analysis_id ctx = 50"
    using rows v r by (simp add: load_context_def reading_def context_of_def)
  obtain p where e3: "prepare_attempt Healthy 20 (2 * k) (2 * k + 1) 7 ?rp (run_sha (run_token c)) ''t'' d = (Inr p, ?d1)"
      "pa_attempt_id p = 2 * k + 1"
    using rows v r d fresh
    by (simp add: prepare_attempt_def transaction_def delivery_max_attempts_def add_row_def new_attempt_def started_attempt_def)
  have a1: "get_row at_id (2 * k + 1) (attempts ?d1) = Some (?a\<lparr>at_status := At_Prepared\<rparr>)"
    using fresh(3) get_add_new [of at_id "2 * k + 1" "attempts d" "?a\<lparr>at_status := At_Prepared\<rparr>"]
    by (simp add: add_row_def started_attempt_def)
  have e4: "mark_dispatch_started Healthy 20 (2 * k + 1) ?d1 = (Inr (), ?d2)"
    using a1 fresh(3) put_fresh_row [of at_id "?a\<lparr>at_status := At_Prepared\<rparr>" "attempts d" ?a]
    by (simp add: mark_dispatch_started_def transaction_def started_attempt_def)
  have e5: "snd (send_and_record ?env run_post (\<lambda>_. Some (30, Some 0)) em p (?d2, w)) = (?d2, Suc w)" for em
    by (auto simp: send_and_record_def postmark_send_def run_post_def delivery_tx_def run_delivery_env_def transaction_def
        record_accepted_def record_rejected_def record_uncertain_def record_failure_def split: sum.split postmark_error.split)
  have t: "delivery_tx ?env (converge_known_acceptance (de_converge ?env) (de_now_converge ?env) 7) (d, w) = (Inr False, (d, w))"
      "delivery_tx ?env (load_context (de_load ?env) 7) (d, w) = (Inr ctx, (d, w))"
      "delivery_tx ?env (prepare_attempt (de_prepare ?env) (de_now_prepare ?env) (2 * k) (2 * k + 1) 7 ?rp
         (run_sha (run_token c)) ''t'') (d, w) = (Inr p, (?d1, w))"
      "delivery_tx ?env (mark_dispatch_started (de_mark ?env) (de_now_mark ?env) (pa_attempt_id p)) (?d1, w) = (Inr (), (?d2, w))"
    using e1 e2(1) e3 e4 by (simp_all add: delivery_tx_def run_delivery_env_def)
  have pr: "get_report_resource ready_http (dc_base_url ctx) (dc_report_id ctx) (dc_analysis_id ctx) = Inr ?rp"
    by (simp only: e2(2,3) run_report)
  have "run_deliver Rolled_back k c (d, w) = send_and_record ?env run_post (\<lambda>_. Some (30, Some 0)) (delivery_email
      \<lparr>ds_template_alias = ''t'', ds_from_email = ''f@b.co'', ds_public_base_url = ''https://s''\<rparr> (run_token c) p) p (?d2, w)"
    unfolding run_deliver_def by (rule deliver_chain [OF t(1,2) pr _ t(4)]) (use t(3) in simp)
  then show ?thesis using e5 by simp
qed

lemma run_crashed_state:
  "run_crashed = (\<lparr>core = run_ready, grants = [new_grant 20 2 7 60 (run_sha (run_token (CHR ''a''))),
      new_grant 20 4 7 60 (run_sha (run_token (CHR ''b''))), new_grant 20 6 7 60 (run_sha (run_token (CHR ''c'')))],
     attempts = [started_attempt 1 1, started_attempt 2 2, started_attempt 3 3]\<rparr>, 3)"
proof -
  note facts = first_accepted_def accepted_for_def last_number_def get_row_def new_grant_def started_attempt_def
    run_digests run_digests_distinct empty_delivery_def
  have 1: "snd (run_deliver Rolled_back 1 (CHR ''a'') (empty_delivery run_ready, 0)) = (\<lparr>core = run_ready,
      grants = [new_grant 20 2 7 60 (run_sha (run_token (CHR ''a'')))], attempts = [started_attempt 1 1]\<rparr>, 1)"
    by (subst crashed_run [where n = 1]) (simp_all add: facts)
  show ?thesis unfolding run_crashed_def 1
    by (subst crashed_run [where n = 2], (simp add: facts)+, subst crashed_run [where n = 3], (simp add: facts)+)
qed

lemma run_crashed_rows:
  "length (attempts (fst run_crashed)) = 3 \<and> snd run_crashed = 3 \<and> last_number 7 (attempts (fst run_crashed)) = 3
   \<and> \<not> accepted_for (fst run_crashed) 7"
  by (simp add: run_crashed_state last_number_def accepted_for_def started_attempt_def)

theorem completed_order_was_delivered_witness:
  "\<exists>a. a \<in> set (attempts (fst run_delivered)) \<and> at_order_id a = 7 \<and> at_status a = At_Accepted \<and> at_message_id a \<noteq> None"
proof -
  obtain x where "delivery_order 7 (fst run_delivered) = Some x" "o_fulfillment x = F_Completed"
    using run_delivered_rows by blast
  from completed_order_was_delivered [OF run_delivered_reachable this] show ?thesis by blast
qed

theorem at_most_three_attempts_witness:
  "length (filter (\<lambda>a. at_order_id a = 7) (attempts (fst run_crashed))) \<le> 3 \<and> length (attempts (fst run_crashed)) = 3"
  using at_most_three_attempts [OF run_crashed_reachable] run_crashed_rows by blast

theorem no_message_before_record_witness:
  "\<exists>a. get_row at_id 3 (attempts (fst run_delivered)) = Some a \<and> at_order_id a = 7 \<and> at_status a \<noteq> At_Prepared"
proof -
  have run: "deliver (run_delivery_env Healthy) ready_http run_post (\<lambda>_. Some (30, Some 0)) run_sha
     \<lparr>ds_template_alias = ''t'', ds_from_email = ''f@b.co'', ds_public_base_url = ''https://s''\<rparr> 2 3
     (run_token (CHR ''a'')) 7 (empty_delivery run_ready, 0)
     = (fst (run_deliver Healthy 1 (CHR ''a'') (empty_delivery run_ready, 0)), fst run_delivered, snd run_delivered)"
    by (simp add: run_delivered_def run_deliver_def)
  have "delivery_reachable (fst (empty_delivery run_ready, 0 :: nat))" "snd run_delivered \<noteq> snd (empty_delivery run_ready, 0)"
    using run_ready_reachable run_delivered_rows by simp_all
  from no_message_before_record [OF run_delivery_benign this(1) run this(2)] show ?thesis by blast
qed

definition run_headers :: "string \<Rightarrow> string option" where
  "run_headers = map_of [(''Content-Type'', ''application/pdf; v=1''), (''Content-SHA256'', replicate 64 (CHR ''a'')),
     (''Content-Length'', ''5'')]"

definition run_fetch :: "string \<Rightarrow> uuid \<Rightarrow> content_outcome" where
  "run_fetch url rid = Content_Response 200 run_headers ''%PDF-''"

definition run_download_sha :: "string \<Rightarrow> string" where
  "run_download_sha t = (if t = ''%PDF-'' then replicate 64 (CHR ''a'') else run_sha t)"

lemma run_content:
  "content_of_response run_download_sha \<lparr>rs_report_id = 60, rs_analysis_id = 50, rs_state = ''ready'',
     rs_content_sha = replicate 64 (CHR ''a''), rs_mime_type = ''application/pdf'', rs_filename = ''r.pdf'', rs_byte_length = 5\<rparr>
   run_headers ''%PDF-'' = Inr \<lparr>dp_content = ''%PDF-'', dp_filename = ''r.pdf'', dp_content_sha = replicate 64 (CHR ''a'')\<rparr>"
proof -
  have "lower (strip (takeWhile (\<lambda>c. c \<noteq> CHR '';'') ''application/pdf; v=1'')) = ''application/pdf''"
    "lower (strip (replicate 64 (CHR ''a''))) = replicate 64 (CHR ''a'')" "int_base10 ''5'' = Some 5"
    "starts_with ''%PDF-'' ''%PDF-''" "run_download_sha ''%PDF-'' = replicate 64 (CHR ''a'')"
    by code_simp+
  then show ?thesis by (simp add: content_of_response_def text_of_def run_headers_def)
qed

lemma run_download:
  "download Healthy ready_http run_fetch run_download_sha 100 (run_token (CHR ''a'')) (fst run_crashed)
     = (Inr \<lparr>dp_content = ''%PDF-'', dp_filename = ''r.pdf'', dp_content_sha = replicate 64 (CHR ''a'')\<rparr>, fst run_crashed)"
proof -
  obtain b x where r: "bindings run_ready = [b]" "b_order_id b = 7" "b_analysis_id b = Some 50" "b_base_url b = ''https://api''"
    "b_analysis_state b = Some ''completed''" "b_report_id b = Some 60" "b_report_state b = Some ''ready''"
    "orders (shop run_ready) = [x]" "o_id x = 7" "o_customer_email x = ''a@b.co''"
    "o_state x = O_In_Progress" "o_payment x = P_Paid" "o_fulfillment x = F_Delivery_Pending"
    using run_ready_rows by blast
  have tok: "run_download_sha (run_token (CHR ''a'')) = run_sha (run_token (CHR ''a''))"
    "40 \<le> length (run_token (CHR ''a''))" "length (run_token (CHR ''a'')) \<le> 128"
    "\<not> list_ex (\<lambda>c. 128 \<le> (of_char c :: nat)) (run_token (CHR ''a''))"
    by code_simp+
  obtain ctx where ctx: "resolve_grant Healthy (run_sha (run_token (CHR ''a''))) 100 (fst run_crashed) = (Inr ctx, fst run_crashed)"
    "dc_report_id ctx = 60" "dc_analysis_id ctx = 50"
    using r run_digests(1)
    by (simp add: resolve_grant_def reading_def run_crashed_state get_row_def new_grant_def delivery_grant_ttl_def
      delivery_order_def delivery_binding_def order_of_def validate_ready_context_def context_of_def)
  show ?thesis
    using tok by (simp add: download_def cbind_def ctx run_report get_content_def run_fetch_def run_content)
qed

theorem download_capability_sound_witness:
  "\<exists>g. g \<in> set (grants (fst run_crashed)) \<and> g_token_digest g = run_download_sha (run_token (CHR ''a'')) \<and> 100 < g_expires_at g"
  using download_capability_sound [OF run_download] by blast

theorem exhausted_order_is_stranded_witness:
  "\<exists>e. deliver (run_delivery_env Healthy) ready_http run_post (\<lambda>_. None) run_sha
     \<lparr>ds_template_alias = ''t'', ds_from_email = ''f@b.co'', ds_public_base_url = ''https://s''\<rparr> 8 9
     (run_token (CHR ''d'')) 7 run_crashed = (Inl e, run_crashed)"
proof -
  have "delivery_max_attempts \<le> last_number 7 (attempts (fst run_crashed))" "\<not> accepted_for (fst run_crashed) 7"
      "\<And>x. de_other (run_delivery_env Healthy) x = x"
    using run_crashed_rows by (simp_all add: delivery_max_attempts_def run_delivery_env_def)
  from exhausted_order_is_stranded [OF this, of ready_http run_post "\<lambda>_. None" run_sha _ 8 9 _ "snd run_crashed"]
  show ?thesis by (simp only: prod.collapse)
qed

text \<open>
  Two messages of one order may be under way at once. When the answer to one is a final rejection
  and arrives after the other was accepted, \<open>_record_failure\<close> marks the delivered order as failed:
  it looks at the state of its own attempt only.
\<close>

lemma late_rejection_overwrites_fulfilled:
  assumes a: "get_row at_id aid (attempts d) = Some a" "at_status a = At_Dispatch_Started"
    and x: "delivery_order (at_order_id a) d = Some x"
  shows "\<exists>d'. record_rejected Healthy now aid code False d = (Inr (), d')
    \<and> delivery_order (at_order_id a) d' = Some (x\<lparr>o_state := O_Attention, o_payment := P_Paid,
         o_fulfillment := F_Delivery_Failed, o_updated_at := now\<rparr>)"
proof -
  have ox: "order_of (at_order_id a) (core d) = Some x" "o_id x = at_order_id a"
    using x order_of_id by (auto simp: delivery_order_def)
  show ?thesis
    using a x ox by (simp add: record_rejected_def record_failure_def transaction_def Let_def) (simp add: delivery_order_def)
qed

end
