(* ===== verification/PyRun.thy ===== *)
theory PyRun
  imports Prelude
begin

text \<open>
  Runs of a service: a call on the database \<open>'d\<close>, the world \<open>'w\<close> outside it (broker, object storage,
  provider) and a counter of what the run did so far. The transaction number \<open>n\<close> meets the fault
  \<open>ev_fault n\<close>, reads the clock \<open>ev_now n\<close>, and is preceded by what other processes commit,
  \<open>ev_other n\<close>. The lemmas show when a run is a sequence of steps of a step relation.
\<close>

record 'd env =
  ev_fault :: "nat \<Rightarrow> fault"
  ev_other :: "nat \<Rightarrow> 'd \<Rightarrow> 'd"
  ev_now :: "nat \<Rightarrow> int"

type_synonym ('d, 'w) run = "'d \<times> 'w \<times> nat"

definition transact :: "'e \<Rightarrow> 'd env \<Rightarrow> (int \<Rightarrow> ('d, 'e, 'a) call) \<Rightarrow> (('d, 'w) run, 'e, 'a) call" where
  "transact unavailable ev body s = (case s of (d, w, n) \<Rightarrow>
     (case transaction (ev_fault ev n) unavailable (body (ev_now ev n)) (ev_other ev n d) of
        (r, d') \<Rightarrow> (r, (d', w, Suc n))))"

definition clock :: "'d env \<Rightarrow> (('d, 'w) run, 'e, int) call" where
  "clock ev s = (case s of (d, w, n) \<Rightarrow> (Inr (ev_now ev n), (d, w, Suc n)))"

definition ret :: "'a \<Rightarrow> (('d, 'w) run, 'e, 'a) call" where
  "ret x s = (Inr x, s)"

definition throw :: "'e \<Rightarrow> (('d, 'w) run, 'e, 'a) call" where
  "throw e s = (Inl e, s)"

text \<open>A call on the world outside, and a look at it.\<close>

definition outside :: "('w \<Rightarrow> 'a \<times> 'w) \<Rightarrow> (('d, 'w) run, 'e, 'a) call" where
  "outside f s = (case s of (d, w, n) \<Rightarrow> (case f w of (r, w') \<Rightarrow> (Inr r, (d, w', n))))"

definition look :: "('w \<Rightarrow> 'a) \<Rightarrow> (('d, 'w) run, 'e, 'a) call" where
  "look f s = (case s of (d, w, n) \<Rightarrow> (Inr (f w), s))"

text \<open>\<open>try: ... except Exception: ...\<close>\<close>

definition catch :: "(('d, 'w) run, 'e, 'a) call \<Rightarrow> ('e \<Rightarrow> (('d, 'w) run, 'e, 'a) call) \<Rightarrow> (('d, 'w) run, 'e, 'a) call" where
  "catch m h s = (case m s of (Inl e, s') \<Rightarrow> h e s' | (Inr x, s') \<Rightarrow> (Inr x, s'))"

section \<open>Runs as sequences of steps\<close>

named_theorems stepping \<open>calls that are sequences of steps\<close>

definition steps_from :: "('d \<Rightarrow> 'd \<Rightarrow> bool) \<Rightarrow> (('d, 'w) run, 'e, 'a) call \<Rightarrow> ('d, 'w) run \<Rightarrow> bool" where
  "steps_from step m s = step\<^sup>*\<^sup>* (fst s) (fst (snd (m s)))"

text \<open>The other processes take steps too.\<close>

definition well_behaved :: "('d \<Rightarrow> 'd \<Rightarrow> bool) \<Rightarrow> 'd env \<Rightarrow> bool" where
  "well_behaved step ev = (\<forall>n d. step\<^sup>*\<^sup>* d (ev_other ev n d))"

lemma steps_pure [stepping]: "steps_from step (ret x) s" "steps_from step (throw e) s" "steps_from step (clock ev) s"
  "steps_from step (outside f) s" "steps_from step (look h) s"
  by (auto simp: steps_from_def ret_def throw_def clock_def outside_def look_def split: prod.splits)

lemma steps_bind:
  assumes "steps_from step m s" and "\<And>x s'. m s = (Inr x, s') \<Longrightarrow> steps_from step (f x) s'"
  shows "steps_from step (cbind m f) s"
proof -
  obtain r s' where Pair: "m s = (r, s')" by (cases "m s")
  show ?thesis
  proof (cases r)
    case (Inr x)
    with Pair assms(2) [of x s'] assms(1) show ?thesis by (simp add: steps_from_def)
  qed (use Pair assms(1) in \<open>simp add: steps_from_def\<close>)
qed

lemma steps_catch:
  assumes "steps_from step m s" and "\<And>e s'. m s = (Inl e, s') \<Longrightarrow> steps_from step (h e) s'"
  shows "steps_from step (catch m h) s"
proof -
  obtain r s' where Pair: "m s = (r, s')" by (cases "m s")
  show ?thesis
  proof (cases r)
    case (Inl e)
    with Pair assms(2) [of e s'] assms(1) show ?thesis by (simp add: steps_from_def catch_def)
  qed (use Pair assms(1) in \<open>simp add: steps_from_def catch_def\<close>)
qed

lemma steps_transact:
  assumes ev: "well_behaved step ev" and body: "\<And>now d x d'. body now d = (Inr x, d') \<Longrightarrow> step\<^sup>*\<^sup>* d d'"
  shows "steps_from step (transact e ev body) s"
proof -
  obtain d w n where s: "s = (d, w, n)" by (cases s) auto
  let ?d = "ev_other ev n d"
  have other: "step\<^sup>*\<^sup>* d ?d" using ev by (simp add: well_behaved_def)
  have "step\<^sup>*\<^sup>* d (snd (transaction (ev_fault ev n) e (body (ev_now ev n)) ?d))"
    by (rule transaction_inv [where P = "step\<^sup>*\<^sup>* d"]) (use other body rtranclp_trans [OF other] in blast)+
  then show ?thesis by (simp add: steps_from_def s transact_def case_prod_beta)
qed

lemma steps_transact_read:
  assumes "well_behaved step ev" shows "steps_from step (transact e ev (\<lambda>now d. (f now d, d))) s"
  by (rule steps_transact [OF assms]) simp

lemma steps_fromD: "steps_from step m s \<Longrightarrow> m s = (r, s') \<Longrightarrow> step\<^sup>*\<^sup>* (fst s) (fst s')"
  by (simp add: steps_from_def)

lemma transact_Inr: "transact e ev body (d, w, n) = (Inr x, s') \<Longrightarrow>
    \<exists>d'. body (ev_now ev n) (ev_other ev n d) = (Inr x, d') \<and> s' = (d', w, Suc n)"
  by (auto simp: transact_def transaction_Inr_iff split: prod.splits)

lemma catch_InrD: "catch m h s = (Inr y, s2) \<Longrightarrow> m s = (Inr y, s2) \<or> (\<exists>e s1. m s = (Inl e, s1) \<and> h e s1 = (Inr y, s2))"
  by (auto simp: catch_def split: prod.splits sum.splits)

section \<open>Runs that leave the world alone\<close>

named_theorems indoor \<open>calls that do not touch the world\<close>

definition keeps_world :: "(('d, 'w) run, 'e, 'a) call \<Rightarrow> bool" where
  "keeps_world m = (\<forall>s. fst (snd (snd (m s))) = fst (snd s))"

lemma keeps_world_pure [indoor]: "keeps_world (ret x)" "keeps_world (throw e)" "keeps_world (clock ev)" "keeps_world (look h)"
  "keeps_world (transact e ev body)"
  by (auto simp: keeps_world_def ret_def throw_def clock_def look_def transact_def split: prod.splits)

lemma keeps_world_bind [indoor]:
  assumes "keeps_world m" and "\<And>x. keeps_world (f x)" shows "keeps_world (cbind m f)"
  unfolding keeps_world_def
proof
  fix s
  obtain r s1 where run: "m s = (r, s1)" by (cases "m s")
  have "fst (snd s1) = fst (snd s)" using assms(1) run by (metis keeps_world_def snd_conv)
  then show "fst (snd (snd (cbind m f s))) = fst (snd s)"
    using run assms(2) by (cases r) (simp_all add: cbind_def keeps_world_def del: split_paired_All)
qed

lemma keeps_worldD: "keeps_world m \<Longrightarrow> m (d, w, n) = (r, (d', w', n')) \<Longrightarrow> w' = w"
  unfolding keeps_world_def by (metis fst_conv snd_conv)

lemmas keeps_world_bindD = keeps_worldD [of "cbind m f" for m f]

section \<open>A run that nothing disturbs\<close>

definition quiet :: "'d env \<Rightarrow> bool" where
  "quiet ev = (\<forall>n. ev_fault ev n = Healthy \<and> (\<forall>d. ev_other ev n d = d))"

lemma quiet_transact: "quiet ev \<Longrightarrow> transact e ev body (d, w, n) =
    (case body (ev_now ev n) d of (Inl e, _) \<Rightarrow> (Inl e, (d, w, Suc n)) | (Inr x, d') \<Rightarrow> (Inr x, (d', w, Suc n)))"
  by (auto simp: quiet_def transact_def transaction_def split: prod.splits sum.splits)

end
