(* ===== verification/CommerceRecovery.thy ===== *)
theory CommerceRecovery
  imports CommerceOrders PyRun
begin

text \<open>
  The recovery worker of the commerce service: the store and the service of \<open>recovery.py\<close>, the
  lease-fenced writes of \<open>recovery_atomic.py\<close>, and the service that production builds,
  \<open>LineageRecoveryService\<close> of \<open>recovery_lineage.py\<close>. Times are microseconds, the resolution of
  \<open>datetime\<close>. Fresh UUIDs and the rows that other transactions hold locked are functions of what the
  run did so far; the Stripe gateway and the HTTP post are calls on the world \<open>'w\<close>. The second
  component that the private methods return, and that \<open>_process_claim\<close> drops, is left out.
\<close>

section \<open>Tables\<close>

definition seconds :: "int \<Rightarrow> int" where
  "seconds n = n * 1000000"

record recovery_row =
  v_order_id :: uuid
  v_attempts :: int
  v_failures :: int
  v_next :: int
  v_checked :: "int option"
  v_action :: "string option"
  v_outcome :: "string option"
  v_error :: "string option"
  v_token :: "uuid option"
  v_expires :: "int option"
  v_created :: int
  v_updated :: int

record recovery_run =
  n_id :: uuid
  n_started :: int
  n_finished :: "int option"
  n_claimed :: int
  n_reconciled :: int
  n_published :: int
  n_replayed :: int
  n_deferred :: int
  n_attention :: int

record recovery_finding =
  f_id :: uuid
  f_run :: uuid
  f_order :: uuid
  f_code :: string
  f_created :: int

record replay_row =
  p_id :: uuid
  p_run :: uuid
  p_order :: uuid
  p_outbox :: uuid
  p_at :: int
  p_result :: string
  p_failure :: "string option"

record recovery_db =
  core :: commerce_db
  states :: "recovery_row list"
  runs :: "recovery_run list"
  findings :: "recovery_finding list"
  replays :: "replay_row list"

type_synonym 'a recovery_call = "(recovery_db, service_error, 'a) call"

definition unavailable :: "string \<Rightarrow> service_error" where
  "unavailable message = Store_Error (Persistence_Unavailable message)"

section \<open>Settings\<close>

record recovery_runtime =
  rt_batch :: int
  rt_stale_inbox :: int
  rt_pending_poll :: int
  rt_published_replay :: int
  rt_lease :: int
  rt_max_backoff :: int

text \<open>\<open>int(raw)\<close> on ASCII text: an optional sign, digits, single underscores between digits.\<close>

fun decimal_digits :: "bool \<Rightarrow> int \<Rightarrow> string \<Rightarrow> int option" where
  "decimal_digits after_digit acc [] = (if after_digit then Some acc else None)"
| "decimal_digits after_digit acc (c # cs) =
     (if c = CHR ''_'' then (if after_digit \<and> cs \<noteq> [] then decimal_digits False acc cs else None)
      else (let n = of_char c :: nat in
        if 48 \<le> n \<and> n \<le> 57 then decimal_digits True (acc * 10 + int (n - 48)) cs else None))"

definition int_of_string :: "string \<Rightarrow> int option" where
  "int_of_string s = (case strip s of
     [] \<Rightarrow> None
   | c # cs \<Rightarrow>
       if c = CHR ''-'' then map_option uminus (decimal_digits False 0 cs)
       else if c = CHR ''+'' then decimal_digits False 0 cs
       else decimal_digits False 0 (c # cs))"

text \<open>\<open>env\<close> is \<open>os.getenv\<close>; the message names the variable.\<close>

definition bounded_int :: "(string \<Rightarrow> string option) \<Rightarrow> string \<Rightarrow> int \<Rightarrow> int \<Rightarrow> int \<Rightarrow> (string, int) result" where
  "bounded_int env name fallback minimum maximum =
     (case env name of
        None \<Rightarrow> (if fallback < minimum \<or> maximum < fallback then Inl name else Inr fallback)
      | Some raw \<Rightarrow>
          (case int_of_string (strip raw) of
             None \<Rightarrow> Inl name
           | Some value \<Rightarrow> if value < minimum \<or> maximum < value then Inl name else Inr value))"

definition runtime_from_env :: "(string \<Rightarrow> string option) \<Rightarrow> (string, recovery_runtime) result" where
  "runtime_from_env env =
     rbind (bounded_int env ''COMMERCE_RECOVERY_BATCH_SIZE'' 10 1 100) (\<lambda>batch.
     rbind (bounded_int env ''COMMERCE_RECOVERY_STALE_INBOX_SECONDS'' 120 30 86400) (\<lambda>stale.
     rbind (bounded_int env ''COMMERCE_RECOVERY_PENDING_PAYMENT_SECONDS'' 300 60 86400) (\<lambda>pending.
     rbind (bounded_int env ''COMMERCE_RECOVERY_PUBLISHED_REPLAY_SECONDS'' 1200 120 604800) (\<lambda>replay.
     rbind (bounded_int env ''COMMERCE_RECOVERY_LEASE_SECONDS'' 120 30 900) (\<lambda>lease.
     rbind (bounded_int env ''COMMERCE_RECOVERY_MAX_BACKOFF_SECONDS'' 3600 60 86400) (\<lambda>backoff.
       Inr \<lparr>rt_batch = batch, rt_stale_inbox = stale, rt_pending_poll = pending, rt_published_replay = replay,
            rt_lease = lease, rt_max_backoff = backoff\<rparr>))))))"

section \<open>The ingress of n8n\<close>

datatype transport_result = Tr_Accepted | Tr_Uncertain | Tr_Retryable | Tr_Attention

fun transport_value :: "transport_result \<Rightarrow> string" where
  "transport_value Tr_Accepted = ''accepted''"
| "transport_value Tr_Uncertain = ''uncertain''"
| "transport_value Tr_Retryable = ''retryable_rejected''"
| "transport_value Tr_Attention = ''attention''"

record ingress_result =
  ir_result :: transport_result
  ir_status :: "int option"
  ir_failure :: "string option"

text \<open>The answer to the post: a status code, or none when no definite response came.\<close>

definition ingress_answer :: "int option \<Rightarrow> ingress_result" where
  "ingress_answer response = (case response of
     None \<Rightarrow> \<lparr>ir_result = Tr_Uncertain, ir_status = None, ir_failure = Some ''n8n_transport_uncertain''\<rparr>
   | Some status \<Rightarrow>
       if 200 \<le> status \<and> status < 300 then \<lparr>ir_result = Tr_Accepted, ir_status = Some status, ir_failure = None\<rparr>
       else if status = 429 then \<lparr>ir_result = Tr_Retryable, ir_status = Some status, ir_failure = Some ''n8n_http_429''\<rparr>
       else if 500 \<le> status \<and> status < 600
       then \<lparr>ir_result = Tr_Retryable, ir_status = Some status, ir_failure = Some ''n8n_http_5xx''\<rparr>
       else if status \<in> {401, 403}
       then \<lparr>ir_result = Tr_Attention, ir_status = Some status, ir_failure = Some ''n8n_auth_rejected''\<rparr>
       else if status \<in> {400, 422}
       then \<lparr>ir_result = Tr_Attention, ir_status = Some status, ir_failure = Some ''n8n_contract_rejected''\<rparr>
       else \<lparr>ir_result = Tr_Attention, ir_status = Some status, ir_failure = Some ''n8n_unexpected_response''\<rparr>)"

section \<open>The recovery store\<close>

definition active_state :: "order_state \<Rightarrow> bool" where
  "active_state s = (s \<in> {O_Pending, O_Paid, O_In_Progress})"

definition active_order :: "uuid \<Rightarrow> recovery_db \<Rightarrow> bool" where
  "active_order u d = (case get_row o_id u (orders (core d)) of None \<Rightarrow> False | Some ord \<Rightarrow> active_state (o_state ord))"

record recovery_claim =
  cl_order :: uuid
  cl_token :: uuid
  cl_failures :: int

definition begin_run :: "uuid \<Rightarrow> int \<Rightarrow> unit recovery_call" where
  "begin_run run_id now d = (
     if get_row n_id run_id (runs d) \<noteq> None then (Inl (unavailable ''recovery run could not be started''), d)
     else (Inr (), d\<lparr>runs := add_row \<lparr>n_id = run_id, n_started = now, n_finished = None, n_claimed = 0, n_reconciled = 0,
            n_published = 0, n_replayed = 0, n_deferred = 0, n_attention = 0\<rparr> (runs d)\<rparr>))"

record run_response =
  rs_run :: uuid
  rs_claimed :: int
  rs_reconciled :: int
  rs_published :: int
  rs_replayed :: int
  rs_deferred :: int
  rs_attention :: int

definition finish_run :: "run_response \<Rightarrow> int \<Rightarrow> unit recovery_call" where
  "finish_run res now d = (case get_row n_id (rs_run res) (runs d) of
     None \<Rightarrow> (Inl (unavailable ''recovery run could not be finalized''), d)
   | Some row \<Rightarrow> (Inr (), d\<lparr>runs := put_row n_id (row\<lparr>n_finished := Some now, n_claimed := rs_claimed res,
       n_reconciled := rs_reconciled res, n_published := rs_published res, n_replayed := rs_replayed res,
       n_deferred := rs_deferred res, n_attention := rs_attention res\<rparr>) (runs d)\<rparr>))"

definition fresh_state :: "int \<Rightarrow> uuid \<Rightarrow> recovery_row" where
  "fresh_state now u = \<lparr>v_order_id = u, v_attempts = 0, v_failures = 0, v_next = now, v_checked = None, v_action = None,
     v_outcome = None, v_error = None, v_token = None, v_expires = None, v_created = now, v_updated = now\<rparr>"

text \<open>\<open>ORDER BY updated_at, order_id\<close>: the sort is stable, so the last key is sorted first.\<close>

definition seed_ids :: "nat \<Rightarrow> recovery_db \<Rightarrow> uuid list" where
  "seed_ids limit d = take limit (map o_id (sort_key o_updated_at (sort_key o_id
     (filter (\<lambda>ord. active_state (o_state ord) \<and> get_row v_order_id (o_id ord) (states d) = None) (orders (core d))))))"

definition seed_candidates :: "nat \<Rightarrow> int \<Rightarrow> unit recovery_call" where
  "seed_candidates limit now d =
     (Inr (), d\<lparr>states := fold (\<lambda>u rows. if get_row v_order_id u rows \<noteq> None then rows else add_row (fresh_state now u) rows)
        (seed_ids limit d) (states d)\<rparr>)"

definition claimable :: "int \<Rightarrow> recovery_db \<Rightarrow> recovery_row \<Rightarrow> bool" where
  "claimable now d r = (active_order (v_order_id r) d \<and> v_next r \<le> now
     \<and> (v_token r = None \<or> (case v_expires r of None \<Rightarrow> False | Some e \<Rightarrow> e \<le> now)))"

definition claimed_row :: "int \<Rightarrow> int \<Rightarrow> uuid \<Rightarrow> recovery_row \<Rightarrow> recovery_row" where
  "claimed_row now lease token r = r\<lparr>v_token := Some token, v_expires := Some (now + seconds lease),
     v_attempts := v_attempts r + 1, v_checked := Some now, v_updated := now\<rparr>"

definition claim_rows :: "(uuid \<Rightarrow> bool) \<Rightarrow> nat \<Rightarrow> int \<Rightarrow> recovery_db \<Rightarrow> recovery_row list" where
  "claim_rows locked batch now d = take batch (filter (\<lambda>r. \<not> locked (v_order_id r))
     (sort_key v_next (sort_key v_created (sort_key v_order_id (filter (claimable now d) (states d))))))"

definition claim_batch ::
  "(uuid \<Rightarrow> bool) \<Rightarrow> (nat \<Rightarrow> uuid) \<Rightarrow> nat \<Rightarrow> int \<Rightarrow> int \<Rightarrow> recovery_claim list recovery_call" where
  "claim_batch locked token batch lease now d = (
     let rows = enumerate 0 (claim_rows locked batch now d) in
     (Inr (map (\<lambda>(i, r). \<lparr>cl_order = v_order_id r, cl_token = token i, cl_failures = v_failures r\<rparr>) rows),
      d\<lparr>states := fold (\<lambda>(i, r). put_row v_order_id (claimed_row now lease (token i) r)) rows (states d)\<rparr>))"

definition lease_row_is_current :: "recovery_row \<Rightarrow> uuid \<Rightarrow> int \<Rightarrow> bool" where
  "lease_row_is_current r token now = (v_token r = Some token \<and> (case v_expires r of None \<Rightarrow> False | Some e \<Rightarrow> now < e))"

definition lock_current_lease :: "uuid \<Rightarrow> uuid \<Rightarrow> int \<Rightarrow> recovery_db \<Rightarrow> recovery_row option" where
  "lock_current_lease u token now d = (case get_row v_order_id u (states d) of
     None \<Rightarrow> None | Some r \<Rightarrow> if lease_row_is_current r token now then Some r else None)"

definition lease_is_current :: "recovery_claim \<Rightarrow> int \<Rightarrow> bool recovery_call" where
  "lease_is_current claim now d = (Inr (lock_current_lease (cl_order claim) (cl_token claim) now d \<noteq> None), d)"

text \<open>The row of a claim that is given back.\<close>

definition released_row :: "int \<Rightarrow> string \<Rightarrow> string \<Rightarrow> string option \<Rightarrow> bool \<Rightarrow> int \<Rightarrow> recovery_row \<Rightarrow> recovery_row" where
  "released_row now action result code failed next r = r\<lparr>v_action := Some (take 64 action), v_outcome := Some (take 64 result),
     v_error := map_option (take 80) (truthy code), v_failures := (if failed then v_failures r + 1 else 0),
     v_next := next, v_token := None, v_expires := None, v_updated := now\<rparr>"

definition finish_claim ::
  "recovery_claim \<Rightarrow> int \<Rightarrow> string \<Rightarrow> string \<Rightarrow> string option \<Rightarrow> bool \<Rightarrow> int \<Rightarrow> bool recovery_call" where
  "finish_claim claim now action result code failed delay d =
     (case lock_current_lease (cl_order claim) (cl_token claim) now d of
        None \<Rightarrow> (Inr False, d)
      | Some r \<Rightarrow> (Inr True, d\<lparr>states := put_row v_order_id
          (released_row now action result code failed (now + seconds delay) r) (states d)\<rparr>))"

definition add_finding :: "uuid \<Rightarrow> uuid \<Rightarrow> uuid \<Rightarrow> string \<Rightarrow> int \<Rightarrow> recovery_db \<Rightarrow> recovery_db" where
  "add_finding fid run_id u code now d =
     d\<lparr>findings := add_row \<lparr>f_id = fid, f_run = run_id, f_order = u, f_code = take 80 code, f_created = now\<rparr> (findings d)\<rparr>"

definition record_finding :: "uuid \<Rightarrow> uuid \<Rightarrow> uuid \<Rightarrow> string \<Rightarrow> int \<Rightarrow> unit recovery_call" where
  "record_finding fid run_id u code now d = (
     if get_row f_id fid (findings d) \<noteq> None then (Inl (unavailable ''recovery finding could not be persisted''), d)
     else (Inr (), add_finding fid run_id u code now d))"

definition record_replay :: "uuid \<Rightarrow> uuid \<Rightarrow> outbox_row \<Rightarrow> ingress_result \<Rightarrow> int \<Rightarrow> unit recovery_call" where
  "record_replay pid run_id event result now d = (
     if get_row p_id pid (replays d) \<noteq> None then (Inl (unavailable ''recovery replay audit could not be persisted''), d)
     else (Inr (), d\<lparr>replays := add_row \<lparr>p_id = pid, p_run = run_id, p_order = x_order_id event, p_outbox = x_id event,
            p_at = now, p_result = transport_value (ir_result result), p_failure = map_option (take 80) (truthy (ir_failure result))\<rparr>
            (replays d)\<rparr>))"

text \<open>A method of \<open>CommerceStore\<close>, on the tables it works on.\<close>

definition on_core :: "(commerce_db, commerce_error, 'a) call \<Rightarrow> 'a recovery_call" where
  "on_core m d = (case m (core d) of
     (Inl e, c) \<Rightarrow> (Inl (Store_Error e), d\<lparr>core := c\<rparr>) | (Inr x, c) \<Rightarrow> (Inr x, d\<lparr>core := c\<rparr>))"

definition mark_outbox_published :: "uuid \<Rightarrow> int \<Rightarrow> unit recovery_call" where
  "mark_outbox_published event_id now d =
     (case List.find (\<lambda>x. x_id x = event_id \<and> x_type x = paid_outbox_type) (outbox (core d)) of
        None \<Rightarrow> (Inl (unavailable ''recovery outbox identity is unavailable''), d)
      | Some row \<Rightarrow> (Inr (), if x_published_at row = None
          then d\<lparr>core := (core d)\<lparr>outbox := put_row x_id (row\<lparr>x_published_at := Some now\<rparr>) (outbox (core d))\<rparr>\<rparr>
          else d))"

record recovery_snapshot =
  sn_order_state :: order_state
  sn_payment :: payment_state
  sn_updated :: int
  sn_session :: "string option"
  sn_outboxes :: "outbox_row list"

definition paid_outboxes :: "uuid \<Rightarrow> commerce_db \<Rightarrow> outbox_row list" where
  "paid_outboxes u db = sort_key x_created_at (sort_key x_id
     (filter (\<lambda>x. x_order_id x = u \<and> x_type x = paid_outbox_type) (outbox db)))"

definition load_snapshot :: "uuid \<Rightarrow> recovery_snapshot recovery_call" where
  "load_snapshot u d = (case locked_rows u (core d) of
     None \<Rightarrow> (Inl (unavailable ''recovery order binding is unavailable''), d)
   | Some (ord, chk) \<Rightarrow> (Inr \<lparr>sn_order_state = o_state ord, sn_payment = o_payment ord, sn_updated = o_updated_at ord,
       sn_session = c_session_id chk, sn_outboxes = paid_outboxes u (core d)\<rparr>, d))"

definition stale_events :: "string \<Rightarrow> int \<Rightarrow> commerce_db \<Rightarrow> inbox_row list" where
  "stale_events sid cutoff db = sort_key e_received_at (sort_key e_id
     (filter (\<lambda>e. e_state e = E_Received \<and> e_object_id e = Some sid \<and> e_received_at e \<le> cutoff) (inbox db)))"

definition load_stale_received_event :: "uuid \<Rightarrow> int \<Rightarrow> inbox_row option recovery_call" where
  "load_stale_received_event u cutoff d =
     (Inr (case Option.bind (get_row c_order_id u (checkouts (core d))) c_session_id of
        None \<Rightarrow> None
      | Some sid \<Rightarrow> (case stale_events sid cutoff (core d) of [] \<Rightarrow> None | e # _ \<Rightarrow> Some e)), d)"

definition evidence_payload :: "checkout_evidence \<Rightarrow> json" where
  "evidence_payload e = JObj [
     (''session_id'', JStr (ce_session_id e)), (''object_type'', JStr (ce_object_type e)), (''mode'', JStr (ce_mode e)),
     (''livemode'', JBool (ce_livemode e)), (''client_reference_id'', JStr (ce_client_reference e)),
     (''metadata'', JObj (map (\<lambda>(k, v). (k, JStr v)) (ce_metadata e))), (''status'', JStr (ce_status e)),
     (''payment_status'', JStr (ce_payment_status e)),
     (''payment_intent_id'', case ce_payment_intent e of None \<Rightarrow> JNull | Some p \<Rightarrow> JStr p),
     (''line_items'', JArr (map (\<lambda>i. JObj [(''price_id'', JStr (li_price_id i)), (''quantity'', JInt (li_quantity i)),
        (''currency'', JStr (li_currency i))]) (ce_line_items e)))]"

text \<open>\<open>digest\<close> is SHA-256 of the dumped text.\<close>

definition canonical_payment_evidence_hash :: "(json \<Rightarrow> string) \<Rightarrow> checkout_evidence \<Rightarrow> string" where
  "canonical_payment_evidence_hash digest e = digest (json_sorted (evidence_payload e))"

section \<open>Writes under the lease\<close>

text \<open>\<open>None\<close>: the lease is lost. The lease row is locked in the same transaction.\<close>

definition mark_inbox_state_with_lease ::
  "uuid \<Rightarrow> uuid \<Rightarrow> string \<Rightarrow> event_state \<Rightarrow> string \<Rightarrow> int \<Rightarrow> int \<Rightarrow> bool recovery_call" where
  "mark_inbox_state_with_lease u token event_id state code processed_at now d = (
     if state \<notin> {E_Ignored, E_Attention} then (Inl (Runtime_Error ''unsupported recovery inbox state''), d)
     else if lock_current_lease u token now d = None then (Inr False, d)
     else case get_row e_id event_id (inbox (core d)) of
       None \<Rightarrow> (Inl (unavailable ''lease-fenced Stripe inbox result failed''), d)
     | Some row \<Rightarrow>
         if e_state row \<noteq> E_Received then (Inr False, d)
         else (Inr True, d\<lparr>core := (core d)\<lparr>inbox := put_row e_id
           (row\<lparr>e_state := state, e_failure := Some (take 80 code), e_processed_at := Some processed_at\<rparr>) (inbox (core d))\<rparr>\<rparr>))"

datatype fenced = Fn_Lost | Fn_Terminal | Fn_Attention string | Fn_Done

definition apply_event_with_lease ::
  "uuid \<Rightarrow> uuid \<Rightarrow> uuid \<Rightarrow> string \<Rightarrow> payment_evidence \<Rightarrow> string \<Rightarrow> int \<Rightarrow> fenced recovery_call" where
  "apply_event_with_lease outbox_id u token event_id evidence target now d = (
     if lock_current_lease u token now d = None then (Inr Fn_Lost, d)
     else case get_row e_id event_id (inbox (core d)) of
       None \<Rightarrow> (Inl (unavailable ''lease-fenced Stripe event reconciliation failed''), d)
     | Some row \<Rightarrow>
         if e_state row \<noteq> E_Received then (Inr Fn_Terminal, d)
         else case locked_rows u (core d) of
           None \<Rightarrow> (Inl (unavailable ''lease-fenced Stripe event reconciliation failed''), d)
         | Some (ord, chk) \<Rightarrow>
             (case apply_payment_transition_locked now outbox_id ord chk evidence target (Some event_id) (core d) of
                (Inl e, c) \<Rightarrow> (Inl (Store_Error (on_integrity ''lease-fenced Stripe event reconciliation failed'' e)), d\<lparr>core := c\<rparr>)
              | (Inr (_, Some code), c) \<Rightarrow> (Inr (Fn_Attention code), d\<lparr>core := c\<lparr>inbox := put_row e_id
                  (row\<lparr>e_state := E_Attention, e_failure := Some code, e_processed_at := Some now\<rparr>) (inbox c)\<rparr>\<rparr>)
              | (Inr (_, None), c) \<Rightarrow> (Inr Fn_Done, d\<lparr>core := c\<lparr>inbox := put_row e_id
                  (row\<lparr>e_state := E_Processed, e_failure := None, e_processed_at := Some now\<rparr>) (inbox c)\<rparr>\<rparr>)))"

definition poll_conflict :: string where
  "poll_conflict = ''payment poll reconciliation receipt conflicted with durable authority''"

definition apply_poll_with_lease ::
  "uuid \<Rightarrow> uuid \<Rightarrow> uuid \<Rightarrow> uuid \<Rightarrow> payment_evidence \<Rightarrow> string \<Rightarrow> string \<Rightarrow> int \<Rightarrow> int \<Rightarrow> fenced recovery_call" where
  "apply_poll_with_lease outbox_id receipt_id u token evidence target sha observed_at now d = (
     if lock_current_lease u token now d = None then (Inr Fn_Lost, d)
     else case locked_rows u (core d) of
       None \<Rightarrow> (Inl (unavailable ''lease-fenced payment poll reconciliation failed''), d)
     | Some (ord, chk) \<Rightarrow>
         (case apply_payment_transition_locked now outbox_id ord chk evidence target None (core d) of
            (Inl e, c) \<Rightarrow> (Inl (Store_Error (on_integrity poll_conflict e)), d\<lparr>core := c\<rparr>)
          | (Inr (_, Some code), c) \<Rightarrow> (Inr (Fn_Attention code), d\<lparr>core := c\<rparr>)
          | (Inr (False, None), c) \<Rightarrow> (Inr Fn_Terminal, d\<lparr>core := c\<rparr>)
          | (Inr (True, None), c) \<Rightarrow>
              (if get_row r_order_id u (receipts c) \<noteq> None \<or> get_row r_id receipt_id (receipts c) \<noteq> None
               then (Inl (unavailable poll_conflict), d\<lparr>core := c\<rparr>)
               else (Inr Fn_Done, d\<lparr>core := c\<lparr>receipts := add_row
                 \<lparr>r_id = receipt_id, r_order_id = u, r_session_id = pe_session_id evidence, r_session_status = pe_status evidence,
                  r_payment_status = pe_payment_status evidence, r_payment_intent = pe_payment_intent evidence,
                  r_livemode = pe_livemode evidence, r_evidence_sha = sha, r_target = target, r_observed_at = observed_at,
                  r_created_at = now\<rparr> (receipts c)\<rparr>\<rparr>))))"

definition mark_published_with_lease :: "uuid \<Rightarrow> uuid \<Rightarrow> uuid \<Rightarrow> int \<Rightarrow> int \<Rightarrow> bool recovery_call" where
  "mark_published_with_lease u token event_id published_at now d = (
     if lock_current_lease u token now d = None then (Inr False, d)
     else case List.find (\<lambda>x. x_id x = event_id \<and> x_order_id x = u \<and> x_type x = paid_outbox_type) (outbox (core d)) of
       None \<Rightarrow> (Inl (unavailable ''recovery outbox event identity is unavailable''), d)
     | Some row \<Rightarrow> (Inr True, if x_published_at row = None
         then d\<lparr>core := (core d)\<lparr>outbox := put_row x_id (row\<lparr>x_published_at := Some published_at\<rparr>) (outbox (core d))\<rparr>\<rparr>
         else d))"

definition finish_attention_with_lease ::
  "uuid \<Rightarrow> uuid \<Rightarrow> uuid \<Rightarrow> uuid \<Rightarrow> string \<Rightarrow> string \<Rightarrow> int \<Rightarrow> int \<Rightarrow> bool recovery_call" where
  "finish_attention_with_lease fid run_id u token action code now next d =
     (case lock_current_lease u token now d of
        None \<Rightarrow> (Inr False, d)
      | Some r \<Rightarrow>
          if get_row f_id fid (findings d) \<noteq> None then (Inl (unavailable ''lease-fenced recovery attention result failed''), d)
          else (Inr True, add_finding fid run_id u code now d
            \<lparr>states := put_row v_order_id (r\<lparr>v_action := Some (take 64 action), v_outcome := Some ''attention'',
               v_error := Some (take 80 code), v_failures := v_failures r + 1, v_next := next, v_token := None,
               v_expires := None, v_updated := now\<rparr>) (states d)\<rparr>))"

section \<open>The recovery service\<close>

record 'w recovery_config =
  k_settings :: settings
  k_runtime :: recovery_runtime
  k_env :: "recovery_db env"
  k_retrieve :: "string \<Rightarrow> 'w \<Rightarrow> checkout_evidence option \<times> 'w"
  k_post :: "outbox_row \<Rightarrow> 'w \<Rightarrow> int option \<times> 'w"
  k_digest :: "json \<Rightarrow> string"
  k_uuid :: "nat \<Rightarrow> nat \<Rightarrow> uuid"
  k_locked :: "nat \<Rightarrow> uuid \<Rightarrow> bool"

type_synonym ('w, 'a) worker = "((recovery_db, 'w) run, service_error, 'a) call"

definition rtx :: "'w recovery_config \<Rightarrow> string \<Rightarrow> (int \<Rightarrow> 'a recovery_call) \<Rightarrow> ('w, 'a) worker" where
  "rtx k message body = transact (unavailable message) (k_env k) body"

definition utcnow :: "'w recovery_config \<Rightarrow> ('w, int) worker" where
  "utcnow k = clock (k_env k)"

text \<open>Fresh UUIDs, and the rows that are locked by others now.\<close>

definition uuid4 :: "'w recovery_config \<Rightarrow> ('w, nat \<Rightarrow> uuid) worker" where
  "uuid4 k s = (case s of (d, w, n) \<Rightarrow> (Inr (k_uuid k n), (d, w, Suc n)))"

definition locked_now :: "'w recovery_config \<Rightarrow> ('w, uuid \<Rightarrow> bool) worker" where
  "locked_now k s = (case s of (d, w, n) \<Rightarrow> (Inr (k_locked k n), (d, w, Suc n)))"

datatype recovery_outcome = Ro_Reconciled | Ro_Published | Ro_Replayed | Ro_Deferred | Ro_Attention | Ro_Lease_Lost

definition attention_delay :: int where
  "attention_delay = 10 * 365 * 24 * 3600"

definition backoff :: "recovery_runtime \<Rightarrow> int \<Rightarrow> int" where
  "backoff rt previous = min (30 * 2 ^ nat (min previous 12)) (rt_max_backoff rt)"

definition poll_delay :: "recovery_runtime \<Rightarrow> int" where
  "poll_delay rt = min (rt_pending_poll rt) (rt_max_backoff rt)"

definition finish :: "'w recovery_config \<Rightarrow> recovery_claim \<Rightarrow> int \<Rightarrow> string \<Rightarrow> string \<Rightarrow> string option \<Rightarrow> bool \<Rightarrow> int \<Rightarrow> ('w, bool) worker" where
  "finish k claim now action result code failed delay =
     rtx k ''recovery lease result could not be persisted'' (\<lambda>_. finish_claim claim now action result code failed delay)"

definition finish_deferred :: "'w recovery_config \<Rightarrow> recovery_claim \<Rightarrow> int \<Rightarrow> string \<Rightarrow> string option \<Rightarrow> bool \<Rightarrow> ('w, unit) worker" where
  "finish_deferred k claim now action code failed =
     cbind (finish k claim now action ''deferred'' code failed
       (if failed then backoff (k_runtime k) (cl_failures claim) else poll_delay (k_runtime k))) (\<lambda>_. ret ())"

definition current_lease :: "'w recovery_config \<Rightarrow> recovery_claim \<Rightarrow> int \<Rightarrow> ('w, bool) worker" where
  "current_lease k claim now = rtx k ''recovery lease state is unavailable'' (\<lambda>_. lease_is_current claim now)"

text \<open>\<open>RecoveryService._finish_attention\<close>: three transactions.\<close>

definition base_finish_attention :: "'w recovery_config \<Rightarrow> recovery_claim \<Rightarrow> uuid \<Rightarrow> int \<Rightarrow> string \<Rightarrow> string \<Rightarrow> ('w, unit) worker" where
  "base_finish_attention k claim run_id now action code =
     cbind (current_lease k claim now) (\<lambda>current.
       if \<not> current then ret ()
       else
         cbind (uuid4 k) (\<lambda>fresh.
         cbind (rtx k ''recovery finding could not be persisted'' (\<lambda>_. record_finding (fresh 0) run_id (cl_order claim) code now)) (\<lambda>_.
         cbind (finish k claim now action ''attention'' (Some code) True attention_delay) (\<lambda>_. ret ()))))"

definition validated_evidence :: "'w recovery_config \<Rightarrow> uuid \<Rightarrow> string \<Rightarrow> ('w, checkout_evidence) worker" where
  "validated_evidence k u session_id =
     cbind (rtx k ''commerce persistence is unavailable'' (\<lambda>_. on_core (load_order_and_checkout Healthy u))) (\<lambda>rows.
     cbind (outside (k_retrieve k session_id)) (\<lambda>answer.
       case answer of
         None \<Rightarrow> throw (Provider_Unavailable ''Stripe Checkout reconciliation is unavailable'')
       | Some evidence \<Rightarrow>
           if ce_session_id evidence \<noteq> session_id then throw (Checkout_Invariant ''provider session identity mismatch'')
           else (case validate_binding evidence (fst rows) (snd rows) (s_expected_livemode (k_settings k)) of
             Inl e \<Rightarrow> throw e | Inr _ \<Rightarrow> ret evidence)))"

text \<open>\<open>try: evidence = ... except CheckoutInvariantError\<close>\<close>

fun is_checkout_invariant :: "service_error \<Rightarrow> bool" where
  "is_checkout_invariant (Checkout_Invariant _) = True"
| "is_checkout_invariant _ = False"

definition evidence_or_mismatch :: "'w recovery_config \<Rightarrow> uuid \<Rightarrow> string \<Rightarrow> ('w, checkout_evidence option) worker" where
  "evidence_or_mismatch k u session_id =
     catch (cbind (validated_evidence k u session_id) (\<lambda>e. ret (Some e)))
       (\<lambda>e. if is_checkout_invariant e then ret None else throw e)"

definition mark_event :: "'w recovery_config \<Rightarrow> string \<Rightarrow> event_state \<Rightarrow> string \<Rightarrow> ('w, unit) worker" where
  "mark_event k event_id state code =
     rtx k ''Stripe event inbox update failed'' (\<lambda>now. on_core (finish_event Healthy now event_id state (Some code)))"

text \<open>What an event asks for, given the evidence: the target, or a failure code.\<close>

definition event_target :: "inbox_row \<Rightarrow> checkout_evidence \<Rightarrow> (string, string) result" where
  "event_target event evidence = (
     if e_type event = ''checkout.session.completed'' then
       (if ce_status evidence \<noteq> ''complete'' \<or> ce_payment_status evidence \<noteq> ''paid'' \<or> truthy (ce_payment_intent evidence) = None
        then Inl ''payment_not_authoritative'' else Inr ''paid'')
     else if ce_status evidence \<noteq> ''expired'' \<or> ce_payment_status evidence \<noteq> ''unpaid''
     then Inl ''expiration_not_authoritative'' else Inr ''expired'')"

text \<open>Why an event cannot be resumed: the state it gets, and the code.\<close>

definition event_refusal :: "settings \<Rightarrow> inbox_row \<Rightarrow> (event_state \<times> string) option" where
  "event_refusal st event = (
     if e_api_version event \<noteq> None \<and> e_api_version event \<noteq> Some (s_api_version st)
     then Some (E_Attention, ''event_api_version_mismatch'')
     else if e_livemode event \<noteq> s_expected_livemode st then Some (E_Attention, ''event_livemode_mismatch'')
     else if e_type event \<in> set async_events \<or> e_type event \<notin> set supported_events
     then Some (E_Ignored, ''unsupported_event'')
     else if truthy (e_object_id event) = None then Some (E_Attention, ''event_correlation_invalid'')
     else None)"

text \<open>\<open>RecoveryService._resume_inbox\<close>\<close>

definition base_give_up :: "'w recovery_config \<Rightarrow> recovery_claim \<Rightarrow> uuid \<Rightarrow> inbox_row \<Rightarrow> int \<Rightarrow> event_state \<Rightarrow> string \<Rightarrow> ('w, recovery_outcome) worker" where
  "base_give_up k claim run_id event now state code =
     cbind (mark_event k (e_id event) state code) (\<lambda>_.
       if state = E_Ignored
       then cbind (finish_deferred k claim now ''resume_stripe_inbox'' (Some code) False) (\<lambda>_. ret Ro_Deferred)
       else cbind (base_finish_attention k claim run_id now ''resume_stripe_inbox'' code) (\<lambda>_. ret Ro_Attention))"

definition base_give_up_now :: "'w recovery_config \<Rightarrow> recovery_claim \<Rightarrow> uuid \<Rightarrow> inbox_row \<Rightarrow> string \<Rightarrow> ('w, recovery_outcome) worker" where
  "base_give_up_now k claim run_id event code =
     cbind (mark_event k (e_id event) E_Attention code) (\<lambda>_.
     cbind (utcnow k) (\<lambda>now.
     cbind (base_finish_attention k claim run_id now ''resume_stripe_inbox'' code) (\<lambda>_. ret Ro_Attention)))"

definition base_resume_inbox :: "'w recovery_config \<Rightarrow> recovery_claim \<Rightarrow> uuid \<Rightarrow> inbox_row \<Rightarrow> int \<Rightarrow> ('w, recovery_outcome) worker" where
  "base_resume_inbox k claim run_id event now =
     (case event_refusal (k_settings k) event of
        Some (state, code) \<Rightarrow> base_give_up k claim run_id event now state code
      | None \<Rightarrow>
          cbind (evidence_or_mismatch k (cl_order claim) (the (e_object_id event))) (\<lambda>answer.
            case answer of
              None \<Rightarrow> base_give_up_now k claim run_id event ''provider_binding_mismatch''
            | Some evidence \<Rightarrow>
                (case event_target event evidence of
                   Inl code \<Rightarrow> base_give_up_now k claim run_id event code
                 | Inr target \<Rightarrow>
                     cbind (utcnow k) (\<lambda>after_io.
                     cbind (current_lease k claim after_io) (\<lambda>current.
                       if \<not> current then ret Ro_Lease_Lost
                       else
                         cbind (uuid4 k) (\<lambda>fresh.
                         cbind (rtx k ''payment reconciliation could not be persisted'' (\<lambda>t. on_core
                           (apply_reconciliation Healthy t (fresh 0) (e_id event) (cl_order claim) (payment_part evidence) target))) (\<lambda>_.
                         cbind (utcnow k) (\<lambda>t.
                         cbind (finish k claim t ''resume_stripe_inbox'' ''reconciled'' None False 0) (\<lambda>_. ret Ro_Reconciled)))))))))"

text \<open>What a polled session says: the target, not yet terminal, or contradictory.\<close>

definition poll_target :: "checkout_evidence \<Rightarrow> (bool, string) result" where
  "poll_target e = (
     if ce_status e = ''complete'' \<and> ce_payment_status e = ''paid'' \<and> truthy (ce_payment_intent e) \<noteq> None then Inr ''paid''
     else if ce_status e = ''expired'' \<and> ce_payment_status e = ''unpaid'' \<and> ce_payment_intent e = None then Inr ''expired''
     else if ce_status e \<in> {''open'', ''complete''} \<and> ce_payment_status e = ''unpaid'' then Inl True
     else Inl False)"

text \<open>\<open>RecoveryService._poll_payment\<close>\<close>

definition base_poll_payment :: "'w recovery_config \<Rightarrow> recovery_claim \<Rightarrow> uuid \<Rightarrow> recovery_snapshot \<Rightarrow> int \<Rightarrow> ('w, recovery_outcome) worker" where
  "base_poll_payment k claim run_id snapshot now =
     (case truthy (sn_session snapshot) of
        None \<Rightarrow> cbind (finish_deferred k claim now ''poll_checkout'' (Some ''checkout_not_bound'') False) (\<lambda>_. ret Ro_Deferred)
      | Some session_id \<Rightarrow>
          cbind (evidence_or_mismatch k (cl_order claim) session_id) (\<lambda>answer.
            case answer of
              None \<Rightarrow>
                cbind (utcnow k) (\<lambda>t.
                cbind (base_finish_attention k claim run_id t ''poll_checkout'' ''provider_binding_mismatch'') (\<lambda>_. ret Ro_Attention))
            | Some evidence \<Rightarrow>
                cbind (utcnow k) (\<lambda>after_io.
                cbind (current_lease k claim after_io) (\<lambda>current.
                  if \<not> current then ret Ro_Lease_Lost
                  else (case poll_target evidence of
                    Inl True \<Rightarrow> cbind (finish_deferred k claim after_io ''poll_checkout'' (Some ''provider_nonterminal'') False)
                      (\<lambda>_. ret Ro_Deferred)
                  | Inl False \<Rightarrow> cbind (base_finish_attention k claim run_id after_io ''poll_checkout'' ''provider_payment_evidence_invalid'')
                      (\<lambda>_. ret Ro_Attention)
                  | Inr target \<Rightarrow>
                      cbind (uuid4 k) (\<lambda>fresh.
                      cbind (rtx k ''payment poll reconciliation could not be persisted'' (\<lambda>t. on_core
                        (apply_poll_reconciliation Healthy t (fresh 0) (fresh 1) (cl_order claim) (payment_part evidence) target
                          (canonical_payment_evidence_hash (k_digest k) evidence) after_io))) (\<lambda>(result, code).
                        if result = ''attention'' then
                          cbind (utcnow k) (\<lambda>t.
                          cbind (base_finish_attention k claim run_id t ''poll_checkout''
                            (case truthy code of None \<Rightarrow> ''payment_transition_attention'' | Some c \<Rightarrow> c)) (\<lambda>_. ret Ro_Attention))
                        else
                          cbind (utcnow k) (\<lambda>t.
                          cbind (finish k claim t ''poll_checkout'' (if result = ''transitioned'' then ''reconciled'' else ''deferred'') None
                            False (if result = ''transitioned'' then 0 else rt_pending_poll (k_runtime k))) (\<lambda>_.
                          ret (if result = ''transitioned'' then Ro_Reconciled else Ro_Deferred))))))))))"

text \<open>\<open>RecoveryN8nIngressClient.send\<close>\<close>

definition send_event :: "'w recovery_config \<Rightarrow> outbox_row \<Rightarrow> ('w, ingress_result) worker" where
  "send_event k event = cbind (outside (k_post k event)) (\<lambda>response. ret (ingress_answer response))"

definition outbox_action :: "int option \<Rightarrow> string" where
  "outbox_action published_at = (if published_at = None then ''publish_paid_outbox'' else ''replay_paid_outbox'')"

definition replay_if :: "'w recovery_config \<Rightarrow> uuid \<Rightarrow> outbox_row \<Rightarrow> int option \<Rightarrow> ingress_result \<Rightarrow> int \<Rightarrow> ('w, unit) worker" where
  "replay_if k run_id event published_at result now =
     (if published_at = None then ret ()
      else cbind (uuid4 k) (\<lambda>fresh.
        rtx k ''recovery replay audit could not be persisted'' (\<lambda>_. record_replay (fresh 0) run_id event result now)))"

text \<open>\<open>RecoveryService._send_outbox\<close>\<close>

definition base_send_outbox ::
  "'w recovery_config \<Rightarrow> recovery_claim \<Rightarrow> uuid \<Rightarrow> outbox_row \<Rightarrow> int option \<Rightarrow> ('w, recovery_outcome) worker" where
  "base_send_outbox k claim run_id event published_at =
     cbind (send_event k event) (\<lambda>result.
     cbind (utcnow k) (\<lambda>after_io.
     cbind (current_lease k claim after_io) (\<lambda>current.
       if \<not> current then ret Ro_Lease_Lost
       else
         cbind (replay_if k run_id event published_at result after_io) (\<lambda>_.
           if ir_result result = Tr_Accepted then
             (if published_at = None then
                cbind (rtx k ''recovery outbox publish result could not be persisted'' (\<lambda>_. mark_outbox_published (x_id event) after_io)) (\<lambda>_.
                cbind (finish k claim after_io ''publish_paid_outbox'' ''published'' None False (rt_published_replay (k_runtime k)))
                  (\<lambda>_. ret Ro_Published))
              else
                cbind (finish k claim after_io ''replay_paid_outbox'' ''replayed'' None False (rt_published_replay (k_runtime k)))
                  (\<lambda>_. ret Ro_Replayed))
           else if ir_result result \<in> {Tr_Uncertain, Tr_Retryable} then
             cbind (finish k claim after_io (outbox_action published_at) (transport_value (ir_result result)) (ir_failure result) True
                (backoff (k_runtime k) (cl_failures claim))) (\<lambda>_. ret Ro_Deferred)
           else
             cbind (base_finish_attention k claim run_id after_io (outbox_action published_at)
               (case truthy (ir_failure result) of None \<Rightarrow> ''n8n_attention'' | Some c \<Rightarrow> c)) (\<lambda>_. ret Ro_Attention)))))"

section \<open>The production service\<close>

text \<open>The lineage of a stored event: the order, and whether it was correlated locally.\<close>

definition correlate_stored_event :: "string \<Rightarrow> (uuid option \<times> bool) recovery_call" where
  "correlate_stored_event event_id d = (case get_row e_id event_id (inbox (core d)) of
     None \<Rightarrow> (Inl (unavailable ''recovery Stripe inbox identity is unavailable''), d)
   | Some row \<Rightarrow>
       (Inr (case e_candidate_order row of
          Some c \<Rightarrow> (Option.bind (truthy (Some c)) parse_uuid, False)
        | None \<Rightarrow>
            (case truthy (e_object_id row) of
               None \<Rightarrow> (None, True)
             | Some sid \<Rightarrow>
                 (case take 2 (filter (\<lambda>c. c_session_id c = Some sid) (checkouts (core d))) of
                    [c] \<Rightarrow> (Some (c_order_id c), True) | _ \<Rightarrow> (None, True)))), d))"

text \<open>\<open>_paid_authority_invariant_code\<close>; the source of a receipt is a constant column.\<close>

definition webhook_authority :: "settings \<Rightarrow> uuid \<Rightarrow> checkout_row \<Rightarrow> string \<Rightarrow> commerce_db \<Rightarrow> string option" where
  "webhook_authority st u chk event_id db = (case get_row e_id event_id (inbox db) of
     None \<Rightarrow> Some ''paid_webhook_lineage_missing''
   | Some row \<Rightarrow>
       if e_state row \<noteq> E_Processed \<or> e_type row \<noteq> ''checkout.session.completed'' \<or> e_object_id row \<noteq> c_session_id chk
          \<or> e_livemode row \<noteq> s_expected_livemode st
          \<or> (e_api_version row \<noteq> None \<and> e_api_version row \<noteq> Some (s_api_version st))
       then Some ''paid_webhook_lineage_invalid''
       else if e_candidate_order row \<noteq> None \<and> Option.bind (truthy (e_candidate_order row)) parse_uuid \<noteq> Some u
       then Some ''paid_webhook_order_lineage_invalid''
       else None)"

definition poll_authority :: "settings \<Rightarrow> uuid \<Rightarrow> checkout_row \<Rightarrow> commerce_db \<Rightarrow> string option" where
  "poll_authority st u chk db = (case filter (\<lambda>r. r_order_id r = u) (receipts db) of
     [r] \<Rightarrow>
       (if r_target r \<noteq> ''paid'' \<or> Some (r_session_id r) \<noteq> c_session_id chk \<or> r_session_status r \<noteq> ''complete''
           \<or> r_payment_status r \<noteq> ''paid'' \<or> r_payment_intent r \<noteq> c_payment_intent chk
           \<or> r_livemode r \<noteq> s_expected_livemode st \<or> length (r_evidence_sha r) \<noteq> 64
        then Some ''paid_poll_lineage_invalid'' else None)
   | _ \<Rightarrow> Some ''paid_poll_lineage_missing'')"

definition paid_authority_code :: "settings \<Rightarrow> uuid \<Rightarrow> commerce_db \<Rightarrow> string option" where
  "paid_authority_code st u db =
     (case (get_row o_id u (orders db), get_row c_order_id u (checkouts db)) of
        (Some ord, Some chk) \<Rightarrow>
          (if c_order_id chk \<noteq> o_id ord then Some ''paid_checkout_order_identity_invalid''
           else if truthy (c_session_id chk) = None then Some ''paid_checkout_session_missing''
           else if c_operation_version chk \<noteq> checkout_operation_version then Some ''paid_checkout_operation_invalid''
           else if c_product_code chk \<noteq> o_product_code ord \<or> c_catalog_version chk \<noteq> o_catalog_version ord
              \<or> c_customer_email chk \<noteq> o_customer_email ord \<or> c_quantity chk \<noteq> 1 \<or> c_price_id chk = []
           then Some ''paid_checkout_catalog_binding_invalid''
           else if c_session_status chk \<noteq> Some ''complete'' then Some ''paid_stripe_session_status_invalid''
           else if c_payment_status chk \<noteq> Some ''paid'' then Some ''paid_stripe_payment_status_invalid''
           else if truthy (c_payment_intent chk) = None then Some ''paid_stripe_payment_intent_missing''
           else if c_livemode chk \<noteq> Some (s_expected_livemode st) then Some ''paid_stripe_livemode_invalid''
           else if c_reconciled_at chk = None then Some ''paid_stripe_reconciliation_missing''
           else case truthy (c_last_event_id chk) of
             Some event_id \<Rightarrow> webhook_authority st u chk event_id db
           | None \<Rightarrow> poll_authority st u chk db)
      | _ \<Rightarrow> Some ''paid_checkout_binding_missing'')"

definition finish_attention :: "'w recovery_config \<Rightarrow> recovery_claim \<Rightarrow> uuid \<Rightarrow> int \<Rightarrow> string \<Rightarrow> string \<Rightarrow> ('w, bool) worker" where
  "finish_attention k claim run_id now action code =
     cbind (uuid4 k) (\<lambda>fresh.
     rtx k ''lease-fenced recovery attention result failed'' (\<lambda>_. finish_attention_with_lease (fresh 0) run_id (cl_order claim)
       (cl_token claim) action code now (now + seconds attention_delay)))"

text \<open>\<open>"attention" if self._finish_attention(...) else "lease_lost"\<close>\<close>

definition attention_or_lost :: "'w recovery_config \<Rightarrow> recovery_claim \<Rightarrow> uuid \<Rightarrow> int \<Rightarrow> string \<Rightarrow> string \<Rightarrow> ('w, recovery_outcome) worker" where
  "attention_or_lost k claim run_id now action code =
     cbind (finish_attention k claim run_id now action code) (\<lambda>b. ret (if b then Ro_Attention else Ro_Lease_Lost))"

definition attention_now :: "'w recovery_config \<Rightarrow> recovery_claim \<Rightarrow> uuid \<Rightarrow> string \<Rightarrow> string \<Rightarrow> ('w, recovery_outcome) worker" where
  "attention_now k claim run_id action code =
     cbind (utcnow k) (\<lambda>now. attention_or_lost k claim run_id now action code)"

definition finish_or_lost ::
  "'w recovery_config \<Rightarrow> recovery_claim \<Rightarrow> int \<Rightarrow> string \<Rightarrow> string \<Rightarrow> string option \<Rightarrow> bool \<Rightarrow> int \<Rightarrow> recovery_outcome
   \<Rightarrow> ('w, recovery_outcome) worker" where
  "finish_or_lost k claim now action result code failed delay outcome =
     cbind (finish k claim now action result code failed delay) (\<lambda>b. ret (if b then outcome else Ro_Lease_Lost))"

definition finish_inbox_without_transition ::
  "'w recovery_config \<Rightarrow> recovery_claim \<Rightarrow> uuid \<Rightarrow> string \<Rightarrow> event_state \<Rightarrow> string \<Rightarrow> string \<Rightarrow> ('w, recovery_outcome) worker" where
  "finish_inbox_without_transition k claim run_id event_id state code action =
     cbind (utcnow k) (\<lambda>now.
     cbind (rtx k ''lease-fenced Stripe inbox result failed'' (mark_inbox_state_with_lease (cl_order claim) (cl_token claim)
        event_id state code now)) (\<lambda>marked.
       if \<not> marked then ret Ro_Lease_Lost
       else if state = E_Attention then attention_now k claim run_id action code
       else cbind (utcnow k) (\<lambda>t.
         finish_or_lost k claim t action ''deferred'' (Some code) False (poll_delay (k_runtime k)) Ro_Deferred)))"

definition resume_inbox :: "'w recovery_config \<Rightarrow> recovery_claim \<Rightarrow> uuid \<Rightarrow> inbox_row \<Rightarrow> ('w, recovery_outcome) worker" where
  "resume_inbox k claim run_id event =
     (let give_up = (\<lambda>state code. finish_inbox_without_transition k claim run_id (e_id event) state code ''resume_stripe_inbox'') in
      cbind (rtx k ''recovery Stripe inbox lineage is unavailable'' (\<lambda>_. correlate_stored_event (e_id event))) (\<lambda>(candidate, legacy).
        if candidate \<noteq> Some (cl_order claim)
        then give_up E_Attention (if legacy then ''legacy_event_session_correlation_invalid'' else ''event_order_correlation_invalid'')
        else case event_refusal (k_settings k) event of
          Some (state, code) \<Rightarrow> give_up state code
        | None \<Rightarrow>
            cbind (evidence_or_mismatch k (cl_order claim) (the (e_object_id event))) (\<lambda>answer.
              case answer of
                None \<Rightarrow> give_up E_Attention ''provider_binding_mismatch''
              | Some evidence \<Rightarrow>
                  (case event_target event evidence of
                     Inl code \<Rightarrow> give_up E_Attention code
                   | Inr target \<Rightarrow>
                       cbind (uuid4 k) (\<lambda>fresh.
                       cbind (rtx k ''lease-fenced Stripe event reconciliation failed'' (apply_event_with_lease (fresh 0)
                          (cl_order claim) (cl_token claim) (e_id event) (payment_part evidence) target)) (\<lambda>result.
                         case result of
                           Fn_Lost \<Rightarrow> ret Ro_Lease_Lost
                         | Fn_Attention code \<Rightarrow> attention_now k claim run_id ''resume_stripe_inbox''
                             (if code = [] then ''payment_transition_attention'' else code)
                         | Fn_Terminal \<Rightarrow> cbind (utcnow k) (\<lambda>t.
                             finish_or_lost k claim t ''resume_stripe_inbox'' ''deferred'' None False 0 Ro_Deferred)
                         | Fn_Done \<Rightarrow> cbind (utcnow k) (\<lambda>t.
                             finish_or_lost k claim t ''resume_stripe_inbox'' ''reconciled'' None False 0 Ro_Reconciled)))))))"

definition poll_payment :: "'w recovery_config \<Rightarrow> recovery_claim \<Rightarrow> uuid \<Rightarrow> recovery_snapshot \<Rightarrow> int \<Rightarrow> ('w, recovery_outcome) worker" where
  "poll_payment k claim run_id snapshot now =
     (case truthy (sn_session snapshot) of
        None \<Rightarrow> cbind (finish_deferred k claim now ''poll_checkout'' (Some ''checkout_not_bound'') False) (\<lambda>_. ret Ro_Deferred)
      | Some session_id \<Rightarrow>
          cbind (evidence_or_mismatch k (cl_order claim) session_id) (\<lambda>answer.
            case answer of
              None \<Rightarrow> attention_now k claim run_id ''poll_checkout'' ''provider_binding_mismatch''
            | Some evidence \<Rightarrow>
                cbind (utcnow k) (\<lambda>observed_at.
                  case poll_target evidence of
                    Inl True \<Rightarrow> finish_or_lost k claim observed_at ''poll_checkout'' ''deferred'' (Some ''provider_nonterminal'') False
                      (poll_delay (k_runtime k)) Ro_Deferred
                  | Inl False \<Rightarrow> attention_or_lost k claim run_id observed_at ''poll_checkout'' ''provider_payment_evidence_invalid''
                  | Inr target \<Rightarrow>
                      cbind (uuid4 k) (\<lambda>fresh.
                      cbind (rtx k ''lease-fenced payment poll reconciliation failed'' (apply_poll_with_lease (fresh 0) (fresh 1)
                         (cl_order claim) (cl_token claim) (payment_part evidence) target
                         (canonical_payment_evidence_hash (k_digest k) evidence) observed_at)) (\<lambda>result.
                        case result of
                          Fn_Lost \<Rightarrow> ret Ro_Lease_Lost
                        | Fn_Attention code \<Rightarrow> attention_now k claim run_id ''poll_checkout''
                            (if code = [] then ''payment_transition_attention'' else code)
                        | Fn_Terminal \<Rightarrow> cbind (utcnow k) (\<lambda>t.
                            finish_or_lost k claim t ''poll_checkout'' ''deferred'' None False (rt_pending_poll (k_runtime k)) Ro_Deferred)
                        | Fn_Done \<Rightarrow> cbind (utcnow k) (\<lambda>t.
                            finish_or_lost k claim t ''poll_checkout'' ''reconciled'' None False 0 Ro_Reconciled))))))"

definition send_outbox ::
  "'w recovery_config \<Rightarrow> recovery_claim \<Rightarrow> uuid \<Rightarrow> outbox_row \<Rightarrow> int option \<Rightarrow> ('w, recovery_outcome) worker" where
  "send_outbox k claim run_id event published_at =
     cbind (rtx k ''paid recovery authority validation is unavailable'' (\<lambda>_ d. (Inr (paid_authority_code (k_settings k) (cl_order claim) (core d)), d))) (\<lambda>authority.
       case authority of
         Some code \<Rightarrow> attention_now k claim run_id ''verify_paid_authority'' code
       | None \<Rightarrow>
           cbind (send_event k event) (\<lambda>result.
           cbind (utcnow k) (\<lambda>after_io.
           cbind (replay_if k run_id event published_at result after_io) (\<lambda>_.
             if ir_result result = Tr_Accepted then
               (if published_at = None then
                  cbind (rtx k ''lease-fenced outbox publish result failed'' (mark_published_with_lease (cl_order claim) (cl_token claim)
                     (x_id event) after_io)) (\<lambda>marked.
                    if \<not> marked then ret Ro_Lease_Lost
                    else cbind (utcnow k) (\<lambda>t.
                      finish_or_lost k claim t ''publish_paid_outbox'' ''published'' None False (rt_published_replay (k_runtime k)) Ro_Published))
                else finish_or_lost k claim after_io ''replay_paid_outbox'' ''replayed'' None False (rt_published_replay (k_runtime k)) Ro_Replayed)
             else if ir_result result \<in> {Tr_Uncertain, Tr_Retryable} then
               finish_or_lost k claim after_io (outbox_action published_at) (transport_value (ir_result result)) (ir_failure result) True
                 (backoff (k_runtime k) (cl_failures claim)) Ro_Deferred
             else attention_or_lost k claim run_id after_io (outbox_action published_at)
               (case truthy (ir_failure result) of None \<Rightarrow> ''n8n_attention'' | Some c \<Rightarrow> c)))))"

section \<open>One recovery run\<close>

text \<open>The methods that the subclass overrides.\<close>

record 'w recovery_methods =
  rm_resume :: "recovery_claim \<Rightarrow> uuid \<Rightarrow> inbox_row \<Rightarrow> int \<Rightarrow> ('w, recovery_outcome) worker"
  rm_poll :: "recovery_claim \<Rightarrow> uuid \<Rightarrow> recovery_snapshot \<Rightarrow> int \<Rightarrow> ('w, recovery_outcome) worker"
  rm_send :: "recovery_claim \<Rightarrow> uuid \<Rightarrow> outbox_row \<Rightarrow> int option \<Rightarrow> ('w, recovery_outcome) worker"
  rm_attention :: "recovery_claim \<Rightarrow> uuid \<Rightarrow> int \<Rightarrow> string \<Rightarrow> string \<Rightarrow> ('w, unit) worker"

definition base_methods :: "'w recovery_config \<Rightarrow> 'w recovery_methods" where
  "base_methods k = \<lparr>rm_resume = base_resume_inbox k, rm_poll = base_poll_payment k, rm_send = base_send_outbox k,
     rm_attention = base_finish_attention k\<rparr>"

definition lineage_methods :: "'w recovery_config \<Rightarrow> 'w recovery_methods" where
  "lineage_methods k = \<lparr>rm_resume = (\<lambda>claim run_id event now. resume_inbox k claim run_id event), rm_poll = poll_payment k,
     rm_send = send_outbox k, rm_attention = (\<lambda>claim run_id now action code.
       cbind (finish_attention k claim run_id now action code) (\<lambda>_. ret ()))\<rparr>"

definition deferred :: "'w recovery_config \<Rightarrow> recovery_claim \<Rightarrow> int \<Rightarrow> string \<Rightarrow> string \<Rightarrow> ('w, recovery_outcome) worker" where
  "deferred k claim now action code = cbind (finish_deferred k claim now action (Some code) False) (\<lambda>_. ret Ro_Deferred)"

text \<open>The part of \<open>_process_claim\<close> for a paid order.\<close>

definition process_paid :: "'w recovery_config \<Rightarrow> 'w recovery_methods \<Rightarrow> recovery_claim \<Rightarrow> uuid \<Rightarrow> int \<Rightarrow> recovery_snapshot
    \<Rightarrow> ('w, recovery_outcome) worker" where
  "process_paid k m claim run_id now snapshot = (case sn_outboxes snapshot of
     [event] \<Rightarrow>
       (case x_published_at event of
          None \<Rightarrow> rm_send m claim run_id event None
        | Some published \<Rightarrow>
            if now - seconds (rt_published_replay (k_runtime k)) < max (sn_updated snapshot) published
            then deferred k claim now ''replay_paid_outbox'' ''published_order_not_stale''
            else rm_send m claim run_id event (Some published))
   | _ \<Rightarrow> cbind (rm_attention m claim run_id now ''verify_paid_outbox'' ''paid_outbox_invariant'') (\<lambda>_. ret Ro_Attention))"

definition process_claim :: "'w recovery_config \<Rightarrow> 'w recovery_methods \<Rightarrow> recovery_claim \<Rightarrow> uuid \<Rightarrow> int \<Rightarrow> ('w, recovery_outcome) worker" where
  "process_claim k m claim run_id now =
     cbind (rtx k ''recovery order snapshot is unavailable'' (\<lambda>_. load_snapshot (cl_order claim))) (\<lambda>snapshot.
       if \<not> active_state (sn_order_state snapshot)
       then cbind (finish k claim now ''terminal_noop'' ''deferred'' None False attention_delay) (\<lambda>_. ret Ro_Deferred)
       else
         cbind (rtx k ''recovery Stripe inbox lookup is unavailable'' (\<lambda>_. load_stale_received_event (cl_order claim)
             (now - seconds (rt_stale_inbox (k_runtime k))))) (\<lambda>stale.
           case stale of
             Some event \<Rightarrow> rm_resume m claim run_id event now
           | None \<Rightarrow>
               if sn_order_state snapshot = O_Pending \<and> sn_payment snapshot = P_Pending then
                 (if now - seconds (rt_pending_poll (k_runtime k)) < sn_updated snapshot
                  then deferred k claim now ''poll_checkout'' ''pending_payment_not_stale''
                  else rm_poll m claim run_id snapshot now)
               else if sn_payment snapshot \<in> {P_Paid, P_Refund_Pending} \<and> sn_order_state snapshot \<in> {O_Paid, O_In_Progress}
               then process_paid k m claim run_id now snapshot
               else deferred k claim now ''no_recovery_action'' ''state_not_recoverable''))"

text \<open>The exception handlers of the loop. The first one is not itself protected.\<close>

definition defer_failed :: "'w recovery_config \<Rightarrow> recovery_claim \<Rightarrow> string \<Rightarrow> string \<Rightarrow> ('w, unit) worker" where
  "defer_failed k claim action code =
     cbind (utcnow k) (\<lambda>now.
     cbind (current_lease k claim now) (\<lambda>current.
       if current then finish_deferred k claim now action (Some code) True else ret ()))"

fun is_persistence :: "service_error \<Rightarrow> bool" where
  "is_persistence (Store_Error (Persistence_Unavailable _)) = True"
| "is_persistence _ = False"

fun is_provider :: "service_error \<Rightarrow> bool" where
  "is_provider (Provider_Unavailable _) = True"
| "is_provider _ = False"

definition guarded :: "('w, unit) worker \<Rightarrow> ('w, unit) worker" where
  "guarded m = catch m (\<lambda>e. if is_persistence e then ret () else throw e)"

definition run_claim :: "'w recovery_config \<Rightarrow> 'w recovery_methods \<Rightarrow> uuid \<Rightarrow> recovery_claim \<Rightarrow> ('w, recovery_outcome) worker" where
  "run_claim k m run_id claim =
     catch (cbind (utcnow k) (process_claim k m claim run_id)) (\<lambda>e.
       if is_provider e
       then cbind (defer_failed k claim ''stripe_provider'' ''stripe_provider_unavailable'') (\<lambda>_. ret Ro_Deferred)
       else if is_persistence e
       then cbind (guarded (defer_failed k claim ''recovery_persistence'' ''recovery_persistence_unavailable'')) (\<lambda>_. ret Ro_Deferred)
       else cbind (guarded (defer_failed k claim ''recovery_internal'' ''recovery_internal_error'')) (\<lambda>_. ret Ro_Deferred))"

definition count_outcome :: "recovery_outcome \<Rightarrow> run_response \<Rightarrow> run_response" where
  "count_outcome outcome r = (case outcome of
     Ro_Reconciled \<Rightarrow> r\<lparr>rs_reconciled := rs_reconciled r + 1\<rparr> | Ro_Published \<Rightarrow> r\<lparr>rs_published := rs_published r + 1\<rparr>
   | Ro_Replayed \<Rightarrow> r\<lparr>rs_replayed := rs_replayed r + 1\<rparr> | Ro_Attention \<Rightarrow> r\<lparr>rs_attention := rs_attention r + 1\<rparr>
   | Ro_Deferred \<Rightarrow> r\<lparr>rs_deferred := rs_deferred r + 1\<rparr> | Ro_Lease_Lost \<Rightarrow> r\<lparr>rs_deferred := rs_deferred r + 1\<rparr>)"

fun run_claims :: "'w recovery_config \<Rightarrow> 'w recovery_methods \<Rightarrow> uuid \<Rightarrow> recovery_claim list \<Rightarrow> run_response \<Rightarrow> ('w, run_response) worker" where
  "run_claims k m run_id [] res = ret res"
| "run_claims k m run_id (claim # claims) res =
     cbind (run_claim k m run_id claim) (\<lambda>outcome. run_claims k m run_id claims (count_outcome outcome res))"

definition run_once :: "'w recovery_config \<Rightarrow> 'w recovery_methods \<Rightarrow> ('w, run_response) worker" where
  "run_once k m =
     cbind (uuid4 k) (\<lambda>fresh. let run_id = fresh 0; rt = k_runtime k in
     cbind (utcnow k) (\<lambda>started.
     cbind (rtx k ''recovery run could not be started'' (\<lambda>_. begin_run run_id started)) (\<lambda>_.
     cbind (rtx k ''recovery candidates could not be seeded'' (\<lambda>_. seed_candidates (nat (max (rt_batch rt * 4) (rt_batch rt))) started)) (\<lambda>_.
     cbind (uuid4 k) (\<lambda>token.
     cbind (locked_now k) (\<lambda>locked.
     cbind (rtx k ''recovery candidates could not be claimed'' (\<lambda>_. claim_batch locked token (nat (rt_batch rt)) (rt_lease rt) started)) (\<lambda>claims.
     cbind (run_claims k m run_id claims \<lparr>rs_run = run_id, rs_claimed = int (length claims), rs_reconciled = 0, rs_published = 0,
        rs_replayed = 0, rs_deferred = 0, rs_attention = 0\<rparr>) (\<lambda>res.
     cbind (utcnow k) (\<lambda>now.
     cbind (rtx k ''recovery run could not be finalized'' (\<lambda>_. finish_run res now)) (\<lambda>_. ret res))))))))))"

end
