(* ===== verification/RecoveryProofs.thy ===== *)
theory RecoveryProofs
  imports CommerceRecovery
begin

text \<open>
  Correctness of the recovery worker: whatever it meets, the commerce tables stay reachable by the
  operations of the store, so that their invariant holds with recovery running beside the webhook;
  a worker whose lease was taken over writes nothing; claims are exclusive; and the automation is
  called only for an order whose paid authority was read as coherent.
\<close>

section \<open>Recovery applies operations of the store\<close>

text \<open>A step that recovery may take on the commerce tables.\<close>

definition reach_step :: "recovery_db \<Rightarrow> recovery_db \<Rightarrow> bool" where
  "reach_step d d' = (commerce_reachable (core d) \<longrightarrow> commerce_reachable (core d'))"

lemma reach_steps: "reach_step\<^sup>*\<^sup>* d d' \<longleftrightarrow> reach_step d d'"
proof
  show "reach_step d d'" if "reach_step\<^sup>*\<^sup>* d d'"
    using that by (induction rule: rtranclp_induct) (auto simp: reach_step_def)
qed (rule r_into_rtranclp)

lemma same_core_step: "core d' = core d \<Longrightarrow> reach_step d d'"
  by (simp add: reach_step_def)

lemma on_core_Inr: "on_core m d = (Inr x, d') \<longleftrightarrow> (\<exists>c. m (core d) = (Inr x, c) \<and> d' = d\<lparr>core := c\<rparr>)"
  by (auto simp: on_core_def split: prod.splits sum.splits)

named_theorems core_simps \<open>store operations that leave the commerce tables alone\<close>

lemma own_tables [core_simps]:
  "begin_run rid now d = (r1, d1) \<Longrightarrow> core d1 = core d"
  "finish_run res now d = (r1, d1) \<Longrightarrow> core d1 = core d"
  "seed_candidates limit now d = (r1, d1) \<Longrightarrow> core d1 = core d"
  "claim_batch locked token batch lease now d = (r2, d1) \<Longrightarrow> core d1 = core d"
  "finish_claim claim now action result code failed delay d = (r3, d1) \<Longrightarrow> core d1 = core d"
  "lease_is_current claim now d = (r3, d1) \<Longrightarrow> core d1 = core d"
  "record_finding fid rid u c now d = (r1, d1) \<Longrightarrow> core d1 = core d"
  "record_replay pid rid event res2 now d = (r1, d1) \<Longrightarrow> core d1 = core d"
  "load_snapshot u d = (r4, d1) \<Longrightarrow> core d1 = core d"
  "load_stale_received_event u cutoff d = (r5, d1) \<Longrightarrow> core d1 = core d"
  "correlate_stored_event eid d = (r6, d1) \<Longrightarrow> core d1 = core d"
  "finish_attention_with_lease fid rid u tok action c now next d = (r3, d1) \<Longrightarrow> core d1 = core d"
  unfolding begin_run_def finish_run_def seed_candidates_def claim_batch_def finish_claim_def lease_is_current_def
    record_finding_def record_replay_def load_snapshot_def load_stale_received_event_def correlate_stored_event_def
    finish_attention_with_lease_def add_finding_def Let_def
  by (auto split: option.splits if_splits)

lemma mark_inbox_core:
  assumes "mark_inbox_state_with_lease u tok eid st code t now d = (Inr b, d')"
  shows "core d' = core d \<or> core d' = snd (finish_event Healthy t eid st (Some (take 80 code)) (core d))"
  using assms by (auto simp: mark_inbox_state_with_lease_def finish_event_def transaction_def split: if_splits option.splits)

lemma event_core:
  assumes "apply_event_with_lease xid u tok eid ev target now d = (Inr b, d')"
  shows "core d' = core d \<or> core d' = snd (apply_reconciliation Healthy now xid eid u ev target (core d))"
  using assms by (auto simp: apply_event_with_lease_def apply_reconciliation_def transaction_def
      split: if_splits option.splits prod.splits sum.splits)

lemma poll_core:
  assumes "apply_poll_with_lease xid rid u tok ev target sha obs now d = (Inr b, d')"
  shows "core d' = core d \<or> core d' = snd (apply_poll_reconciliation Healthy now xid rid u ev target sha obs (core d))"
  using assms by (auto simp: apply_poll_with_lease_def apply_poll_reconciliation_def transaction_def
      split: if_splits option.splits prod.splits sum.splits bool.splits)

lemma publish_core:
  assumes inv: "commerce_inv (core d)" and run: "mark_published_with_lease u tok xid t now d = (Inr b, d')"
  shows "core d' = core d \<or> core d' = snd (mark_published Healthy t xid (core d))"
proof (cases "lock_current_lease u tok now d = None
    \<or> List.find (\<lambda>x. x_id x = xid \<and> x_order_id x = u \<and> x_type x = paid_outbox_type) (outbox (core d)) = None
    \<or> core d' = core d")
  case False
  then obtain row where row: "List.find (\<lambda>x. x_id x = xid \<and> x_order_id x = u \<and> x_type x = paid_outbox_type) (outbox (core d)) = Some row"
    by force
  have "d' = (if x_published_at row = None
      then d\<lparr>core := (core d)\<lparr>outbox := put_row x_id (row\<lparr>x_published_at := Some t\<rparr>) (outbox (core d))\<rparr>\<rparr> else d)"
    using run row False by (auto simp: mark_published_with_lease_def)
  with False have new: "x_published_at row = None"
      "core d' = (core d)\<lparr>outbox := put_row x_id (row\<lparr>x_published_at := Some t\<rparr>) (outbox (core d))\<rparr>"
    by (simp_all split: if_splits)
  have mem: "row \<in> set (outbox (core d))" "x_id row = xid" "x_type row = paid_outbox_type"
    using row by (auto simp: find_Some_iff)
  have "List.find (\<lambda>x. x_id x = xid \<and> x_type x = paid_outbox_type) (outbox (core d)) = Some row"
  proof (cases "List.find (\<lambda>x. x_id x = xid \<and> x_type x = paid_outbox_type) (outbox (core d))")
    case None
    with mem show ?thesis by (auto simp: find_None_iff)
  next
    case (Some x)
    then have x: "x \<in> set (outbox (core d))" "x_id x = xid" by (auto simp: find_Some_iff)
    have "distinct (map x_id (outbox (core d)))" using inv by (simp add: commerce_inv_def commerce_keys_def)
    from distinct_keys_unique [OF this x(1) mem(1)] x(2) mem(2) Some show ?thesis by simp
  qed
  with new show ?thesis by (simp add: mark_published_def transaction_def)
qed (use run in \<open>auto simp: mark_published_with_lease_def split: if_splits\<close>)

section \<open>The interface between the worker and its store\<close>

lemma other_pure [stepping]: "steps_from step (uuid4 k) s" "steps_from step (locked_now k) s" "steps_from step (utcnow k) s"
  by (auto simp: steps_from_def uuid4_def locked_now_def utcnow_def clock_def split: prod.splits)

text \<open>A step relation that contains every write which the production worker makes for a claim. What
  the worker does is then a sequence of such steps and of steps of the others.\<close>

locale fenced_writer =
  fixes step :: "recovery_db \<Rightarrow> recovery_db \<Rightarrow> bool" and claim :: recovery_claim
  assumes write_replay: "record_replay pid rid event res now d = (Inr r1, d1) \<Longrightarrow> step d d1"
    and write_release: "finish_claim claim now action result code failed delay d = (Inr b, d1) \<Longrightarrow> step d d1"
    and write_attention: "finish_attention_with_lease fid rid (cl_order claim) (cl_token claim) action c now next d = (Inr b, d1) \<Longrightarrow> step d d1"
    and write_mark: "mark_inbox_state_with_lease (cl_order claim) (cl_token claim) eid st c t now d = (Inr b, d1) \<Longrightarrow> step d d1"
    and write_event: "apply_event_with_lease xid (cl_order claim) (cl_token claim) eid ev target now d = (Inr fn, d1) \<Longrightarrow> step d d1"
    and write_poll: "apply_poll_with_lease xid receipt (cl_order claim) (cl_token claim) ev target sha obs now d = (Inr fn, d1) \<Longrightarrow> step d d1"
    and write_publish: "mark_published_with_lease (cl_order claim) (cl_token claim) xid t now d = (Inr b, d1) \<Longrightarrow> step d d1"
begin

lemma rtx_writes:
  assumes "well_behaved step (k_env k)" and "\<And>now d x d'. body now d = (Inr x, d') \<Longrightarrow> step d d'"
  shows "steps_from step (rtx k msg body) s"
  unfolding rtx_def by (rule steps_transact [OF assms(1)]) (rule r_into_rtranclp, rule assms(2))

lemma rtx_reads:
  assumes "well_behaved step (k_env k)" and "\<And>now d x d'. body now d = (Inr x, d') \<Longrightarrow> d' = d"
  shows "steps_from step (rtx k msg body) s"
  unfolding rtx_def by (rule steps_transact [OF assms(1)]) (use assms(2) in fastforce)

lemma release_steps: "well_behaved step (k_env k) \<Longrightarrow> steps_from step (finish k claim now action result code failed delay) s"
  unfolding finish_def by (auto intro!: rtx_writes intro: write_release)

lemma current_steps: "well_behaved step (k_env k) \<Longrightarrow> steps_from step (current_lease k c now) s"
  unfolding current_lease_def by (auto intro!: rtx_reads simp: lease_is_current_def)

lemma deferred_steps: "well_behaved step (k_env k) \<Longrightarrow> steps_from step (finish_deferred k claim now action code failed) s"
  unfolding finish_deferred_def by (intro steps_bind stepping release_steps)

lemma evidence_steps:
  assumes "well_behaved step (k_env k)"
  shows "steps_from step (evidence_or_mismatch k u sid) s"
proof -
  have load: "steps_from step (rtx k msg (\<lambda>_. on_core (load_order_and_checkout Healthy u))) s'" for msg s'
    by (rule rtx_reads [OF assms]) (auto simp: on_core_Inr load_order_and_checkout_def reading_def)
  show ?thesis unfolding evidence_or_mismatch_def validated_evidence_def
    by (auto intro!: steps_catch steps_bind stepping load split: option.splits sum.splits)
qed

lemma replay_steps:
  assumes "well_behaved step (k_env k)" shows "steps_from step (replay_if k rid event pub res now) s"
  unfolding replay_if_def by (auto intro!: steps_bind stepping rtx_writes [OF assms] intro: write_replay)

lemma attention_steps:
  assumes "well_behaved step (k_env k)"
  shows "steps_from step (finish_attention k claim rid now action code) s"
    "steps_from step (attention_or_lost k claim rid now action code) s"
    "steps_from step (attention_now k claim rid action code) s"
    "steps_from step (finish_or_lost k claim now action res c failed delay outcome) s"
  unfolding attention_now_def attention_or_lost_def finish_attention_def finish_or_lost_def
  by (auto intro!: steps_bind stepping rtx_writes [OF assms] release_steps [OF assms] intro: write_attention)

lemma give_up_steps:
  assumes "well_behaved step (k_env k)"
  shows "steps_from step (finish_inbox_without_transition k claim rid eid st code action) s"
  unfolding finish_inbox_without_transition_def
  by (auto intro!: steps_bind stepping rtx_writes [OF assms] attention_steps [OF assms] intro: write_mark)

lemma resume_steps:
  assumes "well_behaved step (k_env k)" shows "steps_from step (resume_inbox k claim rid event) s"
proof -
  have correlate: "steps_from step (rtx k msg (\<lambda>_. correlate_stored_event eid)) s'" for msg eid s'
    by (rule rtx_reads [OF assms]) (auto simp: correlate_stored_event_def split: option.splits)
  have apply_event: "steps_from step (rtx k msg (apply_event_with_lease xid (cl_order claim) (cl_token claim) eid ev target)) s'"
    for msg xid eid ev target s' by (rule rtx_writes [OF assms]) (rule write_event)
  show ?thesis unfolding resume_inbox_def Let_def
    by (auto intro!: steps_bind stepping correlate apply_event give_up_steps evidence_steps attention_steps assms
        split: option.splits sum.splits fenced.splits)
qed

lemma poll_steps:
  assumes "well_behaved step (k_env k)" shows "steps_from step (poll_payment k claim rid snapshot now) s"
proof -
  have apply_poll: "steps_from step (rtx k msg (apply_poll_with_lease xid receipt (cl_order claim) (cl_token claim) ev target sha obs)) s'"
    for msg xid receipt ev target sha obs s' by (rule rtx_writes [OF assms]) (rule write_poll)
  show ?thesis unfolding poll_payment_def
    by (auto intro!: steps_bind stepping apply_poll evidence_steps attention_steps deferred_steps assms
        split: option.splits sum.splits bool.splits fenced.splits)
qed

lemma send_outbox_steps:
  assumes "well_behaved step (k_env k)" shows "steps_from step (send_outbox k claim rid event pub) s"
proof -
  have auth: "steps_from step (rtx k msg (\<lambda>_ d. (Inr (paid_authority_code st u (core d)), d))) s'" for msg st u s'
    by (rule rtx_reads [OF assms]) simp
  have publish: "steps_from step (rtx k msg (mark_published_with_lease (cl_order claim) (cl_token claim) xid t)) s'"
    for msg xid t s' by (rule rtx_writes [OF assms]) (rule write_publish)
  show ?thesis unfolding send_outbox_def send_event_def
    by (auto intro!: steps_bind stepping auth publish replay_steps attention_steps assms split: option.splits)
qed

text \<open>Any methods whose runs are sequences of steps.\<close>

definition methods_step :: "'w recovery_methods \<Rightarrow> bool" where
  "methods_step m = (\<forall>rid. (\<forall>event now s. steps_from step (rm_resume m claim rid event now) s)
     \<and> (\<forall>snapshot now s. steps_from step (rm_poll m claim rid snapshot now) s)
     \<and> (\<forall>event pub s. steps_from step (rm_send m claim rid event pub) s)
     \<and> (\<forall>now action code s. steps_from step (rm_attention m claim rid now action code) s))"

lemma lineage_steps:
  assumes "well_behaved step (k_env k)" shows "methods_step (lineage_methods k)"
  unfolding methods_step_def lineage_methods_def
  by (auto intro!: steps_bind stepping resume_steps poll_steps send_outbox_steps attention_steps assms)

lemma process_steps:
  assumes ev: "well_behaved step (k_env k)" and m: "methods_step m"
  shows "steps_from step (process_claim k m claim rid now) s"
proof -
  have reads: "steps_from step (rtx k msg (\<lambda>_. load_snapshot u)) s'"
    "steps_from step (rtx k msg (\<lambda>_. load_stale_received_event u cutoff)) s'" for msg u cutoff s'
    by (rule rtx_reads [OF ev]; auto simp: load_snapshot_def load_stale_received_event_def split: option.splits)+
  have ms: "steps_from step (rm_resume m claim rid event now) s'" "steps_from step (rm_poll m claim rid snapshot now) s'"
    "steps_from step (rm_send m claim rid event' pub) s'" "steps_from step (rm_attention m claim rid now action code) s'"
    for event event' snapshot pub action code s' using m unfolding methods_step_def by blast+
  have paid: "steps_from step (process_paid k m claim rid now snapshot) s'" for snapshot s'
    unfolding process_paid_def deferred_def
    by (auto intro!: steps_bind stepping ms deferred_steps ev split: list.splits option.splits)
  show ?thesis unfolding process_claim_def deferred_def
    by (auto intro!: steps_bind stepping reads paid ms release_steps deferred_steps ev split: option.splits)
qed

lemma run_claim_steps:
  assumes ev: "well_behaved step (k_env k)" and m: "methods_step m"
  shows "steps_from step (run_claim k m rid claim) s"
proof -
  have failed: "steps_from step (defer_failed k claim action code) s'" for action code s'
    unfolding defer_failed_def by (auto intro!: steps_bind stepping current_steps deferred_steps ev)
  show ?thesis unfolding run_claim_def guarded_def
    by (auto intro!: steps_catch steps_bind stepping failed process_steps [OF ev m] ev)
qed

end


text \<open>The operations of the store keep the tables reachable.\<close>

lemma mark_reach: "mark_inbox_state_with_lease u tok eid st c t now d = (Inr b, d1) \<Longrightarrow> reach_step d d1"
  using commerce_reachable.finish mark_inbox_core by (fastforce simp: reach_step_def)

lemma event_reach: "apply_event_with_lease xid u tok eid ev target now d = (Inr fn, d1) \<Longrightarrow> reach_step d d1"
  using commerce_reachable.webhook event_core by (fastforce simp: reach_step_def)

lemma poll_reach: "apply_poll_with_lease xid rid u tok ev target sha obs now d = (Inr fn, d1) \<Longrightarrow> reach_step d d1"
  using commerce_reachable.poll poll_core by (fastforce simp: reach_step_def)

lemma publish_reach: "mark_published_with_lease u tok xid t now d = (Inr b, d1) \<Longrightarrow> reach_step d d1"
  using commerce_reachable.publish publish_core commerce_reachable_inv by (fastforce simp: reach_step_def)

interpretation reach: fenced_writer reach_step claim for claim
  by unfold_locales
    (auto intro: mark_reach event_reach poll_reach publish_reach same_core_step own_tables)

section \<open>A whole run of either service\<close>


lemma rtx_on_core:
  assumes ev: "well_behaved reach_step (k_env k)"
    and m: "\<And>now c. commerce_reachable c \<Longrightarrow> commerce_reachable (snd (m now c))"
  shows "steps_from reach_step (rtx k msg (\<lambda>now. on_core (m now))) s"
  unfolding rtx_def
proof (rule steps_transact [OF ev])
  fix now d x d' assume "on_core (m now) d = (Inr x, d')"
  then show "reach_step\<^sup>*\<^sup>* d d'" using m [of "core d" now] by (auto simp: reach_steps reach_step_def on_core_Inr)
qed


lemma mark_event_steps [stepping]:
  assumes "well_behaved reach_step (k_env k)"
  shows "steps_from reach_step (mark_event k eid st code) s"
  unfolding mark_event_def
  by (rule rtx_on_core [OF assms]) (metis commerce_reachable.finish)

text \<open>The recovery store publishes as the commerce store does; only its error text is its own.\<close>

lemma published_core:
  "mark_outbox_published xid now d = (Inr x, d') \<Longrightarrow> core d' = snd (mark_published Healthy now xid (core d))"
  by (auto simp: mark_outbox_published_def mark_published_def transaction_def split: option.splits)

lemma core_call_steps [stepping]:
  assumes "well_behaved reach_step (k_env k)"
  shows "steps_from reach_step (rtx k msg (\<lambda>t. on_core (apply_reconciliation Healthy t xid eid u ev target))) s"
    and "steps_from reach_step (rtx k msg (\<lambda>t. on_core (apply_poll_reconciliation Healthy t xid rid u ev target sha obs))) s"
    and "steps_from reach_step (rtx k msg (\<lambda>_. mark_outbox_published xid now)) s"
proof -
  show "steps_from reach_step (rtx k msg (\<lambda>_. mark_outbox_published xid now)) s"
    unfolding rtx_def
  proof (rule steps_transact [OF assms])
    fix t d x d' assume "mark_outbox_published xid now d = (Inr x, d')"
    from published_core [OF this] show "reach_step\<^sup>*\<^sup>* d d'"
      by (auto simp: reach_steps reach_step_def intro: commerce_reachable.publish)
  qed
qed (rule rtx_on_core [OF assms]; metis commerce_reachable.webhook commerce_reachable.poll)+





section \<open>A worker whose lease was taken over\<close>

text \<open>The row of the order carries another token than the worker's, or none.\<close>

definition lease_lost :: "uuid \<Rightarrow> uuid \<Rightarrow> recovery_db \<Rightarrow> bool" where
  "lease_lost u tok d = (case get_row v_order_id u (states d) of None \<Rightarrow> True | Some r \<Rightarrow> v_token r \<noteq> Some tok)"

text \<open>Nothing but the audit of replays and the run records may differ.\<close>

definition same_writes :: "recovery_db \<Rightarrow> recovery_db \<Rightarrow> bool" where
  "same_writes d d' = (core d' = core d \<and> states d' = states d \<and> findings d' = findings d)"

definition harmless_step :: "(recovery_db \<Rightarrow> recovery_db \<Rightarrow> bool) \<Rightarrow> recovery_db \<Rightarrow> recovery_db \<Rightarrow> bool" where
  "harmless_step others d d' = (others d d' \<or> same_writes d d')"

definition fenced_step :: "(recovery_db \<Rightarrow> recovery_db \<Rightarrow> bool) \<Rightarrow> uuid \<Rightarrow> uuid \<Rightarrow> recovery_db \<Rightarrow> recovery_db \<Rightarrow> bool" where
  "fenced_step others u tok d d' = (lease_lost u tok d \<longrightarrow> lease_lost u tok d' \<and> (harmless_step others)\<^sup>*\<^sup>* d d')"

lemma lost_lock: "lease_lost u tok d \<Longrightarrow> lock_current_lease u tok now d = None"
  by (auto simp: lease_lost_def lock_current_lease_def lease_row_is_current_def split: option.splits)


lemma fenced_same: "same_writes d d' \<Longrightarrow> fenced_step others u tok d d'"
  by (auto simp: fenced_step_def same_writes_def harmless_step_def lease_lost_def intro!: r_into_rtranclp)

lemma fenced_idle: "(lease_lost u tok d \<Longrightarrow> d' = d) \<Longrightarrow> fenced_step others u tok d d'"
  by (auto simp: fenced_step_def)

interpretation stale: fenced_writer "fenced_step others (cl_order claim) (cl_token claim)" claim for others claim
proof unfold_locales
  show "fenced_step others (cl_order claim) (cl_token claim) d d1" if "record_replay pid rid event res now d = (Inr r1, d1)"
    for pid rid event res now d r1 d1
    by (rule fenced_same) (use that in \<open>auto simp: record_replay_def same_writes_def split: if_splits\<close>)
qed (rule fenced_idle, simp add: lost_lock finish_claim_def finish_attention_with_lease_def mark_inbox_state_with_lease_def
    apply_event_with_lease_def apply_poll_with_lease_def mark_published_with_lease_def split: if_splits)+











section \<open>Claims\<close>

lemma get_put_rows:
  assumes "distinct (map key ys)"
  shows "get_row key u (fold (put_row key) ys rows)
    = (case get_row key u ys of None \<Rightarrow> get_row key u rows | Some r \<Rightarrow> if u \<in> key ` set rows then Some r else None)"
  using assms
proof (induction ys arbitrary: rows)
  case (Cons y ys)
  have keys: "key ` set (put_row key y rows) = key ` set rows"
    using arg_cong [OF keys_put_row [of key y rows], of set] by simp
  have head: "get_row key u (y # ys) = (if key y = u then Some y else get_row key u ys)"
    by (simp add: get_row_def)
  show ?case
  proof (cases "key y = u")
    case True
    with Cons.prems have "get_row key u ys = None" by (auto simp: get_row_None)
    moreover have "get_row key u (put_row key y rows) = (if u \<in> key ` set rows then Some y else None)"
      using True by (induction rows) (auto simp: get_row_def put_row_def)
    ultimately show ?thesis using Cons head True by simp
  next
    case False
    then show ?thesis using Cons head keys by (auto simp: row_simps split: option.split)
  qed
qed (simp add: get_row_def)

lemma claim_rows_facts:
  assumes "distinct (map v_order_id (states d))"
  shows "distinct (map v_order_id (claim_rows locked batch now d))" "length (claim_rows locked batch now d) \<le> batch"
    and "r \<in> set (claim_rows locked batch now d) \<Longrightarrow>
      get_row v_order_id (v_order_id r) (states d) = Some r \<and> claimable now d r \<and> \<not> locked (v_order_id r)"
proof -
  let ?rows = "sort_key v_next (sort_key v_created (sort_key v_order_id (filter (claimable now d) (states d))))"
  have sub: "set (claim_rows locked batch now d) \<subseteq> {r \<in> set (states d). claimable now d r \<and> \<not> locked (v_order_id r)}"
    using set_take_subset by (fastforce simp: claim_rows_def)
  have inj: "inj_on v_order_id (set (states d))" and dist: "distinct (states d)"
    using assms by (auto simp: distinct_map)
  have "distinct (claim_rows locked batch now d)" using dist by (simp add: claim_rows_def)
  with inj sub show "distinct (map v_order_id (claim_rows locked batch now d))"
    by (auto simp: distinct_map intro: inj_on_subset)
  show "length (claim_rows locked batch now d) \<le> batch" by (simp add: claim_rows_def)
  show "get_row v_order_id (v_order_id r) (states d) = Some r \<and> claimable now d r \<and> \<not> locked (v_order_id r)"
    if "r \<in> set (claim_rows locked batch now d)"
    using sub that assms by (auto intro: get_row_distinct)
qed

lemma claim_batch_result:
  assumes keys: "distinct (map v_order_id (states d))"
    and run: "claim_batch locked token batch lease now d = (Inr claims, d')"
  shows "length claims \<le> batch" "distinct (map cl_order claims)" "core d' = core d"
    "map v_order_id (states d') = map v_order_id (states d)"
    "u \<notin> cl_order ` set claims \<Longrightarrow> get_row v_order_id u (states d') = get_row v_order_id u (states d)"
    "c \<in> set claims \<Longrightarrow> \<exists>r. get_row v_order_id (cl_order c) (states d) = Some r \<and> claimable now d r \<and> \<not> locked (cl_order c)
      \<and> get_row v_order_id (cl_order c) (states d') = Some (claimed_row now lease (cl_token c) r)"
proof -
  let ?rows = "claim_rows locked batch now d"
  let ?new = "map (\<lambda>(i, r). claimed_row now lease (token i) r) (enumerate 0 ?rows)"
  have claims: "claims = map (\<lambda>(i, r). \<lparr>cl_order = v_order_id r, cl_token = token i, cl_failures = v_failures r\<rparr>) (enumerate 0 ?rows)"
    and d': "d' = d\<lparr>states := fold (put_row v_order_id) ?new (states d)\<rparr>"
    using run by (auto simp: claim_batch_def Let_def fold_map comp_def case_prod_unfold)
  have new: "map v_order_id ?new = map v_order_id ?rows" and orders: "map cl_order claims = map v_order_id ?rows"
    by (auto simp: claims claimed_row_def nth_enumerate_eq intro!: nth_equalityI)
  note facts = claim_rows_facts [OF keys, where locked = locked and batch = batch and now = now]
  have fold_keys: "map v_order_id (fold (put_row v_order_id) ys rows) = map v_order_id rows" for ys rows
    by (induction ys arbitrary: rows) (simp_all add: keys_put_row)
  show "length claims \<le> batch" using facts(2) by (simp add: claims)
  show "distinct (map cl_order claims)" using facts(1) orders by simp
  show "core d' = core d" "map v_order_id (states d') = map v_order_id (states d)" by (simp_all add: d' fold_keys)
  have lookup: "get_row v_order_id v (states d') = (case get_row v_order_id v ?new of
      None \<Rightarrow> get_row v_order_id v (states d) | Some r \<Rightarrow> if v \<in> v_order_id ` set (states d) then Some r else None)" for v
    using get_put_rows [of v_order_id ?new v "states d"] new facts(1) by (simp add: d')
  show "get_row v_order_id u (states d') = get_row v_order_id u (states d)" if "u \<notin> cl_order ` set claims"
  proof -
    have "u \<notin> v_order_id ` set ?new"
      using that arg_cong [OF new, of set] arg_cong [OF orders, of set] by (simp add: image_image)
    then have "get_row v_order_id u ?new = None" by (simp add: get_row_None del: set_map)
    then show ?thesis using lookup [of u] by simp
  qed
  show "\<exists>r. get_row v_order_id (cl_order c) (states d) = Some r \<and> claimable now d r \<and> \<not> locked (cl_order c)
      \<and> get_row v_order_id (cl_order c) (states d') = Some (claimed_row now lease (cl_token c) r)" if c: "c \<in> set claims"
  proof -
    obtain i r where ir: "(i, r) \<in> set (enumerate 0 ?rows)"
      and c_eq: "c = \<lparr>cl_order = v_order_id r, cl_token = token i, cl_failures = v_failures r\<rparr>"
      using c claims by auto
    from ir have r: "r \<in> set ?rows" by (auto simp: in_set_enumerate_eq)
    have mem: "claimed_row now lease (token i) r \<in> set ?new" using ir by force
    have "get_row v_order_id (v_order_id r) ?new = Some (claimed_row now lease (token i) r)"
      using get_row_distinct [OF _ mem, where key = v_order_id] new facts(1) by (simp add: claimed_row_def)
    moreover have "v_order_id r \<in> v_order_id ` set (states d)"
      using facts(3) [OF r] by (auto dest: get_row_in_keys)
    ultimately show ?thesis using facts(3) [OF r] lookup [of "v_order_id r"] by (simp add: c_eq)
  qed
qed

text \<open>
  C13: claims are exclusive. A batch has at most the configured size and each order once, only active
  orders whose lease is not current for any worker; the claimer holds the lease until it expires. A second
  claim of the same order is granted only after the first has expired, and then the first worker's
  lease is lost.
\<close>

theorem claims_are_exclusive:
  assumes "distinct (map v_order_id (states d))"
    and "claim_batch locked token batch lease now d = (Inr claims, d1)"
    and "claim_batch locked2 token2 batch2 lease2 t d1 = (Inr claims2, d2)"
  shows "length claims \<le> batch \<and> distinct (map cl_order claims)
    \<and> (\<forall>c \<in> set claims. active_order (cl_order c) d \<and> (\<forall>tok. lock_current_lease (cl_order c) tok now d = None)
        \<and> (\<forall>t'. lock_current_lease (cl_order c) (cl_token c) t' d1 \<noteq> None \<longleftrightarrow> t' < now + seconds lease))
    \<and> (\<forall>c \<in> set claims. \<forall>c2 \<in> set claims2. cl_order c2 = cl_order c \<longrightarrow>
        now + seconds lease \<le> t \<and> (cl_token c2 \<noteq> cl_token c \<longrightarrow> lease_lost (cl_order c) (cl_token c) d2))"
proof -
  note first = claim_batch_result [OF assms(1,2)]
  have keys: "distinct (map v_order_id (states d1))" using assms(1) first(4) by simp
  note second = claim_batch_result [OF keys assms(3)]
  have one: "active_order (cl_order c) d \<and> (\<forall>tok. lock_current_lease (cl_order c) tok now d = None)
      \<and> (\<forall>t'. lock_current_lease (cl_order c) (cl_token c) t' d1 \<noteq> None \<longleftrightarrow> t' < now + seconds lease)" if c: "c \<in> set claims" for c
  proof -
    obtain r where r: "get_row v_order_id (cl_order c) (states d) = Some r" "claimable now d r"
        "get_row v_order_id (cl_order c) (states d1) = Some (claimed_row now lease (cl_token c) r)"
      using first(6) [OF c] by blast
    moreover have "v_order_id r = cl_order c" using get_row_Some [OF r(1)] by simp
    ultimately show ?thesis
      by (auto simp: claimable_def lock_current_lease_def lease_row_is_current_def claimed_row_def split: option.splits)
  qed
  have two: "now + seconds lease \<le> t \<and> (cl_token c2 \<noteq> cl_token c \<longrightarrow> lease_lost (cl_order c) (cl_token c) d2)"
    if c: "c \<in> set claims" and c2: "c2 \<in> set claims2" and same: "cl_order c2 = cl_order c" for c c2
  proof -
    obtain r where r: "get_row v_order_id (cl_order c) (states d1) = Some (claimed_row now lease (cl_token c) r)"
      using first(6) [OF c] by blast
    obtain r2 where r2: "get_row v_order_id (cl_order c) (states d1) = Some r2" "claimable t d1 r2"
        "get_row v_order_id (cl_order c) (states d2) = Some (claimed_row t lease2 (cl_token c2) r2)"
      using second(6) [OF c2] same by auto
    then show ?thesis using r by (auto simp: claimable_def claimed_row_def lease_lost_def)
  qed
  show ?thesis using first(1,2) one two by blast
qed

section \<open>Paid authority\<close>

text \<open>The immutable part of the checkout: what order creation wrote.\<close>

definition catalog_bound :: "order_row \<Rightarrow> checkout_row \<Rightarrow> bool" where
  "catalog_bound ord chk = (c_operation_version chk = checkout_operation_version \<and> c_product_code chk = o_product_code ord
     \<and> c_catalog_version chk = o_catalog_version ord \<and> c_customer_email chk = o_customer_email ord
     \<and> c_quantity chk = 1 \<and> c_price_id chk \<noteq> [])"

lemma locked_rows_keys: "locked_rows u db = Some (ord, chk) \<Longrightarrow> o_id ord = u \<and> c_order_id chk = u
    \<and> get_row o_id u (orders db) = Some ord \<and> get_row c_order_id u (checkouts db) = Some chk"
  by (auto simp: locked_rows_def split: option.splits dest: get_row_Some)

text \<open>A paid transition leaves a checkout with the evidence, and touches no inbox row and no receipt.\<close>

lemma paid_transition:
  assumes run: "apply_payment_transition_locked now xid ord chk ev ''paid'' eid db = (Inr (moved, None), c)"
    and rows: "locked_rows u db = Some (ord, chk)"
  shows "inbox c = inbox db \<and> receipts c = receipts db
    \<and> get_row c_order_id u (checkouts c) = Some (reconcile_checkout now ev eid chk)
    \<and> (\<exists>ord'. get_row o_id u (orders c) = Some ord' \<and> o_state ord' = O_Paid \<and> o_payment ord' = P_Paid
        \<and> (catalog_bound ord (reconcile_checkout now ev eid chk) \<longrightarrow> catalog_bound ord' (reconcile_checkout now ev eid chk)))
    \<and> (c_session_id chk = None \<or> c_session_id chk = Some (pe_session_id ev))"
proof -
  note keys = locked_rows_keys [OF rows]
  have "c_order_id (reconcile_checkout now ev eid chk) = u" using keys by (simp add: reconcile_checkout_def)
  then show ?thesis using run keys
    by (auto simp: apply_payment_transition_locked_def transition_check_def Let_def put_row_lookup catalog_bound_def
        split: if_splits option.splits sum.splits)
qed

lemma reconciled_row: "catalog_bound ord chk \<Longrightarrow> catalog_bound ord (reconcile_checkout now ev eid chk)"
  by (simp add: catalog_bound_def reconcile_checkout_def)

lemma paid_authority_reduces:
  assumes rows: "get_row o_id u (orders c) = Some ord" "get_row c_order_id u (checkouts c) = Some (reconcile_checkout now (payment_part e) eid chk)"
    and bound: "catalog_bound ord (reconcile_checkout now (payment_part e) eid chk)"
    and ev: "poll_target e = Inr ''paid''" "ce_livemode e = s_expected_livemode st" "ce_session_id e \<noteq> []"
      "c_session_id chk = None \<or> c_session_id chk = Some (ce_session_id e)"
  shows "paid_authority_code st u c = (case truthy (c_last_event_id (reconcile_checkout now (payment_part e) eid chk)) of
      Some event_id \<Rightarrow> webhook_authority st u (reconcile_checkout now (payment_part e) eid chk) event_id c
    | None \<Rightarrow> poll_authority st u (reconcile_checkout now (payment_part e) eid chk) c)"
  using rows bound ev get_row_Some [OF rows(1)] get_row_Some [OF rows(2)]
  by (auto simp: paid_authority_code_def catalog_bound_def poll_target_def reconcile_checkout_def payment_part_def truthy_def
      split: if_splits option.splits)

text \<open>
  C16: the writer of the poll and the check before the automation agree. When a poll has moved an order
  under the lease with paid evidence of the configured mode, the authority check of that order finds no
  fault, and the order is paid.
\<close>

theorem paid_poll_has_authority:
  assumes "apply_poll_with_lease xid rid u tok (payment_part e) ''paid'' sha obs now d = (Inr Fn_Done, d')"
    and "locked_rows u (core d) = Some (ord, chk)" "catalog_bound ord chk" "c_last_event_id chk = None"
    and "poll_target e = Inr ''paid''" "ce_livemode e = s_expected_livemode st" "ce_session_id e \<noteq> []" "length sha = 64"
  shows "paid_authority_code st u (core d') = None
    \<and> (\<exists>ord'. get_row o_id u (orders (core d')) = Some ord' \<and> o_state ord' = O_Paid \<and> o_payment ord' = P_Paid)"
proof -
  obtain c where c: "apply_payment_transition_locked now xid ord chk (payment_part e) ''paid'' None (core d) = (Inr (True, None), c)"
    and fresh: "get_row r_order_id u (receipts c) = None"
    and d': "core d' = c\<lparr>receipts := add_row \<lparr>r_id = rid, r_order_id = u, r_session_id = ce_session_id e,
       r_session_status = ce_status e, r_payment_status = ce_payment_status e, r_payment_intent = ce_payment_intent e,
       r_livemode = ce_livemode e, r_evidence_sha = sha, r_target = ''paid'', r_observed_at = obs, r_created_at = now\<rparr> (receipts c)\<rparr>"
    using assms(1,2) by (auto simp: apply_poll_with_lease_def payment_part_def split: if_splits prod.splits sum.splits option.splits bool.splits)
  note after = paid_transition [OF c assms(2)]
  obtain ord' where ord': "get_row o_id u (orders c) = Some ord'" "o_state ord' = O_Paid" "o_payment ord' = P_Paid"
      "catalog_bound ord' (reconcile_checkout now (payment_part e) None chk)"
    using after reconciled_row [OF assms(3)] by blast
  have sess: "c_session_id chk = None \<or> c_session_id chk = Some (ce_session_id e)" using after by (simp add: payment_part_def)
  have "filter (\<lambda>r. r_order_id r = u) (receipts c) = []" using fresh by (auto simp: get_row_None filter_empty_conv)
  then have "poll_authority st u (reconcile_checkout now (payment_part e) None chk) (core d') = None"
    using assms(5-8) sess by (auto simp: poll_authority_def d' add_row_def reconcile_checkout_def payment_part_def poll_target_def
        split: if_splits option.splits)
  moreover have "truthy (c_last_event_id (reconcile_checkout now (payment_part e) None chk)) = None"
    using assms(4) by (simp add: reconcile_checkout_def truthy_def)
  ultimately have "paid_authority_code st u (core d') = None"
    using paid_authority_reduces [of u "core d'" ord' now e None chk, OF _ _ ord'(4) assms(5-7) sess] ord'(1) after by (simp add: d')
  then show ?thesis using ord' by (simp add: d')
qed

text \<open>
  So does the writer of a resumed webhook event: when an event that the worker did not refuse and that it
  correlated with the order has been applied under the lease with paid evidence, the authority check finds
  no fault.
\<close>

theorem paid_event_has_authority:
  assumes "apply_event_with_lease xid u tok eid (payment_part e) ''paid'' now d = (Inr Fn_Done, d')"
    and "locked_rows u (core d) = Some (ord, chk)" "catalog_bound ord chk"
    and "get_row e_id eid (inbox (core d)) = Some row" "eid \<noteq> []" "event_refusal st row = None"
    and "event_target row e = Inr ''paid''" "e_object_id row = Some (ce_session_id e)" "ce_livemode e = s_expected_livemode st"
    and "fst (correlate_stored_event eid d) = Inr (Some u, legacy)"
  shows "paid_authority_code st u (core d') = None"
proof -
  obtain moved c where c: "apply_payment_transition_locked now xid ord chk (payment_part e) ''paid'' (Some eid) (core d) = (Inr (moved, None), c)"
    and d': "core d' = c\<lparr>inbox := put_row e_id (row\<lparr>e_state := E_Processed, e_failure := None, e_processed_at := Some now\<rparr>) (inbox c)\<rparr>"
    using assms(1,2,4) by (auto simp: apply_event_with_lease_def split: if_splits prod.splits sum.splits option.splits bool.splits)
  note after = paid_transition [OF c assms(2)]
  obtain ord' where ord': "get_row o_id u (orders c) = Some ord'" "catalog_bound ord' (reconcile_checkout now (payment_part e) (Some eid) chk)"
    using after reconciled_row [OF assms(3)] by blast
  have sess: "c_session_id chk = None \<or> c_session_id chk = Some (ce_session_id e)" using after by (simp add: payment_part_def)
  have eid: "e_id row = eid" using get_row_Some [OF assms(4)] by simp
  have kind: "e_type row = ''checkout.session.completed''" "poll_target e = Inr ''paid''" "ce_session_id e \<noteq> []"
    using assms(6-8) by (auto simp: event_target_def event_refusal_def poll_target_def truthy_def split: if_splits)
  have candidate: "e_candidate_order row = None \<or> Option.bind (truthy (e_candidate_order row)) parse_uuid = Some u"
    using assms(10,4) by (auto simp: correlate_stored_event_def split: option.splits)
  have "get_row e_id eid (inbox (core d')) = Some (row\<lparr>e_state := E_Processed, e_failure := None, e_processed_at := Some now\<rparr>)"
    using after assms(4) eid by (simp add: d' put_row_lookup)
  moreover have "e_livemode row = s_expected_livemode st" "e_api_version row = None \<or> e_api_version row = Some (s_api_version st)"
    using assms(6) by (simp_all add: event_refusal_def split: if_splits)
  moreover have "c_session_id (reconcile_checkout now (payment_part e) (Some eid) chk) = Some (ce_session_id e)"
    using sess by (auto simp: reconcile_checkout_def payment_part_def)
  ultimately have "webhook_authority st u (reconcile_checkout now (payment_part e) (Some eid) chk) eid (core d') = None"
    using kind(1) candidate assms(8) by (auto simp: webhook_authority_def)
  moreover have "truthy (c_last_event_id (reconcile_checkout now (payment_part e) (Some eid) chk)) = Some eid"
    using assms(5) by (simp add: reconcile_checkout_def truthy_def)
  ultimately show ?thesis
    using paid_authority_reduces [of u "core d'" ord' now e "Some eid" chk, OF _ _ ord'(2) kind(2) assms(9) kind(3) sess] ord'(1) after
    by (simp add: d')
qed

lemma worker_indoor [indoor]: "keeps_world (uuid4 k)" "keeps_world (rtx k msg body)" "keeps_world (utcnow k)"
  "keeps_world (finish k claim now action outcome_text c failed delay)"
  by (simp add: keeps_world_def uuid4_def) (simp_all add: rtx_def utcnow_def finish_def indoor)

lemma finishing_indoor [indoor]: "keeps_world (replay_if k rid event pub res now)"
  "keeps_world (attention_or_lost k claim rid now action code)" "keeps_world (attention_now k claim rid action code)"
  "keeps_world (finish_or_lost k claim now action outcome_text c failed delay outcome)"
  unfolding replay_if_def attention_or_lost_def attention_now_def finish_attention_def finish_or_lost_def
  by (auto intro!: indoor)

text \<open>
  C15: the automation is called only on checked authority: if sending the paid event of an order changed
  the world, the answer of the world is that of this very post, and in the state that the worker read
  before it, the order is present and its paid authority coherent.
\<close>

theorem posts_only_with_authority:
  assumes "send_outbox k claim rid event pub (d, w, n) = (r, (d', w', n'))" and "w' \<noteq> w"
  shows "w' = snd (k_post k event w) \<and> ev_fault (k_env k) n = Healthy
    \<and> paid_authority_code (k_settings k) (cl_order claim) (core (ev_other (k_env k) n d)) = None
    \<and> get_row o_id (cl_order claim) (orders (core (ev_other (k_env k) n d))) \<noteq> None"
proof -
  let ?read = "rtx k ''paid recovery authority validation is unavailable'' (\<lambda>_ d. (Inr (paid_authority_code (k_settings k) (cl_order claim) (core d)), d))"
  let ?d = "ev_other (k_env k) n d" and ?code = "paid_authority_code (k_settings k) (cl_order claim) (core (ev_other (k_env k) n d))"
  have read: "?read (d, w, n) = (if ev_fault (k_env k) n = Healthy then Inr ?code else Inl (unavailable ''paid recovery authority validation is unavailable''),
      (?d, w, Suc n))"
    by (auto simp: rtx_def transact_def transaction_def split: fault.split)
  have healthy: "ev_fault (k_env k) n = Healthy"
    using assms read by (auto simp: send_outbox_def cbind_def split: if_splits)
  have none: "?code = None"
  proof (rule ccontr)
    assume "?code \<noteq> None"
    then obtain code where "?code = Some code" by blast
    then have "attention_now k claim rid ''verify_paid_authority'' code (?d, w, Suc n) = (r, (d', w', n'))"
      using assms(1) read healthy by (simp add: send_outbox_def cbind_def)
    then show False using assms(2) keeps_worldD finishing_indoor(3) by metis
  qed
  obtain answer w1 where post: "k_post k event w = (answer, w1)" by (cases "k_post k event w")
  have rest: "cbind (utcnow k) f (?d, w1, Suc n) = (r, (d', w', n')) \<Longrightarrow> (\<And>x. keeps_world (f x)) \<Longrightarrow> w' = w1"
    for f :: "int \<Rightarrow> ('a, recovery_outcome) worker"
    by (erule keeps_world_bindD [rotated]) (intro indoor)
  have first: "?read (d, w, n) = (Inr None, (?d, w, Suc n))" using read healthy none by simp
  have sent: "send_event k event (?d, w, Suc n) = (Inr (ingress_answer answer), (?d, w1, Suc n))"
    by (simp add: send_event_def cbind_def outside_def ret_def post)
  have "w' = w1"
    by (rule rest [OF assms(1) [unfolded send_outbox_def cbind_Inr [of ?read, OF first] option.case cbind_Inr [of "send_event k event", OF sent]]])
      (auto intro!: indoor split: option.splits)
  moreover have "get_row o_id (cl_order claim) (orders (core ?d)) \<noteq> None"
    using none by (auto simp: paid_authority_code_def split: option.splits)
  ultimately show ?thesis using healthy none post by simp
qed

section \<open>A lost webhook is recovered\<close>

lemma pending_poll_applies:
  assumes inv: "commerce_inv (core d)" and rows: "locked_rows u (core d) = Some (ord, chk)"
    and pending: "o_state ord = O_Pending" "o_payment ord = P_Pending" and sess: "c_session_id chk = Some (pe_session_id ev)"
    and fresh: "get_row x_id xid (outbox (core d)) = None" "get_row r_id rid (receipts (core d)) = None"
    and lease: "lock_current_lease u tok now d \<noteq> None"
  shows "\<exists>c. apply_poll_with_lease xid rid u tok ev ''paid'' sha obs now d = (Inr Fn_Done, d\<lparr>core := c\<rparr>)
    \<and> filter (\<lambda>x. x_order_id x = u) (outbox c) = [\<lparr>x_id = xid, x_order_id = u, x_type = paid_outbox_type,
         x_version = ''1'', x_created_at = now, x_published_at = None\<rparr>]"
proof -
  note keys = locked_rows_keys [OF rows]
  have ok: "order_ok (core d) ord" using commerce_invD(2) [OF inv] keys by blast
  then have none: "\<forall>x \<in> set (outbox (core d)). x_order_id x \<noteq> u"
    using pending keys by (simp add: order_ok_def unpaid_def paid_count_0)
  then have "paid_outbox u (outbox (core d)) = None" by (auto simp: paid_outbox_def find_None_iff)
  moreover have receipts: "get_row r_order_id u (receipts (core d)) = None"
    using commerce_invD(5) [OF inv] keys pending by (fastforce simp: get_row_None receipt_ok_def unpaid_def)
  ultimately show ?thesis using keys pending sess fresh lease none rows
    by (auto simp: apply_poll_with_lease_def apply_payment_transition_locked_def transition_check_def Let_def add_row_def
        filter_empty_conv split: option.splits)
qed

lemma quiet_rtx: "quiet (k_env k) \<Longrightarrow> body (ev_now (k_env k) n) d = (Inr x, d') \<Longrightarrow> rtx k msg body (d, w, n) = (Inr x, (d', w, Suc n))"
  by (simp add: rtx_def quiet_transact)

lemma quiet_evidence:
  assumes "quiet (k_env k)" "locked_rows u (core d) = Some (ord, chk)" "k_retrieve k sid w = (Some e, w1)" "ce_session_id e = sid"
    and "validate_binding e ord chk (s_expected_livemode (k_settings k)) = Inr ()"
  shows "evidence_or_mismatch k u sid (d, w, n) = (Inr (Some e), (d, w1, Suc n))"
proof -
  have "on_core (load_order_and_checkout Healthy u) d = (Inr (ord, chk), d)"
    using locked_rows_keys [OF assms(2)] by (simp add: on_core_def load_order_and_checkout_def reading_def)
  then have "rtx k ''commerce persistence is unavailable'' (\<lambda>_. on_core (load_order_and_checkout Healthy u)) (d, w, n)
      = (Inr (ord, chk), (d, w, Suc n))" by (rule quiet_rtx [OF assms(1)])
  then have "validated_evidence k u sid (d, w, n) = (Inr e, (d, w1, Suc n))"
    using assms(3-5) by (simp add: validated_evidence_def cbind_def outside_def ret_def)
  then show ?thesis by (simp add: evidence_or_mismatch_def cbind_def catch_def ret_def)
qed

lemma lock_current_row: "lock_current_lease u tok now d \<noteq> None \<Longrightarrow> \<exists>r. get_row v_order_id u (states d) = Some r \<and> v_order_id r = u
    \<and> lock_current_lease u tok now d = Some r"
  by (auto simp: lock_current_lease_def split: option.splits if_splits dest: get_row_Some)

lemma finish_current:
  assumes "quiet (k_env k)" "lock_current_lease (cl_order claim) (cl_token claim) t d \<noteq> None"
  shows "\<exists>r. finish_or_lost k claim t action res c failed delay outcome (d, w, n)
      = (Inr outcome, (d\<lparr>states := put_row v_order_id (released_row t action res c failed (t + seconds delay) r) (states d)\<rparr>, w, Suc n))
    \<and> get_row v_order_id (cl_order claim) (put_row v_order_id (released_row t action res c failed (t + seconds delay) r) (states d))
      = Some (released_row t action res c failed (t + seconds delay) r)"
proof -
  obtain r where r: "get_row v_order_id (cl_order claim) (states d) = Some r" "v_order_id r = cl_order claim"
      "lock_current_lease (cl_order claim) (cl_token claim) t d = Some r" using lock_current_row [OF assms(2)] by blast
  have "finish k claim t action res c failed delay (d, w, n)
      = (Inr True, (d\<lparr>states := put_row v_order_id (released_row t action res c failed (t + seconds delay) r) (states d)\<rparr>, w, Suc n))"
    unfolding finish_def by (rule quiet_rtx [OF assms(1)]) (simp add: finish_claim_def r)
  then have "finish_or_lost k claim t action res c failed delay outcome (d, w, n)
      = (Inr outcome, (d\<lparr>states := put_row v_order_id (released_row t action res c failed (t + seconds delay) r) (states d)\<rparr>, w, Suc n))"
    by (simp add: finish_or_lost_def cbind_def ret_def)
  moreover have "v_order_id (released_row t action res c failed (t + seconds delay) r) = cl_order claim"
    using r by (simp add: released_row_def)
  ultimately show ?thesis using r put_row_lookup [of v_order_id "released_row t action res c failed (t + seconds delay) r" "states d"]
    by auto
qed

lemma pending_poll_recovers:
  assumes quiet: "quiet (k_env k)" and inv: "commerce_inv (core d)"
    and rows: "locked_rows (cl_order claim) (core d) = Some (ord, chk)" "o_state ord = O_Pending" "o_payment ord = P_Pending"
    and sess: "c_session_id chk = Some sid" "sid \<noteq> []" "sn_session snap = Some sid"
    and stripe: "k_retrieve k sid w = (Some e, w1)" "ce_session_id e = sid" "poll_target e = Inr ''paid''"
      "validate_binding e ord chk (s_expected_livemode (k_settings k)) = Inr ()"
    and fresh: "\<And>i. get_row x_id (k_uuid k i 0) (outbox (core d)) = None" "\<And>i. get_row r_id (k_uuid k i 1) (receipts (core d)) = None"
    and lease: "\<And>i. i \<le> m + 5 \<Longrightarrow> lock_current_lease (cl_order claim) (cl_token claim) (ev_now (k_env k) i) d \<noteq> None"
  shows "\<exists>d' row x. poll_payment k claim rid snap now (d, w, m) = (Inr Ro_Reconciled, (d', w1, m + 6))
    \<and> filter (\<lambda>y. x_order_id y = cl_order claim) (outbox (core d')) = [x] \<and> x_published_at x = None
    \<and> get_row v_order_id (cl_order claim) (states d') = Some row \<and> v_token row = None \<and> v_next row = ev_now (k_env k) (m + 4)
    \<and> v_outcome row = Some ''reconciled''"
proof -
  let ?u = "cl_order claim" and ?now = "ev_now (k_env k)"
  let ?poll_write = "apply_poll_with_lease (k_uuid k (Suc (Suc m)) 0) (k_uuid k (Suc (Suc m)) 1) ?u (cl_token claim) (payment_part e) ''paid''
        (canonical_payment_evidence_hash (k_digest k) e) (?now (Suc m))"
  have paid_session: "c_session_id chk = Some (pe_session_id (payment_part e))" using sess stripe(2) by (simp add: payment_part_def)
  obtain c where c: "?poll_write (?now (Suc (Suc (Suc m)))) d = (Inr Fn_Done, d\<lparr>core := c\<rparr>)"
      "filter (\<lambda>x. x_order_id x = ?u) (outbox c) = [\<lparr>x_id = k_uuid k (Suc (Suc m)) 0, x_order_id = ?u, x_type = paid_outbox_type,
         x_version = ''1'', x_created_at = ?now (Suc (Suc (Suc m))), x_published_at = None\<rparr>]"
    using pending_poll_applies [OF inv rows paid_session fresh(1) [of "Suc (Suc m)"] fresh(2) [of "Suc (Suc m)"]
      lease [of "Suc (Suc (Suc m))"], where sha = "canonical_payment_evidence_hash (k_digest k) e" and obs = "?now (Suc m)"] by auto
  let ?t = "?now (Suc (Suc (Suc (Suc m))))"
  have "lock_current_lease ?u (cl_token claim) ?t (d\<lparr>core := c\<rparr>) \<noteq> None"
    using lease [of "Suc (Suc (Suc (Suc m)))"] by (simp add: lock_current_lease_def)
  from finish_current [OF quiet this, of "''poll_checkout''" "''reconciled''" None False 0 Ro_Reconciled w1 "Suc (Suc (Suc (Suc (Suc m))))"]
  obtain r d' where released: "finish_or_lost k claim ?t ''poll_checkout'' ''reconciled'' None False 0 Ro_Reconciled (d\<lparr>core := c\<rparr>, w1, Suc (Suc (Suc (Suc (Suc m)))))
      = (Inr Ro_Reconciled, (d', w1, Suc (Suc (Suc (Suc (Suc (Suc m)))))))"
    and d': "core d' = c" "get_row v_order_id ?u (states d') = Some (released_row ?t ''poll_checkout'' ''reconciled'' None False ?t r)"
    by (auto simp: seconds_def)
  have "poll_payment k claim rid snap now (d, w, m) = (Inr Ro_Reconciled, (d', w1, Suc (Suc (Suc (Suc (Suc (Suc m)))))))"
    using quiet_evidence [OF quiet rows(1) stripe(1,2,4), of m] quiet_rtx [OF quiet, of ?poll_write, OF c(1)] released stripe(3) sess(2,3)
    by (simp add: poll_payment_def truthy_def cbind_def utcnow_def clock_def uuid4_def)
  moreover have "v_token (released_row ?t ''poll_checkout'' ''reconciled'' None False ?t r) = None
      \<and> v_next (released_row ?t ''poll_checkout'' ''reconciled'' None False ?t r) = ?t
      \<and> v_outcome (released_row ?t ''poll_checkout'' ''reconciled'' None False ?t r) = Some ''reconciled''"
    by (simp add: released_row_def)
  ultimately show ?thesis using c(2) d' by (auto simp: eval_nat_numeral)
qed

text \<open>
  C17: recovery is live: a pending order whose webhook never came, but whose session Stripe reports as paid,
  is reconciled by one undisturbed pass of its claimer. The order is paid, its one paid event waits
  for the automation, and the lease is given back for an immediate next claim.
\<close>

theorem lost_webhook_is_recovered:
  assumes quiet: "quiet (k_env k)" and reach: "commerce_reachable (core d)"
    and rows: "locked_rows (cl_order claim) (core d) = Some (ord, chk)" "o_state ord = O_Pending" "o_payment ord = P_Pending"
    and sess: "c_session_id chk = Some sid" "sid \<noteq> []"
    and stale: "o_updated_at ord \<le> ev_now (k_env k) n - seconds (rt_pending_poll (k_runtime k))"
    and no_event: "stale_events sid (ev_now (k_env k) n - seconds (rt_stale_inbox (k_runtime k))) (core d) = []"
    and stripe: "k_retrieve k sid w = (Some e, w1)" "ce_session_id e = sid" "poll_target e = Inr ''paid''"
      "validate_binding e ord chk (s_expected_livemode (k_settings k)) = Inr ()"
    and fresh: "\<And>i. get_row x_id (k_uuid k i 0) (outbox (core d)) = None" "\<And>i. get_row r_id (k_uuid k i 1) (receipts (core d)) = None"
    and lease: "\<And>i. i \<le> n + 8 \<Longrightarrow> lock_current_lease (cl_order claim) (cl_token claim) (ev_now (k_env k) i) d \<noteq> None"
  shows "\<exists>d' row x. run_claim k (lineage_methods k) rid claim (d, w, n) = (Inr Ro_Reconciled, (d', w1, n + 9))
    \<and> filter (\<lambda>y. x_order_id y = cl_order claim) (outbox (core d')) = [x] \<and> x_published_at x = None
    \<and> get_row v_order_id (cl_order claim) (states d') = Some row \<and> v_token row = None \<and> v_next row = ev_now (k_env k) (n + 7)
    \<and> v_outcome row = Some ''reconciled''"
proof -
  let ?u = "cl_order claim" and ?now = "ev_now (k_env k)"
  let ?snap = "\<lparr>sn_order_state = O_Pending, sn_payment = P_Pending, sn_updated = o_updated_at ord,
      sn_session = Some sid, sn_outboxes = paid_outboxes ?u (core d)\<rparr>"
  let ?load = "\<lambda>_::int. load_snapshot ?u" and ?stale = "\<lambda>_::int. load_stale_received_event ?u (?now n - seconds (rt_stale_inbox (k_runtime k)))"
  have snapshot: "rtx k msg ?load (d, w, i) = (Inr ?snap, (d, w, Suc i))" for msg i
    by (rule quiet_rtx [OF quiet]) (use rows sess in \<open>simp add: load_snapshot_def\<close>)
  have no_stale: "rtx k msg ?stale (d, w, i) = (Inr None, (d, w, Suc i))" for msg i
    by (rule quiet_rtx [OF quiet])
      (use locked_rows_keys [OF rows(1)] sess no_event in \<open>simp add: load_stale_received_event_def\<close>)
  have lease3: "lock_current_lease ?u (cl_token claim) (?now i) d \<noteq> None" if "i \<le> Suc (Suc (Suc n)) + 5" for i
    using lease [of i] that by simp
  from pending_poll_recovers [where m = "Suc (Suc (Suc n))", OF quiet commerce_reachable_inv [OF reach] rows sess(1,2) _ stripe fresh lease3, where snap = ?snap and rid = rid and now = "?now n"]
  obtain d' row x where poll: "poll_payment k claim rid ?snap (?now n) (d, w, Suc (Suc (Suc n))) = (Inr Ro_Reconciled, (d', w1, n + 9))"
    and after: "filter (\<lambda>y. x_order_id y = ?u) (outbox (core d')) = [x]" "x_published_at x = None"
      "get_row v_order_id ?u (states d') = Some row" "v_token row = None" "v_next row = ?now (n + 7)" "v_outcome row = Some ''reconciled''"
    by (auto simp: eval_nat_numeral)
  have "process_claim k (lineage_methods k) claim rid (?now n) (d, w, Suc n) = (Inr Ro_Reconciled, (d', w1, n + 9))"
    using snapshot no_stale stale poll by (simp add: process_claim_def lineage_methods_def cbind_def active_state_def)
  then have "run_claim k (lineage_methods k) rid claim (d, w, n) = (Inr Ro_Reconciled, (d', w1, n + 9))"
    by (simp add: run_claim_def catch_def cbind_def utcnow_def clock_def)
  then show ?thesis using after by blast
qed

section \<open>Concrete runs of recovery\<close>

definition rv_bound :: commerce_db where
  "rv_bound = snd (bind_checkout Healthy 2 7 ''cs_1'' ''https://stripe'' None
     (snd (get_or_create_order Healthy Healthy (\<lambda>db. db) (\<lambda>_. ''h'') 1 7 ''k'' run_request ''2026-07-01'' ''price_1'' 1
        checkout_operation_version ''https://s'' ''https://c'' empty_commerce)))"

definition rv_received :: commerce_db where
  "rv_received = snd (record_stripe_event Healthy 3 (run_event\<lparr>ev_candidate_order := None\<rparr>) ''ab'' rv_bound)"

definition rv_paid :: commerce_db where
  "rv_paid = snd (apply_reconciliation Healthy 4 100 ''evt_1'' 7 run_evidence ''paid'' rv_received)"

definition rv_evidence :: checkout_evidence where
  "rv_evidence = \<lparr>ce_session_id = ''cs_1'', ce_object_type = ''checkout.session'', ce_mode = ''payment'', ce_livemode = False,
     ce_client_reference = uuid_str 7, ce_metadata = [(''sitescore_order_id'', uuid_str 7),
       (''sitescore_product_code'', ''location_report_v1''), (''sitescore_catalog_version'', ''2026-07-01'')], ce_status = ''complete'', ce_payment_status = ''paid'',
     ce_payment_intent = Some ''pi_1'', ce_line_items = [\<lparr>li_price_id = ''price_1'', li_quantity = 1, li_currency = ''USD''\<rparr>]\<rparr>"

text \<open>The recovery tables with one row, leased with a token until a time.\<close>

definition rv_leased :: "commerce_db \<Rightarrow> uuid option \<Rightarrow> int \<Rightarrow> recovery_db" where
  "rv_leased c tok until = \<lparr>core = c, states = [(fresh_state 0 7)\<lparr>v_token := tok, v_expires := map_option (\<lambda>_. until) tok\<rparr>],
     runs = [], findings = [], replays = []\<rparr>"

definition rv_settings :: settings where
  "rv_settings = \<lparr>s_price_id = ''price_1'', s_success_url_base = ''https://s'', s_cancel_url_base = ''https://c'',
     s_api_version = ''2025'', s_expected_livemode = False, s_target_id = ''t'', s_base_url = ''https://api'', s_automation_key = ''a''\<rparr>"

definition rv_config :: "nat recovery_config" where
  "rv_config = \<lparr>k_settings = rv_settings,
     k_runtime = \<lparr>rt_batch = 10, rt_stale_inbox = 120, rt_pending_poll = 300, rt_published_replay = 1200, rt_lease = 120, rt_max_backoff = 3600\<rparr>,
     k_env = \<lparr>ev_fault = (\<lambda>_. Healthy), ev_other = (\<lambda>_ d. d), ev_now = (\<lambda>n. 1000000000000 + int n)\<rparr>,
     k_retrieve = (\<lambda>_ w. (Some rv_evidence, w)), k_post = (\<lambda>_ w. (Some 200, Suc w)), k_digest = (\<lambda>_. replicate 64 CHR ''a''),
     k_uuid = (\<lambda>n i. of_nat (1000 * n + i)), k_locked = (\<lambda>_ _. False)\<rparr>"

definition run_outbox :: outbox_row where
  "run_outbox = \<lparr>x_id = 100, x_order_id = 7, x_type = paid_outbox_type, x_version = ''1'', x_created_at = 4, x_published_at = None\<rparr>"








lemma claims_are_exclusive_witness:
  "lease_lost 7 50 (snd (claim_batch (\<lambda>_. False) (\<lambda>i. 60) 10 120 (200 * 1000000)
     (snd (claim_batch (\<lambda>_. False) (\<lambda>i. 50) 10 120 1 (rv_leased rv_received None 0)))))"
proof -
  let ?d = "rv_leased rv_received None 0"
  let ?d1 = "snd (claim_batch (\<lambda>_. False) (\<lambda>i. 50) 10 120 1 ?d)"
  let ?d2 = "snd (claim_batch (\<lambda>_. False) (\<lambda>i. 60) 10 120 (200 * 1000000) ?d1)"
  have "fst (claim_batch (\<lambda>_. False) (\<lambda>i. 50) 10 120 1 ?d) = Inr [\<lparr>cl_order = 7, cl_token = 50, cl_failures = 0\<rparr>]" by code_simp
  moreover have "fst (claim_batch (\<lambda>_. False) (\<lambda>i. 60) 10 120 (200 * 1000000) ?d1) = Inr [\<lparr>cl_order = 7, cl_token = 60, cl_failures = 0\<rparr>]"
    by code_simp
  ultimately have run: "claim_batch (\<lambda>_. False) (\<lambda>i. 50) 10 120 1 ?d = (Inr [\<lparr>cl_order = 7, cl_token = 50, cl_failures = 0\<rparr>], ?d1)"
      "claim_batch (\<lambda>_. False) (\<lambda>i. 60) 10 120 (200 * 1000000) ?d1 = (Inr [\<lparr>cl_order = 7, cl_token = 60, cl_failures = 0\<rparr>], ?d2)"
    by (metis prod.collapse)+
  have "distinct (map v_order_id (states ?d))" by (simp add: rv_leased_def)
  from claims_are_exclusive [OF this run] show ?thesis by simp
qed

lemma paid_poll_has_authority_witness:
  "paid_authority_code rv_settings 7 (core (snd (apply_poll_with_lease 100 300 7 50 (payment_part rv_evidence) ''paid''
     (replicate 64 CHR ''a'') 5 6 (rv_leased rv_bound (Some 50) 10)))) = None"
proof -
  let ?run = "apply_poll_with_lease 100 300 7 50 (payment_part rv_evidence) ''paid'' (replicate 64 CHR ''a'') 5 6 (rv_leased rv_bound (Some 50) 10)"
  have "fst ?run = Inr Fn_Done" by code_simp
  then have run: "?run = (Inr Fn_Done, snd ?run)" by (metis prod.collapse)
  have "\<exists>ord chk. locked_rows 7 rv_bound = Some (ord, chk) \<and> catalog_bound ord chk \<and> c_last_event_id chk = None"
    by (simp add: rv_bound_def run_simps catalog_bound_def)
  then obtain ord chk where rows: "locked_rows 7 rv_bound = Some (ord, chk)" "catalog_bound ord chk" "c_last_event_id chk = None"
    by blast
  show ?thesis
    by (rule conjunct1, rule paid_poll_has_authority [OF run]) (use rows in \<open>simp_all add: rv_leased_def rv_evidence_def poll_target_def truthy_def rv_settings_def\<close>)
qed

lemma paid_event_has_authority_witness:
  "paid_authority_code rv_settings 7 (core (snd (apply_event_with_lease 100 7 50 ''evt_1'' (payment_part rv_evidence) ''paid''
     6 (rv_leased rv_received (Some 50) 10)))) = None"
proof -
  let ?d = "rv_leased rv_received (Some 50) 10"
  let ?run = "apply_event_with_lease 100 7 50 ''evt_1'' (payment_part rv_evidence) ''paid'' 6 ?d"
  have "fst ?run = Inr Fn_Done" by code_simp
  then have run: "?run = (Inr Fn_Done, snd ?run)" by (metis prod.collapse)
  have "\<exists>ord chk. locked_rows 7 rv_received = Some (ord, chk) \<and> catalog_bound ord chk"
    by (simp add: rv_received_def rv_bound_def run_simps catalog_bound_def)
  then obtain ord chk where rows: "locked_rows 7 rv_received = Some (ord, chk)" "catalog_bound ord chk" by blast
  obtain row where row: "get_row e_id ''evt_1'' (inbox rv_received) = Some row" "event_refusal rv_settings row = None"
      "event_target row rv_evidence = Inr ''paid''" "e_object_id row = Some (ce_session_id rv_evidence)"
    by (simp add: rv_received_def rv_bound_def run_simps event_refusal_def event_target_def rv_settings_def rv_evidence_def
        truthy_def supported_events_def async_events_def)
  have "fst (correlate_stored_event ''evt_1'' ?d) = Inr (Some 7, True)" by code_simp
  then show ?thesis
    by (intro paid_event_has_authority [OF run]) (use rows row in \<open>simp_all add: rv_leased_def rv_evidence_def rv_settings_def\<close>)
qed

lemma posts_only_with_authority_witness:
  "fst (snd (snd (send_outbox rv_config \<lparr>cl_order = 7, cl_token = 50, cl_failures = 0\<rparr> 9 run_outbox None (rv_leased rv_paid (Some 50) (10 ^ 13), 0, 0)))) = 1
    \<and> paid_authority_code rv_settings 7 rv_paid = None"
proof -
  let ?run = "send_outbox rv_config \<lparr>cl_order = 7, cl_token = 50, cl_failures = 0\<rparr> 9 run_outbox None (rv_leased rv_paid (Some 50) (10 ^ 13), 0, 0)"
  have w: "fst (snd (snd ?run)) = 1" by code_simp
  moreover obtain r d' w' n' where run: "?run = (r, (d', w', n'))" by (metis prod.collapse)
  ultimately have "w' \<noteq> 0" by simp
  from posts_only_with_authority [OF run this] have "paid_authority_code rv_settings 7 rv_paid = None"
    by (simp add: rv_config_def rv_leased_def)
  with w show ?thesis by blast
qed

lemma lost_webhook_is_recovered_witness:
  "\<exists>d' w' n'. run_claim rv_config (lineage_methods rv_config) 9 \<lparr>cl_order = 7, cl_token = 50, cl_failures = 0\<rparr>
      (rv_leased rv_bound (Some 50) (10 ^ 13), 0, 0) = (Inr Ro_Reconciled, (d', w', n'))
    \<and> length (filter (\<lambda>y. x_order_id y = 7) (outbox (core d'))) = 1"
proof -
  let ?claim = "\<lparr>cl_order = 7, cl_token = 50, cl_failures = 0\<rparr>" and ?d = "rv_leased rv_bound (Some 50) (10 ^ 13)"
  have "\<exists>ord chk. locked_rows 7 rv_bound = Some (ord, chk) \<and> o_state ord = O_Pending \<and> o_payment ord = P_Pending
      \<and> c_session_id chk = Some ''cs_1'' \<and> o_updated_at ord = 1 \<and> validate_binding rv_evidence ord chk False = Inr ()"
    by (simp add: rv_bound_def run_simps validate_binding_def rv_evidence_def)
  then obtain ord chk where rows: "locked_rows 7 rv_bound = Some (ord, chk)" "o_state ord = O_Pending" "o_payment ord = P_Pending"
      "c_session_id chk = Some ''cs_1''" "o_updated_at ord = 1" "validate_binding rv_evidence ord chk False = Inr ()" by blast
  have tables: "outbox rv_bound = []" "inbox rv_bound = []" "receipts rv_bound = []" by (simp_all add: rv_bound_def run_simps)
  have reach: "commerce_reachable (core ?d)" unfolding rv_leased_def rv_bound_def
    by (simp, intro commerce_reachable.bind commerce_reachable.create commerce_reachable.start)
  have "lock_current_lease 7 50 (ev_now (k_env rv_config) i) ?d \<noteq> None" if "i \<le> 0 + 8" for i
    using that by (simp add: rv_leased_def rv_config_def lock_current_lease_def lease_row_is_current_def fresh_state_def get_row_def)
  then have lease: "lock_current_lease (cl_order ?claim) (cl_token ?claim) (ev_now (k_env rv_config) i) ?d \<noteq> None" if "i \<le> 0 + 8" for i
    using that by simp
  have "\<exists>d' row x. run_claim rv_config (lineage_methods rv_config) 9 ?claim (?d, 0, 0) = (Inr Ro_Reconciled, (d', 0, 0 + 9))
    \<and> filter (\<lambda>y. x_order_id y = cl_order ?claim) (outbox (core d')) = [x] \<and> x_published_at x = None
    \<and> get_row v_order_id (cl_order ?claim) (states d') = Some row \<and> v_token row = None \<and> v_next row = ev_now (k_env rv_config) (0 + 7)
    \<and> v_outcome row = Some ''reconciled''"
    by (rule lost_webhook_is_recovered [OF _ reach _ rows(2,3,4) _ _ _ _ _ _ _ _ _ lease, where e = rv_evidence])
      (use rows tables in \<open>simp_all add: rv_config_def rv_leased_def quiet_def seconds_def stale_events_def get_row_def rv_settings_def
        poll_target_def truthy_def rv_evidence_def\<close>)
  then show ?thesis by auto
qed

end
