(* ===== verification/ApiLifecycle.thy ===== *)
theory ApiLifecycle
  imports PyJson PyRun
begin

text \<open>
  The lifecycle of an analysis in the SiteScore API: the rows of \<open>db_models.py\<close>, submission and
  polling (\<open>lifecycle.py\<close>), the outbox dispatcher (\<open>dispatcher.py\<close>), idempotency keys
  (\<open>idempotency.py\<close>) and bearer keys (\<open>auth.py\<close>). The column checks of the tables are not repeated
  in the operations; that no operation ever violates them is proved in \<open>ApiProofs\<close>. Times are
  integers. \<open>json.dumps\<close> with SHA-256 is the parameter \<open>digest\<close>; the broker, the advisory locks of
  PostgreSQL and the clock are parameters too.
\<close>

section \<open>Rows\<close>

datatype analysis_state = An_Queued | An_Running | An_Completed | An_Not_Score_Ready | An_Failed | An_Timed_Out

definition terminal_states :: "analysis_state set" where
  "terminal_states = {An_Completed, An_Not_Score_Ready, An_Failed, An_Timed_Out}"

record analysis_row =
  an_id :: uuid
  an_consumer :: uuid
  an_request_id :: uuid
  an_api_version :: string
  an_state :: analysis_state
  an_payload :: json
  an_hash :: string
  an_key :: string
  an_task :: uuid
  an_created :: int
  an_updated :: int
  an_started :: "int option"
  an_finished :: "int option"
  an_deadline :: int
  an_success :: "int option"
  an_result :: "json option"
  an_readiness :: "json option"
  an_failure_code :: "string option"
  an_failure_message :: "string option"

record dispatch_row =
  dq_analysis_id :: uuid
  dq_task :: uuid
  dq_created :: int
  dq_dispatched :: "int option"
  dq_attempts :: int
  dq_error_code :: "string option"
  dq_error_message :: "string option"

text \<open>The fields that \<open>PreparedReportArtifact\<close> and \<open>ReportModel\<close> have in common.\<close>

record report_artifact =
  ra_report_id :: uuid
  ra_analysis_id :: uuid
  ra_version :: string
  ra_ready :: bool
  ra_fingerprint :: string
  ra_schema_version :: string
  ra_projection_version :: string
  ra_prompt_version :: string
  ra_narrative_schema :: string
  ra_provider :: string
  ra_model_id :: "string option"
  ra_mode :: "string option"
  ra_fallback :: "string option"
  ra_presentation_schema :: string
  ra_presentation_policy :: string
  ra_template :: string
  ra_stylesheet :: string
  ra_chart :: string
  ra_renderer :: string
  ra_generated_at :: int
  ra_content_sha :: "string option"
  ra_mime :: "string option"
  ra_filename :: "string option"
  ra_length :: "int option"
  ra_storage_key :: "string option"
  ra_failure_code :: "string option"
  ra_failure_message :: "string option"

record report_row =
  rw_artifact :: report_artifact
  rw_created :: int
  rw_updated :: int

record api_db =
  analyses :: "analysis_row list"
  dispatches :: "dispatch_row list"
  reports :: "report_row list"

datatype api_error = Db_Error | Integrity_Error | Idempotency_Conflict | Analysis_Not_Found | Broker_Error
  | Idempotency_Key_Required | Invalid_Idempotency_Key
  | Report_Not_Found | Report_Not_Yet_Reportable | Analysis_Not_Reportable | Report_Invariant_Violation
  | Report_Content_Unavailable | Report_Artifact_Integrity
  | Value_Error string | Storage_Error | Execution_Error | Retryable_Finalization string

section \<open>Transactions\<close>

type_synonym api_env = "api_db env"

definition tx :: "api_env \<Rightarrow> (int \<Rightarrow> (api_db, api_error, 'a) call) \<Rightarrow> ((api_db, 'w) run, api_error, 'a) call" where
  "tx = transact Db_Error"

section \<open>Idempotency keys\<close>

definition idempotency_key_max_bytes :: nat where "idempotency_key_max_bytes = 200"

text \<open>The length of \<open>value.encode("utf-8")\<close> for code points below 256, as header values are.\<close>

definition utf8_length :: "string \<Rightarrow> nat" where
  "utf8_length s = sum_list (map (\<lambda>c. if (of_char c :: nat) < 128 then 1 else 2) s)"

definition validate_idempotency_key :: "string option \<Rightarrow> (api_error, string) result" where
  "validate_idempotency_key value = (case value of
     None \<Rightarrow> Inl Idempotency_Key_Required
   | Some v \<Rightarrow>
       if strip v = [] then Inl Invalid_Idempotency_Key
       else if idempotency_key_max_bytes < utf8_length v then Inl Invalid_Idempotency_Key
       else if list_ex (\<lambda>c. (of_char c :: nat) < 32 \<or> (of_char c :: nat) = 127) v then Inl Invalid_Idempotency_Key
       else Inr v)"

text \<open>\<open>canonical_request_json\<close>: dumped with sorted keys and loaded again.\<close>

definition canonical_request_json :: "json \<Rightarrow> json" where
  "canonical_request_json rq = json_sorted rq"

definition canonical_request_hash :: "(json \<Rightarrow> string) \<Rightarrow> json \<Rightarrow> string" where
  "canonical_request_hash digest rq = digest (json_sorted rq)"

section \<open>The outbox dispatcher\<close>

definition first_row :: "('r \<Rightarrow> bool) \<Rightarrow> 'r list \<Rightarrow> 'r option" where
  "first_row p rows = List.find p rows"

definition dispatch_failed :: "dispatch_row \<Rightarrow> dispatch_row" where
  "dispatch_failed r = r\<lparr>dq_attempts := dq_attempts r + 1, dq_error_code := Some ''broker_publish_failed'',
     dq_error_message := Some ''broker publish failed''\<rparr>"

definition dispatch_done :: "int \<Rightarrow> dispatch_row \<Rightarrow> dispatch_row" where
  "dispatch_done now r = r\<lparr>dq_attempts := dq_attempts r + 1, dq_dispatched := Some now, dq_error_code := None,
     dq_error_message := None\<rparr>"

definition update_dispatch :: "(dispatch_row \<Rightarrow> dispatch_row) \<Rightarrow> uuid \<Rightarrow> (api_db, api_error, unit) call" where
  "update_dispatch f aid d = (case get_row dq_analysis_id aid (dispatches d) of
     None \<Rightarrow> (Inr (), d)
   | Some current \<Rightarrow>
       (Inr (), if dq_dispatched current = None
          then d\<lparr>dispatches := put_row dq_analysis_id (f current) (dispatches d)\<rparr> else d))"

type_synonym 'w broker = "uuid \<Rightarrow> uuid \<Rightarrow> 'w \<Rightarrow> bool \<times> 'w"

definition dispatch_analysis :: "api_env \<Rightarrow> 'w broker \<Rightarrow> uuid \<Rightarrow> ((api_db, 'w) run, api_error, unit) call" where
  "dispatch_analysis ev publish aid =
     cbind (tx ev (\<lambda>now d. (Inr (first_row (\<lambda>r. dq_analysis_id r = aid \<and> dq_dispatched r = None) (dispatches d)), d))) (\<lambda>row.
       case row of
         None \<Rightarrow> ret ()
       | Some r \<Rightarrow>
           cbind (outside (publish aid (dq_task r))) (\<lambda>ok.
             if ok then tx ev (\<lambda>now. update_dispatch (dispatch_done now) aid)
             else cbind (tx ev (\<lambda>now. update_dispatch dispatch_failed aid)) (\<lambda>_. throw Broker_Error)))"

text \<open>The loop of \<open>drain_pending\<close> over the pending identifiers, oldest first.\<close>

fun drain_ids :: "api_env \<Rightarrow> 'w broker \<Rightarrow> uuid list \<Rightarrow> ((api_db, 'w) run, api_error, nat) call" where
  "drain_ids ev publish [] = ret 0"
| "drain_ids ev publish (aid # ids) =
     cbind (catch (cbind (dispatch_analysis ev publish aid) (\<lambda>_. ret True)) (\<lambda>_. ret False)) (\<lambda>ok.
     cbind (drain_ids ev publish ids) (\<lambda>n. ret (if ok then Suc n else n)))"

definition pending_ids :: "nat \<Rightarrow> api_db \<Rightarrow> uuid list" where
  "pending_ids limit d = take limit (map dq_analysis_id (sort_key dq_created (filter (\<lambda>r. dq_dispatched r = None) (dispatches d))))"

definition drain_pending :: "api_env \<Rightarrow> 'w broker \<Rightarrow> nat \<Rightarrow> ((api_db, 'w) run, api_error, nat) call" where
  "drain_pending ev publish limit =
     cbind (tx ev (\<lambda>now d. (Inr (pending_ids limit d), d))) (drain_ids ev publish)"

section \<open>Submission\<close>

record accepted_resource =
  ac_id :: uuid
  ac_state :: analysis_state

definition api_version_v1 :: string where "api_version_v1 = ''v1''"

definition new_analysis ::
  "int \<Rightarrow> int \<Rightarrow> uuid \<Rightarrow> uuid \<Rightarrow> uuid \<Rightarrow> uuid \<Rightarrow> string \<Rightarrow> json \<Rightarrow> string \<Rightarrow> analysis_row" where
  "new_analysis now seconds aid consumer request task key payload h =
     \<lparr>an_id = aid, an_consumer = consumer, an_request_id = request, an_api_version = api_version_v1,
      an_state = An_Queued, an_payload = payload, an_hash = h, an_key = key, an_task = task,
      an_created = now, an_updated = now, an_started = None, an_finished = None, an_deadline = now + seconds,
      an_success = None, an_result = None, an_readiness = None, an_failure_code = None, an_failure_message = None\<rparr>"

definition new_dispatch :: "int \<Rightarrow> uuid \<Rightarrow> uuid \<Rightarrow> dispatch_row" where
  "new_dispatch now aid task = \<lparr>dq_analysis_id = aid, dq_task = task, dq_created = now, dq_dispatched = None,
     dq_attempts = 0, dq_error_code = None, dq_error_message = None\<rparr>"

definition key_owner :: "uuid \<Rightarrow> string \<Rightarrow> api_db \<Rightarrow> analysis_row option" where
  "key_owner consumer key d = first_row (\<lambda>a. an_consumer a = consumer \<and> an_key a = key) (analyses d)"

definition insert_analysis :: "analysis_row \<Rightarrow> (api_db, api_error, unit) call" where
  "insert_analysis a d = (
     if get_row an_id (an_id a) (analyses d) \<noteq> None \<or> key_owner (an_consumer a) (an_key a) d \<noteq> None
        \<or> get_row dq_analysis_id (an_id a) (dispatches d) \<noteq> None
     then (Inl Integrity_Error, d)
     else (Inr (), d\<lparr>analyses := add_row a (analyses d),
            dispatches := add_row (new_dispatch (an_created a) (an_id a) (an_task a)) (dispatches d)\<rparr>))"

text \<open>The second look after an \<open>IntegrityError\<close>.\<close>

definition adopt_existing :: "uuid \<Rightarrow> string \<Rightarrow> string \<Rightarrow> (api_db, api_error, accepted_resource) call" where
  "adopt_existing consumer key h d = (case key_owner consumer key d of
     None \<Rightarrow> (Inl Integrity_Error, d)
   | Some existing \<Rightarrow>
       (if an_hash existing \<noteq> h then Inl Idempotency_Conflict
        else Inr \<lparr>ac_id = an_id existing, ac_state = an_state existing\<rparr>, d))"

definition submit ::
  "api_env \<Rightarrow> 'w broker \<Rightarrow> (json \<Rightarrow> string) \<Rightarrow> int \<Rightarrow> uuid \<Rightarrow> uuid \<Rightarrow> uuid \<Rightarrow> uuid \<Rightarrow> string \<Rightarrow> json
   \<Rightarrow> ((api_db, 'w) run, api_error, accepted_resource) call" where
  "submit ev publish digest seconds aid request task consumer key rq =
     cbind (clock ev) (\<lambda>now.
     cbind (catch
        (cbind (tx ev (\<lambda>_. insert_analysis (new_analysis now seconds aid consumer request task key
                    (canonical_request_json rq) (canonical_request_hash digest rq))))
           (\<lambda>_. ret \<lparr>ac_id = aid, ac_state = An_Queued\<rparr>))
        (\<lambda>e. if e = Integrity_Error then tx ev (\<lambda>_. adopt_existing consumer key (canonical_request_hash digest rq))
             else throw e)) (\<lambda>res.
     cbind (catch (dispatch_analysis ev publish (ac_id res)) (\<lambda>_. ret ())) (\<lambda>_. ret res)))"

section \<open>Polling and terminal writes\<close>

definition timeout_row :: "int \<Rightarrow> analysis_row \<Rightarrow> analysis_row" where
  "timeout_row now r = r\<lparr>an_state := An_Timed_Out, an_updated := now, an_finished := Some now,
     an_failure_code := Some ''analysis_deadline_exceeded'',
     an_failure_message := Some ''analysis exceeded its server-owned deadline''\<rparr>"

record retrieved_resource =
  re_id :: uuid
  re_state :: analysis_state
  re_created :: int
  re_updated :: int
  re_result :: "json option"
  re_readiness :: "json option"
  re_error :: "(string \<times> string) option"

definition resource_of :: "analysis_row \<Rightarrow> retrieved_resource" where
  "resource_of r = \<lparr>re_id = an_id r, re_state = an_state r, re_created = an_created r, re_updated = an_updated r,
     re_result = an_result r, re_readiness = an_readiness r,
     re_error = (case an_failure_code r of None \<Rightarrow> None
        | Some c \<Rightarrow> Some (c, case an_failure_message r of Some m \<Rightarrow> if m = [] then ''analysis failed'' else m
                            | None \<Rightarrow> ''analysis failed''))\<rparr>"

text \<open>\<open>authority\<close> is the answer of \<open>pg_try_advisory_xact_lock\<close>, asked only when all else holds.\<close>

definition retrieve :: "int \<Rightarrow> bool \<Rightarrow> uuid \<Rightarrow> uuid \<Rightarrow> (api_db, api_error, retrieved_resource) call" where
  "retrieve now authority aid consumer d =
     (case first_row (\<lambda>a. an_id a = aid \<and> an_consumer a = consumer) (analyses d) of
        None \<Rightarrow> (Inl Analysis_Not_Found, d)
      | Some row \<Rightarrow>
          if an_state row \<notin> terminal_states \<and> an_success row = None \<and> an_deadline row \<le> now \<and> authority
          then (Inr (resource_of (timeout_row now row)),
                d\<lparr>analyses := put_row an_id (timeout_row now row) (analyses d)\<rparr>)
          else (Inr (resource_of row), d))"

definition persist_not_score_ready :: "int \<Rightarrow> json \<Rightarrow> analysis_row \<Rightarrow> bool \<times> analysis_row" where
  "persist_not_score_ready now readiness row = (
     if an_state row \<in> terminal_states then (False, row)
     else if an_success row \<noteq> None then (False, row)
     else if an_deadline row \<le> now then (False, timeout_row now row)
     else (True, row\<lparr>an_state := An_Not_Score_Ready, an_result := None, an_readiness := Some readiness,
            an_failure_code := None, an_failure_message := None, an_finished := Some now, an_updated := now\<rparr>))"

definition completed_row :: "int \<Rightarrow> json \<Rightarrow> analysis_row \<Rightarrow> analysis_row" where
  "completed_row now result row = row\<lparr>an_state := An_Completed, an_result := Some result, an_readiness := None,
     an_failure_code := None, an_failure_message := None, an_finished := Some now, an_updated := now\<rparr>"

definition persist_completed :: "int \<Rightarrow> json \<Rightarrow> analysis_row \<Rightarrow> (api_error, bool \<times> analysis_row) result" where
  "persist_completed now result row = (
     if an_state row \<in> terminal_states then Inr (False, row)
     else case an_success row of
       None \<Rightarrow>
         (if an_deadline row \<le> now then Inr (False, timeout_row now row)
          else Inr (True, completed_row now result (row\<lparr>an_success := Some now\<rparr>)))
     | Some at_time \<Rightarrow>
         if an_deadline row \<le> at_time
         then Inl (Value_Error ''canonical success marker must precede the analysis deadline'')
         else Inr (True, completed_row now result row))"

end
