(* ===== verification/ApiReports.thy ===== *)
theory ApiReports
  imports ApiLifecycle
begin

text \<open>
  Report artifacts (\<open>sitescore_api/report_artifacts.py\<close>): the private PDF object, its durable row,
  and the backend that resolves, retrieves and verifies it. The object store is a client with four
  calls on the world \<open>'o\<close>; facts, narrative and PDF come from the package \<open>sitescore_report\<close> and are
  arguments, none where that package raises.
\<close>

section \<open>The object storage adapter\<close>

record 'o object_client =
  oc_put :: "string \<Rightarrow> string \<Rightarrow> string \<Rightarrow> 'o \<Rightarrow> bool \<times> 'o"
  oc_get :: "string \<Rightarrow> 'o \<Rightarrow> (int option \<times> string) option"
  oc_head :: "string \<Rightarrow> 'o \<Rightarrow> (int \<times> string option) option"
  oc_delete :: "string \<Rightarrow> 'o \<Rightarrow> bool \<times> 'o"

text \<open>\<open>S3CompatibleObjectStorage.get\<close>: none is \<open>ReportStorageError\<close>.\<close>

definition storage_get :: "'o object_client \<Rightarrow> string \<Rightarrow> nat \<Rightarrow> 'o \<Rightarrow> string option" where
  "storage_get sc key max_bytes w = (case oc_get sc key w of
     None \<Rightarrow> None
   | Some (content_length, body) \<Rightarrow>
       (let declared = (case content_length of None \<Rightarrow> -1 | Some n \<Rightarrow> n);
            payload = take (max_bytes + 1) body in
        if declared < 0 \<or> int max_bytes < declared then None
        else if max_bytes < length payload then None
        else Some payload))"

section \<open>Preparing an artifact\<close>

definition report_artifact_version :: string where
  "report_artifact_version = ''sitescore-report-artifact-v1''"

definition report_mime_type :: string where "report_mime_type = ''application/pdf''"

definition storage_key_of :: "uuid \<Rightarrow> uuid \<Rightarrow> string" where
  "storage_key_of consumer aid =
     ''reports/'' @ uuid_str consumer @ ''/'' @ uuid_str aid @ ''/'' @ report_artifact_version @ ''.pdf''"

definition filename_of :: "uuid \<Rightarrow> string" where
  "filename_of rid = ''sitescore-report-'' @ uuid_str rid @ ''.pdf''"

definition safe_failure :: "string \<times> string" where
  "safe_failure = (''report_generation_failed'', ''report artifact generation failed'')"

text \<open>The version constants of the report package, and the provenance of the narrative.\<close>

record report_versions =
  rv_schema :: string
  rv_projection :: string
  rv_prompt :: string
  rv_narrative_schema :: string
  rv_provider :: string
  rv_presentation_schema :: string
  rv_presentation_policy :: string
  rv_template :: string
  rv_stylesheet :: string
  rv_chart :: string
  rv_renderer :: string

record narrative_provenance =
  np_model_id :: "string option"
  np_mode :: string
  np_fallback :: "string option"

definition prepared_artifact ::
  "report_versions \<Rightarrow> uuid \<Rightarrow> uuid \<Rightarrow> string \<Rightarrow> int \<Rightarrow> narrative_provenance option \<Rightarrow> (string \<times> string \<times> string) option
   \<Rightarrow> report_artifact" where
  "prepared_artifact rv rid aid fingerprint generated_at np object = \<lparr>ra_report_id = rid, ra_analysis_id = aid,
     ra_version = report_artifact_version, ra_ready = (object \<noteq> None), ra_fingerprint = fingerprint,
     ra_schema_version = rv_schema rv, ra_projection_version = rv_projection rv, ra_prompt_version = rv_prompt rv,
     ra_narrative_schema = rv_narrative_schema rv, ra_provider = rv_provider rv,
     ra_model_id = Option.bind np np_model_id, ra_mode = map_option np_mode np, ra_fallback = Option.bind np np_fallback,
     ra_presentation_schema = rv_presentation_schema rv, ra_presentation_policy = rv_presentation_policy rv,
     ra_template = rv_template rv, ra_stylesheet = rv_stylesheet rv, ra_chart = rv_chart rv, ra_renderer = rv_renderer rv,
     ra_generated_at = generated_at,
     ra_content_sha = map_option (\<lambda>(key, payload, digest). digest) object,
     ra_mime = (if object = None then None else Some report_mime_type),
     ra_filename = (if object = None then None else Some (filename_of rid)),
     ra_length = map_option (\<lambda>(key, payload, digest). int (length payload)) object,
     ra_storage_key = map_option (\<lambda>(key, payload, digest). key) object,
     ra_failure_code = (if object = None then Some (fst safe_failure) else None),
     ra_failure_message = (if object = None then Some (snd safe_failure) else None)\<rparr>"

text \<open>\<open>generate\<close>: whatever goes wrong after the upload also deletes the object.\<close>

definition generate ::
  "'o object_client \<Rightarrow> (string \<Rightarrow> string) \<Rightarrow> nat \<Rightarrow> report_versions \<Rightarrow> uuid \<Rightarrow> uuid \<Rightarrow> uuid \<Rightarrow> string \<Rightarrow> int
   \<Rightarrow> narrative_provenance option \<Rightarrow> string option \<Rightarrow> ((api_db, 'o) run, api_error, report_artifact) call" where
  "generate sc sha max_bytes rv rid consumer aid fingerprint generated_at np payload = (
     let artifact = prepared_artifact rv rid aid fingerprint generated_at np;
         key = storage_key_of consumer aid in
     case (np, payload) of
       (Some _, Some pdf) \<Rightarrow>
         (if \<not> starts_with ''%PDF-'' pdf \<or> max_bytes < length pdf then ret (artifact None)
          else cbind (outside (oc_put sc key pdf report_mime_type)) (\<lambda>uploaded.
            if \<not> uploaded then ret (artifact None)
            else cbind (look (oc_head sc key)) (\<lambda>metadata.
              if (case metadata of None \<Rightarrow> False
                  | Some (n, content_type) \<Rightarrow> n = int (length pdf) \<and> content_type \<in> {None, Some report_mime_type})
              then ret (artifact (Some (key, pdf, sha pdf)))
              else cbind (outside (oc_delete sc key)) (\<lambda>_. ret (artifact None)))))
     | _ \<Rightarrow> ret (artifact None))"

definition compensate :: "'o object_client \<Rightarrow> report_artifact \<Rightarrow> ((api_db, 'o) run, api_error, unit) call" where
  "compensate sc artifact = (
     if \<not> ra_ready artifact then ret ()
     else case ra_storage_key artifact of
       None \<Rightarrow> ret ()
     | Some key \<Rightarrow> cbind (outside (oc_delete sc key)) (\<lambda>_. ret ()))"

section \<open>The durable row\<close>

definition report_for :: "uuid \<Rightarrow> string \<Rightarrow> api_db \<Rightarrow> report_row option" where
  "report_for aid version d =
     first_row (\<lambda>r. ra_analysis_id (rw_artifact r) = aid \<and> ra_version (rw_artifact r) = version) (reports d)"

definition report_by_id :: "uuid \<Rightarrow> api_db \<Rightarrow> report_row option" where
  "report_by_id rid d = first_row (\<lambda>r. ra_report_id (rw_artifact r) = rid) (reports d)"

definition persist_report_artifact :: "analysis_row \<Rightarrow> report_artifact \<Rightarrow> int \<Rightarrow> (api_db, api_error, report_row) call" where
  "persist_report_artifact analysis artifact now d = (
     if an_id analysis \<noteq> ra_analysis_id artifact then (Inl (Value_Error ''report artifact analysis binding mismatch''), d)
     else case report_for (an_id analysis) (ra_version artifact) d of
       Some existing \<Rightarrow>
         (if ra_report_id (rw_artifact existing) \<noteq> ra_report_id artifact then (Inl Report_Invariant_Violation, d)
          else (Inr existing, d))
     | None \<Rightarrow>
         (if report_by_id (ra_report_id artifact) d \<noteq> None then (Inl Integrity_Error, d)
          else (let row = \<lparr>rw_artifact = artifact, rw_created = now, rw_updated = now\<rparr> in
                (Inr row, d\<lparr>reports := add_row row (reports d)\<rparr>))))"

section \<open>The report backend\<close>

definition owned_analysis :: "uuid \<Rightarrow> uuid \<Rightarrow> api_db \<Rightarrow> analysis_row option" where
  "owned_analysis aid consumer d = first_row (\<lambda>a. an_id a = aid \<and> an_consumer a = consumer) (analyses d)"

definition resolve_artifact :: "uuid \<Rightarrow> uuid \<Rightarrow> api_db \<Rightarrow> (api_error, report_row) result" where
  "resolve_artifact aid consumer d = (case owned_analysis aid consumer d of
     None \<Rightarrow> Inl Report_Not_Found
   | Some a \<Rightarrow>
       if an_state a \<in> {An_Queued, An_Running} then Inl Report_Not_Yet_Reportable
       else if an_state a \<in> {An_Not_Score_Ready, An_Failed, An_Timed_Out} then Inl Analysis_Not_Reportable
       else if an_state a \<noteq> An_Completed then Inl Report_Invariant_Violation
       else (case report_for aid report_artifact_version d of
          None \<Rightarrow> Inl Report_Invariant_Violation
        | Some row \<Rightarrow> Inr row))"

text \<open>The row of a report joined with the analysis of the consumer.\<close>

definition owned_report :: "uuid \<Rightarrow> uuid \<Rightarrow> api_db \<Rightarrow> report_row option" where
  "owned_report rid consumer d =
     first_row (\<lambda>r. ra_report_id (rw_artifact r) = rid \<and> owned_analysis (ra_analysis_id (rw_artifact r)) consumer d \<noteq> None)
       (reports d)"

definition retrieve_report :: "uuid \<Rightarrow> uuid \<Rightarrow> api_db \<Rightarrow> (api_error, report_row) result" where
  "retrieve_report rid consumer d = (case owned_report rid consumer d of
     None \<Rightarrow> Inl Report_Not_Found | Some row \<Rightarrow> Inr row)"

definition report_content ::
  "'o object_client \<Rightarrow> (string \<Rightarrow> string) \<Rightarrow> nat \<Rightarrow> uuid \<Rightarrow> uuid \<Rightarrow> api_db \<Rightarrow> 'o \<Rightarrow> (api_error, report_row \<times> string) result" where
  "report_content sc sha max_bytes rid consumer d w = (case owned_report rid consumer d of
     None \<Rightarrow> Inl Report_Not_Found
   | Some row \<Rightarrow>
       (let a = rw_artifact row in
        if \<not> ra_ready a then Inl Report_Content_Unavailable
        else case (ra_storage_key a, ra_content_sha a, ra_length a) of
          (Some key, Some digest, Some n) \<Rightarrow>
            (if ra_mime a \<noteq> Some report_mime_type \<or> ra_filename a = None then Inl Report_Artifact_Integrity
             else case oc_head sc key w of
               None \<Rightarrow> Inl Report_Artifact_Integrity
             | Some (stored, content_type) \<Rightarrow>
                 (if stored \<noteq> n then Inl Report_Artifact_Integrity
                  else if content_type \<notin> {None, ra_mime a} then Inl Report_Artifact_Integrity
                  else case storage_get sc key max_bytes w of
                    None \<Rightarrow> Inl Report_Artifact_Integrity
                  | Some payload \<Rightarrow>
                      (if int (length payload) \<noteq> n then Inl Report_Artifact_Integrity
                       else if sha payload \<noteq> digest then Inl Report_Artifact_Integrity
                       else if \<not> starts_with ''%PDF-'' payload then Inl Report_Artifact_Integrity
                       else Inr (row, payload))))
        | _ \<Rightarrow> Inl Report_Artifact_Integrity))"

end
