(* ===== verification/ApiWorker.thy ===== *)
theory ApiWorker
  imports ApiReports
begin

text \<open>
  The analysis worker (\<open>sitescore_api/worker.py\<close>): one execution of an analysis from the advisory
  lock to the atomic commit of the completed analysis with its terminal report, with every recovery
  path, and the reconciliation of expired analyses. The executor is a function from the stored
  request to an outcome (none when it raises); the bytes of the report come with the rendering.
  A row that is selected again is read again here; the session may keep the object it loaded, which
  has the same contents because nobody else writes the row while the worker holds the advisory lock.
\<close>

section \<open>Artifacts and rows\<close>

definition failed_artifact :: "report_artifact \<Rightarrow> report_artifact" where
  "failed_artifact a = a\<lparr>ra_ready := False, ra_content_sha := None, ra_mime := None, ra_filename := None,
     ra_length := None, ra_storage_key := None, ra_failure_code := Some ''report_generation_failed'',
     ra_failure_message := Some ''report artifact generation failed''\<rparr>"

definition report_row_matches :: "report_row \<Rightarrow> report_artifact \<Rightarrow> bool" where
  "report_row_matches row artifact = (rw_artifact row = artifact)"

definition fail_row_from_candidate :: "report_row \<Rightarrow> report_artifact \<Rightarrow> int \<Rightarrow> report_row" where
  "fail_row_from_candidate row artifact now = row\<lparr>rw_artifact := (failed_artifact artifact)
     \<lparr>ra_report_id := ra_report_id (rw_artifact row)\<rparr>, rw_updated := now\<rparr>"

definition set_analysis :: "analysis_row \<Rightarrow> api_db \<Rightarrow> api_db" where
  "set_analysis row d = d\<lparr>analyses := put_row an_id row (analyses d)\<rparr>"

definition set_report :: "report_row \<Rightarrow> api_db \<Rightarrow> api_db" where
  "set_report row d = d\<lparr>reports := put_row (\<lambda>r. ra_report_id (rw_artifact r)) row (reports d)\<rparr>"

datatype worker_state = W_Busy | W_Missing | W_State analysis_state | W_Protected | W_Retry | W_Failed

datatype reconciliation = Rc_Missing | Rc_Conflict | Rc_Completed_Missing | Rc_Ready | Rc_Ready_Invalid
  | Rc_Failed | Rc_Absent | Rc_Unknown

datatype resource_state = Rs_Absent | Rs_Ready | Rs_Failed | Rs_Unknown

section \<open>Reading the durable truth back\<close>

definition ready_object_matches :: "'o object_client \<Rightarrow> report_artifact \<Rightarrow> 'o \<Rightarrow> bool" where
  "ready_object_matches sc a w = (case (ra_storage_key a, ra_length a) of
     (Some key, Some n) \<Rightarrow> ra_ready a \<and> ra_mime a = Some report_mime_type \<and>
       (case oc_head sc key w of
          None \<Rightarrow> False
        | Some (stored, content_type) \<Rightarrow> stored = n \<and> content_type \<in> {None, ra_mime a})
   | _ \<Rightarrow> False)"

text \<open>What the rows say; \<open>Rc_Ready\<close> is still to be confirmed by the object.\<close>

definition paired_verdict :: "json \<Rightarrow> report_artifact \<Rightarrow> api_db \<Rightarrow> reconciliation" where
  "paired_verdict result artifact d =
     (case get_row an_id (ra_analysis_id artifact) (analyses d) of
        None \<Rightarrow> Rc_Missing
      | Some analysis \<Rightarrow>
          (let report = report_for (ra_analysis_id artifact) (ra_version artifact) d in
           if an_state analysis = An_Completed then
             (if map_option json_sorted (an_result analysis) \<noteq> Some (json_sorted result)
                 \<or> an_readiness analysis \<noteq> None \<or> an_failure_code analysis \<noteq> None \<or> an_failure_message analysis \<noteq> None
              then Rc_Conflict
              else case report of
                None \<Rightarrow> Rc_Completed_Missing
              | Some row \<Rightarrow>
                  if ra_report_id (rw_artifact row) \<noteq> ra_report_id artifact then Rc_Conflict
                  else if report_row_matches row artifact then (if ra_ready artifact then Rc_Ready else Rc_Failed)
                  else if report_row_matches row (failed_artifact artifact) then Rc_Failed
                  else Rc_Conflict)
           else if an_state analysis \<in> {An_Queued, An_Running} then (if report = None then Rc_Absent else Rc_Conflict)
           else Rc_Conflict))"

definition report_verdict :: "report_artifact \<Rightarrow> api_db \<Rightarrow> reconciliation" where
  "report_verdict artifact d = (case report_for (ra_analysis_id artifact) (ra_version artifact) d of
     None \<Rightarrow> Rc_Absent
   | Some row \<Rightarrow>
       if ra_report_id (rw_artifact row) \<noteq> ra_report_id artifact then Rc_Conflict
       else if report_row_matches row artifact then (if ra_ready artifact then Rc_Ready else Rc_Failed)
       else if report_row_matches row (failed_artifact artifact) then Rc_Failed
       else Rc_Conflict)"

definition confirmed :: "api_env \<Rightarrow> 'o object_client \<Rightarrow> report_artifact \<Rightarrow> (api_db \<Rightarrow> reconciliation)
    \<Rightarrow> ((api_db, 'o) run, api_error, reconciliation) call" where
  "confirmed ev sc artifact verdict =
     catch (cbind (tx ev (\<lambda>_ d. (Inr (verdict d), d))) (\<lambda>v.
       if v = Rc_Ready
       then cbind (look (ready_object_matches sc artifact)) (\<lambda>ok. ret (if ok then Rc_Ready else Rc_Ready_Invalid))
       else ret v)) (\<lambda>_. ret Rc_Unknown)"

definition reconcile_paired_commit ::
  "api_env \<Rightarrow> 'o object_client \<Rightarrow> json \<Rightarrow> report_artifact \<Rightarrow> ((api_db, 'o) run, api_error, reconciliation) call" where
  "reconcile_paired_commit ev sc result artifact = confirmed ev sc artifact (paired_verdict result artifact)"

definition reconcile_report_commit ::
  "api_env \<Rightarrow> 'o object_client \<Rightarrow> report_artifact \<Rightarrow> ((api_db, 'o) run, api_error, reconciliation) call" where
  "reconcile_report_commit ev sc artifact = confirmed ev sc artifact (report_verdict artifact)"

definition state_of_report :: "report_row option \<Rightarrow> resource_state" where
  "state_of_report r = (case r of None \<Rightarrow> Rs_Absent
     | Some row \<Rightarrow> if ra_ready (rw_artifact row) then Rs_Ready else Rs_Failed)"

definition observed_state :: "api_env \<Rightarrow> (api_db \<Rightarrow> report_row option) \<Rightarrow> ((api_db, 'o) run, api_error, resource_state) call" where
  "observed_state ev pick = catch (tx ev (\<lambda>_ d. (Inr (state_of_report (pick d)), d))) (\<lambda>_. ret Rs_Unknown)"

text \<open>\<open>_resource_state\<close> looks at the resource, \<open>_same_identity_state\<close> also at the report id.\<close>

definition the_resource :: "report_artifact \<Rightarrow> api_db \<Rightarrow> report_row option" where
  "the_resource artifact d = report_for (ra_analysis_id artifact) (ra_version artifact) d"

definition same_identity :: "report_artifact \<Rightarrow> api_db \<Rightarrow> report_row option" where
  "same_identity artifact d = first_row (\<lambda>r. ra_analysis_id (rw_artifact r) = ra_analysis_id artifact
     \<and> ra_version (rw_artifact r) = ra_version artifact \<and> ra_report_id (rw_artifact r) = ra_report_id artifact) (reports d)"

definition resource_state :: "api_env \<Rightarrow> report_artifact \<Rightarrow> ((api_db, 'o) run, api_error, resource_state) call" where
  "resource_state ev artifact = observed_state ev (the_resource artifact)"

definition same_identity_state :: "api_env \<Rightarrow> report_artifact \<Rightarrow> ((api_db, 'o) run, api_error, resource_state) call" where
  "same_identity_state ev artifact = observed_state ev (same_identity artifact)"

section \<open>Failing closed\<close>

definition fail_resource :: "(api_db \<Rightarrow> report_row option) \<Rightarrow> report_artifact \<Rightarrow> int \<Rightarrow> (api_db, api_error, bool) call" where
  "fail_resource pick artifact now d = (case pick d of
     None \<Rightarrow> (Inr False, d)
   | Some row \<Rightarrow>
       if \<not> ra_ready (rw_artifact row) then (Inr True, d)
       else (Inr True, set_report (fail_row_from_candidate row artifact now) d))"

text \<open>\<open>for _ in range(3)\<close>: the argument counts the attempts that are left.\<close>

fun transition_to_failed ::
  "api_env \<Rightarrow> (api_db \<Rightarrow> report_row option) \<Rightarrow> report_artifact \<Rightarrow> nat \<Rightarrow> ((api_db, 'o) run, api_error, bool) call" where
  "transition_to_failed ev pick artifact 0 = ret False"
| "transition_to_failed ev pick artifact (Suc k) =
     cbind (catch (cbind (tx ev (fail_resource pick artifact)) (\<lambda>b. ret (Some b))) (\<lambda>_. ret None)) (\<lambda>r.
       case r of
         Some b \<Rightarrow> ret b
       | None \<Rightarrow>
           cbind (observed_state ev pick) (\<lambda>st.
             if st = Rs_Failed then ret True
             else if st = Rs_Unknown then ret False
             else transition_to_failed ev pick artifact k))"

definition transition_same_identity_to_failed :: "api_env \<Rightarrow> report_artifact \<Rightarrow> ((api_db, 'o) run, api_error, bool) call" where
  "transition_same_identity_to_failed ev artifact = transition_to_failed ev (same_identity artifact) artifact 3"

definition transition_resource_to_failed :: "api_env \<Rightarrow> report_artifact \<Rightarrow> ((api_db, 'o) run, api_error, bool) call" where
  "transition_resource_to_failed ev artifact = transition_to_failed ev (the_resource artifact) artifact 3"

text \<open>Adding a report row that must equal the artifact.\<close>

definition persist_exact :: "analysis_row \<Rightarrow> report_artifact \<Rightarrow> int \<Rightarrow> (api_db, api_error, unit) call" where
  "persist_exact analysis artifact now d = (case persist_report_artifact analysis artifact now d of
     (Inl e, d') \<Rightarrow> (Inl e, d')
   | (Inr row, d') \<Rightarrow>
       if \<not> report_row_matches row artifact
       then (Inl (Value_Error ''existing report row is not semantically equivalent''), d')
       else (Inr (), d'))"

definition persist_failed_report_fresh ::
  "api_env \<Rightarrow> 'o object_client \<Rightarrow> uuid \<Rightarrow> report_artifact \<Rightarrow> ((api_db, 'o) run, api_error, unit) call" where
  "persist_failed_report_fresh ev sc aid artifact =
     cbind (catch (cbind (tx ev (\<lambda>now d.
         case get_row an_id aid (analyses d) of
           None \<Rightarrow> (Inr (), d)
         | Some row \<Rightarrow>
             if an_state row \<noteq> An_Completed then (Inr (), d)
             else persist_exact row (failed_artifact artifact) now d)) (\<lambda>_. ret True)) (\<lambda>_. ret False)) (\<lambda>done.
       if done then ret ()
       else cbind (reconcile_report_commit ev sc (failed_artifact artifact)) (\<lambda>_. ret ()))"

definition complete_with_failed_body :: "json \<Rightarrow> report_artifact \<Rightarrow> int \<Rightarrow> (api_db, api_error, worker_state) call" where
  "complete_with_failed_body result artifact now d =
     (case get_row an_id (ra_analysis_id artifact) (analyses d) of
        None \<Rightarrow> (Inr W_Missing, d)
      | Some analysis \<Rightarrow>
          (let report = the_resource artifact d in
           if an_state analysis = An_Completed
           then (Inr (if report \<noteq> None then W_State An_Completed else W_Retry), d)
           else if an_state analysis \<notin> {An_Queued, An_Running} then (Inr (W_State (an_state analysis)), d)
           else if state_of_report report \<noteq> Rs_Failed then (Inr W_Retry, d)
           else case persist_completed now result analysis of
             Inl e \<Rightarrow> (Inl e, d)
           | Inr (False, row) \<Rightarrow> (Inr (W_State (an_state row)), d)
           | Inr (True, row) \<Rightarrow> (Inr (W_State An_Completed), set_analysis row d)))"

definition complete_analysis_with_failed_resource ::
  "api_env \<Rightarrow> json \<Rightarrow> report_artifact \<Rightarrow> ((api_db, 'o) run, api_error, worker_state) call" where
  "complete_analysis_with_failed_resource ev result artifact =
     catch (tx ev (complete_with_failed_body result artifact)) (\<lambda>_.
     catch (tx ev (\<lambda>_ d. (Inr (case get_row an_id (ra_analysis_id artifact) (analyses d) of
           None \<Rightarrow> W_Retry
         | Some analysis \<Rightarrow>
             if an_state analysis = An_Completed
                \<and> map_option json_sorted (an_result analysis) = Some (json_sorted result)
                \<and> an_failure_code analysis = None \<and> state_of_report (the_resource artifact d) = Rs_Failed
             then W_State An_Completed else W_Retry), d))) (\<lambda>_. ret W_Retry))"

definition failed_pair_body :: "json \<Rightarrow> report_artifact \<Rightarrow> int \<Rightarrow> (api_db, api_error, worker_state) call" where
  "failed_pair_body result artifact now d =
     (case get_row an_id (ra_analysis_id artifact) (analyses d) of
        None \<Rightarrow> (Inr W_Missing, d)
      | Some row \<Rightarrow>
          if an_state row = An_Completed
          then (Inr (if the_resource artifact d \<noteq> None then W_State An_Completed else W_Retry), d)
          else if an_state row \<notin> {An_Queued, An_Running} then (Inr (W_State (an_state row)), d)
          else case persist_completed now result row of
            Inl e \<Rightarrow> (Inl e, d)
          | Inr (False, row') \<Rightarrow> (Inr (W_State (an_state row')), d)
          | Inr (True, row') \<Rightarrow>
              (case persist_exact row' (failed_artifact artifact) now (set_analysis row' d) of
                 (Inl e, d') \<Rightarrow> (Inl e, d')
               | (Inr _, d') \<Rightarrow> (Inr (W_State An_Completed), d')))"

text \<open>The last resort of both recovery paths: a completed analysis without its report.\<close>

definition repair_missing_report ::
  "api_env \<Rightarrow> 'o object_client \<Rightarrow> report_artifact \<Rightarrow> ((api_db, 'o) run, api_error, worker_state) call" where
  "repair_missing_report ev sc artifact =
     cbind (persist_failed_report_fresh ev sc (ra_analysis_id artifact) artifact) (\<lambda>_.
     cbind (resource_state ev artifact) (\<lambda>st.
       ret (if st = Rs_Failed then W_State An_Completed else W_Retry)))"

definition persist_failed_pair_fresh ::
  "api_env \<Rightarrow> 'o object_client \<Rightarrow> json \<Rightarrow> report_artifact \<Rightarrow> ((api_db, 'o) run, api_error, worker_state) call" where
  "persist_failed_pair_fresh ev sc result artifact =
     catch (tx ev (failed_pair_body result artifact)) (\<lambda>_.
       cbind (reconcile_paired_commit ev sc result (failed_artifact artifact)) (\<lambda>v.
         if v = Rc_Failed \<or> v = Rc_Ready then ret (W_State An_Completed)
         else if v = Rc_Conflict then
           cbind (transition_resource_to_failed ev (failed_artifact artifact)) (\<lambda>done.
             if done then complete_analysis_with_failed_resource ev result (failed_artifact artifact) else ret W_Retry)
         else if v = Rc_Completed_Missing then repair_missing_report ev sc (failed_artifact artifact)
         else ret W_Retry))"

section \<open>The atomic pair\<close>

text \<open>A locked read whose transaction stays open, and the commit of that transaction.\<close>

definition lock_read :: "api_env \<Rightarrow> (api_db \<Rightarrow> 'a) \<Rightarrow> ((api_db, 'w) run, api_error, 'a) call" where
  "lock_read ev f s = (case s of (d, w, n) \<Rightarrow>
     (let d0 = ev_other ev n d in
      (if ev_fault ev n = Healthy then Inr (f d0) else Inl Db_Error, (d0, w, Suc n))))"

definition commit_tx :: "api_env \<Rightarrow> (api_db, api_error, 'a) call \<Rightarrow> ((api_db, 'w) run, api_error, 'a) call" where
  "commit_tx ev body s = (case s of (d, w, n) \<Rightarrow>
     (case transaction (ev_fault ev n) Db_Error body d of (r, d') \<Rightarrow> (r, (d', w, Suc n))))"

definition pair_commit ::
  "api_env \<Rightarrow> 'o object_client \<Rightarrow> json \<Rightarrow> report_artifact \<Rightarrow> int \<Rightarrow> analysis_row \<Rightarrow> ((api_db, 'o) run, api_error, worker_state) call" where
  "pair_commit ev sc result artifact at_time row = (case persist_completed at_time result row of
     Inl e \<Rightarrow> throw e
   | Inr (False, row') \<Rightarrow>
       cbind (compensate sc artifact) (\<lambda>_.
       cbind (commit_tx ev (\<lambda>d. (Inr (), set_analysis row' d))) (\<lambda>_. ret (W_State (an_state row'))))
   | Inr (True, row') \<Rightarrow>
       commit_tx ev (\<lambda>d. case persist_exact row' artifact at_time (set_analysis row' d) of
         (Inl e, d') \<Rightarrow> (Inl e, d')
       | (Inr _, d') \<Rightarrow> (Inr (W_State An_Completed), d')))"

definition recover_pair ::
  "api_env \<Rightarrow> 'o object_client \<Rightarrow> json \<Rightarrow> report_artifact \<Rightarrow> reconciliation \<Rightarrow> ((api_db, 'o) run, api_error, worker_state) call" where
  "recover_pair ev sc result artifact v = (
     if v = Rc_Ready then ret (W_State An_Completed)
     else if v = Rc_Failed then cbind (compensate sc artifact) (\<lambda>_. ret (W_State An_Completed))
     else if v = Rc_Ready_Invalid \<or> v = Rc_Conflict then
       cbind (transition_resource_to_failed ev artifact) (\<lambda>done.
         if done
         then cbind (compensate sc artifact) (\<lambda>_. complete_analysis_with_failed_resource ev result artifact)
         else ret W_Retry)
     else if v = Rc_Completed_Missing then
       cbind (compensate sc artifact) (\<lambda>_. repair_missing_report ev sc artifact)
     else if v = Rc_Unknown then ret W_Retry
     else if v = Rc_Missing then cbind (compensate sc artifact) (\<lambda>_. ret W_Missing)
     else cbind (compensate sc artifact) (\<lambda>_. persist_failed_pair_fresh ev sc result artifact))"

definition persist_completed_report_pair ::
  "api_env \<Rightarrow> 'o object_client \<Rightarrow> json \<Rightarrow> report_artifact \<Rightarrow> int \<Rightarrow> analysis_row \<Rightarrow> ((api_db, 'o) run, api_error, worker_state) call" where
  "persist_completed_report_pair ev sc result artifact at_time row =
     catch (pair_commit ev sc result artifact at_time row) (\<lambda>_.
       cbind (reconcile_paired_commit ev sc result artifact) (recover_pair ev sc result artifact))"

section \<open>One execution\<close>

datatype outcome = Not_Score_Ready_Outcome json | Completed_Outcome json string

record rendering =
  rd_canonical :: bool
  rd_report_id :: uuid
  rd_narrative :: "narrative_provenance option"
  rd_pdf :: "string option"

record 'o generator =
  gn_client :: "'o object_client"
  gn_sha :: "string \<Rightarrow> string"
  gn_max_bytes :: nat
  gn_versions :: report_versions

definition start_body :: "uuid \<Rightarrow> int \<Rightarrow> (api_db, api_error, worker_state + analysis_row) call" where
  "start_body aid now d = (case get_row an_id aid (analyses d) of
     None \<Rightarrow> (Inr (Inl W_Missing), d)
   | Some row \<Rightarrow>
       if an_state row \<in> terminal_states then (Inr (Inl (W_State (an_state row))), d)
       else if an_success row = None \<and> an_deadline row \<le> now
       then (Inr (Inl (W_State An_Timed_Out)), set_analysis (timeout_row now row) d)
       else (let row' = row\<lparr>an_started := (if an_started row = None then Some now else an_started row),
                            an_state := An_Running, an_updated := now\<rparr> in
             (Inr (Inr row'), set_analysis row' d)))"

definition success_boundary :: "int \<Rightarrow> analysis_row \<Rightarrow> (api_error, worker_state \<times> analysis_row) result" where
  "success_boundary at_time row = (case an_success row of
     Some marked \<Rightarrow>
       if an_deadline row \<le> marked
       then Inl (Value_Error ''canonical success marker must precede the analysis deadline'')
       else if an_state row \<notin> {An_Queued, An_Running} then Inr (W_State (an_state row), row)
       else Inr (W_Protected, row\<lparr>an_state := An_Running, an_finished := None, an_failure_code := None,
              an_failure_message := None\<rparr>)
   | None \<Rightarrow>
       if an_deadline row \<le> at_time
       then (let row' = (if an_state row \<notin> terminal_states then timeout_row at_time row else row) in
             Inr (W_State (an_state row'), row'))
       else if an_state row \<notin> {An_Queued, An_Running} then Inr (W_State (an_state row), row)
       else Inr (W_Protected, row\<lparr>an_success := Some at_time, an_state := An_Running, an_updated := at_time,
              an_finished := None, an_failure_code := None, an_failure_message := None\<rparr>))"

definition outcome_body :: "bool \<Rightarrow> uuid \<Rightarrow> outcome \<Rightarrow> int \<Rightarrow> (api_db, api_error, worker_state) call" where
  "outcome_body with_reports aid result at_time d = (case get_row an_id aid (analyses d) of
     None \<Rightarrow> (Inr W_Missing, d)
   | Some row \<Rightarrow>
       (case result of
          Not_Score_Ready_Outcome readiness \<Rightarrow>
            (if an_success row \<noteq> None
             then (Inl (Retryable_Finalization ''post-success canonical retry did not reproduce completed outcome''), d)
             else (let row' = snd (persist_not_score_ready at_time readiness row) in
                   (Inr (W_State (an_state row')), set_analysis row' d)))
        | Completed_Outcome body fingerprint \<Rightarrow>
            if \<not> with_reports then
              (case persist_completed at_time body row of
                 Inl e \<Rightarrow> (Inl e, d)
               | Inr (_, row') \<Rightarrow> (Inr (W_State (an_state row')), set_analysis row' d))
            else
              (case success_boundary at_time row of
                 Inl e \<Rightarrow> (Inl e, d)
               | Inr (state, row') \<Rightarrow> (Inr state, set_analysis row' d))))"

definition finish_with_report ::
  "api_env \<Rightarrow> 'o generator \<Rightarrow> rendering \<Rightarrow> uuid \<Rightarrow> uuid \<Rightarrow> json \<Rightarrow> string \<Rightarrow> int \<Rightarrow> ((api_db, 'o) run, api_error, worker_state) call" where
  "finish_with_report ev gn rd aid consumer body fingerprint at_time =
     (if \<not> rd_canonical rd then throw (Retryable_Finalization ''report generator requires worker retry'')
      else
     cbind (generate (gn_client gn) (gn_sha gn) (gn_max_bytes gn) (gn_versions gn) (rd_report_id rd) consumer aid
              fingerprint at_time (rd_narrative rd) (rd_pdf rd)) (\<lambda>artifact.
     cbind (lock_read ev (\<lambda>d. get_row an_id aid (analyses d))) (\<lambda>row.
       case row of
         None \<Rightarrow> cbind (compensate (gn_client gn) artifact) (\<lambda>_. ret W_Missing)
       | Some row \<Rightarrow>
           cbind (persist_completed_report_pair ev (gn_client gn) body artifact at_time row) (\<lambda>state.
             if state = W_Retry
             then throw (Retryable_Finalization ''paired report finalization requires worker retry'')
             else ret state))))"

definition failure_body :: "uuid \<Rightarrow> int \<Rightarrow> (api_db, api_error, worker_state) call" where
  "failure_body aid now d = (case get_row an_id aid (analyses d) of
     None \<Rightarrow> (Inr W_Failed, d)
   | Some row \<Rightarrow>
       if an_state row \<in> terminal_states then (Inr (W_State (an_state row)), d)
       else if an_success row \<noteq> None then (Inl (Retryable_Finalization ''post-success worker failure requires retry''), d)
       else (let row' = (if an_deadline row \<le> now then timeout_row now row
               else row\<lparr>an_state := An_Failed, an_failure_code := Some ''analysis_execution_failed'',
                  an_failure_message := Some ''analysis execution failed'', an_finished := Some now, an_updated := now\<rparr>) in
             (Inr (W_State (an_state row')), set_analysis row' d)))"

fun is_retryable :: "api_error \<Rightarrow> bool" where
  "is_retryable (Retryable_Finalization _) = True"
| "is_retryable _ = False"

definition attempt_analysis ::
  "api_env \<Rightarrow> 'o generator option \<Rightarrow> (json \<Rightarrow> outcome option) \<Rightarrow> rendering \<Rightarrow> uuid \<Rightarrow> ((api_db, 'o) run, api_error, worker_state) call" where
  "attempt_analysis ev gn exec rd aid =
     cbind (tx ev (start_body aid)) (\<lambda>start.
       case start of
         Inl state \<Rightarrow> ret state
       | Inr row \<Rightarrow>
           (case exec (an_payload row) of
              None \<Rightarrow> throw Execution_Error
            | Some result \<Rightarrow>
                cbind (clock ev) (\<lambda>at_time.
                cbind (tx ev (\<lambda>_. outcome_body (gn \<noteq> None) aid result at_time)) (\<lambda>state.
                  case (state, result, gn) of
                    (W_Protected, Completed_Outcome body fingerprint, Some g) \<Rightarrow>
                      finish_with_report ev g rd aid (an_consumer row) body fingerprint at_time
                  | _ \<Rightarrow> ret state))))"

definition execute_analysis ::
  "api_env \<Rightarrow> bool \<Rightarrow> 'o generator option \<Rightarrow> (json \<Rightarrow> outcome option) \<Rightarrow> rendering \<Rightarrow> uuid
   \<Rightarrow> ((api_db, 'o) run, api_error, worker_state) call" where
  "execute_analysis ev locked gn exec rd aid =
     (if \<not> locked then ret W_Busy
      else catch (attempt_analysis ev gn exec rd aid) (\<lambda>e.
        if is_retryable e then throw e else tx ev (failure_body aid)))"

section \<open>Expired analyses\<close>

text \<open>\<open>scan\<close> is the order in which the server returns the rows that nobody has locked, \<open>authority\<close> the
  answers of the advisory lock.\<close>

definition expired :: "int \<Rightarrow> analysis_row \<Rightarrow> bool" where
  "expired now r = (an_state r \<in> {An_Queued, An_Running} \<and> an_success r = None \<and> an_deadline r \<le> now)"

definition reconcile_expired ::
  "(analysis_row list \<Rightarrow> analysis_row list) \<Rightarrow> (uuid \<Rightarrow> bool) \<Rightarrow> nat \<Rightarrow> int \<Rightarrow> (api_db, api_error, nat) call" where
  "reconcile_expired scan authority limit now d = (
     let rows = filter (\<lambda>r. authority (an_id r)) (take limit (filter (expired now) (scan (analyses d)))) in
     (Inr (length rows), d\<lparr>analyses := map (\<lambda>r. if r \<in> set rows then timeout_row now r else r) (analyses d)\<rparr>))"

end
