(* ===== verification/ApiProofs.thy ===== *)
theory ApiProofs
  imports ApiWorker
begin

text \<open>
  Correctness of the SiteScore API: the check constraints hold without being checked, a terminal
  analysis is final, a completed analysis has exactly one report, the worker is a sequence of steps
  of the database whatever fails and whoever interferes, and content is verified before it leaves.
\<close>

section \<open>Well-formed rows\<close>

text \<open>The check constraints of \<open>analyses\<close>, and what the operations keep beyond them.\<close>

definition analysis_checks :: "analysis_row \<Rightarrow> bool" where
  "analysis_checks r = (
     \<not> (an_state r = An_Not_Score_Ready \<and> an_result r \<noteq> None)
     \<and> \<not> (an_state r \<in> {An_Queued, An_Running} \<and> an_finished r \<noteq> None)
     \<and> (an_success r = None \<or> the (an_success r) < an_deadline r)
     \<and> (an_success r = None \<or> an_state r \<in> {An_Running, An_Completed}))"

definition analysis_ok :: "analysis_row \<Rightarrow> bool" where
  "analysis_ok r = (analysis_checks r
     \<and> (an_state r \<in> terminal_states \<longrightarrow> an_finished r \<noteq> None)
     \<and> ((an_result r \<noteq> None) = (an_state r = An_Completed))
     \<and> ((an_readiness r \<noteq> None) = (an_state r = An_Not_Score_Ready))
     \<and> ((an_failure_code r \<noteq> None) = (an_state r \<in> {An_Failed, An_Timed_Out})))"

text \<open>The check constraint of \<open>reports\<close>.\<close>

definition artifact_checks :: "report_artifact \<Rightarrow> bool" where
  "artifact_checks a = (if ra_ready a
     then (\<exists>h. ra_content_sha a = Some h \<and> length h = 64) \<and> ra_mime a = Some report_mime_type
       \<and> ra_filename a \<noteq> None \<and> (\<exists>n. ra_length a = Some n \<and> 0 < n) \<and> ra_storage_key a \<noteq> None
       \<and> ra_failure_code a = None \<and> ra_failure_message a = None \<and> ra_mode a \<noteq> None
     else ra_content_sha a = None \<and> ra_mime a = None \<and> ra_filename a = None \<and> ra_length a = None
       \<and> ra_storage_key a = None \<and> ra_failure_code a \<noteq> None)"

definition artifact_ok :: "report_artifact \<Rightarrow> bool" where
  "artifact_ok a = (artifact_checks a \<and> ra_version a = report_artifact_version)"

definition analysis_fixed ::
  "analysis_row \<Rightarrow> uuid \<times> uuid \<times> uuid \<times> string \<times> json \<times> string \<times> string \<times> uuid \<times> int \<times> int" where
  "analysis_fixed r = (an_id r, an_consumer r, an_request_id r, an_api_version r, an_payload r, an_hash r, an_key r,
     an_task r, an_created r, an_deadline r)"

text \<open>How a row may change: its identity stays, a terminal row stays as it is, and so does the mark of
  a canonical success.\<close>

definition keeps :: "analysis_row \<Rightarrow> analysis_row \<Rightarrow> bool" where
  "keeps r r' = (analysis_fixed r' = analysis_fixed r \<and> (an_state r \<in> terminal_states \<longrightarrow> r' = r)
     \<and> (an_success r \<noteq> None \<longrightarrow> an_success r' = an_success r))"

lemma keeps_refl [simp]: "keeps r r"
  by (simp add: keeps_def)

lemma keeps_trans: "keeps r r' \<Longrightarrow> keeps r' r'' \<Longrightarrow> keeps r r''"
  by (auto simp: keeps_def)

lemma keeps_id: "keeps r r' \<Longrightarrow> an_id r' = an_id r \<and> an_consumer r' = an_consumer r \<and> an_key r' = an_key r \<and> an_task r' = an_task r"
  by (simp add: keeps_def analysis_fixed_def)

named_theorems evolve_simps \<open>unfolding of the functions that change an analysis row\<close>

lemmas [evolve_simps] = keeps_def analysis_fixed_def analysis_ok_def analysis_checks_def terminal_states_def

lemma live_states: "an_state r \<notin> terminal_states \<longleftrightarrow> an_state r \<in> {An_Queued, An_Running}"
  by (cases "an_state r") (auto simp: terminal_states_def)

lemma evolve_timeout:
  assumes "analysis_ok r" "an_state r \<notin> terminal_states" "an_success r = None"
  shows "keeps r (timeout_row now r) \<and> analysis_ok (timeout_row now r)"
  using assms by (auto simp: evolve_simps timeout_row_def)

lemma evolve_not_ready:
  assumes "analysis_ok r"
  shows "keeps r (snd (persist_not_score_ready now j r)) \<and> analysis_ok (snd (persist_not_score_ready now j r))"
  using assms evolve_timeout [OF assms, of now]
  by (auto simp: persist_not_score_ready_def) (auto simp: evolve_simps)

lemma evolve_completed:
  assumes ok: "analysis_ok r" and run: "persist_completed now j r = Inr (b, r')"
  shows "keeps r r' \<and> analysis_ok r' \<and> (b \<longrightarrow> an_state r \<notin> terminal_states \<and> an_state r' = An_Completed)
    \<and> (\<not> b \<longrightarrow> an_state r' = An_Completed \<longrightarrow> an_state r = An_Completed)"
proof (cases "an_state r \<in> terminal_states")
  case True
  with assms show ?thesis by (auto simp: persist_completed_def)
next
  case False
  show ?thesis
  proof (cases "an_success r")
    case None
    with False assms evolve_timeout [OF ok False None, of now] show ?thesis
      by (auto simp: persist_completed_def timeout_row_def split: if_splits)
         (auto simp: evolve_simps completed_row_def)
  next
    case (Some t)
    with False assms show ?thesis
      by (auto simp: persist_completed_def split: if_splits) (auto simp: evolve_simps completed_row_def)
  qed
qed

lemma evolve_boundary:
  assumes ok: "analysis_ok r" and run: "success_boundary now r = Inr (st, r')"
  shows "keeps r r' \<and> analysis_ok r' \<and> (an_state r' = An_Completed \<longleftrightarrow> an_state r = An_Completed)
    \<and> (st = W_Protected \<longrightarrow> an_state r' = An_Running \<and> an_success r' \<noteq> None)"
proof (cases "an_success r")
  case None
  show ?thesis
  proof (cases "an_deadline r \<le> now \<and> an_state r \<notin> terminal_states")
    case True
    with run None evolve_timeout [OF ok _ None, of now] show ?thesis
      by (auto simp: success_boundary_def Let_def timeout_row_def terminal_states_def split: if_splits)
  next
    case False
    with run None ok show ?thesis
      by (auto simp: success_boundary_def Let_def split: if_splits) (auto simp: evolve_simps)
  qed
next
  case (Some t)
  with run ok show ?thesis
    by (auto simp: success_boundary_def split: if_splits) (auto simp: evolve_simps)
qed

lemma evolve_start:
  assumes "analysis_ok r" "an_state r \<notin> terminal_states"
  shows "keeps r (r\<lparr>an_started := x, an_state := An_Running, an_updated := now\<rparr>)
    \<and> analysis_ok (r\<lparr>an_started := x, an_state := An_Running, an_updated := now\<rparr>)"
  using assms by (cases "an_state r") (auto simp: evolve_simps)

lemma evolve_failed:
  assumes "analysis_ok r" "an_state r \<notin> terminal_states" "an_success r = None"
  shows "keeps r (r\<lparr>an_state := An_Failed, an_failure_code := Some c, an_failure_message := m, an_finished := Some now, an_updated := now\<rparr>)
    \<and> analysis_ok (r\<lparr>an_state := An_Failed, an_failure_code := Some c, an_failure_message := m, an_finished := Some now, an_updated := now\<rparr>)"
  using assms by (auto simp: evolve_simps)

lemma new_analysis_ok: "analysis_ok (new_analysis now seconds aid consumer request task key payload h)"
  by (simp add: evolve_simps new_analysis_def)

lemma failed_artifact_fields [simp]:
  "ra_report_id (failed_artifact a) = ra_report_id a" "ra_analysis_id (failed_artifact a) = ra_analysis_id a"
  "ra_version (failed_artifact a) = ra_version a" "ra_ready (failed_artifact a) = False"
  by (simp_all add: failed_artifact_def)

lemma failed_artifact_ok: "ra_version a = report_artifact_version \<Longrightarrow> artifact_ok (failed_artifact a)"
  by (simp add: artifact_ok_def artifact_checks_def failed_artifact_def)

lemma failed_artifact_idem [simp]: "failed_artifact (failed_artifact a) = failed_artifact a"
  by (simp add: failed_artifact_def)

section \<open>The invariant of the database\<close>

definition report_key :: "report_row \<Rightarrow> uuid" where
  "report_key r = ra_report_id (rw_artifact r)"

definition api_inv :: "api_db \<Rightarrow> bool" where
  "api_inv d = (distinct (map an_id (analyses d)) \<and> distinct (map (\<lambda>a. (an_consumer a, an_key a)) (analyses d))
     \<and> distinct (map dq_analysis_id (dispatches d)) \<and> distinct (map report_key (reports d))
     \<and> distinct (map (\<lambda>r. ra_analysis_id (rw_artifact r)) (reports d))
     \<and> (\<forall>a \<in> set (analyses d). analysis_ok a \<and> (\<exists>q. get_row dq_analysis_id (an_id a) (dispatches d) = Some q \<and> dq_task q = an_task a))
     \<and> (\<forall>r \<in> set (reports d). artifact_ok (rw_artifact r)
          \<and> get_row an_id (ra_analysis_id (rw_artifact r)) (analyses d) \<noteq> None))"

text \<open>With a report generator, completed analyses and reports come in pairs.\<close>

definition has_report :: "uuid \<Rightarrow> api_db \<Rightarrow> bool" where
  "has_report aid d = (\<exists>r \<in> set (reports d). ra_analysis_id (rw_artifact r) = aid)"

definition paired :: "api_db \<Rightarrow> bool" where
  "paired d = (\<forall>a \<in> set (analyses d). an_state a = An_Completed \<longleftrightarrow> has_report (an_id a) d)"

definition report_keeps :: "report_row \<Rightarrow> report_row \<Rightarrow> bool" where
  "report_keeps r r' = (report_key r' = report_key r \<and> ra_analysis_id (rw_artifact r') = ra_analysis_id (rw_artifact r)
     \<and> (\<not> ra_ready (rw_artifact r) \<longrightarrow> r' = r) \<and> (ra_ready (rw_artifact r') \<longrightarrow> r' = r))"

definition dispatch_keeps :: "dispatch_row \<Rightarrow> dispatch_row \<Rightarrow> bool" where
  "dispatch_keeps q q' = (dq_task q' = dq_task q \<and> (dq_dispatched q \<noteq> None \<longrightarrow> q' = q))"

definition api_mono :: "api_db \<Rightarrow> api_db \<Rightarrow> bool" where
  "api_mono d d' = (
     (\<forall>aid a. get_row an_id aid (analyses d) = Some a \<longrightarrow> (\<exists>a'. get_row an_id aid (analyses d') = Some a' \<and> keeps a a'))
     \<and> (\<forall>aid q. get_row dq_analysis_id aid (dispatches d) = Some q \<longrightarrow>
          (\<exists>q'. get_row dq_analysis_id aid (dispatches d') = Some q' \<and> dispatch_keeps q q'))
     \<and> (\<forall>rid r. get_row report_key rid (reports d) = Some r \<longrightarrow>
          (\<exists>r'. get_row report_key rid (reports d') = Some r' \<and> report_keeps r r')))"

lemma api_monoD:
  assumes "api_mono d d'"
  shows "get_row an_id aid (analyses d) = Some a \<Longrightarrow> \<exists>a'. get_row an_id aid (analyses d') = Some a' \<and> keeps a a'"
    and "get_row dq_analysis_id aid (dispatches d) = Some q \<Longrightarrow>
      \<exists>q'. get_row dq_analysis_id aid (dispatches d') = Some q' \<and> dispatch_keeps q q'"
    and "get_row report_key rid (reports d) = Some r \<Longrightarrow> \<exists>r'. get_row report_key rid (reports d') = Some r' \<and> report_keeps r r'"
  using assms by (auto simp: api_mono_def)

lemma row_keeps_refl [simp]: "report_keeps r r" "dispatch_keeps q q"
  by (simp_all add: report_keeps_def dispatch_keeps_def)

lemma row_keeps_trans: "report_keeps r r' \<Longrightarrow> report_keeps r' r'' \<Longrightarrow> report_keeps r r''"
  "dispatch_keeps q q' \<Longrightarrow> dispatch_keeps q' q'' \<Longrightarrow> dispatch_keeps q q''"
  unfolding report_keeps_def dispatch_keeps_def by metis+

lemma api_mono_refl [simp]: "api_mono d d"
  by (auto simp: api_mono_def)

lemma api_mono_trans: "api_mono d d' \<Longrightarrow> api_mono d' d'' \<Longrightarrow> api_mono d d''"
proof -
  assume m: "api_mono d d'" "api_mono d' d''"
  show ?thesis unfolding api_mono_def
  proof (intro conjI allI impI)
    fix aid a assume "get_row an_id aid (analyses d) = Some a"
    from api_monoD(1) [OF m(1) this] obtain a' where a': "get_row an_id aid (analyses d') = Some a'" "keeps a a'" by blast
    from api_monoD(1) [OF m(2) a'(1)] keeps_trans [OF a'(2)]
    show "\<exists>a''. get_row an_id aid (analyses d'') = Some a'' \<and> keeps a a''" by blast
  next
    fix aid q assume "get_row dq_analysis_id aid (dispatches d) = Some q"
    from api_monoD(2) [OF m(1) this] obtain q' where
      q': "get_row dq_analysis_id aid (dispatches d') = Some q'" "dispatch_keeps q q'" by blast
    from api_monoD(2) [OF m(2) q'(1)] row_keeps_trans(2) [OF q'(2)]
    show "\<exists>q''. get_row dq_analysis_id aid (dispatches d'') = Some q'' \<and> dispatch_keeps q q''" by blast
  next
    fix rid r assume "get_row report_key rid (reports d) = Some r"
    from api_monoD(3) [OF m(1) this] obtain r' where
      r': "get_row report_key rid (reports d') = Some r'" "report_keeps r r'" by blast
    from api_monoD(3) [OF m(2) r'(1)] row_keeps_trans(1) [OF r'(2)]
    show "\<exists>r''. get_row report_key rid (reports d'') = Some r'' \<and> report_keeps r r''" by blast
  qed
qed

lemma api_invD:
  assumes "api_inv d"
  shows "distinct (map an_id (analyses d))" "distinct (map report_key (reports d))"
    and "a \<in> set (analyses d) \<Longrightarrow> analysis_ok a"
    and "r \<in> set (reports d) \<Longrightarrow> artifact_ok (rw_artifact r)"
  using assms by (auto simp: api_inv_def)

text \<open>Rewriting analysis rows one by one.\<close>

lemma get_row_map:
  "(\<And>x. x \<in> set rows \<Longrightarrow> key (f x) = key x) \<Longrightarrow> get_row key k (map f rows) = map_option f (get_row key k rows)"
  by (induction rows) (auto simp: get_row_def)

lemma map_keys: "(\<And>x. x \<in> set rows \<Longrightarrow> key (f x) = key x) \<Longrightarrow> map key (map f rows) = map key rows"
  by auto

lemma evolve_rows:
  assumes inv: "api_inv d" and f: "\<And>a. a \<in> set (analyses d) \<Longrightarrow> keeps a (f a) \<and> analysis_ok (f a)"
  shows "api_inv (d\<lparr>analyses := map f (analyses d)\<rparr>)" and "api_mono d (d\<lparr>analyses := map f (analyses d)\<rparr>)"
proof -
  have id: "an_id (f a) = an_id a" "an_consumer (f a) = an_consumer a" "an_key (f a) = an_key a" "an_task (f a) = an_task a"
    if "a \<in> set (analyses d)" for a
    using keeps_id f [OF that] by blast+
  have keys: "map (an_id \<circ> f) (analyses d) = map an_id (analyses d)"
    "map ((\<lambda>a. (an_consumer a, an_key a)) \<circ> f) (analyses d) = map (\<lambda>a. (an_consumer a, an_key a)) (analyses d)"
    using id by auto
  have dist: "distinct (map (an_id \<circ> f) (analyses d))"
    "distinct (map ((\<lambda>a. (an_consumer a, an_key a)) \<circ> f) (analyses d))"
    unfolding keys using inv by (simp_all add: api_inv_def)
  have get: "get_row an_id k (map f (analyses d)) = map_option f (get_row an_id k (analyses d))" for k
    by (rule get_row_map) (rule id(1))
  show "api_inv (d\<lparr>analyses := map f (analyses d)\<rparr>)"
    unfolding api_inv_def using inv dist f id by (auto simp: api_inv_def get)
  show "api_mono d (d\<lparr>analyses := map f (analyses d)\<rparr>)"
    unfolding api_mono_def using f by (auto simp: get dest: get_row_Some)
qed

text \<open>One row is rewritten, the others stay.\<close>

lemma set_analysis_map:
  "set_analysis r' d = d\<lparr>analyses := map (\<lambda>a. if an_id a = an_id r' then r' else a) (analyses d)\<rparr>"
  by (simp add: set_analysis_def put_row_def)

lemma evolve_row:
  assumes inv: "api_inv d" and row: "get_row an_id aid (analyses d) = Some r" and r': "keeps r r'" "analysis_ok r'"
  shows "api_inv (set_analysis r' d) \<and> api_mono d (set_analysis r' d)"
proof -
  have r: "r \<in> set (analyses d)" using get_row_Some [OF row] by simp
  have id: "an_id r' = an_id r" using keeps_id [OF r'(1)] by simp
  have f: "keeps a (if an_id a = an_id r' then r' else a) \<and> analysis_ok (if an_id a = an_id r' then r' else a)"
    if "a \<in> set (analyses d)" for a
    using distinct_keys_unique [OF api_invD(1) [OF inv] that r] r' id api_invD(3) [OF inv that] by auto
  show ?thesis unfolding set_analysis_map using evolve_rows [OF inv f] by blast
qed

lemma paired_rows:
  assumes p: "paired d" and f: "\<And>a. a \<in> set (analyses d) \<Longrightarrow> an_id (f a) = an_id a \<and> (an_state (f a) = An_Completed \<longleftrightarrow> an_state a = An_Completed)"
  shows "paired (d\<lparr>analyses := map f (analyses d)\<rparr>)"
  using assms by (auto simp: paired_def has_report_def)

lemma paired_row:
  assumes inv: "api_inv d" and p: "paired d" and row: "get_row an_id aid (analyses d) = Some r"
    and r': "an_id r' = an_id r" "an_state r' = An_Completed \<longleftrightarrow> an_state r = An_Completed"
  shows "paired (set_analysis r' d)"
proof -
  have r: "r \<in> set (analyses d)" using get_row_Some [OF row] by simp
  show ?thesis unfolding set_analysis_map
  proof (rule paired_rows [OF p])
    fix a assume "a \<in> set (analyses d)"
    with distinct_keys_unique [OF api_invD(1) [OF inv] this r] r'
    show "an_id (if an_id a = an_id r' then r' else a) = an_id a
       \<and> (an_state (if an_id a = an_id r' then r' else a) = An_Completed \<longleftrightarrow> an_state a = An_Completed)" by auto
  qed
qed

section \<open>Reports and dispatches\<close>

lemma first_row_Some: "first_row p rows = Some r \<Longrightarrow> r \<in> set rows \<and> p r"
  by (auto simp: first_row_def find_Some_iff)

lemma first_row_None: "first_row p rows = None \<longleftrightarrow> (\<forall>r \<in> set rows. \<not> p r)"
  by (auto simp: first_row_def find_None_iff)

lemma report_for_Some:
  "report_for aid v d = Some r \<Longrightarrow> r \<in> set (reports d) \<and> ra_analysis_id (rw_artifact r) = aid \<and> ra_version (rw_artifact r) = v"
  by (auto simp: report_for_def dest: first_row_Some)

lemma report_for_has:
  assumes "api_inv d"
  shows "report_for aid report_artifact_version d \<noteq> None \<longleftrightarrow> has_report aid d"
  using api_invD(4) [OF assms] by (auto simp: report_for_def first_row_None has_report_def artifact_ok_def)

lemma report_for_set_analysis [simp]: "report_for aid v (set_analysis r d) = report_for aid v d"
  "report_by_id rid (set_analysis r d) = report_by_id rid d" "reports (set_analysis r d) = reports d"
  "dispatches (set_analysis r d) = dispatches d" "has_report aid (set_analysis r d) = has_report aid d"
  by (simp_all add: report_for_def report_by_id_def set_analysis_def has_report_def)

lemma has_report_image: "has_report aid d = (aid \<in> set (map (\<lambda>r. ra_analysis_id (rw_artifact r)) (reports d)))"
  by (auto simp: has_report_def)

lemma fail_report:
  assumes inv: "api_inv d" and r: "r \<in> set (reports d)" "ra_ready (rw_artifact r)"
    and a: "ra_analysis_id (rw_artifact r) = ra_analysis_id artifact" "ra_version (rw_artifact r) = ra_version artifact"
  shows "api_inv (set_report (fail_row_from_candidate r artifact now) d)
    \<and> api_mono d (set_report (fail_row_from_candidate r artifact now) d)
    \<and> (paired d \<longrightarrow> paired (set_report (fail_row_from_candidate r artifact now) d))"
proof -
  let ?r = "fail_row_from_candidate r artifact now"
  let ?f = "\<lambda>x. if report_key x = report_key r then ?r else x"
  have key: "report_key ?r = report_key r" by (simp add: report_key_def fail_row_from_candidate_def)
  have an: "ra_analysis_id (rw_artifact ?r) = ra_analysis_id (rw_artifact r)" using a by (simp add: fail_row_from_candidate_def)
  have ok: "artifact_ok (rw_artifact ?r)"
    using api_invD(4) [OF inv r(1)] failed_artifact_ok [of artifact] a(2)
    by (simp add: fail_row_from_candidate_def artifact_ok_def artifact_checks_def)
  have rep: "reports (set_report ?r d) = map ?f (reports d)" "analyses (set_report ?r d) = analyses d"
      "dispatches (set_report ?r d) = dispatches d"
    using key by (simp_all add: set_report_def put_row_def report_key_def)
  have same: "x = r" if "x \<in> set (reports d)" "report_key x = report_key r" for x
    by (rule distinct_keys_unique [OF api_invD(2) [OF inv] that(1) r(1) that(2)])
  have maps: "map (report_key \<circ> ?f) (reports d) = map report_key (reports d)"
    "map ((\<lambda>r. ra_analysis_id (rw_artifact r)) \<circ> ?f) (reports d) = map (\<lambda>r. ra_analysis_id (rw_artifact r)) (reports d)"
    using key an same by auto
  have dist: "distinct (map (report_key \<circ> ?f) (reports d))"
    "distinct (map ((\<lambda>r. ra_analysis_id (rw_artifact r)) \<circ> ?f) (reports d))"
    unfolding maps using inv by (simp_all add: api_inv_def)
  have an_f: "ra_analysis_id (rw_artifact (?f x)) = ra_analysis_id (rw_artifact x)" if "x \<in> set (reports d)" for x
    using same [OF that] an by auto
  have get: "get_row report_key k (map ?f (reports d)) = map_option ?f (get_row report_key k (reports d))" for k
    by (rule get_row_map) (use key in auto)
  have inv': "api_inv (set_report ?r d)"
  proof -
    have ar: "get_row an_id (ra_analysis_id (rw_artifact r)) (analyses d) \<noteq> None" using inv r(1) by (auto simp: api_inv_def)
    have rows: "\<forall>x \<in> set (map ?f (reports d)). artifact_ok (rw_artifact x)
        \<and> get_row an_id (ra_analysis_id (rw_artifact x)) (analyses d) \<noteq> None"
      using inv ok ar an by (auto simp: api_inv_def)
    show ?thesis unfolding api_inv_def rep using inv dist rows by (simp add: api_inv_def)
  qed
  have keep: "report_keeps x (?f x)" if "x \<in> set (reports d)" for x
    using same [OF that] key an r(2) by (auto simp: report_keeps_def fail_row_from_candidate_def)
  have "\<exists>x'. get_row report_key k (map ?f (reports d)) = Some x' \<and> report_keeps x x'"
    if x: "get_row report_key k (reports d) = Some x" for k x
    by (intro exI [of _ "?f x"] conjI) (use x get keep [of x] get_row_Some [OF x] in simp_all)
  then have mono: "api_mono d (set_report ?r d)"
    unfolding api_mono_def rep by (intro conjI allI impI) auto
  have "has_report aid (set_report ?r d) = has_report aid d" for aid
    unfolding has_report_image rep list.map_comp maps(2) ..
  then have "paired d \<longrightarrow> paired (set_report ?r d)" by (simp add: paired_def rep(2))
  with inv' mono show ?thesis by blast
qed

lemma fail_resource_step:
  assumes inv: "api_inv d" and pick: "\<And>r. pick d = Some r \<Longrightarrow> r \<in> set (reports d)
      \<and> ra_analysis_id (rw_artifact r) = ra_analysis_id artifact \<and> ra_version (rw_artifact r) = ra_version artifact"
    and run: "fail_resource pick artifact now d = (Inr b, d')"
  shows "api_inv d' \<and> api_mono d d' \<and> (paired d \<longrightarrow> paired d')"
proof (cases "pick d")
  case (Some r)
  with run pick [OF Some] inv fail_report [OF inv, of r artifact now] show ?thesis
    by (auto simp: fail_resource_def split: if_splits)
qed (use run inv in \<open>simp add: fail_resource_def\<close>)

text \<open>A report that is added, or is already there exactly.\<close>

lemma persist_exact_cases:
  assumes "persist_exact a artifact now d = (Inr x, d')"
  obtains (there) row where "d' = d" "report_for (an_id a) (ra_version artifact) d = Some row" "rw_artifact row = artifact"
  | (added) "report_for (an_id a) (ra_version artifact) d = None" "report_by_id (ra_report_id artifact) d = None"
      "an_id a = ra_analysis_id artifact" "d' = d\<lparr>reports := add_row \<lparr>rw_artifact = artifact, rw_created = now, rw_updated = now\<rparr> (reports d)\<rparr>"
  using assms by (auto simp: persist_exact_def persist_report_artifact_def report_row_matches_def Let_def
      split: if_splits option.splits)

lemma add_report:
  assumes inv: "api_inv d" and none: "report_for aid report_artifact_version d = None" "report_by_id (ra_report_id artifact) d = None"
    and aid: "ra_analysis_id artifact = aid" "get_row an_id aid (analyses d) \<noteq> None" and ok: "artifact_ok artifact"
  shows "api_inv (d\<lparr>reports := add_row \<lparr>rw_artifact = artifact, rw_created = now, rw_updated = now\<rparr> (reports d)\<rparr>)
    \<and> api_mono d (d\<lparr>reports := add_row \<lparr>rw_artifact = artifact, rw_created = now, rw_updated = now\<rparr> (reports d)\<rparr>)"
proof
  let ?r = "\<lparr>rw_artifact = artifact, rw_created = now, rw_updated = now\<rparr>"
  have free: "\<not> has_report aid d" using report_for_has [OF inv, of aid] none(1) by simp
  have fresh: "report_key ?r \<notin> report_key ` set (reports d)"
    using none(2) by (auto simp: report_by_id_def first_row_None report_key_def)
  show "api_inv (d\<lparr>reports := add_row ?r (reports d)\<rparr>)"
    using inv fresh free aid ok by (auto simp: api_inv_def add_row_def has_report_def)
  show "api_mono d (d\<lparr>reports := add_row ?r (reports d)\<rparr>)"
    unfolding api_mono_def by (auto simp: row_simps)
qed

lemma persist_exact_step:
  assumes inv: "api_inv d" and run: "persist_exact a artifact now d = (Inr x, d')"
    and a: "get_row an_id (an_id a) (analyses d) \<noteq> None" and ok: "artifact_ok artifact"
  shows "api_inv d' \<and> api_mono d d' \<and> analyses d' = analyses d \<and> has_report (an_id a) d'
    \<and> (\<forall>b. b \<noteq> an_id a \<longrightarrow> has_report b d' = has_report b d)"
  using run
proof (cases rule: persist_exact_cases)
  case (there row)
  then show ?thesis using inv report_for_Some [OF there(2)] by (auto simp: has_report_def)
next
  case added
  have v: "ra_version artifact = report_artifact_version" using ok by (simp add: artifact_ok_def)
  have none: "report_for (an_id a) report_artifact_version d = None" using added(1) v by simp
  have "api_inv d' \<and> api_mono d d'"
    unfolding added(4) by (rule add_report [OF inv none added(2) added(3) [symmetric] a ok])
  moreover have "analyses d' = analyses d" "has_report b d' \<longleftrightarrow> b = an_id a \<or> has_report b d" for b
    unfolding added(4) using added(3) by (auto simp: has_report_def add_row_def)
  ultimately show ?thesis by simp
qed

lemma update_dispatch_step:
  assumes inv: "api_inv d" and f: "\<And>q. dq_analysis_id (f q) = dq_analysis_id q \<and> dq_task (f q) = dq_task q"
  shows "api_inv (snd (update_dispatch f aid d)) \<and> api_mono d (snd (update_dispatch f aid d))
    \<and> (paired d \<longrightarrow> paired (snd (update_dispatch f aid d)))"
proof (cases "get_row dq_analysis_id aid (dispatches d)")
  case (Some q)
  show ?thesis
  proof (cases "dq_dispatched q")
    case None
    let ?d = "d\<lparr>dispatches := put_row dq_analysis_id (f q) (dispatches d)\<rparr>"
    have id: "dq_analysis_id (f q) = aid" using f get_row_Some [OF Some] by simp
    have get: "get_row dq_analysis_id k (put_row dq_analysis_id (f q) (dispatches d))
        = (if k = aid then Some (f q) else get_row dq_analysis_id k (dispatches d))" for k
      using rows.lookup_store [of dq_analysis_id "f q" "dispatches d" k] id Some by auto
    have "api_inv ?d" unfolding api_inv_def
      using inv f Some by (auto simp: api_inv_def row_simps get)
    moreover have "api_mono d ?d" unfolding api_mono_def using None f Some by (auto simp: get dispatch_keeps_def)
    moreover have "paired d \<longrightarrow> paired ?d" by (simp add: paired_def has_report_def)
    ultimately show ?thesis using Some None by (simp add: update_dispatch_def)
  qed (use Some inv in \<open>simp add: update_dispatch_def\<close>)
qed (use inv in \<open>simp add: update_dispatch_def\<close>)

lemma insert_analysis_step:
  assumes inv: "api_inv d" and run: "insert_analysis a d = (Inr x, d')" and a: "analysis_ok a" "an_state a = An_Queued"
  shows "api_inv d' \<and> api_mono d d' \<and> (paired d \<longrightarrow> paired d')"
proof -
  from run have g: "get_row an_id (an_id a) (analyses d) = None" "key_owner (an_consumer a) (an_key a) d = None"
      "get_row dq_analysis_id (an_id a) (dispatches d) = None"
    and d': "d' = d\<lparr>analyses := add_row a (analyses d),
            dispatches := add_row (new_dispatch (an_created a) (an_id a) (an_task a)) (dispatches d)\<rparr>"
    by (auto simp: insert_analysis_def split: if_splits)
  have nokey: "(an_consumer a, an_key a) \<notin> (\<lambda>a. (an_consumer a, an_key a)) ` set (analyses d)"
    using g(2) by (auto simp: key_owner_def first_row_None)
  have q: "dq_analysis_id (new_dispatch t b k) = b" "dq_task (new_dispatch t b k) = k" for t b k
    by (simp_all add: new_dispatch_def)
  have keepq: "get_row dq_analysis_id k (dispatches d') = Some q0" if "get_row dq_analysis_id k (dispatches d) = Some q0" for k q0
    using that by (simp add: d' row_simps)
  have newq: "get_row dq_analysis_id (an_id a) (dispatches d') = Some (new_dispatch (an_created a) (an_id a) (an_task a))"
    using g(3) q by (simp add: d' row_simps)
  have keepa: "get_row an_id k (analyses d') = Some a0" if "get_row an_id k (analyses d) = Some a0" for k a0
    using that by (simp add: d' row_simps)
  have noreport: "\<not> has_report (an_id a) d"
    using inv g(1) by (auto simp: api_inv_def has_report_def)
  have "api_inv d'"
    unfolding api_inv_def
  proof (intro conjI ballI)
    fix b assume "b \<in> set (analyses d')"
    then consider "b = a" | "b \<in> set (analyses d)" by (auto simp: d' in_add_row)
    then show "analysis_ok b" "\<exists>q. get_row dq_analysis_id (an_id b) (dispatches d') = Some q \<and> dq_task q = an_task b"
      by (cases; use inv a(1) keepq newq q in \<open>fastforce simp: api_inv_def\<close>)+
  next
    fix r assume "r \<in> set (reports d')"
    then have r: "r \<in> set (reports d)" by (simp add: d')
    then show "artifact_ok (rw_artifact r)" using inv by (simp add: api_inv_def)
    from r obtain a0 where "get_row an_id (ra_analysis_id (rw_artifact r)) (analyses d) = Some a0"
      using inv by (fastforce simp: api_inv_def)
    from keepa [OF this] show "get_row an_id (ra_analysis_id (rw_artifact r)) (analyses d') \<noteq> None" by simp
  qed (use inv g nokey q in \<open>simp_all add: d' api_inv_def row_simps get_row_None\<close>)
  moreover have "api_mono d d'" unfolding api_mono_def using keepa keepq by (auto simp: d')
  moreover have "paired d \<longrightarrow> paired d'"
    using a(2) noreport by (auto simp: d' paired_def has_report_def in_add_row)
  ultimately show ?thesis by blast
qed

section \<open>The artifacts that a worker commits\<close>

text \<open>
  Only \<open>generate\<close> makes artifacts: a failed one without an object, or a ready one of a narrative, an
  uploaded document that is not empty, and a SHA-256 digest. The finalisation commits the prepared
  artifact or what \<open>failed_artifact\<close> leaves of it. That both satisfy the checks of the table is proved
  here from the fields that these two functions write.
\<close>

definition worker_artifact :: "report_artifact \<Rightarrow> bool" where
  "worker_artifact a = ((\<exists>rv rid aid fp at_time np. a = prepared_artifact rv rid aid fp at_time np None)
     \<or> (\<exists>rv rid aid fp at_time n key pdf h. pdf \<noteq> [] \<and> length h = 64
          \<and> a = prepared_artifact rv rid aid fp at_time (Some n) (Some (key, pdf, h))))"

lemma prepared_ok:
  "artifact_ok (prepared_artifact rv rid aid fp at_time np None)"
  "pdf \<noteq> [] \<Longrightarrow> length h = 64 \<Longrightarrow> artifact_ok (prepared_artifact rv rid aid fp at_time (Some n) (Some (key, pdf, h)))"
  by (simp_all add: prepared_artifact_def artifact_ok_def artifact_checks_def safe_failure_def)

lemma worker_artifactI:
  "worker_artifact (prepared_artifact rv rid aid fp at_time np None)"
  "pdf \<noteq> [] \<Longrightarrow> length h = 64 \<Longrightarrow> worker_artifact (prepared_artifact rv rid aid fp at_time (Some n) (Some (key, pdf, h)))"
  unfolding worker_artifact_def by blast+

lemma artifact_of_prepared: "worker_artifact a \<Longrightarrow> artifact_ok a"
  by (auto simp: worker_artifact_def prepared_ok)

lemma failed_of_prepared: "worker_artifact a \<Longrightarrow> artifact_ok (failed_artifact a)"
  using artifact_of_prepared [of a] by (simp add: artifact_ok_def failed_artifact_ok [unfolded artifact_ok_def])

lemma failed_twice [simp]: "failed_artifact (failed_artifact a) = failed_artifact a"
  by (simp add: failed_artifact_def)

section \<open>The steps of the database\<close>

text \<open>
  Every transaction that the service and its workers commit. With \<open>g\<close> the workers have a report
  generator.
\<close>

inductive api_step :: "bool \<Rightarrow> api_db \<Rightarrow> api_db \<Rightarrow> bool" for g where
  submitted: "insert_analysis (new_analysis now seconds aid consumer request task key payload h) d = (Inr (), d')
    \<Longrightarrow> api_step g d d'"
| dispatched: "update_dispatch (dispatch_done now) aid d = (Inr (), d') \<Longrightarrow> api_step g d d'"
| dispatch_missed: "update_dispatch dispatch_failed aid d = (Inr (), d') \<Longrightarrow> api_step g d d'"
| polled: "retrieve now authority aid consumer d = (Inr res, d') \<Longrightarrow> api_step g d d'"
| reconciled: "reconcile_expired scan authorities limit now d = (Inr n, d') \<Longrightarrow> api_step g d d'"
| started: "start_body aid now d = (Inr x, d') \<Longrightarrow> api_step g d d'"
| outcome: "outcome_body g aid result now d = (Inr st, d') \<Longrightarrow> api_step g d d'"
| failed: "failure_body aid now d = (Inr st, d') \<Longrightarrow> api_step g d d'"
| unfinished: "get_row an_id aid (analyses d) = Some row \<Longrightarrow> persist_completed now body row = Inr (False, row')
    \<Longrightarrow> api_step g d (set_analysis row' d)"
| paired_commit: "g \<Longrightarrow> get_row an_id aid (analyses d) = Some row \<Longrightarrow> persist_completed now body row = Inr (True, row')
    \<Longrightarrow> worker_artifact artifact \<Longrightarrow> persist_exact row' artifact now (set_analysis row' d) = (Inr (), d')
    \<Longrightarrow> api_step g d d'"
| resource_failed: "g \<Longrightarrow> pick = the_resource artifact \<or> pick = same_identity artifact
    \<Longrightarrow> fail_resource pick artifact now d = (Inr b, d') \<Longrightarrow> api_step g d d'"
| report_failed: "g \<Longrightarrow> get_row an_id aid (analyses d) = Some row \<Longrightarrow> an_state row = An_Completed
    \<Longrightarrow> worker_artifact artifact \<Longrightarrow> persist_exact row (failed_artifact artifact) now d = (Inr (), d') \<Longrightarrow> api_step g d d'"
| completed_with_failed: "g \<Longrightarrow> complete_with_failed_body body artifact now d = (Inr st, d') \<Longrightarrow> api_step g d d'"
| failed_pair: "g \<Longrightarrow> worker_artifact artifact \<Longrightarrow> failed_pair_body body artifact now d = (Inr st, d') \<Longrightarrow> api_step g d d'"

text \<open>What a step must do: keep the invariant and the rows, and keep completed analyses and reports
  paired where there is a generator.\<close>

definition api_good :: "bool \<Rightarrow> api_db \<Rightarrow> api_db \<Rightarrow> bool" where
  "api_good g d d' = (api_inv d' \<and> api_mono d d' \<and> (g \<longrightarrow> paired d \<longrightarrow> paired d'))"

lemma api_good_refl: "api_inv d \<Longrightarrow> api_good g d d"
  by (simp add: api_good_def)

lemma api_good_trans: "api_good g d d' \<Longrightarrow> api_good g d' d'' \<Longrightarrow> api_good g d d''"
  using api_mono_trans by (auto simp: api_good_def)

lemma good_row:
  assumes inv: "api_inv d" and row: "get_row an_id aid (analyses d) = Some r" and r': "keeps r r'" "analysis_ok r'"
    and st: "g \<Longrightarrow> an_state r' = An_Completed \<longleftrightarrow> an_state r = An_Completed"
  shows "api_good g d (set_analysis r' d)"
  using evolve_row [OF inv row r'] paired_row [OF inv _ row, of r'] keeps_id [OF r'(1)] st
  by (auto simp: api_good_def)

lemma good_not_ready:
  assumes inv: "api_inv d" and row: "get_row an_id aid (analyses d) = Some r"
  shows "api_good g d (set_analysis (snd (persist_not_score_ready now j r)) d)"
proof -
  have ok: "analysis_ok r" using api_invD(3) [OF inv] get_row_Some [OF row] by blast
  have st: "an_state (snd (persist_not_score_ready now j r)) = An_Completed \<longleftrightarrow> an_state r = An_Completed"
    by (auto simp: persist_not_score_ready_def timeout_row_def terminal_states_def)
  note e = evolve_not_ready [OF ok, of now j]
  show ?thesis by (rule good_row [OF inv row e [THEN conjunct1] e [THEN conjunct2] st])
qed

lemma row_ok: "api_inv d \<Longrightarrow> get_row an_id aid (analyses d) = Some r \<Longrightarrow> analysis_ok r"
  using api_invD(3) [of d r] get_row_Some [of an_id aid "analyses d" r] by blast

lemma good_unfinished:
  assumes inv: "api_inv d" and row: "get_row an_id aid (analyses d) = Some r"
    and run: "persist_completed now body r = Inr (False, r')"
  shows "api_good g d (set_analysis r' d)"
proof -
  have e: "keeps r r' \<and> analysis_ok r' \<and> (an_state r' = An_Completed \<longrightarrow> an_state r = An_Completed)"
    using evolve_completed [OF row_ok [OF inv row] run] by simp
  then have "r' = r" if "an_state r = An_Completed" using that unfolding keeps_def terminal_states_def by blast
  with e have st: "an_state r' = An_Completed \<longleftrightarrow> an_state r = An_Completed" by blast
  show ?thesis by (rule good_row [OF inv row _ _ st]) (simp_all add: e)
qed

lemma good_pair:
  assumes inv: "api_inv d" and row: "get_row an_id aid (analyses d) = Some r"
    and run: "persist_completed now body r = Inr (True, r')" and ok: "artifact_ok artifact"
    and add: "persist_exact r' artifact now' (set_analysis r' d) = (Inr x, d')"
  shows "api_good g d d'"
proof -
  have e: "keeps r r'" "analysis_ok r'" "an_state r' = An_Completed"
    using evolve_completed [OF row_ok [OF inv row] run] by simp_all
  have id: "an_id r' = aid" using keeps_id [OF e(1)] get_row_Some [OF row] by simp
  have mid: "api_inv (set_analysis r' d)" "api_mono d (set_analysis r' d)" using evolve_row [OF inv row e(1,2)] by blast+
  have get: "get_row an_id (an_id r') (analyses (set_analysis r' d)) = Some r'"
    using rows.lookup_store [of an_id r' "analyses d" aid] row id by (simp add: set_analysis_def)
  have step: "api_inv d'" "api_mono (set_analysis r' d) d'" "analyses d' = analyses (set_analysis r' d)" "has_report aid d'"
      "\<And>b. b \<noteq> aid \<Longrightarrow> has_report b d' = has_report b d"
    using persist_exact_step [OF mid(1) add _ ok] get id by auto
  have "paired d'" if p: "paired d"
    unfolding paired_def
  proof
    fix a assume "a \<in> set (analyses d')"
    then have "a = r' \<or> (a \<in> set (analyses d) \<and> an_id a \<noteq> aid)"
      using step(3) id by (auto simp: set_analysis_def dest: in_put_row)
    then show "an_state a = An_Completed \<longleftrightarrow> has_report (an_id a) d'"
      using p step(4,5) e(3) id by (auto simp: paired_def)
  qed
  with step(1) api_mono_trans [OF mid(2) step(2)] show ?thesis by (simp add: api_good_def)
qed

lemma api_good_intro: "api_inv d' \<and> api_mono d d' \<and> (paired d \<longrightarrow> paired d') \<Longrightarrow> api_good g d d'"
  by (simp add: api_good_def)

lemma picked_report:
  "pick = the_resource artifact \<or> pick = same_identity artifact \<Longrightarrow> pick d = Some r
    \<Longrightarrow> r \<in> set (reports d) \<and> ra_analysis_id (rw_artifact r) = ra_analysis_id artifact \<and> ra_version (rw_artifact r) = ra_version artifact"
  by (auto simp: the_resource_def same_identity_def dest: report_for_Some first_row_Some)

lemma good_completed_with_failed:
  assumes inv: "api_inv d" and run: "complete_with_failed_body body artifact now d = (Inr st, d')"
  shows "api_good g d d'"
proof (cases "d' = d")
  case False
  with run obtain r r' x where row: "get_row an_id (ra_analysis_id artifact) (analyses d) = Some r"
    and rep: "the_resource artifact d = Some x" and pc: "persist_completed now body r = Inr (True, r')" and d': "d' = set_analysis r' d"
    by (auto simp: complete_with_failed_body_def Let_def state_of_report_def split: option.splits if_splits sum.splits bool.splits)
  have e: "keeps r r'" "analysis_ok r'" "an_state r \<notin> terminal_states"
    using evolve_completed [OF row_ok [OF inv row] pc] by simp_all
  have "has_report (an_id r) d"
    using report_for_Some [of _ _ d x] rep get_row_Some [OF row] by (auto simp: the_resource_def has_report_def)
  moreover have "an_state r \<noteq> An_Completed" "r \<in> set (analyses d)"
    using e(3) get_row_Some [OF row] by (auto simp: terminal_states_def)
  ultimately have "\<not> paired d" unfolding paired_def by blast
  with evolve_row [OF inv row e(1,2)] show ?thesis by (simp add: api_good_def d')
qed (simp add: api_good_refl inv)

lemma good_failed_pair:
  assumes inv: "api_inv d" and run: "failed_pair_body body artifact now d = (Inr st, d')" and ok: "artifact_ok artifact"
  shows "api_good g d d'"
proof (cases "d' = d")
  case False
  with run obtain r r' where row: "get_row an_id (ra_analysis_id artifact) (analyses d) = Some r"
    and pc: "persist_completed now body r = Inr (True, r')"
    and add: "persist_exact r' (failed_artifact artifact) now (set_analysis r' d) = (Inr (), d')"
    by (auto simp: failed_pair_body_def split: option.splits if_splits sum.splits bool.splits prod.splits)
  show ?thesis by (rule good_pair [OF inv row pc _ add]) (use ok in \<open>simp add: artifact_ok_def failed_artifact_ok [unfolded artifact_ok_def]\<close>)
qed (simp add: api_good_refl inv)

lemma good_timeout:
  assumes inv: "api_inv d" and row: "get_row an_id aid (analyses d) = Some r"
    and live: "an_state r \<notin> terminal_states" "an_success r = None"
  shows "api_good g d (set_analysis (timeout_row now r) d)"
  using evolve_timeout [OF row_ok [OF inv row] live, of now] live(1)
  by (intro good_row [OF inv row]) (auto simp: timeout_row_def terminal_states_def)

lemma good_started:
  assumes inv: "api_inv d" and run: "start_body aid now d = (Inr x, d')"
  shows "api_good g d d'"
proof (cases "get_row an_id aid (analyses d)")
  case (Some r)
  show ?thesis
  proof (cases "an_state r \<in> terminal_states \<or> (an_success r = None \<and> an_deadline r \<le> now)")
    case True
    with run Some good_timeout [OF inv Some, of g now] inv show ?thesis
      by (cases "an_state r \<in> terminal_states") (auto simp: start_body_def api_good_refl)
  next
    case False
    then have "an_state r \<notin> terminal_states" by blast
    from False evolve_start [OF row_ok [OF inv Some] this, where x = "if an_started r = None then Some now else an_started r" and now = now] run Some
    show ?thesis
      by (auto simp: start_body_def Let_def terminal_states_def intro!: good_row [OF inv Some])
  qed
qed (use run inv in \<open>simp add: start_body_def api_good_refl\<close>)

lemma good_outcome:
  assumes inv: "api_inv d" and run: "outcome_body g aid result now d = (Inr st, d')"
  shows "api_good g d d'"
proof (cases "get_row an_id aid (analyses d)")
  case (Some r)
  note ok = row_ok [OF inv Some]
  show ?thesis
  proof (cases result)
    case (Not_Score_Ready_Outcome j)
    with run Some have "d' = set_analysis (snd (persist_not_score_ready now j r)) d"
      by (auto simp: outcome_body_def Let_def split: if_splits)
    then show ?thesis by (simp add: good_not_ready [OF inv Some])
  next
    case (Completed_Outcome body fp)
    show ?thesis
    proof (cases g)
      case True
      with run Some Completed_Outcome obtain r' where sb: "success_boundary now r = Inr (st, r')" and d': "d' = set_analysis r' d"
        by (auto simp: outcome_body_def split: sum.splits)
      from evolve_boundary [OF ok sb] show ?thesis unfolding d' by (intro good_row [OF inv Some]) auto
    next
      case False
      with run Some Completed_Outcome obtain b r' where pc: "persist_completed now body r = Inr (b, r')" and d': "d' = set_analysis r' d"
        by (auto simp: outcome_body_def split: sum.splits)
      from evolve_completed [OF ok pc] False show ?thesis unfolding d' by (intro good_row [OF inv Some]) auto
    qed
  qed
qed (use run inv in \<open>simp add: outcome_body_def api_good_refl\<close>)

lemma good_failed:
  assumes inv: "api_inv d" and run: "failure_body aid now d = (Inr st, d')"
  shows "api_good g d d'"
proof (cases "get_row an_id aid (analyses d)")
  case (Some r)
  show ?thesis
  proof (cases "an_state r \<in> terminal_states")
    case False
    with run Some have s: "an_success r = None" by (auto simp: failure_body_def split: if_splits)
    show ?thesis
    proof (cases "an_deadline r \<le> now")
      case True
      with run Some False s good_timeout [OF inv Some False s, of g now] show ?thesis by (auto simp: failure_body_def Let_def)
    next
      case late: False
      with run Some False s evolve_failed [OF row_ok [OF inv Some] False s]
      show ?thesis by (auto simp: failure_body_def Let_def terminal_states_def intro!: good_row [OF inv Some])
    qed
  qed (use run Some inv in \<open>simp add: failure_body_def api_good_refl\<close>)
qed (use run inv in \<open>simp add: failure_body_def api_good_refl\<close>)

lemma good_polled:
  assumes inv: "api_inv d" and run: "retrieve now authority aid consumer d = (Inr res, d')"
  shows "api_good g d d'"
proof (cases "first_row (\<lambda>a. an_id a = aid \<and> an_consumer a = consumer) (analyses d)")
  case (Some r)
  then have r: "r \<in> set (analyses d)" "an_id r = aid" by (auto dest: first_row_Some)
  have row: "get_row an_id aid (analyses d) = Some r" using get_row_distinct [OF api_invD(1) [OF inv] r(1)] r(2) by simp
  from run Some good_timeout [OF inv row, of g now] inv show ?thesis
    by (auto simp: retrieve_def set_analysis_def api_good_refl split: if_splits)
qed (use run in \<open>simp add: retrieve_def\<close>)

lemma good_reconciled:
  assumes inv: "api_inv d" and run: "reconcile_expired scan authorities limit now d = (Inr n, d')"
  shows "api_good g d d'"
proof -
  let ?rows = "filter (\<lambda>r. authorities (an_id r)) (take limit (filter (expired now) (scan (analyses d))))"
  let ?f = "\<lambda>r. if r \<in> set ?rows then timeout_row now r else r"
  have d': "d' = d\<lparr>analyses := map ?f (analyses d)\<rparr>" using run unfolding reconcile_expired_def Let_def by simp
  have exp: "expired now r" if "r \<in> set ?rows" for r using that by (auto dest: in_set_takeD)
  have live: "an_state r \<notin> terminal_states \<and> an_success r = None" if "r \<in> set ?rows" for r
    using exp [OF that] by (auto simp: expired_def terminal_states_def)
  have f: "keeps a (?f a) \<and> analysis_ok (?f a)" if "a \<in> set (analyses d)" for a
    using evolve_timeout [of a now] live [of a] api_invD(3) [OF inv that] by (simp del: set_filter)
  have st: "an_id (?f a) = an_id a \<and> (an_state (?f a) = An_Completed \<longleftrightarrow> an_state a = An_Completed)" if "a \<in> set (analyses d)" for a
    using live [of a] by (simp del: set_filter add: timeout_row_def terminal_states_def)
  show ?thesis unfolding d' api_good_def using evolve_rows [OF inv f] paired_rows [OF _ st] by blast
qed

lemma good_report_failed:
  assumes inv: "api_inv d" and row: "get_row an_id aid (analyses d) = Some r" and st: "an_state r = An_Completed"
    and ok: "artifact_ok artifact" and run: "persist_exact r (failed_artifact artifact) now d = (Inr x, d')"
  shows "api_good g d d'"
proof -
  note r = get_row_Some [OF row]
  have step: "api_inv d' \<and> api_mono d d' \<and> analyses d' = analyses d \<and> has_report aid d' \<and> (\<forall>b. b \<noteq> aid \<longrightarrow> has_report b d' = has_report b d)"
    using persist_exact_step [OF inv run] row r ok failed_artifact_ok [of artifact] by (simp add: artifact_ok_def)
  have "paired d'" if "paired d"
    unfolding paired_def
  proof
    fix a assume "a \<in> set (analyses d')"
    with step have a: "a \<in> set (analyses d)" by simp
    show "an_state a = An_Completed \<longleftrightarrow> has_report (an_id a) d'"
    proof (cases "an_id a = aid")
      case True
      with distinct_keys_unique [OF api_invD(1) [OF inv] a, of r] r have "a = r" by simp
      with st step True show ?thesis by simp
    qed (use a step that in \<open>simp add: paired_def\<close>)
  qed
  with step show ?thesis by (simp add: api_good_def)
qed

theorem api_step_good:
  assumes step: "api_step g d d'" and inv: "api_inv d"
  shows "api_good g d d'"
  using step
proof cases
  case (submitted now seconds aid consumer request task key payload h)
  show ?thesis
    by (rule api_good_intro, rule insert_analysis_step [OF inv submitted new_analysis_ok]) (simp add: new_analysis_def)
next
  case (dispatched now aid)
  with update_dispatch_step [OF inv, of "dispatch_done now" aid] show ?thesis
    by (intro api_good_intro) (simp add: dispatch_done_def)
next
  case (dispatch_missed aid)
  with update_dispatch_step [OF inv, of dispatch_failed aid] show ?thesis
    by (intro api_good_intro) (simp add: dispatch_failed_def)
next
  case (resource_failed pick artifact now b)
  show ?thesis
    by (rule api_good_intro, rule fail_resource_step [OF inv _ resource_failed(3)]) (rule picked_report [OF resource_failed(2)])
qed (use inv in \<open>auto intro: good_polled good_reconciled good_started good_outcome good_failed good_unfinished good_pair
     good_report_failed good_completed_with_failed good_failed_pair artifact_of_prepared\<close>)

definition api_empty :: api_db where
  "api_empty = \<lparr>analyses = [], dispatches = [], reports = []\<rparr>"

lemma api_empty_inv: "api_inv api_empty" "paired api_empty"
  by (simp_all add: api_empty_def api_inv_def paired_def)

lemma api_steps_good:
  assumes "(api_step g)\<^sup>*\<^sup>* d d'" and inv: "api_inv d"
  shows "api_good g d d'"
  using assms(1)
proof (induction rule: rtranclp_induct)
  case (step d1 d2)
  then have "api_inv d1" by (simp add: api_good_def)
  from api_good_trans [OF step(3) api_step_good [OF step(2) this]] show ?case .
qed (simp add: api_good_refl inv)

end
