(* ===== verification/ApiRefinement.thy ===== *)
theory ApiRefinement
  imports ApiProofs
begin

text \<open>
  The handlers of the API refine the steps of \<open>ApiProofs\<close>: whatever transactions fail, whatever the
  broker and the object storage answer, and whatever other processes commit in between, an
  execution of the worker, a submission and a drain of the outbox are sequences of steps. The
  properties of the API follow for every reachable database.
\<close>

section \<open>Runs as sequences of steps\<close>

lemma api_step1: "api_step g d d' \<Longrightarrow> (api_step g)\<^sup>*\<^sup>* d d'"
  by (rule r_into_rtranclp)

lemma steps_tx:
  assumes "well_behaved (api_step g) ev" and "\<And>now d x d'. body now d = (Inr x, d') \<Longrightarrow> (api_step g)\<^sup>*\<^sup>* d d'"
  shows "steps_from (api_step g) (tx ev body) s"
  unfolding tx_def by (rule steps_transact [OF assms])

lemma steps_read:
  assumes "well_behaved (api_step g) ev" shows "steps_from (api_step g) (tx ev (\<lambda>now d. (f now d, d))) s"
  by (rule steps_tx [OF assms]) simp

section \<open>Dispatch and submission\<close>

lemma update_dispatch_Inr: "\<exists>d'. update_dispatch f aid d = (Inr (), d')"
  by (auto simp: update_dispatch_def split: option.splits)

lemma dispatch_steps:
  assumes "well_behaved (api_step g) ev"
  shows "steps_from (api_step g) (dispatch_analysis ev publish aid) s"
proof -
  have "(api_step g)\<^sup>*\<^sup>* d d'" if "update_dispatch (dispatch_done now) aid d = (Inr x, d')" for now d x d'
    using dispatched [of now aid d d' g] that by auto
  moreover have "(api_step g)\<^sup>*\<^sup>* d d'" if "update_dispatch dispatch_failed aid d = (Inr x, d')" for d x d'
    using dispatch_missed [of aid d d' g] that by auto
  ultimately show ?thesis unfolding dispatch_analysis_def
    by (auto split: option.splits intro!: steps_bind stepping steps_read [OF assms] steps_tx [OF assms])
qed

lemma drain_ids_steps:
  assumes "well_behaved (api_step g) ev"
  shows "steps_from (api_step g) (drain_ids ev publish ids) s"
proof (induction ids arbitrary: s)
  case (Cons aid ids)
  show ?case
    by (auto intro!: steps_bind steps_catch stepping dispatch_steps [OF assms] Cons.IH)
qed (simp add: stepping)

lemma drain_steps:
  assumes "well_behaved (api_step g) ev"
  shows "steps_from (api_step g) (drain_pending ev publish limit) s"
  unfolding drain_pending_def by (intro steps_bind steps_read drain_ids_steps assms)

lemma adopt_existing_reads: "adopt_existing consumer key h d = (x, d') \<Longrightarrow> d' = d"
  by (auto simp: adopt_existing_def split: option.splits)

lemma submit_steps:
  assumes "well_behaved (api_step g) ev"
  shows "steps_from (api_step g) (submit ev publish digest seconds aid request task consumer key rq) s"
proof -
  have ins: "(api_step g)\<^sup>*\<^sup>* d d'" if "insert_analysis (new_analysis now seconds aid consumer request task key p h) d = (Inr x, d')"
    for now p h d x d' using submitted [of now seconds aid consumer request task key p h d d' g] that by auto
  have adopt: "(api_step g)\<^sup>*\<^sup>* d d'" if "adopt_existing consumer key h d = (Inr x, d')" for h d x d'
    using adopt_existing_reads [OF that] by simp
  show ?thesis unfolding submit_def
    by (auto intro!: steps_bind steps_catch stepping steps_tx [OF assms] dispatch_steps [OF assms] intro: ins adopt)
qed

section \<open>The worker\<close>

lemma prepared_simps:
  "ra_analysis_id (prepared_artifact rv rid aid fp at_time np obj) = aid"
  "ra_report_id (prepared_artifact rv rid aid fp at_time np obj) = rid"
  by (simp_all add: prepared_artifact_def)

lemma generated_artifact:
  assumes sha: "\<And>x. length (sha x) = 64"
    and run: "generate sc sha max_bytes rv rid consumer aid fp at_time np payload s = (Inr artifact, s')"
  shows "worker_artifact artifact \<and> ra_analysis_id artifact = aid \<and> ra_report_id artifact = rid"
proof -
  have shape: "artifact = prepared_artifact rv rid aid fp at_time np None
      \<or> (\<exists>key pdf. np \<noteq> None \<and> pdf \<noteq> [] \<and> artifact = prepared_artifact rv rid aid fp at_time np (Some (key, pdf, sha pdf)))"
  proof (cases np; cases payload)
    fix n pdf assume [simp]: "np = Some n" "payload = Some pdf"
    obtain d w k where [simp]: "s = (d, w, k)" by (cases s)
    show ?thesis
    proof (cases "starts_with ''%PDF-'' pdf \<and> length pdf \<le> max_bytes")
      case True
      then have pdf: "pdf \<noteq> []" by (auto simp: starts_with_def)
      let ?key = "storage_key_of consumer aid"
      obtain up w' where put: "oc_put sc ?key pdf report_mime_type w = (up, w')" by fastforce
      let ?good = "case oc_head sc ?key w' of None \<Rightarrow> False
        | Some (n, content_type) \<Rightarrow> n = int (length pdf) \<and> content_type \<in> {None, Some report_mime_type}"
      define obj where "obj = (if up \<and> ?good then Some (?key, pdf, sha pdf) else None)"
      have "artifact = prepared_artifact rv rid aid fp at_time np obj"
        unfolding obj_def using run True put
        by (cases up; cases ?good)
           (simp_all add: generate_def ret_def cbind_def outside_def look_def Let_def case_prod_beta)
      moreover have "obj = None \<or> obj = Some (?key, pdf, sha pdf)" by (simp add: obj_def)
      ultimately show ?thesis using pdf by (auto simp del: not_None_eq)
    qed (use run in \<open>auto simp: generate_def ret_def\<close>)
  qed (use run in \<open>auto simp: generate_def ret_def\<close>)
  then consider "artifact = prepared_artifact rv rid aid fp at_time np None"
    | key pdf where "np \<noteq> None" "pdf \<noteq> []" "artifact = prepared_artifact rv rid aid fp at_time np (Some (key, pdf, sha pdf))"
    by blast
  then show ?thesis by cases (auto simp: worker_artifactI prepared_simps sha)
qed

lemma transition_steps:
  assumes ev: "well_behaved (api_step True) ev" and pick: "pick = the_resource artifact \<or> pick = same_identity artifact"
  shows "steps_from (api_step True) (transition_to_failed ev pick artifact k) s"
proof (induction k arbitrary: s)
  case (Suc k)
  have body: "(api_step True)\<^sup>*\<^sup>* d d'" if "fail_resource pick artifact now d = (Inr x, d')" for now d x d'
    by (rule r_into_rtranclp, rule resource_failed [OF TrueI pick that])
  show ?case
    by (auto simp: observed_state_def intro!: steps_bind steps_catch stepping steps_tx [OF ev] steps_read [OF ev] Suc.IH
        split: option.splits intro: body)
qed (simp add: stepping)

lemma confirmed_steps:
  assumes "well_behaved (api_step g) ev" shows "steps_from (api_step g) (confirmed ev sc artifact verdict) s"
  unfolding confirmed_def by (auto intro!: steps_bind steps_catch stepping steps_read [OF assms])

lemma compensate_steps: "steps_from (api_step g) (compensate sc artifact) s"
  by (auto simp: compensate_def intro!: steps_bind stepping split: option.splits)

lemma generate_steps: "steps_from (api_step g) (generate sc sha max_bytes rv rid consumer aid fp at_time np payload) s"
  by (auto simp: generate_def Let_def intro!: steps_bind stepping split: option.splits)

lemma report_fresh_steps:
  assumes ev: "well_behaved (api_step True) ev" and ok: "worker_artifact artifact \<or> (\<exists>b. worker_artifact b \<and> artifact = failed_artifact b)"
  shows "steps_from (api_step True) (persist_failed_report_fresh ev sc aid artifact) s"
proof -
  obtain b where b: "worker_artifact b" "failed_artifact artifact = failed_artifact b" using ok by auto
  have body: "(api_step True)\<^sup>*\<^sup>* d d'"
    if "(case get_row an_id aid (analyses d) of None \<Rightarrow> (Inr (), d)
       | Some row \<Rightarrow> if an_state row \<noteq> An_Completed then (Inr (), d) else persist_exact row (failed_artifact artifact) now d) = (Inr x, d')"
    for now d x d'
    using that report_failed [OF TrueI _ _ b(1), THEN api_step1] unfolding b(2) by (auto split: option.splits if_splits)
  show ?thesis unfolding persist_failed_report_fresh_def reconcile_report_commit_def
    by (auto intro!: steps_bind steps_catch stepping steps_tx [OF ev] confirmed_steps [OF ev] intro: body)
qed

lemma complete_failed_steps:
  assumes ev: "well_behaved (api_step True) ev"
  shows "steps_from (api_step True) (complete_analysis_with_failed_resource ev body artifact) s"
proof -
  have step: "(api_step True)\<^sup>*\<^sup>* d d'" if "complete_with_failed_body body artifact now d = (Inr x, d')" for now d x d'
    by (rule api_step1, rule completed_with_failed [OF TrueI that])
  show ?thesis unfolding complete_analysis_with_failed_resource_def
    by (auto intro!: steps_catch stepping steps_read [OF ev] steps_tx [OF ev] intro: step)
qed

lemma repair_steps:
  assumes ev: "well_behaved (api_step True) ev" and ok: "worker_artifact artifact \<or> (\<exists>b. worker_artifact b \<and> artifact = failed_artifact b)"
  shows "steps_from (api_step True) (repair_missing_report ev sc artifact) s"
  unfolding repair_missing_report_def resource_state_def observed_state_def
  by (auto intro!: steps_bind steps_catch stepping steps_read [OF ev] report_fresh_steps [OF ev ok])

lemma transition_resource_steps:
  "well_behaved (api_step True) ev \<Longrightarrow> steps_from (api_step True) (transition_resource_to_failed ev artifact) s"
  unfolding transition_resource_to_failed_def by (rule transition_steps) simp_all

lemma failed_pair_steps:
  assumes ev: "well_behaved (api_step True) ev" and ok: "worker_artifact artifact"
  shows "steps_from (api_step True) (persist_failed_pair_fresh ev sc body artifact) s"
proof -
  have step: "(api_step True)\<^sup>*\<^sup>* d d'" if "failed_pair_body body artifact now d = (Inr x, d')" for now d x d'
    by (rule api_step1, rule failed_pair [OF TrueI ok that])
  have ok': "worker_artifact (failed_artifact artifact) \<or> (\<exists>b. worker_artifact b \<and> failed_artifact artifact = failed_artifact b)" using ok by blast
  show ?thesis unfolding persist_failed_pair_fresh_def reconcile_paired_commit_def
    by (auto intro!: steps_bind steps_catch stepping confirmed_steps [OF ev] transition_resource_steps [OF ev]
        complete_failed_steps [OF ev] repair_steps [OF ev ok'] steps_tx [OF ev] intro: step)
qed

lemma recover_steps:
  assumes ev: "well_behaved (api_step True) ev" and ok: "worker_artifact artifact"
  shows "steps_from (api_step True) (recover_pair ev sc body artifact v) s"
  unfolding recover_pair_def
  by (auto intro!: steps_bind stepping compensate_steps transition_resource_steps [OF ev] complete_failed_steps [OF ev]
      repair_steps [OF ev disjI1 [OF ok]] failed_pair_steps [OF ev ok])

text \<open>The transaction of the pair starts from the row that the locked read has just returned.\<close>

lemma compensate_db: "compensate sc artifact (d, w, n) = (Inr (), d', w', n') \<Longrightarrow> d' = d"
  by (auto simp: compensate_def ret_def cbind_def outside_def split: if_splits option.splits prod.splits)

lemma commit_steps:
  assumes "\<And>x d'. body d = (Inr x, d') \<Longrightarrow> (api_step g)\<^sup>*\<^sup>* d d'"
  shows "steps_from (api_step g) (commit_tx ev body) (d, w, n)"
proof -
  have "(api_step g)\<^sup>*\<^sup>* d (snd (transaction (ev_fault ev n) Db_Error body d))"
    by (rule transaction_inv [where P = "(api_step g)\<^sup>*\<^sup>* d"]) (use assms in simp_all)
  then show ?thesis by (simp add: steps_from_def commit_tx_def case_prod_beta)
qed

lemma pair_commit_steps:
  assumes row: "get_row an_id aid (analyses d) = Some row" and ok: "worker_artifact artifact"
  shows "steps_from (api_step True) (pair_commit ev sc body artifact at_time row) (d, w, n)"
proof (cases "persist_completed at_time body row")
  case (Inr br)
  obtain b row' where br: "br = (b, row')" by (cases br)
  show ?thesis
  proof (cases b)
    case True
    have "(api_step True)\<^sup>*\<^sup>* d d'"
      if "(case persist_exact row' artifact at_time (set_analysis row' d) of
           (Inl e, d') \<Rightarrow> (Inl e, d') | (Inr _, d') \<Rightarrow> (Inr (W_State An_Completed), d')) = (Inr x, d')" for x d'
      using that paired_commit [OF TrueI row, of at_time body row' artifact d'] Inr br True ok
      by (auto split: prod.splits sum.splits)
    then show ?thesis unfolding pair_commit_def by (auto simp: Inr br True intro!: commit_steps)
  next
    case False
    have "api_step True d (set_analysis row' d)" using unfinished [OF row] Inr br False by simp
    then have step: "(api_step True)\<^sup>*\<^sup>* d (set_analysis row' d)" by (rule api_step1)
    show ?thesis unfolding pair_commit_def
      using step by (auto simp: Inr br False intro!: steps_bind stepping compensate_steps commit_steps dest!: compensate_db)
  qed
qed (simp add: pair_commit_def stepping)

lemma finish_steps:
  assumes ev: "well_behaved (api_step True) ev" and sha: "\<And>x. length (gn_sha gn x) = 64"
  shows "steps_from (api_step True) (finish_with_report ev gn rd aid consumer body fp at_time) s"
proof (cases "rd_canonical rd")
  case True
  have rest: "steps_from (api_step True) (cbind (lock_read ev (\<lambda>d. get_row an_id aid (analyses d))) (\<lambda>row. case row of
         None \<Rightarrow> cbind (compensate (gn_client gn) artifact) (\<lambda>_. ret W_Missing)
       | Some row \<Rightarrow> cbind (persist_completed_report_pair ev (gn_client gn) body artifact at_time row) (\<lambda>state.
             if state = W_Retry then throw (Retryable_Finalization ''paired report finalization requires worker retry'')
             else ret state))) s'"
    if ok: "worker_artifact artifact" for artifact s'
  proof (rule steps_bind)
    obtain d w n where s': "s' = (d, w, n)" by (cases s') auto
    show "steps_from (api_step True) (lock_read ev (\<lambda>d. get_row an_id aid (analyses d))) s'"
      using ev by (simp add: s' steps_from_def lock_read_def well_behaved_def Let_def)
    fix row s2 assume "lock_read ev (\<lambda>d. get_row an_id aid (analyses d)) s' = (Inr row, s2)"
    then obtain d2 w2 n2 where s2: "s2 = (d2, w2, n2)" and row: "row = get_row an_id aid (analyses d2)"
      by (auto simp: s' lock_read_def Let_def split: if_splits)
    show "steps_from (api_step True) (case row of
         None \<Rightarrow> cbind (compensate (gn_client gn) artifact) (\<lambda>_. ret W_Missing)
       | Some row \<Rightarrow> cbind (persist_completed_report_pair ev (gn_client gn) body artifact at_time row) (\<lambda>state.
             if state = W_Retry then throw (Retryable_Finalization ''paired report finalization requires worker retry'')
             else ret state)) s2"
    proof (cases row)
      case (Some r)
      have "steps_from (api_step True) (persist_completed_report_pair ev (gn_client gn) body artifact at_time r) s2"
        unfolding persist_completed_report_pair_def reconcile_paired_commit_def s2
        using pair_commit_steps [OF row [unfolded Some, symmetric] ok]
        by (auto intro!: steps_catch steps_bind confirmed_steps [OF ev] recover_steps [OF ev ok])
      then show ?thesis by (auto simp: Some intro!: steps_bind stepping)
    qed (auto intro!: steps_bind stepping compensate_steps)
  qed
  show ?thesis unfolding finish_with_report_def
    by (simp add: True) (rule steps_bind [OF generate_steps rest], rule generated_artifact [OF sha, THEN conjunct1])
qed (simp add: finish_with_report_def stepping)

theorem worker_steps:
  assumes ev: "well_behaved (api_step (gn \<noteq> None)) ev" and sha: "\<And>g x. gn = Some g \<Longrightarrow> length (gn_sha g x) = 64"
  shows "steps_from (api_step (gn \<noteq> None)) (execute_analysis ev locked gn exec rd aid) s"
proof -
  let ?g = "gn \<noteq> None"
  have start: "(api_step ?g)\<^sup>*\<^sup>* d d'" if "start_body aid now d = (Inr x, d')" for now d x d'
    by (rule api_step1, rule started [OF that])
  have out: "(api_step ?g)\<^sup>*\<^sup>* d d'" if "outcome_body ?g aid result now d = (Inr x, d')" for result now d x d'
    by (rule api_step1, rule outcome [OF that])
  have fail: "(api_step ?g)\<^sup>*\<^sup>* d d'" if "failure_body aid now d = (Inr x, d')" for now d x d'
    by (rule api_step1, rule failed [OF that])
  have finish: "steps_from (api_step ?g) (case (state, result, gn) of
        (W_Protected, Completed_Outcome body fp, Some g) \<Rightarrow> finish_with_report ev g rd aid consumer body fp at_time
      | _ \<Rightarrow> ret state) s'" for state result consumer at_time s'
    using ev sha finish_steps [of ev "the gn" _ _ _ _ _ _ s'] by (auto simp: stepping split: option.splits worker_state.splits outcome.splits)
  have attempt: "steps_from (api_step ?g) (attempt_analysis ev gn exec rd aid) s'" for s'
    unfolding attempt_analysis_def
    by (intro steps_bind steps_tx [OF ev] start)
       (auto simp del: not_None_eq intro!: stepping steps_bind steps_tx [OF ev] out finish [unfolded prod.case] split: sum.splits option.split)
  show ?thesis unfolding execute_analysis_def
    by (auto simp del: not_None_eq intro!: steps_catch attempt stepping steps_tx [OF ev] intro: fail)
qed

end
