(* ===== verification/ApiProperties.thy ===== *)
theory ApiProperties
  imports ApiRefinement
begin

text \<open>
  The properties of the SiteScore API for every reachable database, and the run of a worker that
  nothing disturbs, from the queued analysis to the verified content of its report.
\<close>

section \<open>A run without faults\<close>

lemma quiet_tx: "quiet ev \<Longrightarrow> tx ev body (d, w, n) =
    (case body (ev_now ev n) d of (Inl e, _) \<Rightarrow> (Inl e, (d, w, Suc n)) | (Inr x, d') \<Rightarrow> (Inr x, (d', w, Suc n)))"
  unfolding tx_def by (rule quiet_transact)

lemma quiet_commit: "quiet ev \<Longrightarrow> commit_tx ev body (d, w, n) =
    (case body d of (Inl e, _) \<Rightarrow> (Inl e, (d, w, Suc n)) | (Inr x, d') \<Rightarrow> (Inr x, (d', w, Suc n)))"
  by (auto simp: quiet_def commit_tx_def transaction_def split: prod.splits sum.splits)

lemma quiet_lock: "quiet ev \<Longrightarrow> lock_read ev f (d, w, n) = (Inr (f d), (d, w, Suc n))"
  by (simp add: quiet_def lock_read_def)

lemma get_set_analysis:
  assumes "get_row an_id aid (analyses d) \<noteq> None" "an_id r = aid"
  shows "get_row an_id aid (analyses (set_analysis r d)) = Some r"
  using assms rows.lookup_store [of an_id r "analyses d" aid] by (simp add: set_analysis_def)

text \<open>The rows of such a run.\<close>

definition begun_row :: "int \<Rightarrow> analysis_row \<Rightarrow> analysis_row" where
  "begun_row now r = r\<lparr>an_started := (if an_started r = None then Some now else an_started r), an_state := An_Running, an_updated := now\<rparr>"

definition marked_row :: "int \<Rightarrow> analysis_row \<Rightarrow> analysis_row" where
  "marked_row now r = r\<lparr>an_success := Some now, an_state := An_Running, an_updated := now, an_finished := None,
     an_failure_code := None, an_failure_message := None\<rparr>"

lemma run_rows [simp]: "an_id (begun_row now r) = an_id r" "an_id (marked_row now r) = an_id r"
  "an_consumer (begun_row now r) = an_consumer r" "an_consumer (marked_row now r) = an_consumer r" "an_payload (begun_row now r) = an_payload r"
  "an_state (begun_row now r) = An_Running" "an_state (marked_row now r) = An_Running"
  "an_success (begun_row now r) = an_success r" "an_success (marked_row now r) = Some now"
  "an_deadline (begun_row now r) = an_deadline r" "an_deadline (marked_row now r) = an_deadline r"
  "an_consumer (completed_row now j r) = an_consumer r"
  "an_id (completed_row now j r) = an_id r" "an_state (completed_row now j r) = An_Completed"
  "an_result (completed_row now j r) = Some j"
  by (simp_all add: begun_row_def marked_row_def completed_row_def)

lemma quiet_start:
  assumes "quiet ev" "get_row an_id aid (analyses d) = Some r" "an_state r \<notin> terminal_states" "ev_now ev n < an_deadline r"
  shows "tx ev (start_body aid) (d, w, n) = (Inr (Inr (begun_row (ev_now ev n) r)), (set_analysis (begun_row (ev_now ev n) r) d, w, Suc n))"
  using assms by (simp add: quiet_tx start_body_def Let_def begun_row_def)

lemma quiet_boundary:
  assumes "quiet ev" "get_row an_id aid (analyses d) = Some r" "an_state r = An_Running" "an_success r = None" "at_time < an_deadline r"
  shows "tx ev (\<lambda>_. outcome_body True aid (Completed_Outcome body fp) at_time) (d, w, n)
    = (Inr W_Protected, (set_analysis (marked_row at_time r) d, w, Suc n))"
  using assms by (simp add: quiet_tx outcome_body_def success_boundary_def marked_row_def)

text \<open>The object storage that keeps what it is given.\<close>

definition stores_object :: "'o object_client \<Rightarrow> string \<Rightarrow> string \<Rightarrow> 'o \<Rightarrow> 'o \<Rightarrow> bool" where
  "stores_object sc key pdf w w' = (oc_put sc key pdf report_mime_type w = (True, w')
     \<and> oc_head sc key w' = Some (int (length pdf), Some report_mime_type)
     \<and> oc_get sc key w' = Some (Some (int (length pdf)), pdf))"

lemma quiet_generate:
  assumes "stores_object sc (storage_key_of consumer aid) pdf w w'" "starts_with ''%PDF-'' pdf" "length pdf \<le> max_bytes"
  shows "generate sc sha max_bytes rv rid consumer aid fp at_time (Some np) (Some pdf) (d, w, n)
    = (Inr (prepared_artifact rv rid aid fp at_time (Some np) (Some (storage_key_of consumer aid, pdf, sha pdf))), (d, w', n))"
  using assms by (simp add: stores_object_def generate_def Let_def cbind_def outside_def look_def ret_def)

lemma quiet_pair:
  assumes q: "quiet ev" and r: "get_row an_id aid (analyses d) = Some r" "an_state r \<notin> terminal_states" "an_success r = Some at_time"
      "at_time < an_deadline r"
    and fresh: "report_for aid (ra_version artifact) d = None" "report_by_id (ra_report_id artifact) d = None" and a: "ra_analysis_id artifact = aid"
  shows "persist_completed_report_pair ev sc body artifact at_time r (d, w, n) = (Inr (W_State An_Completed),
      ((set_analysis (completed_row at_time body r) d)\<lparr>reports := add_row \<lparr>rw_artifact = artifact, rw_created = at_time, rw_updated = at_time\<rparr> (reports d)\<rparr>,
       w, Suc n))"
proof -
  have id: "an_id r = aid" using get_row_Some [OF r(1)] by simp
  have pc: "persist_completed at_time body r = Inr (True, completed_row at_time body r)"
    using r by (simp add: persist_completed_def)
  have pe: "persist_exact (completed_row at_time body r) artifact at_time (set_analysis (completed_row at_time body r) d)
     = (Inr (), (set_analysis (completed_row at_time body r) d)\<lparr>reports := add_row \<lparr>rw_artifact = artifact, rw_created = at_time, rw_updated = at_time\<rparr> (reports d)\<rparr>)"
    using id fresh a by (simp add: persist_exact_def persist_report_artifact_def report_row_matches_def Let_def)
  show ?thesis
    by (simp add: persist_completed_report_pair_def catch_def pair_commit_def pc quiet_commit [OF q] pe)
qed

lemma first_row_add: "first_row p rows = None \<Longrightarrow> p r \<Longrightarrow> first_row p (add_row r rows) = Some r"
  by (induction rows) (auto simp: first_row_def add_row_def)

lemma owned_analysis_get:
  assumes "distinct (map an_id (analyses d))"
  shows "owned_analysis aid consumer d = (case get_row an_id aid (analyses d) of None \<Rightarrow> None
    | Some a \<Rightarrow> if an_consumer a = consumer then Some a else None)"
proof (cases "owned_analysis aid consumer d")
  case None
  then show ?thesis
    by (auto simp: owned_analysis_def first_row_None dest: get_row_Some split: option.splits)
next
  case (Some a)
  then have "a \<in> set (analyses d)" "an_id a = aid" "an_consumer a = consumer"
    by (auto simp: owned_analysis_def dest: first_row_Some)
  with Some get_row_distinct [OF assms this(1)] show ?thesis by simp
qed

lemma stored_content:
  assumes "owned_report rid consumer d = Some row" and "stores_object sc key pdf w0 w"
    and "rw_artifact row = prepared_artifact rv rid aid fp at_time (Some np) (Some (key, pdf, sha pdf))"
    and "starts_with ''%PDF-'' pdf" "length pdf \<le> max_bytes"
  shows "report_content sc sha max_bytes rid consumer d w = Inr (row, pdf)"
  using assms by (simp add: report_content_def stores_object_def prepared_artifact_def storage_get_def Let_def)

lemma undisturbed_run:
  assumes q: "quiet ev" and inv: "api_inv d" and pair: "paired d" and row: "get_row an_id aid (analyses d) = Some r"
    and live: "an_state r \<notin> terminal_states" "an_success r = None" and now: "\<And>k. ev_now ev k < an_deadline r"
    and exec: "exec (an_payload r) = Some (Completed_Outcome body fp)"
    and rd: "rd_canonical rd" "rd_narrative rd = Some np" "rd_pdf rd = Some pdf" "report_by_id (rd_report_id rd) d = None"
    and pdf: "starts_with ''%PDF-'' pdf" "length pdf \<le> gn_max_bytes g"
    and store: "stores_object (gn_client g) (storage_key_of (an_consumer r) aid) pdf w w'"
  shows "\<exists>d' n' a row. execute_analysis ev True (Some g) exec rd aid (d, w, n) = (Inr (W_State An_Completed), (d', w', n'))
    \<and> get_row an_id aid (analyses d') = Some a \<and> an_state a = An_Completed \<and> an_result a = Some body
    \<and> resolve_artifact aid (an_consumer r) d' = Inr row
    \<and> report_content (gn_client g) (gn_sha g) (gn_max_bytes g) (rd_report_id rd) (an_consumer r) d' w' = Inr (row, pdf)"
proof -
  note id = get_row_Some [OF row]
  define at_time where "at_time = ev_now ev (Suc n)"
  define r1 where "r1 = begun_row (ev_now ev n) r"
  define r2 where "r2 = marked_row at_time r1"
  define r3 where "r3 = completed_row at_time body r2"
  define d1 where "d1 = set_analysis r1 d"
  define d2 where "d2 = set_analysis r2 d1"
  define d3 where "d3 = set_analysis r3 d2"
  define key where "key = storage_key_of (an_consumer r) aid"
  define artifact where "artifact = prepared_artifact (gn_versions g) (rd_report_id rd) aid fp at_time (Some np) (Some (key, pdf, gn_sha g pdf))"
  define rep where "rep = \<lparr>rw_artifact = artifact, rw_created = at_time, rw_updated = at_time\<rparr>"
  define d4 where "d4 = d3\<lparr>reports := add_row rep (reports d2)\<rparr>"
  have ids: "an_id r1 = aid" "an_id r2 = aid" "an_id r3 = aid" using id by (simp_all add: r1_def r2_def r3_def)
  have g1: "get_row an_id aid (analyses d1) = Some r1" unfolding d1_def by (rule get_set_analysis) (use row ids in simp_all)
  have g2: "get_row an_id aid (analyses d2) = Some r2" unfolding d2_def by (rule get_set_analysis) (use g1 ids in simp_all)
  have g3: "get_row an_id aid (analyses d3) = Some r3" unfolding d3_def by (rule get_set_analysis) (use g2 ids in simp_all)
  have reps: "report_for b v d2 = report_for b v d" "report_by_id rid d2 = report_by_id rid d" "reports d2 = reports d" for b v rid
    by (simp_all add: d1_def d2_def)
  have "\<not> has_report aid d" using pair live(1) id by (auto simp: paired_def terminal_states_def)
  then have free: "report_for aid report_artifact_version d = None" using report_for_has [OF inv, of aid] by blast
  have art: "ra_version artifact = report_artifact_version" "ra_report_id artifact = rd_report_id rd" "ra_analysis_id artifact = aid"
    by (simp_all add: artifact_def prepared_artifact_def)
  have t: "at_time < an_deadline r" using now by (simp add: at_time_def)
  have pay: "an_payload r1 = an_payload r" "an_consumer r1 = an_consumer r" by (simp_all add: r1_def)
  have tx1: "tx ev (start_body aid) (d, w, n) = (Inr (Inr r1), (d1, w, Suc n))"
    unfolding r1_def d1_def by (rule quiet_start [OF q row live(1)]) (rule now)
  have tx2: "tx ev (\<lambda>_. outcome_body True aid (Completed_Outcome body fp) at_time) (d1, w, Suc (Suc n)) = (Inr W_Protected, (d2, w, Suc (Suc (Suc n))))"
    unfolding d2_def r2_def by (rule quiet_boundary [OF q g1]) (use live t in \<open>simp_all add: r1_def\<close>)
  have gen: "generate (gn_client g) (gn_sha g) (gn_max_bytes g) (gn_versions g) (rd_report_id rd) (an_consumer r) aid fp at_time
      (Some np) (Some pdf) (d2, w, k) = (Inr artifact, (d2, w', k))" for k
    unfolding artifact_def key_def by (rule quiet_generate [OF store pdf])
  have pair4: "persist_completed_report_pair ev (gn_client g) body artifact at_time r2 (d2, w', k) = (Inr (W_State An_Completed), (d4, w', Suc k))" for k
    unfolding d4_def d3_def r3_def rep_def
    by (rule quiet_pair [OF q g2]) (use reps free rd(4) art t in \<open>simp_all add: r1_def r2_def terminal_states_def\<close>)
  have run: "execute_analysis ev True (Some g) exec rd aid (d, w, n) = (Inr (W_State An_Completed), (d4, w', Suc (Suc (Suc (Suc (Suc n))))))"
    unfolding execute_analysis_def catch_def attempt_analysis_def
    by (simp add: tx1 pay exec clock_def at_time_def [symmetric] tx2 finish_with_report_def rd gen quiet_lock [OF q] g2 pair4 ret_def)
  have inv3: "distinct (map an_id (analyses d4))"
    using inv by (simp add: d4_def d3_def d2_def d1_def set_analysis_def api_inv_def row_simps)
  have g4: "get_row an_id aid (analyses d4) = Some r3" using g3 by (simp add: d4_def)
  have own: "owned_analysis aid (an_consumer r) d4 = Some r3"
    unfolding owned_analysis_get [OF inv3] g4 by (simp add: r1_def r2_def r3_def)
  have rf: "report_for aid report_artifact_version d4 = Some rep"
    using free reps art by (simp add: report_for_def d4_def rep_def first_row_add)
  have "owned_report (rd_report_id rd) (an_consumer r) d4 = Some rep"
    using rd(4) reps(3) art own unfolding owned_report_def d4_def report_by_id_def
    by (simp add: first_row_add first_row_None rep_def)
  then have cont: "report_content (gn_client g) (gn_sha g) (gn_max_bytes g) (rd_report_id rd) (an_consumer r) d4 w' = Inr (rep, pdf)"
    by (rule stored_content [OF _ store _ pdf]) (simp add: rep_def artifact_def key_def)
  have st: "an_state r3 = An_Completed" "an_result r3 = Some body" by (simp_all add: r3_def)
  have "resolve_artifact aid (an_consumer r) d4 = Inr rep" by (simp add: resolve_artifact_def own rf st)
  with run g4 st cont show ?thesis by blast
qed

section \<open>Accepted submissions\<close>

lemma key_owner_row:
  assumes inv: "api_inv d" and a: "a \<in> set (analyses d)"
  shows "key_owner (an_consumer a) (an_key a) d = Some a"
proof (cases "key_owner (an_consumer a) (an_key a) d")
  case (Some x)
  then have x: "x \<in> set (analyses d)" "an_consumer x = an_consumer a" "an_key x = an_key a"
    by (auto simp: key_owner_def dest: first_row_Some)
  have "x = a" by (rule distinct_keys_unique [of "\<lambda>a. (an_consumer a, an_key a)" "analyses d"]) (use inv x a in \<open>simp_all add: api_inv_def\<close>)
  with Some show ?thesis by simp
qed (use a in \<open>auto simp: key_owner_def first_row_None\<close>)

lemma key_owner_stays:
  assumes steps: "(api_step g)\<^sup>*\<^sup>* d d'" and inv: "api_inv d" and own: "key_owner consumer key d = Some a"
  shows "\<exists>a'. key_owner consumer key d' = Some a' \<and> keeps a a'"
proof -
  have good: "api_inv d'" "api_mono d d'" using api_steps_good [OF steps inv] by (simp_all add: api_good_def)
  have a: "a \<in> set (analyses d)" "an_consumer a = consumer" "an_key a = key"
    using own by (auto simp: key_owner_def dest: first_row_Some)
  obtain a' where a': "get_row an_id (an_id a) (analyses d') = Some a'" "keeps a a'"
    using api_monoD(1) [OF good(2) get_row_distinct [OF api_invD(1) [OF inv] a(1)]] by blast
  with key_owner_row [OF good(1), of a'] get_row_Some [OF a'(1)] keeps_id [OF a'(2)] a(2,3) show ?thesis by auto
qed

lemma tx_Inr: "tx ev body (d, w, n) = (Inr x, s') \<Longrightarrow>
    \<exists>d'. body (ev_now ev n) (ev_other ev n d) = (Inr x, d') \<and> s' = (d', w, Suc n)"
  unfolding tx_def by (rule transact_Inr)

definition accepted :: "uuid \<Rightarrow> string \<Rightarrow> string \<Rightarrow> accepted_resource \<Rightarrow> api_db \<Rightarrow> bool" where
  "accepted consumer key h res d = (\<exists>a. key_owner consumer key d = Some a \<and> an_id a = ac_id res \<and> an_hash a = h)"

lemma accepted_stays:
  assumes "(api_step g)\<^sup>*\<^sup>* d d'" "api_inv d" "accepted consumer key h res d"
  shows "accepted consumer key h res d'"
  using key_owner_stays [OF assms(1,2)] assms(3) by (fastforce simp: accepted_def keeps_def analysis_fixed_def)

lemma insert_accepted:
  assumes "insert_analysis (new_analysis now seconds aid consumer request task key p h) d = (Inr x, d')"
  shows "accepted consumer key h \<lparr>ac_id = aid, ac_state = An_Queued\<rparr> d'"
  using assms by (auto simp: insert_analysis_def accepted_def key_owner_def new_analysis_def first_row_add split: if_splits)

lemma adopt_accepted: "adopt_existing consumer key h d = (Inr res, d') \<Longrightarrow> accepted consumer key h res d'"
  by (auto simp: adopt_existing_def accepted_def split: option.splits if_splits)

lemma submit_accepted:
  assumes ev: "well_behaved (api_step g) ev" and inv: "api_inv d"
    and run: "submit ev publish digest seconds aid request task consumer key rq (d, w, n) = (Inr res, (d', w', n'))"
  shows "accepted consumer key (canonical_request_hash digest rq) res d'"
proof -
  let ?h = "canonical_request_hash digest rq"
  let ?ins = "\<lambda>now. insert_analysis (new_analysis now seconds aid consumer request task key (canonical_request_json rq) ?h)"
  let ?m = "\<lambda>now. catch (cbind (tx ev (\<lambda>_. ?ins now)) (\<lambda>_. ret \<lparr>ac_id = aid, ac_state = An_Queued\<rparr>))
        (\<lambda>e. if e = Integrity_Error then tx ev (\<lambda>_. adopt_existing consumer key ?h) else throw e)"
  from run have "cbind (?m (ev_now ev n)) (\<lambda>res. cbind (catch (dispatch_analysis ev publish (ac_id res)) (\<lambda>_. ret ())) (\<lambda>_. ret res))
      (d, w, Suc n) = (Inr res, (d', w', n'))"
    unfolding submit_def by (auto simp: clock_def dest!: cbind_InrD [of "clock ev"])
  from cbind_InrD [OF this] obtain s1 where m: "?m (ev_now ev n) (d, w, Suc n) = (Inr res, s1)"
    and rest: "(cbind (catch (dispatch_analysis ev publish (ac_id res)) (\<lambda>_. ret ())) (\<lambda>_. ret res)) s1 = (Inr res, (d', w', n'))"
    by (auto simp: ret_def dest!: cbind_InrD)
  have insert_steps: "steps_from (api_step g) (tx ev (\<lambda>_. ?ins now)) s" for now s
    by (rule steps_tx [OF ev], rule api_step1, rule submitted) simp
  have first: "accepted consumer key ?h res (fst s1) \<and> (api_step g)\<^sup>*\<^sup>* d (fst s1)"
    using catch_InrD [OF m]
  proof
    assume "cbind (tx ev (\<lambda>_. ?ins (ev_now ev n))) (\<lambda>_. ret \<lparr>ac_id = aid, ac_state = An_Queued\<rparr>) (d, w, Suc n) = (Inr res, s1)"
    then obtain x s0 where t: "tx ev (\<lambda>_. ?ins (ev_now ev n)) (d, w, Suc n) = (Inr x, s0)"
      and res: "res = \<lparr>ac_id = aid, ac_state = An_Queued\<rparr>" "s0 = s1"
      by (auto simp: ret_def dest!: cbind_InrD)
    from tx_Inr [OF t] steps_fromD [OF insert_steps t] res show ?thesis by (auto dest: insert_accepted)
  next
    assume "\<exists>e s0. cbind (tx ev (\<lambda>_. ?ins (ev_now ev n))) (\<lambda>_. ret \<lparr>ac_id = aid, ac_state = An_Queued\<rparr>) (d, w, Suc n) = (Inl e, s0)
      \<and> (if e = Integrity_Error then tx ev (\<lambda>_. adopt_existing consumer key ?h) else throw e) s0 = (Inr res, s1)"
    then obtain e s0 where c: "cbind (tx ev (\<lambda>_. ?ins (ev_now ev n))) (\<lambda>_. ret \<lparr>ac_id = aid, ac_state = An_Queued\<rparr>) (d, w, Suc n) = (Inl e, s0)"
      and a: "tx ev (\<lambda>_. adopt_existing consumer key ?h) s0 = (Inr res, s1)"
      by (auto simp: throw_def split: if_splits)
    have "steps_from (api_step g) (cbind (tx ev (\<lambda>_. ?ins (ev_now ev n))) (\<lambda>_. ret \<lparr>ac_id = aid, ac_state = An_Queued\<rparr>)) (d, w, Suc n)"
      by (intro steps_bind insert_steps stepping)
    from steps_fromD [OF this c] have before: "(api_step g)\<^sup>*\<^sup>* d (fst s0)" by simp
    obtain d0 w0 n0 where s0: "s0 = (d0, w0, n0)" by (cases s0) auto
    have adopt: "steps_from (api_step g) (tx ev (\<lambda>_. adopt_existing consumer key ?h)) s0"
      by (rule steps_tx [OF ev]) (auto dest: adopt_existing_reads)
    from tx_Inr [OF a [unfolded s0]] rtranclp_trans [OF before steps_fromD [OF adopt a]] show ?thesis by (auto dest: adopt_accepted)
  qed
  have "steps_from (api_step g) (cbind (catch (dispatch_analysis ev publish (ac_id res)) (\<lambda>_. ret ())) (\<lambda>_. ret res)) s1"
    by (intro steps_bind steps_catch dispatch_steps [OF ev] stepping)
  from steps_fromD [OF this rest] have tail: "(api_step g)\<^sup>*\<^sup>* (fst s1) d'" by simp
  have "api_inv (fst s1)" using api_steps_good [of g d "fst s1"] first inv by (simp add: api_good_def)
  with accepted_stays [OF tail] first show ?thesis by blast
qed

section \<open>Resolving a report\<close>

lemma reachable_inv:
  assumes "(api_step g)\<^sup>*\<^sup>* api_empty d" shows "api_inv d" "g \<Longrightarrow> paired d"
  using api_steps_good [OF assms api_empty_inv(1)] api_empty_inv(2) by (auto simp: api_good_def)

lemma resolve_total:
  assumes inv: "api_inv d" and pair: "paired d"
  shows "resolve_artifact aid consumer d \<noteq> Inl Report_Invariant_Violation"
proof (cases "owned_analysis aid consumer d")
  case (Some a)
  then have a: "a \<in> set (analyses d)" "an_id a = aid" by (auto simp: owned_analysis_def dest: first_row_Some)
  show ?thesis
  proof (cases "an_state a = An_Completed")
    case True
    with pair a have "has_report aid d" by (auto simp: paired_def)
    with report_for_has [OF inv, of aid] obtain r where "report_for aid report_artifact_version d = Some r" by blast
    with Some True show ?thesis by (simp add: resolve_artifact_def)
  qed (use Some in \<open>cases "an_state a"; simp add: resolve_artifact_def\<close>)
qed (simp add: resolve_artifact_def)

lemma one_row:
  assumes "distinct (map f xs)" shows "length (filter (\<lambda>x. f x = k) xs) = (if k \<in> f ` set xs then 1 else 0)"
  using assms by (induction xs) (auto simp: filter_empty_conv image_iff)

lemma one_report:
  assumes inv: "api_inv d" and pair: "paired d" and a: "a \<in> set (analyses d)"
  shows "length (filter (\<lambda>r. ra_analysis_id (rw_artifact r) = an_id a) (reports d)) = (if an_state a = An_Completed then 1 else 0)"
proof -
  have "distinct (map (\<lambda>r. ra_analysis_id (rw_artifact r)) (reports d))" using inv by (simp add: api_inv_def)
  moreover have "an_state a = An_Completed \<longleftrightarrow> an_id a \<in> (\<lambda>r. ra_analysis_id (rw_artifact r)) ` set (reports d)"
    using pair a unfolding paired_def has_report_image set_map by blast
  ultimately show ?thesis by (simp add: one_row)
qed

lemma completed_resolves:
  assumes inv: "api_inv d" and pair: "paired d" and a: "a \<in> set (analyses d)" "an_state a = An_Completed"
  shows "\<exists>row. resolve_artifact (an_id a) (an_consumer a) d = Inr row"
proof -
  have "owned_analysis (an_id a) (an_consumer a) d = Some a"
  proof (cases "owned_analysis (an_id a) (an_consumer a) d")
    case (Some b)
    then have b: "b \<in> set (analyses d)" "an_id b = an_id a" by (auto simp: owned_analysis_def dest: first_row_Some)
    with distinct_keys_unique [OF api_invD(1) [OF inv] b(1) a(1)] Some show ?thesis by simp
  qed (use a in \<open>auto simp: owned_analysis_def first_row_None\<close>)
  moreover have "has_report (an_id a) d" using pair a by (auto simp: paired_def)
  with report_for_has [OF inv, of "an_id a"] obtain r where "report_for (an_id a) report_artifact_version d = Some r" by blast
  ultimately show ?thesis using a(2) by (simp add: resolve_artifact_def)
qed

lemma resolve_retrieve:
  assumes inv: "api_inv d" and res: "resolve_artifact aid consumer d = Inr row"
  shows "ra_analysis_id (rw_artifact row) = aid \<and> retrieve_report (ra_report_id (rw_artifact row)) consumer d = Inr row"
proof -
  from res have own: "owned_analysis aid consumer d \<noteq> None" and row: "report_for aid report_artifact_version d = Some row"
    by (auto simp: resolve_artifact_def split: option.splits if_splits)
  note r = report_for_Some [OF row]
  have "owned_report (ra_report_id (rw_artifact row)) consumer d = Some row"
  proof (cases "owned_report (ra_report_id (rw_artifact row)) consumer d")
    case (Some x)
    then have "x \<in> set (reports d)" "report_key x = report_key row"
      by (auto simp: owned_report_def report_key_def dest: first_row_Some)
    with distinct_keys_unique [OF api_invD(2) [OF inv] this(1), of row] r Some show ?thesis by simp
  qed (use r own in \<open>auto simp: owned_report_def first_row_None\<close>)
  with r show ?thesis by (simp add: retrieve_report_def)
qed

section \<open>A concrete service\<close>

definition fx_env :: api_env where
  "fx_env = \<lparr>ev_fault = \<lambda>_. Healthy, ev_other = \<lambda>_ d. d, ev_now = \<lambda>_. 5\<rparr>"

definition fx_row :: analysis_row where
  "fx_row = new_analysis 0 300 1 2 3 4 ''key'' JNull ''h''"

definition fx_db :: api_db where
  "fx_db = \<lparr>analyses = [fx_row], dispatches = [new_dispatch 0 1 4], reports = []\<rparr>"

definition fx_client :: "(string \<times> string) list object_client" where
  "fx_client = \<lparr>oc_put = \<lambda>k b m w. (True, (k, b) # w),
     oc_get = \<lambda>k w. map_option (\<lambda>b. (Some (int (length b)), b)) (map_of w k),
     oc_head = \<lambda>k w. map_option (\<lambda>b. (int (length b), Some report_mime_type)) (map_of w k),
     oc_delete = \<lambda>k w. (True, filter (\<lambda>(k', b). k' \<noteq> k) w)\<rparr>"

definition fx_generator :: "(string \<times> string) list generator" where
  "fx_generator = \<lparr>gn_client = fx_client, gn_sha = \<lambda>_. replicate 64 CHR ''0'', gn_max_bytes = 100,
     gn_versions = \<lparr>rv_schema = ''1'', rv_projection = ''1'', rv_prompt = ''1'', rv_narrative_schema = ''1'', rv_provider = ''p'',
       rv_presentation_schema = ''1'', rv_presentation_policy = ''1'', rv_template = ''1'', rv_stylesheet = ''1'', rv_chart = ''1'',
       rv_renderer = ''1''\<rparr>\<rparr>"

definition fx_rendering :: rendering where
  "fx_rendering = \<lparr>rd_canonical = True, rd_report_id = 9,
     rd_narrative = Some \<lparr>np_model_id = None, np_mode = ''fallback'', np_fallback = Some ''disabled''\<rparr>, rd_pdf = Some ''%PDF-1''\<rparr>"

definition fx_execute :: "json \<Rightarrow> outcome option" where
  "fx_execute payload = Some (Completed_Outcome (JBool True) ''fingerprint'')"

definition fx_publish :: "(string \<times> string) list broker" where
  "fx_publish aid task w = (True, w)"

lemma fx_steps: "(api_step g)\<^sup>*\<^sup>* api_empty fx_db"
  by (rule api_step1, rule submitted [of 0 300 1 2 3 4 "''key''" JNull "''h''"])
     (simp add: insert_analysis_def api_empty_def fx_db_def fx_row_def new_analysis_def key_owner_def first_row_def get_row_def add_row_def)

lemma fx_get: "get_row an_id 1 (analyses fx_db) = Some fx_row"
  by (simp add: fx_db_def fx_row_def get_row_def new_analysis_def)

lemma fx_behaved: "well_behaved (api_step g) fx_env"
  by (simp add: well_behaved_def fx_env_def)

lemma fx_quiet: "quiet fx_env"
  by (simp add: quiet_def fx_env_def)

lemma fx_fields: "an_state fx_row = An_Queued" "an_success fx_row = None" "an_deadline fx_row = 300" "an_consumer fx_row = 2"
  "an_payload fx_row = JNull" "an_key fx_row = ''key''"
  by (simp_all add: fx_row_def new_analysis_def)

lemma fx_sha: "length (gn_sha fx_generator x) = 64"
  by (simp add: fx_generator_def)

lemma fx_stores: "stores_object (gn_client fx_generator) k b w ((k, b) # w)"
  by (simp add: stores_object_def fx_generator_def fx_client_def)

lemma fx_rd: "rd_canonical fx_rendering" "rd_report_id fx_rendering = 9" "rd_pdf fx_rendering = Some ''%PDF-1''"
  "rd_narrative fx_rendering = Some \<lparr>np_model_id = None, np_mode = ''fallback'', np_fallback = Some ''disabled''\<rparr>"
  by (simp_all add: fx_rendering_def)

lemma fx_rest: "ev_now fx_env k = 5" "fx_execute j = Some (Completed_Outcome (JBool True) ''fingerprint'')"
  "gn_max_bytes fx_generator = 100" "report_by_id 9 fx_db = None"
  by (simp_all add: fx_env_def fx_execute_def fx_generator_def report_by_id_def first_row_def fx_db_def)

lemma fx_hyps: "an_state fx_row \<notin> terminal_states" "ev_now fx_env k < an_deadline fx_row"
  "starts_with ''%PDF-'' ''%PDF-1''" "length ''%PDF-1'' \<le> gn_max_bytes fx_generator"
  "report_by_id (rd_report_id fx_rendering) fx_db = None"
  by (simp_all add: fx_fields fx_rest fx_rd terminal_states_def starts_with_def)

lemmas fx_undisturbed = fx_quiet reachable_inv(1) [OF fx_steps] reachable_inv(2) [OF fx_steps TrueI] fx_get fx_hyps(1) fx_fields(2)
  fx_hyps(2) fx_rest(2) [where j = "an_payload fx_row"] fx_rd(1) fx_rd(4) fx_rd(3) fx_hyps(5) fx_hyps(3,4) fx_stores [where w = "[]"]

lemma fx_run: "\<exists>d w n a row. execute_analysis fx_env True (Some fx_generator) fx_execute fx_rendering 1 (fx_db, [], 0)
      = (Inr (W_State An_Completed), (d, w, n))
    \<and> get_row an_id 1 (analyses d) = Some a \<and> an_state a = An_Completed \<and> resolve_artifact 1 2 d = Inr row"
  using undisturbed_run [where exec = fx_execute and ev = fx_env and g = fx_generator and rd = fx_rendering, OF fx_undisturbed, of 0]
  unfolding fx_fields by blast

lemma fx_reached:
  assumes "execute_analysis fx_env True (Some fx_generator) fx_execute fx_rendering 1 (fx_db, [], 0) = (Inr st, (d, w, n))"
  shows "(api_step True)\<^sup>*\<^sup>* api_empty d"
proof -
  have "steps_from (api_step True) (execute_analysis fx_env True (Some fx_generator) fx_execute fx_rendering 1) (fx_db, [], 0)"
    using worker_steps [of "Some fx_generator" fx_env True fx_execute fx_rendering 1 "(fx_db, [], 0)"] fx_behaved
    by (simp add: fx_sha)
  from steps_fromD [OF this assms] show ?thesis using rtranclp_trans [OF fx_steps] by simp
qed

text \<open>The same key is submitted twice.\<close>

definition fx_request :: json where
  "fx_request = JObj [(''place'', JStr ''p''), (''sector'', JStr ''gym'')]"

definition fx_request_again :: json where
  "fx_request_again = JObj [(''sector'', JStr ''gym''), (''place'', JStr ''p'')]"

definition fx_digest :: "json \<Rightarrow> string" where
  "fx_digest j = (if j = canonical_request_json fx_request then ''h'' else ''k'')"

lemma fx_digest:
  "fx_digest (canonical_request_json fx_request_again) = fx_digest (canonical_request_json fx_request)
    \<Longrightarrow> canonical_request_json fx_request_again = canonical_request_json fx_request"
  by (simp add: fx_digest_def split: if_splits)

definition fx_first :: "((api_db, (string \<times> string) list) run, api_error, accepted_resource) call" where
  "fx_first = submit fx_env fx_publish fx_digest 300 11 3 4 2 ''again'' fx_request"

definition fx_second :: "((api_db, (string \<times> string) list) run, api_error, accepted_resource) call" where
  "fx_second = submit fx_env fx_publish fx_digest 300 12 3 5 2 ''again'' fx_request_again"

lemma fx_submits:
  "\<exists>d1 w1 n1 d3 w3 n3. fx_first (fx_db, [], 0) = (Inr \<lparr>ac_id = 11, ac_state = An_Queued\<rparr>, (d1, w1, n1))
     \<and> fx_second (d1, w1, n1) = (Inr \<lparr>ac_id = 11, ac_state = An_Queued\<rparr>, (d3, w3, n3))"
proof -
  have r: "fst (fx_first (fx_db, [], 0)) = Inr \<lparr>ac_id = 11, ac_state = An_Queued\<rparr>"
    "fst (fx_second (snd (fx_first (fx_db, [], 0)))) = Inr \<lparr>ac_id = 11, ac_state = An_Queued\<rparr>"
    by code_simp+
  obtain d1 w1 n1 where s1: "snd (fx_first (fx_db, [], 0)) = (d1, w1, n1)" by (cases "snd (fx_first (fx_db, [], 0))")
  obtain d3 w3 n3 where s3: "snd (fx_second (d1, w1, n1)) = (d3, w3, n3)" by (cases "snd (fx_second (d1, w1, n1))")
  show ?thesis
    by (intro exI conjI) (use r s1 s3 in \<open>auto intro: prod_eqI\<close>)
qed

section \<open>Properties\<close>

text \<open>C11: In every reachable database all rows satisfy the check constraints of the tables, which no
  operation tests: a running analysis has no result and no end, a success mark precedes the deadline
  and belongs to a running or completed analysis, and a report is either ready with hash, type, name,
  positive length and storage key, or failed with a failure code and none of them.\<close>

theorem reachable_rows_satisfy_checks:
  assumes "(api_step g)\<^sup>*\<^sup>* api_empty d"
  shows "(\<forall>a \<in> set (analyses d). analysis_checks a) \<and> (\<forall>r \<in> set (reports d). artifact_checks (rw_artifact r))"
  using api_invD(3,4) [OF reachable_inv(1) [OF assms]] by (auto simp: analysis_ok_def artifact_ok_def)

theorem reachable_rows_satisfy_checks_witness:
  "\<exists>d a row. (api_step True)\<^sup>*\<^sup>* api_empty d \<and> a \<in> set (analyses d) \<and> an_state a = An_Completed \<and> analysis_checks a
    \<and> row \<in> set (reports d) \<and> artifact_checks (rw_artifact row)"
proof -
  obtain d w n a row where run: "execute_analysis fx_env True (Some fx_generator) fx_execute fx_rendering 1 (fx_db, [], 0)
      = (Inr (W_State An_Completed), (d, w, n))" and a: "get_row an_id 1 (analyses d) = Some a" "an_state a = An_Completed"
    and row: "resolve_artifact 1 2 d = Inr row"
    using fx_run by blast
  have reach: "(api_step True)\<^sup>*\<^sup>* api_empty d" by (rule fx_reached [OF run])
  have "a \<in> set (analyses d)" "row \<in> set (reports d)"
    using get_row_Some [OF a(1)] row report_for_Some by (auto simp: resolve_artifact_def split: option.splits if_splits)
  with reachable_rows_satisfy_checks [OF reach] reach a(2) show ?thesis by blast
qed

text \<open>C6: A terminal analysis is never changed again by any step of the service or its workers, and
  once an analysis carries the mark of a canonical success it is never failed or timed out: it stays
  running, with the same mark, until it is completed.\<close>

theorem terminal_analysis_is_final:
  assumes "(api_step g)\<^sup>*\<^sup>* api_empty d" "(api_step g)\<^sup>*\<^sup>* d d'" "get_row an_id aid (analyses d) = Some a"
  shows "\<exists>a'. get_row an_id aid (analyses d') = Some a' \<and> (an_state a \<in> terminal_states \<longrightarrow> a' = a)
    \<and> (an_success a \<noteq> None \<longrightarrow> an_success a' = an_success a \<and> an_state a' \<in> {An_Running, An_Completed})"
proof -
  note inv = reachable_inv(1) [OF assms(1)]
  have good: "api_inv d'" "api_mono d d'" using api_steps_good [OF assms(2) inv] by (simp_all add: api_good_def)
  from api_monoD(1) [OF good(2) assms(3)] obtain a' where a': "get_row an_id aid (analyses d') = Some a'" "keeps a a'" by blast
  from row_ok [OF good(1) a'(1)] have "an_success a' \<noteq> None \<longrightarrow> an_state a' \<in> {An_Running, An_Completed}"
    by (auto simp: analysis_ok_def analysis_checks_def)
  with a' show ?thesis by (auto simp: keeps_def)
qed

theorem terminal_analysis_is_final_witness:
  "(\<exists>d w n. execute_analysis fx_env True (Some fx_generator) fx_execute fx_rendering 1 (fx_db, [], 0)
       = (Inr (W_State An_Completed), (d, w, n)) \<and> (\<exists>a. get_row an_id 1 (analyses d) = Some a \<and> an_state a = An_Completed
         \<and> (\<forall>aid now n d'. start_body aid now d = (Inr n, d') \<longrightarrow> get_row an_id 1 (analyses d') = Some a)))"
proof -
  obtain d w n a where run: "execute_analysis fx_env True (Some fx_generator) fx_execute fx_rendering 1 (fx_db, [], 0)
      = (Inr (W_State An_Completed), (d, w, n))" and a: "get_row an_id 1 (analyses d) = Some a" "an_state a = An_Completed"
    using fx_run by blast
  have reach: "(api_step True)\<^sup>*\<^sup>* api_empty d" by (rule fx_reached [OF run])
  have "get_row an_id 1 (analyses d') = Some a" if "start_body aid now d = (Inr x, d')" for aid now x d'
    using terminal_analysis_is_final [OF reach api_step1 [OF started [OF that]] a(1)] a(2) by (simp add: terminal_states_def)
  with run a show ?thesis by blast
qed

text \<open>C8: In every database that a service whose workers have a report generator can reach, a completed
  analysis has exactly one report and any other analysis has none. So resolving the report of an
  analysis never meets the state that the code calls an invariant violation, it finds the report of
  every completed analysis for its consumer, and what it returns belongs to that analysis and is the
  one that its identifier retrieves.\<close>

theorem resolve_never_violates:
  assumes "(api_step True)\<^sup>*\<^sup>* api_empty d"
  shows "(\<forall>a \<in> set (analyses d).
        length (filter (\<lambda>r. ra_analysis_id (rw_artifact r) = an_id a) (reports d)) = (if an_state a = An_Completed then 1 else 0)
        \<and> (an_state a = An_Completed \<longrightarrow> (\<exists>row. resolve_artifact (an_id a) (an_consumer a) d = Inr row)))
    \<and> resolve_artifact aid consumer d \<noteq> Inl Report_Invariant_Violation
    \<and> (\<forall>row. resolve_artifact aid consumer d = Inr row \<longrightarrow>
         ra_analysis_id (rw_artifact row) = aid \<and> retrieve_report (ra_report_id (rw_artifact row)) consumer d = Inr row)"
proof -
  note inv = reachable_inv(1) [OF assms] reachable_inv(2) [OF assms TrueI]
  show ?thesis using one_report [OF inv] completed_resolves [OF inv] resolve_total [OF inv] resolve_retrieve [OF inv(1)] by blast
qed

theorem resolve_never_violates_witness:
  "\<exists>d a row. (api_step True)\<^sup>*\<^sup>* api_empty d \<and> resolve_artifact 1 2 d = Inr row
    \<and> a \<in> set (analyses d) \<and> an_id a = 1 \<and> length (filter (\<lambda>r. ra_analysis_id (rw_artifact r) = an_id a) (reports d)) = 1
    \<and> retrieve_report (ra_report_id (rw_artifact row)) 2 d = Inr row"
proof -
  obtain d w n a row where run: "execute_analysis fx_env True (Some fx_generator) fx_execute fx_rendering 1 (fx_db, [], 0)
      = (Inr (W_State An_Completed), (d, w, n))" and a: "get_row an_id 1 (analyses d) = Some a" "an_state a = An_Completed"
    and row: "resolve_artifact 1 2 d = Inr row"
    using fx_run by blast
  have reach: "(api_step True)\<^sup>*\<^sup>* api_empty d" by (rule fx_reached [OF run])
  note c = resolve_never_violates [OF reach, of 1 2]
  have mem: "a \<in> set (analyses d)" "an_id a = 1" using get_row_Some [OF a(1)] by blast+
  have "length (filter (\<lambda>r. ra_analysis_id (rw_artifact r) = an_id a) (reports d)) = 1" using c mem(1) a(2) by fastforce
  moreover have "retrieve_report (ra_report_id (rw_artifact row)) 2 d = Inr row" using c row by blast
  ultimately show ?thesis using reach row mem by blast
qed

text \<open>C7: An execution of the worker takes the database that it is started in, whichever it is, to the one
  that it leaves by a sequence of steps of the database, whatever transactions are rolled back or lose
  their acknowledgement, whatever the object storage answers, whether rendering fails, and whatever
  other processes commit in between; so it goes back on nothing that was committed, and a reachable
  database stays reachable.\<close>

theorem worker_refines_steps:
  assumes "well_behaved (api_step (gn \<noteq> None)) ev"
    "\<And>g x. gn = Some g \<Longrightarrow> length (gn_sha g x) = 64"
  shows "(api_step (gn \<noteq> None))\<^sup>*\<^sup>* d (fst (snd (execute_analysis ev locked gn exec rd aid (d, w, n))))
    \<and> ((api_step (gn \<noteq> None))\<^sup>*\<^sup>* api_empty d
         \<longrightarrow> (api_step (gn \<noteq> None))\<^sup>*\<^sup>* api_empty (fst (snd (execute_analysis ev locked gn exec rd aid (d, w, n)))))"
  using worker_steps [OF assms, of locked exec rd aid "(d, w, n)"] rtranclp_trans [of _ api_empty d]
  by (simp add: steps_from_def)

theorem worker_refines_steps_witness:
  "(api_step True)\<^sup>*\<^sup>* fx_db (fst (snd (execute_analysis fx_env True (Some fx_generator) fx_execute fx_rendering 1 (fx_db, [], 0))))"
  using worker_refines_steps [of "Some fx_generator" fx_env fx_db True fx_execute fx_rendering 1 "[]" 0] fx_behaved
  by (simp add: fx_sha)

text \<open>C10: Two accepted submissions of one consumer with the same idempotency key, with any steps
  between them and around them, return the same analysis, and they are submissions of the same
  canonical request: the hash that the code compares is equal, and so are the canonical requests,
  if the digest does not collide on these two.\<close>

theorem submission_is_idempotent:
  assumes "(api_step g)\<^sup>*\<^sup>* api_empty d" "well_behaved (api_step g) ev" "well_behaved (api_step g) ev'"
    and "submit ev publish digest seconds aid request task consumer key rq (d, w, n) = (Inr res, (d1, w1, n1))"
    and "(api_step g)\<^sup>*\<^sup>* d1 d2"
    and "submit ev' publish' digest seconds' aid' request' task' consumer key rq' (d2, w2, n2) = (Inr res', (d3, w3, n3))"
    and "digest (canonical_request_json rq') = digest (canonical_request_json rq) \<Longrightarrow> canonical_request_json rq' = canonical_request_json rq"
  shows "ac_id res' = ac_id res \<and> canonical_request_hash digest rq' = canonical_request_hash digest rq
    \<and> canonical_request_json rq' = canonical_request_json rq"
proof -
  note inv = reachable_inv(1) [OF assms(1)]
  have s1: "(api_step g)\<^sup>*\<^sup>* d d1" using steps_fromD [OF submit_steps [OF assms(2)] assms(4)] by simp
  have inv1: "api_inv d1" using api_steps_good [OF s1 inv] by (simp add: api_good_def)
  have inv2: "api_inv d2" using api_steps_good [OF assms(5) inv1] by (simp add: api_good_def)
  have s2: "(api_step g)\<^sup>*\<^sup>* d2 d3" using steps_fromD [OF submit_steps [OF assms(3)] assms(6)] by simp
  have "accepted consumer key (canonical_request_hash digest rq) res d3"
    using accepted_stays [OF rtranclp_trans [OF assms(5) s2] inv1 submit_accepted [OF assms(2) inv assms(4)]] .
  moreover have "accepted consumer key (canonical_request_hash digest rq') res' d3"
    by (rule submit_accepted [OF assms(3) inv2 assms(6)])
  ultimately have "ac_id res' = ac_id res \<and> canonical_request_hash digest rq' = canonical_request_hash digest rq"
    by (auto simp: accepted_def)
  with assms(7) show ?thesis by (simp add: canonical_request_hash_def canonical_request_json_def)
qed

theorem submission_is_idempotent_witness:
  "\<exists>d1 w1 n1 d3 w3 n3 res res'. fx_first (fx_db, [], 0) = (Inr res, (d1, w1, n1)) \<and> fx_second (d1, w1, n1) = (Inr res', (d3, w3, n3))
     \<and> ac_id res' = ac_id res \<and> canonical_request_json fx_request_again = canonical_request_json fx_request"
proof -
  obtain d1 w1 n1 d3 w3 n3 where r: "fx_first (fx_db, [], 0) = (Inr \<lparr>ac_id = 11, ac_state = An_Queued\<rparr>, (d1, w1, n1))"
      "fx_second (d1, w1, n1) = (Inr \<lparr>ac_id = 11, ac_state = An_Queued\<rparr>, (d3, w3, n3))"
    using fx_submits by blast
  have "ac_id \<lparr>ac_id = (11 :: uuid), ac_state = An_Queued\<rparr> = ac_id \<lparr>ac_id = (11 :: uuid), ac_state = An_Queued\<rparr>
      \<and> canonical_request_json fx_request_again = canonical_request_json fx_request"
    using submission_is_idempotent [OF fx_steps fx_behaved fx_behaved r(1) [unfolded fx_first_def] rtranclp.rtrancl_refl
        r(2) [unfolded fx_second_def] fx_digest] by blast
  with r show ?thesis by blast
qed

text \<open>C9: When no transaction fails, nobody interferes, the deadline is not reached, the executor
  completes, the report is rendered and the storage keeps what it is given, one execution completes
  the analysis with the result of the executor, its report resolves, and its content is exactly the
  rendered PDF.\<close>

theorem execution_delivers_report:
  assumes "quiet ev" "(api_step True)\<^sup>*\<^sup>* api_empty d" "get_row an_id aid (analyses d) = Some r"
    and "an_state r \<notin> terminal_states" "an_success r = None" "\<And>k. ev_now ev k < an_deadline r"
    and "exec (an_payload r) = Some (Completed_Outcome body fp)"
    and "rd_canonical rd" "rd_narrative rd = Some np" "rd_pdf rd = Some pdf" "report_by_id (rd_report_id rd) d = None"
    and "starts_with ''%PDF-'' pdf" "length pdf \<le> gn_max_bytes g"
    and "stores_object (gn_client g) (storage_key_of (an_consumer r) aid) pdf w w'"
  shows "\<exists>d' n' a row. execute_analysis ev True (Some g) exec rd aid (d, w, n) = (Inr (W_State An_Completed), (d', w', n'))
    \<and> get_row an_id aid (analyses d') = Some a \<and> an_state a = An_Completed \<and> an_result a = Some body
    \<and> resolve_artifact aid (an_consumer r) d' = Inr row
    \<and> report_content (gn_client g) (gn_sha g) (gn_max_bytes g) (rd_report_id rd) (an_consumer r) d' w' = Inr (row, pdf)"
  by (rule undisturbed_run) (rule assms reachable_inv(1) [OF assms(2)] reachable_inv(2) [OF assms(2) TrueI])+

theorem execution_delivers_report_witness:
  "\<exists>d' n' a row. execute_analysis fx_env True (Some fx_generator) fx_execute fx_rendering 1 (fx_db, [], 0)
      = (Inr (W_State An_Completed), (d', [(storage_key_of 2 1, ''%PDF-1'')], n'))
    \<and> get_row an_id 1 (analyses d') = Some a \<and> an_state a = An_Completed \<and> an_result a = Some (JBool True)
    \<and> resolve_artifact 1 2 d' = Inr row
    \<and> report_content (gn_client fx_generator) (gn_sha fx_generator) 100 9 2 d' [(storage_key_of 2 1, ''%PDF-1'')] = Inr (row, ''%PDF-1'')"
  using execution_delivers_report [where exec = fx_execute and ev = fx_env and g = fx_generator and rd = fx_rendering,
      OF fx_quiet fx_steps fx_get fx_hyps(1) fx_fields(2) fx_hyps(2) fx_rest(2) [where j = "an_payload fx_row"] fx_rd(1) fx_rd(4) fx_rd(3)
        fx_hyps(5) fx_hyps(3,4) fx_stores [where w = "[]"], of 0]
  unfolding fx_fields fx_rest fx_rd .

end
