(* ===== verification/ApiAuth.thy ===== *)
theory ApiAuth
  imports PyUuid "HOL-Library.List_Lexorder" "HOL-Library.Char_ord"
begin

text \<open>
  Service keys of the SiteScore API (\<open>auth.py\<close>): provisioning a key and authenticating a request
  with it. The digest of a secret under the pepper (HMAC-SHA256) and the two random tokens are
  parameters; the tables are lists of rows.
\<close>

section \<open>Tables and errors\<close>

record consumer_row =
  co_id :: uuid
  co_active :: bool

record key_row =
  ky_record :: uuid
  ky_key_id :: string
  ky_consumer :: uuid
  ky_digest :: string
  ky_scopes :: "string list"
  ky_active :: bool
  ky_revoked_at :: "int option"

record auth_db =
  consumers :: "consumer_row list"
  service_keys :: "key_row list"

datatype auth_error = Authentication_Required | Invalid_Api_Key | Insufficient_Scope | Auth_Value_Error string
  | Key_Integrity_Error

definition all_scopes :: "string list" where
  "all_scopes = [''analysis:write'', ''analysis:read'', ''report:write'', ''report:read'']"

definition token_prefix :: string where
  "token_prefix = ''ssk1_''"

record authenticated_consumer =
  ac_consumer :: uuid
  ac_key :: uuid
  ac_scopes :: "string list"

text \<open>\<open>ac_scopes\<close> is a \<open>frozenset\<close> in the code: only membership is used.\<close>

definition require_scope :: "authenticated_consumer \<Rightarrow> string \<Rightarrow> (auth_error, unit) result" where
  "require_scope c scope = (if scope \<notin> set (ac_scopes c) then Inl Insufficient_Scope else Inr ())"

section \<open>Strings\<close>

text \<open>\<open>s.split(c, 1)\<close> and \<open>s.partition(c)\<close> where the separator occurs.\<close>

fun split_once :: "char \<Rightarrow> string \<Rightarrow> (string \<times> string) option" where
  "split_once c [] = None"
| "split_once c (x # xs) = (if x = c then Some ([], xs) else map_option (\<lambda>(a, b). (x # a, b)) (split_once c xs))"

text \<open>\<open>str.lower\<close> on ASCII letters; no other character of a header is lowered to an ASCII letter.\<close>

definition ascii_lower :: "char \<Rightarrow> char" where
  "ascii_lower c = (let n = of_char c :: nat in if 65 \<le> n \<and> n \<le> 90 then char_of (n + 32) else c)"

fun drop_prefix :: "string \<Rightarrow> string \<Rightarrow> string option" where
  "drop_prefix [] s = Some s"
| "drop_prefix (p # ps) [] = None"
| "drop_prefix (p # ps) (c # cs) = (if p = c then drop_prefix ps cs else None)"

section \<open>Authentication\<close>

definition split_token :: "string \<Rightarrow> (auth_error, string \<times> string) result" where
  "split_token token = (case drop_prefix token_prefix token of
     None \<Rightarrow> Inl Invalid_Api_Key
   | Some body \<Rightarrow>
       (case split_once (CHR ''.'') body of
          None \<Rightarrow> Inl Invalid_Api_Key
        | Some (key_id, secret) \<Rightarrow> if key_id = [] \<or> secret = [] then Inl Invalid_Api_Key else Inr (key_id, secret)))"

definition bearer_token :: "string option \<Rightarrow> (auth_error, string) result" where
  "bearer_token authorization = (case authorization of
     None \<Rightarrow> Inl Authentication_Required
   | Some header \<Rightarrow>
       (case split_once (CHR '' '') header of
          None \<Rightarrow> Inl Authentication_Required
        | Some (scheme, token) \<Rightarrow>
            if map ascii_lower scheme \<noteq> ''bearer'' \<or> token = [] then Inl Authentication_Required else Inr token))"

text \<open>\<open>hmac.compare_digest\<close> is equality.\<close>

definition check_key :: "(string \<Rightarrow> string \<Rightarrow> string) \<Rightarrow> string \<Rightarrow> string \<Rightarrow> key_row \<Rightarrow> auth_db
    \<Rightarrow> (auth_error, authenticated_consumer) result" where
  "check_key digest pepper secret k db = (
     if \<not> ky_active k \<or> ky_revoked_at k \<noteq> None then Inl Invalid_Api_Key
     else case get_row co_id (ky_consumer k) (consumers db) of
       None \<Rightarrow> Inl Invalid_Api_Key
     | Some c \<Rightarrow>
         if \<not> co_active c then Inl Invalid_Api_Key
         else if ky_digest k \<noteq> digest pepper secret then Inl Invalid_Api_Key
         else if \<not> set (ky_scopes k) \<subseteq> set all_scopes then Inl Invalid_Api_Key
         else Inr \<lparr>ac_consumer = ky_consumer k, ac_key = ky_record k, ac_scopes = ky_scopes k\<rparr>)"

definition authenticate_bearer :: "(string \<Rightarrow> string \<Rightarrow> string) \<Rightarrow> string \<Rightarrow> string option \<Rightarrow> auth_db
    \<Rightarrow> (auth_error, authenticated_consumer) result" where
  "authenticate_bearer digest pepper authorization db =
     rbind (bearer_token authorization) (\<lambda>token.
     rbind (split_token token) (\<lambda>(key_id, secret).
       case get_row ky_key_id key_id (service_keys db) of
         None \<Rightarrow> Inl Invalid_Api_Key
       | Some k \<Rightarrow> check_key digest pepper secret k db))"

section \<open>Provisioning\<close>

text \<open>\<open>scopes\<close> is a set in the code, given here by its members; \<open>key_id\<close>, \<open>secret\<close> and \<open>record_id\<close> are fresh.
  The unique constraint on \<open>key_id\<close> makes the flush fail.\<close>

definition provision_service_key ::
  "(string \<Rightarrow> string \<Rightarrow> string) \<Rightarrow> string \<Rightarrow> uuid \<Rightarrow> string list \<Rightarrow> string \<Rightarrow> string \<Rightarrow> uuid
   \<Rightarrow> (auth_db, auth_error, string) call" where
  "provision_service_key digest pepper consumer_id scopes key_id secret record_id db = (
     if scopes = [] \<or> \<not> set scopes \<subseteq> set all_scopes
     then (Inl (Auth_Value_Error ''scopes must be a non-empty subset of supported service scopes''), db)
     else case get_row co_id consumer_id (consumers db) of
       None \<Rightarrow> (Inl (Auth_Value_Error ''active consumer is required''), db)
     | Some c \<Rightarrow>
         if \<not> co_active c then (Inl (Auth_Value_Error ''active consumer is required''), db)
         else if get_row ky_key_id key_id (service_keys db) \<noteq> None then (Inl Key_Integrity_Error, db)
         else (Inr (token_prefix @ key_id @ CHR ''.'' # secret),
           db\<lparr>service_keys := add_row \<lparr>ky_record = record_id, ky_key_id = key_id, ky_consumer = consumer_id,
              ky_digest = digest pepper secret, ky_scopes = sort (remdups scopes), ky_active = True, ky_revoked_at = None\<rparr>
              (service_keys db)\<rparr>))"

section \<open>Properties\<close>

lemma split_once_append: "c \<notin> set a \<Longrightarrow> split_once c (a @ c # b) = Some (a, b)"
  by (induction a) auto

lemma split_once_SomeD: "split_once c s = Some (a, b) \<Longrightarrow> s = a @ c # b \<and> c \<notin> set a"
  by (induction s arbitrary: a) (auto split: if_splits)

lemma split_once_Some: "split_once c s = Some (a, b) \<longleftrightarrow> s = a @ c # b \<and> c \<notin> set a"
  using split_once_SomeD split_once_append by metis

lemma drop_prefix_append [simp]: "drop_prefix p (p @ s) = Some s"
  by (induction p) simp_all

lemma drop_prefix_Some: "drop_prefix p s = Some r \<longleftrightarrow> s = p @ r"
  by (induction p s rule: drop_prefix.induct) auto

lemma split_token_iff: "split_token token = Inr (key_id, secret) \<longleftrightarrow>
    token = token_prefix @ key_id @ CHR ''.'' # secret \<and> CHR ''.'' \<notin> set key_id \<and> key_id \<noteq> [] \<and> secret \<noteq> []"
proof
  show "split_token token = Inr (key_id, secret)"
    if "token = token_prefix @ key_id @ CHR ''.'' # secret \<and> CHR ''.'' \<notin> set key_id \<and> key_id \<noteq> [] \<and> secret \<noteq> []"
    using that by (simp add: split_token_def split_once_append)
qed (auto simp: split_token_def drop_prefix_Some split_once_Some split: option.splits if_splits)

text \<open>
  C36: a provisioned key authenticates: the token that provisioning returned, sent under any spelling of the
  bearer scheme, is accepted with the pepper it was made with and yields the consumer with exactly the granted
  scopes; each of them passes \<open>require_scope\<close>, any other does not. The tokens of \<open>secrets.token_urlsafe\<close> are
  not empty and contain no point.
\<close>

theorem provisioned_key_authenticates:
  assumes "provision_service_key digest pepper u scopes key_id secret rid db = (Inr token, db')"
    and "key_id \<noteq> []" "secret \<noteq> []" "CHR ''.'' \<notin> set key_id"
    and "map ascii_lower scheme = ''bearer''"
  shows "\<exists>c. authenticate_bearer digest pepper (Some (scheme @ CHR '' '' # token)) db' = Inr c
    \<and> ac_consumer c = u \<and> ac_key c = rid
    \<and> (\<forall>scope. require_scope c scope = (if scope \<in> set scopes then Inr () else Inl Insufficient_Scope))"
proof -
  let ?k = "\<lparr>ky_record = rid, ky_key_id = key_id, ky_consumer = u, ky_digest = digest pepper secret,
     ky_scopes = sort (remdups scopes), ky_active = True, ky_revoked_at = None\<rparr>"
  have token: "token = token_prefix @ key_id @ CHR ''.'' # secret" and db': "db' = db\<lparr>service_keys := add_row ?k (service_keys db)\<rparr>"
    and new: "get_row ky_key_id key_id (service_keys db) = None" and scopes: "set scopes \<subseteq> set all_scopes"
    using assms(1) by (auto simp: provision_service_key_def split: option.splits if_splits)
  obtain c where c: "get_row co_id u (consumers db) = Some c" "co_active c"
    using assms(1) by (auto simp: provision_service_key_def split: option.splits if_splits)
  have "ascii_lower x \<in> set ''bearer''" if "x \<in> set scheme" for x
    using that unfolding assms(5) [symmetric] by simp
  from this [of "CHR '' ''"] have "CHR '' '' \<notin> set scheme" by (auto simp: ascii_lower_def)
  then have "split_once (CHR '' '') (scheme @ CHR '' '' # token) = Some (scheme, token)" by (rule split_once_append)
  then have "bearer_token (Some (scheme @ CHR '' '' # token)) = Inr token"
    using assms(5) token by (simp add: bearer_token_def token_prefix_def)
  moreover have "split_token token = Inr (key_id, secret)" using assms(2-4) token by (simp add: split_token_iff)
  moreover have "check_key digest pepper secret ?k db' = Inr \<lparr>ac_consumer = u, ac_key = rid, ac_scopes = sort (remdups scopes)\<rparr>"
    using c scopes by (simp add: check_key_def db')
  moreover have "get_row ky_key_id key_id (service_keys db') = Some ?k" using new by (simp add: db' row_simps)
  ultimately have "authenticate_bearer digest pepper (Some (scheme @ CHR '' '' # token)) db'
      = Inr \<lparr>ac_consumer = u, ac_key = rid, ac_scopes = sort (remdups scopes)\<rparr>"
    by (simp add: authenticate_bearer_def)
  then show ?thesis by (simp add: require_scope_def)
qed

lemma provisioned_key_authenticates_witness:
  "\<exists>c. authenticate_bearer (\<lambda>p s. p @ s) ''pepper'' (Some ''BEARER ssk1_id.secret'')
      (snd (provision_service_key (\<lambda>p s. p @ s) ''pepper'' 7 [''report:read''] ''id'' ''secret'' 9
        \<lparr>consumers = [\<lparr>co_id = 7, co_active = True\<rparr>], service_keys = []\<rparr>)) = Inr c \<and> ac_consumer c = 7"
proof -
  let ?run = "provision_service_key (\<lambda>p s. p @ s) ''pepper'' 7 [''report:read''] ''id'' ''secret'' 9
        \<lparr>consumers = [\<lparr>co_id = 7, co_active = True\<rparr>], service_keys = []\<rparr>"
  have "?run = (Inr ''ssk1_id.secret'', snd ?run)"
    by (simp add: provision_service_key_def all_scopes_def get_row_def token_prefix_def)
  moreover have "map ascii_lower ''BEARER'' = ''bearer''" by code_simp
  ultimately show ?thesis using provisioned_key_authenticates [where scheme = "''BEARER''"] by fastforce
qed

text \<open>
  C37: authentication is sound: a request is authenticated only by a key that is active and not
  revoked, of an active consumer, whose stored digest is that of the secret in the request, and it gets the
  key's scopes, all of them known ones.
\<close>

theorem authentication_sound:
  assumes "authenticate_bearer digest pepper authorization db = Inr c"
  shows "\<exists>k key_id secret consumer. k \<in> set (service_keys db) \<and> ky_active k \<and> ky_revoked_at k = None
    \<and> consumer \<in> set (consumers db) \<and> co_id consumer = ky_consumer k \<and> co_active consumer
    \<and> ky_key_id k = key_id \<and> ky_digest k = digest pepper secret
    \<and> (\<exists>scheme. authorization = Some (scheme @ CHR '' '' # token_prefix @ key_id @ CHR ''.'' # secret) \<and> map ascii_lower scheme = ''bearer'')
    \<and> ac_consumer c = ky_consumer k \<and> ac_scopes c = ky_scopes k \<and> set (ac_scopes c) \<subseteq> set all_scopes"
proof -
  obtain token key_id secret k where steps: "bearer_token authorization = Inr token" "split_token token = Inr (key_id, secret)"
      "get_row ky_key_id key_id (service_keys db) = Some k" "check_key digest pepper secret k db = Inr c"
    using assms by (auto simp: authenticate_bearer_def rbind_Inr_iff split: option.splits)
  obtain scheme where "authorization = Some (scheme @ CHR '' '' # token)" "map ascii_lower scheme = ''bearer''"
    using steps(1) by (auto simp: bearer_token_def split_once_Some split: option.splits if_splits)
  moreover have "token = token_prefix @ key_id @ CHR ''.'' # secret" using steps(2) by (simp add: split_token_iff)
  moreover obtain consumer where "get_row co_id (ky_consumer k) (consumers db) = Some consumer" "co_active consumer"
    and "ky_active k" "ky_revoked_at k = None" "ky_digest k = digest pepper secret" "set (ky_scopes k) \<subseteq> set all_scopes"
      "c = \<lparr>ac_consumer = ky_consumer k, ac_key = ky_record k, ac_scopes = ky_scopes k\<rparr>"
    using steps(4) by (auto simp: check_key_def split: option.splits if_splits)
  ultimately show ?thesis using get_row_Some [OF steps(3)] get_row_Some [of co_id "ky_consumer k" "consumers db" consumer]
    by (intro exI [of _ k] exI [of _ key_id] exI [of _ secret] exI [of _ consumer]) auto
qed

definition auth_example :: auth_db where
  "auth_example = \<lparr>consumers = [\<lparr>co_id = 7, co_active = True\<rparr>], service_keys = [\<lparr>ky_record = 9, ky_key_id = ''id'', ky_consumer = 7,
     ky_digest = ''ab'', ky_scopes = [], ky_active = True, ky_revoked_at = None\<rparr>]\<rparr>"

lemma authentication_sound_witness:
  "\<exists>k \<in> set (service_keys auth_example). ky_active k \<and> ky_revoked_at k = None \<and> ky_consumer k = 7"
proof -
  have "authenticate_bearer (\<lambda>p s. p @ s) ''a'' (Some ''bearer ssk1_id.b'') auth_example
      = Inr \<lparr>ac_consumer = 7, ac_key = 9, ac_scopes = []\<rparr>" by code_simp
  from authentication_sound [OF this] show ?thesis by auto
qed

end
