(* ===== verification/DataContracts.thy ===== *)
theory DataContracts
  imports CoreConfig PyUuid "HOL-Library.List_Lexorder" "HOL-Library.Char_ord"
begin

text \<open>
  The data contracts of \<open>sitescore-data\<close>: the enums, the checks of \<open>validation.py\<close> and the validated
  dataclasses from a metric value to the normalised feature surface. A dataclass is a record, its
  \<open>__post_init__\<close> the list of its checks in the order of the code (\<open>validated\<close>); the \<open>isinstance\<close> tests
  are the types of the fields. Characters are those of Latin-1, and the messages leave out what the code
  formats into them.
\<close>

section \<open>Checks\<close>

text \<open>A sequence of checks raises what its first failing check raises.\<close>

type_synonym check = "(py_error, unit) result"

definition req :: "bool \<Rightarrow> string \<Rightarrow> check" where
  "req b msg = (if b then Inr () else Inl (ValueError msg))"

fun all_ok :: "check list \<Rightarrow> check" where
  "all_ok [] = Inr ()"
| "all_ok (c # cs) = rbind c (\<lambda>_. all_ok cs)"

definition validated :: "'a \<Rightarrow> check list \<Rightarrow> (py_error, 'a) result" where
  "validated r cs = rbind (all_ok cs) (\<lambda>_. Inr r)"

lemma req_Inr [simp]: "req b msg = Inr u \<longleftrightarrow> b"
  by (simp add: req_def)

lemma all_ok_Cons [simp]: "all_ok (c # cs) = Inr u \<longleftrightarrow> c = Inr () \<and> all_ok cs = Inr ()"
  by (cases c) auto

declare all_ok.simps(2) [simp del]

lemma all_ok_Inr: "all_ok cs = Inr u \<longleftrightarrow> (\<forall>c \<in> set cs. c = Inr ())"
  by (induction cs) auto

lemma all_ok_append [simp]: "all_ok (cs @ ds) = Inr u \<longleftrightarrow> all_ok cs = Inr () \<and> all_ok ds = Inr ()"
  by (auto simp: all_ok_Inr)

lemma validated_Inr: "validated r cs = Inr x \<longleftrightarrow> x = r \<and> all_ok cs = Inr ()"
  by (auto simp: validated_def rbind_Inr_iff)

lemma validated_Inl: "validated r cs = Inl e \<longleftrightarrow> all_ok cs = Inl e"
  by (auto simp: validated_def rbind_Inl_iff)

section \<open>Enums\<close>

datatype availability_state = Available | Missing | Unavailable | Unknown_Availability | Not_Applicable

datatype data_quality_state = Quality_Full | Quality_Degraded | Quality_Missing | Quality_Not_Applicable

datatype score_eligibility = Score_Eligible | Diagnostic_Only | Score_Ineligible | Eligibility_Not_Applicable

datatype calibration_state = Calibrated | Uncalibrated | Calibration_Not_Applicable

datatype pipeline_status = Score_Ready | Not_Score_Ready | Pipeline_Error

datatype geography_type = Country | State | County | Cbsa | Metropolitan_Division | Csa | Tract | Block_Group
  | Zcta | Custom_Geography | Unknown_Geography

datatype persistence_class = Persist | Transient | Source_Policy | Do_Not_Persist

datatype population_type = Commercially_Evidenced_Spatial_Alternatives

datatype spatial_representation = Equal_Area

section \<open>Numbers\<close>

text \<open>A numeric field holds an \<open>int\<close> or a \<open>float\<close>; \<open>num_value\<close> is its exact value, by which Python compares.\<close>

datatype pynum = Py_Int int | Py_Float pyfloat

definition num_value :: "pynum \<Rightarrow> pyfloat" where
  "num_value v = (case v of Py_Int n \<Rightarrow> Fin (of_int n) | Py_Float x \<Rightarrow> x)"

text \<open>\<open>float(value)\<close>, which overflows on an \<open>int\<close> that is too large.\<close>

definition float_of :: "pynum \<Rightarrow> (py_error, pyfloat) result" where
  "float_of v = (case v of Py_Int n \<Rightarrow> arith (int_to_float n) | Py_Float x \<Rightarrow> Inr x)"

definition require_finite_number :: "string \<Rightarrow> pynum \<Rightarrow> check" where
  "require_finite_number name v = rbind (float_of v) (\<lambda>x. req (is_finite x) (name @ '' must be finite''))"

definition require_nonnegative_number :: "string \<Rightarrow> pynum \<Rightarrow> check" where
  "require_nonnegative_number name v = all_ok [require_finite_number name v,
     req (\<not> flt (num_value v) (Fin 0)) (name @ '' must be >= 0'')]"

definition require_positive_number :: "string \<Rightarrow> pynum \<Rightarrow> check" where
  "require_positive_number name v = all_ok [require_finite_number name v,
     req (\<not> fle (num_value v) (Fin 0)) (name @ '' must be > 0'')]"

definition require_bounded_number :: "string \<Rightarrow> pyfloat \<Rightarrow> pyfloat \<Rightarrow> pynum \<Rightarrow> check" where
  "require_bounded_number name low high v = all_ok [require_finite_number name v,
     require_finite_number ''low'' (Py_Float low), require_finite_number ''high'' (Py_Float high),
     req (\<not> flt high low) ''low must be <= high'',
     req (\<not> (flt (num_value v) low \<or> flt high (num_value v))) (name @ '' must be between the bounds'')]"

definition require_latitude :: "string \<Rightarrow> pynum \<Rightarrow> check" where
  "require_latitude name = require_bounded_number name (Fin (- 90)) (Fin 90)"

definition require_longitude :: "string \<Rightarrow> pynum \<Rightarrow> check" where
  "require_longitude name = require_bounded_number name (Fin (- 180)) (Fin 180)"

lemma float_of_Inr: "float_of v = Inr x \<Longrightarrow> is_finite x \<Longrightarrow> \<exists>q. num_value v = Fin q"
  by (cases v) (auto simp: float_of_def num_value_def is_finite_iff)

lemma finite_numberD: "require_finite_number name v = Inr u \<Longrightarrow> \<exists>q. num_value v = Fin q"
  by (auto simp: require_finite_number_def rbind_Inr_iff intro: float_of_Inr)

lemma bounded_numberD:
  assumes "require_bounded_number name (Fin low) (Fin high) v = Inr u"
  obtains q where "num_value v = Fin q" "low \<le> q" "q \<le> high"
proof -
  have "require_finite_number name v = Inr ()" using assms by (simp add: require_bounded_number_def)
  then obtain q where "num_value v = Fin q" using finite_numberD by blast
  with assms that show thesis by (simp add: require_bounded_number_def not_less)
qed

section \<open>Times and texts\<close>

text \<open>A \<open>datetime\<close> with or without an offset from UTC.\<close>

datatype py_datetime = Aware int | Naive int

fun require_aware_datetime :: "string \<Rightarrow> py_datetime \<Rightarrow> check" where
  "require_aware_datetime name (Aware t) = Inr ()"
| "require_aware_datetime name (Naive t) = Inl (ValueError (name @ '' must be timezone-aware''))"

definition py_lower_char :: "char \<Rightarrow> char" where
  "py_lower_char c = (let n = of_char c :: nat in
     if 65 \<le> n \<and> n \<le> 90 \<or> 192 \<le> n \<and> n \<le> 222 \<and> n \<noteq> 215 then char_of (n + 32) else c)"

definition trimmed :: "string \<Rightarrow> bool" where
  "trimmed s = (s \<noteq> [] \<and> s = strip s)"

definition require_nonempty_text :: "string \<Rightarrow> string \<Rightarrow> check" where
  "require_nonempty_text name s = req (trimmed s) (name @ '' must be non-empty and trimmed'')"

definition require_optional_nonempty_text :: "string \<Rightarrow> string option \<Rightarrow> check" where
  "require_optional_nonempty_text name v = (case v of None \<Rightarrow> Inr () | Some s \<Rightarrow> require_nonempty_text name s)"

lemma nonempty_text_iff [simp]: "require_nonempty_text name s = Inr u \<longleftrightarrow> trimmed s"
  by (simp add: require_nonempty_text_def)

lemma optional_text_iff [simp]: "require_optional_nonempty_text name v = Inr u \<longleftrightarrow> pred_option trimmed v"
  by (cases v) (simp_all add: require_optional_nonempty_text_def)

text \<open>
  \<open>_IDENTIFIER_RE\<close>, \<open>[a-z][a-z0-9_]*(?:[.-][a-z0-9_]+)*\<close>, as an automaton: the flag says that the current
  segment still needs a character.
\<close>

definition lower_letter :: "char \<Rightarrow> bool" where
  "lower_letter c = (let n = of_char c :: nat in 97 \<le> n \<and> n \<le> 122)"

definition word_char :: "char \<Rightarrow> bool" where
  "word_char c = (let n = of_char c :: nat in 97 \<le> n \<and> n \<le> 122 \<or> 48 \<le> n \<and> n \<le> 57 \<or> n = 95)"

fun identifier_rest :: "bool \<Rightarrow> string \<Rightarrow> bool" where
  "identifier_rest need [] = (\<not> need)"
| "identifier_rest need (c # cs) =
     (if word_char c then identifier_rest False cs
      else (c = CHR ''.'' \<or> c = CHR ''-'') \<and> \<not> need \<and> identifier_rest True cs)"

fun is_identifier :: "string \<Rightarrow> bool" where
  "is_identifier [] = False"
| "is_identifier (c # cs) = (lower_letter c \<and> identifier_rest False cs)"

definition require_canonical_identifier :: "string \<Rightarrow> string \<Rightarrow> check" where
  "require_canonical_identifier name s = all_ok [
     req (s \<noteq> []) (name @ '' must not be empty''),
     req (s = strip s) (name @ '' must not contain leading/trailing whitespace''),
     req (s = map py_lower_char s) (name @ '' must be lowercase''),
     req (is_identifier s) (name @ '' must match canonical identifier syntax'')]"

lemma identifier_rest_chars: "identifier_rest need s \<Longrightarrow> list_all (\<lambda>c. word_char c \<or> c = CHR ''.'' \<or> c = CHR ''-'') s"
  by (induction need s rule: identifier_rest.induct) (auto split: if_splits)

lemma lower_letter_word: "lower_letter c \<Longrightarrow> word_char c"
  by (auto simp: lower_letter_def word_char_def Let_def)

lemma identifier_chars: "is_identifier s \<Longrightarrow> list_all (\<lambda>c. word_char c \<or> c = CHR ''.'' \<or> c = CHR ''-'') s"
  by (cases s) (auto simp: identifier_rest_chars lower_letter_word)

text \<open>The tests before the pattern only choose the message: a string that matches passes them.\<close>

lemma canonical_identifier_iff: "require_canonical_identifier name s = Inr u \<longleftrightarrow> is_identifier s"
proof (cases "is_identifier s")
  case True
  then have chars: "list_all (\<lambda>c. \<not> is_space c \<and> py_lower_char c = c) s"
    by (rule list.pred_mono_strong [OF identifier_chars])
       (auto simp: word_char_def is_space_def py_lower_char_def Let_def)
  then have "dropWhile is_space s = s" "dropWhile is_space (rev s) = rev s" "map py_lower_char s = s"
    by (auto simp: dropWhile_eq_self_iff list_all_iff intro: map_idI dest: hd_in_set) (metis hd_in_set set_rev rev_is_Nil_conv)
  moreover have "s \<noteq> []" using True by auto
  ultimately show ?thesis using True by (simp add: require_canonical_identifier_def strip_def strip_chars_def)
qed (simp add: require_canonical_identifier_def)

text \<open>The automaton accepts exactly the strings that the pattern describes.\<close>

definition identifier_segment :: "char \<times> string \<Rightarrow> bool" where
  "identifier_segment seg = (fst seg \<in> {CHR ''.'', CHR ''-''} \<and> snd seg \<noteq> [] \<and> list_all word_char (snd seg))"

definition segments_text :: "(char \<times> string) list \<Rightarrow> string" where
  "segments_text segs = concat (map (\<lambda>(d, w). d # w) segs)"

lemma segment_simps [simp]:
  "identifier_segment (d, w) \<longleftrightarrow> d \<in> {CHR ''.'', CHR ''-''} \<and> w \<noteq> [] \<and> list_all word_char w"
  "segments_text [] = []" "segments_text ((d, w) # segs) = d # w @ segments_text segs"
  by (simp_all add: identifier_segment_def segments_text_def)

lemma identifier_rest_word: "list_all word_char w \<Longrightarrow> identifier_rest need (w @ s) = identifier_rest (need \<and> w = []) s"
  by (induction w arbitrary: need) auto

lemma identifier_rest_segments: "list_all identifier_segment segs \<Longrightarrow> identifier_rest False (segments_text segs)"
proof (induction segs)
  case (Cons seg segs)
  obtain d w where "seg = (d, w)" by (cases seg)
  moreover note Cons
  moreover have "\<not> word_char (CHR ''.'')" "\<not> word_char (CHR ''-'')" by (simp_all add: word_char_def)
  ultimately show ?case by (auto simp: identifier_rest_word)
qed simp

lemma identifier_restD: "identifier_rest need s \<Longrightarrow> \<exists>w segs. (need \<longrightarrow> w \<noteq> []) \<and> list_all word_char w
    \<and> list_all identifier_segment segs \<and> s = w @ segments_text segs"
proof (induction need s rule: identifier_rest.induct)
  case (1 need)
  then show ?case by (intro exI [of _ "[]"]) simp
next
  case (2 need c cs)
  show ?case
  proof (cases "word_char c")
    case True
    with 2 obtain w segs where "list_all word_char w" "list_all identifier_segment segs" "cs = w @ segments_text segs" by auto
    with True show ?thesis by (intro exI [of _ "c # w"] exI [of _ segs]) simp
  next
    case False
    with 2 obtain w segs where "w \<noteq> []" "list_all word_char w" "list_all identifier_segment segs" "cs = w @ segments_text segs" by auto
    with False 2(3) show ?thesis
      by (intro exI [of _ "[] :: string"] exI [of _ "(c, w) # segs"]) auto
  qed
qed

lemma is_identifier_iff: "is_identifier s \<longleftrightarrow> (\<exists>c w segs. lower_letter c \<and> list_all word_char w
    \<and> list_all identifier_segment segs \<and> s = c # w @ segments_text segs)"
proof
  show "is_identifier s \<Longrightarrow> \<exists>c w segs. lower_letter c \<and> list_all word_char w
    \<and> list_all identifier_segment segs \<and> s = c # w @ segments_text segs"
    by (cases s) (auto dest!: identifier_restD)
qed (auto simp: identifier_rest_word identifier_rest_segments)

definition require_unique_identifiers :: "string \<Rightarrow> string list \<Rightarrow> check" where
  "require_unique_identifiers name vs = all_ok (map (require_canonical_identifier (name @ '' item'')) vs
     @ [req (distinct vs) (name @ '' must not contain duplicates'')])"

lemma unique_identifiers_iff: "require_unique_identifiers name vs = Inr u \<longleftrightarrow> list_all is_identifier vs \<and> distinct vs"
  by (auto simp: require_unique_identifiers_def all_ok_Inr canonical_identifier_iff list_all_iff)

section \<open>Provenance and metrics\<close>

record source_metadata =
  sm_source_id :: string
  sm_provider :: string
  sm_dataset :: string
  sm_dataset_release :: "string option"
  sm_vintage :: "string option"
  sm_schema_version :: "string option"
  sm_retrieved_at :: py_datetime
  sm_content_hash :: string
  sm_persistence :: persistence_class
  sm_quality :: data_quality_state
  sm_license_class :: "string option"
  sm_attribution_required :: bool
  sm_source_reference :: "string option"

definition source_metadata_post_init :: "source_metadata \<Rightarrow> (py_error, source_metadata) result" where
  "source_metadata_post_init m = validated m [
     require_canonical_identifier ''source_id'' (sm_source_id m),
     require_nonempty_text ''provider'' (sm_provider m),
     require_nonempty_text ''dataset'' (sm_dataset m),
     require_optional_nonempty_text ''dataset_release'' (sm_dataset_release m),
     require_optional_nonempty_text ''vintage'' (sm_vintage m),
     require_optional_nonempty_text ''schema_version'' (sm_schema_version m),
     require_aware_datetime ''retrieved_at'' (sm_retrieved_at m),
     require_nonempty_text ''content_hash'' (sm_content_hash m),
     require_optional_nonempty_text ''license_class'' (sm_license_class m),
     require_optional_nonempty_text ''source_reference'' (sm_source_reference m)]"

record data_contract_versions =
  dv_package :: string
  dv_data_schema :: string
  dv_benchmark_schema :: string
  dv_feature_contract :: string
  dv_readiness_contract :: string
  dv_serialization :: string

definition contract_versions_post_init :: "data_contract_versions \<Rightarrow> (py_error, data_contract_versions) result" where
  "contract_versions_post_init v = validated v [
     require_nonempty_text ''package_version'' (dv_package v),
     require_nonempty_text ''data_schema_version'' (dv_data_schema v),
     require_nonempty_text ''benchmark_schema_version'' (dv_benchmark_schema v),
     require_nonempty_text ''data_feature_contract_version'' (dv_feature_contract v),
     require_nonempty_text ''readiness_contract_version'' (dv_readiness_contract v),
     require_nonempty_text ''data_serialization_version'' (dv_serialization v)]"

definition current_contract_versions :: data_contract_versions where
  "current_contract_versions = \<lparr>dv_package = ''0.1.0'', dv_data_schema = ''1.0'', dv_benchmark_schema = ''1.0'',
     dv_feature_contract = ''1.0'', dv_readiness_contract = ''1.0'', dv_serialization = ''1.0''\<rparr>"

record metric_value =
  mv_value :: "pynum option"
  mv_unit :: string
  mv_availability :: availability_state
  mv_quality :: data_quality_state
  mv_eligibility :: score_eligibility
  mv_calibration :: calibration_state
  mv_is_estimate :: bool
  mv_is_proxy :: bool
  mv_source_refs :: "string list"
  mv_method_version :: "string option"
  mv_reason_codes :: "string list"

fun allowed_quality :: "availability_state \<Rightarrow> data_quality_state list" where
  "allowed_quality Available = [Quality_Full, Quality_Degraded]"
| "allowed_quality Missing = [Quality_Missing]"
| "allowed_quality Unavailable = [Quality_Missing]"
| "allowed_quality Unknown_Availability = [Quality_Degraded, Quality_Missing]"
| "allowed_quality Not_Applicable = [Quality_Not_Applicable]"

definition metric_post_init :: "metric_value \<Rightarrow> (py_error, metric_value) result" where
  "metric_post_init m = validated m ([
     require_nonempty_text ''unit'' (mv_unit m),
     require_unique_identifiers ''source_refs'' (mv_source_refs m),
     require_optional_nonempty_text ''method_version'' (mv_method_version m),
     require_unique_identifiers ''reason_codes'' (mv_reason_codes m),
     req (mv_availability m = Not_Applicable \<longrightarrow> mv_eligibility m = Eligibility_Not_Applicable)
       ''NOT_APPLICABLE metrics require NOT_APPLICABLE score eligibility'',
     req (mv_availability m = Not_Applicable \<longrightarrow> mv_calibration m = Calibration_Not_Applicable)
       ''NOT_APPLICABLE metrics require NOT_APPLICABLE calibration state'',
     req (mv_availability m \<noteq> Available \<longrightarrow> mv_eligibility m \<noteq> Score_Eligible)
       ''non-AVAILABLE metrics cannot be score-eligible'']
     @ (if mv_availability m = Available then [
          (case mv_value m of None \<Rightarrow> Inl (ValueError ''AVAILABLE metrics must have a numeric value'')
           | Some v \<Rightarrow> require_finite_number ''value'' v),
          req (mv_source_refs m \<noteq> []) ''AVAILABLE metrics require at least one source_ref'',
          req (mv_quality m \<in> set (allowed_quality Available)) ''AVAILABLE metrics require FULL or DEGRADED data quality'']
        else [
          req (mv_value m = None) ''non-AVAILABLE metrics must have value=None'',
          req (mv_quality m \<in> set (allowed_quality (mv_availability m))) ''metrics require data quality in a set'']))"

section \<open>Geography and benchmarks\<close>

definition upper_letter :: "char \<Rightarrow> bool" where
  "upper_letter c = (let n = of_char c :: nat in 65 \<le> n \<and> n \<le> 90)"

definition require_country_code :: "string \<Rightarrow> check" where
  "require_country_code s = req (length s = 2 \<and> list_all upper_letter s)
     ''country_code must be a two-letter uppercase country code''"

record geography_ref =
  ge_type :: geography_type
  ge_id :: string
  ge_name :: string
  ge_country_code :: string
  ge_source_ref :: string
  ge_source_version :: "string option"

definition geography_post_init :: "geography_ref \<Rightarrow> (py_error, geography_ref) result" where
  "geography_post_init g = validated g [
     require_nonempty_text ''geography_id'' (ge_id g),
     require_nonempty_text ''name'' (ge_name g),
     require_country_code (ge_country_code g),
     require_canonical_identifier ''source_ref'' (ge_source_ref g),
     require_optional_nonempty_text ''source_version'' (ge_source_version g)]"

record resolved_location =
  rl_latitude :: pynum
  rl_longitude :: pynum
  rl_formatted_address :: string
  rl_country_code :: string
  rl_geography_refs :: "geography_ref list"
  rl_source_refs :: "string list"
  rl_method_version :: string
  rl_generated_at :: py_datetime

definition resolved_location_post_init :: "resolved_location \<Rightarrow> (py_error, resolved_location) result" where
  "resolved_location_post_init l = validated l [
     require_latitude ''latitude'' (rl_latitude l),
     require_longitude ''longitude'' (rl_longitude l),
     require_nonempty_text ''formatted_address'' (rl_formatted_address l),
     require_country_code (rl_country_code l),
     req (distinct (rl_geography_refs l)) ''geography_refs must not contain duplicates'',
     req (list_all (\<lambda>g. ge_country_code g = rl_country_code l) (rl_geography_refs l))
       ''all geography_refs must use the ResolvedLocation country_code'',
     require_unique_identifiers ''source_refs'' (rl_source_refs l),
     req (rl_source_refs l \<noteq> []) ''ResolvedLocation requires at least one source_ref'',
     req (set (map ge_source_ref (rl_geography_refs l)) \<subseteq> set (rl_source_refs l))
       ''source_refs must include every GeographyRef.source_ref'',
     require_nonempty_text ''resolution_method_version'' (rl_method_version l),
     require_aware_datetime ''generated_at'' (rl_generated_at l)]"

record benchmark_frame_metadata =
  bm_frame_id :: string
  bm_frame_version :: string
  bm_population :: population_type
  bm_geography :: geography_ref
  bm_spatial :: spatial_representation
  bm_topology :: string
  bm_projection_method :: string
  bm_projection_reference :: string
  bm_resolution :: pynum
  bm_resolution_unit :: string
  bm_resolution_policy :: string
  bm_eligibility_policy :: string
  bm_source_refs :: "string list"
  bm_eligible_count :: pynum
  bm_ineligible_count :: pynum
  bm_unknown_count :: pynum
  bm_generated_at :: py_datetime

definition require_count :: "string \<Rightarrow> pynum \<Rightarrow> check" where
  "require_count name v = all_ok [require_nonnegative_number name v,
     (case v of Py_Int n \<Rightarrow> Inr () | Py_Float x \<Rightarrow> Inl (TypeError (name @ '' must be an int'')))]"

definition benchmark_frame_post_init :: "benchmark_frame_metadata \<Rightarrow> (py_error, benchmark_frame_metadata) result" where
  "benchmark_frame_post_init b = validated b [
     require_canonical_identifier ''frame_id'' (bm_frame_id b),
     require_nonempty_text ''frame_version'' (bm_frame_version b),
     require_nonempty_text ''tessellation_topology'' (bm_topology b),
     require_nonempty_text ''projection_method'' (bm_projection_method b),
     require_nonempty_text ''projection_reference'' (bm_projection_reference b),
     require_positive_number ''selected_resolution'' (bm_resolution b),
     require_nonempty_text ''selected_resolution_unit'' (bm_resolution_unit b),
     require_nonempty_text ''resolution_policy_version'' (bm_resolution_policy b),
     require_nonempty_text ''eligibility_policy_version'' (bm_eligibility_policy b),
     require_unique_identifiers ''source_refs'' (bm_source_refs b),
     req (bm_source_refs b \<noteq> []) ''CommercialBenchmarkFrameMetadata requires at least one source_ref'',
     req (ge_source_ref (bm_geography b) \<in> set (bm_source_refs b)) ''source_refs must include benchmark_geography_ref.source_ref'',
     require_count ''eligible_count'' (bm_eligible_count b),
     require_count ''ineligible_count'' (bm_ineligible_count b),
     require_count ''unknown_count'' (bm_unknown_count b),
     require_aware_datetime ''generated_at'' (bm_generated_at b)]"

record benchmark_reference =
  br_benchmark_id :: string
  br_artifact_ref :: string
  br_frame_id :: string
  br_frame_version :: string
  br_population :: population_type
  br_geography :: geography_ref
  br_source_refs :: "string list"

definition benchmark_reference_post_init :: "benchmark_reference \<Rightarrow> (py_error, benchmark_reference) result" where
  "benchmark_reference_post_init b = validated b [
     require_canonical_identifier ''benchmark_id'' (br_benchmark_id b),
     require_nonempty_text ''artifact_ref'' (br_artifact_ref b),
     require_canonical_identifier ''frame_id'' (br_frame_id b),
     require_nonempty_text ''frame_version'' (br_frame_version b),
     require_unique_identifiers ''source_refs'' (br_source_refs b),
     req (br_source_refs b \<noteq> []) ''BenchmarkReference requires at least one source_ref'',
     req (ge_source_ref (br_geography b) \<in> set (br_source_refs b)) ''source_refs must include benchmark_geography_ref.source_ref'']"

end
