(* ===== verification/DataFeatures.thy ===== *)
theory DataFeatures
  imports DataContracts
begin

text \<open>
  The feature surfaces of \<open>sitescore-data\<close> (\<open>schemas/features.py\<close>, \<open>feature_surface.py\<close>): derived metrics,
  the eight normalised features, and the payload of category scores.
\<close>

section \<open>Sector keys and source coverage\<close>

record sector_key =
  sk_value :: string

definition sector_key_post_init :: "sector_key \<Rightarrow> (py_error, sector_key) result" where
  "sector_key_post_init k = validated k [require_canonical_identifier ''SectorKey.value'' (sk_value k)]"

definition require_source_coverage :: "metric_value list \<Rightarrow> string list \<Rightarrow> check" where
  "require_source_coverage ms refs = req ((\<Union>m \<in> set ms. set (mv_source_refs m)) \<subseteq> set refs)
     ''source_refs must include all nested MetricValue source refs''"

definition require_normalized_score :: "string \<Rightarrow> metric_value \<Rightarrow> check" where
  "require_normalized_score name m = all_ok [
     req (mv_unit m = ''score_0_100'') (name @ '' must use MetricValue.unit=score_0_100''),
     (case mv_value m of None \<Rightarrow> Inr () | Some v \<Rightarrow> require_bounded_number name (Fin 0) (Fin 100) v)]"

section \<open>Derived metrics\<close>

record derived_metrics =
  dm_walkable_population :: metric_value
  dm_target_population_density :: metric_value
  dm_household_income :: metric_value
  dm_household_income_ratio :: metric_value
  dm_competition_pressure :: metric_value
  dm_walkable_reach_area :: metric_value
  dm_transit_departures :: metric_value
  dm_road_reachable_area :: metric_value
  dm_parking_capacity :: metric_value
  dm_parking_curb_length :: metric_value
  dm_demographic_ref :: "string option"
  dm_competition_ref :: "string option"
  dm_road_ref :: "string option"
  dm_parking_ref :: "string option"
  dm_source_refs :: "string list"
  dm_contract_version :: string
  dm_generated_at :: py_datetime

definition derived_metric_values :: "derived_metrics \<Rightarrow> metric_value list" where
  "derived_metric_values d = [dm_walkable_population d, dm_target_population_density d, dm_household_income d,
     dm_household_income_ratio d, dm_competition_pressure d, dm_walkable_reach_area d, dm_transit_departures d,
     dm_road_reachable_area d, dm_parking_capacity d, dm_parking_curb_length d]"

definition require_calibrated_reduction :: "string \<Rightarrow> metric_value \<Rightarrow> check" where
  "require_calibrated_reduction name m = req (mv_value m = None \<or> mv_calibration m = Calibrated)
     (name @ '' is a scalar multi-scale reduction output and must be CALIBRATED when numeric'')"

definition derived_metrics_post_init :: "derived_metrics \<Rightarrow> (py_error, derived_metrics) result" where
  "derived_metrics_post_init d = validated d [
     require_calibrated_reduction ''competition_pressure'' (dm_competition_pressure d),
     require_calibrated_reduction ''road_reachable_area_km2'' (dm_road_reachable_area d),
     require_optional_nonempty_text ''demographic_snapshot_ref'' (dm_demographic_ref d),
     require_optional_nonempty_text ''competition_snapshot_ref'' (dm_competition_ref d),
     require_optional_nonempty_text ''road_snapshot_ref'' (dm_road_ref d),
     require_optional_nonempty_text ''parking_snapshot_ref'' (dm_parking_ref d),
     require_unique_identifiers ''source_refs'' (dm_source_refs d),
     require_source_coverage (derived_metric_values d) (dm_source_refs d),
     require_nonempty_text ''feature_contract_version'' (dm_contract_version d),
     require_aware_datetime ''generated_at'' (dm_generated_at d)]"

section \<open>Normalised features\<close>

definition normalized_feature_names :: "string list" where
  "normalized_feature_names = [''walkable_population_score'', ''target_population_density_score'',
     ''age_target_concentration_score'', ''competition_opportunity_score'', ''walkable_reach_area_score'',
     ''transit_access_score'', ''road_parking_access_score'', ''household_income_score'']"

record normalized_features =
  nf_walkable_population :: metric_value
  nf_target_population_density :: metric_value
  nf_age_target_concentration :: metric_value
  nf_competition_opportunity :: metric_value
  nf_walkable_reach_area :: metric_value
  nf_transit_access :: metric_value
  nf_road_parking_access :: metric_value
  nf_household_income :: metric_value
  nf_competition_benchmark :: "benchmark_reference option"
  nf_competition_definition_id :: "string option"
  nf_competition_policy_version :: "string option"
  nf_transit_benchmark :: "benchmark_reference option"
  nf_transit_bundle :: "string option"
  nf_transit_policy_version :: "string option"
  nf_road_parking_policy_version :: "string option"
  nf_source_refs :: "string list"
  nf_contract_version :: string
  nf_generated_at :: py_datetime

definition feature_metrics :: "normalized_features \<Rightarrow> metric_value list" where
  "feature_metrics f = [nf_walkable_population f, nf_target_population_density f, nf_age_target_concentration f,
     nf_competition_opportunity f, nf_walkable_reach_area f, nf_transit_access f, nf_road_parking_access f,
     nf_household_income f]"

text \<open>\<open>getattr(features, name)\<close> for the eight names.\<close>

definition feature_of :: "normalized_features \<Rightarrow> string \<Rightarrow> metric_value" where
  "feature_of f name = the (map_of (zip normalized_feature_names (feature_metrics f)) name)"

definition age_fallback_checks :: "metric_value \<Rightarrow> check list" where
  "age_fallback_checks m = (case mv_value m of
     Some v \<Rightarrow> if mv_calibration m = Uncalibrated then [
         req (feq (num_value v) (Fin 50)) ''uncalibrated age_target_concentration_score must use the frozen V1 neutral fallback value 50'',
         req (mv_is_proxy m) ''uncalibrated age_target_concentration_score must be marked proxy'',
         req (''age_affinity_not_calibrated'' \<in> set (mv_reason_codes m))
           ''uncalibrated age_target_concentration_score requires age_affinity_not_calibrated reason code''] else []
   | None \<Rightarrow> [])"

definition benchmark_refs :: "benchmark_reference option \<Rightarrow> string set" where
  "benchmark_refs b = (case b of None \<Rightarrow> {} | Some r \<Rightarrow> set (br_source_refs r))"

definition normalized_features_post_init :: "normalized_features \<Rightarrow> (py_error, normalized_features) result" where
  "normalized_features_post_init f = validated f (
     map (\<lambda>name. require_normalized_score name (feature_of f name)) normalized_feature_names
     @ age_fallback_checks (nf_age_target_concentration f)
     @ [require_optional_nonempty_text ''competition_measurement_definition_id'' (nf_competition_definition_id f),
        require_optional_nonempty_text ''competition_normalization_policy_version'' (nf_competition_policy_version f),
        require_optional_nonempty_text ''transit_source_bundle_fingerprint'' (nf_transit_bundle f),
        require_optional_nonempty_text ''transit_normalization_policy_version'' (nf_transit_policy_version f),
        require_optional_nonempty_text ''road_parking_composite_policy_version'' (nf_road_parking_policy_version f),
        require_unique_identifiers ''source_refs'' (nf_source_refs f),
        require_source_coverage (feature_metrics f) (nf_source_refs f),
        req (benchmark_refs (nf_competition_benchmark f) \<union> benchmark_refs (nf_transit_benchmark f) \<subseteq> set (nf_source_refs f))
          ''source_refs must include all benchmark reference source refs'',
        require_nonempty_text ''feature_contract_version'' (nf_contract_version f),
        require_aware_datetime ''generated_at'' (nf_generated_at f)])"

record ready_payload =
  rp_sector :: sector_key
  rp_demand :: pynum
  rp_competition :: pynum
  rp_accessibility :: pynum
  rp_economics :: pynum
  rp_readiness_fingerprint :: string
  rp_contract_version :: string
  rp_policy_version :: string

definition ready_payload_post_init :: "ready_payload \<Rightarrow> (py_error, ready_payload) result" where
  "ready_payload_post_init p = validated p [
     require_bounded_number ''demand'' (Fin 0) (Fin 100) (rp_demand p),
     require_bounded_number ''competition'' (Fin 0) (Fin 100) (rp_competition p),
     require_bounded_number ''accessibility'' (Fin 0) (Fin 100) (rp_accessibility p),
     require_bounded_number ''economics'' (Fin 0) (Fin 100) (rp_economics p),
     require_nonempty_text ''readiness_fingerprint'' (rp_readiness_fingerprint p),
     require_nonempty_text ''feature_contract_version'' (rp_contract_version p),
     require_nonempty_text ''normalization_policy_version'' (rp_policy_version p)]"

section \<open>Facts about the features\<close>

lemma feature_of_simps [simp]:
  "feature_of f ''walkable_population_score'' = nf_walkable_population f"
  "feature_of f ''target_population_density_score'' = nf_target_population_density f"
  "feature_of f ''age_target_concentration_score'' = nf_age_target_concentration f"
  "feature_of f ''competition_opportunity_score'' = nf_competition_opportunity f"
  "feature_of f ''walkable_reach_area_score'' = nf_walkable_reach_area f"
  "feature_of f ''transit_access_score'' = nf_transit_access f"
  "feature_of f ''road_parking_access_score'' = nf_road_parking_access f"
  "feature_of f ''household_income_score'' = nf_household_income f"
  by (simp_all add: feature_of_def normalized_feature_names_def feature_metrics_def)

lemma feature_names_distinct: "distinct normalized_feature_names"
  and feature_names_identifiers: "list_all is_identifier normalized_feature_names"
  by code_simp+

lemma normalized_scoreD:
  assumes "normalized_features_post_init f = Inr f'" "name \<in> set normalized_feature_names"
  shows "require_normalized_score name (feature_of f name) = Inr ()"
  using assms by (auto simp: normalized_features_post_init_def validated_Inr all_ok_Inr)

end
