(* ===== verification/DataSnapshots.thy ===== *)
theory DataSnapshots
  imports DataFeatures "HOL-Library.Product_Lexorder"
begin

text \<open>
  The evidence snapshots of \<open>sitescore-data\<close>: demographics, competition, pedestrian catchments, roads,
  transit and parking (\<open>schemas/*.py\<close>), with their validation. A date is its ordinal; whether a name is an
  IANA time zone is a parameter. A field that the code requires to be an \<open>int\<close> at run time is a \<open>pynum\<close>.
\<close>

section \<open>Shared checks\<close>

definition require_snapshot_quality :: "string \<Rightarrow> availability_state \<Rightarrow> data_quality_state \<Rightarrow> check" where
  "require_snapshot_quality name a q = req (q \<in> set (allowed_quality a)) (name @ '' availability/data_quality are inconsistent'')"

definition require_covered :: "string set \<Rightarrow> string list \<Rightarrow> string \<Rightarrow> check" where
  "require_covered nested refs msg = req (nested \<subseteq> set refs) msg"

definition nonneg_value :: "metric_value \<Rightarrow> bool" where
  "nonneg_value m = (case mv_value m of None \<Rightarrow> True | Some v \<Rightarrow> \<not> flt (num_value v) (Fin 0))"

text \<open>The exact value of a finite number, the key by which mixed numbers are sorted.\<close>

definition num_key :: "pynum \<Rightarrow> rat" where
  "num_key v = (case num_value v of Fin q \<Rightarrow> q | _ \<Rightarrow> 0)"

text \<open>\<open>math.isclose(a, b, rel_tol=1e-12, abs_tol=1e-12)\<close> on floats.\<close>

definition is_close :: "pyfloat \<Rightarrow> pyfloat \<Rightarrow> bool" where
  "is_close a b = (let tol = to_float (1 / 1000000000000); diff = fabs (fsub b a) in
     feq a b \<or> (is_finite a \<and> is_finite b
       \<and> (fle diff (fabs (fmul tol b)) \<or> fle diff (fabs (fmul tol a)) \<or> fle diff tol)))"

text \<open>Division and addition of numbers: two \<open>int\<close>s divide exactly and round once, any other pair as floats.\<close>

definition num_div :: "pynum \<Rightarrow> pynum \<Rightarrow> (py_error, pyfloat) result" where
  "num_div a b = (case (a, b) of
     (Py_Int m, Py_Int n) \<Rightarrow> if n = 0 then Inl (ArithError ZeroDivisionError)
       else (case to_float (of_int m / of_int n) of Fin q \<Rightarrow> Inr (Fin q) | _ \<Rightarrow> Inl (ArithError OverflowError))
   | _ \<Rightarrow> rbind (float_of a) (\<lambda>x. rbind (float_of b) (\<lambda>y. arith (fdiv x y))))"

definition num_add :: "pynum \<Rightarrow> pynum \<Rightarrow> (py_error, pynum) result" where
  "num_add a b = (case (a, b) of
     (Py_Int m, Py_Int n) \<Rightarrow> Inr (Py_Int (m + n))
   | _ \<Rightarrow> rbind (float_of a) (\<lambda>x. rbind (float_of b) (\<lambda>y. Inr (Py_Float (fadd x y)))))"

definition require_close :: "pynum \<Rightarrow> (py_error, pyfloat) result \<Rightarrow> string \<Rightarrow> check" where
  "require_close v expected msg = rbind expected (\<lambda>e. rbind (float_of v) (\<lambda>x. req (is_close x e) msg))"

section \<open>Demographics\<close>

record age_cohort =
  ag_id :: string
  ag_min :: pynum
  ag_max :: "pynum option"
  ag_population :: pynum
  ag_share :: pynum

definition age_cohort_post_init :: "age_cohort \<Rightarrow> (py_error, age_cohort) result" where
  "age_cohort_post_init c = validated c ([
     require_canonical_identifier ''cohort_id'' (ag_id c),
     require_count ''age_min_inclusive'' (ag_min c)]
     @ (case ag_max c of None \<Rightarrow> [] | Some upper \<Rightarrow> [
          require_count ''age_max_exclusive'' upper,
          req (\<not> fle (num_value upper) (num_value (ag_min c))) ''age_max_exclusive must be greater than age_min_inclusive''])
     @ [require_count ''population'' (ag_population c),
        require_bounded_number ''population_share'' (Fin 0) (Fin 1) (ag_share c)])"

record demographic_snapshot =
  de_geography :: geography_ref
  de_total_population :: metric_value
  de_age_cohorts :: "age_cohort list"
  de_household_income :: metric_value
  de_source_refs :: "string list"
  de_availability :: availability_state
  de_quality :: data_quality_state
  de_generated_at :: py_datetime

text \<open>The order of cohorts: an open-ended one has the upper bound infinity.\<close>

definition cohort_key :: "age_cohort \<Rightarrow> rat \<times> (nat \<times> rat) \<times> string" where
  "cohort_key c = (num_key (ag_min c), (case ag_max c of None \<Rightarrow> (1, 0) | Some upper \<Rightarrow> (0, num_key upper)), ag_id c)"

definition cohort_pair_check :: "age_cohort \<Rightarrow> age_cohort \<Rightarrow> check" where
  "cohort_pair_check previous current = (case ag_max previous of
     None \<Rightarrow> Inl (ValueError ''an open-ended age cohort must be the final cohort'')
   | Some upper \<Rightarrow> req (\<not> flt (num_value (ag_min current)) (num_value upper)) ''age_cohort intervals must not overlap'')"

definition cohort_pairs :: "'a list \<Rightarrow> ('a \<times> 'a) list" where
  "cohort_pairs cs = zip cs (tl cs)"

definition cohort_total :: "age_cohort list \<Rightarrow> (py_error, pynum) result" where
  "cohort_total cs = foldl (\<lambda>acc c. rbind acc (\<lambda>s. num_add s (ag_population c))) (Inr (Py_Int 0)) cs"

definition cohort_share_check :: "pynum \<Rightarrow> age_cohort \<Rightarrow> check" where
  "cohort_share_check whole c =
     rbind (if feq (num_value whole) (Fin 0) then Inr (Fin 0) else num_div (ag_population c) whole) (\<lambda>expected.
       req (feq (num_value (ag_share c)) expected)
         ''population_share must equal cohort.population / total_population for canonical demographic cohorts'')"

definition population_checks :: "pynum \<Rightarrow> age_cohort list \<Rightarrow> check list" where
  "population_checks whole cs = [
     require_nonnegative_number ''total_population.value'' whole,
     rbind (cohort_total cs) (\<lambda>s. req (\<not> flt (num_value whole) (num_value s)) ''age cohort populations must not exceed total_population'')]
     @ map (cohort_share_check whole) cs"

definition demographic_post_init :: "demographic_snapshot \<Rightarrow> (py_error, demographic_snapshot) result" where
  "demographic_post_init d = validated d ([
     req (distinct (map ag_id (de_age_cohorts d))) ''age_cohorts must not contain duplicate cohort_id values'',
     req (de_age_cohorts d = sort_key cohort_key (de_age_cohorts d)) ''age_cohorts must be ordered deterministically by age interval'']
     @ map (\<lambda>(previous, current). cohort_pair_check previous current) (cohort_pairs (de_age_cohorts d))
     @ [require_unique_identifiers ''source_refs'' (de_source_refs d),
        req (de_availability d = mv_availability (de_total_population d))
          ''DemographicSnapshot availability must match total_population availability'',
        require_snapshot_quality ''DemographicSnapshot'' (de_availability d) (de_quality d),
        req (de_availability d = Available \<longrightarrow> de_source_refs d \<noteq> [])
          ''AVAILABLE demographic snapshots require at least one source_ref'']
     @ (case mv_value (de_total_population d) of None \<Rightarrow> [] | Some whole \<Rightarrow> population_checks whole (de_age_cohorts d))
     @ [require_covered (set (mv_source_refs (de_total_population d)) \<union> set (mv_source_refs (de_household_income d))) (de_source_refs d)
          ''source_refs must include all total_population and household_income source refs'',
        require_aware_datetime ''generated_at'' (de_generated_at d)])"

section \<open>Competition\<close>

record competition_observation =
  co_scale_id :: string
  co_travel_mode :: string
  co_semantics :: string
  co_travel_cost :: pynum
  co_travel_cost_unit :: string
  co_competitors :: pynum
  co_area :: pynum
  co_density :: pynum
  co_source_refs :: "string list"
  co_method_version :: string

definition competition_observation_post_init :: "competition_observation \<Rightarrow> (py_error, competition_observation) result" where
  "competition_observation_post_init b = validated b [
     require_canonical_identifier ''scale_id'' (co_scale_id b),
     require_canonical_identifier ''travel_mode'' (co_travel_mode b),
     require_canonical_identifier ''catchment_semantics'' (co_semantics b),
     require_positive_number ''travel_cost'' (co_travel_cost b),
     require_nonempty_text ''travel_cost_unit'' (co_travel_cost_unit b),
     require_count ''competitor_count'' (co_competitors b),
     require_positive_number ''catchment_area_km2'' (co_area b),
     require_nonnegative_number ''competitor_density_per_km2'' (co_density b),
     require_close (co_density b) (num_div (co_competitors b) (co_area b))
       ''competitor_density_per_km2 must equal competitor_count / catchment_area_km2'',
     require_unique_identifiers ''source_refs'' (co_source_refs b),
     req (co_source_refs b \<noteq> []) ''CompetitionObservation requires at least one source_ref'',
     require_nonempty_text ''method_version'' (co_method_version b)]"

type_synonym competition_curve = "competition_observation list"

definition competition_curve_post_init :: "competition_curve \<Rightarrow> (py_error, competition_curve) result" where
  "competition_curve_post_init obs = validated obs [
     req (2 \<le> length obs) ''CompetitionCurve requires at least two scale observations'',
     req (distinct (map co_scale_id obs)) ''CompetitionCurve scale_id values must be unique'',
     req (obs = sort_key (\<lambda>b. (num_key (co_travel_cost b), co_scale_id b)) obs)
       ''CompetitionCurve observations must be ordered by travel_cost then scale_id'']"

record competition_snapshot =
  cs_id :: string
  cs_definition_id :: string
  cs_curve :: "competition_curve option"
  cs_benchmark :: "benchmark_reference option"
  cs_source_refs :: "string list"
  cs_availability :: availability_state
  cs_quality :: data_quality_state
  cs_generated_at :: py_datetime

definition competition_snapshot_post_init :: "competition_snapshot \<Rightarrow> (py_error, competition_snapshot) result" where
  "competition_snapshot_post_init s = validated s ([
     require_canonical_identifier ''snapshot_id'' (cs_id s),
     require_canonical_identifier ''measurement_definition_id'' (cs_definition_id s),
     require_unique_identifiers ''source_refs'' (cs_source_refs s),
     require_snapshot_quality ''CompetitionSnapshot'' (cs_availability s) (cs_quality s)]
     @ (if cs_availability s = Available then [
          req (cs_curve s \<noteq> None) ''AVAILABLE CompetitionSnapshot requires a curve'',
          req (cs_source_refs s \<noteq> []) ''AVAILABLE CompetitionSnapshot requires at least one source_ref'']
        else [req (cs_curve s = None) ''non-AVAILABLE CompetitionSnapshot must not contain a curve''])
     @ [require_covered ((case cs_curve s of None \<Rightarrow> {} | Some obs \<Rightarrow> \<Union>b \<in> set obs. set (co_source_refs b)) \<union> benchmark_refs (cs_benchmark s))
          (cs_source_refs s) ''source_refs must include all curve and benchmark source refs'',
        require_aware_datetime ''generated_at'' (cs_generated_at s)])"

section \<open>Pedestrian catchments\<close>

record pedestrian_catchment =
  pc_id :: string
  pc_origin_ref :: string
  pc_latitude :: pynum
  pc_longitude :: pynum
  pc_travel_mode :: string
  pc_budget_seconds :: pynum
  pc_geometry_ref :: string
  pc_source_refs :: "string list"
  pc_policy_version :: string
  pc_generated_at :: py_datetime

definition pedestrian_catchment_post_init :: "pedestrian_catchment \<Rightarrow> (py_error, pedestrian_catchment) result" where
  "pedestrian_catchment_post_init p = validated p [
     require_canonical_identifier ''catchment_id'' (pc_id p),
     require_canonical_identifier ''origin_location_ref'' (pc_origin_ref p),
     require_latitude ''origin_latitude'' (pc_latitude p),
     require_longitude ''origin_longitude'' (pc_longitude p),
     req (pc_travel_mode p = ''walk'') ''travel_mode must be canonical value walk'',
     require_positive_number ''travel_cost_budget_seconds'' (pc_budget_seconds p),
     require_nonempty_text ''geometry_ref'' (pc_geometry_ref p),
     require_unique_identifiers ''source_refs'' (pc_source_refs p),
     req (pc_source_refs p \<noteq> []) ''PedestrianCatchmentArtifact requires at least one source_ref'',
     require_nonempty_text ''policy_version'' (pc_policy_version p),
     require_aware_datetime ''generated_at'' (pc_generated_at p)]"

record isochrone_snapshot =
  is_id :: string
  is_catchment_ref :: string
  is_area :: metric_value
  is_source_refs :: "string list"
  is_availability :: availability_state
  is_quality :: data_quality_state
  is_method_version :: string
  is_generated_at :: py_datetime

definition isochrone_post_init :: "isochrone_snapshot \<Rightarrow> (py_error, isochrone_snapshot) result" where
  "isochrone_post_init s = validated s [
     require_canonical_identifier ''snapshot_id'' (is_id s),
     require_canonical_identifier ''catchment_ref'' (is_catchment_ref s),
     req (mv_unit (is_area s) = ''km2'') ''area_km2 MetricValue.unit must be km2'',
     req (nonneg_value (is_area s)) ''area_km2 must be nonnegative'',
     require_unique_identifiers ''source_refs'' (is_source_refs s),
     req (is_availability s = mv_availability (is_area s)) ''IsochroneSnapshot availability must match area_km2 availability'',
     require_snapshot_quality ''IsochroneSnapshot'' (is_availability s) (is_quality s),
     req (is_availability s = Available \<longrightarrow> is_source_refs s \<noteq> []) ''AVAILABLE isochrone snapshots require source_refs'',
     require_covered (set (mv_source_refs (is_area s))) (is_source_refs s)
       ''source_refs must include all area_km2 MetricValue source refs'',
     require_nonempty_text ''method_version'' (is_method_version s),
     require_aware_datetime ''generated_at'' (is_generated_at s)]"

section \<open>Roads\<close>

datatype road_origin_quality = Vehicle_Entrance | Driveway | Road_Segment_Fallback | Unresolved

record road_observation =
  ro_travel_cost :: pynum
  ro_area :: pynum
  ro_network_length :: pynum
  ro_connectors :: pynum
  ro_origin_cost :: pynum
  ro_percentile :: "pynum option"
  ro_source_refs :: "string list"
  ro_method_version :: string

definition road_observation_post_init :: "road_observation \<Rightarrow> (py_error, road_observation) result" where
  "road_observation_post_init r = validated r ([
     require_positive_number ''travel_cost_seconds'' (ro_travel_cost r),
     require_nonnegative_number ''reachable_area_km2'' (ro_area r),
     require_nonnegative_number ''reachable_network_length_km'' (ro_network_length r),
     require_count ''reachable_connector_count'' (ro_connectors r),
     require_nonnegative_number ''origin_to_network_cost_seconds'' (ro_origin_cost r)]
     @ (case ro_percentile r of None \<Rightarrow> [] | Some p \<Rightarrow> [require_bounded_number ''benchmark_percentile'' (Fin 0) (Fin 1) p])
     @ [require_unique_identifiers ''source_refs'' (ro_source_refs r),
        req (ro_source_refs r \<noteq> []) ''RoadObservation requires at least one source_ref'',
        require_nonempty_text ''method_version'' (ro_method_version r)])"

record road_snapshot =
  rs_id :: string
  rs_origin_ref :: string
  rs_origin_quality :: road_origin_quality
  rs_profile_id :: string
  rs_profile_version :: string
  rs_observations :: "road_observation list"
  rs_benchmark :: "benchmark_reference option"
  rs_source_refs :: "string list"
  rs_availability :: availability_state
  rs_quality :: data_quality_state
  rs_generated_at :: py_datetime

definition road_snapshot_post_init :: "road_snapshot \<Rightarrow> (py_error, road_snapshot) result" where
  "road_snapshot_post_init s = validated s ([
     require_canonical_identifier ''snapshot_id'' (rs_id s),
     require_canonical_identifier ''road_origin_ref'' (rs_origin_ref s),
     require_canonical_identifier ''routing_profile_id'' (rs_profile_id s),
     require_nonempty_text ''routing_profile_version'' (rs_profile_version s),
     req (distinct (map (num_value \<circ> ro_travel_cost) (rs_observations s))) ''road travel-cost scales must be unique'',
     req (map (num_key \<circ> ro_travel_cost) (rs_observations s) = sort (map (num_key \<circ> ro_travel_cost) (rs_observations s)))
       ''road observations must be ordered by travel_cost_seconds'',
     require_unique_identifiers ''source_refs'' (rs_source_refs s),
     require_snapshot_quality ''RoadAccessSnapshot'' (rs_availability s) (rs_quality s)]
     @ (if rs_availability s = Available then [
          req (rs_origin_quality s \<noteq> Unresolved) ''AVAILABLE RoadAccessSnapshot requires a resolved road origin'',
          req (rs_observations s \<noteq> []) ''AVAILABLE RoadAccessSnapshot requires observations'',
          req (rs_source_refs s \<noteq> []) ''AVAILABLE RoadAccessSnapshot requires source_refs'']
        else [req (rs_observations s = []) ''non-AVAILABLE RoadAccessSnapshot must not contain observations''])
     @ [require_covered ((\<Union>r \<in> set (rs_observations s). set (ro_source_refs r)) \<union> benchmark_refs (rs_benchmark s)) (rs_source_refs s)
          ''source_refs must include all road/benchmark source refs'',
        require_aware_datetime ''generated_at'' (rs_generated_at s)])"

section \<open>Transit\<close>

datatype validity_state = Valid | Derived_Validity | Out_Of_Validity | Unknown_Validity | Validity_Not_Applicable

record transit_stop =
  ts_feed_id :: string
  ts_stop_id :: string
  ts_location_type :: pynum
  ts_parent_station :: "string option"
  ts_station_id :: string
  ts_latitude :: pynum
  ts_longitude :: pynum
  ts_geometry_quality :: string
  ts_reachable :: bool
  ts_catchment_ref :: string
  ts_source_ref :: string

definition transit_stop_post_init :: "transit_stop \<Rightarrow> (py_error, transit_stop) result" where
  "transit_stop_post_init t = validated t [
     require_canonical_identifier ''feed_id'' (ts_feed_id t),
     require_nonempty_text ''stop_id'' (ts_stop_id t),
     require_count ''location_type'' (ts_location_type t),
     require_optional_nonempty_text ''parent_station_id'' (ts_parent_station t),
     require_nonempty_text ''canonical_station_id'' (ts_station_id t),
     require_latitude ''latitude'' (ts_latitude t),
     require_longitude ''longitude'' (ts_longitude t),
     require_canonical_identifier ''access_geometry_quality'' (ts_geometry_quality t),
     require_canonical_identifier ''walk_catchment_ref'' (ts_catchment_ref t),
     require_canonical_identifier ''source_ref'' (ts_source_ref t)]"

record service_window =
  sw_timezone :: string
  sw_validity :: validity_state
  sw_start :: "int option"
  sw_end :: "int option"
  sw_reference_dates :: "int list"
  sw_temporal_policy :: string
  sw_calendar_version :: string
  sw_profile_type :: string
  sw_hour_bins :: int
  sw_exceptions_applied :: bool
  sw_over_24h :: bool

definition service_window_post_init :: "(string \<Rightarrow> bool) \<Rightarrow> service_window \<Rightarrow> (py_error, service_window) result" where
  "service_window_post_init iana w = validated w [
     require_nonempty_text ''timezone'' (sw_timezone w),
     req (iana (sw_timezone w)) ''timezone must be a valid IANA timezone'',
     req (case (sw_start w, sw_end w) of (Some a, Some b) \<Rightarrow> a \<le> b | _ \<Rightarrow> True) ''validity_end must be >= validity_start'',
     req (distinct (sw_reference_dates w)) ''reference_dates must not contain duplicates'',
     req (sw_reference_dates w = sort (sw_reference_dates w)) ''reference_dates must be deterministically sorted'',
     req (case sw_start w of None \<Rightarrow> True | Some a \<Rightarrow> list_all (\<lambda>d. a \<le> d) (sw_reference_dates w))
       ''reference_dates must not precede validity_start'',
     req (case sw_end w of None \<Rightarrow> True | Some b \<Rightarrow> list_all (\<lambda>d. d \<le> b) (sw_reference_dates w))
       ''reference_dates must not exceed validity_end'',
     require_nonempty_text ''temporal_policy_version'' (sw_temporal_policy w),
     require_nonempty_text ''service_calendar_version'' (sw_calendar_version w),
     req (sw_profile_type w = ''typical_published_week'') ''profile_type must be typical_published_week'',
     req (sw_hour_bins w = 168) ''hour_bins must equal 168'',
     req (sw_exceptions_applied w) ''calendar + calendar_dates semantics must be applied'',
     req (sw_over_24h w) ''GTFS >24:00 service-day semantics must be preserved'']"

record transit_observation =
  tb_hour :: int
  tb_exact :: pynum
  tb_frequency :: pynum
  tb_total :: pynum

definition transit_observation_post_init :: "transit_observation \<Rightarrow> (py_error, transit_observation) result" where
  "transit_observation_post_init b = validated b [
     require_bounded_number ''hour_of_week'' (Fin 0) (Fin 167) (Py_Int (tb_hour b)),
     require_count ''scheduled_exact_departures'' (tb_exact b),
     require_nonnegative_number ''frequency_departure_equivalents'' (tb_frequency b),
     require_nonnegative_number ''total_departure_equivalents'' (tb_total b),
     require_close (tb_total b) (rbind (num_add (tb_exact b) (tb_frequency b)) float_of)
       ''total_departure_equivalents must equal scheduled exact + frequency departure equivalents'']"

record transit_snapshot =
  tr_id :: string
  tr_stops :: "transit_stop list"
  tr_window :: service_window
  tr_observations :: "transit_observation list"
  tr_departures :: metric_value
  tr_benchmark :: "benchmark_reference option"
  tr_bundle :: string
  tr_source_refs :: "string list"
  tr_availability :: availability_state
  tr_quality :: data_quality_state
  tr_generated_at :: py_datetime

definition profile_mean :: "transit_observation list \<Rightarrow> (py_error, pyfloat) result" where
  "profile_mean obs =
     rbind (foldl (\<lambda>acc b. rbind acc (\<lambda>s. num_add s (tb_total b))) (Inr (Py_Int 0)) obs) (\<lambda>s.
     num_div s (Py_Float (Fin 168)))"

definition available_transit_checks :: "transit_snapshot \<Rightarrow> check list" where
  "available_transit_checks s = [
     req (sw_validity (tr_window s) \<in> {Valid, Derived_Validity}) ''AVAILABLE TransitSnapshot requires VALID or DERIVED_VALIDITY window'',
     req (sw_reference_dates (tr_window s) \<noteq> []) ''AVAILABLE TransitSnapshot requires at least one reference date'',
     req (length (tr_observations s) = 168) ''AVAILABLE transit profile must contain 168 observations'',
     req (map tb_hour (tr_observations s) = map int [0..<168]) ''transit observations must be unique and ordered hour_of_week 0..167'',
     req (tr_source_refs s \<noteq> []) ''AVAILABLE TransitSnapshot requires source_refs'',
     rbind (profile_mean (tr_observations s)) (\<lambda>mean.
       case mv_value (tr_departures s) of None \<Rightarrow> Inl AssertionError
       | Some v \<Rightarrow> require_close v (Inr mean)
           ''service_departure_equivalents_per_hour must equal the 168-hour profile mean'')]"

definition transit_snapshot_post_init :: "transit_snapshot \<Rightarrow> (py_error, transit_snapshot) result" where
  "transit_snapshot_post_init s = validated s ([
     require_canonical_identifier ''snapshot_id'' (tr_id s),
     req (distinct (map (\<lambda>t. (ts_feed_id t, ts_stop_id t)) (tr_stops s))) ''stops must not contain duplicate feed_id/stop_id pairs'',
     req (tr_stops s = sort_key (\<lambda>t. (ts_feed_id t, ts_station_id t, ts_stop_id t)) (tr_stops s))
       ''stops must be deterministically ordered by feed_id, canonical_station_id, stop_id'',
     req (mv_unit (tr_departures s) = ''departure_equivalents_per_hour'')
       ''service_departure_equivalents_per_hour must use unit departure_equivalents_per_hour'',
     require_nonempty_text ''source_bundle_fingerprint'' (tr_bundle s),
     require_unique_identifiers ''source_refs'' (tr_source_refs s),
     require_snapshot_quality ''TransitSnapshot'' (tr_availability s) (tr_quality s),
     req (mv_availability (tr_departures s) = tr_availability s) ''TransitSnapshot availability must equal primary metric availability'']
     @ (if tr_availability s = Available then available_transit_checks s
        else [req (tr_observations s = []) ''non-AVAILABLE TransitSnapshot must not fabricate service observations''])
     @ [req (sw_validity (tr_window s) = Out_Of_Validity \<longrightarrow> tr_availability s \<noteq> Available)
          ''OUT_OF_VALIDITY transit source cannot be AVAILABLE'',
        req (sw_validity (tr_window s) = Out_Of_Validity \<longrightarrow> tr_observations s = [])
          ''OUT_OF_VALIDITY transit source must not produce observations'',
        require_covered (set (map ts_source_ref (tr_stops s)) \<union> set (mv_source_refs (tr_departures s)) \<union> benchmark_refs (tr_benchmark s))
          (tr_source_refs s) ''source_refs must include all nested transit source refs'',
        require_aware_datetime ''generated_at'' (tr_generated_at s)])"

section \<open>Parking\<close>

datatype parking_mode = Off_Street | On_Street

datatype parking_access = Public | Permissive | Private | Customers | Unknown_Access

record parking_observation =
  po_id :: string
  po_mode :: parking_mode
  po_access :: parking_access
  po_generic_eligible :: bool
  po_capacity :: metric_value
  po_reachable :: bool
  po_walk_time :: metric_value
  po_curb_length :: metric_value
  po_occupancy :: metric_value
  po_available_spaces :: metric_value
  po_timestamp :: "py_datetime option"
  po_source_ref :: string

definition measured_in :: "string \<Rightarrow> string \<Rightarrow> metric_value \<Rightarrow> check list" where
  "measured_in name u m = [req (mv_unit m = u) (name @ '' must use another unit''),
     req (nonneg_value m) (name @ '' must be nonnegative'')]"

definition dynamic_available :: "parking_observation \<Rightarrow> bool" where
  "dynamic_available p = list_ex (\<lambda>m. mv_availability m = Available) [po_occupancy p, po_available_spaces p]"

definition timestamp_check :: "parking_observation \<Rightarrow> check" where
  "timestamp_check p = (if dynamic_available p then
       (case po_timestamp p of None \<Rightarrow> Inl (ValueError ''dynamic parking measurements require availability_timestamp'')
        | Some t \<Rightarrow> require_aware_datetime ''availability_timestamp'' t)
     else req (po_timestamp p = None) ''availability_timestamp must be None when no dynamic measurement is available'')"

definition capacity_check :: "parking_observation \<Rightarrow> check" where
  "capacity_check p = (if mv_availability (po_capacity p) = Available \<and> mv_availability (po_available_spaces p) = Available then
       (case (mv_value (po_capacity p), mv_value (po_available_spaces p)) of
          (Some capacity, Some spaces) \<Rightarrow> req (\<not> flt (num_value capacity) (num_value spaces)) ''available_spaces cannot exceed observed capacity''
        | _ \<Rightarrow> Inl AssertionError)
     else Inr ())"

definition parking_observation_post_init :: "parking_observation \<Rightarrow> (py_error, parking_observation) result" where
  "parking_observation_post_init p = validated p ([
     require_canonical_identifier ''parking_id'' (po_id p),
     req (po_generic_eligible p = (po_access p \<in> {Public, Permissive}))
       ''generic_public_supply_eligible must be true only for PUBLIC/PERMISSIVE parking'']
     @ measured_in ''capacity'' ''spaces'' (po_capacity p)
     @ measured_in ''walk_time_to_site_seconds'' ''seconds'' (po_walk_time p)
     @ measured_in ''curb_length_m'' ''m'' (po_curb_length p)
     @ [req (mv_unit (po_occupancy p) = ''ratio'') ''occupancy must use unit ratio'',
        req (case mv_value (po_occupancy p) of None \<Rightarrow> True | Some v \<Rightarrow> fle (Fin 0) (num_value v) \<and> fle (num_value v) (Fin 1))
          ''occupancy must be between 0 and 1'']
     @ measured_in ''available_spaces'' ''spaces'' (po_available_spaces p)
     @ [timestamp_check p, capacity_check p, require_canonical_identifier ''source_ref'' (po_source_ref p)])"

record parking_snapshot =
  ps_id :: string
  ps_observations :: "parking_observation list"
  ps_facility_count :: metric_value
  ps_offstreet_capacity :: metric_value
  ps_unknown_count :: metric_value
  ps_curb_length :: metric_value
  ps_onstreet_capacity :: metric_value
  ps_dynamic_present :: bool
  ps_source_refs :: "string list"
  ps_availability :: availability_state
  ps_quality :: data_quality_state
  ps_eligibility :: score_eligibility
  ps_generated_at :: py_datetime

definition parking_summaries :: "parking_snapshot \<Rightarrow> (string \<times> metric_value \<times> string) list" where
  "parking_summaries s = [(''mapped_public_facility_count'', ps_facility_count s, ''count''),
     (''known_public_offstreet_capacity'', ps_offstreet_capacity s, ''spaces''),
     (''unknown_capacity_facility_count'', ps_unknown_count s, ''count''),
     (''mapped_legal_curb_length_m'', ps_curb_length s, ''m''),
     (''known_onstreet_capacity'', ps_onstreet_capacity s, ''spaces'')]"

definition observation_metrics :: "parking_observation \<Rightarrow> metric_value list" where
  "observation_metrics p = [po_capacity p, po_walk_time p, po_curb_length p, po_occupancy p, po_available_spaces p]"

definition parking_nested_refs :: "parking_snapshot \<Rightarrow> string set" where
  "parking_nested_refs s = set (map po_source_ref (ps_observations s))
     \<union> (\<Union>p \<in> set (ps_observations s). \<Union>m \<in> set (observation_metrics p). set (mv_source_refs m))
     \<union> (\<Union>(name, m, u) \<in> set (parking_summaries s). set (mv_source_refs m))"

definition parking_snapshot_post_init :: "parking_snapshot \<Rightarrow> (py_error, parking_snapshot) result" where
  "parking_snapshot_post_init s = validated s ([
     require_canonical_identifier ''snapshot_id'' (ps_id s),
     req (distinct (map po_id (ps_observations s))) ''parking_id values must be unique'',
     req (map po_id (ps_observations s) = sort (map po_id (ps_observations s)))
       ''parking observations must be deterministically ordered by parking_id'']
     @ concat (map (\<lambda>(name, m, u). measured_in name u m) (parking_summaries s))
     @ [require_unique_identifiers ''source_refs'' (ps_source_refs s),
        require_snapshot_quality ''ParkingSnapshot'' (ps_availability s) (ps_quality s),
        req (ps_availability s \<noteq> Available \<longrightarrow> ps_eligibility s \<noteq> Score_Eligible) ''non-AVAILABLE ParkingSnapshot cannot be score-eligible'',
        req (ps_availability s = Not_Applicable \<longrightarrow> ps_eligibility s = Eligibility_Not_Applicable)
          ''NOT_APPLICABLE ParkingSnapshot requires NOT_APPLICABLE score eligibility'',
        req (ps_availability s = Available \<longrightarrow> ps_source_refs s \<noteq> []) ''AVAILABLE ParkingSnapshot requires source_refs'',
        req (ps_dynamic_present s = list_ex dynamic_available (ps_observations s))
          ''dynamic_availability_present must reflect actual dynamic measurements'',
        require_covered (parking_nested_refs s) (ps_source_refs s)
          ''source_refs must include all parking observation/summary refs'',
        require_aware_datetime ''generated_at'' (ps_generated_at s)])"
section \<open>Age cohorts partition the ages\<close>

definition in_cohort :: "age_cohort \<Rightarrow> rat \<Rightarrow> bool" where
  "in_cohort c a = (num_key (ag_min c) \<le> a \<and> (case ag_max c of None \<Rightarrow> True | Some upper \<Rightarrow> a < num_key upper))"

lemma countD: "require_count name v = Inr u \<Longrightarrow> num_value v = Fin (num_key v)"
  by (cases v) (auto simp: require_count_def num_key_def num_value_def)

lemma cohort_bounds:
  assumes "age_cohort_post_init c = Inr c'"
  shows "num_value (ag_min c) = Fin (num_key (ag_min c))"
    and "ag_max c = Some upper \<Longrightarrow> num_value upper = Fin (num_key upper) \<and> num_key (ag_min c) < num_key upper"
  using assms by (auto simp: age_cohort_post_init_def validated_Inr dest!: countD split: option.splits)

text \<open>
  The validation compares neighbours only; together with the order of each interval this separates any two cohorts.
\<close>

lemma cohorts_separated:
  assumes valid: "\<forall>c \<in> set cs. age_cohort_post_init c = Inr c"
    and pairs: "\<forall>(p, c) \<in> set (cohort_pairs cs). cohort_pair_check p c = Inr ()"
    and "i < j" "j < length cs"
  shows "\<exists>upper. ag_max (cs ! i) = Some upper \<and> num_key upper \<le> num_key (ag_min (cs ! j))"
  using assms(3,4)
proof (induction j)
  case (Suc j)
  have pair: "(cs ! k, cs ! Suc k) \<in> set (cohort_pairs cs)" if "Suc k < length cs" for k
    using that by (auto simp: cohort_pairs_def in_set_zip nth_tl intro!: exI [of _ k])
  have next_cohort: "\<exists>upper. ag_max (cs ! j) = Some upper \<and> num_key upper \<le> num_key (ag_min (cs ! Suc j))"
  proof -
    have check: "cohort_pair_check (cs ! j) (cs ! Suc j) = Inr ()" using pairs pair [of j] Suc.prems by auto
    then obtain upper where upper: "ag_max (cs ! j) = Some upper"
      by (auto simp: cohort_pair_check_def split: option.splits)
    moreover have "age_cohort_post_init (cs ! j) = Inr (cs ! j)" "age_cohort_post_init (cs ! Suc j) = Inr (cs ! Suc j)"
      using valid Suc.prems by auto
    ultimately show ?thesis
      using check cohort_bounds(2) [of "cs ! j" "cs ! j" upper] cohort_bounds(1) [of "cs ! Suc j" "cs ! Suc j"]
      by (auto simp: cohort_pair_check_def)
  qed
  show ?case
  proof (cases "i = j")
    case False
    then obtain upper where "ag_max (cs ! i) = Some upper" "num_key upper \<le> num_key (ag_min (cs ! j))"
      using Suc by fastforce
    moreover have "age_cohort_post_init (cs ! j) = Inr (cs ! j)" using valid Suc.prems by auto
    ultimately show ?thesis using next_cohort cohort_bounds(2) [of "cs ! j" "cs ! j"] by fastforce
  qed (use next_cohort in simp)
qed simp

text \<open>
  C34: the age cohorts of a validated demographic snapshot do not overlap: although the code compares
  neighbours only, no age lies in two cohorts, and only the last cohort may be open-ended.
\<close>

theorem age_cohorts_disjoint:
  assumes "demographic_post_init d = Inr d" "\<forall>c \<in> set (de_age_cohorts d). age_cohort_post_init c = Inr c"
    and "i < length (de_age_cohorts d)" "j < length (de_age_cohorts d)" "i \<noteq> j"
  shows "\<not> (in_cohort (de_age_cohorts d ! i) a \<and> in_cohort (de_age_cohorts d ! j) a)
    \<and> (ag_max (de_age_cohorts d ! i) = None \<longrightarrow> i = length (de_age_cohorts d) - 1)"
proof -
  let ?cs = "de_age_cohorts d"
  have pairs: "\<forall>(p, c) \<in> set (cohort_pairs ?cs). cohort_pair_check p c = Inr ()"
    using assms(1) by (auto simp: demographic_post_init_def validated_Inr all_ok_Inr)
  note separated = cohorts_separated [OF assms(2) pairs]
  have "\<not> (in_cohort (?cs ! k) a \<and> in_cohort (?cs ! l) a)" if "k < l" "l < length ?cs" for k l
    using separated [OF that] by (auto simp: in_cohort_def)
  from this [of i j] this [of j i] have "\<not> (in_cohort (?cs ! i) a \<and> in_cohort (?cs ! j) a)"
    using assms(3-5) by (meson linorder_neqE_nat)
  moreover have "i = length ?cs - 1" if "ag_max (?cs ! i) = None"
  proof (rule ccontr)
    assume "i \<noteq> length ?cs - 1"
    then have "i < length ?cs - 1" "length ?cs - 1 < length ?cs" using assms(3) by auto
    from separated [OF this] show False using that by simp
  qed
  ultimately show ?thesis by blast
qed

definition example_population :: metric_value where
  "example_population = \<lparr>mv_value = Some (Py_Int 10), mv_unit = ''people'', mv_availability = Available,
     mv_quality = Quality_Full, mv_eligibility = Score_Eligible, mv_calibration = Calibration_Not_Applicable, mv_is_estimate = False,
     mv_is_proxy = False, mv_source_refs = [''census.acs5''], mv_method_version = None, mv_reason_codes = []\<rparr>"

definition example_demographics :: demographic_snapshot where
  "example_demographics = \<lparr>de_geography = \<lparr>ge_type = Tract, ge_id = ''1'', ge_name = ''T'', ge_country_code = ''US'',
       ge_source_ref = ''census.acs5'', ge_source_version = None\<rparr>,
     de_total_population = example_population,
     de_age_cohorts = [\<lparr>ag_id = ''a'', ag_min = Py_Int 0, ag_max = Some (Py_Int 18), ag_population = Py_Int 4, ag_share = Py_Float (to_float (4 / 10))\<rparr>,
       \<lparr>ag_id = ''b'', ag_min = Py_Int 18, ag_max = None, ag_population = Py_Int 6, ag_share = Py_Float (to_float (6 / 10))\<rparr>],
     de_household_income = example_population, de_source_refs = [''census.acs5''], de_availability = Available,
     de_quality = Quality_Full, de_generated_at = Aware 0\<rparr>"

lemma example_demographics_valid: "demographic_post_init example_demographics = Inr example_demographics"
    "\<forall>c \<in> set (de_age_cohorts example_demographics). age_cohort_post_init c = Inr c"
proof -
  have texts: "is_identifier ''census.acs5''" "is_identifier ''a''" "is_identifier ''b''" by code_simp+
  note shares = num_div_def cohort_share_check_def population_checks_def cohort_total_def num_add_def num_value_def
  show "demographic_post_init example_demographics = Inr example_demographics"
    by (simp add: demographic_post_init_def validated_Inr example_demographics_def example_population_def unique_identifiers_iff
        texts cohort_key_def num_key_def cohort_pairs_def cohort_pair_check_def require_snapshot_quality_def require_covered_def
        require_nonnegative_number_def require_finite_number_def float_of_def int_to_float_def shares
        less_prod_def less_eq_prod_def del: is_identifier.simps)
  show "\<forall>c \<in> set (de_age_cohorts example_demographics). age_cohort_post_init c = Inr c"
    using b64.nonneg [of "2 / 5"] b64.le_one [of "2 / 5"] b64.nonneg [of "3 / 5"] b64.le_one [of "3 / 5"]
    by (simp add: age_cohort_post_init_def validated_Inr example_demographics_def canonical_identifier_iff texts require_count_def
        require_bounded_number_def require_nonnegative_number_def require_finite_number_def float_of_def int_to_float_def num_value_def
        del: is_identifier.simps)
qed

lemma age_cohorts_disjoint_witness:
  "\<not> (in_cohort (de_age_cohorts example_demographics ! 0) 20 \<and> in_cohort (de_age_cohorts example_demographics ! 1) 20)"
proof -
  have "length (de_age_cohorts example_demographics) = 2" by (simp add: example_demographics_def)
  then show ?thesis using age_cohorts_disjoint [OF example_demographics_valid, of 0 1 20] by simp
qed

end
