(* ===== verification/MetricsMeasurements.thy ===== *)
theory MetricsMeasurements
  imports DataSnapshots PyJson
begin

text \<open>
  The real-unit metrics of \<open>sitescore-metrics\<close>: the contracts, the registry of the ten metrics, the derived
  measurement with its coherence checks, and the functions that measure. An identity is the hash of the
  canonical JSON of a semantic record: the record is translated, the canonical text with its SHA-256 is a
  parameter for each of the three grammars, and so is the JSON of a whole snapshot, which the code writes
  field by field by reflection.
\<close>

section \<open>Contracts\<close>

datatype subject_kind = Subject_Site | Subject_Benchmark_Cell

datatype metric_status = Implemented_Canonical | Policy_Unresolved | Provider_Derived | Deferred_Metric

datatype derivation_strategy = Pass_Through | Unresolved_Allocation | Unresolved_Target_Definition
  | Unresolved_Denominator | Unresolved_Reduction

fun subject_kind_text :: "subject_kind \<Rightarrow> string" where
  "subject_kind_text Subject_Site = ''site''"
| "subject_kind_text Subject_Benchmark_Cell = ''benchmark_cell''"

fun status_text :: "metric_status \<Rightarrow> string" where
  "status_text Implemented_Canonical = ''implemented_canonical''"
| "status_text Policy_Unresolved = ''structurally_supported_but_policy_unresolved''"
| "status_text Provider_Derived = ''pass_through_provider_derived''"
| "status_text Deferred_Metric = ''deferred''"

fun strategy_text :: "derivation_strategy \<Rightarrow> string" where
  "strategy_text Pass_Through = ''pass_through_provider_derived''"
| "strategy_text Unresolved_Allocation = ''unresolved_allocation''"
| "strategy_text Unresolved_Target_Definition = ''unresolved_target_definition''"
| "strategy_text Unresolved_Denominator = ''unresolved_denominator''"
| "strategy_text Unresolved_Reduction = ''unresolved_reduction''"

datatype evidence = Ev_Demographics demographic_snapshot | Ev_Isochrone isochrone_snapshot
  | Ev_Transit transit_snapshot | Ev_Parking parking_snapshot | Ev_Competition competition_snapshot
  | Ev_Road road_snapshot

record hashers =
  hx_metrics :: "json \<Rightarrow> string"
  hx_bench :: "json \<Rightarrow> string"
  hx_pipeline :: "json \<Rightarrow> string"
  hx_evidence :: "evidence \<Rightarrow> json"

record precision_policy =
  pp_id :: string
  pp_version :: string

definition precision_post_init :: "precision_policy \<Rightarrow> (py_error, precision_policy) result" where
  "precision_post_init p = validated p [
     require_nonempty_text ''policy_id'' (pp_id p), require_nonempty_text ''policy_version'' (pp_version p)]"

definition precision_record :: "precision_policy \<Rightarrow> json" where
  "precision_record p = JObj [(''policy_id'', JStr (pp_id p)), (''policy_version'', JStr (pp_version p)),
     (''mode'', JStr ''full_binary64''), (''quantization_parameter'', JNull)]"

record measurement_subject =
  su_kind :: subject_kind
  su_contract :: string
  su_contract_version :: string
  su_payload :: "(string \<times> string) list"
  su_scope_refs :: "string list"

definition sorted_unique :: "string list \<Rightarrow> bool" where
  "sorted_unique xs \<longleftrightarrow> distinct xs \<and> xs = sort xs"

definition text_pairs :: "string \<Rightarrow> (string \<times> string) list \<Rightarrow> check list" where
  "text_pairs name kvs = concat (map (\<lambda>(k, v). [require_nonempty_text (name @ '' key'') k, require_nonempty_text (name @ '' value'') v]) kvs)"

definition subject_post_init :: "measurement_subject \<Rightarrow> (py_error, measurement_subject) result" where
  "subject_post_init s = validated s ([
     require_nonempty_text ''subject_contract'' (su_contract s),
     require_nonempty_text ''subject_contract_version'' (su_contract_version s),
     req (su_payload s \<noteq> []) ''semantic_payload must be a non-empty tuple'']
     @ text_pairs ''semantic payload'' (su_payload s)
     @ [req (sorted_unique (map fst (su_payload s))) ''semantic_payload must have unique canonical-sorted keys'',
        req (su_scope_refs s \<noteq> []) ''scope_refs must be non-empty tuple'']
     @ map (require_nonempty_text ''scope_ref'') (su_scope_refs s)
     @ [req (sorted_unique (su_scope_refs s)) ''scope_refs must be unique and sorted''])"

definition subject_record :: "measurement_subject \<Rightarrow> json" where
  "subject_record s = JObj [(''kind'', JStr (subject_kind_text (su_kind s))), (''subject_contract'', JStr (su_contract s)),
     (''subject_contract_version'', JStr (su_contract_version s)),
     (''semantic_payload'', JArr (map (\<lambda>(k, v). JArr [JStr k, JStr v]) (su_payload s))),
     (''scope_refs'', JArr (map JStr (su_scope_refs s)))]"

record metric_definition =
  md_key :: string
  md_version :: string
  md_unit :: string
  md_status :: metric_status

definition definition_record :: "metric_definition \<Rightarrow> json" where
  "definition_record d = JObj [(''metric_key'', JStr (md_key d)), (''definition_version'', JStr (md_version d)),
     (''unit'', JStr (md_unit d)), (''implementation_status'', JStr (status_text (md_status d)))]"

record derivation_policy =
  dp_id :: string
  dp_version :: string
  dp_metric_key :: string
  dp_strategy :: derivation_strategy

definition is_resolved :: "derivation_policy \<Rightarrow> bool" where
  "is_resolved p \<longleftrightarrow> dp_strategy p = Pass_Through"

definition derivation_record :: "derivation_policy \<Rightarrow> json" where
  "derivation_record p = JObj [(''policy_id'', JStr (dp_id p)), (''policy_version'', JStr (dp_version p)),
     (''metric_key'', JStr (dp_metric_key p)), (''strategy'', JStr (strategy_text (dp_strategy p)))]"

definition metric_definition_post_init :: "metric_definition \<Rightarrow> (py_error, metric_definition) result" where
  "metric_definition_post_init d = validated d [require_nonempty_text ''metric_key'' (md_key d),
     require_nonempty_text ''definition_version'' (md_version d), require_nonempty_text ''unit'' (md_unit d)]"

definition derivation_policy_post_init :: "derivation_policy \<Rightarrow> (py_error, derivation_policy) result" where
  "derivation_policy_post_init p = validated p [require_nonempty_text ''policy_id'' (dp_id p),
     require_nonempty_text ''policy_version'' (dp_version p), require_nonempty_text ''metric_key'' (dp_metric_key p)]"

record metric_evidence =
  me_evidence :: evidence
  me_role :: string

definition metric_evidence_post_init :: "metric_evidence \<Rightarrow> (py_error, metric_evidence) result" where
  "metric_evidence_post_init e = validated e [require_nonempty_text ''evidence_role'' (me_role e)]"

definition evidence_id :: "hashers \<Rightarrow> metric_evidence \<Rightarrow> string" where
  "evidence_id H e = hx_metrics H (JObj [(''evidence_role'', JStr (me_role e)), (''evidence'', hx_evidence H (me_evidence e))])"

section \<open>The registry\<close>

definition full_binary64 :: precision_policy where
  "full_binary64 = \<lparr>pp_id = ''real_unit_full_binary64'', pp_version = ''1.0''\<rparr>"

definition definition_row :: "string \<Rightarrow> string \<Rightarrow> metric_status \<Rightarrow> string \<times> metric_definition" where
  "definition_row key unit status = (key, \<lparr>md_key = key, md_version = ''1.0'', md_unit = unit, md_status = status\<rparr>)"

definition metric_definitions :: "(string \<times> metric_definition) list" where
  "metric_definitions = [
     definition_row ''walkable_population'' ''people'' Policy_Unresolved,
     definition_row ''target_population_density'' ''people_per_km2'' Policy_Unresolved,
     definition_row ''household_income'' ''usd_per_household'' Provider_Derived,
     definition_row ''household_income_ratio'' ''ratio'' Policy_Unresolved,
     definition_row ''competition_pressure'' ''competition_pressure'' Policy_Unresolved,
     definition_row ''walkable_reach_area_km2'' ''km2'' Provider_Derived,
     definition_row ''transit_service_departure_equivalents_per_hour'' ''departure_equivalents_per_hour'' Provider_Derived,
     definition_row ''road_reachable_area_km2'' ''km2'' Policy_Unresolved,
     definition_row ''parking_public_offstreet_capacity'' ''spaces'' Provider_Derived,
     definition_row ''parking_legal_curb_length_m'' ''m'' Provider_Derived]"

definition policy_row :: "string \<Rightarrow> string \<Rightarrow> derivation_strategy \<Rightarrow> string \<times> derivation_policy" where
  "policy_row key i strategy = (key, \<lparr>dp_id = i, dp_version = ''1.0'', dp_metric_key = key, dp_strategy = strategy\<rparr>)"

definition metric_policies :: "(string \<times> derivation_policy) list" where
  "metric_policies = [
     policy_row ''walkable_population'' ''walkable_population_allocation'' Unresolved_Allocation,
     policy_row ''target_population_density'' ''target_population_definition'' Unresolved_Target_Definition,
     policy_row ''household_income'' ''household_income_passthrough'' Pass_Through,
     policy_row ''household_income_ratio'' ''household_income_denominator'' Unresolved_Denominator,
     policy_row ''competition_pressure'' ''competition_scalar_reduction'' Unresolved_Reduction,
     policy_row ''walkable_reach_area_km2'' ''isochrone_area_passthrough'' Pass_Through,
     policy_row ''transit_service_departure_equivalents_per_hour'' ''transit_supply_passthrough'' Pass_Through,
     policy_row ''road_reachable_area_km2'' ''road_scalar_reduction'' Unresolved_Reduction,
     policy_row ''parking_public_offstreet_capacity'' ''parking_capacity_passthrough'' Pass_Through,
     policy_row ''parking_legal_curb_length_m'' ''parking_curb_length_passthrough'' Pass_Through]"

definition registry_pair :: "string \<Rightarrow> (py_error, metric_definition \<times> derivation_policy) result" where
  "registry_pair key = (case (map_of metric_definitions key, map_of metric_policies key) of
     (Some d, Some p) \<Rightarrow> Inr (d, p)
   | _ \<Rightarrow> Inl (ValueError ''metric_key is not registered in the canonical V1 metric registry''))"

section \<open>Derived measurements\<close>

record derived_measurement =
  mm_definition :: metric_definition
  mm_policy :: derivation_policy
  mm_precision :: precision_policy
  mm_subject :: measurement_subject
  mm_inputs :: "metric_evidence list"
  mm_value :: metric_value
  mm_method :: string
  mm_reasons :: "string list"
  mm_bundle :: "(string \<times> string) list"

abbreviation mm_key :: "derived_measurement \<Rightarrow> string" where
  "mm_key m \<equiv> md_key (mm_definition m)"

definition registry_coherence :: "hashers \<Rightarrow> derived_measurement \<Rightarrow> check" where
  "registry_coherence H m = rbind (registry_pair (mm_key m)) (\<lambda>(d, p). all_ok [
     req (hx_metrics H (definition_record (mm_definition m)) = hx_metrics H (definition_record d))
       ''metric definition does not match the canonical V1 registry'',
     req (hx_metrics H (derivation_record (mm_policy m)) = hx_metrics H (derivation_record p))
       ''metric derivation policy does not match the canonical V1 registry'',
     req (dp_metric_key (mm_policy m) = mm_key m) ''policy metric_key mismatch'',
     (if md_status d = Provider_Derived then req (dp_strategy p = Pass_Through)
        ''canonical pass-through metric requires PASS_THROUGH_PROVIDER_DERIVED strategy''
      else if md_status d = Policy_Unresolved then req (dp_strategy p \<noteq> Pass_Through)
        ''canonical unresolved metric cannot use pass-through derivation strategy''
      else Inl (ValueError ''V1 canonical metric registry contains unsupported implementation status''))])"

fun evidence_sources :: "evidence \<Rightarrow> string list" where
  "evidence_sources (Ev_Demographics s) = de_source_refs s"
| "evidence_sources (Ev_Isochrone s) = is_source_refs s"
| "evidence_sources (Ev_Transit s) = tr_source_refs s"
| "evidence_sources (Ev_Parking s) = ps_source_refs s"
| "evidence_sources (Ev_Competition s) = cs_source_refs s"
| "evidence_sources (Ev_Road s) = rs_source_refs s"

definition canonical_union :: "string list \<Rightarrow> string list" where
  "canonical_union refs = sort (remdups refs)"

definition canonical_source_refs :: "evidence list \<Rightarrow> string list" where
  "canonical_source_refs es = canonical_union (concat (map evidence_sources es))"

definition unresolved_method :: "string \<Rightarrow> string" where
  "unresolved_method key = ''sitescore_metrics.'' @ key @ ''.v1''"

definition exact_unresolved :: "derived_measurement \<Rightarrow> string list \<Rightarrow> string \<Rightarrow> check" where
  "exact_unresolved m refs reason = (let v = mm_value m; method = unresolved_method (mm_key m) in all_ok [
     req (mv_value v = None) ''canonical unresolved measurement must not contain a numeric value'',
     req (mv_unit v = md_unit (mm_definition m)) ''canonical unresolved measurement unit mismatch'',
     req (mv_availability v = Unknown_Availability) ''canonical unresolved availability must be UNKNOWN'',
     req (mv_quality v = Quality_Missing) ''canonical unresolved data_quality must be MISSING'',
     req (mv_eligibility v = Score_Ineligible) ''canonical unresolved score_eligibility must be INELIGIBLE'',
     req (mv_calibration v = Uncalibrated) ''canonical unresolved calibration_state must be UNCALIBRATED'',
     req (\<not> mv_is_estimate v \<and> \<not> mv_is_proxy v) ''canonical unresolved measurement cannot be estimate/proxy'',
     req (mv_source_refs v = refs) ''canonical unresolved source_refs must be derived from actual evidence'',
     req (mv_method_version v = Some method \<and> mm_method m = method) ''canonical unresolved method_version mismatch'',
     req (mv_reason_codes v = [reason] \<and> mm_reasons m = [reason]) ''canonical unresolved reason_codes mismatch''])"

text \<open>
  The kind and the role of every input; the roles of a specification differ, so that comparing the inputs in the
  order of their roles is comparing the sorted pairs.
\<close>

datatype evidence_kind = Kind_Demographics | Kind_Isochrone | Kind_Transit | Kind_Parking | Kind_Competition | Kind_Road

fun kind_of :: "evidence \<Rightarrow> evidence_kind" where
  "kind_of (Ev_Demographics s) = Kind_Demographics"
| "kind_of (Ev_Isochrone s) = Kind_Isochrone"
| "kind_of (Ev_Transit s) = Kind_Transit"
| "kind_of (Ev_Parking s) = Kind_Parking"
| "kind_of (Ev_Competition s) = Kind_Competition"
| "kind_of (Ev_Road s) = Kind_Road"

definition exact_inputs :: "(evidence_kind \<times> string) list \<Rightarrow> metric_evidence list \<Rightarrow> check" where
  "exact_inputs specs inputs = all_ok [
     req (length inputs = length specs) ''measurement evidence cardinality does not match canonical V1 schema'',
     (if sort_key fst (map (\<lambda>e. (me_role e, kind_of (me_evidence e))) inputs) = sort_key fst (map (\<lambda>(k, r). (r, k)) specs)
      then Inr () else Inl (TypeError ''measurement evidence family/role does not match canonical V1 schema''))]"

definition evidence_of :: "string \<Rightarrow> metric_evidence list \<Rightarrow> evidence option" where
  "evidence_of role inputs = map_of (map (\<lambda>e. (me_role e, me_evidence e)) inputs) role"

text \<open>Equality of \<open>MetricValue\<close>s: numbers by their value.\<close>

definition same_metric :: "metric_value \<Rightarrow> metric_value \<Rightarrow> bool" where
  "same_metric a b \<longleftrightarrow> (case (mv_value a, mv_value b) of (None, None) \<Rightarrow> True
     | (Some v, Some w) \<Rightarrow> feq (num_value v) (num_value w) | _ \<Rightarrow> False)
     \<and> a\<lparr>mv_value := None\<rparr> = b\<lparr>mv_value := None\<rparr>"

text \<open>The value, the scope and the source bundle that the evidence of a passed-through metric prescribes.\<close>

fun passed_value :: "string \<Rightarrow> evidence \<Rightarrow> (metric_value \<times> string \<times> (string \<times> string) list) option" where
  "passed_value key (Ev_Demographics s) = (if key = ''household_income''
     then Some (de_household_income s, ''geography:'' @ ge_id (de_geography s), []) else None)"
| "passed_value key (Ev_Isochrone s) = (if key = ''walkable_reach_area_km2''
     then Some (is_area s, ''catchment:'' @ is_catchment_ref s, []) else None)"
| "passed_value key (Ev_Transit s) = (if key = ''transit_service_departure_equivalents_per_hour''
     then Some (tr_departures s, ''transit:'' @ tr_id s, [(''transit_source_bundle_fingerprint'', tr_bundle s)]) else None)"
| "passed_value key (Ev_Parking s) = (if key = ''parking_public_offstreet_capacity''
     then Some (ps_offstreet_capacity s, ''parking:'' @ ps_id s, [])
     else if key = ''parking_legal_curb_length_m'' then Some (ps_curb_length s, ''parking:'' @ ps_id s, []) else None)"
| "passed_value key _ = None"

definition passed_spec :: "string \<Rightarrow> (evidence_kind \<times> string) option" where
  "passed_spec key = map_of [(''household_income'', (Kind_Demographics, ''demographic_snapshot'')),
     (''walkable_reach_area_km2'', (Kind_Isochrone, ''isochrone_snapshot'')),
     (''transit_service_departure_equivalents_per_hour'', (Kind_Transit, ''transit_snapshot'')),
     (''parking_public_offstreet_capacity'', (Kind_Parking, ''parking_snapshot'')),
     (''parking_legal_curb_length_m'', (Kind_Parking, ''parking_snapshot''))] key"

definition expected_value :: "derived_measurement \<Rightarrow> (py_error, (metric_value \<times> string \<times> (string \<times> string) list) option) result" where
  "expected_value m = (case passed_spec (mm_key m) of None \<Rightarrow> Inr None
   | Some (k, role) \<Rightarrow> rbind (exact_inputs [(k, role)] (mm_inputs m)) (\<lambda>_.
       Inr (Option.bind (evidence_of role (mm_inputs m)) (passed_value (mm_key m)))))"

text \<open>The bundle of a measurement has unique sorted keys, so that equal dictionaries are equal lists.\<close>

definition resolved_coherence :: "derived_measurement \<Rightarrow> (metric_value \<times> string \<times> (string \<times> string) list) option \<Rightarrow> check" where
  "resolved_coherence m expected = (case expected of
     None \<Rightarrow> Inl (ValueError ''V1 resolved derivation strategy is not implemented for this metric'')
   | Some (v, scope, bundle) \<Rightarrow> all_ok [
       req (same_metric (mm_value m) v) ''pass-through output must equal the canonical MetricValue carried by actual evidence'',
       req (scope \<in> set (su_scope_refs (mm_subject m))) ''measurement subject is incompatible with actual evidence scope'',
       req (mm_bundle m = bundle) ''source/bundle compatibility lineage does not match actual evidence''])"

text \<open>The inputs, the required bundle and the reason of an unresolved metric.\<close>

definition unresolved_spec :: "string \<Rightarrow> ((evidence_kind \<times> string) list \<times> string) option" where
  "unresolved_spec key = map_of [
     (''walkable_population'', ([(Kind_Demographics, ''demographic_snapshot''), (Kind_Isochrone, ''isochrone_snapshot'')],
        ''population_allocation_policy_unresolved'')),
     (''target_population_density'', ([(Kind_Demographics, ''demographic_snapshot'')], ''target_population_definition_unresolved'')),
     (''household_income_ratio'', ([(Kind_Demographics, ''demographic_snapshot'')], ''household_income_denominator_policy_unresolved'')),
     (''competition_pressure'', ([(Kind_Competition, ''competition_snapshot'')], ''competition_reduction_policy_unresolved'')),
     (''road_reachable_area_km2'', ([(Kind_Road, ''road_snapshot'')], ''road_reduction_policy_unresolved''))] key"

fun required_bundle :: "evidence \<Rightarrow> (string \<times> string) list" where
  "required_bundle (Ev_Competition s) = [(''competition_measurement_definition_id'', cs_definition_id s)]"
| "required_bundle (Ev_Road s) = [(''routing_profile_id'', rs_profile_id s), (''routing_profile_version'', rs_profile_version s)]"
| "required_bundle _ = []"

definition unresolved_coherence :: "derived_measurement \<Rightarrow> check" where
  "unresolved_coherence m = (case unresolved_spec (mm_key m) of
     None \<Rightarrow> Inl (ValueError ''metric_key is not implemented in the canonical V1 measurement schema'')
   | Some (specs, reason) \<Rightarrow> rbind (exact_inputs specs (mm_inputs m)) (\<lambda>_.
       let es = map (\<lambda>(k, r). the (evidence_of r (mm_inputs m))) specs in all_ok [
         req (mm_bundle m = concat (map required_bundle es)) ''compatibility lineage mismatch'',
         exact_unresolved m (canonical_source_refs es) reason]))"

definition evidence_coherence :: "hashers \<Rightarrow> derived_measurement \<Rightarrow> check" where
  "evidence_coherence H m = all_ok [registry_coherence H m,
     rbind (expected_value m) (\<lambda>expected.
       if is_resolved (mm_policy m) then resolved_coherence m expected else unresolved_coherence m)]"

definition measurement_post_init :: "hashers \<Rightarrow> derived_measurement \<Rightarrow> (py_error, derived_measurement) result" where
  "measurement_post_init H m = (let v = mm_value m in validated m ([
     req (dp_metric_key (mm_policy m) = mm_key m) ''policy metric_key mismatch'',
     req (mm_inputs m \<noteq> []) ''measurement requires actual input evidence'',
     req (sorted_unique (map (evidence_id H) (mm_inputs m))) ''inputs must be unique and canonical-sorted by identity'',
     req (mv_unit v = md_unit (mm_definition m)) ''metric unit must equal definition unit'',
     (case mv_value v of None \<Rightarrow> Inr () | Some x \<Rightarrow> require_finite_number ''metric value'' x),
     require_nonempty_text ''method_version'' (mm_method m),
     req (mv_method_version v = Some (mm_method m)) ''MetricValue.method_version mismatch'',
     req (mv_reason_codes v = mm_reasons m) ''reason_codes must match MetricValue.reason_codes'',
     req (distinct (mm_reasons m)) ''reason_codes must be unique tuple'',
     req (mv_availability v = Available \<longrightarrow> is_resolved (mm_policy m)) ''AVAILABLE numeric measurement requires resolved derivation policy'',
     req (mv_availability v = Available \<longrightarrow> mv_value v \<noteq> None) ''AVAILABLE measurement requires value'',
     req (is_resolved (mm_policy m) \<or> mv_value v = None) ''unresolved derivation policy must not produce a numeric value'']
     @ text_pairs ''compatibility'' (mm_bundle m)
     @ [req (sorted_unique (map fst (mm_bundle m))) ''compatibility keys must be unique and sorted'',
        evidence_coherence H m]))"

section \<open>Measuring\<close>

definition unknown_metric :: "string \<Rightarrow> string list \<Rightarrow> string option \<Rightarrow> string \<Rightarrow> metric_value" where
  "unknown_metric unit refs method reason = \<lparr>mv_value = None, mv_unit = unit, mv_availability = Unknown_Availability,
     mv_quality = Quality_Missing, mv_eligibility = Score_Ineligible, mv_calibration = Uncalibrated, mv_is_estimate = False,
     mv_is_proxy = False, mv_source_refs = refs, mv_method_version = method, mv_reason_codes = [reason]\<rparr>"

definition measure_unknown :: "hashers \<Rightarrow> string \<Rightarrow> measurement_subject \<Rightarrow> metric_evidence list \<Rightarrow> string \<Rightarrow> string list
    \<Rightarrow> (string \<times> string) list \<Rightarrow> (py_error, derived_measurement) result" where
  "measure_unknown H key s es reason refs bundle = rbind (registry_pair key) (\<lambda>(d, p).
     rbind (metric_post_init (unknown_metric (md_unit d) (canonical_union refs) (Some (unresolved_method key)) reason)) (\<lambda>v.
     measurement_post_init H \<lparr>mm_definition = d, mm_policy = p, mm_precision = full_binary64, mm_subject = s,
       mm_inputs = sort_key (evidence_id H) es, mm_value = v, mm_method = unresolved_method key, mm_reasons = [reason],
       mm_bundle = sort bundle\<rparr>))"

definition measure_pass :: "hashers \<Rightarrow> string \<Rightarrow> measurement_subject \<Rightarrow> evidence \<Rightarrow> metric_value \<Rightarrow> string \<Rightarrow> string
    \<Rightarrow> (string \<times> string) list \<Rightarrow> (py_error, derived_measurement) result" where
  "measure_pass H key s e v role scope bundle =
     (if scope \<notin> set (su_scope_refs s) then Inl (ValueError ''foreign subject evidence'')
      else rbind (registry_pair key) (\<lambda>(d, p).
      if mv_unit v \<noteq> md_unit d then Inl (ValueError ''provider metric unit mismatch'')
      else rbind (metric_evidence_post_init \<lparr>me_evidence = e, me_role = role\<rparr>) (\<lambda>ev.
      measurement_post_init H \<lparr>mm_definition = d, mm_policy = p, mm_precision = full_binary64, mm_subject = s,
        mm_inputs = [ev], mm_value = v,
        mm_method = (case mv_method_version v of Some w \<Rightarrow> w | None \<Rightarrow> unresolved_method key),
        mm_reasons = mv_reason_codes v, mm_bundle = sort bundle\<rparr>)))"

definition measure_household_income :: "hashers \<Rightarrow> measurement_subject \<Rightarrow> demographic_snapshot \<Rightarrow> (py_error, derived_measurement) result" where
  "measure_household_income H s d = measure_pass H ''household_income'' s (Ev_Demographics d) (de_household_income d)
     ''demographic_snapshot'' (''geography:'' @ ge_id (de_geography d)) []"

definition measure_walkable_reach_area :: "hashers \<Rightarrow> measurement_subject \<Rightarrow> isochrone_snapshot \<Rightarrow> (py_error, derived_measurement) result" where
  "measure_walkable_reach_area H s i = measure_pass H ''walkable_reach_area_km2'' s (Ev_Isochrone i) (is_area i)
     ''isochrone_snapshot'' (''catchment:'' @ is_catchment_ref i) []"

definition measure_transit_service :: "hashers \<Rightarrow> measurement_subject \<Rightarrow> transit_snapshot \<Rightarrow> string \<Rightarrow> (py_error, derived_measurement) result" where
  "measure_transit_service H s t bundle = (if tr_bundle t \<noteq> bundle then Inl (ValueError ''foreign transit source bundle fingerprint'')
     else measure_pass H ''transit_service_departure_equivalents_per_hour'' s (Ev_Transit t) (tr_departures t)
       ''transit_snapshot'' (''transit:'' @ tr_id t) [(''transit_source_bundle_fingerprint'', tr_bundle t)])"

definition measure_parking_capacity :: "hashers \<Rightarrow> measurement_subject \<Rightarrow> parking_snapshot \<Rightarrow> (py_error, derived_measurement) result" where
  "measure_parking_capacity H s p = measure_pass H ''parking_public_offstreet_capacity'' s (Ev_Parking p)
     (ps_offstreet_capacity p) ''parking_snapshot'' (''parking:'' @ ps_id p) []"

definition measure_parking_curb_length :: "hashers \<Rightarrow> measurement_subject \<Rightarrow> parking_snapshot \<Rightarrow> (py_error, derived_measurement) result" where
  "measure_parking_curb_length H s p = measure_pass H ''parking_legal_curb_length_m'' s (Ev_Parking p)
     (ps_curb_length p) ''parking_snapshot'' (''parking:'' @ ps_id p) []"

definition unresolved_walkable_population :: "hashers \<Rightarrow> measurement_subject \<Rightarrow> demographic_snapshot \<Rightarrow> isochrone_snapshot
    \<Rightarrow> (py_error, derived_measurement) result" where
  "unresolved_walkable_population H s d i = measure_unknown H ''walkable_population'' s
     [\<lparr>me_evidence = Ev_Demographics d, me_role = ''demographic_snapshot''\<rparr>, \<lparr>me_evidence = Ev_Isochrone i, me_role = ''isochrone_snapshot''\<rparr>]
     ''population_allocation_policy_unresolved'' (canonical_union (de_source_refs d @ is_source_refs i)) []"

definition unresolved_target_population_density :: "hashers \<Rightarrow> measurement_subject \<Rightarrow> demographic_snapshot \<Rightarrow> (py_error, derived_measurement) result" where
  "unresolved_target_population_density H s d = measure_unknown H ''target_population_density'' s
     [\<lparr>me_evidence = Ev_Demographics d, me_role = ''demographic_snapshot''\<rparr>] ''target_population_definition_unresolved'' (de_source_refs d) []"

definition unresolved_household_income_ratio :: "hashers \<Rightarrow> measurement_subject \<Rightarrow> demographic_snapshot \<Rightarrow> (py_error, derived_measurement) result" where
  "unresolved_household_income_ratio H s d = measure_unknown H ''household_income_ratio'' s
     [\<lparr>me_evidence = Ev_Demographics d, me_role = ''demographic_snapshot''\<rparr>] ''household_income_denominator_policy_unresolved'' (de_source_refs d) []"

definition unresolved_competition_pressure :: "hashers \<Rightarrow> measurement_subject \<Rightarrow> competition_snapshot \<Rightarrow> string
    \<Rightarrow> (py_error, derived_measurement) result" where
  "unresolved_competition_pressure H s c expected = (if cs_definition_id c \<noteq> expected
     then Inl (ValueError ''foreign competition measurement_definition_id'')
     else measure_unknown H ''competition_pressure'' s [\<lparr>me_evidence = Ev_Competition c, me_role = ''competition_snapshot''\<rparr>]
       ''competition_reduction_policy_unresolved'' (cs_source_refs c) [(''competition_measurement_definition_id'', cs_definition_id c)])"

definition unresolved_road_reachable_area :: "hashers \<Rightarrow> measurement_subject \<Rightarrow> road_snapshot \<Rightarrow> (py_error, derived_measurement) result" where
  "unresolved_road_reachable_area H s r = measure_unknown H ''road_reachable_area_km2'' s
     [\<lparr>me_evidence = Ev_Road r, me_role = ''road_snapshot''\<rparr>] ''road_reduction_policy_unresolved'' (rs_source_refs r)
     [(''routing_profile_id'', rs_profile_id r), (''routing_profile_version'', rs_profile_version r)]"

section \<open>What a measurement carries\<close>

lemma evidence_of_single:
  assumes "exact_inputs [(k, role)] inputs = Inr u"
  obtains e where "inputs = [e]" "me_role e = role" "kind_of (me_evidence e) = k" "evidence_of role inputs = Some (me_evidence e)"
proof -
  obtain e where "inputs = [e]" using assms by (auto simp: exact_inputs_def length_Suc_conv)
  with assms that show thesis by (auto simp: exact_inputs_def evidence_of_def split: if_splits)
qed

text \<open>
  A measurement that exists is either the value its evidence carries, in a subject that covers the evidence, or
  an unresolved one without a number. No property of the hash is needed.
\<close>

lemma measurement_cases:
  assumes "measurement_post_init H m = Inr m'"
  obtains (passed) k role e v scope lineage where "passed_spec (mm_key m) = Some (k, role)" "mm_inputs m = [e]"
      "passed_value (mm_key m) (me_evidence e) = Some (v, scope, lineage)" "same_metric (mm_value m) v"
      "scope \<in> set (su_scope_refs (mm_subject m))" "mm_bundle m = lineage" "is_resolved (mm_policy m)"
  | (unresolved) specs reason where "unresolved_spec (mm_key m) = Some (specs, reason)" "mv_value (mm_value m) = None"
      "mv_availability (mm_value m) = Unknown_Availability" "mv_eligibility (mm_value m) = Score_Ineligible"
      "mv_reason_codes (mm_value m) = [reason]" "\<not> is_resolved (mm_policy m)"
proof -
  obtain expected where expected: "expected_value m = Inr expected"
    and coherent: "(if is_resolved (mm_policy m) then resolved_coherence m expected else unresolved_coherence m) = Inr ()"
    using assms by (auto simp: measurement_post_init_def Let_def validated_Inr evidence_coherence_def rbind_Inr_iff)
  show thesis
  proof (cases "is_resolved (mm_policy m)")
    case True
    then obtain v scope lineage where some: "expected = Some (v, scope, lineage)" and ok: "resolved_coherence m expected = Inr ()"
      using coherent by (auto simp: resolved_coherence_def split: option.splits)
    then obtain k role where spec: "passed_spec (mm_key m) = Some (k, role)" and inputs: "exact_inputs [(k, role)] (mm_inputs m) = Inr ()"
      and val: "Option.bind (evidence_of role (mm_inputs m)) (passed_value (mm_key m)) = Some (v, scope, lineage)"
      using expected by (auto simp: expected_value_def rbind_Inr_iff split: option.splits)
    obtain e where "mm_inputs m = [e]" "evidence_of role (mm_inputs m) = Some (me_evidence e)" using inputs by (rule evidence_of_single)
    with spec val ok some True show thesis by (intro passed) (auto simp: resolved_coherence_def)
  next
    case False
    with coherent have "unresolved_coherence m = Inr ()" by simp
    then obtain specs reason where "unresolved_spec (mm_key m) = Some (specs, reason)"
      by (auto simp: unresolved_coherence_def split: option.splits)
    moreover from this \<open>unresolved_coherence m = Inr ()\<close> have "mv_value (mm_value m) = None"
        "mv_availability (mm_value m) = Unknown_Availability" "mv_eligibility (mm_value m) = Score_Ineligible"
        "mv_reason_codes (mm_value m) = [reason]"
      by (auto simp: unresolved_coherence_def rbind_Inr_iff exact_unresolved_def Let_def)
    ultimately show thesis using False by (intro unresolved) auto
  qed
qed

section \<open>Measuring returns\<close>

text \<open>What a validated metric value satisfies, and that it equals itself.\<close>

lemma metric_validD:
  assumes "metric_post_init v = Inr v'"
  shows "list_all is_identifier (mv_reason_codes v)" "distinct (mv_reason_codes v)" "list_all is_identifier (mv_source_refs v)"
    "distinct (mv_source_refs v)" "trimmed (mv_unit v)" "pred_option trimmed (mv_method_version v)"
    "mv_availability v = Available \<longleftrightarrow> mv_value v \<noteq> None" "mv_availability v \<noteq> Available \<Longrightarrow> mv_eligibility v \<noteq> Score_Eligible"
    "mv_availability v = Not_Applicable \<Longrightarrow> mv_eligibility v = Eligibility_Not_Applicable"
    "mv_availability v = Not_Applicable \<Longrightarrow> mv_calibration v = Calibration_Not_Applicable"
    "mv_quality v \<in> set (allowed_quality (mv_availability v))"
    "mv_value v = Some x \<Longrightarrow> require_finite_number name x = Inr ()"
  using assms
  by (auto simp: metric_post_init_def validated_Inr unique_identifiers_iff require_finite_number_def rbind_Inr_iff
      split: if_splits option.splits)

lemma same_metric_refl: "metric_post_init v = Inr v' \<Longrightarrow> same_metric v v"
  using metric_validD(12) [of v v'] finite_numberD
  by (fastforce simp: same_metric_def split: option.splits)

lemma unknown_metric_valid: "trimmed unit \<Longrightarrow> list_all is_identifier refs \<Longrightarrow> distinct refs \<Longrightarrow> pred_option trimmed method
    \<Longrightarrow> is_identifier reason \<Longrightarrow> metric_post_init (unknown_metric unit refs method reason) = Inr (unknown_metric unit refs method reason)"
  by (simp add: metric_post_init_def validated_Inr unknown_metric_def unique_identifiers_iff del: is_identifier.simps)

lemma canonical_union_facts [simp]: "set (canonical_union refs) = set refs" "distinct (canonical_union refs)" "sorted (canonical_union refs)"
    "canonical_union (canonical_union refs) = canonical_union refs"
  by (simp_all add: canonical_union_def sorted_sort_id distinct_remdups_id)

lemma canonical_union_set: "set refs = set refs' \<Longrightarrow> canonical_union refs = canonical_union refs'"
  unfolding canonical_union_def by (rule sorted_distinct_set_unique) simp_all

definition measured :: "metric_definition \<Rightarrow> derivation_policy \<Rightarrow> measurement_subject \<Rightarrow> metric_evidence list \<Rightarrow> metric_value
    \<Rightarrow> string \<Rightarrow> (string \<times> string) list \<Rightarrow> derived_measurement" where
  "measured d p s es v method lineage = \<lparr>mm_definition = d, mm_policy = p, mm_precision = full_binary64, mm_subject = s,
     mm_inputs = es, mm_value = v, mm_method = method, mm_reasons = mv_reason_codes v, mm_bundle = lineage\<rparr>"

lemma measured_simps [simp]: "mm_definition (measured d p s es v method lineage) = d" "mm_policy (measured d p s es v method lineage) = p"
    "mm_subject (measured d p s es v method lineage) = s" "mm_inputs (measured d p s es v method lineage) = es"
    "mm_value (measured d p s es v method lineage) = v" "mm_method (measured d p s es v method lineage) = method"
    "mm_reasons (measured d p s es v method lineage) = mv_reason_codes v" "mm_bundle (measured d p s es v method lineage) = lineage"
    "mm_precision (measured d p s es v method lineage) = full_binary64"
  by (simp_all add: measured_def)

lemma measure_pass_ok:
  assumes reg: "registry_pair key = Inr (d, p)" "md_key d = key" "dp_metric_key p = key" "dp_strategy p = Pass_Through" "md_status d = Provider_Derived"
    and spec: "passed_spec key = Some (kind_of e, role)" "passed_value key e = Some (v, scope, lineage)" "trimmed role"
    and v: "metric_post_init v = Inr v" "mv_unit v = md_unit d" "mv_method_version v = Some ver"
    and s: "scope \<in> set (su_scope_refs s)"
    and lineage: "all_ok (text_pairs ''compatibility'' lineage) = Inr ()" "sorted_unique (map fst lineage)" "sort lineage = lineage"
  shows "measure_pass H key s e v role scope lineage = Inr (measured d p s [\<lparr>me_evidence = e, me_role = role\<rparr>] v ver lineage)"
proof -
  let ?m = "measured d p s [\<lparr>me_evidence = e, me_role = role\<rparr>] v ver lineage"
  note vd = metric_validD [OF v(1)]
  have "registry_coherence H ?m = Inr ()" using reg by (simp add: registry_coherence_def)
  moreover have "expected_value ?m = Inr (Some (v, scope, lineage))"
    using reg spec by (simp add: expected_value_def exact_inputs_def evidence_of_def all_ok.simps req_def)
  moreover have "trimmed ver" using vd(6) v(3) by simp
  ultimately have "measurement_post_init H ?m = Inr ?m"
    using reg v vd s lineage same_metric_refl [OF v(1)]
    by (auto simp: measurement_post_init_def validated_Inr evidence_coherence_def resolved_coherence_def is_resolved_def
        sorted_unique_def split: option.splits)
  then show ?thesis
    using reg(1) v s spec(3) lineage(3) by (simp add: measure_pass_def metric_evidence_post_init_def validated_def measured_def
      all_ok.simps require_nonempty_text_def req_def)
qed

lemma measurement_self: "measurement_post_init H m = Inr m' \<Longrightarrow> m' = m"
  by (simp add: measurement_post_init_def Let_def validated_Inr)

lemma measure_pass_valid: "measure_pass H key s e v role scope lineage = Inr m \<Longrightarrow> measurement_post_init H m = Inr m"
  by (auto simp: measure_pass_def rbind_Inr_iff split: if_splits dest: measurement_self)

lemma measure_unknown_valid: "measure_unknown H key s es reason refs lineage = Inr m \<Longrightarrow> measurement_post_init H m = Inr m"
  by (auto simp: measure_unknown_def rbind_Inr_iff dest: measurement_self)

lemma measure_unknown_ok:
  assumes reg: "registry_pair key = Inr (d, p)" "md_key d = key" "dp_metric_key p = key" "dp_strategy p \<noteq> Pass_Through"
      "md_status d = Policy_Unresolved" "trimmed (md_unit d)" "trimmed (unresolved_method key)"
    and spec: "passed_spec key = None" "unresolved_spec key = Some (specs, reason)" "is_identifier reason"
    and refs: "list_all is_identifier refs"
    and es: "es \<noteq> []" "distinct (map (evidence_id H) es)" "exact_inputs specs (sort_key (evidence_id H) es) = Inr ()"
    and sources: "map (\<lambda>(k, r). the (evidence_of r (sort_key (evidence_id H) es))) specs = evs"
      "set refs = set (concat (map evidence_sources evs))"
    and lineage: "lineage = concat (map required_bundle evs)" "all_ok (text_pairs ''compatibility'' lineage) = Inr ()"
      "sorted_unique (map fst lineage)" "sort lineage = lineage"
  shows "measure_unknown H key s es reason refs lineage = Inr (measured d p s (sort_key (evidence_id H) es)
    (unknown_metric (md_unit d) (canonical_union refs) (Some (unresolved_method key)) reason) (unresolved_method key) lineage)"
proof -
  let ?v = "unknown_metric (md_unit d) (canonical_union refs) (Some (unresolved_method key)) reason"
  let ?m = "measured d p s (sort_key (evidence_id H) es) ?v (unresolved_method key) lineage"
  have v: "metric_post_init ?v = Inr ?v"
    using reg spec refs by (intro unknown_metric_valid) (auto simp: list_all_iff)
  have "canonical_union refs = canonical_source_refs evs"
    using sources(2) by (simp add: canonical_source_refs_def canonical_union_set)
  then have "unresolved_coherence ?m = Inr ()"
    using reg spec es sources lineage
    by (simp add: unresolved_coherence_def exact_unresolved_def Let_def unknown_metric_def del: map_map)
  moreover have "registry_coherence H ?m = Inr ()" using reg by (simp add: registry_coherence_def)
  moreover have "expected_value ?m = Inr None" using spec reg by (simp add: expected_value_def)
  moreover have "sorted_unique (map (evidence_id H) (sort_key (evidence_id H) es))"
    using es(2) by (simp add: sorted_unique_def sorted_sort_id distinct_map)
  moreover have "sort_key (evidence_id H) es \<noteq> []" using es(1) by (metis length_0_conv length_sort)
  ultimately have "measurement_post_init H ?m = Inr ?m"
    using reg lineage
    by (simp add: measurement_post_init_def validated_Inr evidence_coherence_def is_resolved_def unknown_metric_def)
  then show ?thesis using reg(1) v lineage(4) by (simp add: measure_unknown_def measured_def unknown_metric_def)
qed

end
