(* ===== verification/BenchFrame.thy ===== *)
theory BenchFrame
  imports MetricsMeasurements
begin

text \<open>
  The commercial frame of \<open>sitescore-benchmarks\<close> (\<open>contracts.py\<close>): the policies, the lattice cells, the evidence
  with its classification, the eligibility of a cell, its membership in the boundary, and the frame. The objects of
  \<open>sitescore-spatial\<close> are the identities and numbers that this package reads of them; the polygon of a canonical
  geometry, which shapely builds, is a parameter.
\<close>

section \<open>Checks and enums\<close>

definition bench_text :: "string \<Rightarrow> string \<Rightarrow> check" where
  "bench_text name s = req (trimmed s) (name @ '' must be a canonical non-empty string'')"

lemma bench_text_iff [simp]: "bench_text name s = Inr u \<longleftrightarrow> trimmed s"
  by (simp add: bench_text_def)

definition bench_sha :: "string \<Rightarrow> string \<Rightarrow> check" where
  "bench_sha name s = req (length s = 64 \<and> list_all (\<lambda>c. let n = of_char c :: nat in 48 \<le> n \<and> n \<le> 57 \<or> 97 \<le> n \<and> n \<le> 102) s)
     (name @ '' must be lowercase SHA-256'')"

datatype resolution_state = Resolved_State | Unresolved_State
datatype membership_state = Member | Non_Member | Membership_Unresolved
datatype eligibility_state = Cell_Eligible | Cell_Ineligible | Cell_Unknown
datatype evidence_disposition = Positive | Explicit_Exclusion | Disposition_Unresolved
datatype applicability_state = Applicable | Not_Applicable_To_Cell | Applicability_Unresolved
datatype frame_state = Structural_Only | Production_Ready | Frame_Unresolved
datatype cell_shape = Square
datatype diagnostic_state = Diagnostic_Available | Diagnostic_Unresolved

fun resolution_text :: "resolution_state \<Rightarrow> string" where
  "resolution_text Resolved_State = ''RESOLVED''" | "resolution_text Unresolved_State = ''UNRESOLVED''"

fun membership_text :: "membership_state \<Rightarrow> string" where
  "membership_text Member = ''MEMBER''" | "membership_text Non_Member = ''NON_MEMBER''"
| "membership_text Membership_Unresolved = ''UNRESOLVED''"

fun eligibility_text :: "eligibility_state \<Rightarrow> string" where
  "eligibility_text Cell_Eligible = ''ELIGIBLE''" | "eligibility_text Cell_Ineligible = ''INELIGIBLE''"
| "eligibility_text Cell_Unknown = ''UNKNOWN''"

fun disposition_text :: "evidence_disposition \<Rightarrow> string" where
  "disposition_text Positive = ''POSITIVE''" | "disposition_text Explicit_Exclusion = ''EXPLICIT_EXCLUSION''"
| "disposition_text Disposition_Unresolved = ''UNRESOLVED''"

fun applicability_text :: "applicability_state \<Rightarrow> string" where
  "applicability_text Applicable = ''APPLICABLE''" | "applicability_text Not_Applicable_To_Cell = ''NOT_APPLICABLE''"
| "applicability_text Applicability_Unresolved = ''UNRESOLVED''"

fun frame_state_text :: "frame_state \<Rightarrow> string" where
  "frame_state_text Structural_Only = ''STRUCTURAL_ONLY''" | "frame_state_text Production_Ready = ''PRODUCTION_READY''"
| "frame_state_text Frame_Unresolved = ''UNRESOLVED''"

fun diagnostic_text :: "diagnostic_state \<Rightarrow> string" where
  "diagnostic_text Diagnostic_Available = ''AVAILABLE''" | "diagnostic_text Diagnostic_Unresolved = ''UNRESOLVED''"

definition num_json :: "pynum \<Rightarrow> json" where
  "num_json v = (case v of Py_Int n \<Rightarrow> JInt n | Py_Float x \<Rightarrow> JFloat x)"

definition opt_json :: "('a \<Rightarrow> json) \<Rightarrow> 'a option \<Rightarrow> json" where
  "opt_json f v = (case v of None \<Rightarrow> JNull | Some x \<Rightarrow> f x)"

definition texts_json :: "string list \<Rightarrow> json" where
  "texts_json xs = JArr (map JStr xs)"

section \<open>Spatial objects\<close>

record canonical_geometry =
  cg_semantic_id :: string
  cg_crs_id :: string
  cg_canonicalization_id :: string
  cg_engine_id :: string

datatype geometry_operation = Op_Area | Op_Intersect | Op_Other

record operation_result =
  og_operation :: geometry_operation
  og_success :: bool
  og_input_ids :: "string list"
  og_value :: "pynum option"
  og_unit :: "string option"
  og_id :: string

record polygon =
  pg_type :: string
  pg_interiors :: nat
  pg_bounds :: "pyfloat \<times> pyfloat \<times> pyfloat \<times> pyfloat"
  pg_coords :: "(pyfloat \<times> pyfloat) list"
  pg_area :: pyfloat

record boundary_artifact =
  ba_geography_id :: string
  ba_artifact_id :: string
  ba_geometry :: canonical_geometry

section \<open>The lattice\<close>

record projection_policy =
  pj_id :: string
  pj_version :: string
  pj_algorithm :: string
  pj_state :: resolution_state
  pj_crs :: "string option"

definition projection_post_init :: "projection_policy \<Rightarrow> (py_error, projection_policy) result" where
  "projection_post_init p = validated p [
     bench_text ''policy_id'' (pj_id p), bench_text ''policy_version'' (pj_version p),
     bench_text ''selection_algorithm'' (pj_algorithm p),
     req (pj_state p \<noteq> Resolved_State) ''resolved equal-area projection attestation is not available in checkpoint 3.4-2'',
     req (pj_crs p = None) ''unresolved equal-area projection policy must not carry selected_crs'']"

definition projection_record :: "projection_policy \<Rightarrow> json" where
  "projection_record p = JObj [(''policy_id'', JStr (pj_id p)), (''policy_version'', JStr (pj_version p)),
     (''selection_algorithm'', JStr (pj_algorithm p)), (''state'', JStr (resolution_text (pj_state p))),
     (''selected_crs_identity_id'', JNull)]"

record cell_resolution_policy =
  re_id :: string
  re_version :: string
  re_state :: resolution_state
  re_cell_size :: "pynum option"
  re_unit :: "string option"

definition resolution_post_init :: "cell_resolution_policy \<Rightarrow> (py_error, cell_resolution_policy) result" where
  "resolution_post_init r = validated r ([bench_text ''policy_id'' (re_id r), bench_text ''policy_version'' (re_version r)]
     @ (if re_state r = Resolved_State then (case (re_cell_size r, re_unit r) of
          (Some side, Some unit) \<Rightarrow> [require_finite_number ''cell_size'' side,
            rbind (float_of side) (\<lambda>x. req (\<not> fle x (Fin 0)) ''cell_size must be >0''),
            bench_text ''unit'' unit, req (unit = ''m'') ''V1 square lattice resolution unit must be metres'']
        | _ \<Rightarrow> [Inl (ValueError ''resolved resolution requires cell_size and unit'')])
        else [req (re_cell_size r = None \<and> re_unit r = None) ''unresolved resolution must not carry value'']))"

definition resolution_record :: "cell_resolution_policy \<Rightarrow> json" where
  "resolution_record r = JObj [(''policy_id'', JStr (re_id r)), (''policy_version'', JStr (re_version r)),
     (''state'', JStr (resolution_text (re_state r))), (''cell_size'', opt_json num_json (re_cell_size r)),
     (''unit'', opt_json JStr (re_unit r))]"

record lattice_policy =
  la_id :: string
  la_version :: string
  la_projection :: projection_policy
  la_resolution :: cell_resolution_policy
  la_shape :: cell_shape
  la_anchor_x :: "pynum option"
  la_anchor_y :: "pynum option"
  la_alignment :: string
  la_indexing :: string
  la_indexing_version :: string
  la_canonicalization_id :: string
  la_precision_id :: string
  la_engine_id :: string

definition lattice_resolved :: "lattice_policy \<Rightarrow> bool" where
  "lattice_resolved l \<longleftrightarrow> pj_state (la_projection l) = Resolved_State \<and> re_state (la_resolution l) = Resolved_State"

definition lattice_post_init :: "lattice_policy \<Rightarrow> (py_error, lattice_policy) result" where
  "lattice_post_init l = validated l ([
     bench_text ''policy_id'' (la_id l), bench_text ''policy_version'' (la_version l),
     bench_text ''axis_alignment'' (la_alignment l), bench_text ''indexing_algorithm'' (la_indexing l),
     bench_text ''indexing_version'' (la_indexing_version l),
     req (la_shape l = Square) ''V1 lattice supports square cells only'',
     req (la_alignment l = ''AXIS_ALIGNED'') ''V1 lattice supports AXIS_ALIGNED only'',
     req (la_indexing l = ''INTEGER_IJ'') ''V1 lattice supports INTEGER_IJ only'']
     @ (if lattice_resolved l then (case (la_anchor_x l, la_anchor_y l) of
          (Some x, Some y) \<Rightarrow> [require_finite_number ''anchor_x'' x, require_finite_number ''anchor_y'' y]
        | _ \<Rightarrow> [Inl (ValueError ''resolved lattice requires explicit anchor'')])
        else [req (la_anchor_x l = None \<and> la_anchor_y l = None) ''unresolved lattice must not smuggle anchor values'']))"

definition lattice_record :: "hashers \<Rightarrow> lattice_policy \<Rightarrow> json" where
  "lattice_record H l = JObj [(''policy_id'', JStr (la_id l)), (''policy_version'', JStr (la_version l)),
     (''projection_policy_id'', JStr (hx_bench H (projection_record (la_projection l)))),
     (''resolution_policy_id'', JStr (hx_bench H (resolution_record (la_resolution l)))),
     (''cell_shape'', JStr ''SQUARE''), (''anchor_x'', opt_json num_json (la_anchor_x l)),
     (''anchor_y'', opt_json num_json (la_anchor_y l)), (''axis_alignment'', JStr (la_alignment l)),
     (''indexing_algorithm'', JStr (la_indexing l)), (''indexing_version'', JStr (la_indexing_version l)),
     (''canonicalization_policy_id'', JStr (la_canonicalization_id l)), (''precision_policy_id'', JStr (la_precision_id l)),
     (''engine_identity_id'', JStr (la_engine_id l))]"

definition lattice_id :: "hashers \<Rightarrow> lattice_policy \<Rightarrow> string" where
  "lattice_id H l = hx_bench H (lattice_record H l)"

record lattice_cell =
  lc_policy :: lattice_policy
  lc_i :: int
  lc_j :: int
  lc_geometry :: canonical_geometry
  lc_area :: operation_result
  lc_algorithm :: string
  lc_algorithm_version :: string

text \<open>\<open>float(anchor) + index * size\<close>.\<close>

definition lattice_coordinate :: "pynum \<Rightarrow> int \<Rightarrow> pyfloat \<Rightarrow> (py_error, pyfloat) result" where
  "lattice_coordinate anchor i side = rbind (float_of anchor) (\<lambda>a. rbind (float_of (Py_Int i)) (\<lambda>k. Inr (fadd a (fmul k side))))"

definition square_check :: "(canonical_geometry \<Rightarrow> polygon) \<Rightarrow> lattice_cell \<Rightarrow> check" where
  "square_check polygon_of c = (let l = lc_policy c; g = polygon_of (lc_geometry c) in
     rbind (float_of (the (re_cell_size (la_resolution l)))) (\<lambda>side.
     rbind (lattice_coordinate (the (la_anchor_x l)) (lc_i c) side) (\<lambda>x0.
     rbind (lattice_coordinate (the (la_anchor_y l)) (lc_j c) side) (\<lambda>y0.
     let x1 = fadd x0 side; y1 = fadd y0 side; expected = fmul side side in all_ok [
       req (pg_type g = ''Polygon'' \<and> pg_interiors g = 0) ''V1 lattice cell must be a simple square Polygon'',
       req (case pg_bounds g of (a, b, c, d) \<Rightarrow> feq a x0 \<and> feq b y0 \<and> feq c x1 \<and> feq d y1)
         ''lattice cell geometry does not match anchor/resolution/index'',
       req (length (pg_coords g) = 5 \<and> hd (pg_coords g) = last (pg_coords g)
           \<and> set (butlast (pg_coords g)) = {(x0, y0), (x1, y0), (x1, y1), (x0, y1)})
         ''lattice cell geometry is not the exact derived square'',
       req (feq (pg_area g) expected) ''lattice cell geometry area does not match resolution'',
       rbind (float_of (the (og_value (lc_area c)))) (\<lambda>a.
         req (feq a expected) ''lattice cell area_result does not match derived square area'')]))))"

definition lattice_cell_post_init :: "(canonical_geometry \<Rightarrow> polygon) \<Rightarrow> lattice_cell \<Rightarrow> (py_error, lattice_cell) result" where
  "lattice_cell_post_init polygon_of c = (let l = lc_policy c; g = lc_geometry c; a = lc_area c in validated c [
     bench_text ''derivation_algorithm'' (lc_algorithm c), bench_text ''derivation_version'' (lc_algorithm_version c),
     req (lattice_resolved l) ''unresolved lattice cannot produce canonical lattice cells'',
     req (pj_crs (la_projection l) \<noteq> None) ''resolved lattice requires selected equal-area CRS'',
     req (Some (cg_crs_id g) = pj_crs (la_projection l)) ''lattice cell geometry CRS mismatch'',
     req (cg_canonicalization_id g = la_canonicalization_id l) ''lattice cell canonicalization policy mismatch'',
     req (cg_engine_id g = la_engine_id l) ''lattice cell engine mismatch'',
     req (og_operation a = Op_Area \<and> og_success a) ''lattice cell area_result must be successful AREA'',
     req (og_input_ids a = [cg_semantic_id g]) ''lattice cell area_result must measure exact full cell geometry'',
     req (case og_value a of None \<Rightarrow> False | Some v \<Rightarrow> \<not> fle (num_value v) (Fin 0) \<and> og_unit a = Some ''m2'')
       ''lattice cell requires positive m2 area result'',
     square_check polygon_of c])"

definition lattice_cell_id :: "hashers \<Rightarrow> lattice_cell \<Rightarrow> string" where
  "lattice_cell_id H c = hx_bench H (JObj [(''lattice_policy_id'', JStr (lattice_id H (lc_policy c))),
     (''index_i'', JInt (lc_i c)), (''index_j'', JInt (lc_j c)),
     (''full_cell_geometry_id'', JStr (cg_semantic_id (lc_geometry c))), (''area_operation_id'', JStr (og_id (lc_area c))),
     (''derivation_algorithm'', JStr (lc_algorithm c)), (''derivation_version'', JStr (lc_algorithm_version c))])"

section \<open>Commercial evidence\<close>

record evidence_source =
  es_provider :: string
  es_dataset :: string
  es_release :: string
  es_vintage :: string
  es_schema_version :: string
  es_content_hash :: string

definition mutable_words :: "string list" where
  "mutable_words = [''latest'', ''current'', ''live'', ''today'', ''now'']"

definition evidence_source_post_init :: "evidence_source \<Rightarrow> (py_error, evidence_source) result" where
  "evidence_source_post_init e = validated e [
     bench_text ''provider'' (es_provider e), bench_text ''dataset'' (es_dataset e), bench_text ''release'' (es_release e),
     bench_text ''vintage'' (es_vintage e), bench_text ''schema_version'' (es_schema_version e),
     bench_sha ''content_hash'' (es_content_hash e),
     req (map py_lower_char (es_release e) \<notin> set mutable_words) ''mutable release identity forbidden'',
     req (map py_lower_char (es_vintage e) \<notin> set mutable_words) ''mutable vintage identity forbidden'']"

definition evidence_source_record :: "evidence_source \<Rightarrow> json" where
  "evidence_source_record e = JObj [(''provider'', JStr (es_provider e)), (''dataset'', JStr (es_dataset e)),
     (''release'', JStr (es_release e)), (''vintage'', JStr (es_vintage e)), (''schema_version'', JStr (es_schema_version e)),
     (''content_hash'', JStr (es_content_hash e))]"

record evidence_record =
  er_type :: string
  er_source :: evidence_source
  er_attributes :: "(string \<times> string) list"
  er_source_ref :: "string option"

definition evidence_record_post_init :: "evidence_record \<Rightarrow> (py_error, evidence_record) result" where
  "evidence_record_post_init e = validated e ([bench_text ''evidence_type'' (er_type e)]
     @ (case er_source_ref e of None \<Rightarrow> [] | Some r \<Rightarrow> [bench_text ''source_ref'' r])
     @ concat (map (\<lambda>(k, v). [bench_text ''semantic attribute key'' k, bench_text ''semantic attribute value'' v]) (er_attributes e))
     @ [req (map fst (er_attributes e) = canonical_union (map fst (er_attributes e)))
          ''semantic_attributes must be unique and canonical-sorted by key''])"

definition evidence_record_id :: "hashers \<Rightarrow> evidence_record \<Rightarrow> string" where
  "evidence_record_id H e = hx_bench H (JObj [(''evidence_type'', JStr (er_type e)),
     (''source_identity_id'', JStr (hx_bench H (evidence_source_record (er_source e)))),
     (''semantic_attributes'', JArr (map (\<lambda>(k, v). JArr [JStr k, JStr v]) (er_attributes e)))])"

text \<open>The policies of classification and of applicability have the same fields and the same refusal.\<close>

record method_policy =
  mp_id :: string
  mp_version :: string
  mp_state :: resolution_state
  mp_method :: "string option"

definition classification_policy_post_init :: "method_policy \<Rightarrow> (py_error, method_policy) result" where
  "classification_policy_post_init p = validated p [
     bench_text ''policy_id'' (mp_id p), bench_text ''policy_version'' (mp_version p),
     req (mp_state p \<noteq> Resolved_State) ''resolved commercial evidence classification is not available in checkpoint 3.4-2'',
     req (mp_method p = None) ''unresolved classification policy must not encode a method'']"

definition applicability_policy_post_init :: "method_policy \<Rightarrow> (py_error, method_policy) result" where
  "applicability_policy_post_init p = validated p [
     bench_text ''policy_id'' (mp_id p), bench_text ''policy_version'' (mp_version p),
     req (mp_state p \<noteq> Resolved_State) ''resolved evidence-cell applicability is not available in checkpoint 3.4-2'',
     req (mp_method p = None) ''unresolved applicability policy must not encode a method'']"

definition method_policy_id :: "hashers \<Rightarrow> method_policy \<Rightarrow> string" where
  "method_policy_id H p = hx_bench H (JObj [(''policy_id'', JStr (mp_id p)), (''policy_version'', JStr (mp_version p)),
     (''state'', JStr (resolution_text (mp_state p))), (''method'', opt_json JStr (mp_method p))])"

record classification =
  ce_record :: evidence_record
  ce_policy :: method_policy
  ce_class :: "string option"
  ce_disposition :: evidence_disposition
  ce_reasons :: "string list"

definition classification_of :: "method_policy \<Rightarrow> string option \<times> evidence_disposition \<times> string list" where
  "classification_of p = (None, Disposition_Unresolved, [''commercial_evidence_classification_unresolved''])"

definition classification_post_init :: "classification \<Rightarrow> (py_error, classification) result" where
  "classification_post_init c = validated c [
     req ((ce_class c, ce_disposition c, ce_reasons c) = classification_of (ce_policy c))
       ''classification state disagrees with actual policy semantics'']"

definition classify_commercial_evidence :: "evidence_record \<Rightarrow> method_policy \<Rightarrow> (py_error, classification) result" where
  "classify_commercial_evidence e p = (case classification_of p of (cl, disposition, reasons) \<Rightarrow>
     classification_post_init \<lparr>ce_record = e, ce_policy = p, ce_class = cl, ce_disposition = disposition, ce_reasons = reasons\<rparr>)"

definition classification_id :: "hashers \<Rightarrow> classification \<Rightarrow> string" where
  "classification_id H c = hx_bench H (JObj [(''evidence_record_id'', JStr (evidence_record_id H (ce_record c))),
     (''classification_policy_id'', JStr (method_policy_id H (ce_policy c))), (''evidence_class'', opt_json JStr (ce_class c)),
     (''disposition'', JStr (disposition_text (ce_disposition c))), (''reason_codes'', texts_json (ce_reasons c))])"

record applicability =
  ap_classification :: classification
  ap_cell :: lattice_cell
  ap_policy :: method_policy
  ap_state :: applicability_state
  ap_reasons :: "string list"

definition applicability_of :: "method_policy \<Rightarrow> applicability_state \<times> string list" where
  "applicability_of p = (Applicability_Unresolved, [''evidence_cell_applicability_unresolved''])"

definition applicability_post_init :: "applicability \<Rightarrow> (py_error, applicability) result" where
  "applicability_post_init a = validated a [
     req ((ap_state a, ap_reasons a) = applicability_of (ap_policy a)) ''cell applicability state disagrees with actual policy semantics'']"

definition evaluate_evidence_cell_applicability :: "classification \<Rightarrow> lattice_cell \<Rightarrow> method_policy \<Rightarrow> (py_error, applicability) result" where
  "evaluate_evidence_cell_applicability c cell p = (case applicability_of p of (state, reasons) \<Rightarrow>
     applicability_post_init \<lparr>ap_classification = c, ap_cell = cell, ap_policy = p, ap_state = state, ap_reasons = reasons\<rparr>)"

definition applicability_id :: "hashers \<Rightarrow> applicability \<Rightarrow> string" where
  "applicability_id H a = hx_bench H (JObj [(''classification_id'', JStr (classification_id H (ap_classification a))),
     (''lattice_cell_id'', JStr (lattice_cell_id H (ap_cell a))), (''applicability_policy_id'', JStr (method_policy_id H (ap_policy a))),
     (''state'', JStr (applicability_text (ap_state a))), (''reason_codes'', texts_json (ap_reasons a))])"

record evidence_item =
  ei_classification :: classification
  ei_applicability :: applicability

definition evidence_item_post_init :: "hashers \<Rightarrow> evidence_item \<Rightarrow> (py_error, evidence_item) result" where
  "evidence_item_post_init H i = validated i [
     req (classification_id H (ap_classification (ei_applicability i)) = classification_id H (ei_classification i))
       ''applicability/classification evidence mismatch'']"

definition evidence_item_id :: "hashers \<Rightarrow> evidence_item \<Rightarrow> string" where
  "evidence_item_id H i = hx_bench H (JObj [(''classification_id'', JStr (classification_id H (ei_classification i))),
     (''applicability_id'', JStr (applicability_id H (ei_applicability i)))])"

record evidence_policy =
  ep_id :: string
  ep_version :: string
  ep_positive :: "string list"
  ep_exclusion :: "string list"
  ep_conflict :: string
  ep_insufficient :: string

definition evidence_policy_post_init :: "evidence_policy \<Rightarrow> (py_error, evidence_policy) result" where
  "evidence_policy_post_init p = validated p ([bench_text ''policy_id'' (ep_id p), bench_text ''policy_version'' (ep_version p)]
     @ map (bench_text ''evidence class'') (ep_positive p @ ep_exclusion p)
     @ [req (canonical_union (ep_positive p) = ep_positive p) ''positive classes must be unique canonical sorted'',
        req (canonical_union (ep_exclusion p) = ep_exclusion p) ''exclusion classes must be unique canonical sorted'',
        req (ep_conflict p = ''UNKNOWN'' \<and> ep_insufficient p = ''UNKNOWN'')
          ''3.4-2 structural policy freezes conflict/insufficient evidence to UNKNOWN''])"

definition evidence_policy_id :: "hashers \<Rightarrow> evidence_policy \<Rightarrow> string" where
  "evidence_policy_id H p = hx_bench H (JObj [(''policy_id'', JStr (ep_id p)), (''policy_version'', JStr (ep_version p)),
     (''accepted_positive_classes'', texts_json (ep_positive p)), (''accepted_exclusion_classes'', texts_json (ep_exclusion p)),
     (''conflict_behavior'', JStr (ep_conflict p)), (''insufficient_evidence_behavior'', JStr (ep_insufficient p))])"

record evidence_bundle =
  eb_cell :: lattice_cell
  eb_policy :: evidence_policy
  eb_items :: "evidence_item list"

definition evidence_bundle_post_init :: "hashers \<Rightarrow> evidence_bundle \<Rightarrow> (py_error, evidence_bundle) result" where
  "evidence_bundle_post_init H b = validated b [
     req (sorted_unique (map (evidence_item_id H) (eb_items b))) ''evidence items must be unique and canonical-sorted'',
     req (list_all (\<lambda>i. lattice_cell_id H (ap_cell (ei_applicability i)) = lattice_cell_id H (eb_cell b)) (eb_items b))
       ''evidence applicability targets a foreign lattice cell'']"

definition evidence_bundle_id :: "hashers \<Rightarrow> evidence_bundle \<Rightarrow> string" where
  "evidence_bundle_id H b = hx_bench H (JObj [(''cell_lattice_id'', JStr (lattice_cell_id H (eb_cell b))),
     (''evidence_policy_id'', JStr (evidence_policy_id H (eb_policy b))),
     (''evidence_item_ids'', texts_json (map (evidence_item_id H) (eb_items b)))])"

record eligibility_policy =
  el_id :: string
  el_version :: string
  el_evidence_policy :: evidence_policy

definition eligibility_policy_post_init :: "eligibility_policy \<Rightarrow> (py_error, eligibility_policy) result" where
  "eligibility_policy_post_init p = validated p [bench_text ''policy_id'' (el_id p), bench_text ''policy_version'' (el_version p)]"

definition eligibility_policy_id :: "hashers \<Rightarrow> eligibility_policy \<Rightarrow> string" where
  "eligibility_policy_id H p = hx_bench H (JObj [(''policy_id'', JStr (el_id p)), (''policy_version'', JStr (el_version p)),
     (''evidence_policy_id'', JStr (evidence_policy_id H (el_evidence_policy p)))])"

definition class_in :: "string option \<Rightarrow> string list \<Rightarrow> bool" where
  "class_in c classes = (case c of None \<Rightarrow> False | Some x \<Rightarrow> x \<in> set classes)"

definition eligibility_of :: "evidence_bundle \<Rightarrow> eligibility_policy \<Rightarrow> eligibility_state \<times> string list" where
  "eligibility_of b p = (
     let usable = filter (\<lambda>i. ap_state (ei_applicability i) = Applicable
           \<and> ce_disposition (ei_classification i) \<noteq> Disposition_Unresolved) (eb_items b);
         pos = list_ex (\<lambda>i. ce_disposition (ei_classification i) = Positive
           \<and> class_in (ce_class (ei_classification i)) (ep_positive (el_evidence_policy p))) usable;
         exc = list_ex (\<lambda>i. ce_disposition (ei_classification i) = Explicit_Exclusion
           \<and> class_in (ce_class (ei_classification i)) (ep_exclusion (el_evidence_policy p))) usable
     in if pos \<and> \<not> exc then (Cell_Eligible, [''accepted_positive_evidence''])
        else if exc \<and> \<not> pos then (Cell_Ineligible, [''authoritative_exclusion_evidence''])
        else if pos \<and> exc then (Cell_Unknown, [''conflicting_commercial_evidence''])
        else (Cell_Unknown, [''insufficient_commercial_evidence'']))"

record eligibility_result =
  ee_bundle :: evidence_bundle
  ee_policy :: eligibility_policy
  ee_state :: eligibility_state
  ee_reasons :: "string list"

definition eligibility_result_post_init :: "hashers \<Rightarrow> eligibility_result \<Rightarrow> (py_error, eligibility_result) result" where
  "eligibility_result_post_init H e = validated e [
     req (evidence_policy_id H (el_evidence_policy (ee_policy e)) = evidence_policy_id H (eb_policy (ee_bundle e)))
       ''eligibility/evidence policy mismatch'',
     req ((ee_state e, ee_reasons e) = eligibility_of (ee_bundle e) (ee_policy e)) ''eligibility state/reasons disagree with actual evidence'']"

definition eligibility_result_id :: "hashers \<Rightarrow> eligibility_result \<Rightarrow> string" where
  "eligibility_result_id H e = hx_bench H (JObj [(''bundle_id'', JStr (evidence_bundle_id H (ee_bundle e))),
     (''eligibility_policy_id'', JStr (eligibility_policy_id H (ee_policy e))),
     (''state'', JStr (eligibility_text (ee_state e))), (''reason_codes'', texts_json (ee_reasons e))])"

section \<open>Membership and the frame\<close>

record membership_policy =
  bp_id :: string
  bp_version :: string
  bp_state :: resolution_state
  bp_method :: "string option"
  bp_parameter :: "pynum option"

definition membership_policy_post_init :: "membership_policy \<Rightarrow> (py_error, membership_policy) result" where
  "membership_policy_post_init p = validated p ([bench_text ''policy_id'' (bp_id p), bench_text ''policy_version'' (bp_version p)]
     @ (if bp_state p = Resolved_State then [
          (case bp_method p of None \<Rightarrow> Inl (ValueError ''resolved membership policy requires explicit method'')
           | Some v \<Rightarrow> bench_text ''method'' v),
          (case bp_parameter p of None \<Rightarrow> Inr () | Some v \<Rightarrow> require_finite_number ''method_parameter'' v)]
        else [req (bp_method p = None \<and> bp_parameter p = None) ''unresolved membership policy must not encode a hidden rule'']))"

definition membership_policy_id :: "hashers \<Rightarrow> membership_policy \<Rightarrow> string" where
  "membership_policy_id H p = hx_bench H (JObj [(''policy_id'', JStr (bp_id p)), (''policy_version'', JStr (bp_version p)),
     (''state'', JStr (resolution_text (bp_state p))), (''method'', opt_json JStr (bp_method p)),
     (''method_parameter'', opt_json num_json (bp_parameter p))])"

record intersection_evidence =
  ie_geometry :: canonical_geometry
  ie_boundary :: boundary_artifact
  ie_state :: diagnostic_state
  ie_operation :: "operation_result option"
  ie_area :: "pynum option"
  ie_full_area :: "pynum option"

definition intersection_values_check :: "pynum \<Rightarrow> pynum \<Rightarrow> check" where
  "intersection_values_check area full = all_ok [require_finite_number ''intersection_area'' area, require_finite_number ''full_cell_area'' full,
     rbind (float_of area) (\<lambda>ia. rbind (float_of full) (\<lambda>fa.
       req (\<not> (flt ia (Fin 0) \<or> fle fa (Fin 0) \<or> flt fa ia)) ''invalid intersection diagnostic values''))]"

definition intersection_post_init :: "intersection_evidence \<Rightarrow> (py_error, intersection_evidence) result" where
  "intersection_post_init e = validated e (if ie_state e = Diagnostic_Available
     then [(case (ie_area e, ie_full_area e) of (Some area, Some full) \<Rightarrow> intersection_values_check area full
            | _ \<Rightarrow> Inl (ValueError ''available diagnostic requires intersection_area and full_cell_area''))]
       @ (case ie_operation e of None \<Rightarrow> [] | Some r \<Rightarrow> [
            req (og_operation r = Op_Intersect) ''intersection_operation must be INTERSECT'',
            req (og_input_ids r = sort [cg_semantic_id (ie_geometry e), cg_semantic_id (ba_geometry (ie_boundary e))])
              ''intersection_operation inputs do not match diagnostic cell/boundary''])
     else [req (ie_area e = None \<and> ie_full_area e = None \<and> ie_operation e = None) ''unresolved diagnostic must not fabricate values''])"

text \<open>The values are finite and the divisor positive once the constructor has accepted them.\<close>

definition intersection_fraction :: "intersection_evidence \<Rightarrow> pyfloat option" where
  "intersection_fraction e = (case (ie_state e, ie_area e, ie_full_area e) of
     (Diagnostic_Available, Some area, Some full) \<Rightarrow>
       (case rbind (float_of area) (\<lambda>ia. rbind (float_of full) (\<lambda>fa. arith (fdiv ia fa))) of Inr x \<Rightarrow> Some x | Inl _ \<Rightarrow> None)
   | _ \<Rightarrow> None)"

definition intersection_id :: "hashers \<Rightarrow> intersection_evidence \<Rightarrow> string" where
  "intersection_id H e = hx_bench H (JObj [(''full_cell_geometry_id'', JStr (cg_semantic_id (ie_geometry e))),
     (''boundary_artifact_id'', JStr (ba_artifact_id (ie_boundary e))), (''state'', JStr (diagnostic_text (ie_state e))),
     (''intersection_operation_id'', opt_json (\<lambda>r. JStr (og_id r)) (ie_operation e)),
     (''intersection_area'', opt_json num_json (ie_area e)), (''full_cell_area'', opt_json num_json (ie_full_area e)),
     (''intersection_fraction'', opt_json JFloat (intersection_fraction e))])"

definition membership_of :: "membership_policy \<Rightarrow> membership_state \<times> string list" where
  "membership_of p = (if bp_state p = Unresolved_State then (Membership_Unresolved, [''boundary_membership_policy_unresolved''])
     else (Membership_Unresolved, [''boundary_membership_method_not_implemented'']))"

record boundary_membership =
  mb_geometry :: canonical_geometry
  mb_boundary :: boundary_artifact
  mb_policy :: membership_policy
  mb_diagnostic :: "intersection_evidence option"
  mb_state :: membership_state
  mb_reasons :: "string list"

definition boundary_membership_post_init :: "boundary_membership \<Rightarrow> (py_error, boundary_membership) result" where
  "boundary_membership_post_init m = validated m ((case mb_diagnostic m of None \<Rightarrow> [] | Some d \<Rightarrow> [
       req (cg_semantic_id (ie_geometry d) = cg_semantic_id (mb_geometry m)) ''membership diagnostic full-cell mismatch'',
       req (ba_artifact_id (ie_boundary d) = ba_artifact_id (mb_boundary m)) ''membership diagnostic boundary mismatch''])
     @ [req ((mb_state m, mb_reasons m) = membership_of (mb_policy m)) ''membership state/reasons disagree with policy/evidence''])"

definition boundary_membership_id :: "hashers \<Rightarrow> boundary_membership \<Rightarrow> string" where
  "boundary_membership_id H m = hx_bench H (JObj [(''full_cell_geometry_id'', JStr (cg_semantic_id (mb_geometry m))),
     (''boundary_artifact_id'', JStr (ba_artifact_id (mb_boundary m))), (''membership_policy_id'', JStr (membership_policy_id H (mb_policy m))),
     (''diagnostic_evidence_id'', opt_json (\<lambda>d. JStr (intersection_id H d)) (mb_diagnostic m)),
     (''state'', JStr (membership_text (mb_state m))), (''reason_codes'', texts_json (mb_reasons m))])"

record frame_cell =
  fc_cell :: lattice_cell
  fc_membership :: boundary_membership
  fc_bundle :: evidence_bundle
  fc_eligibility :: eligibility_result
  fc_source_refs :: "string list"

definition frame_cell_post_init :: "hashers \<Rightarrow> frame_cell \<Rightarrow> (py_error, frame_cell) result" where
  "frame_cell_post_init H c = validated c [
     req (cg_semantic_id (mb_geometry (fc_membership c)) = cg_semantic_id (lc_geometry (fc_cell c))) ''membership/full-cell mismatch'',
     req (lattice_cell_id H (eb_cell (fc_bundle c)) = lattice_cell_id H (fc_cell c)) ''evidence bundle cell mismatch'',
     req (evidence_bundle_id H (ee_bundle (fc_eligibility c)) = evidence_bundle_id H (fc_bundle c)) ''eligibility bundle mismatch'',
     req (fc_source_refs c = canonical_union (fc_source_refs c)) ''source_refs must be canonical-sorted unique'']"

definition cell_id :: "hashers \<Rightarrow> frame_cell \<Rightarrow> string" where
  "cell_id H c = hx_bench H (JObj [(''lattice_cell_id'', JStr (lattice_cell_id H (fc_cell c))),
     (''boundary_membership_id'', JStr (boundary_membership_id H (fc_membership c))),
     (''evidence_bundle_id'', JStr (evidence_bundle_id H (fc_bundle c))),
     (''eligibility_id'', JStr (eligibility_result_id H (fc_eligibility c))), (''source_refs'', texts_json (fc_source_refs c))])"

record commercial_frame =
  fm_geography_id :: string
  fm_boundary :: boundary_artifact
  fm_lattice :: lattice_policy
  fm_membership_policy :: membership_policy
  fm_eligibility_policy :: eligibility_policy
  fm_cells :: "frame_cell list"
  fm_state :: frame_state
  fm_reasons :: "string list"
  fm_population :: string
  fm_population_version :: string

definition population_definition :: string where
  "population_definition = ''commercially_evidenced_spatial_alternatives''"

definition frame_state_of :: "commercial_frame \<Rightarrow> frame_state \<times> string list" where
  "frame_state_of f = (
     let reasons = (if lattice_resolved (fm_lattice f) then [] else [''lattice_policy_unresolved''])
       @ (if bp_state (fm_membership_policy f) = Unresolved_State then [''boundary_membership_policy_unresolved''] else [])
       @ (if list_ex (\<lambda>c. mb_state (fc_membership c) = Membership_Unresolved) (fm_cells f) then [''cell_membership_unresolved''] else [])
     in if reasons \<noteq> [] then (Frame_Unresolved, canonical_union reasons)
        else (Structural_Only, [''production_membership_semantics_not_approved'']))"

definition frame_cell_checks :: "hashers \<Rightarrow> commercial_frame \<Rightarrow> frame_cell \<Rightarrow> check list" where
  "frame_cell_checks H f c = [
     req (lattice_id H (lc_policy (fc_cell c)) = lattice_id H (fm_lattice f)) ''cell lattice mismatch'',
     req (membership_policy_id H (mb_policy (fc_membership c)) = membership_policy_id H (fm_membership_policy f)) ''cell membership policy mismatch'',
     req (ba_artifact_id (mb_boundary (fc_membership c)) = ba_artifact_id (fm_boundary f)) ''cell membership boundary artifact mismatch'',
     req (cg_semantic_id (mb_geometry (fc_membership c)) = cg_semantic_id (lc_geometry (fc_cell c))) ''cell membership/full-cell mismatch'',
     req (eligibility_policy_id H (ee_policy (fc_eligibility c)) = eligibility_policy_id H (fm_eligibility_policy f)) ''cell eligibility policy mismatch'']"

definition frame_post_init :: "hashers \<Rightarrow> commercial_frame \<Rightarrow> (py_error, commercial_frame) result" where
  "frame_post_init H f = validated f ([
     req (ba_geography_id (fm_boundary f) = fm_geography_id f) ''frame benchmark geography/boundary artifact mismatch'',
     bench_text ''frame_population_definition'' (fm_population f), bench_text ''frame_population_version'' (fm_population_version f),
     req (fm_population f = population_definition) ''frame population definition is frozen'',
     req (sorted_unique (map (cell_id H) (fm_cells f))) ''cells must be unique and canonical-sorted'']
     @ concat (map (frame_cell_checks H f) (fm_cells f))
     @ [req ((fm_state f, fm_reasons f) = frame_state_of f) ''frame state/reasons disagree with actual policies/cells''])"

definition frame_id :: "hashers \<Rightarrow> commercial_frame \<Rightarrow> string" where
  "frame_id H f = hx_bench H (JObj [(''benchmark_geography_id'', JStr (fm_geography_id f)),
     (''boundary_artifact_id'', JStr (ba_artifact_id (fm_boundary f))), (''lattice_policy_id'', JStr (lattice_id H (fm_lattice f))),
     (''membership_policy_id'', JStr (membership_policy_id H (fm_membership_policy f))),
     (''eligibility_policy_id'', JStr (eligibility_policy_id H (fm_eligibility_policy f))),
     (''cell_ids'', texts_json (map (cell_id H) (fm_cells f))), (''state'', JStr (frame_state_text (fm_state f))),
     (''reason_codes'', texts_json (fm_reasons f)), (''frame_population_definition'', JStr (fm_population f)),
     (''frame_population_version'', JStr (fm_population_version f))])"

definition eligible_cell_ids :: "hashers \<Rightarrow> commercial_frame \<Rightarrow> string list" where
  "eligible_cell_ids H f = map (cell_id H) (filter (\<lambda>c. ee_state (fc_eligibility c) = Cell_Eligible
     \<and> mb_state (fc_membership c) = Member) (fm_cells f))"

definition derive_lattice_cell :: "lattice_policy \<Rightarrow> int \<Rightarrow> int \<Rightarrow> (py_error, lattice_cell) result" where
  "derive_lattice_cell l i j = (if \<not> lattice_resolved l
     then Inl (ValueError ''canonical lattice-cell derivation unavailable while lattice is unresolved'')
     else Inl (NotImplementedError ''verified equal-area lattice-cell derivation is calibration/attestation gated''))"

definition build_frame :: "hashers \<Rightarrow> string \<Rightarrow> boundary_artifact \<Rightarrow> lattice_policy \<Rightarrow> membership_policy \<Rightarrow> eligibility_policy
    \<Rightarrow> frame_cell list \<Rightarrow> (py_error, commercial_frame) result" where
  "build_frame H geography boundary lattice membership eligibility cells = (
     let draft = \<lparr>fm_geography_id = geography, fm_boundary = boundary, fm_lattice = lattice, fm_membership_policy = membership,
           fm_eligibility_policy = eligibility, fm_cells = sort_key (cell_id H) cells, fm_state = Frame_Unresolved, fm_reasons = [],
           fm_population = population_definition, fm_population_version = ''1.0''\<rparr>
     in case frame_state_of draft of (state, reasons) \<Rightarrow> frame_post_init H (draft\<lparr>fm_state := state, fm_reasons := reasons\<rparr>))"

section \<open>No frame of this version has an eligible cell\<close>

text \<open>An object is constructed when its constructor and the constructors of its parts have accepted it.\<close>

definition lattice_constructed :: "lattice_policy \<Rightarrow> bool" where
  "lattice_constructed l \<longleftrightarrow> projection_post_init (la_projection l) = Inr (la_projection l)
     \<and> resolution_post_init (la_resolution l) = Inr (la_resolution l) \<and> lattice_post_init l = Inr l"

definition cell_constructed :: "(canonical_geometry \<Rightarrow> polygon) \<Rightarrow> lattice_cell \<Rightarrow> bool" where
  "cell_constructed polygon_of c \<longleftrightarrow> lattice_constructed (lc_policy c) \<and> lattice_cell_post_init polygon_of c = Inr c"

definition item_constructed :: "evidence_item \<Rightarrow> bool" where
  "item_constructed i \<longleftrightarrow> classification_post_init (ei_classification i) = Inr (ei_classification i)
     \<and> applicability_post_init (ei_applicability i) = Inr (ei_applicability i)"

definition frame_constructed :: "hashers \<Rightarrow> (canonical_geometry \<Rightarrow> polygon) \<Rightarrow> commercial_frame \<Rightarrow> bool" where
  "frame_constructed H polygon_of f \<longleftrightarrow> lattice_constructed (fm_lattice f) \<and> frame_post_init H f = Inr f
     \<and> membership_policy_post_init (fm_membership_policy f) = Inr (fm_membership_policy f)
     \<and> list_all (\<lambda>c. cell_constructed polygon_of (fc_cell c) \<and> boundary_membership_post_init (fc_membership c) = Inr (fc_membership c)
         \<and> eligibility_result_post_init H (fc_eligibility c) = Inr (fc_eligibility c) \<and> frame_cell_post_init H c = Inr c
         \<and> list_all item_constructed (eb_items (ee_bundle (fc_eligibility c)))) (fm_cells f)"

lemma lattice_never_resolved: "lattice_constructed l \<Longrightarrow> \<not> lattice_resolved l"
  by (simp add: lattice_constructed_def projection_post_init_def validated_Inr lattice_resolved_def)

lemma no_lattice_cell: "\<not> cell_constructed polygon_of c"
  using lattice_never_resolved [of "lc_policy c"]
  by (auto simp: cell_constructed_def lattice_cell_post_init_def Let_def validated_Inr)

text \<open>Three independent reasons: no cell exists, no membership is decided, no evidence is classified.\<close>

lemma membership_never_decided: "boundary_membership_post_init m = Inr m' \<Longrightarrow> mb_state m = Membership_Unresolved"
  by (auto simp: boundary_membership_post_init_def validated_Inr membership_of_def split: if_splits)

lemma eligibility_never_decided:
  assumes "eligibility_result_post_init H e = Inr e'" "list_all item_constructed (eb_items (ee_bundle e))"
  shows "ee_state e = Cell_Unknown \<and> ee_reasons e = [''insufficient_commercial_evidence'']"
proof -
  have "ce_disposition (ei_classification i) = Disposition_Unresolved" if "i \<in> set (eb_items (ee_bundle e))" for i
    using assms(2) that by (auto simp: list_all_iff item_constructed_def classification_post_init_def validated_Inr classification_of_def)
  then have "filter (\<lambda>i. ap_state (ei_applicability i) = Applicable \<and> ce_disposition (ei_classification i) \<noteq> Disposition_Unresolved)
      (eb_items (ee_bundle e)) = []" by (auto simp: filter_empty_conv)
  with assms(1) show ?thesis by (simp add: eligibility_result_post_init_def validated_Inr eligibility_of_def)
qed

lemma frame_has_no_cells:
  assumes "frame_constructed H polygon_of f"
  shows "fm_cells f = []" "eligible_cell_ids H f = []" "fm_state f = Frame_Unresolved"
    "''lattice_policy_unresolved'' \<in> set (fm_reasons f)"
proof -
  have "\<not> list_ex (\<lambda>c. True) (fm_cells f)"
    using assms no_lattice_cell by (auto simp: frame_constructed_def list_all_iff list_ex_iff)
  then show cells: "fm_cells f = []" by (cases "fm_cells f") auto
  then show "eligible_cell_ids H f = []" by (simp add: eligible_cell_ids_def)
  have "frame_post_init H f = Inr f" "\<not> lattice_resolved (fm_lattice f)"
    using assms lattice_never_resolved by (auto simp: frame_constructed_def)
  then have "(fm_state f, fm_reasons f) = frame_state_of f" by (simp add: frame_post_init_def validated_Inr)
  then show "fm_state f = Frame_Unresolved" "''lattice_policy_unresolved'' \<in> set (fm_reasons f)"
    using \<open>\<not> lattice_resolved (fm_lattice f)\<close> by (auto simp: frame_state_of_def)
qed

end
