(* ===== verification/BenchDistribution.thy ===== *)
theory BenchDistribution
  imports BenchFrame
begin

text \<open>
  Measurements of the cells of a frame and their distribution (\<open>measurement.py\<close>, \<open>population.py\<close> and
  \<open>distribution.py\<close> of \<open>sitescore-benchmarks\<close>). The adapter and the distribution policy have every field frozen
  by their constructors, so they are constants here. Attempts are accepted by their constructor before they enter
  a set.
\<close>

section \<open>The identity of a measurement\<close>

fun availability_text :: "availability_state \<Rightarrow> string" where
  "availability_text Available = ''available''" | "availability_text Missing = ''missing''"
| "availability_text Unavailable = ''unavailable''" | "availability_text Unknown_Availability = ''unknown''"
| "availability_text Not_Applicable = ''not_applicable''"

fun quality_text :: "data_quality_state \<Rightarrow> string" where
  "quality_text Quality_Full = ''full''" | "quality_text Quality_Degraded = ''degraded''"
| "quality_text Quality_Missing = ''missing''" | "quality_text Quality_Not_Applicable = ''not_applicable''"

fun score_eligibility_text :: "score_eligibility \<Rightarrow> string" where
  "score_eligibility_text Score_Eligible = ''eligible''" | "score_eligibility_text Diagnostic_Only = ''diagnostic_only''"
| "score_eligibility_text Score_Ineligible = ''ineligible''" | "score_eligibility_text Eligibility_Not_Applicable = ''not_applicable''"

fun calibration_text :: "calibration_state \<Rightarrow> string" where
  "calibration_text Calibrated = ''calibrated''" | "calibration_text Uncalibrated = ''uncalibrated''"
| "calibration_text Calibration_Not_Applicable = ''not_applicable''"

text \<open>\<open>_canon\<close> of an enum member and of a dataclass; a float stands for its hexadecimal text.\<close>

definition enum_json :: "string \<Rightarrow> string \<Rightarrow> json" where
  "enum_json t v = JObj [(''$enum'', JStr t), (''value'', JStr v)]"

definition dataclass_json :: "string \<Rightarrow> (string \<times> json) list \<Rightarrow> json" where
  "dataclass_json t members = JObj ((''$type'', JStr t) # members)"

definition metric_value_json :: "metric_value \<Rightarrow> json" where
  "metric_value_json v = dataclass_json ''sitescore_data.schemas.common.MetricValue'' [
     (''value'', opt_json num_json (mv_value v)), (''unit'', JStr (mv_unit v)),
     (''availability'', enum_json ''sitescore_data.enums.AvailabilityState'' (availability_text (mv_availability v))),
     (''data_quality'', enum_json ''sitescore_data.enums.DataQualityState'' (quality_text (mv_quality v))),
     (''score_eligibility'', enum_json ''sitescore_data.enums.ScoreEligibility'' (score_eligibility_text (mv_eligibility v))),
     (''calibration_state'', enum_json ''sitescore_data.enums.CalibrationState'' (calibration_text (mv_calibration v))),
     (''is_estimate'', JBool (mv_is_estimate v)), (''is_proxy'', JBool (mv_is_proxy v)),
     (''source_refs'', texts_json (sort (mv_source_refs v))), (''method_version'', opt_json JStr (mv_method_version v)),
     (''reason_codes'', texts_json (sort (mv_reason_codes v)))]"

definition measurement_record :: "hashers \<Rightarrow> derived_measurement \<Rightarrow> json" where
  "measurement_record H m = JObj [
     (''definition'', dataclass_json ''sitescore_metrics.contracts.MetricDefinition'' [
        (''metric_key'', JStr (mm_key m)), (''definition_version'', JStr (md_version (mm_definition m))),
        (''unit'', JStr (md_unit (mm_definition m))),
        (''implementation_status'', enum_json ''sitescore_metrics.enums.MetricImplementationStatus'' (status_text (md_status (mm_definition m))))]),
     (''policy'', dataclass_json ''sitescore_metrics.contracts.MetricDerivationPolicy'' [
        (''policy_id'', JStr (dp_id (mm_policy m))), (''policy_version'', JStr (dp_version (mm_policy m))),
        (''metric_key'', JStr (dp_metric_key (mm_policy m))),
        (''strategy'', enum_json ''sitescore_metrics.enums.DerivationStrategy'' (strategy_text (dp_strategy (mm_policy m))))]),
     (''precision_policy'', dataclass_json ''sitescore_metrics.contracts.MeasurementPrecisionPolicy'' [
        (''policy_id'', JStr (pp_id (mm_precision m))), (''policy_version'', JStr (pp_version (mm_precision m))),
        (''mode'', enum_json ''sitescore_metrics.enums.MeasurementPrecisionMode'' ''full_binary64''), (''quantization_parameter'', JNull)]),
     (''subject'', dataclass_json ''sitescore_metrics.contracts.MeasurementSubject'' [
        (''kind'', enum_json ''sitescore_metrics.enums.SubjectKind'' (subject_kind_text (su_kind (mm_subject m)))),
        (''subject_contract'', JStr (su_contract (mm_subject m))), (''subject_contract_version'', JStr (su_contract_version (mm_subject m))),
        (''semantic_payload'', JArr (map (\<lambda>(k, v). JArr [JStr k, JStr v]) (su_payload (mm_subject m)))),
        (''scope_refs'', texts_json (su_scope_refs (mm_subject m)))]),
     (''inputs'', texts_json (map (evidence_id H) (mm_inputs m))), (''metric_value'', metric_value_json (mm_value m)),
     (''method_version'', JStr (mm_method m)), (''reason_codes'', texts_json (mm_reasons m)),
     (''source_bundle_compatibility'', JArr (map (\<lambda>(k, v). JArr [JStr k, JStr v]) (mm_bundle m)))]"

definition measurement_id :: "hashers \<Rightarrow> derived_measurement \<Rightarrow> string" where
  "measurement_id H m = hx_metrics H (measurement_record H m)"

section \<open>Measurements of cells\<close>

abbreviation definition_id :: "hashers \<Rightarrow> metric_definition \<Rightarrow> string" where
  "definition_id H d \<equiv> hx_metrics H (definition_record d)"

abbreviation derivation_id :: "hashers \<Rightarrow> derivation_policy \<Rightarrow> string" where
  "derivation_id H p \<equiv> hx_metrics H (derivation_record p)"

abbreviation precision_id :: "hashers \<Rightarrow> precision_policy \<Rightarrow> string" where
  "precision_id H p \<equiv> hx_metrics H (precision_record p)"

definition validate_metric_pair :: "hashers \<Rightarrow> metric_definition \<Rightarrow> derivation_policy \<Rightarrow> check" where
  "validate_metric_pair H d p = (case (map_of metric_definitions (md_key d), map_of metric_policies (md_key d)) of
     (Some d', Some p') \<Rightarrow> all_ok [
       req (definition_id H d = definition_id H d') ''benchmark definition does not match canonical V1 metric definition'',
       req (derivation_id H p = derivation_id H p') ''benchmark derivation policy does not match canonical V1 metric policy'',
       req (dp_metric_key p = md_key d) ''benchmark metric definition/policy key mismatch'']
   | _ \<Rightarrow> Inl (ValueError ''benchmark metric is not in the canonical V1 registry''))"

definition assert_cell_target :: "hashers \<Rightarrow> commercial_frame \<Rightarrow> frame_cell \<Rightarrow> check" where
  "assert_cell_target H f c = all_ok [
     req (cell_id H c \<in> set (map (cell_id H) (fm_cells f))) ''benchmark frame cell is foreign to the supplied CommercialFrame'',
     req (cell_id H c \<in> set (eligible_cell_ids H f)) ''benchmark measurement attempts require a canonical ELIGIBLE frame cell'']"

fun snapshot_id_of :: "evidence \<Rightarrow> string option" where
  "snapshot_id_of (Ev_Demographics s) = None" | "snapshot_id_of (Ev_Isochrone s) = Some (is_id s)"
| "snapshot_id_of (Ev_Transit s) = Some (tr_id s)" | "snapshot_id_of (Ev_Parking s) = Some (ps_id s)"
| "snapshot_id_of (Ev_Competition s) = Some (cs_id s)" | "snapshot_id_of (Ev_Road s) = Some (rs_id s)"

text \<open>The scope that a role reads off its evidence; a snapshot without the attribute has none.\<close>

definition evidence_scope_ref :: "metric_evidence \<Rightarrow> (py_error, string) result" where
  "evidence_scope_ref e = (
     let scoped = (\<lambda>prefix v. case v of None \<Rightarrow> Inl (ValueError (me_role e @ '' evidence lacks canonical scope'')) | Some i \<Rightarrow> Inr (prefix @ i))
     in if me_role e = ''demographic_snapshot''
          then scoped ''geography:'' (case me_evidence e of Ev_Demographics s \<Rightarrow> Some (ge_id (de_geography s)) | _ \<Rightarrow> None)
        else if me_role e = ''isochrone_snapshot''
          then scoped ''catchment:'' (case me_evidence e of Ev_Isochrone s \<Rightarrow> Some (is_catchment_ref s) | _ \<Rightarrow> None)
        else if me_role e = ''transit_snapshot'' then scoped ''transit:'' (snapshot_id_of (me_evidence e))
        else if me_role e = ''parking_snapshot'' then scoped ''parking:'' (snapshot_id_of (me_evidence e))
        else if me_role e = ''competition_snapshot'' then scoped ''competition:'' (snapshot_id_of (me_evidence e))
        else if me_role e = ''road_snapshot'' then scoped ''road:'' (snapshot_id_of (me_evidence e))
        else Inl (ValueError ''unsupported canonical metric evidence role for benchmark subject adaptation''))"

definition adapt_cell_subject :: "hashers \<Rightarrow> commercial_frame \<Rightarrow> frame_cell \<Rightarrow> metric_evidence list \<Rightarrow> (py_error, measurement_subject) result" where
  "adapt_cell_subject H f c inputs =
     rbind (all_ok [assert_cell_target H f c, req (inputs \<noteq> []) ''benchmark subject adaptation requires actual metric evidence'',
       req (distinct (map (evidence_id H) inputs)) ''benchmark subject evidence must not contain duplicates'']) (\<lambda>_.
     rbind (rmap evidence_scope_ref inputs) (\<lambda>refs.
     subject_post_init \<lparr>su_kind = Subject_Benchmark_Cell, su_contract = ''sitescore_benchmarks.commercial_frame_cell'',
       su_contract_version = ''1.0'',
       su_payload = [(''commercial_frame_cell_id'', cell_id H c), (''commercial_frame_id'', frame_id H f),
         (''lattice_cell_id'', lattice_cell_id H (fc_cell c))],
       su_scope_refs = canonical_union ((''benchmark_cell:'' @ cell_id H c) # (''benchmark_frame:'' @ frame_id H f) # refs)\<rparr>))"

record cell_measurement =
  bc_frame :: commercial_frame
  bc_cell :: frame_cell
  bc_measurement :: derived_measurement

definition cell_measurement_post_init :: "hashers \<Rightarrow> cell_measurement \<Rightarrow> (py_error, cell_measurement) result" where
  "cell_measurement_post_init H a = (let m = bc_measurement a in validated a [
     assert_cell_target H (bc_frame a) (bc_cell a),
     validate_metric_pair H (mm_definition m) (mm_policy m),
     rbind (adapt_cell_subject H (bc_frame a) (bc_cell a) (mm_inputs m)) (\<lambda>expected.
       req (hx_metrics H (subject_record (mm_subject m)) = hx_metrics H (subject_record expected))
         ''measurement subject is detached from the actual benchmark frame/cell/evidence''),
     req (su_kind (mm_subject m) = Subject_Benchmark_Cell) ''benchmark-cell measurement requires BENCHMARK_CELL subject kind''])"

definition distribution_policy_id :: "hashers \<Rightarrow> string" where
  "distribution_policy_id H = hx_bench H (JObj [(''policy_id'', JStr ''benchmark-measurement-distribution''), (''policy_version'', JStr ''1.0''),
     (''subject_adapter_policy_id'', JStr (hx_bench H (JObj [(''policy_id'', JStr ''commercial-frame-cell-subject-adapter''),
        (''policy_version'', JStr ''1.0''), (''subject_contract'', JStr ''sitescore_benchmarks.commercial_frame_cell''),
        (''subject_contract_version'', JStr ''1.0''), (''evidence_scope_algorithm'', JStr ''ACTUAL_METRIC_EVIDENCE_SCOPE_V1'')]))),
     (''completeness_rule'', JStr ''EXACTLY_ONE_ATTEMPT_PER_ELIGIBLE_FRAME_CELL''),
     (''numeric_inclusion_rule'', JStr ''AVAILABLE_SCORE_ELIGIBLE_CALIBRATED_FINITE_VALUE''),
     (''compatibility_rule'', JStr ''EXACT_METHOD_AND_SOURCE_BUNDLE_COMPATIBILITY'')])"

definition attempt_id :: "hashers \<Rightarrow> cell_measurement \<Rightarrow> string" where
  "attempt_id H a = hx_bench H (JObj [(''frame_id'', JStr (frame_id H (bc_frame a))), (''frame_cell_id'', JStr (cell_id H (bc_cell a))),
     (''lattice_cell_id'', JStr (lattice_cell_id H (fc_cell (bc_cell a)))), (''measurement_id'', JStr (measurement_id H (bc_measurement a))),
     (''measurement_policy_id'', JStr (distribution_policy_id H))])"

section \<open>The set of measurements of a frame\<close>

record measurement_set =
  bs_frame :: commercial_frame
  bs_definition :: metric_definition
  bs_policy :: derivation_policy
  bs_precision :: precision_policy
  bs_attempts :: "cell_measurement list"

definition attempt_cell_id :: "hashers \<Rightarrow> cell_measurement \<Rightarrow> string" where
  "attempt_cell_id H a = cell_id H (bc_cell a)"

definition attempt_checks :: "hashers \<Rightarrow> measurement_set \<Rightarrow> cell_measurement \<Rightarrow> check list" where
  "attempt_checks H s a = (let m = bc_measurement a in [
     req (frame_id H (bc_frame a) = frame_id H (bs_frame s)) ''benchmark measurement attempt belongs to a foreign frame'',
     req (definition_id H (mm_definition m) = definition_id H (bs_definition s)) ''benchmark measurement definition mismatch'',
     req (derivation_id H (mm_policy m) = derivation_id H (bs_policy s)) ''benchmark measurement derivation-policy mismatch'',
     req (precision_id H (mm_precision m) = precision_id H (bs_precision s)) ''benchmark measurement precision-policy mismatch'',
     req (mv_unit (mm_value m) = md_unit (bs_definition s)) ''benchmark measurement unit mismatch''])"

text \<open>The constructor stores the attempts in the order of their cells.\<close>

definition measurement_set_post_init :: "hashers \<Rightarrow> measurement_set \<Rightarrow> (py_error, measurement_set) result" where
  "measurement_set_post_init H s = validated (s\<lparr>bs_attempts := sort_key (attempt_cell_id H) (bs_attempts s)\<rparr>) ([
     validate_metric_pair H (bs_definition s) (bs_policy s),
     req (distinct (map (attempt_cell_id H) (bs_attempts s))) ''duplicate benchmark measurement attempt for frame cell'',
     req (distinct (map (attempt_id H) (bs_attempts s))) ''duplicate benchmark measurement attempt'',
     req (set (map (attempt_cell_id H) (bs_attempts s)) = set (eligible_cell_ids H (bs_frame s)))
       ''benchmark measurement attempts must exactly cover eligible frame cells'']
     @ concat (map (attempt_checks H s) (bs_attempts s)))"

definition build_measurement_set :: "hashers \<Rightarrow> commercial_frame \<Rightarrow> cell_measurement list \<Rightarrow> string \<Rightarrow> precision_policy
    \<Rightarrow> (py_error, measurement_set) result" where
  "build_measurement_set H f attempts key precision = rbind (bench_text ''metric_key'' key) (\<lambda>_.
     case (map_of metric_definitions key, map_of metric_policies key) of
       (Some d, Some p) \<Rightarrow> measurement_set_post_init H \<lparr>bs_frame = f, bs_definition = d, bs_policy = p, bs_precision = precision, bs_attempts = attempts\<rparr>
     | _ \<Rightarrow> Inl (ValueError ''metric_key is not registered in the canonical V1 metric registry''))"

definition measurement_set_id :: "hashers \<Rightarrow> measurement_set \<Rightarrow> string" where
  "measurement_set_id H s = hx_bench H (JObj [(''frame_id'', JStr (frame_id H (bs_frame s))),
     (''metric_definition_id'', JStr (definition_id H (bs_definition s))), (''metric_derivation_policy_id'', JStr (derivation_id H (bs_policy s))),
     (''measurement_precision_policy_id'', JStr (precision_id H (bs_precision s))), (''unit'', JStr (md_unit (bs_definition s))),
     (''measurement_policy_id'', JStr (distribution_policy_id H)), (''attempt_ids'', texts_json (map (attempt_id H) (bs_attempts s)))])"

section \<open>Coverage\<close>

text \<open>
  Why an attempt gives no number. The last guard of the code, on infinities, cannot fire: the number of a metric
  value is finite (\<open>metric_validD\<close>).
\<close>

definition numeric_exclusion_reason :: "derived_measurement \<Rightarrow> string option" where
  "numeric_exclusion_reason m = (let v = mm_value m in
     if mv_value v = None then (case mm_reasons m of r # _ \<Rightarrow> Some r | [] \<Rightarrow> Some (''availability_'' @ availability_text (mv_availability v)))
     else if mv_availability v \<noteq> Available then Some (''availability_'' @ availability_text (mv_availability v))
     else if mv_eligibility v \<noteq> Score_Eligible then Some (''score_eligibility_'' @ score_eligibility_text (mv_eligibility v))
     else if mv_calibration v \<noteq> Calibrated then Some (''calibration_state_'' @ calibration_text (mv_calibration v))
     else None)"

definition compatibility_record :: "hashers \<Rightarrow> derived_measurement \<Rightarrow> json" where
  "compatibility_record H m = JObj [(''metric_definition_id'', JStr (definition_id H (mm_definition m))),
     (''metric_derivation_policy_id'', JStr (derivation_id H (mm_policy m))),
     (''measurement_precision_policy_id'', JStr (precision_id H (mm_precision m))), (''unit'', JStr (mv_unit (mm_value m))),
     (''method_version'', JStr (mm_method m)),
     (''source_bundle_compatibility'', JArr (map (\<lambda>(k, v). JArr [JStr k, JStr v]) (mm_bundle m)))]"

definition compatibility_id :: "hashers \<Rightarrow> derived_measurement \<Rightarrow> string" where
  "compatibility_id H m = hx_bench H (compatibility_record H m)"

definition numeric_candidates :: "measurement_set \<Rightarrow> cell_measurement list" where
  "numeric_candidates s = filter (\<lambda>a. numeric_exclusion_reason (bc_measurement a) = None) (bs_attempts s)"

definition non_numeric_attempts :: "measurement_set \<Rightarrow> cell_measurement list" where
  "non_numeric_attempts s = filter (\<lambda>a. numeric_exclusion_reason (bc_measurement a) \<noteq> None) (bs_attempts s)"

definition compatibility_identities :: "hashers \<Rightarrow> measurement_set \<Rightarrow> string list" where
  "compatibility_identities H s = canonical_union (map (\<lambda>a. compatibility_id H (bc_measurement a)) (bs_attempts s))"

definition has_conflict :: "hashers \<Rightarrow> measurement_set \<Rightarrow> bool" where
  "has_conflict H s \<longleftrightarrow> 1 < length (compatibility_identities H s)"

definition numeric_included :: "hashers \<Rightarrow> measurement_set \<Rightarrow> cell_measurement list" where
  "numeric_included H s = (if has_conflict H s then [] else numeric_candidates s)"

definition incompatible_numeric :: "hashers \<Rightarrow> measurement_set \<Rightarrow> cell_measurement list" where
  "incompatible_numeric H s = (if has_conflict H s then numeric_candidates s else [])"

definition excluded_count :: "hashers \<Rightarrow> measurement_set \<Rightarrow> nat" where
  "excluded_count H s = length (non_numeric_attempts s) + length (incompatible_numeric H s)"

text \<open>The counts by reason, as the sorted items of a dictionary; the last assignment overwrites a key.\<close>

definition reason_counts :: "hashers \<Rightarrow> measurement_set \<Rightarrow> (string \<times> nat) list" where
  "reason_counts H s = (
     let reasons = map (\<lambda>a. the (numeric_exclusion_reason (bc_measurement a))) (non_numeric_attempts s);
         mismatch = ''measurement_compatibility_mismatch'';
         counted = map (\<lambda>r. (r, count_list reasons r)) (canonical_union reasons)
     in if has_conflict H s
        then sort_key fst ((mismatch, length (incompatible_numeric H s)) # filter (\<lambda>(r, n). r \<noteq> mismatch) counted)
        else counted)"

definition coverage_check :: "hashers \<Rightarrow> measurement_set \<Rightarrow> check" where
  "coverage_check H s = all_ok [
     req (length (bs_attempts s) = length (eligible_cell_ids H (bs_frame s))) ''coverage attempt count must equal eligible-cell count'',
     req (length (numeric_included H s) + excluded_count H s = length (bs_attempts s))
       ''coverage accounting does not reconcile to complete attempt population'']"

definition coverage_id :: "hashers \<Rightarrow> measurement_set \<Rightarrow> string" where
  "coverage_id H s = hx_bench H (JObj [(''measurement_set_id'', JStr (measurement_set_id H s)),
     (''eligible_cell_count'', JInt (int (length (eligible_cell_ids H (bs_frame s))))),
     (''attempt_count'', JInt (int (length (bs_attempts s)))),
     (''numeric_candidate_count'', JInt (int (length (numeric_candidates s)))),
     (''numeric_included_count'', JInt (int (length (numeric_included H s)))),
     (''non_numeric_count'', JInt (int (length (non_numeric_attempts s)))),
     (''incompatible_numeric_count'', JInt (int (length (incompatible_numeric H s)))),
     (''excluded_count'', JInt (int (excluded_count H s))),
     (''reason_counts'', JArr (map (\<lambda>(r, n). JArr [JStr r, JInt (int n)]) (reason_counts H s))),
     (''compatibility_identities'', texts_json (compatibility_identities H s))])"

section \<open>The distribution\<close>

datatype distribution_state = Distribution_Available | Empty_Population | No_Numeric_Observations | Incompatible_Lineage

fun distribution_state_text :: "distribution_state \<Rightarrow> string" where
  "distribution_state_text Distribution_Available = ''AVAILABLE''"
| "distribution_state_text Empty_Population = ''EMPTY_ELIGIBLE_POPULATION''"
| "distribution_state_text No_Numeric_Observations = ''NO_NUMERIC_OBSERVATIONS''"
| "distribution_state_text Incompatible_Lineage = ''INCOMPATIBLE_MEASUREMENT_LINEAGE''"

definition distribution_state_of :: "hashers \<Rightarrow> measurement_set \<Rightarrow> distribution_state" where
  "distribution_state_of H s = (
     if length (eligible_cell_ids H (bs_frame s)) = 0 then Empty_Population
     else if has_conflict H s then Incompatible_Lineage
     else if length (numeric_included H s) = 0 then No_Numeric_Observations
     else Distribution_Available)"

fun distribution_reasons :: "distribution_state \<Rightarrow> string list" where
  "distribution_reasons Empty_Population = [''empty_eligible_benchmark_population'']"
| "distribution_reasons Incompatible_Lineage = [''measurement_compatibility_mismatch'']"
| "distribution_reasons No_Numeric_Observations = [''no_numeric_benchmark_observations'']"
| "distribution_reasons Distribution_Available = []"

text \<open>\<open>build_benchmark_distribution\<close>: the artifact holds its set; the constructor reconciles the coverage.\<close>

definition build_distribution :: "hashers \<Rightarrow> measurement_set \<Rightarrow> (py_error, measurement_set) result" where
  "build_distribution H s = validated s [coverage_check H s]"

text \<open>The measurement that speaks for the comparability of the whole distribution.\<close>

definition distribution_compatibility :: "hashers \<Rightarrow> measurement_set \<Rightarrow> derived_measurement option" where
  "distribution_compatibility H s = (if has_conflict H s then None
     else case bs_attempts s of [] \<Rightarrow> None | a # _ \<Rightarrow> Some (bc_measurement a))"

definition observation_values :: "hashers \<Rightarrow> measurement_set \<Rightarrow> pynum list" where
  "observation_values H s = map (\<lambda>a. the (mv_value (mm_value (bc_measurement a)))) (numeric_included H s)"

definition observation_id :: "hashers \<Rightarrow> cell_measurement \<Rightarrow> string" where
  "observation_id H a = hx_bench H (JObj [(''attempt_id'', JStr (attempt_id H a)), (''frame_cell_id'', JStr (cell_id H (bc_cell a))),
     (''measurement_id'', JStr (measurement_id H (bc_measurement a))), (''compatibility_id'', JStr (compatibility_id H (bc_measurement a))),
     (''value'', opt_json num_json (mv_value (mm_value (bc_measurement a)))), (''unit'', JStr (mv_unit (mm_value (bc_measurement a))))])"

definition distribution_id :: "hashers \<Rightarrow> measurement_set \<Rightarrow> string" where
  "distribution_id H s = hx_bench H (JObj [(''measurement_set_id'', JStr (measurement_set_id H s)),
     (''measurement_policy_id'', JStr (distribution_policy_id H)), (''frame_id'', JStr (frame_id H (bs_frame s))),
     (''metric_definition_id'', JStr (definition_id H (bs_definition s))), (''metric_derivation_policy_id'', JStr (derivation_id H (bs_policy s))),
     (''measurement_precision_policy_id'', JStr (precision_id H (bs_precision s))), (''unit'', JStr (md_unit (bs_definition s))),
     (''state'', JStr (distribution_state_text (distribution_state_of H s))),
     (''reason_codes'', texts_json (distribution_reasons (distribution_state_of H s))), (''coverage_id'', JStr (coverage_id H s)),
     (''compatibility_id'', opt_json (\<lambda>m. JStr (compatibility_id H m)) (distribution_compatibility H s)),
     (''observation_ids'', texts_json (map (observation_id H) (numeric_included H s)))])"

section \<open>The accounting of a complete set\<close>

lemma eligible_ids_distinct: "frame_post_init H f = Inr f' \<Longrightarrow> distinct (eligible_cell_ids H f)"
  by (auto simp: frame_post_init_def validated_Inr sorted_unique_def eligible_cell_ids_def distinct_map intro: inj_on_subset)

lemma numeric_partition: "length (numeric_candidates s) + length (non_numeric_attempts s) = length (bs_attempts s)"
  unfolding numeric_candidates_def non_numeric_attempts_def by (rule sum_length_filter_compl)

lemma coverage_partition: "length (numeric_included H s) + excluded_count H s = length (bs_attempts s)"
  using numeric_partition [of s] by (simp add: numeric_included_def excluded_count_def incompatible_numeric_def)

text \<open>
  What the constructor of a set has accepted always makes a distribution: there is one attempt for each eligible
  cell of the frame, and every attempt is included or excluded with a reason.
\<close>

lemma complete_set:
  assumes frame: "frame_post_init H (bs_frame s) = Inr f" and set: "measurement_set_post_init H s = Inr t"
  shows "build_distribution H t = Inr t" "bs_frame t = bs_frame s"
    "length (bs_attempts t) = length (eligible_cell_ids H (bs_frame s))"
    "sum_list (map snd (reason_counts H t)) + length (numeric_included H t) = length (bs_attempts t) \<or> has_conflict H t"
proof -
  have t: "t = s\<lparr>bs_attempts := sort_key (attempt_cell_id H) (bs_attempts s)\<rparr>"
    and d: "distinct (map (attempt_cell_id H) (bs_attempts s))"
    and c: "set (map (attempt_cell_id H) (bs_attempts s)) = set (eligible_cell_ids H (bs_frame s))"
    using set by (auto simp: measurement_set_post_init_def validated_Inr)
  show f: "bs_frame t = bs_frame s" by (simp add: t)
  have "length (map (attempt_cell_id H) (bs_attempts s)) = length (eligible_cell_ids H (bs_frame s))"
    using distinct_card [OF d] distinct_card [OF eligible_ids_distinct [OF frame]] c by simp
  then show n: "length (bs_attempts t) = length (eligible_cell_ids H (bs_frame s))" by (simp add: t)
  then show "build_distribution H t = Inr t"
    using f coverage_partition [of H t] by (simp add: build_distribution_def validated_Inr coverage_check_def)
  have counts: "sum_list (map (count_list xs) (canonical_union xs)) = length xs" for xs :: "string list"
    by (simp add: canonical_union_def sum_list_distinct_conv_sum_set sum_count_set)
  show "sum_list (map snd (reason_counts H t)) + length (numeric_included H t) = length (bs_attempts t) \<or> has_conflict H t"
    using numeric_partition [of t] by (simp add: reason_counts_def Let_def o_def counts numeric_included_def)
qed

lemma available_observations:
  assumes "distribution_state_of H s = Distribution_Available"
  shows "observation_values H s \<noteq> []" "distribution_compatibility H s \<noteq> None" "\<not> has_conflict H s"
  using assms
  by (auto simp: distribution_state_of_def observation_values_def distribution_compatibility_def numeric_included_def
      numeric_candidates_def split: if_splits list.splits)

text \<open>Frames have no eligible cells yet (\<open>frame_has_no_cells\<close>), so that no distribution is available.\<close>

lemma distribution_always_empty: "frame_constructed H polygon_of (bs_frame s) \<Longrightarrow> distribution_state_of H s = Empty_Population"
  by (simp add: distribution_state_of_def frame_has_no_cells)

end
