(* ===== verification/BenchNormalization.thy ===== *)
theory BenchNormalization
  imports BenchDistribution "HOL-Library.Multiset"
begin

text \<open>
  From a site measurement and a benchmark distribution to a normalised score (\<open>ecdf.py\<close>, \<open>normalization.py\<close> and
  \<open>composite.py\<close> of \<open>sitescore-benchmarks\<close>). The policies that the constructors refuse to vary are constants.
\<close>

section \<open>The empirical distribution function\<close>

text \<open>The ratio in lowest terms with a positive denominator, as the code reduces it.\<close>

definition reduce_ratio :: "int \<Rightarrow> int \<Rightarrow> int \<times> int" where
  "reduce_ratio n d = (if n = 0 then (0, 1) else
     let g = gcd \<bar>n\<bar> d; n' = n div g; d' = d div g in if d' < 0 then (- n', - d') else (n', d'))"

definition canonical_ratio :: "pynum \<Rightarrow> (py_error, int \<times> int) result" where
  "canonical_ratio v = (case v of Py_Int n \<Rightarrow> Inr (reduce_ratio n 1)
   | Py_Float (Fin q) \<Rightarrow> (case quotient_of q of (n, d) \<Rightarrow> Inr (reduce_ratio n d))
   | _ \<Rightarrow> Inl (ValueError ''ECDF numeric value must be finite''))"

definition fraction :: "int \<times> int \<Rightarrow> rat" where
  "fraction r = of_int (fst r) / of_int (snd r)"

definition sorted_ratios :: "(int \<times> int) list \<Rightarrow> (int \<times> int) list" where
  "sorted_ratios rs = sort_key fraction rs"

definition below_count :: "(int \<times> int) list \<Rightarrow> int \<times> int \<Rightarrow> nat" where
  "below_count rs q = length (filter (\<lambda>r. fraction r < fraction q) (sorted_ratios rs))"

definition equal_count :: "(int \<times> int) list \<Rightarrow> int \<times> int \<Rightarrow> nat" where
  "equal_count rs q = length (filter (\<lambda>r. r = q) (sorted_ratios rs))"

text \<open>\<open>MidEcdfEvaluation(sample, query).percentile\<close>: nothing on an empty sample.\<close>

definition mid_ecdf :: "pynum list \<Rightarrow> pynum \<Rightarrow> (py_error, pyfloat option) result" where
  "mid_ecdf values query = rbind (rmap canonical_ratio values) (\<lambda>rs. rbind (canonical_ratio query) (\<lambda>q.
     if rs = [] then Inr None
     else rbind (num_div (Py_Int (2 * int (below_count rs q) + int (equal_count rs q))) (Py_Int (2 * int (length rs)))) (\<lambda>p.
       if fle (Fin 0) p \<and> fle p (Fin 1) then Inr (Some p) else Inl (ValueError ''mid-ECDF percentile must be within [0, 1]''))))"

section \<open>Policies\<close>

datatype direction = Higher_Is_Better | Lower_Is_Better

record normalization_policy =
  np_id :: string
  np_version :: string
  np_metric_key :: string
  np_feature_key :: string
  np_direction :: direction

definition direct_feature_map :: "(string \<times> string \<times> direction) list" where
  "direct_feature_map = [
     (''walkable_population'', ''walkable_population_score'', Higher_Is_Better),
     (''target_population_density'', ''target_population_density_score'', Higher_Is_Better),
     (''competition_pressure'', ''competition_opportunity_score'', Lower_Is_Better),
     (''walkable_reach_area_km2'', ''walkable_reach_area_score'', Higher_Is_Better),
     (''transit_service_departure_equivalents_per_hour'', ''transit_access_score'', Higher_Is_Better),
     (''household_income'', ''household_income_score'', Higher_Is_Better)]"

definition normalization_policy_post_init :: "normalization_policy \<Rightarrow> (py_error, normalization_policy) result" where
  "normalization_policy_post_init p = validated p [
     bench_text ''policy_id'' (np_id p), bench_text ''policy_version'' (np_version p), bench_text ''metric_key'' (np_metric_key p),
     bench_text ''normalized_feature_key'' (np_feature_key p),
     (case map_of direct_feature_map (np_metric_key p) of
        None \<Rightarrow> Inl (ValueError ''metric is not a direct V1 normalized feature'')
      | Some (feature, dir) \<Rightarrow> all_ok [
          req (np_feature_key p = feature) ''normalized feature mapping is frozen for V1'',
          req (np_direction p = dir) ''feature normalization direction is frozen for V1'']),
     req (map_of metric_definitions (np_metric_key p) \<noteq> None \<and> map_of metric_policies (np_metric_key p) \<noteq> None)
       ''normalization metric is not in canonical V1 metric registry'',
     req (np_id p = ''feature-normalization:'' @ np_metric_key p \<and> np_version p = ''1.0'')
       ''feature normalization policy identity is frozen for V1'']"

definition feature_normalization_policy :: "string \<Rightarrow> (py_error, normalization_policy) result" where
  "feature_normalization_policy key = (case map_of direct_feature_map key of
     None \<Rightarrow> Inl (ValueError ''metric has no direct V1 feature normalization'')
   | Some (feature, dir) \<Rightarrow> normalization_policy_post_init \<lparr>np_id = ''feature-normalization:'' @ key, np_version = ''1.0'',
       np_metric_key = key, np_feature_key = feature, np_direction = dir\<rparr>)"

fun direction_text :: "direction \<Rightarrow> string" where
  "direction_text Higher_Is_Better = ''HIGHER_PERCENTILE_IS_BETTER''"
| "direction_text Lower_Is_Better = ''LOWER_PERCENTILE_IS_BETTER''"

definition comparison_policy_id :: "hashers \<Rightarrow> string" where
  "comparison_policy_id H = hx_bench H (JObj [(''policy_id'', JStr ''ecdf_numeric_comparison''), (''policy_version'', JStr ''1.0''),
     (''equality_rule'', JStr ''EXACT_CANONICAL_NUMERIC_VALUE''), (''ordering_rule'', JStr ''EXACT_CANONICAL_NUMERIC_ORDER''),
     (''tolerance_rule'', JStr ''NO_TOLERANCE_NO_ROUNDING_NO_QUANTIZATION'')])"

definition ecdf_policy_id :: "hashers \<Rightarrow> string" where
  "ecdf_policy_id H = hx_bench H (JObj [(''policy_id'', JStr ''mid_ecdf''), (''policy_version'', JStr ''1.0''),
     (''comparison_policy_id'', JStr (comparison_policy_id H)), (''formula_rule'', JStr ''BELOW_PLUS_HALF_EQUAL_DIVIDED_BY_N''),
     (''interpolation_rule'', JStr ''STEP_FUNCTION_NO_INTERPOLATION'')])"

definition normalization_policy_id :: "hashers \<Rightarrow> normalization_policy \<Rightarrow> string" where
  "normalization_policy_id H p = hx_bench H (JObj [(''policy_id'', JStr (np_id p)), (''policy_version'', JStr (np_version p)),
     (''metric_definition_id'', JStr (definition_id H (the (map_of metric_definitions (np_metric_key p))))),
     (''metric_derivation_policy_id'', JStr (derivation_id H (the (map_of metric_policies (np_metric_key p))))),
     (''normalized_feature_key'', JStr (np_feature_key p)), (''direction'', JStr (direction_text (np_direction p))),
     (''ecdf_policy_id'', JStr (ecdf_policy_id H)), (''numeric_comparison_policy_id'', JStr (comparison_policy_id H)),
     (''compatibility_rule'', JStr ''EXACT_SITE_BENCHMARK_MEASUREMENT_COMPATIBILITY_V1'')])"

definition transform_percentile :: "direction \<Rightarrow> pyfloat \<Rightarrow> (py_error, pyfloat) result" where
  "transform_percentile dir p = (if is_finite p \<and> fle (Fin 0) p \<and> fle p (Fin 1)
     then Inr (if dir = Higher_Is_Better then fmul (Fin 100) p else fmul (Fin 100) (fsub (Fin 1) p))
     else Inl (ValueError ''percentile must be finite and within [0,1]''))"

section \<open>Compatibility of a site with a benchmark\<close>

text \<open>The bundles have unique sorted keys: they are equal as dictionaries if they are equal.\<close>

definition bundle_mismatch :: "string \<Rightarrow> (string \<times> string) list \<Rightarrow> (string \<times> string) list \<Rightarrow> bool" where
  "bundle_mismatch key a b \<longleftrightarrow> map_of a key \<noteq> map_of b key \<and> (map_of a key \<noteq> None \<or> map_of b key \<noteq> None)"

definition compatibility_reasons_of :: "hashers \<Rightarrow> derived_measurement \<Rightarrow> derived_measurement option \<Rightarrow> string list" where
  "compatibility_reasons_of H site benchmark = (case benchmark of
     None \<Rightarrow> [''benchmark_compatibility_unavailable'']
   | Some b \<Rightarrow>
       (if definition_id H (mm_definition site) \<noteq> definition_id H (mm_definition b) then [''metric_definition_mismatch''] else [])
       @ (if derivation_id H (mm_policy site) \<noteq> derivation_id H (mm_policy b) then [''metric_derivation_policy_mismatch''] else [])
       @ (if precision_id H (mm_precision site) \<noteq> precision_id H (mm_precision b) then [''measurement_precision_mismatch''] else [])
       @ (if mv_unit (mm_value site) \<noteq> mv_unit (mm_value b) then [''unit_mismatch''] else [])
       @ (if mm_method site \<noteq> mm_method b then [''method_version_mismatch''] else [])
       @ (if mm_bundle site \<noteq> mm_bundle b then [''source_bundle_compatibility_mismatch'']
            @ (if bundle_mismatch ''transit_source_bundle_fingerprint'' (mm_bundle site) (mm_bundle b)
               then [''transit_source_bundle_mismatch''] else [])
            @ (if bundle_mismatch ''competition_measurement_definition_id'' (mm_bundle site) (mm_bundle b)
               then [''competition_measurement_definition_mismatch''] else [])
          else []))"

definition site_compatibility_check :: "hashers \<Rightarrow> derived_measurement \<Rightarrow> check" where
  "site_compatibility_check H m = all_ok [
     req (su_kind (mm_subject m) = Subject_Site) ''feature normalization requires an actual SITE measurement'',
     validate_metric_pair H (mm_definition m) (mm_policy m)]"

section \<open>Normalisation\<close>

datatype normalization_state = Normalized | Site_Not_Available | Site_Not_Eligible | Site_Not_Calibrated
  | Benchmark_Not_Available | Site_Incompatible

fun normalization_state_text :: "normalization_state \<Rightarrow> string" where
  "normalization_state_text Normalized = ''AVAILABLE''"
| "normalization_state_text Site_Not_Available = ''SITE_METRIC_NOT_AVAILABLE''"
| "normalization_state_text Site_Not_Eligible = ''SITE_METRIC_NOT_ELIGIBLE''"
| "normalization_state_text Site_Not_Calibrated = ''SITE_METRIC_NOT_CALIBRATED''"
| "normalization_state_text Benchmark_Not_Available = ''BENCHMARK_NOT_AVAILABLE''"
| "normalization_state_text Site_Incompatible = ''INCOMPATIBLE''"

text \<open>The gate on the site metric; its test for infinities cannot fire (\<open>metric_validD\<close>).\<close>

definition site_numeric_gate :: "derived_measurement \<Rightarrow> (normalization_state \<times> string list) option" where
  "site_numeric_gate m = (let v = mm_value m in
     if mv_value v = None \<or> mv_availability v \<noteq> Available then Some (Site_Not_Available, [''site_metric_not_available''])
     else if mv_eligibility v \<noteq> Score_Eligible then Some (Site_Not_Eligible, [''site_metric_not_eligible''])
     else if mv_calibration v \<noteq> Calibrated then Some (Site_Not_Calibrated, [''site_metric_not_calibrated''])
     else None)"

record normalization_result =
  nr_site :: derived_measurement
  nr_distribution :: measurement_set
  nr_policy :: normalization_policy

definition normalization_result_post_init :: "hashers \<Rightarrow> normalization_result \<Rightarrow> (py_error, normalization_result) result" where
  "normalization_result_post_init H r = validated r [
     req (su_kind (mm_subject (nr_site r)) = Subject_Site) ''feature normalization requires SITE subject kind'',
     rbind (feature_normalization_policy (mm_key (nr_site r))) (\<lambda>expected.
       req (normalization_policy_id H (nr_policy r) = normalization_policy_id H expected) ''normalization policy is not canonical for the site metric''),
     site_compatibility_check H (nr_site r)]"

definition normalization_compatibility :: "hashers \<Rightarrow> normalization_result \<Rightarrow> string list" where
  "normalization_compatibility H r = compatibility_reasons_of H (nr_site r) (distribution_compatibility H (nr_distribution r))"

text \<open>\<open>state\<close> and \<open>reason_codes\<close>, which the code derives in the same order.\<close>

definition normalization_outcome :: "hashers \<Rightarrow> normalization_result \<Rightarrow> normalization_state \<times> string list" where
  "normalization_outcome H r = (case site_numeric_gate (nr_site r) of Some g \<Rightarrow> g
   | None \<Rightarrow>
       let d = distribution_state_of H (nr_distribution r) in
       if d \<noteq> Distribution_Available
       then (Benchmark_Not_Available, [''benchmark_not_available'', ''benchmark_state_'' @ map py_lower_char (distribution_state_text d)])
       else if normalization_compatibility H r \<noteq> [] then (Site_Incompatible, normalization_compatibility H r)
       else (Normalized, []))"

definition normalization_score :: "hashers \<Rightarrow> normalization_result \<Rightarrow> (py_error, pyfloat option) result" where
  "normalization_score H r = (case (fst (normalization_outcome H r), mv_value (mm_value (nr_site r))) of
     (Normalized, Some v) \<Rightarrow> rbind (mid_ecdf (observation_values H (nr_distribution r)) v) (\<lambda>p. case p of
         None \<Rightarrow> Inr None
       | Some p \<Rightarrow> rbind (transform_percentile (np_direction (nr_policy r)) p) (\<lambda>x.
           if fle (Fin 0) x \<and> fle x (Fin 100) then Inr (Some x)
           else Inl (RuntimeError ''canonical feature normalization produced an out-of-range score'')))
   | _ \<Rightarrow> Inr None)"

definition normalize_feature :: "hashers \<Rightarrow> derived_measurement \<Rightarrow> measurement_set \<Rightarrow> (py_error, normalization_result) result" where
  "normalize_feature H m d = rbind (feature_normalization_policy (mm_key m)) (\<lambda>p.
     normalization_result_post_init H \<lparr>nr_site = m, nr_distribution = d, nr_policy = p\<rparr>)"

section \<open>The age fallback and the road and parking composite\<close>

definition age_fallback_policy_id :: "hashers \<Rightarrow> string" where
  "age_fallback_policy_id H = hx_bench H (JObj [(''policy_id'', JStr ''age_neutral_fallback''), (''policy_version'', JStr ''1.0''),
     (''normalized_feature_key'', JStr ''age_target_concentration_score''), (''unit'', JStr ''score_0_100''), (''score'', JFloat (Fin 50)),
     (''availability'', JStr ''available''), (''score_eligibility'', JStr ''eligible''), (''calibration_state'', JStr ''uncalibrated''),
     (''is_proxy'', JBool True), (''reason_code'', JStr ''age_affinity_not_calibrated'')])"

datatype component_kind = Road_Reachable_Area | Parking_Offstreet_Capacity | Parking_Curb_Length

fun component_metric_key :: "component_kind \<Rightarrow> string" where
  "component_metric_key Road_Reachable_Area = ''road_reachable_area_km2''"
| "component_metric_key Parking_Offstreet_Capacity = ''parking_public_offstreet_capacity''"
| "component_metric_key Parking_Curb_Length = ''parking_legal_curb_length_m''"

fun component_kind_text :: "component_kind \<Rightarrow> string" where
  "component_kind_text Road_Reachable_Area = ''ROAD_REACHABLE_AREA''"
| "component_kind_text Parking_Offstreet_Capacity = ''PARKING_PUBLIC_OFFSTREET_CAPACITY''"
| "component_kind_text Parking_Curb_Length = ''PARKING_LEGAL_CURB_LENGTH''"

datatype component_state = Component_Available | Component_Unavailable | Component_Unresolved | Component_Incompatible
  | Component_Ineligible | Component_Uncalibrated

fun component_state_text :: "component_state \<Rightarrow> string" where
  "component_state_text Component_Available = ''AVAILABLE''" | "component_state_text Component_Unavailable = ''UNAVAILABLE''"
| "component_state_text Component_Unresolved = ''UNRESOLVED''" | "component_state_text Component_Incompatible = ''INCOMPATIBLE''"
| "component_state_text Component_Ineligible = ''INELIGIBLE''" | "component_state_text Component_Uncalibrated = ''UNCALIBRATED''"

record composite_component =
  cc_kind :: component_kind
  cc_metric_key :: string
  cc_lineage_id :: string
  cc_state :: component_state
  cc_score :: "pyfloat option"

definition component_post_init :: "composite_component \<Rightarrow> (py_error, composite_component) result" where
  "component_post_init c = validated c [
     bench_text ''metric_key'' (cc_metric_key c), bench_text ''normalization_lineage_id'' (cc_lineage_id c),
     req (cc_metric_key c = component_metric_key (cc_kind c)) ''component kind and frozen metric key must match'',
     req (cc_state c \<noteq> Component_Available) ''no canonical approved road/parking component-normalization path exists'',
     req (cc_score c = None) ''production road/parking prerequisite declarations cannot carry numeric scores'']"

definition component_id :: "hashers \<Rightarrow> composite_component \<Rightarrow> string" where
  "component_id H c = hx_bench H (JObj [(''component_kind'', JStr (component_kind_text (cc_kind c))), (''metric_key'', JStr (cc_metric_key c)),
     (''normalization_lineage_id'', JStr (cc_lineage_id c)), (''state'', JStr (component_state_text (cc_state c))), (''score'', JNull)])"

record composite_policy =
  cp_id :: string
  cp_version :: string
  cp_approved :: bool
  cp_components :: "component_kind list"
  cp_weights :: "pyfloat list"
  cp_method :: string
  cp_missing_side :: string
  cp_feature_key :: string
  cp_unit :: string

definition required_components :: "component_kind list" where
  "required_components = [Road_Reachable_Area, Parking_Offstreet_Capacity, Parking_Curb_Length]"

definition composite_policy_post_init :: "composite_policy \<Rightarrow> (py_error, composite_policy) result" where
  "composite_policy_post_init p = validated p [
     bench_text ''policy_id'' (cp_id p), bench_text ''policy_version'' (cp_version p),
     req (cp_components p = required_components) ''COMB-005 V1 must preserve the three distinct frozen component semantics'',
     req (cp_feature_key p = ''road_parking_access_score'') ''COMB-005 output feature key is frozen'',
     req (cp_unit p = ''score_0_100'') ''COMB-005 output unit is frozen'',
     req (cp_missing_side p = ''REQUIRE_ALL_COMPONENTS_NO_SUBSTITUTION'') ''COMB-005 forbids substitution, neutral fill and renormalization'',
     req (\<not> cp_approved p) ''no approved empirical COMB-005 production authority exists'',
     req (cp_weights p = []) ''unapproved production COMB-005 policy must not carry weights'',
     req (cp_method p = ''UNRESOLVED'') ''unapproved production COMB-005 composition method must remain unresolved'']"

definition comb005_policy :: composite_policy where
  "comb005_policy = \<lparr>cp_id = ''comb005-road-parking'', cp_version = ''UNAPPROVED_V1'', cp_approved = False,
     cp_components = required_components, cp_weights = [], cp_method = ''UNRESOLVED'',
     cp_missing_side = ''REQUIRE_ALL_COMPONENTS_NO_SUBSTITUTION'', cp_feature_key = ''road_parking_access_score'', cp_unit = ''score_0_100''\<rparr>"

datatype composite_state = Policy_Not_Approved | Input_Not_Available | Input_Not_Eligible | Input_Not_Calibrated
  | Input_Incompatible | Composite_Available

record composite_result =
  cx_policy :: composite_policy
  cx_components :: "composite_component list"

definition composite_result_post_init :: "composite_result \<Rightarrow> (py_error, composite_result) result" where
  "composite_result_post_init r = validated r [
     req (\<not> cp_approved (cx_policy r)) ''production result requires current canonical unapproved policy semantics'']"

definition composite_state_of :: "composite_result \<Rightarrow> composite_state" where
  "composite_state_of r = Policy_Not_Approved"

definition composite_reasons_of :: "composite_result \<Rightarrow> string list" where
  "composite_reasons_of r = [''comb005_policy_not_approved'']"

definition composite_score_of :: "composite_result \<Rightarrow> pyfloat option" where
  "composite_score_of r = None"

definition composite_policy_id :: "hashers \<Rightarrow> composite_policy \<Rightarrow> string" where
  "composite_policy_id H p = hx_bench H (JObj [(''policy_id'', JStr (cp_id p)), (''policy_version'', JStr (cp_version p)),
     (''approval_state'', JStr (if cp_approved p then ''APPROVED'' else ''NOT_APPROVED'')),
     (''required_components'', texts_json (map component_kind_text (cp_components p))),
     (''required_metric_keys'', texts_json (map component_metric_key (cp_components p))), (''weights'', JArr []),
     (''composition_method'', JStr (cp_method p)), (''missing_side_behavior'', JStr (cp_missing_side p)),
     (''output_feature_key'', JStr (cp_feature_key p)), (''output_unit'', JStr (cp_unit p))])"

definition composite_id :: "hashers \<Rightarrow> composite_result \<Rightarrow> string" where
  "composite_id H r = hx_bench H (JObj [(''policy_identity_id'', JStr (composite_policy_id H (cx_policy r))),
     (''policy_approval_state'', JStr (if cp_approved (cx_policy r) then ''APPROVED'' else ''NOT_APPROVED'')),
     (''components'', JArr (map (\<lambda>(k, i). JArr [JStr k, JStr i])
        (sort_key fst (map (\<lambda>c. (component_kind_text (cc_kind c), component_id H c)) (cx_components r))))),
     (''output_feature_key'', JStr ''road_parking_access_score''), (''unit'', JStr ''score_0_100''),
     (''state'', JStr ''POLICY_NOT_APPROVED''), (''reason_codes'', texts_json (composite_reasons_of r)), (''score'', JNull)])"

definition evaluate_road_parking_composite :: "composite_component list \<Rightarrow> (py_error, composite_result) result" where
  "evaluate_road_parking_composite cs = composite_result_post_init \<lparr>cx_policy = comb005_policy, cx_components = cs\<rparr>"

section \<open>The percentile is a rounded rank\<close>

text \<open>The specification: the share of the sample below the query, with half of the share that equals it.\<close>

definition mid_rank :: "rat list \<Rightarrow> rat \<Rightarrow> rat" where
  "mid_rank xs q = of_nat (2 * length (filter (\<lambda>x. x < q) xs) + length (filter (\<lambda>x. x = q) xs)) / of_nat (2 * length xs)"

lemma rank_count_mono: "q \<le> q' \<Longrightarrow> 2 * length (filter (\<lambda>x. x < q) xs) + length (filter (\<lambda>x. x = q) xs)
    \<le> 2 * length (filter (\<lambda>x. x < q') xs) + length (filter (\<lambda>x. x = q') (xs :: rat list))"
  by (induction xs) auto

lemma rank_count_bound: "2 * length (filter (\<lambda>x. x < q) xs) + length (filter (\<lambda>x. x = q) xs) \<le> 2 * length (xs :: rat list)"
  by (induction xs) auto

lemma mid_rank_mono: "q \<le> q' \<Longrightarrow> mid_rank xs q \<le> mid_rank xs q'"
  unfolding mid_rank_def by (intro divide_right_mono) (simp_all only: of_nat_le_iff rank_count_mono of_nat_0_le_iff)

lemma mid_rank_range: "0 \<le> mid_rank xs q" "mid_rank xs q \<le> 1"
proof -
  show "0 \<le> mid_rank xs q" by (simp add: mid_rank_def)
  have "(of_nat (2 * length (filter (\<lambda>x. x < q) xs) + length (filter (\<lambda>x. x = q) xs)) :: rat) \<le> of_nat (2 * length xs)"
    by (simp only: of_nat_le_iff rank_count_bound)
  then show "mid_rank xs q \<le> 1" unfolding mid_rank_def by (cases "length xs = 0") (simp_all add: divide_le_eq_1)
qed

lemma mid_rank_mset: "mset xs = mset ys \<Longrightarrow> mid_rank xs q = mid_rank ys q"
proof -
  assume m: "mset xs = mset ys"
  then have "length (filter P xs) = length (filter P ys)" for P by (metis mset_filter size_mset)
  with mset_eq_length [OF m] show ?thesis by (simp only: mid_rank_def)
qed

definition is_number :: "pynum \<Rightarrow> bool" where
  "is_number v \<longleftrightarrow> num_value v = Fin (num_key v)"

lemma is_numberI: "num_value v = Fin q \<Longrightarrow> is_number v"
  by (simp add: is_number_def num_key_def)

lemma reduce_quotient: "quotient_of q = (n, d) \<Longrightarrow> reduce_ratio n d = (n, d)"
proof -
  assume nd: "quotient_of q = (n, d)"
  have "0 < d" "coprime n d" using quotient_of_denom_pos [OF nd] quotient_of_coprime [OF nd] by simp_all
  then show ?thesis by (auto simp: reduce_ratio_def coprime_iff_gcd_eq_1)
qed

lemma quotient_of_of_int: "quotient_of (of_int n) = (n, 1)"
  by (metis Fract_of_int_eq normalize_denom_zero of_int_rat quotient_of_Fract quotient_of_int Rat.of_int_def)

text \<open>Numbers are compared by their value, whatever their representation.\<close>

lemma canonical_ratio_number: "is_number v \<Longrightarrow> canonical_ratio v = Inr (quotient_of (num_key v))"
proof (cases v)
  case (Py_Int n)
  have "reduce_ratio n 1 = quotient_of (of_int n)"
    using reduce_quotient [OF quotient_of_of_int [of n]] by (simp only: quotient_of_of_int)
  with Py_Int show ?thesis by (simp add: canonical_ratio_def num_key_def num_value_def)
next
  case (Py_Float x)
  assume "is_number v"
  with Py_Float obtain q where "x = Fin q" by (auto simp: is_number_def num_value_def)
  with Py_Float show ?thesis
    by (cases "quotient_of q") (simp add: canonical_ratio_def num_key_def num_value_def reduce_quotient)
qed

lemma fraction_quotient [simp]: "fraction (quotient_of q) = q"
  by (cases "quotient_of q") (simp add: fraction_def, metis quotient_of_div)

lemma quotient_of_eq_iff [simp]: "quotient_of p = quotient_of q \<longleftrightarrow> p = q"
  by (metis fraction_quotient)

lemma length_filter_sort: "length (filter P (sort_key f xs)) = length (filter P xs)"
  by (metis mset_filter mset_sort size_mset)

lemma mid_ecdf_rank:
  assumes "\<forall>v \<in> set vs. is_number v" "is_number v" "vs \<noteq> []"
  shows "mid_ecdf vs v = Inr (Some (Fin (rnd64 (mid_rank (map num_key vs) (num_key v)))))"
proof -
  let ?rs = "map (\<lambda>w. quotient_of (num_key w)) vs"
  let ?q = "mid_rank (map num_key vs) (num_key v)"
  have rs: "rmap canonical_ratio vs = Inr ?rs"
    using assms(1) by (intro rmap_total canonical_ratio_number) blast
  have "below_count ?rs (quotient_of (num_key v)) = length (filter (\<lambda>x. x < num_key v) (map num_key vs))"
      "equal_count ?rs (quotient_of (num_key v)) = length (filter (\<lambda>x. x = num_key v) (map num_key vs))"
    by (simp_all add: below_count_def equal_count_def sorted_ratios_def length_filter_sort filter_map o_def)
  then have "num_div (Py_Int (2 * int (below_count ?rs (quotient_of (num_key v))) + int (equal_count ?rs (quotient_of (num_key v)))))
      (Py_Int (2 * int (length ?rs))) = (case to_float ?q of Fin p \<Rightarrow> Inr (Fin p) | _ \<Rightarrow> Inl (ArithError OverflowError))"
    using assms(3) by (simp add: num_div_def mid_rank_def)
  also have "\<dots> = Inr (Fin (rnd64 ?q))" using mid_rank_range [of "map num_key vs" "num_key v"] by simp
  finally show ?thesis
    using assms(2,3) b64.nonneg [OF mid_rank_range(1)] b64.le_one [OF mid_rank_range(2)]
    by (simp add: mid_ecdf_def rs canonical_ratio_number)
qed

section \<open>Scores\<close>

lemma transform_score:
  assumes "0 \<le> p" "p \<le> 1"
  shows "transform_percentile dir (Fin p) = Inr (Fin (if dir = Higher_Is_Better then rnd64 (100 * p) else rnd64 (100 * rnd64 (1 - p))))"
proof -
  have "0 \<le> rnd64 (1 - p)" "rnd64 (1 - p) \<le> 1" using assms by (simp_all add: b64.nonneg b64.le_one)
  with assms show ?thesis by (simp add: transform_percentile_def)
qed

text \<open>The score of a rank, in either direction.\<close>

definition rank_score :: "direction \<Rightarrow> rat \<Rightarrow> rat" where
  "rank_score dir r = (if dir = Higher_Is_Better then rnd64 (100 * rnd64 r) else rnd64 (100 * rnd64 (1 - rnd64 r)))"

lemma rank_score_range: "0 \<le> r \<Longrightarrow> r \<le> 1 \<Longrightarrow> 0 \<le> rank_score dir r \<and> rank_score dir r \<le> 100"
proof -
  assume r: "0 \<le> r" "r \<le> 1"
  have "0 \<le> rnd64 (100 * x) \<and> rnd64 (100 * x) \<le> 100" if "0 \<le> x" "x \<le> 1" for x
    using that b64.nonneg [of "100 * x"] b64.le_repr [OF _ b64.hundred, of "100 * x"] by simp
  moreover have "0 \<le> rnd64 r" "rnd64 r \<le> 1" using r by (simp_all add: b64.nonneg b64.le_one)
  moreover from this have "0 \<le> rnd64 (1 - rnd64 r)" "rnd64 (1 - rnd64 r) \<le> 1" by (simp_all add: b64.nonneg b64.le_one)
  ultimately show ?thesis by (simp add: rank_score_def)
qed

lemma rank_score_mono: "r \<le> r' \<Longrightarrow> if dir = Higher_Is_Better then rank_score dir r \<le> rank_score dir r' else rank_score dir r' \<le> rank_score dir r"
  by (simp add: rank_score_def b64.mono)

lemma valid_numbers: "measurement_post_init H m = Inr m' \<Longrightarrow> mv_value (mm_value m) = Some v \<Longrightarrow> is_number v"
  using finite_numberD [of "''metric value''" v]
  by (auto simp: measurement_post_init_def Let_def validated_Inr intro: is_numberI)

text \<open>The numbers of an available distribution, and the score of a site against it.\<close>

lemma observation_numbers:
  assumes "\<forall>a \<in> set (bs_attempts s). measurement_post_init H (bc_measurement a) = Inr (bc_measurement a)"
  shows "\<forall>v \<in> set (observation_values H s). is_number v"
proof
  fix v
  assume "v \<in> set (observation_values H s)"
  then obtain a where a: "a \<in> set (bs_attempts s)" "numeric_exclusion_reason (bc_measurement a) = None"
      "v = the (mv_value (mm_value (bc_measurement a)))"
    by (auto simp: observation_values_def numeric_included_def numeric_candidates_def split: if_splits)
  then have "mv_value (mm_value (bc_measurement a)) = Some v"
    by (cases "mv_value (mm_value (bc_measurement a))") (auto simp: numeric_exclusion_reason_def split: list.splits)
  with a(1) assms valid_numbers show "is_number v" by blast
qed

lemma outcome_normalized:
  assumes "fst (normalization_outcome H r) = Normalized"
  shows "distribution_state_of H (nr_distribution r) = Distribution_Available" "normalization_compatibility H r = []"
    "mv_value (mm_value (nr_site r)) \<noteq> None"
  using assms
  by (auto simp: normalization_outcome_def site_numeric_gate_def Let_def split: option.splits if_splits)

lemma normalization_score_rank:
  assumes out: "fst (normalization_outcome H r) = Normalized" and site: "measurement_post_init H (nr_site r) = Inr (nr_site r)"
    and v: "mv_value (mm_value (nr_site r)) = Some v"
    and attempts: "\<forall>a \<in> set (bs_attempts (nr_distribution r)). measurement_post_init H (bc_measurement a) = Inr (bc_measurement a)"
  shows "normalization_score H r = Inr (Some (Fin (rank_score (np_direction (nr_policy r))
    (mid_rank (map num_key (observation_values H (nr_distribution r))) (num_key v)))))"
proof -
  let ?xs = "observation_values H (nr_distribution r)"
  let ?r = "mid_rank (map num_key ?xs) (num_key v)"
  have "mid_ecdf ?xs v = Inr (Some (Fin (rnd64 ?r)))"
    using observation_numbers [OF attempts] valid_numbers [OF site v] available_observations(1) [OF outcome_normalized(1) [OF out]]
    by (rule mid_ecdf_rank)
  moreover have "0 \<le> rnd64 ?r" "rnd64 ?r \<le> 1" by (simp_all add: b64.nonneg b64.le_one mid_rank_range)
  ultimately show ?thesis
    using out v rank_score_range [of ?r "np_direction (nr_policy r)"] mid_rank_range [of "map num_key ?xs" "num_key v"]
    by (simp add: normalization_score_def transform_score rank_score_def)
qed

text \<open>
  C39: the empirical percentile is the correctly rounded mid-rank of the query in the sample: for finite numbers it
  lies between 0 and 1, it depends only on the values (not on their order, nor on whether a number is an \<open>int\<close> or
  a \<open>float\<close>), and a larger query never has a smaller percentile.
\<close>

theorem percentile_is_mid_rank:
  assumes "\<forall>v \<in> set vs. is_number v" "is_number v" "vs \<noteq> []"
  shows "mid_ecdf vs v = Inr (Some (Fin (rnd64 (mid_rank (map num_key vs) (num_key v)))))
    \<and> 0 \<le> rnd64 (mid_rank (map num_key vs) (num_key v)) \<and> rnd64 (mid_rank (map num_key vs) (num_key v)) \<le> 1
    \<and> (\<forall>ws. (\<forall>w \<in> set ws. is_number w) \<longrightarrow> mset (map num_key ws) = mset (map num_key vs) \<longrightarrow> mid_ecdf ws v = mid_ecdf vs v)
    \<and> (\<forall>w p. is_number w \<longrightarrow> num_key v \<le> num_key w \<longrightarrow> mid_ecdf vs w = Inr (Some (Fin p))
         \<longrightarrow> rnd64 (mid_rank (map num_key vs) (num_key v)) \<le> p)"
proof -
  have "mid_ecdf ws v = mid_ecdf vs v"
    if "\<forall>w \<in> set ws. is_number w" "mset (map num_key ws) = mset (map num_key vs)" for ws
  proof -
    have "ws \<noteq> []" using that(2) assms(3) by auto
    with that assms show ?thesis by (simp add: mid_ecdf_rank mid_rank_mset [OF that(2)])
  qed
  moreover have "rnd64 (mid_rank (map num_key vs) (num_key v)) \<le> p"
    if "is_number w" "num_key v \<le> num_key w" "mid_ecdf vs w = Inr (Some (Fin p))" for w p
    using that assms by (simp add: mid_ecdf_rank) (metis b64.mono mid_rank_mono)
  moreover have "mid_ecdf vs v = Inr (Some (Fin (rnd64 (mid_rank (map num_key vs) (num_key v)))))"
    using assms by (rule mid_ecdf_rank)
  moreover have "0 \<le> rnd64 (mid_rank (map num_key vs) (num_key v)) \<and> rnd64 (mid_rank (map num_key vs) (num_key v)) \<le> 1"
    by (simp add: b64.nonneg b64.le_one mid_rank_range)
  ultimately show ?thesis by blast
qed

lemma percentile_is_mid_rank_witness:
  "mid_ecdf [Py_Int 1, Py_Float (Fin 2), Py_Int 2, Py_Int 7] (Py_Int 2) = Inr (Some (Fin (1 / 2)))"
proof -
  have keys: "map num_key [Py_Int 1, Py_Float (Fin 2), Py_Int 2, Py_Int 7] = [1, 2, 2, 7]" "num_key (Py_Int 2) = 2"
    by (simp_all add: num_key_def num_value_def)
  have rank: "mid_rank [1, 2, 2, 7] 2 = 1 / 2" by (simp add: mid_rank_def)
  have exact: "rnd64 (1 / 2) = 1 / 2" using rnd64_representable [of 1 "- 1"] by (simp add: pow2_def)
  have "mid_ecdf [Py_Int 1, Py_Float (Fin 2), Py_Int 2, Py_Int 7] (Py_Int 2)
      = Inr (Some (Fin (rnd64 (mid_rank (map num_key [Py_Int 1, Py_Float (Fin 2), Py_Int 2, Py_Int 7]) (num_key (Py_Int 2))))))"
    by (rule percentile_is_mid_rank [THEN conjunct1]) (simp_all add: is_number_def num_key_def num_value_def)
  then show ?thesis by (simp only: keys rank exact)
qed

text \<open>
  C38: of two sites normalised against the same benchmark under the same policy, both scores lie between 0 and 100
  and the site with the larger value scores no lower where a higher percentile is better, and no higher where a lower
  one is (competition pressure), through the rounding of the rank and of the score.
\<close>

theorem better_site_scores_higher:
  assumes "fst (normalization_outcome H r) = Normalized" "fst (normalization_outcome H r') = Normalized"
    and "nr_distribution r' = nr_distribution r" "nr_policy r' = nr_policy r"
    and "measurement_post_init H (nr_site r) = Inr (nr_site r)" "measurement_post_init H (nr_site r') = Inr (nr_site r')"
    and "\<forall>a \<in> set (bs_attempts (nr_distribution r)). measurement_post_init H (bc_measurement a) = Inr (bc_measurement a)"
    and "mv_value (mm_value (nr_site r)) = Some v" "mv_value (mm_value (nr_site r')) = Some v'" "num_key v \<le> num_key v'"
  shows "\<exists>x x'. normalization_score H r = Inr (Some (Fin x)) \<and> normalization_score H r' = Inr (Some (Fin x'))
    \<and> 0 \<le> x \<and> x \<le> 100 \<and> 0 \<le> x' \<and> x' \<le> 100
    \<and> (if np_direction (nr_policy r) = Higher_Is_Better then x \<le> x' else x' \<le> x)"
proof -
  let ?rank = "\<lambda>w. mid_rank (map num_key (observation_values H (nr_distribution r))) (num_key w)"
  have "normalization_score H r = Inr (Some (Fin (rank_score (np_direction (nr_policy r)) (?rank v))))"
    using assms by (intro normalization_score_rank) auto
  moreover have "normalization_score H r' = Inr (Some (Fin (rank_score (np_direction (nr_policy r)) (?rank v'))))"
    using normalization_score_rank [of H r' v'] assms by simp
  moreover have "if np_direction (nr_policy r) = Higher_Is_Better
      then rank_score (np_direction (nr_policy r)) (?rank v) \<le> rank_score (np_direction (nr_policy r)) (?rank v')
      else rank_score (np_direction (nr_policy r)) (?rank v') \<le> rank_score (np_direction (nr_policy r)) (?rank v)"
    using assms(10) by (intro rank_score_mono mid_rank_mono)
  ultimately show ?thesis using rank_score_range mid_rank_range by blast
qed

section \<open>An example\<close>

definition income_metric :: "int \<Rightarrow> metric_value" where
  "income_metric n = \<lparr>mv_value = Some (Py_Int n), mv_unit = ''usd_per_household'', mv_availability = Available,
     mv_quality = Quality_Full, mv_eligibility = Score_Eligible, mv_calibration = Calibrated, mv_is_estimate = False,
     mv_is_proxy = False, mv_source_refs = [''census.acs5''], mv_method_version = Some ''acs'', mv_reason_codes = []\<rparr>"

definition example_subject :: "subject_kind \<Rightarrow> measurement_subject" where
  "example_subject k = \<lparr>su_kind = k, su_contract = ''site'', su_contract_version = ''1.0'', su_payload = [(''id'', ''1'')],
     su_scope_refs = [''geography:1'']\<rparr>"

definition income_measurement :: "hashers \<Rightarrow> subject_kind \<Rightarrow> int \<Rightarrow> derived_measurement" where
  "income_measurement H k n = projr (measure_household_income H (example_subject k) (example_demographics\<lparr>de_household_income := income_metric n\<rparr>))"

definition example_hashers :: hashers where
  "example_hashers = \<lparr>hx_metrics = (\<lambda>_. ''h''), hx_bench = (\<lambda>_. ''h''), hx_pipeline = (\<lambda>_. ''h''), hx_evidence = (\<lambda>_. JNull)\<rparr>"

definition example_cell :: frame_cell where
  "example_cell = (
     let g = \<lparr>cg_semantic_id = ''g'', cg_crs_id = ''c'', cg_canonicalization_id = ''k'', cg_engine_id = ''e''\<rparr>;
         l = \<lparr>la_id = ''l'', la_version = ''1'',
           la_projection = \<lparr>pj_id = ''p'', pj_version = ''1'', pj_algorithm = ''a'', pj_state = Unresolved_State, pj_crs = None\<rparr>,
           la_resolution = \<lparr>re_id = ''r'', re_version = ''1'', re_state = Unresolved_State, re_cell_size = None, re_unit = None\<rparr>,
           la_shape = Square, la_anchor_x = None, la_anchor_y = None, la_alignment = ''AXIS_ALIGNED'', la_indexing = ''INTEGER_IJ'',
           la_indexing_version = ''1'', la_canonicalization_id = ''k'', la_precision_id = ''q'', la_engine_id = ''e''\<rparr>;
         a = \<lparr>og_operation = Op_Area, og_success = True, og_input_ids = [''g''], og_value = Some (Py_Int 1), og_unit = Some ''m2'', og_id = ''o''\<rparr>;
         c = \<lparr>lc_policy = l, lc_i = 0, lc_j = 0, lc_geometry = g, lc_area = a, lc_algorithm = ''SQUARE_INTEGER_IJ'', lc_algorithm_version = ''1.0''\<rparr>;
         p = \<lparr>ep_id = ''e'', ep_version = ''1'', ep_positive = [], ep_exclusion = [], ep_conflict = ''UNKNOWN'', ep_insufficient = ''UNKNOWN''\<rparr>;
         b = \<lparr>eb_cell = c, eb_policy = p, eb_items = []\<rparr>
     in \<lparr>fc_cell = c,
          fc_membership = \<lparr>mb_geometry = g, mb_boundary = \<lparr>ba_geography_id = ''geo'', ba_artifact_id = ''b'', ba_geometry = g\<rparr>,
            mb_policy = \<lparr>bp_id = ''m'', bp_version = ''1'', bp_state = Unresolved_State, bp_method = None, bp_parameter = None\<rparr>,
            mb_diagnostic = None, mb_state = Member, mb_reasons = []\<rparr>,
          fc_bundle = b,
          fc_eligibility = \<lparr>ee_bundle = b, ee_policy = \<lparr>el_id = ''x'', el_version = ''1'', el_evidence_policy = p\<rparr>,
            ee_state = Cell_Eligible, ee_reasons = []\<rparr>,
          fc_source_refs = []\<rparr>)"

text \<open>The frame of an example may hold an eligible cell, although no constructor of this version accepts one.\<close>

definition example_frame :: "frame_cell list \<Rightarrow> commercial_frame" where
  "example_frame cells = \<lparr>fm_geography_id = ''geo'', fm_boundary = mb_boundary (fc_membership example_cell),
     fm_lattice = lc_policy (fc_cell example_cell), fm_membership_policy = mb_policy (fc_membership example_cell),
     fm_eligibility_policy = ee_policy (fc_eligibility example_cell), fm_cells = cells, fm_state = Frame_Unresolved,
     fm_reasons = [''boundary_membership_policy_unresolved'', ''lattice_policy_unresolved''], fm_population = population_definition,
     fm_population_version = ''1.0''\<rparr>"

definition example_distribution :: measurement_set where
  "example_distribution = (let m = income_measurement example_hashers Subject_Benchmark_Cell 50000 in
     \<lparr>bs_frame = example_frame [example_cell], bs_definition = mm_definition m, bs_policy = mm_policy m, bs_precision = full_binary64,
       bs_attempts = [\<lparr>bc_frame = example_frame [example_cell], bc_cell = example_cell, bc_measurement = m\<rparr>]\<rparr>)"

definition income_definition :: metric_definition where
  "income_definition = \<lparr>md_key = ''household_income'', md_version = ''1.0'', md_unit = ''usd_per_household'', md_status = Provider_Derived\<rparr>"

definition income_policy :: derivation_policy where
  "income_policy = \<lparr>dp_id = ''household_income_passthrough'', dp_version = ''1.0'', dp_metric_key = ''household_income'', dp_strategy = Pass_Through\<rparr>"

lemma income_registry: "registry_pair ''household_income'' = Inr (income_definition, income_policy)"
    "map_of metric_definitions ''household_income'' = Some income_definition" "map_of metric_policies ''household_income'' = Some income_policy"
  by code_simp+

lemma income_keys: "md_key income_definition = ''household_income''" "dp_metric_key income_policy = ''household_income''"
    "dp_strategy income_policy = Pass_Through" "md_status income_definition = Provider_Derived" "md_unit income_definition = ''usd_per_household''"
  by (simp_all add: income_definition_def income_policy_def)

lemma income_measured: "measure_household_income H (example_subject k) (example_demographics\<lparr>de_household_income := income_metric n\<rparr>)
    = Inr (measured income_definition income_policy (example_subject k)
      [\<lparr>me_evidence = Ev_Demographics (example_demographics\<lparr>de_household_income := income_metric n\<rparr>), me_role = ''demographic_snapshot''\<rparr>]
      (income_metric n) ''acs'' [])" if "\<bar>n\<bar> \<le> 1000000"
proof -
  have texts: "is_identifier ''census.acs5''" "trimmed ''usd_per_household''" "trimmed ''acs''" "trimmed ''demographic_snapshot''" by code_simp+
  have "\<bar>of_int n\<bar> \<le> (1000000 :: rat)" using that by (metis of_int_abs of_int_le_iff of_int_numeral)
  then have "to_float (of_int n) = Fin (rnd64 (of_int n))" by (rule to_float_fin)
  then have "metric_post_init (income_metric n) = Inr (income_metric n)"
    by (simp add: metric_post_init_def validated_Inr income_metric_def unique_identifiers_iff texts require_finite_number_def float_of_def
        int_to_float_def del: is_identifier.simps)
  moreover have "passed_spec ''household_income'' = Some (Kind_Demographics, ''demographic_snapshot'')" by code_simp
  ultimately show ?thesis
    unfolding measure_household_income_def using texts
    by (subst measure_pass_ok [OF income_registry(1), where ver = "''acs''"])
       (simp_all add: income_keys income_metric_def example_subject_def example_demographics_def text_pairs_def sorted_unique_def)
qed

lemma income_measurement_simps:
  assumes "\<bar>n\<bar> \<le> 1000000"
  shows "mm_definition (income_measurement H k n) = income_definition" "mm_policy (income_measurement H k n) = income_policy"
    "mm_subject (income_measurement H k n) = example_subject k" "mm_value (income_measurement H k n) = income_metric n"
    "mm_method (income_measurement H k n) = ''acs''" "mm_bundle (income_measurement H k n) = []"
    "mm_precision (income_measurement H k n) = full_binary64"
  by (simp_all add: income_measurement_def income_measured [OF assms])

lemma income_measurement_valid:
  assumes "\<bar>n\<bar> \<le> 1000000"
  shows "measurement_post_init H (income_measurement H k n) = Inr (income_measurement H k n)"
proof -
  have "measure_household_income H (example_subject k) (example_demographics\<lparr>de_household_income := income_metric n\<rparr>)
      = Inr (income_measurement H k n)"
    by (simp add: income_measurement_def income_measured [OF assms])
  then show ?thesis unfolding measure_household_income_def by (rule measure_pass_valid)
qed

definition income_normalization :: normalization_policy where
  "income_normalization = \<lparr>np_id = ''feature-normalization:household_income'', np_version = ''1.0'', np_metric_key = ''household_income'',
      np_feature_key = ''household_income_score'', np_direction = Higher_Is_Better\<rparr>"

lemma income_normalization: "feature_normalization_policy ''household_income'' = Inr income_normalization"
    "np_direction income_normalization = Higher_Is_Better"
  by code_simp+

lemma better_site_scores_higher_witness:
  "\<exists>x x'. normalization_score example_hashers (projr (normalize_feature example_hashers (income_measurement example_hashers Subject_Site 40000) example_distribution)) = Inr (Some (Fin x))
    \<and> normalization_score example_hashers (projr (normalize_feature example_hashers (income_measurement example_hashers Subject_Site 60000) example_distribution)) = Inr (Some (Fin x'))
    \<and> x \<le> x'"
proof -
  let ?r = "\<lambda>n. \<lparr>nr_site = income_measurement example_hashers Subject_Site n, nr_distribution = example_distribution,
    nr_policy = income_normalization\<rparr>"
  note income = income_measurement_simps income_keys
  have metric: "mv_value (income_metric n) = Some (Py_Int n)" "mv_availability (income_metric n) = Available"
      "mv_eligibility (income_metric n) = Score_Eligible" "mv_calibration (income_metric n) = Calibrated"
      "mv_unit (income_metric n) = ''usd_per_household''" for n
    by (simp_all add: income_metric_def)
  have pair: "validate_metric_pair example_hashers income_definition income_policy = Inr ()"
    by (simp add: validate_metric_pair_def income_keys income_registry)
  have kind: "su_kind (example_subject k) = k" for k by (simp add: example_subject_def)
  have site: "normalize_feature example_hashers (income_measurement example_hashers Subject_Site n) example_distribution = Inr (?r n)"
    if "\<bar>n\<bar> \<le> 1000000" for n
    using income_normalization pair kind that
    by (simp add: normalize_feature_def normalization_result_post_init_def validated_Inr site_compatibility_check_def income)
  have cells: "length (eligible_cell_ids example_hashers (bs_frame example_distribution)) = 1"
    by (simp add: eligible_cell_ids_def example_distribution_def example_frame_def example_cell_def Let_def)
  have set: "bs_attempts example_distribution = [\<lparr>bc_frame = example_frame [example_cell], bc_cell = example_cell,
      bc_measurement = income_measurement example_hashers Subject_Benchmark_Cell 50000\<rparr>]"
    by (simp add: example_distribution_def Let_def)
  have conflict: "\<not> has_conflict example_hashers example_distribution"
    by (simp add: has_conflict_def compatibility_identities_def canonical_union_def set)
  have included: "numeric_included example_hashers example_distribution = bs_attempts example_distribution"
    using conflict by (simp add: numeric_included_def numeric_candidates_def numeric_exclusion_reason_def set income metric)
  have compatible: "compatibility_reasons_of example_hashers (income_measurement example_hashers Subject_Site n)
      (distribution_compatibility example_hashers example_distribution) = []" if "\<bar>n\<bar> \<le> 1000000" for n
    using that conflict by (simp add: distribution_compatibility_def set compatibility_reasons_of_def income metric)
  have normalized: "fst (normalization_outcome example_hashers (?r n)) = Normalized" if "\<bar>n\<bar> \<le> 1000000" for n
    using that conflict cells included compatible
    by (simp add: normalization_outcome_def site_numeric_gate_def distribution_state_of_def normalization_compatibility_def income metric set)
  have attempts: "\<forall>a \<in> set (bs_attempts example_distribution). measurement_post_init example_hashers (bc_measurement a) = Inr (bc_measurement a)"
    by (simp add: set income_measurement_valid)
  show ?thesis
    using better_site_scores_higher [of example_hashers "?r 40000" "?r 60000" "Py_Int 40000" "Py_Int 60000"]
      normalized [of 40000] normalized [of 60000] income_measurement_valid [of 40000] income_measurement_valid [of 60000] attempts
      site [of 40000] site [of 60000]
    by (auto simp: income metric num_key_def num_value_def income_normalization)
qed

section \<open>Complete sets, and the benchmarks of this version\<close>

text \<open>
  The coverage of a complete set reconciles. Whatever measurements the constructor of a set has accepted over a
  frame, the distribution can be built: there is exactly one attempt for each eligible cell, every attempt is either
  included or excluded, and without a compatibility conflict the counts by reason and the included numbers add up to
  the attempts.
\<close>

theorem coverage_reconciles:
  assumes "frame_post_init H (bs_frame s) = Inr f" "measurement_set_post_init H s = Inr t"
  shows "build_distribution H t = Inr t
    \<and> set (map (attempt_cell_id H) (bs_attempts t)) = set (eligible_cell_ids H (bs_frame t))
    \<and> length (bs_attempts t) = length (eligible_cell_ids H (bs_frame t))
    \<and> length (numeric_included H t) + excluded_count H t = length (bs_attempts t)
    \<and> (has_conflict H t \<or> sum_list (map snd (reason_counts H t)) + length (numeric_included H t) = length (bs_attempts t))"
proof -
  have "set (map (attempt_cell_id H) (bs_attempts t)) = set (eligible_cell_ids H (bs_frame t))"
    using assms(2) by (auto simp: measurement_set_post_init_def validated_Inr)
  with complete_set [OF assms] coverage_partition [of H t] show ?thesis by auto
qed

text \<open>
  C40: no benchmark of this version is available. A frame whose parts their constructors accepted has no cell and is
  unresolved for want of a lattice policy, so a set of measurements over it is empty, its distribution is built but
  empty, and no site metric is ever normalised against it to a score.
\<close>

theorem no_benchmark_yet:
  assumes "frame_constructed H polygon_of (bs_frame s)" "measurement_set_post_init H s = Inr t"
  shows "fm_cells (bs_frame t) = [] \<and> fm_state (bs_frame t) = Frame_Unresolved
    \<and> ''lattice_policy_unresolved'' \<in> set (fm_reasons (bs_frame t)) \<and> bs_attempts t = [] \<and> build_distribution H t = Inr t \<and> distribution_state_of H t = Empty_Population
    \<and> (\<forall>r. nr_distribution r = t \<longrightarrow> fst (normalization_outcome H r) \<noteq> Normalized \<and> normalization_score H r = Inr None)"
proof -
  have frame: "frame_post_init H (bs_frame s) = Inr (bs_frame s)" using assms(1) by (simp add: frame_constructed_def)
  note complete = complete_set [OF frame assms(2)]
  have empty: "eligible_cell_ids H (bs_frame s) = []" using assms(1) by (rule frame_has_no_cells)
  have state: "distribution_state_of H t = Empty_Population"
    using distribution_always_empty [of H polygon_of t] assms(1) complete(2) by simp
  have "fst (normalization_outcome H r) \<noteq> Normalized" if "nr_distribution r = t" for r
    using outcome_normalized(1) [of H r] state that by auto
  moreover from this have "normalization_score H r = Inr None" if "nr_distribution r = t" for r
    using that unfolding normalization_score_def
    by (cases "fst (normalization_outcome H r)") (auto split: option.splits)
  moreover have "bs_frame t = bs_frame s" using complete(2) by simp
  moreover note frame_has_no_cells [OF assms(1)]
  ultimately show ?thesis using complete empty state by simp
qed

definition empty_set :: measurement_set where
  "empty_set = \<lparr>bs_frame = example_frame [], bs_definition = income_definition, bs_policy = income_policy, bs_precision = full_binary64,
     bs_attempts = []\<rparr>"

lemma example_frame_constructed: "frame_constructed example_hashers polygon_of (example_frame [])"
proof -
  have texts: "trimmed ''commercially_evidenced_spatial_alternatives''" "trimmed ''1.0''" "trimmed ''1''" "trimmed ''l''" "trimmed ''m''"
      "trimmed ''AXIS_ALIGNED''" "trimmed ''INTEGER_IJ''" "trimmed ''p''" "trimmed ''a''" "trimmed ''r''" by code_simp+
  have state: "frame_state_of (example_frame []) = (Frame_Unresolved, [''boundary_membership_policy_unresolved'', ''lattice_policy_unresolved''])"
    by code_simp
  then show ?thesis
    by (simp add: frame_constructed_def lattice_constructed_def projection_post_init_def resolution_post_init_def lattice_post_init_def
        lattice_resolved_def frame_post_init_def membership_policy_post_init_def validated_Inr sorted_unique_def texts example_frame_def
        example_cell_def Let_def population_definition_def)
qed

lemma empty_set_constructed: "measurement_set_post_init example_hashers empty_set = Inr empty_set"
  by (simp add: measurement_set_post_init_def validated_Inr empty_set_def validate_metric_pair_def income_keys income_registry
      eligible_cell_ids_def example_frame_def)

lemma empty_set_frame: "bs_frame empty_set = example_frame []"
  by (simp add: empty_set_def)

lemma coverage_reconciles_witness:
  "length (numeric_included example_hashers empty_set) + excluded_count example_hashers empty_set = length (bs_attempts empty_set)"
  using coverage_reconciles [of example_hashers empty_set "example_frame []" empty_set] empty_set_constructed
    example_frame_constructed [of "\<lambda>_. \<lparr>pg_type = [], pg_interiors = 0, pg_bounds = (NaN, NaN, NaN, NaN), pg_coords = [], pg_area = NaN\<rparr>"]
  by (simp add: empty_set_frame frame_constructed_def)

lemma no_benchmark_yet_witness:
  "fm_cells (bs_frame empty_set) = [] \<and> distribution_state_of example_hashers empty_set = Empty_Population"
  using no_benchmark_yet [OF _ empty_set_constructed] example_frame_constructed
  unfolding empty_set_frame by blast

end
