(* ===== verification/DataReadiness.thy ===== *)
theory DataReadiness
  imports DataFeatures
begin

text \<open>
  Scoring readiness (\<open>schemas/readiness.py\<close> and \<open>validators/readiness.py\<close> of \<open>sitescore-data\<close>): the policies,
  the result with its integrity checks, the validator, and the gate in front of the score payload.
\<close>

section \<open>Contracts\<close>

datatype readiness_reason = Missing_Required_Feature | Feature_Uncalibrated | Feature_Diagnostic_Only
  | Feature_Ineligible | Insufficient_Data_Quality | Policy_Not_Configured | Policy_Version_Mismatch
  | Competition_Measurement_Mismatch | Transit_Source_Bundle_Mismatch | Road_Parking_Composite_Unavailable
  | Age_Fallback_Policy_Invalid

record policy_version =
  pv_policy_id :: string
  pv_version :: string

definition policy_version_post_init :: "policy_version \<Rightarrow> (py_error, policy_version) result" where
  "policy_version_post_init p = validated p [
     require_canonical_identifier ''policy_id'' (pv_policy_id p),
     require_nonempty_text ''version'' (pv_version p)]"

record approved_fallback =
  af_feature :: string
  af_policy_id :: string
  af_policy_version :: string

definition approved_fallback_post_init :: "approved_fallback \<Rightarrow> (py_error, approved_fallback) result" where
  "approved_fallback_post_init a = validated a [
     require_canonical_identifier ''feature_name'' (af_feature a),
     require_canonical_identifier ''policy_id'' (af_policy_id a),
     require_nonempty_text ''policy_version'' (af_policy_version a)]"

record feature_policy =
  fp_feature :: string
  fp_required :: bool
  fp_required_version :: "string option"
  fp_resolved_version :: "string option"
  fp_fallback_id :: "string option"
  fp_fallback_version :: "string option"

definition feature_policy_post_init :: "feature_policy \<Rightarrow> (py_error, feature_policy) result" where
  "feature_policy_post_init p = validated p [
     require_canonical_identifier ''feature_name'' (fp_feature p),
     require_optional_nonempty_text ''required_policy_version'' (fp_required_version p),
     require_optional_nonempty_text ''resolved_policy_version'' (fp_resolved_version p),
     require_optional_nonempty_text ''fallback_policy_id'' (fp_fallback_id p),
     require_optional_nonempty_text ''fallback_policy_version'' (fp_fallback_version p),
     req ((fp_fallback_id p = None) = (fp_fallback_version p = None))
       ''fallback_policy_id and fallback_policy_version must be set together'']"

record compatibility_input =
  ci_competition_definition_id :: "string option"
  ci_transit_bundle :: "string option"

definition compatibility_post_init :: "compatibility_input \<Rightarrow> (py_error, compatibility_input) result" where
  "compatibility_post_init c = validated c [
     require_optional_nonempty_text ''competition_benchmark_measurement_definition_id'' (ci_competition_definition_id c),
     require_optional_nonempty_text ''transit_benchmark_source_bundle_fingerprint'' (ci_transit_bundle c)]"

record feature_readiness =
  fr_feature :: string
  fr_required :: bool
  fr_availability :: availability_state
  fr_quality :: data_quality_state
  fr_eligibility :: score_eligibility
  fr_calibration :: calibration_state
  fr_required_version :: "string option"
  fr_resolved_version :: "string option"
  fr_fallback_id :: "string option"
  fr_fallback_version :: "string option"
  fr_reasons :: "readiness_reason list"

definition feature_readiness_post_init :: "feature_readiness \<Rightarrow> (py_error, feature_readiness) result" where
  "feature_readiness_post_init s = validated s [
     require_canonical_identifier ''feature_name'' (fr_feature s),
     require_optional_nonempty_text ''required_policy_version'' (fr_required_version s),
     require_optional_nonempty_text ''resolved_policy_version'' (fr_resolved_version s),
     require_optional_nonempty_text ''fallback_policy_id'' (fr_fallback_id s),
     require_optional_nonempty_text ''fallback_policy_version'' (fr_fallback_version s),
     req ((fr_fallback_id s = None) = (fr_fallback_version s = None))
       ''fallback_policy_id and fallback_policy_version must be set together'',
     req (distinct (fr_reasons s)) ''reason_codes must not contain duplicates'']"

record readiness_result =
  rr_is_ready :: bool
  rr_missing :: "string list"
  rr_uncalibrated :: "string list"
  rr_insufficient :: "string list"
  rr_incompatible :: "string list"
  rr_reasons :: "readiness_reason list"
  rr_required_versions :: "policy_version list"
  rr_resolved_versions :: "policy_version list"
  rr_states :: "feature_readiness list"
  rr_validator_version :: string
  rr_evaluated_at :: py_datetime
  rr_fingerprint :: string

text \<open>\<open>list(dict.fromkeys(xs))\<close> keeps the first occurrence of each element.\<close>

definition unique_first :: "'a list \<Rightarrow> 'a list" where
  "unique_first xs = rev (remdups (rev xs))"

definition names_with :: "(feature_readiness \<Rightarrow> bool) \<Rightarrow> feature_readiness list \<Rightarrow> string list" where
  "names_with p states = map fr_feature (filter p states)"

definition compatibility_reasons :: "readiness_reason list" where
  "compatibility_reasons = [Competition_Measurement_Mismatch, Transit_Source_Bundle_Mismatch, Road_Parking_Composite_Unavailable]"

definition version_checks :: "string \<Rightarrow> policy_version list \<Rightarrow> check list" where
  "version_checks name vs = [
     req (distinct (map pv_policy_id vs)) (name @ '' policy_id values must be unique''),
     req (vs = sort_key pv_policy_id vs) (name @ '' must be ordered by policy_id'')]"

definition readiness_result_post_init :: "readiness_result \<Rightarrow> (py_error, readiness_result) result" where
  "readiness_result_post_init r = validated r ([
     require_unique_identifiers ''missing_required_features'' (rr_missing r),
     require_unique_identifiers ''uncalibrated_features'' (rr_uncalibrated r),
     require_unique_identifiers ''insufficient_quality_features'' (rr_insufficient r),
     require_unique_identifiers ''incompatible_features'' (rr_incompatible r),
     req (distinct (rr_reasons r)) ''reason_codes must not contain duplicates'']
     @ version_checks ''required_policy_versions'' (rr_required_versions r)
     @ version_checks ''resolved_policy_versions'' (rr_resolved_versions r)
     @ [req (distinct (map fr_feature (rr_states r))) ''feature_states feature_name values must be unique'',
        req (map fr_feature (rr_states r) = normalized_feature_names)
          ''feature_states must exactly match the frozen V1 normalized feature order'',
        req (list_all fr_required (rr_states r)) ''all frozen V1 feature_states must have required=True'',
        req (rr_missing r = names_with (\<lambda>s. Missing_Required_Feature \<in> set (fr_reasons s)) (rr_states r))
          ''missing_required_features must exactly match feature_states reason codes'',
        req (rr_uncalibrated r = names_with (\<lambda>s. Feature_Uncalibrated \<in> set (fr_reasons s)) (rr_states r))
          ''uncalibrated_features must exactly match feature_states reason codes'',
        req (rr_insufficient r = names_with (\<lambda>s. Insufficient_Data_Quality \<in> set (fr_reasons s)) (rr_states r))
          ''insufficient_quality_features must exactly match feature_states reason codes'',
        req (rr_incompatible r = names_with (\<lambda>s. list_ex (\<lambda>c. c \<in> set compatibility_reasons) (fr_reasons s)) (rr_states r))
          ''incompatible_features must exactly match compatibility-related feature reasons'',
        req (rr_reasons r = unique_first (concat (map fr_reasons (rr_states r))))
          ''reason_codes must exactly match the ordered union of feature-state reasons'',
        require_nonempty_text ''validator_version'' (rr_validator_version r),
        require_aware_datetime ''evaluated_at'' (rr_evaluated_at r),
        require_nonempty_text ''readiness_fingerprint'' (rr_fingerprint r)]
     @ (if rr_is_ready r then [
          req (list_all (\<lambda>s. fr_reasons s = []) (rr_states r)) ''score-ready result must not contain blocking feature-state reasons'',
          req (list_all (\<lambda>c. c = []) [rr_missing r, rr_uncalibrated r, rr_insufficient r, rr_incompatible r])
            ''score-ready result must not contain blocking feature collections'',
          req (rr_reasons r = []) ''score-ready result must not contain blocking reason codes'']
        else [req (rr_reasons r \<noteq> []) ''non-ready result must contain at least one blocking reason code'']))"

section \<open>The validator\<close>

definition age_feature_name :: string where "age_feature_name = ''age_target_concentration_score''"
definition age_fallback_reason :: string where "age_fallback_reason = ''age_affinity_not_calibrated''"
definition v1_age_fallback_policy_id :: string where "v1_age_fallback_policy_id = ''age_neutral_fallback''"
definition v1_age_fallback_policy_version :: string where "v1_age_fallback_policy_version = ''1.0''"

definition approval_key :: "approved_fallback \<Rightarrow> string \<times> string \<times> string" where
  "approval_key a = (af_feature a, af_policy_id a, af_policy_version a)"

definition resolved_policy_version :: "string \<Rightarrow> normalized_features \<Rightarrow> feature_policy \<Rightarrow> string option" where
  "resolved_policy_version name f p = (
     if name = ''competition_opportunity_score'' then nf_competition_policy_version f
     else if name = ''transit_access_score'' then nf_transit_policy_version f
     else if name = ''road_parking_access_score'' then nf_road_parking_policy_version f
     else fp_resolved_version p)"

definition valid_age_fallback :: "string \<Rightarrow> metric_value \<Rightarrow> feature_policy \<Rightarrow> approved_fallback list \<Rightarrow> bool" where
  "valid_age_fallback name m p approvals = (name = age_feature_name
     \<and> (case (fp_fallback_id p, fp_fallback_version p) of
         (Some i, Some v) \<Rightarrow> (name, i, v) \<in> set (map approval_key approvals)
           \<and> (name, i, v) = (age_feature_name, v1_age_fallback_policy_id, v1_age_fallback_policy_version)
       | _ \<Rightarrow> False)
     \<and> (case mv_value m of None \<Rightarrow> False | Some v \<Rightarrow> feq (num_value v) (Fin 50))
     \<and> mv_availability m = Available \<and> mv_calibration m = Uncalibrated \<and> mv_eligibility m = Score_Eligible
     \<and> mv_is_proxy m \<and> age_fallback_reason \<in> set (mv_reason_codes m))"

definition competition_compatibility_reasons :: "normalized_features \<Rightarrow> compatibility_input \<Rightarrow> readiness_reason list" where
  "competition_compatibility_reasons f c = (
     if nf_competition_benchmark f = None \<or> nf_competition_definition_id f = None \<or> ci_competition_definition_id c = None
     then [Competition_Measurement_Mismatch]
     else if nf_competition_definition_id f \<noteq> ci_competition_definition_id c then [Competition_Measurement_Mismatch]
     else [])"

definition transit_compatibility_reasons :: "normalized_features \<Rightarrow> compatibility_input \<Rightarrow> readiness_reason list" where
  "transit_compatibility_reasons f c = (
     if nf_transit_benchmark f = None \<or> nf_transit_bundle f = None \<or> ci_transit_bundle c = None
     then [Transit_Source_Bundle_Mismatch]
     else if nf_transit_bundle f \<noteq> ci_transit_bundle c then [Transit_Source_Bundle_Mismatch]
     else [])"

text \<open>What one pass of the loop appends: the reasons by group, and from them the summary lists.\<close>

definition version_reasons :: "string option \<Rightarrow> feature_policy \<Rightarrow> readiness_reason list" where
  "version_reasons resolved p = (case fp_required_version p of
     None \<Rightarrow> []
   | Some v \<Rightarrow> (case resolved of None \<Rightarrow> [Policy_Not_Configured]
       | Some w \<Rightarrow> if w \<noteq> v then [Policy_Version_Mismatch] else []))"

definition availability_reasons :: "metric_value \<Rightarrow> readiness_reason list" where
  "availability_reasons m = (if mv_availability m \<noteq> Available then [Missing_Required_Feature] else [])"

definition quality_reasons :: "metric_value \<Rightarrow> readiness_reason list" where
  "quality_reasons m = (if mv_quality m \<notin> {Quality_Full, Quality_Degraded} then [Insufficient_Data_Quality] else [])"

definition eligibility_reasons :: "metric_value \<Rightarrow> readiness_reason list" where
  "eligibility_reasons m = (if mv_eligibility m = Diagnostic_Only then [Feature_Diagnostic_Only]
     else if mv_eligibility m \<noteq> Score_Eligible then [Feature_Ineligible] else [])"

definition calibration_reasons :: "string \<Rightarrow> metric_value \<Rightarrow> feature_policy \<Rightarrow> approved_fallback list \<Rightarrow> readiness_reason list" where
  "calibration_reasons name m p approvals = (
     if mv_calibration m = Uncalibrated \<and> \<not> valid_age_fallback name m p approvals
     then Feature_Uncalibrated # (if name = age_feature_name \<and> (fp_fallback_id p \<noteq> None \<or> fp_fallback_version p \<noteq> None)
            then [Age_Fallback_Policy_Invalid] else [])
     else [])"

definition composite_reasons :: "normalized_features \<Rightarrow> metric_value \<Rightarrow> readiness_reason list" where
  "composite_reasons f m = (
     if mv_availability m \<noteq> Available \<or> mv_eligibility m \<noteq> Score_Eligible \<or> mv_calibration m \<noteq> Calibrated
        \<or> nf_road_parking_policy_version f = None
     then [Road_Parking_Composite_Unavailable] else [])"

definition special_reasons :: "string \<Rightarrow> normalized_features \<Rightarrow> metric_value \<Rightarrow> compatibility_input \<Rightarrow> readiness_reason list" where
  "special_reasons name f m c = (
     if name = ''competition_opportunity_score'' then competition_compatibility_reasons f c
     else if name = ''transit_access_score'' then transit_compatibility_reasons f c
     else if name = ''road_parking_access_score'' then composite_reasons f m
     else [])"

record feature_outcome =
  fo_state :: feature_readiness
  fo_required :: "policy_version list"
  fo_resolved :: "policy_version list"
  fo_missing :: "string list"
  fo_uncalibrated :: "string list"
  fo_insufficient :: "string list"
  fo_incompatible :: "string list"

definition version_ref :: "string \<Rightarrow> string option \<Rightarrow> (py_error, policy_version list) result" where
  "version_ref name v = (case v of None \<Rightarrow> Inr []
     | Some w \<Rightarrow> rbind (policy_version_post_init \<lparr>pv_policy_id = name, pv_version = w\<rparr>) (\<lambda>p. Inr [p]))"

text \<open>\<open>reported b name\<close>: the name is appended to a summary list when the branch is taken.\<close>

definition reported :: "bool \<Rightarrow> string \<Rightarrow> string list" where
  "reported b name = (if b then [name] else [])"

definition evaluate_feature :: "normalized_features \<Rightarrow> compatibility_input \<Rightarrow> approved_fallback list \<Rightarrow> feature_policy
    \<Rightarrow> string \<Rightarrow> (py_error, feature_outcome) result" where
  "evaluate_feature f c approvals p name = (
     let m = feature_of f name;
         resolved = resolved_policy_version name f p;
         required = fp_required p;
         calibration = calibration_reasons name m p approvals;
         special = special_reasons name f m c;
         reasons = version_reasons resolved p
           @ (if required then availability_reasons m @ quality_reasons m @ eligibility_reasons m @ calibration @ special else [])
     in rbind (version_ref name (fp_required_version p)) (\<lambda>required_refs.
        rbind (version_ref name resolved) (\<lambda>resolved_refs.
        rbind (feature_readiness_post_init \<lparr>fr_feature = name, fr_required = required, fr_availability = mv_availability m,
            fr_quality = mv_quality m, fr_eligibility = mv_eligibility m, fr_calibration = mv_calibration m,
            fr_required_version = fp_required_version p, fr_resolved_version = resolved, fr_fallback_id = fp_fallback_id p,
            fr_fallback_version = fp_fallback_version p, fr_reasons = unique_first reasons\<rparr>) (\<lambda>state.
        Inr \<lparr>fo_state = state, fo_required = required_refs, fo_resolved = resolved_refs,
          fo_missing = reported (required \<and> availability_reasons m \<noteq> []) name,
          fo_uncalibrated = reported (required \<and> calibration \<noteq> []) name,
          fo_insufficient = reported (required \<and> quality_reasons m \<noteq> []) name,
          fo_incompatible = reported (required \<and> special \<noteq> []) name\<rparr>))))"

definition policy_for :: "feature_policy list \<Rightarrow> string \<Rightarrow> feature_policy" where
  "policy_for policies name = the (find (\<lambda>p. fp_feature p = name) policies)"

definition validate_guards :: "feature_policy list \<Rightarrow> approved_fallback list \<Rightarrow> py_datetime \<Rightarrow> string \<Rightarrow> check list" where
  "validate_guards policies approvals evaluated_at fingerprint = [
     req (distinct (map approval_key approvals)) ''approved_fallback_policies must not contain duplicates'',
     req (list_all (\<lambda>a. af_feature a = age_feature_name) approvals)
       ''V1 approved fallback policies may target only age_target_concentration_score'',
     require_aware_datetime ''evaluated_at'' evaluated_at,
     require_nonempty_text ''readiness_fingerprint'' fingerprint,
     req (distinct (map fp_feature policies)) ''feature_policies feature_name values must be unique'',
     req (set (map fp_feature policies) = set normalized_feature_names)
       ''feature_policies must cover exactly the frozen V1 normalized feature surface'',
     req (list_all fp_required policies) ''frozen V1 readiness requires all normalized features'']"

definition readiness_validator :: "string \<Rightarrow> (py_error, string) result" where
  "readiness_validator version = validated version [require_nonempty_text ''validator_version'' version]"

definition collect_outcomes :: "string \<Rightarrow> py_datetime \<Rightarrow> string \<Rightarrow> feature_outcome list \<Rightarrow> readiness_result" where
  "collect_outcomes version evaluated_at fingerprint os = (
     let global_reasons = unique_first (concat (map (fr_reasons \<circ> fo_state) os)) in
     \<lparr>rr_is_ready = (global_reasons = []),
      rr_missing = unique_first (concat (map fo_missing os)),
      rr_uncalibrated = unique_first (concat (map fo_uncalibrated os)),
      rr_insufficient = unique_first (concat (map fo_insufficient os)),
      rr_incompatible = unique_first (concat (map fo_incompatible os)),
      rr_reasons = global_reasons,
      rr_required_versions = sort_key pv_policy_id (concat (map fo_required os)),
      rr_resolved_versions = sort_key pv_policy_id (concat (map fo_resolved os)),
      rr_states = map fo_state os,
      rr_validator_version = version, rr_evaluated_at = evaluated_at, rr_fingerprint = fingerprint\<rparr>)"

definition validate :: "string \<Rightarrow> normalized_features \<Rightarrow> feature_policy list \<Rightarrow> compatibility_input
    \<Rightarrow> approved_fallback list \<Rightarrow> py_datetime \<Rightarrow> string \<Rightarrow> (py_error, readiness_result) result" where
  "validate version f policies c approvals evaluated_at fingerprint =
     rbind (all_ok (validate_guards policies approvals evaluated_at fingerprint)) (\<lambda>_.
     rbind (rmap (\<lambda>name. evaluate_feature f c approvals (policy_for policies name) name) normalized_feature_names) (\<lambda>os.
     readiness_result_post_init (collect_outcomes version evaluated_at fingerprint os)))"

definition create_ready_payload :: "readiness_result \<Rightarrow> sector_key \<Rightarrow> pynum \<Rightarrow> pynum \<Rightarrow> pynum \<Rightarrow> pynum \<Rightarrow> string \<Rightarrow> string
    \<Rightarrow> (py_error, ready_payload) result" where
  "create_ready_payload r sector demand competition accessibility economics contract policy = (
     if \<not> rr_is_ready r then Inl (ValueError ''ReadyCategoryScorePayload requires is_score_ready=True'')
     else ready_payload_post_init \<lparr>rp_sector = sector, rp_demand = demand, rp_competition = competition,
       rp_accessibility = accessibility, rp_economics = economics, rp_readiness_fingerprint = rr_fingerprint r,
       rp_contract_version = contract, rp_policy_version = policy\<rparr>)"
section \<open>Facts\<close>

lemma set_unique_first [simp]: "set (unique_first xs) = set xs"
  and distinct_unique_first [simp]: "distinct (unique_first xs)"
  and unique_first_distinct [simp]: "distinct xs \<Longrightarrow> unique_first xs = xs"
  and unique_first_Nil_iff [simp]: "unique_first xs = [] \<longleftrightarrow> xs = []"
  by (simp_all add: unique_first_def distinct_remdups_id)

lemma version_ref_ok: "is_identifier name \<Longrightarrow> pred_option trimmed v \<Longrightarrow>
    version_ref name v = Inr (case v of None \<Rightarrow> [] | Some w \<Rightarrow> [\<lparr>pv_policy_id = name, pv_version = w\<rparr>])"
  by (cases v) (simp_all add: version_ref_def policy_version_post_init_def validated_def rbind_Inr_iff canonical_identifier_iff)

text \<open>The outcome of a pass that raises nothing.\<close>

definition feature_reasons :: "normalized_features \<Rightarrow> compatibility_input \<Rightarrow> approved_fallback list \<Rightarrow> feature_policy \<Rightarrow> string
    \<Rightarrow> readiness_reason list" where
  "feature_reasons f c approvals p name = (let m = feature_of f name in
     version_reasons (resolved_policy_version name f p) p @ availability_reasons m @ quality_reasons m @ eligibility_reasons m
       @ calibration_reasons name m p approvals @ special_reasons name f m c)"

lemmas reason_defs = version_reasons_def availability_reasons_def quality_reasons_def eligibility_reasons_def
  calibration_reasons_def special_reasons_def composite_reasons_def competition_compatibility_reasons_def
  transit_compatibility_reasons_def

lemma resolved_version_text:
  assumes "normalized_features_post_init f = Inr f'" "feature_policy_post_init p = Inr p'"
  shows "pred_option trimmed (resolved_policy_version name f p)"
  using assms by (simp add: resolved_policy_version_def normalized_features_post_init_def feature_policy_post_init_def validated_Inr)

definition feature_outcome_of :: "normalized_features \<Rightarrow> compatibility_input \<Rightarrow> approved_fallback list \<Rightarrow> feature_policy \<Rightarrow> string
    \<Rightarrow> feature_outcome" where
  "feature_outcome_of f c approvals p name = (
     let m = feature_of f name; resolved = resolved_policy_version name f p;
         refs = \<lambda>v. case v of None \<Rightarrow> [] | Some w \<Rightarrow> [\<lparr>pv_policy_id = name, pv_version = w\<rparr>] in
     \<lparr>fo_state = \<lparr>fr_feature = name, fr_required = True, fr_availability = mv_availability m,
        fr_quality = mv_quality m, fr_eligibility = mv_eligibility m, fr_calibration = mv_calibration m,
        fr_required_version = fp_required_version p, fr_resolved_version = resolved, fr_fallback_id = fp_fallback_id p,
        fr_fallback_version = fp_fallback_version p, fr_reasons = unique_first (feature_reasons f c approvals p name)\<rparr>,
      fo_required = refs (fp_required_version p), fo_resolved = refs resolved,
      fo_missing = reported (availability_reasons m \<noteq> []) name,
      fo_uncalibrated = reported (calibration_reasons name m p approvals \<noteq> []) name,
      fo_insufficient = reported (quality_reasons m \<noteq> []) name,
      fo_incompatible = reported (special_reasons name f m c \<noteq> []) name\<rparr>)"

lemma evaluate_feature_ok:
  assumes "normalized_features_post_init f = Inr f'" "feature_policy_post_init p = Inr p'" "fp_required p" "is_identifier name"
  shows "evaluate_feature f c approvals p name = Inr (feature_outcome_of f c approvals p name)"
proof -
  let ?state = "fo_state (feature_outcome_of f c approvals p name)"
  have texts: "pred_option trimmed (fp_required_version p)" "pred_option trimmed (resolved_policy_version name f p)"
    using assms(2) resolved_version_text [OF assms(1,2)] by (simp_all add: feature_policy_post_init_def validated_Inr)
  have "feature_readiness_post_init ?state = Inr ?state"
    using assms(2,4) texts
    by (simp add: feature_readiness_post_init_def validated_Inr canonical_identifier_iff feature_policy_post_init_def
        feature_outcome_of_def Let_def)
  then show ?thesis
    using assms(3) unfolding evaluate_feature_def feature_outcome_of_def Let_def version_ref_ok [OF assms(4) texts(1)]
      version_ref_ok [OF assms(4) texts(2)] feature_reasons_def rbind.simps
    by simp
qed

text \<open>Each group of reasons has its own codes, so a code tells which group reported it.\<close>

lemma version_group: "set (version_reasons v p) \<subseteq> {Policy_Not_Configured, Policy_Version_Mismatch}"
  by (auto simp: version_reasons_def split: option.splits if_splits)

lemma eligibility_group: "set (eligibility_reasons m) \<subseteq> {Feature_Diagnostic_Only, Feature_Ineligible}"
  by (auto simp: eligibility_reasons_def split: if_splits)

lemma calibration_group: "set (calibration_reasons name m p approvals) \<subseteq> {Feature_Uncalibrated, Age_Fallback_Policy_Invalid}"
    "Feature_Uncalibrated \<in> set (calibration_reasons name m p approvals) \<longleftrightarrow> calibration_reasons name m p approvals \<noteq> []"
  by (auto simp: calibration_reasons_def split: if_splits)

lemma special_group: "set (special_reasons name f m c) \<subseteq> set compatibility_reasons"
  by (auto simp: special_reasons_def composite_reasons_def competition_compatibility_reasons_def
      transit_compatibility_reasons_def compatibility_reasons_def split: if_splits)

lemma disjoint_if_subset: "A \<subseteq> B \<Longrightarrow> B \<inter> C = {} \<Longrightarrow> A \<inter> C = {}"
  by blast

lemma in_feature_reasons:
  "Missing_Required_Feature \<in> set (feature_reasons f c approvals p name) \<longleftrightarrow> availability_reasons (feature_of f name) \<noteq> []"
  "Feature_Uncalibrated \<in> set (feature_reasons f c approvals p name) \<longleftrightarrow> calibration_reasons name (feature_of f name) p approvals \<noteq> []"
  "Insufficient_Data_Quality \<in> set (feature_reasons f c approvals p name) \<longleftrightarrow> quality_reasons (feature_of f name) \<noteq> []"
  "(\<exists>r \<in> set compatibility_reasons. r \<in> set (feature_reasons f c approvals p name))
     \<longleftrightarrow> special_reasons name f (feature_of f name) c \<noteq> []"
proof -
  note groups = version_group [of "resolved_policy_version name f p" p] eligibility_group [of "feature_of f name"]
    calibration_group [of name "feature_of f name" p approvals] special_group [of name f "feature_of f name" c]
  have availability: "set (availability_reasons (feature_of f name)) \<subseteq> {Missing_Required_Feature}"
      "Missing_Required_Feature \<in> set (availability_reasons (feature_of f name)) \<longleftrightarrow> availability_reasons (feature_of f name) \<noteq> []"
    by (auto simp: availability_reasons_def split: if_splits)
  have quality: "set (quality_reasons (feature_of f name)) \<subseteq> {Insufficient_Data_Quality}"
      "Insufficient_Data_Quality \<in> set (quality_reasons (feature_of f name)) \<longleftrightarrow> quality_reasons (feature_of f name) \<noteq> []"
    by (auto simp: quality_reasons_def split: if_splits)
  note members = feature_reasons_def Let_def set_append Un_iff
  show "Missing_Required_Feature \<in> set (feature_reasons f c approvals p name) \<longleftrightarrow> availability_reasons (feature_of f name) \<noteq> []"
    using groups availability quality unfolding members compatibility_reasons_def by auto
  show "Feature_Uncalibrated \<in> set (feature_reasons f c approvals p name) \<longleftrightarrow> calibration_reasons name (feature_of f name) p approvals \<noteq> []"
    using groups availability quality unfolding members compatibility_reasons_def by auto
  show "Insufficient_Data_Quality \<in> set (feature_reasons f c approvals p name) \<longleftrightarrow> quality_reasons (feature_of f name) \<noteq> []"
    using groups availability quality unfolding members compatibility_reasons_def by auto
  have "set (version_reasons (resolved_policy_version name f p) p) \<inter> set compatibility_reasons = {}"
      "set (availability_reasons (feature_of f name)) \<inter> set compatibility_reasons = {}"
      "set (quality_reasons (feature_of f name)) \<inter> set compatibility_reasons = {}"
      "set (eligibility_reasons (feature_of f name)) \<inter> set compatibility_reasons = {}"
      "set (calibration_reasons name (feature_of f name) p approvals) \<inter> set compatibility_reasons = {}"
    by (rule disjoint_if_subset, rule groups availability quality, simp add: compatibility_reasons_def)+
  moreover have "special_reasons name f (feature_of f name) c \<noteq> [] \<longleftrightarrow> (\<exists>r. r \<in> set (special_reasons name f (feature_of f name) c))"
    by (simp add: neq_Nil_conv ex_in_conv)
  ultimately show "(\<exists>r \<in> set compatibility_reasons. r \<in> set (feature_reasons f c approvals p name))
     \<longleftrightarrow> special_reasons name f (feature_of f name) c \<noteq> []"
    using groups(5) unfolding members by blast
qed

lemma feature_outcome_fields:
  "fr_feature (fo_state (feature_outcome_of f c approvals p name)) = name"
  "fr_required (fo_state (feature_outcome_of f c approvals p name))"
  "fr_reasons (fo_state (feature_outcome_of f c approvals p name)) = unique_first (feature_reasons f c approvals p name)"
  "set (map pv_policy_id (fo_required (feature_outcome_of f c approvals p name))) \<subseteq> {name}"
  "distinct (map pv_policy_id (fo_required (feature_outcome_of f c approvals p name)))"
  "set (map pv_policy_id (fo_resolved (feature_outcome_of f c approvals p name))) \<subseteq> {name}"
  "distinct (map pv_policy_id (fo_resolved (feature_outcome_of f c approvals p name)))"
  "fo_missing (feature_outcome_of f c approvals p name) = reported (availability_reasons (feature_of f name) \<noteq> []) name"
  "fo_uncalibrated (feature_outcome_of f c approvals p name) = reported (calibration_reasons name (feature_of f name) p approvals \<noteq> []) name"
  "fo_insufficient (feature_outcome_of f c approvals p name) = reported (quality_reasons (feature_of f name) \<noteq> []) name"
  "fo_incompatible (feature_outcome_of f c approvals p name) = reported (special_reasons name f (feature_of f name) c \<noteq> []) name"
  by (auto simp: feature_outcome_of_def Let_def split: option.splits)

text \<open>The lists of the result, over any distinct list of names.\<close>

lemma concat_reported: "concat (map (\<lambda>n. reported (P n) n) ns) = filter P ns"
  by (induction ns) (simp_all add: reported_def)

lemma names_with_map: "(\<And>n. fr_feature (g n) = n) \<Longrightarrow> names_with P (map g ns) = filter (\<lambda>n. P (g n)) ns"
  by (induction ns) (simp_all add: names_with_def)

lemma distinct_versions:
  assumes "distinct ns" "\<And>n. set (map pv_policy_id (g n)) \<subseteq> {n}" "\<And>n. distinct (map pv_policy_id (g n))"
  shows "distinct (map pv_policy_id (concat (map g ns)))"
  using assms(1)
proof (induction ns)
  case (Cons n ns)
  have "set (map pv_policy_id (concat (map g ns))) \<subseteq> set ns" using assms(2) by fastforce
  with Cons assms(2) [of n] assms(3) [of n] show ?case by fastforce
qed simp

lemma sort_key_of_sorted: "sorted (map k xs) \<Longrightarrow> sort_key k xs = xs"
  by (induction xs) (auto simp: insort_is_Cons)

lemma version_checks_ok: "distinct (map pv_policy_id vs) \<Longrightarrow> all_ok (version_checks name (sort_key pv_policy_id vs)) = Inr ()"
  by (simp add: version_checks_def sort_key_of_sorted distinct_map)

section \<open>What readiness means\<close>

text \<open>The condition on one feature, read off the features alone.\<close>

definition feature_ready :: "normalized_features \<Rightarrow> compatibility_input \<Rightarrow> approved_fallback list \<Rightarrow> feature_policy \<Rightarrow> string \<Rightarrow> bool" where
  "feature_ready f c approvals p name = (
     mv_availability (feature_of f name) = Available
     \<and> mv_quality (feature_of f name) \<in> {Quality_Full, Quality_Degraded}
     \<and> mv_eligibility (feature_of f name) = Score_Eligible
     \<and> (mv_calibration (feature_of f name) = Uncalibrated \<longrightarrow> valid_age_fallback name (feature_of f name) p approvals)
     \<and> (fp_required_version p \<noteq> None \<longrightarrow> resolved_policy_version name f p = fp_required_version p)
     \<and> (name = ''competition_opportunity_score'' \<longrightarrow> nf_competition_benchmark f \<noteq> None
          \<and> nf_competition_definition_id f \<noteq> None \<and> ci_competition_definition_id c = nf_competition_definition_id f)
     \<and> (name = ''transit_access_score'' \<longrightarrow> nf_transit_benchmark f \<noteq> None
          \<and> nf_transit_bundle f \<noteq> None \<and> ci_transit_bundle c = nf_transit_bundle f)
     \<and> (name = ''road_parking_access_score'' \<longrightarrow> mv_calibration (feature_of f name) = Calibrated
          \<and> nf_road_parking_policy_version f \<noteq> None))"

lemma special_reasons_empty: "special_reasons name f m c = [] \<longleftrightarrow>
    (name = ''competition_opportunity_score'' \<longrightarrow> nf_competition_benchmark f \<noteq> None
          \<and> nf_competition_definition_id f \<noteq> None \<and> ci_competition_definition_id c = nf_competition_definition_id f)
     \<and> (name = ''transit_access_score'' \<longrightarrow> nf_transit_benchmark f \<noteq> None
          \<and> nf_transit_bundle f \<noteq> None \<and> ci_transit_bundle c = nf_transit_bundle f)
     \<and> (name = ''road_parking_access_score'' \<longrightarrow> mv_availability m = Available \<and> mv_eligibility m = Score_Eligible
          \<and> mv_calibration m = Calibrated \<and> nf_road_parking_policy_version f \<noteq> None)"
proof -
  have "competition_compatibility_reasons f c = [] \<longleftrightarrow> nf_competition_benchmark f \<noteq> None
      \<and> nf_competition_definition_id f \<noteq> None \<and> ci_competition_definition_id c = nf_competition_definition_id f"
    by (cases "nf_competition_definition_id f"; cases "ci_competition_definition_id c")
      (auto simp: competition_compatibility_reasons_def)
  moreover have "transit_compatibility_reasons f c = [] \<longleftrightarrow> nf_transit_benchmark f \<noteq> None
      \<and> nf_transit_bundle f \<noteq> None \<and> ci_transit_bundle c = nf_transit_bundle f"
    by (cases "nf_transit_bundle f"; cases "ci_transit_bundle c") (auto simp: transit_compatibility_reasons_def)
  ultimately show ?thesis by (simp add: special_reasons_def composite_reasons_def)
qed

lemma version_reasons_empty: "version_reasons v p = [] \<longleftrightarrow> (fp_required_version p \<noteq> None \<longrightarrow> v = fp_required_version p)"
  by (auto simp: version_reasons_def split: option.splits)

lemma metric_reasons_empty: "availability_reasons m = [] \<longleftrightarrow> mv_availability m = Available"
  "quality_reasons m = [] \<longleftrightarrow> mv_quality m \<in> {Quality_Full, Quality_Degraded}"
  "eligibility_reasons m = [] \<longleftrightarrow> mv_eligibility m = Score_Eligible"
  "calibration_reasons name m p approvals = [] \<longleftrightarrow> (mv_calibration m = Uncalibrated \<longrightarrow> valid_age_fallback name m p approvals)"
  by (auto simp: availability_reasons_def quality_reasons_def eligibility_reasons_def calibration_reasons_def)

lemma feature_reasons_empty: "feature_reasons f c approvals p name = [] \<longleftrightarrow> feature_ready f c approvals p name"
  unfolding feature_reasons_def Let_def append_is_Nil_conv special_reasons_empty version_reasons_empty metric_reasons_empty
    feature_ready_def by satx

lemma policy_for_covered:
  assumes "set (map fp_feature policies) = ns" "n \<in> ns"
  shows "policy_for policies n \<in> set policies" "fp_feature (policy_for policies n) = n"
proof -
  have "find (\<lambda>p. fp_feature p = n) policies \<noteq> None" using assms by (auto simp: find_None_iff)
  then obtain p where "find (\<lambda>p. fp_feature p = n) policies = Some p" by blast
  moreover from this have "p \<in> set policies \<and> fp_feature p = n" by (auto simp: find_Some_iff)
  ultimately show "policy_for policies n \<in> set policies" "fp_feature (policy_for policies n) = n"
    by (simp_all add: policy_for_def)
qed

lemma list_ex_compatibility: "list_ex (\<lambda>r. r \<in> set compatibility_reasons) (unique_first (feature_reasons f c approvals p name))
    \<longleftrightarrow> special_reasons name f (feature_of f name) c \<noteq> []"
  unfolding list_ex_iff set_unique_first in_feature_reasons(4) [of f c approvals p, symmetric] by blast

text \<open>Whatever the validity of the other inputs: a ready verdict means that every feature was available.\<close>

lemma rmap_InrD: "rmap f xs = Inr ys \<Longrightarrow> x \<in> set xs \<Longrightarrow> \<exists>y \<in> set ys. f x = Inr y"
  by (induction xs arbitrary: ys) (auto simp: rbind_Inr_iff)

lemma ready_features_available:
  assumes "validate version f policies c approvals evaluated_at fingerprint = Inr r" "rr_is_ready r"
    and n: "n \<in> set normalized_feature_names"
  shows "mv_availability (feature_of f n) = Available"
proof -
  obtain os where guards: "all_ok (validate_guards policies approvals evaluated_at fingerprint) = Inr ()"
    and os: "rmap (\<lambda>n. evaluate_feature f c approvals (policy_for policies n) n) normalized_feature_names = Inr os"
    and r: "r = collect_outcomes version evaluated_at fingerprint os"
    using assms(1) by (auto simp: validate_def rbind_Inr_iff readiness_result_post_init_def validated_Inr)
  obtain out where out: "out \<in> set os" "evaluate_feature f c approvals (policy_for policies n) n = Inr out"
    using rmap_InrD [OF os n] by blast
  have "policy_for policies n \<in> set policies"
    using guards n by (intro policy_for_covered) (simp_all add: validate_guards_def)
  then have "fp_required (policy_for policies n)" using guards by (auto simp: validate_guards_def list_all_iff)
  moreover have "fr_reasons (fo_state out) = []" using assms(2) out(1) by (auto simp: r collect_outcomes_def Let_def)
  ultimately have "availability_reasons (feature_of f n) = []"
    using out(2) by (auto simp: evaluate_feature_def Let_def rbind_Inr_iff feature_readiness_post_init_def validated_Inr)
  then show ?thesis by (simp add: metric_reasons_empty)
qed

text \<open>The result that the loop builds passes its own integrity checks.\<close>

lemma collected_result_valid:
  fixes g :: "string \<Rightarrow> feature_outcome"
  assumes g: "\<And>n. g n = feature_outcome_of f c approvals (p n) n"
    and "trimmed version" "trimmed fingerprint" "require_aware_datetime ''evaluated_at'' evaluated_at = Inr ()"
  shows "readiness_result_post_init (collect_outcomes version evaluated_at fingerprint (map g normalized_feature_names))
    = Inr (collect_outcomes version evaluated_at fingerprint (map g normalized_feature_names))"
proof -
  let ?ns = normalized_feature_names
  let ?r = "collect_outcomes version evaluated_at fingerprint (map g ?ns)"
  note fields = feature_outcome_fields [of f c approvals]
  have ids: "list_all is_identifier (filter P ?ns)" "distinct (filter P ?ns)" for P
    using feature_names_identifiers feature_names_distinct by (auto simp: list_all_iff)
  have missing: "rr_missing ?r = filter (\<lambda>n. availability_reasons (feature_of f n) \<noteq> []) ?ns"
    and uncalibrated: "rr_uncalibrated ?r = filter (\<lambda>n. calibration_reasons n (feature_of f n) (p n) approvals \<noteq> []) ?ns"
    and insufficient: "rr_insufficient ?r = filter (\<lambda>n. quality_reasons (feature_of f n) \<noteq> []) ?ns"
    and incompatible: "rr_incompatible ?r = filter (\<lambda>n. special_reasons n f (feature_of f n) c \<noteq> []) ?ns"
    using ids by (simp_all add: collect_outcomes_def Let_def g fields o_def concat_reported)
  have states: "rr_states ?r = map (fo_state \<circ> g) ?ns" by (simp add: collect_outcomes_def Let_def)
  have named: "names_with P (rr_states ?r) = filter (\<lambda>n. P (fo_state (g n))) ?ns" for P
    unfolding states by (subst names_with_map) (simp_all add: g fields)
  have reasons: "rr_reasons ?r = unique_first (concat (map fr_reasons (rr_states ?r)))"
    by (simp add: collect_outcomes_def Let_def comp_assoc)
  have versions: "all_ok (version_checks k (rr_required_versions ?r)) = Inr ()" "all_ok (version_checks k (rr_resolved_versions ?r)) = Inr ()" for k
    unfolding collect_outcomes_def Let_def map_map
    by (simp_all only: readiness_result.simps o_def g)
      (intro version_checks_ok distinct_versions feature_names_distinct fields)+
  have names: "map fr_feature (rr_states ?r) = ?ns" by (simp add: states g fields o_def)
  have ready: "rr_is_ready ?r \<longleftrightarrow> rr_reasons ?r = []" by (simp add: collect_outcomes_def Let_def)
  have empty: "rr_reasons ?r = [] \<longleftrightarrow> (\<forall>n \<in> set ?ns. feature_reasons f c approvals (p n) n = [])"
    by (auto simp: reasons states g fields)
  have summaries: "rr_missing ?r = names_with (\<lambda>s. Missing_Required_Feature \<in> set (fr_reasons s)) (rr_states ?r)"
      "rr_uncalibrated ?r = names_with (\<lambda>s. Feature_Uncalibrated \<in> set (fr_reasons s)) (rr_states ?r)"
      "rr_insufficient ?r = names_with (\<lambda>s. Insufficient_Data_Quality \<in> set (fr_reasons s)) (rr_states ?r)"
      "rr_incompatible ?r = names_with (\<lambda>s. list_ex (\<lambda>c. c \<in> set compatibility_reasons) (fr_reasons s)) (rr_states ?r)"
    unfolding named missing uncalibrated insufficient incompatible
    by (simp_all add: g fields in_feature_reasons list_ex_compatibility)
  have blocking: "list_all (\<lambda>s. fr_reasons s = []) (rr_states ?r)"
      "list_all (\<lambda>c. c = []) [rr_missing ?r, rr_uncalibrated ?r, rr_insufficient ?r, rr_incompatible ?r]" if "rr_reasons ?r = []"
    using that unfolding empty missing uncalibrated insufficient incompatible
    by (auto simp: states g fields list_all_iff feature_reasons_def Let_def filter_empty_conv)
  have fixed: "rr_validator_version ?r = version" "rr_evaluated_at ?r = evaluated_at" "rr_fingerprint ?r = fingerprint"
    by (simp_all add: collect_outcomes_def Let_def)
  have required: "list_all fr_required (rr_states ?r)" by (simp add: states g fields list_all_iff)
  have unique: "require_unique_identifiers k (rr_missing ?r) = Inr ()" "require_unique_identifiers k (rr_uncalibrated ?r) = Inr ()"
      "require_unique_identifiers k (rr_insufficient ?r) = Inr ()" "require_unique_identifiers k (rr_incompatible ?r) = Inr ()" for k
    unfolding missing uncalibrated insufficient incompatible unique_identifiers_iff using ids by blast+
  have "distinct (rr_reasons ?r)" by (simp add: reasons)
  then show ?thesis
    unfolding readiness_result_post_init_def validated_Inr
    using assms(2-4) unique versions names required summaries reasons blocking ready feature_names_distinct
    by (cases "rr_is_ready ?r") (simp_all add: fixed)
qed

lemma readiness_characterised:
  assumes "normalized_features_post_init f = Inr f" "\<forall>p \<in> set policies. feature_policy_post_init p = Inr p"
    and "readiness_validator version = Inr version"
    and "all_ok (validate_guards policies approvals evaluated_at fingerprint) = Inr ()"
  shows "\<exists>r. validate version f policies c approvals evaluated_at fingerprint = Inr r
    \<and> readiness_result_post_init r = Inr r
    \<and> map fr_feature (rr_states r) = normalized_feature_names
    \<and> (rr_is_ready r \<longleftrightarrow> (\<forall>n \<in> set normalized_feature_names. feature_ready f c approvals (policy_for policies n) n))
    \<and> rr_missing r = filter (\<lambda>n. mv_availability (feature_of f n) \<noteq> Available) normalized_feature_names"
proof -
  let ?g = "\<lambda>n. feature_outcome_of f c approvals (policy_for policies n) n"
  let ?r = "collect_outcomes version evaluated_at fingerprint (map ?g normalized_feature_names)"
  note fields = feature_outcome_fields [of f c approvals]
  have covered: "set (map fp_feature policies) = set normalized_feature_names" and required: "list_all fp_required policies"
    using assms(4) by (simp_all add: validate_guards_def)
  have "evaluate_feature f c approvals (policy_for policies n) n = Inr (?g n)" if "n \<in> set normalized_feature_names" for n
    using that policy_for_covered [OF covered that] assms(1,2) required feature_names_identifiers
    by (intro evaluate_feature_ok) (auto simp: list_all_iff)
  then have loop: "rmap (\<lambda>n. evaluate_feature f c approvals (policy_for policies n) n) normalized_feature_names
      = Inr (map ?g normalized_feature_names)" by (rule rmap_total)
  have valid: "readiness_result_post_init ?r = Inr ?r"
    using assms(3,4) by (intro collected_result_valid) (simp_all add: readiness_validator_def validate_guards_def validated_Inr)
  have "rr_is_ready ?r \<longleftrightarrow> (\<forall>n \<in> set normalized_feature_names. feature_reasons f c approvals (policy_for policies n) n = [])"
    by (auto simp: collect_outcomes_def Let_def fields)
  moreover have "rr_missing ?r = filter (\<lambda>n. mv_availability (feature_of f n) \<noteq> Available) normalized_feature_names"
    using feature_names_distinct
    by (simp add: collect_outcomes_def Let_def fields o_def concat_reported metric_reasons_empty)
  moreover have "map fr_feature (rr_states ?r) = normalized_feature_names"
    by (simp add: collect_outcomes_def Let_def fields o_def)
  moreover have "validate version f policies c approvals evaluated_at fingerprint = Inr ?r"
    by (simp add: validate_def assms(4) loop valid)
  ultimately show ?thesis using valid by (simp add: feature_reasons_empty)
qed

text \<open>
  C32: the validator decides readiness: on valid features and policies that pass its guards it returns a
  result, which satisfies every integrity check of \<open>ScoringReadinessResult\<close>, has the eight features in their
  frozen order, and is ready exactly if every feature is available, of full or degraded quality, eligible,
  calibrated (or the age feature under the approved neutral fallback), resolved at the required policy version
  and compatible with its benchmark. A missing feature is reported as such.
\<close>

theorem readiness_decides:
  assumes "normalized_features_post_init f = Inr f" "\<forall>p \<in> set policies. feature_policy_post_init p = Inr p"
    and "readiness_validator version = Inr version"
    and "all_ok (validate_guards policies approvals evaluated_at fingerprint) = Inr ()"
  shows "\<exists>r. validate version f policies c approvals evaluated_at fingerprint = Inr r
    \<and> readiness_result_post_init r = Inr r
    \<and> map fr_feature (rr_states r) = normalized_feature_names
    \<and> (rr_is_ready r \<longleftrightarrow> (\<forall>n \<in> set normalized_feature_names. feature_ready f c approvals (policy_for policies n) n))
    \<and> rr_missing r = filter (\<lambda>n. mv_availability (feature_of f n) \<noteq> Available) normalized_feature_names"
  using assms by (rule readiness_characterised)

section \<open>An example\<close>

definition example_metric :: "int \<Rightarrow> metric_value" where
  "example_metric n = \<lparr>mv_value = Some (Py_Int n), mv_unit = ''score_0_100'', mv_availability = Available,
     mv_quality = Quality_Full, mv_eligibility = Score_Eligible, mv_calibration = Calibrated, mv_is_estimate = False,
     mv_is_proxy = False, mv_source_refs = [''census.acs5''], mv_method_version = Some ''1.0'', mv_reason_codes = []\<rparr>"

definition example_benchmark :: benchmark_reference where
  "example_benchmark = \<lparr>br_benchmark_id = ''bench'', br_artifact_ref = ''s3'', br_frame_id = ''frame'', br_frame_version = ''1'',
     br_population = Commercially_Evidenced_Spatial_Alternatives,
     br_geography = \<lparr>ge_type = Cbsa, ge_id = ''41860'', ge_name = ''SF'', ge_country_code = ''US'', ge_source_ref = ''census.acs5'',
       ge_source_version = None\<rparr>, br_source_refs = [''census.acs5'']\<rparr>"

definition example_features :: normalized_features where
  "example_features = \<lparr>nf_walkable_population = example_metric 80, nf_target_population_density = example_metric 70,
     nf_age_target_concentration = (example_metric 50)\<lparr>mv_calibration := Uncalibrated, mv_is_proxy := True,
       mv_reason_codes := [''age_affinity_not_calibrated'']\<rparr>,
     nf_competition_opportunity = example_metric 60, nf_walkable_reach_area = example_metric 75,
     nf_transit_access = example_metric 65, nf_road_parking_access = example_metric 55, nf_household_income = example_metric 90,
     nf_competition_benchmark = Some example_benchmark, nf_competition_definition_id = Some ''m1'',
     nf_competition_policy_version = Some ''1.0'', nf_transit_benchmark = Some example_benchmark, nf_transit_bundle = Some ''b1'',
     nf_transit_policy_version = None, nf_road_parking_policy_version = Some ''1.0'', nf_source_refs = [''census.acs5''],
     nf_contract_version = ''1.0'', nf_generated_at = Aware 0\<rparr>"

definition example_policies :: "feature_policy list" where
  "example_policies = map (\<lambda>n. \<lparr>fp_feature = n, fp_required = True, fp_required_version = None, fp_resolved_version = None,
     fp_fallback_id = (if n = age_feature_name then Some v1_age_fallback_policy_id else None),
     fp_fallback_version = (if n = age_feature_name then Some v1_age_fallback_policy_version else None)\<rparr>) normalized_feature_names"

definition example_compatibility :: compatibility_input where
  "example_compatibility = \<lparr>ci_competition_definition_id = Some ''m1'', ci_transit_bundle = Some ''b1''\<rparr>"

definition example_approvals :: "approved_fallback list" where
  "example_approvals = [\<lparr>af_feature = age_feature_name, af_policy_id = v1_age_fallback_policy_id,
     af_policy_version = v1_age_fallback_policy_version\<rparr>]"

lemma example_texts: "trimmed ''1.0''" "trimmed ''m1''" "trimmed ''b1''" "trimmed ''age_neutral_fallback''"
    "is_identifier ''census.acs5''"
  by code_simp+

lemma example_features_valid: "normalized_features_post_init example_features = Inr example_features"
  by (simp add: normalized_features_post_init_def validated_Inr example_features_def normalized_feature_names_def
      example_metric_def example_texts require_normalized_score_def require_bounded_number_def require_finite_number_def
      float_of_def int_to_float_def unique_identifiers_iff require_source_coverage_def feature_metrics_def
      benchmark_refs_def example_benchmark_def age_fallback_checks_def num_value_def
      del: is_identifier.simps)

lemma example_policies_valid: "\<forall>p \<in> set example_policies. feature_policy_post_init p = Inr p"
  using feature_names_identifiers
  by (simp add: example_policies_def feature_policy_post_init_def validated_Inr canonical_identifier_iff list_all_iff
      v1_age_fallback_policy_id_def v1_age_fallback_policy_version_def example_texts)

lemma example_guards: "all_ok (validate_guards example_policies example_approvals (Aware 1) ''fp'') = Inr ()"
  by code_simp

lemma example_validator: "readiness_validator ''1.0'' = Inr ''1.0''"
  by code_simp

lemma example_features_ready: "n \<in> set normalized_feature_names \<Longrightarrow>
    feature_ready example_features example_compatibility example_approvals (policy_for example_policies n) n"
proof -
  have "\<forall>n \<in> set normalized_feature_names.
      feature_ready example_features example_compatibility example_approvals (policy_for example_policies n) n"
    by code_simp
  then show "n \<in> set normalized_feature_names \<Longrightarrow>
      feature_ready example_features example_compatibility example_approvals (policy_for example_policies n) n" by blast
qed

lemma readiness_decides_witness:
  "\<exists>r. validate ''1.0'' example_features example_policies example_compatibility example_approvals (Aware 1) ''fp'' = Inr r \<and> rr_is_ready r"
  using readiness_decides [OF example_features_valid example_policies_valid example_validator example_guards, of example_compatibility]
    example_features_ready by auto

definition example_readiness :: readiness_result where
  "example_readiness = projr (validate ''1.0'' example_features example_policies example_compatibility example_approvals (Aware 1) ''fp'')"

lemma example_verdict:
  "validate ''1.0'' example_features example_policies example_compatibility example_approvals (Aware 1) ''fp'' = Inr example_readiness"
  "rr_is_ready example_readiness"
  using readiness_characterised [OF example_features_valid example_policies_valid example_validator example_guards, of example_compatibility]
    example_features_ready by (auto simp: example_readiness_def)

end
