(* ===== verification/DataPipeline.thy ===== *)
theory DataPipeline
  imports DataReadiness DataSnapshots
begin

text \<open>
  The terminal envelope of the data layer (\<open>schemas/pipeline.py\<close> of \<open>sitescore-data\<close>) with its validation.
\<close>

datatype pipeline_reason = Scoring_Not_Ready | Pipeline_Stage_Error

record pipeline_result =
  pi_status :: pipeline_status
  pi_sector :: sector_key
  pi_location :: "resolved_location option"
  pi_demographics :: "demographic_snapshot option"
  pi_catchment :: "pedestrian_catchment option"
  pi_isochrone :: "isochrone_snapshot option"
  pi_competition :: "competition_snapshot option"
  pi_transit :: "transit_snapshot option"
  pi_road :: "road_snapshot option"
  pi_parking :: "parking_snapshot option"
  pi_derived :: "derived_metrics option"
  pi_features :: "normalized_features option"
  pi_readiness :: "readiness_result option"
  pi_sources :: "source_metadata list"
  pi_version :: string
  pi_contracts :: data_contract_versions
  pi_generated_at :: py_datetime
  pi_reasons :: "pipeline_reason list"

definition derived_version_checks :: "pipeline_result \<Rightarrow> check list" where
  "derived_version_checks r = (case pi_derived r of None \<Rightarrow> [] | Some d \<Rightarrow> [
     req (dm_contract_version d = dv_feature_contract (pi_contracts r))
       ''derived_metrics feature_contract_version must match pipeline data_feature_contract_version''])"

definition feature_consistency_checks :: "pipeline_result \<Rightarrow> check list" where
  "feature_consistency_checks r = (case pi_features r of None \<Rightarrow> [] | Some f \<Rightarrow> [
     req (nf_contract_version f = dv_feature_contract (pi_contracts r))
       ''normalized_features feature_contract_version must match pipeline data_feature_contract_version'',
     req (case pi_derived r of None \<Rightarrow> True | Some d \<Rightarrow> nf_contract_version f = dm_contract_version d)
       ''normalized and derived feature_contract_version values must match'',
     req (case (pi_transit r, nf_transit_bundle f) of (Some s, Some b) \<Rightarrow> b = tr_bundle s | _ \<Rightarrow> True)
       ''normalized transit source bundle fingerprint must match TransitSnapshot source bundle fingerprint'',
     req (case (pi_competition r, nf_competition_definition_id f) of (Some s, Some i) \<Rightarrow> i = cs_definition_id s | _ \<Rightarrow> True)
       ''normalized competition measurement definition must match CompetitionSnapshot measurement definition''])"

definition validate_score_ready :: "pipeline_result \<Rightarrow> check list" where
  "validate_score_ready r = [
     req (pi_location r \<noteq> None) ''SCORE_READY requires resolved_location'',
     req (pi_readiness r \<noteq> None) ''SCORE_READY requires scoring_readiness'',
     req (case pi_readiness r of None \<Rightarrow> True | Some s \<Rightarrow> rr_is_ready s) ''SCORE_READY requires is_score_ready=True'',
     req (pi_features r \<noteq> None) ''SCORE_READY requires normalized_features'',
     req (pi_reasons r = []) ''SCORE_READY must not contain pipeline reason codes'']"

definition validate_not_score_ready :: "pipeline_result \<Rightarrow> check list" where
  "validate_not_score_ready r = [
     req (pi_readiness r \<noteq> None) ''NOT_SCORE_READY requires scoring_readiness'',
     req (case pi_readiness r of None \<Rightarrow> True | Some s \<Rightarrow> \<not> rr_is_ready s) ''NOT_SCORE_READY requires is_score_ready=False'',
     req (pi_reasons r = [Scoring_Not_Ready]) ''NOT_SCORE_READY reason_codes must equal (SCORING_NOT_READY,)'']"

definition validate_pipeline_error :: "pipeline_result \<Rightarrow> check list" where
  "validate_pipeline_error r = [
     req (pi_readiness r = None) ''PIPELINE_ERROR must not contain scoring_readiness'',
     req (pi_reasons r = [Pipeline_Stage_Error]) ''PIPELINE_ERROR reason_codes must equal (PIPELINE_STAGE_ERROR,)'']"

definition pipeline_result_post_init :: "pipeline_result \<Rightarrow> (py_error, pipeline_result) result" where
  "pipeline_result_post_init r = validated r ([
     req (pi_features r = None \<or> pi_derived r \<noteq> None) ''normalized_features requires derived_metrics in the canonical pipeline'',
     req (pi_readiness r = None \<or> pi_features r \<noteq> None) ''scoring_readiness requires normalized_features in the canonical pipeline'']
     @ derived_version_checks r
     @ feature_consistency_checks r
     @ [req (distinct (map sm_source_id (pi_sources r))) ''source_metadata source_id values must be unique'',
        req (map sm_source_id (pi_sources r) = sort (map sm_source_id (pi_sources r)))
          ''source_metadata must be deterministically ordered by source_id'',
        require_nonempty_text ''pipeline_version'' (pi_version r),
        require_aware_datetime ''generated_at'' (pi_generated_at r),
        req (distinct (pi_reasons r)) ''reason_codes must not contain duplicates'']
     @ (case pi_status r of Score_Ready \<Rightarrow> validate_score_ready r | Not_Score_Ready \<Rightarrow> validate_not_score_ready r
        | Pipeline_Error \<Rightarrow> validate_pipeline_error r))"

text \<open>What the three states mean for a validated envelope.\<close>

lemma score_readyD:
  assumes "pipeline_result_post_init r = Inr r'" "pi_status r = Score_Ready"
  obtains f d s where "pi_features r = Some f" "pi_derived r = Some d" "pi_readiness r = Some s" "rr_is_ready s"
  using assms by (auto simp: pipeline_result_post_init_def validated_Inr validate_score_ready_def)

lemma not_score_readyD:
  assumes "pipeline_result_post_init r = Inr r'" "pi_status r = Not_Score_Ready"
  obtains s where "pi_readiness r = Some s" "\<not> rr_is_ready s"
  using assms by (auto simp: pipeline_result_post_init_def validated_Inr validate_not_score_ready_def)

end
