(* ===== verification/PipelineIntegration.thy ===== *)
theory PipelineIntegration
  imports BenchNormalization DataPipeline
begin

text \<open>
  The integration of \<open>sitescore-pipeline\<close> (\<open>integration.py\<close>): normalisation results become the normalised feature
  surface with its policies (an assembly), the validator judges it, and the terminal result of the pipeline is built.
  An assembly and a readiness evaluation are values here: the registries that recognise the very object a factory
  returned, and the attestations that detect a later change of it, have no counterpart. Identities are hashes of JSON
  records as in \<open>MetricsMeasurements\<close>.
\<close>

section \<open>Identities of normalisation results\<close>

definition ratio_json :: "int \<times> int \<Rightarrow> json" where
  "ratio_json r = JArr [JInt (fst r), JInt (snd r)]"

definition known :: "('e, 'a) result \<Rightarrow> ('a \<Rightarrow> json) \<Rightarrow> json" where
  "known r f = (case r of Inl _ \<Rightarrow> JNull | Inr x \<Rightarrow> f x)"

definition numeric_sample_id :: "hashers \<Rightarrow> pynum list \<Rightarrow> string" where
  "numeric_sample_id H vs = hx_bench H (JObj [(''comparison_policy_id'', JStr (comparison_policy_id H)),
     (''canonical_values'', known (rmap canonical_ratio vs) (\<lambda>rs. JArr (map ratio_json (sorted_ratios rs)))),
     (''count'', JInt (int (length vs)))])"

definition benchmark_sample_id :: "hashers \<Rightarrow> measurement_set \<Rightarrow> string" where
  "benchmark_sample_id H s = hx_bench H (JObj [(''distribution_id'', JStr (distribution_id H s)),
     (''comparison_policy_id'', JStr (comparison_policy_id H)), (''numeric_sample_id'', JStr (numeric_sample_id H (observation_values H s))),
     (''observation_ids'', texts_json (sort (map (observation_id H) (numeric_included H s))))])"

definition ecdf_evaluation_id :: "hashers \<Rightarrow> pynum list \<Rightarrow> pynum \<Rightarrow> string" where
  "ecdf_evaluation_id H vs v = (
     let counted = (\<lambda>count. known (rmap canonical_ratio vs) (\<lambda>rs. known (canonical_ratio v) (\<lambda>q. JInt (int (count rs q))))) in
     hx_bench H (JObj [(''sample_id'', JStr (numeric_sample_id H vs)), (''policy_id'', JStr (ecdf_policy_id H)),
       (''comparison_policy_id'', JStr (comparison_policy_id H)), (''query'', known (canonical_ratio v) ratio_json),
       (''state'', JStr (if vs = [] then ''EMPTY_SAMPLE'' else ''AVAILABLE'')),
       (''reason_codes'', texts_json (if vs = [] then [''empty_numeric_sample''] else [])), (''n'', JInt (int (length vs))),
       (''below_count'', counted below_count), (''equal_count'', counted equal_count),
       (''percentile'', known (mid_ecdf vs v) (opt_json JFloat))]))"

definition benchmark_evaluation_id :: "hashers \<Rightarrow> normalization_result \<Rightarrow> string option" where
  "benchmark_evaluation_id H r = (case (fst (normalization_outcome H r), mv_value (mm_value (nr_site r))) of
     (Normalized, Some v) \<Rightarrow> Some (hx_bench H (JObj [(''benchmark_sample_id'', JStr (benchmark_sample_id H (nr_distribution r))),
       (''distribution_id'', JStr (distribution_id H (nr_distribution r))),
       (''numeric_evaluation_id'', JStr (ecdf_evaluation_id H (observation_values H (nr_distribution r)) v))]))
   | _ \<Rightarrow> None)"

definition compatibility_decision_id :: "hashers \<Rightarrow> normalization_result \<Rightarrow> string" where
  "compatibility_decision_id H r = hx_bench H (JObj [(''site_measurement_id'', JStr (measurement_id H (nr_site r))),
     (''benchmark_distribution_id'', JStr (distribution_id H (nr_distribution r))),
     (''site_compatibility_id'', JStr (compatibility_id H (nr_site r))),
     (''benchmark_compatibility_id'', opt_json (\<lambda>m. JStr (compatibility_id H m)) (distribution_compatibility H (nr_distribution r))),
     (''state'', JStr (if normalization_compatibility H r = [] then ''COMPATIBLE'' else ''INCOMPATIBLE'')),
     (''reason_codes'', texts_json (normalization_compatibility H r))])"

definition normalization_percentile :: "hashers \<Rightarrow> normalization_result \<Rightarrow> (py_error, pyfloat option) result" where
  "normalization_percentile H r = (case (fst (normalization_outcome H r), mv_value (mm_value (nr_site r))) of
     (Normalized, Some v) \<Rightarrow> mid_ecdf (observation_values H (nr_distribution r)) v | _ \<Rightarrow> Inr None)"

definition normalization_result_id :: "hashers \<Rightarrow> normalization_result \<Rightarrow> string" where
  "normalization_result_id H r = hx_bench H (JObj [(''site_measurement_id'', JStr (measurement_id H (nr_site r))),
     (''benchmark_distribution_id'', JStr (distribution_id H (nr_distribution r))),
     (''site_compatibility_id'', JStr (compatibility_id H (nr_site r))),
     (''benchmark_compatibility_id'', opt_json (\<lambda>m. JStr (compatibility_id H m)) (distribution_compatibility H (nr_distribution r))),
     (''compatibility_decision_id'', JStr (compatibility_decision_id H r)),
     (''normalization_policy_id'', JStr (normalization_policy_id H (nr_policy r))),
     (''ecdf_evaluation_id'', opt_json JStr (benchmark_evaluation_id H r)), (''normalized_feature_key'', JStr (np_feature_key (nr_policy r))),
     (''state'', JStr (normalization_state_text (fst (normalization_outcome H r)))),
     (''reason_codes'', texts_json (snd (normalization_outcome H r))),
     (''percentile'', known (normalization_percentile H r) (opt_json JFloat)), (''score'', known (normalization_score H r) (opt_json JFloat))])"

section \<open>Records of the feature surface\<close>

definition metric_record :: "metric_value \<Rightarrow> json" where
  "metric_record m = JObj [(''value'', opt_json num_json (mv_value m)), (''unit'', JStr (mv_unit m)),
     (''availability'', JStr (availability_text (mv_availability m))), (''data_quality'', JStr (quality_text (mv_quality m))),
     (''score_eligibility'', JStr (score_eligibility_text (mv_eligibility m))), (''calibration_state'', JStr (calibration_text (mv_calibration m))),
     (''is_estimate'', JBool (mv_is_estimate m)), (''is_proxy'', JBool (mv_is_proxy m)), (''source_refs'', texts_json (sort (mv_source_refs m))),
     (''method_version'', opt_json JStr (mv_method_version m)), (''reason_codes'', texts_json (mv_reason_codes m))]"

text \<open>Equality of two such records in Python: numbers by value, sources as sorted.\<close>

definition same_metric_record :: "metric_value \<Rightarrow> metric_value \<Rightarrow> bool" where
  "same_metric_record a b \<longleftrightarrow> same_metric (a\<lparr>mv_source_refs := sort (mv_source_refs a)\<rparr>) (b\<lparr>mv_source_refs := sort (mv_source_refs b)\<rparr>)"

definition feature_surface_record :: "normalized_features \<Rightarrow> json" where
  "feature_surface_record f = JObj [(''metrics'', JObj (map (\<lambda>n. (n, metric_record (feature_of f n))) normalized_feature_names)),
     (''competition_benchmark_id'', opt_json (\<lambda>b. JStr (br_benchmark_id b)) (nf_competition_benchmark f)),
     (''competition_measurement_definition_id'', opt_json JStr (nf_competition_definition_id f)),
     (''competition_normalization_policy_version'', opt_json JStr (nf_competition_policy_version f)),
     (''transit_benchmark_id'', opt_json (\<lambda>b. JStr (br_benchmark_id b)) (nf_transit_benchmark f)),
     (''transit_source_bundle_fingerprint'', opt_json JStr (nf_transit_bundle f)),
     (''transit_normalization_policy_version'', opt_json JStr (nf_transit_policy_version f)),
     (''road_parking_composite_policy_version'', opt_json JStr (nf_road_parking_policy_version f)),
     (''source_refs'', texts_json (sort (nf_source_refs f))), (''feature_contract_version'', JStr (nf_contract_version f))]"

section \<open>Benchmark bindings and metrics\<close>

record benchmark_binding =
  bb_result :: normalization_result
  bb_reference :: benchmark_reference

definition benchmark_binding_post_init :: "hashers \<Rightarrow> benchmark_binding \<Rightarrow> (py_error, benchmark_binding) result" where
  "benchmark_binding_post_init H b = validated b [
     req (br_benchmark_id (bb_reference b) = distribution_id H (nr_distribution (bb_result b)))
       ''BenchmarkReference.benchmark_id must bind the actual distribution_id'',
     req (br_frame_id (bb_reference b) = frame_id H (bs_frame (nr_distribution (bb_result b))))
       ''BenchmarkReference.frame_id must bind the actual benchmark frame'']"

abbreviation result_key :: "normalization_result \<Rightarrow> string" where
  "result_key r \<equiv> np_feature_key (nr_policy r)"

definition benchmark_binding_id :: "hashers \<Rightarrow> benchmark_binding \<Rightarrow> string" where
  "benchmark_binding_id H b = hx_pipeline H (JObj [(''normalization_result_id'', JStr (normalization_result_id H (bb_result b))),
     (''benchmark_id'', JStr (br_benchmark_id (bb_reference b))), (''artifact_ref'', JStr (br_artifact_ref (bb_reference b))),
     (''frame_id'', JStr (br_frame_id (bb_reference b))), (''frame_version'', JStr (br_frame_version (bb_reference b))),
     (''source_refs'', texts_json (sort (br_source_refs (bb_reference b))))])"

definition binding_sources :: "benchmark_binding option \<Rightarrow> string list" where
  "binding_sources b = (case b of None \<Rightarrow> [] | Some x \<Rightarrow> br_source_refs (bb_reference x))"

text \<open>The states other than \<open>AVAILABLE\<close>: availability, quality, eligibility and calibration of the missing score.\<close>

definition missing_score_states :: "normalization_state \<Rightarrow> metric_value
    \<Rightarrow> availability_state \<times> data_quality_state \<times> score_eligibility \<times> calibration_state" where
  "missing_score_states st m = (case st of
     Site_Not_Available \<Rightarrow>
       let a = (if mv_availability m = Available then Unknown_Availability else mv_availability m) in
       (a, if a = Unknown_Availability \<and> mv_quality m = Quality_Full then Quality_Degraded else mv_quality m,
        if mv_eligibility m = Score_Eligible then Score_Ineligible else mv_eligibility m, mv_calibration m)
   | Site_Not_Eligible \<Rightarrow> (Unknown_Availability, Quality_Degraded, mv_eligibility m, mv_calibration m)
   | Site_Not_Calibrated \<Rightarrow> (Unknown_Availability, Quality_Degraded, Score_Ineligible, Uncalibrated)
   | _ \<Rightarrow> (Unknown_Availability, Quality_Degraded, Score_Ineligible, Calibrated))"

definition direct_metric :: "hashers \<Rightarrow> normalization_result \<Rightarrow> benchmark_binding option \<Rightarrow> (py_error, metric_value) result" where
  "direct_metric H r b = (
     let m = mm_value (nr_site r); refs = canonical_union (mv_source_refs m @ binding_sources b);
         method = np_id (nr_policy r) @ ''/'' @ np_version (nr_policy r);
         st = fst (normalization_outcome H r)
     in if st = Normalized then
          rbind (normalization_score H r) (\<lambda>score. case score of
            None \<Rightarrow> Inl (RuntimeError ''AVAILABLE normalization result must carry derived score'')
          | Some x \<Rightarrow> metric_post_init \<lparr>mv_value = Some (Py_Float x), mv_unit = ''score_0_100'', mv_availability = Available,
              mv_quality = mv_quality m, mv_eligibility = Score_Eligible, mv_calibration = Calibrated,
              mv_is_estimate = mv_is_estimate m, mv_is_proxy = mv_is_proxy m, mv_source_refs = refs,
              mv_method_version = Some method, mv_reason_codes = []\<rparr>)
        else case missing_score_states st m of (a, q, e, c) \<Rightarrow>
          metric_post_init \<lparr>mv_value = None, mv_unit = ''score_0_100'', mv_availability = a, mv_quality = q, mv_eligibility = e,
            mv_calibration = c, mv_is_estimate = mv_is_estimate m, mv_is_proxy = mv_is_proxy m, mv_source_refs = refs,
            mv_method_version = Some method, mv_reason_codes = unique_first (snd (normalization_outcome H r))\<rparr>)"

definition age_metric :: "hashers \<Rightarrow> (py_error, metric_value) result" where
  "age_metric H = metric_post_init \<lparr>mv_value = Some (Py_Float (Fin 50)), mv_unit = ''score_0_100'', mv_availability = Available,
     mv_quality = Quality_Full, mv_eligibility = Score_Eligible, mv_calibration = Uncalibrated, mv_is_estimate = False, mv_is_proxy = True,
     mv_source_refs = [''age-fallback.'' @ age_fallback_policy_id H], mv_method_version = Some ''age_neutral_fallback/1.0'',
     mv_reason_codes = [''age_affinity_not_calibrated'']\<rparr>"

definition road_parking_metric :: "hashers \<Rightarrow> composite_result \<Rightarrow> (py_error, metric_value) result" where
  "road_parking_metric H r = (if composite_state_of r = Composite_Available then
       (case composite_score_of r of
          None \<Rightarrow> Inl (RuntimeError ''AVAILABLE road/parking result must have derived score'')
        | Some x \<Rightarrow> metric_post_init \<lparr>mv_value = Some (Py_Float x), mv_unit = ''score_0_100'', mv_availability = Available,
            mv_quality = Quality_Full, mv_eligibility = Score_Eligible, mv_calibration = Calibrated, mv_is_estimate = False,
            mv_is_proxy = False, mv_source_refs = [''comb005.'' @ composite_id H r],
            mv_method_version = Some (cp_id (cx_policy r) @ ''/'' @ cp_version (cx_policy r)), mv_reason_codes = []\<rparr>)
     else metric_post_init \<lparr>mv_value = None, mv_unit = ''score_0_100'', mv_availability = Unknown_Availability,
       mv_quality = Quality_Degraded, mv_eligibility = Score_Ineligible, mv_calibration = Uncalibrated, mv_is_estimate = False,
       mv_is_proxy = False, mv_source_refs = [], mv_method_version = None, mv_reason_codes = unique_first (composite_reasons_of r)\<rparr>)"

text \<open>\<open>dict(compatibility.source_bundle_compatibility)\<close>, empty for a benchmark without one.\<close>

definition source_bundle :: "hashers \<Rightarrow> normalization_result \<Rightarrow> bool \<Rightarrow> (string \<times> string) list" where
  "source_bundle H r benchmark = (if benchmark
     then (case distribution_compatibility H (nr_distribution r) of None \<Rightarrow> [] | Some m \<Rightarrow> mm_bundle m)
     else mm_bundle (nr_site r))"

section \<open>The assembly\<close>

record assembly =
  as_features :: normalized_features
  as_direct :: "normalization_result list"
  as_policies :: "feature_policy list"
  as_compatibility :: compatibility_input
  as_fallbacks :: "approved_fallback list"
  as_identities :: "(string \<times> string) list"
  as_id :: string

definition expected_direct_keys :: "string list" where
  "expected_direct_keys = [''walkable_population_score'', ''target_population_density_score'', ''competition_opportunity_score'',
     ''walkable_reach_area_score'', ''transit_access_score'', ''household_income_score'']"

definition compatibility_json :: "compatibility_input \<Rightarrow> json" where
  "compatibility_json c = JArr [opt_json JStr (ci_competition_definition_id c), opt_json JStr (ci_transit_bundle c)]"

definition fallbacks_json :: "approved_fallback list \<Rightarrow> json" where
  "fallbacks_json fs = JArr (map (\<lambda>a. texts_json [af_feature a, af_policy_id a, af_policy_version a]) fs)"

definition pairs_json :: "(string \<times> string) list \<Rightarrow> json" where
  "pairs_json ps = JArr (map (\<lambda>(k, v). texts_json [k, v]) ps)"

definition compute_assembly_id :: "hashers \<Rightarrow> normalized_features \<Rightarrow> normalization_result list \<Rightarrow> feature_policy list
    \<Rightarrow> compatibility_input \<Rightarrow> approved_fallback list \<Rightarrow> (string \<times> string) list \<Rightarrow> string" where
  "compute_assembly_id H f direct policies c fallbacks identities = hx_pipeline H (JObj [
     (''features'', feature_surface_record f),
     (''direct_result_ids'', pairs_json (map (\<lambda>r. (result_key r, normalization_result_id H r)) direct)),
     (''feature_policies'', JArr (map (\<lambda>p. JArr [JStr (fp_feature p), JBool (fp_required p), opt_json JStr (fp_required_version p),
        opt_json JStr (fp_resolved_version p), opt_json JStr (fp_fallback_id p), opt_json JStr (fp_fallback_version p)]) policies)),
     (''compatibility'', compatibility_json c), (''approved_fallback_policies'', fallbacks_json fallbacks),
     (''artifact_identities'', pairs_json identities)])"

definition assembly_policy :: "(string \<times> normalization_result) list \<Rightarrow> string option \<Rightarrow> string \<Rightarrow> (py_error, feature_policy) result" where
  "assembly_policy by_feature road_version name = feature_policy_post_init (case map_of by_feature name of
     Some r \<Rightarrow> \<lparr>fp_feature = name, fp_required = True, fp_required_version = Some (np_version (nr_policy r)),
       fp_resolved_version = Some (np_version (nr_policy r)), fp_fallback_id = None, fp_fallback_version = None\<rparr>
   | None \<Rightarrow> if name = age_feature_name
       then \<lparr>fp_feature = name, fp_required = True, fp_required_version = Some v1_age_fallback_policy_version,
         fp_resolved_version = Some v1_age_fallback_policy_version, fp_fallback_id = Some v1_age_fallback_policy_id,
         fp_fallback_version = Some v1_age_fallback_policy_version\<rparr>
       else \<lparr>fp_feature = name, fp_required = True, fp_required_version = None, fp_resolved_version = road_version,
         fp_fallback_id = None, fp_fallback_version = None\<rparr>)"

definition assembly_checks :: "hashers \<Rightarrow> normalization_result list \<Rightarrow> benchmark_binding list \<Rightarrow> py_datetime \<Rightarrow> check list" where
  "assembly_checks H direct bindings generated_at = [
     require_aware_datetime ''generated_at'' generated_at,
     req (distinct (map result_key direct)) ''direct_results must be unique by normalized feature'',
     req (set (map result_key direct) = set expected_direct_keys) ''direct_results must cover exactly the six locked direct V1 mappings'',
     req (distinct (map (\<lambda>b. result_key (bb_result b)) bindings)) ''benchmark_bindings must be unique by normalized feature'']
     @ concat (map (\<lambda>b. [
         req (result_key (bb_result b) \<in> set (map result_key direct)) ''benchmark binding must belong to one of the six direct results'',
         req (\<exists>r \<in> set direct. result_key r = result_key (bb_result b) \<and> normalization_result_id H r = normalization_result_id H (bb_result b))
           ''benchmark binding normalization result must be the actual assembled result'']) bindings)"

definition assembled_features :: "hashers \<Rightarrow> (string \<Rightarrow> normalization_result) \<Rightarrow> (string \<Rightarrow> metric_value) \<Rightarrow> (string \<Rightarrow> benchmark_binding option)
    \<Rightarrow> string option \<Rightarrow> py_datetime \<Rightarrow> normalized_features" where
  "assembled_features H result metric bound road_version generated_at = (
     let competition = result ''competition_opportunity_score''; transit = result ''transit_access_score'' in
     \<lparr>nf_walkable_population = metric ''walkable_population_score'', nf_target_population_density = metric ''target_population_density_score'',
      nf_age_target_concentration = metric ''age_target_concentration_score'', nf_competition_opportunity = metric ''competition_opportunity_score'',
      nf_walkable_reach_area = metric ''walkable_reach_area_score'', nf_transit_access = metric ''transit_access_score'',
      nf_road_parking_access = metric ''road_parking_access_score'', nf_household_income = metric ''household_income_score'',
      nf_competition_benchmark = map_option bb_reference (bound ''competition_opportunity_score''),
      nf_competition_definition_id = map_of (source_bundle H competition False) ''competition_measurement_definition_id'',
      nf_competition_policy_version = Some (np_version (nr_policy competition)),
      nf_transit_benchmark = map_option bb_reference (bound ''transit_access_score''),
      nf_transit_bundle = map_of (source_bundle H transit False) ''transit_source_bundle_fingerprint'',
      nf_transit_policy_version = Some (np_version (nr_policy transit)),
      nf_road_parking_policy_version = road_version,
      nf_source_refs = canonical_union (concat (map (\<lambda>n. mv_source_refs (metric n)) normalized_feature_names)
        @ binding_sources (bound ''competition_opportunity_score'') @ binding_sources (bound ''transit_access_score'')),
      nf_contract_version = ''1.0'', nf_generated_at = generated_at\<rparr>)"

text \<open>The age fallback has one value only; it is not an argument.\<close>

definition assemble_features :: "hashers \<Rightarrow> normalization_result list \<Rightarrow> composite_result \<Rightarrow> benchmark_binding list \<Rightarrow> py_datetime
    \<Rightarrow> (py_error, assembly) result" where
  "assemble_features H direct road bindings generated_at =
     rbind (all_ok (assembly_checks H direct bindings generated_at)) (\<lambda>_.
     let by_feature = map (\<lambda>r. (result_key r, r)) direct;
         bound = map_of (map (\<lambda>b. (result_key (bb_result b), b)) bindings);
         road_version = (if composite_state_of road = Composite_Available then Some (cp_version (cx_policy road)) else None)
     in rbind (rmap (\<lambda>r. rbind (direct_metric H r (bound (result_key r))) (\<lambda>m. Inr (result_key r, m))) direct) (\<lambda>metrics.
        rbind (age_metric H) (\<lambda>age.
        rbind (road_parking_metric H road) (\<lambda>road_metric.
        rbind (normalized_features_post_init (assembled_features H (\<lambda>n. the (map_of by_feature n))
            (\<lambda>n. the (map_of ((''age_target_concentration_score'', age) # (''road_parking_access_score'', road_metric) # metrics) n))
            bound road_version generated_at)) (\<lambda>f.
        rbind (rmap (assembly_policy by_feature road_version) normalized_feature_names) (\<lambda>policies.
        rbind (approved_fallback_post_init \<lparr>af_feature = age_feature_name, af_policy_id = v1_age_fallback_policy_id,
            af_policy_version = v1_age_fallback_policy_version\<rparr>) (\<lambda>fallback.
        rbind (compatibility_post_init
            \<lparr>ci_competition_definition_id = map_of (source_bundle H (the (map_of by_feature ''competition_opportunity_score'')) True)
               ''competition_measurement_definition_id'',
             ci_transit_bundle = map_of (source_bundle H (the (map_of by_feature ''transit_access_score'')) True)
               ''transit_source_bundle_fingerprint''\<rparr>) (\<lambda>c.
        let identities = sort_key fst (map (\<lambda>r. (result_key r, normalization_result_id H r)) direct
              @ [(''age_target_concentration_score'', age_fallback_policy_id H), (''road_parking_access_score'', composite_id H road)]
              @ map (\<lambda>b. (''benchmark_binding.'' @ result_key (bb_result b), benchmark_binding_id H b)) bindings);
            ordered = sort_key result_key direct
        in Inr \<lparr>as_features = f, as_direct = ordered, as_policies = policies, as_compatibility = c, as_fallbacks = [fallback],
             as_identities = identities, as_id = compute_assembly_id H f ordered policies c [fallback] identities\<rparr>))))))))"

section \<open>Readiness and the terminal result\<close>

definition readiness_validator_version :: string where
  "readiness_validator_version = ''sitescore-pipeline-readiness/1.0''"

definition readiness_fingerprint_of :: "hashers \<Rightarrow> assembly \<Rightarrow> string" where
  "readiness_fingerprint_of H a = hx_pipeline H (JObj [(''assembly_id'', JStr (as_id a)), (''validator_version'', JStr readiness_validator_version),
     (''features'', feature_surface_record (as_features a)),
     (''feature_policies'', JArr (map (\<lambda>p. JArr [JStr (fp_feature p), opt_json JStr (fp_required_version p),
        opt_json JStr (fp_resolved_version p), opt_json JStr (fp_fallback_id p), opt_json JStr (fp_fallback_version p)]) (as_policies a))),
     (''compatibility'', compatibility_json (as_compatibility a)), (''approved_fallback_policies'', fallbacks_json (as_fallbacks a)),
     (''artifact_identities'', pairs_json (as_identities a))])"

definition derive_scoring_readiness :: "hashers \<Rightarrow> assembly \<Rightarrow> py_datetime \<Rightarrow> (py_error, readiness_result) result" where
  "derive_scoring_readiness H a evaluated_at =
     rbind (require_aware_datetime ''evaluated_at'' evaluated_at) (\<lambda>_.
     rbind (readiness_validator readiness_validator_version) (\<lambda>version.
     validate version (as_features a) (as_policies a) (as_compatibility a) (as_fallbacks a) evaluated_at (readiness_fingerprint_of H a)))"

text \<open>\<open>getattr(derived_metrics, _DIRECT_METRIC_FIELDS[metric_key])\<close>.\<close>

definition derived_field :: "derived_metrics \<Rightarrow> string \<Rightarrow> metric_value option" where
  "derived_field d key = map_of [(''walkable_population'', dm_walkable_population d), (''target_population_density'', dm_target_population_density d),
     (''competition_pressure'', dm_competition_pressure d), (''walkable_reach_area_km2'', dm_walkable_reach_area d),
     (''transit_service_departure_equivalents_per_hour'', dm_transit_departures d), (''household_income'', dm_household_income d)] key"

definition coherence_check :: "derived_metrics \<Rightarrow> normalization_result \<Rightarrow> check" where
  "coherence_check d r = (case derived_field d (mm_key (nr_site r)) of
     None \<Rightarrow> Inl (ValueError ''unsupported direct normalization metric lineage'')
   | Some m \<Rightarrow> req (same_metric_record m (mm_value (nr_site r))) ''derived_metrics real-unit lineage mismatch'')"

text \<open>The snapshots that a terminal result carries.\<close>

record terminal_snapshots =
  te_demographics :: "demographic_snapshot option"
  te_catchment :: "pedestrian_catchment option"
  te_isochrone :: "isochrone_snapshot option"
  te_competition :: "competition_snapshot option"
  te_transit :: "transit_snapshot option"
  te_road :: "road_snapshot option"
  te_parking :: "parking_snapshot option"

definition build_pipeline_result :: "assembly \<Rightarrow> readiness_result \<Rightarrow> sector_key \<Rightarrow> resolved_location option \<Rightarrow> derived_metrics
    \<Rightarrow> source_metadata list \<Rightarrow> py_datetime \<Rightarrow> terminal_snapshots \<Rightarrow> (py_error, pipeline_result) result" where
  "build_pipeline_result a s sector location derived sources generated_at te =
     rbind (all_ok (require_aware_datetime ''generated_at'' generated_at # map (coherence_check derived) (as_direct a))) (\<lambda>_.
     let status = (if rr_is_ready s then Score_Ready else Not_Score_Ready) in
     if status = Score_Ready \<and> location = None then Inl (ValueError ''score-ready terminal result requires actual resolved_location'')
     else pipeline_result_post_init \<lparr>pi_status = status, pi_sector = sector, pi_location = location, pi_demographics = te_demographics te,
       pi_catchment = te_catchment te, pi_isochrone = te_isochrone te, pi_competition = te_competition te, pi_transit = te_transit te,
       pi_road = te_road te, pi_parking = te_parking te, pi_derived = Some derived, pi_features = Some (as_features a),
       pi_readiness = Some s, pi_sources = sort_key sm_source_id sources, pi_version = ''0.1.0'', pi_contracts = current_contract_versions,
       pi_generated_at = generated_at, pi_reasons = (if status = Score_Ready then [] else [Scoring_Not_Ready])\<rparr>)"

record stage_failure =
  sf_stage :: string
  sf_reason :: string

definition stage_failure_post_init :: "stage_failure \<Rightarrow> (py_error, stage_failure) result" where
  "stage_failure_post_init f = validated f [require_canonical_identifier ''stage_id'' (sf_stage f),
     require_canonical_identifier ''reason_code'' (sf_reason f)]"

definition build_pipeline_error_result :: "stage_failure \<Rightarrow> sector_key \<Rightarrow> source_metadata list \<Rightarrow> py_datetime \<Rightarrow> resolved_location option
    \<Rightarrow> terminal_snapshots \<Rightarrow> derived_metrics option \<Rightarrow> (py_error, pipeline_result) result" where
  "build_pipeline_error_result failure sector sources generated_at location te derived =
     rbind (require_aware_datetime ''generated_at'' generated_at) (\<lambda>_.
     pipeline_result_post_init \<lparr>pi_status = Pipeline_Error, pi_sector = sector, pi_location = location, pi_demographics = te_demographics te,
       pi_catchment = te_catchment te, pi_isochrone = te_isochrone te, pi_competition = te_competition te, pi_transit = te_transit te,
       pi_road = te_road te, pi_parking = te_parking te, pi_derived = derived, pi_features = None, pi_readiness = None,
       pi_sources = sort_key sm_source_id sources, pi_version = ''0.1.0'', pi_contracts = current_contract_versions,
       pi_generated_at = generated_at, pi_reasons = [Pipeline_Stage_Error]\<rparr>)"

end
