(* ===== verification/AppScoring.thy ===== *)
theory AppScoring
  imports CoreAnalyze DataPipeline
begin

text \<open>
  The application layer (\<open>sitescore-app\<close>): the gate in front of scoring, the aggregation of the normalised
  features into the four category scores, the adapter to the input of the core, and the use case that runs
  the core. The objects that the layer hands out carry the values they were built from; the registries that
  detect an object changed behind the back of its factory are not represented: values here do not change.
\<close>

section \<open>The gate\<close>

datatype gate_state = Gate_Eligible | Gate_Not_Score_Ready | Gate_Pipeline_Error | Gate_Inconsistent

datatype gate_reason = Gate_Pipeline_Not_Score_Ready | Gate_Reason_Pipeline_Error | Gate_Readiness_Missing
  | Gate_Readiness_False | Gate_Features_Missing

record scoring_eligibility =
  se_pipeline :: pipeline_result
  se_state :: gate_state
  se_reasons :: "gate_reason list"
  se_upstream :: "readiness_reason list"

datatype app_error = App_Error py_error | Scoring_Blocked scoring_eligibility

definition terminal_reasons :: "bool option \<Rightarrow> normalized_features option \<Rightarrow> gate_reason list" where
  "terminal_reasons ready f =
     (case ready of None \<Rightarrow> [Gate_Readiness_Missing] | Some b \<Rightarrow> if b then [] else [Gate_Readiness_False])
     @ (if f = None then [Gate_Features_Missing] else [])"

definition evaluate_scoring_gate :: "pipeline_result \<Rightarrow> scoring_eligibility" where
  "evaluate_scoring_gate t = (
     let upstream = (case pi_readiness t of None \<Rightarrow> [] | Some s \<Rightarrow> rr_reasons s);
         reasons = terminal_reasons (map_option rr_is_ready (pi_readiness t)) (pi_features t) in
     if pi_status t = Pipeline_Error then
       \<lparr>se_pipeline = t, se_state = Gate_Pipeline_Error, se_reasons = [Gate_Reason_Pipeline_Error], se_upstream = []\<rparr>
     else if pi_status t = Not_Score_Ready then
       \<lparr>se_pipeline = t, se_state = Gate_Not_Score_Ready, se_reasons = [Gate_Pipeline_Not_Score_Ready], se_upstream = upstream\<rparr>
     else if reasons \<noteq> [] then
       \<lparr>se_pipeline = t, se_state = Gate_Inconsistent, se_reasons = reasons, se_upstream = upstream\<rparr>
     else \<lparr>se_pipeline = t, se_state = Gate_Eligible, se_reasons = [], se_upstream = []\<rparr>)"

text \<open>The binding registered for a terminal result: the values that later checks use.\<close>

record pipeline_binding =
  pb_terminal :: pipeline_result
  pb_status :: pipeline_status
  pb_sector :: sector_key
  pb_features :: "normalized_features option"
  pb_ready :: "bool option"
  pb_reasons :: "readiness_reason list"
  pb_fingerprint :: "string option"

definition register_pipeline_binding :: "pipeline_result \<Rightarrow> pipeline_binding" where
  "register_pipeline_binding t = \<lparr>pb_terminal = t, pb_status = pi_status t, pb_sector = pi_sector t, pb_features = pi_features t,
     pb_ready = map_option rr_is_ready (pi_readiness t),
     pb_reasons = (case pi_readiness t of None \<Rightarrow> [] | Some s \<Rightarrow> rr_reasons s),
     pb_fingerprint = map_option rr_fingerprint (pi_readiness t)\<rparr>"

definition bound_gate :: "pipeline_binding \<Rightarrow> scoring_eligibility" where
  "bound_gate b = (
     let t = pb_terminal b; reasons = terminal_reasons (pb_ready b) (pb_features b) in
     if pb_status b = Pipeline_Error then
       \<lparr>se_pipeline = t, se_state = Gate_Pipeline_Error, se_reasons = [Gate_Reason_Pipeline_Error], se_upstream = []\<rparr>
     else if pb_status b = Not_Score_Ready then
       \<lparr>se_pipeline = t, se_state = Gate_Not_Score_Ready, se_reasons = [Gate_Pipeline_Not_Score_Ready], se_upstream = pb_reasons b\<rparr>
     else if reasons \<noteq> [] then
       \<lparr>se_pipeline = t, se_state = Gate_Inconsistent, se_reasons = reasons, se_upstream = pb_reasons b\<rparr>
     else \<lparr>se_pipeline = t, se_state = Gate_Eligible, se_reasons = [], se_upstream = []\<rparr>)"

record scoring_input =
  si_sector :: sector_key
  si_features :: normalized_features
  si_fingerprint :: string

definition build_scoring_input :: "pipeline_binding \<Rightarrow> (app_error, scoring_input) result" where
  "build_scoring_input b = (let e = bound_gate b in
     if se_state e \<noteq> Gate_Eligible then Inl (Scoring_Blocked e)
     else Inr \<lparr>si_sector = pb_sector b, si_features = the (pb_features b), si_fingerprint = the (pb_fingerprint b)\<rparr>)"

section \<open>Category aggregation\<close>

definition metric_score :: "normalized_features \<Rightarrow> string \<Rightarrow> (py_error, pyfloat) result" where
  "metric_score f name = (let m = feature_of f name in
     if mv_unit m \<noteq> ''score_0_100'' then Inl (ValueError (name @ '' must use MetricValue.unit=score_0_100''))
     else case mv_value m of
       None \<Rightarrow> Inl (ValueError (name @ '' must be numeric for category aggregation''))
     | Some v \<Rightarrow> rbind (require_bounded_number name (Fin 0) (Fin 100) v) (\<lambda>_. float_of v))"

definition resolve_frozen_sector :: "sector_key \<Rightarrow> (py_error, sector) result" where
  "resolve_frozen_sector k = (case find (\<lambda>s. sector_value s = sk_value k) [Coffee, Restaurant, Gym, Beauty] of
     None \<Rightarrow> Inl (ValueError ''unsupported canonical sector for category aggregation'') | Some s \<Rightarrow> Inr s)"

definition weight_of :: "(string \<times> pyfloat) list \<Rightarrow> string \<Rightarrow> pyfloat" where
  "weight_of ws name = the (map_of ws name)"

definition demand_score :: "sector \<Rightarrow> pyfloat \<Rightarrow> pyfloat \<Rightarrow> pyfloat \<Rightarrow> pyfloat" where
  "demand_score sec population density age = (let w = weight_of (demand_subfeature_weights sec) in
     fadd (fadd (fmul population (w ''walkable_population'')) (fmul density (w ''target_population_density'')))
       (fmul age (w ''age_target_concentration'')))"

definition accessibility_score :: "sector \<Rightarrow> pyfloat \<Rightarrow> pyfloat \<Rightarrow> pyfloat \<Rightarrow> pyfloat" where
  "accessibility_score sec reach transit road = (let w = weight_of (accessibility_subfeature_weights sec) in
     fadd (fadd (fmul reach (w ''walkable_reach_area'')) (fmul transit (w ''transit_access'')))
       (fmul road (w ''road_parking_access'')))"

record category_result =
  cr_sector :: sector
  cr_demand :: pyfloat
  cr_competition :: pyfloat
  cr_accessibility :: pyfloat
  cr_economics :: pyfloat

definition score_in_range :: "string \<Rightarrow> pyfloat \<Rightarrow> check" where
  "score_in_range name x = require_bounded_number name (Fin 0) (Fin 100) (Py_Float x)"

definition compute_categories :: "sector \<Rightarrow> normalized_features \<Rightarrow> (py_error, category_result) result" where
  "compute_categories sec f =
     rbind (metric_score f ''walkable_population_score'') (\<lambda>population.
     rbind (metric_score f ''target_population_density_score'') (\<lambda>density.
     rbind (metric_score f ''age_target_concentration_score'') (\<lambda>age.
     rbind (metric_score f ''competition_opportunity_score'') (\<lambda>comp.
     rbind (metric_score f ''walkable_reach_area_score'') (\<lambda>reach.
     rbind (metric_score f ''transit_access_score'') (\<lambda>transit.
     rbind (metric_score f ''road_parking_access_score'') (\<lambda>road.
     rbind (metric_score f ''household_income_score'') (\<lambda>income.
     let dem = demand_score sec population density age; acc = accessibility_score sec reach transit road in
     validated \<lparr>cr_sector = sec, cr_demand = dem, cr_competition = comp, cr_accessibility = acc, cr_economics = income\<rparr>
       [score_in_range ''demand'' dem, score_in_range ''competition'' comp, score_in_range ''accessibility'' acc,
        score_in_range ''economics'' income]))))))))"

definition aggregate_categories :: "scoring_input \<Rightarrow> (py_error, category_result) result" where
  "aggregate_categories s = rbind (resolve_frozen_sector (si_sector s)) (\<lambda>sec. compute_categories sec (si_features s))"

section \<open>The input of the core, and its execution\<close>

record owner_inputs =
  ow_revenue :: revenue_input
  ow_rent :: pyfloat
  ow_labor :: pyfloat
  ow_overhead :: pyfloat
  ow_level :: geographic_level
  ow_data_age :: "int option"
  ow_coverage :: "(string \<times> coverage_level) list"
  ow_qualities :: "(string \<times> input_quality) list"

definition build_core_analysis_input :: "category_result \<Rightarrow> owner_inputs \<Rightarrow> (py_error, analysis_input) result" where
  "build_core_analysis_input c w =
     rbind (category_scores_post_init (cr_demand c) (cr_competition c) (cr_accessibility c) (cr_economics c)) (\<lambda>scores.
     analysis_post_init \<lparr>in_sector = cr_sector c, in_category_scores = scores, in_revenue = ow_revenue w,
       monthly_rent = ow_rent w, fixed_labor = ow_labor w, fixed_overhead = ow_overhead w,
       in_geographic_level = ow_level w, data_age_years = ow_data_age w, in_data_coverage = ow_coverage w,
       in_input_qualities = ow_qualities w\<rparr>)"

definition lift_app :: "(py_error, 'a) result \<Rightarrow> (app_error, 'a) result" where
  "lift_app r = (case r of Inl e \<Rightarrow> Inl (App_Error e) | Inr x \<Rightarrow> Inr x)"

text \<open>From the terminal result of the pipeline to the result of the core, in the order of the use case.\<close>

definition analyze_application :: "(json \<Rightarrow> string) \<Rightarrow> (string \<Rightarrow> string) \<Rightarrow> pipeline_result \<Rightarrow> owner_inputs
    \<Rightarrow> (app_error, canonical_result) result" where
  "analyze_application dumps sha t w =
     rbind (build_scoring_input (register_pipeline_binding t)) (\<lambda>s.
     rbind (lift_app (aggregate_categories s)) (\<lambda>c.
     rbind (lift_app (build_core_analysis_input c w)) (\<lambda>d. lift_app (analyze dumps sha d))))"
section \<open>The weighted sums stay in range\<close>

lemma rnd64_weight_70: "rnd64 (78812993478983675 / 1125899906842624) = 70"
  by (subst rnd64_known [of "78812993478983675 / 1125899906842624" "-46" "4925812092436480"]) (simp_all add: pow2_def)

text \<open>A sum of three products as the code rounds it. At the upper corner it is exactly 100.\<close>

definition weighted3 :: "rat \<Rightarrow> rat \<Rightarrow> rat \<Rightarrow> rat \<Rightarrow> rat \<Rightarrow> rat \<Rightarrow> rat" where
  "weighted3 u v w a b c = rnd64 (rnd64 (rnd64 (a * u) + rnd64 (b * v)) + rnd64 (c * w))"

definition weights3 :: "rat \<Rightarrow> rat \<Rightarrow> rat \<Rightarrow> bool" where
  "weights3 u v w \<longleftrightarrow> 0 \<le> u \<and> 0 \<le> v \<and> 0 \<le> w \<and> weighted3 u v w 100 100 100 = 100
     \<and> rnd64 (100 * u) \<le> 100 \<and> rnd64 (100 * v) \<le> 100 \<and> rnd64 (100 * w) \<le> 100
     \<and> 100 * u \<le> 100 \<and> 100 * v \<le> 100 \<and> 100 * w \<le> 100"

lemma weighted3_mono:
  assumes "weights3 u v w" "a \<le> a'" "b \<le> b'" "c \<le> c'"
  shows "weighted3 u v w a b c \<le> weighted3 u v w a' b' c'"
  using assms unfolding weighted3_def weights3_def
  by (intro b64.add_mono_round b64.mono mult_right_mono add_mono) auto

lemma weighted3_range:
  assumes "weights3 u v w" "0 \<le> a" "a \<le> 100" "0 \<le> b" "b \<le> 100" "0 \<le> c" "c \<le> 100"
  shows "0 \<le> weighted3 u v w a b c" "weighted3 u v w a b c \<le> 100"
proof -
  show "0 \<le> weighted3 u v w a b c" using weighted3_mono [OF assms(1,2,4,6)] by (simp add: weighted3_def)
  show "weighted3 u v w a b c \<le> 100" using weighted3_mono [OF assms(1,3,5,7)] assms(1) by (simp add: weights3_def)
qed

lemma weighted3_float:
  assumes ws: "weights3 u v w" and a: "0 \<le> a" "a \<le> 100" and b: "0 \<le> b" "b \<le> 100" and c: "0 \<le> c" "c \<le> 100"
  shows "fadd (fadd (fmul (Fin a) (Fin u)) (fmul (Fin b) (Fin v))) (fmul (Fin c) (Fin w)) = Fin (weighted3 u v w a b c)"
proof -
  have product: "0 \<le> x * y \<and> x * y \<le> 100 \<and> 0 \<le> rnd64 (x * y) \<and> rnd64 (x * y) \<le> 100"
    if "0 \<le> x" "x \<le> 100" "0 \<le> y" "100 * y \<le> 100" for x y :: rat
  proof -
    have "x * y \<le> 100 * y" using that by (intro mult_right_mono)
    with that have le: "x * y \<le> 100" by linarith
    then show ?thesis using that b64.nonneg [of "x * y"] b64.le_repr [OF le b64.hundred] by simp
  qed
  note p = product [OF a, of u] product [OF b, of v] product [OF c, of w]
  have two: "0 \<le> rnd64 (a * u) + rnd64 (b * v)" "rnd64 (a * u) + rnd64 (b * v) \<le> 200"
    using p ws by (auto simp: weights3_def)
  then have sum: "0 \<le> rnd64 (rnd64 (a * u) + rnd64 (b * v))" "rnd64 (rnd64 (a * u) + rnd64 (b * v)) \<le> 200"
    using b64.nonneg [OF two(1)] b64.le_repr [OF two(2)] by simp_all
  show ?thesis using p two sum ws by (simp add: weighted3_def weights3_def)
qed

lemma weights3_rows: "weights3 (rnd64 (7 / 10)) (rnd64 (1 / 5)) (rnd64 (1 / 10))" "weights3 (rnd64 (1 / 2)) (rnd64 (3 / 10)) (rnd64 (1 / 5))"
  "weights3 (rnd64 (3 / 10)) (rnd64 (2 / 5)) (rnd64 (3 / 10))" "weights3 (rnd64 (1 / 5)) (rnd64 (2 / 5)) (rnd64 (2 / 5))"
  "weights3 (rnd64 (2 / 5)) (rnd64 (3 / 10)) (rnd64 (3 / 10))" "weights3 (rnd64 (1 / 10)) (rnd64 (1 / 5)) (rnd64 (7 / 10))"
  by (simp_all add: weights3_def weighted3_def rnd64_literals rnd64_weight_70)

lemma demand_weights3:
  obtains u v w where "weights3 u v w"
    and "\<And>a b c. demand_score sec a b c = fadd (fadd (fmul a (Fin u)) (fmul b (Fin v))) (fmul c (Fin w))"
proof (cases sec)
  case Coffee then show thesis by (intro that [OF weights3_rows(1)]) (simp add: demand_score_def weight_of_def Let_def)
next
  case Restaurant then show thesis by (intro that [OF weights3_rows(2)]) (simp add: demand_score_def weight_of_def Let_def)
next
  case Gym then show thesis by (intro that [OF weights3_rows(3)]) (simp add: demand_score_def weight_of_def Let_def)
next
  case Beauty then show thesis by (intro that [OF weights3_rows(4)]) (simp add: demand_score_def weight_of_def Let_def)
qed

lemma accessibility_weights3:
  obtains u v w where "weights3 u v w"
    and "\<And>a b c. accessibility_score sec a b c = fadd (fadd (fmul a (Fin u)) (fmul b (Fin v))) (fmul c (Fin w))"
proof (cases sec)
  case Coffee then show thesis by (intro that [OF weights3_rows(2)]) (simp add: accessibility_score_def weight_of_def Let_def)
next
  case Restaurant then show thesis by (intro that [OF weights3_rows(5)]) (simp add: accessibility_score_def weight_of_def Let_def)
next
  case Gym then show thesis by (intro that [OF weights3_rows(6)]) (simp add: accessibility_score_def weight_of_def Let_def)
next
  case Beauty then show thesis by (intro that [OF weights3_rows(6)]) (simp add: accessibility_score_def weight_of_def Let_def)
qed

section \<open>Ready features are scored\<close>

definition feature_value :: "normalized_features \<Rightarrow> string \<Rightarrow> rat" where
  "feature_value f name = (case mv_value (feature_of f name) of None \<Rightarrow> 0 | Some v \<Rightarrow> num_key v)"

text \<open>Features as the data layer constructs them, each with a number.\<close>

definition numeric_features :: "normalized_features \<Rightarrow> bool" where
  "numeric_features f = (normalized_features_post_init f = Inr f
     \<and> (\<forall>n \<in> set normalized_feature_names. mv_value (feature_of f n) \<noteq> None))"

lemma float_of_bounded: "num_value v = Fin q \<Longrightarrow> 0 \<le> q \<Longrightarrow> q \<le> 100 \<Longrightarrow> float_of v = Inr (Fin q)"
proof (cases v)
  case (Py_Int n)
  moreover assume "num_value v = Fin q" "0 \<le> q" "q \<le> 100"
  ultimately have q: "q = of_int n" and n: "0 \<le> n" "n \<le> 100" by (auto simp: num_value_def)
  then have "rnd64 (of_int n) = of_int n" by (intro rnd64_int) simp
  then show ?thesis using n by (simp add: Py_Int q float_of_def int_to_float_def)
qed (simp add: num_value_def float_of_def)

lemma metric_score_numeric:
  assumes "numeric_features f" "name \<in> set normalized_feature_names"
  shows "metric_score f name = Inr (Fin (feature_value f name))" "0 \<le> feature_value f name" "feature_value f name \<le> 100"
proof -
  have check: "require_normalized_score name (feature_of f name) = Inr ()"
    using assms normalized_scoreD by (auto simp: numeric_features_def)
  obtain v where v: "mv_value (feature_of f name) = Some v" using assms by (auto simp: numeric_features_def)
  then have bounded: "require_bounded_number name (Fin 0) (Fin 100) v = Inr ()"
    using check by (simp add: require_normalized_score_def)
  then obtain q where q: "num_value v = Fin q" "0 \<le> q" "q \<le> 100" by (rule bounded_numberD)
  then have "feature_value f name = q" by (simp add: feature_value_def v num_key_def)
  with q show "metric_score f name = Inr (Fin (feature_value f name))" "0 \<le> feature_value f name" "feature_value f name \<le> 100"
    using check bounded float_of_bounded [OF q] by (simp_all add: metric_score_def v require_normalized_score_def)
qed

lemma score_in_range_Fin: "0 \<le> q \<Longrightarrow> q \<le> 100 \<Longrightarrow> score_in_range name (Fin q) = Inr ()"
  by (simp add: score_in_range_def require_bounded_number_def require_finite_number_def float_of_def num_value_def)

lemma feature_names: "''walkable_population_score'' \<in> set normalized_feature_names" "''target_population_density_score'' \<in> set normalized_feature_names"
  "''age_target_concentration_score'' \<in> set normalized_feature_names" "''competition_opportunity_score'' \<in> set normalized_feature_names"
  "''walkable_reach_area_score'' \<in> set normalized_feature_names" "''transit_access_score'' \<in> set normalized_feature_names"
  "''road_parking_access_score'' \<in> set normalized_feature_names" "''household_income_score'' \<in> set normalized_feature_names"
  by (simp_all add: normalized_feature_names_def)

lemma compute_categories_numeric:
  assumes demand: "weights3 u v w" "\<And>a b c. demand_score sec a b c = fadd (fadd (fmul a (Fin u)) (fmul b (Fin v))) (fmul c (Fin w))"
    and access: "weights3 u' v' w'" "\<And>a b c. accessibility_score sec a b c = fadd (fadd (fmul a (Fin u')) (fmul b (Fin v'))) (fmul c (Fin w'))"
    and f: "numeric_features f"
  shows "compute_categories sec f = Inr \<lparr>cr_sector = sec,
      cr_demand = Fin (weighted3 u v w (feature_value f ''walkable_population_score'') (feature_value f ''target_population_density_score'')
        (feature_value f ''age_target_concentration_score'')),
      cr_competition = Fin (feature_value f ''competition_opportunity_score''),
      cr_accessibility = Fin (weighted3 u' v' w' (feature_value f ''walkable_reach_area_score'') (feature_value f ''transit_access_score'')
        (feature_value f ''road_parking_access_score'')),
      cr_economics = Fin (feature_value f ''household_income_score'')\<rparr>"
proof -
  note scores = metric_score_numeric [OF f feature_names(1)] metric_score_numeric [OF f feature_names(2)]
    metric_score_numeric [OF f feature_names(3)] metric_score_numeric [OF f feature_names(4)] metric_score_numeric [OF f feature_names(5)]
    metric_score_numeric [OF f feature_names(6)] metric_score_numeric [OF f feature_names(7)] metric_score_numeric [OF f feature_names(8)]
  have dem: "demand_score sec (Fin (feature_value f ''walkable_population_score'')) (Fin (feature_value f ''target_population_density_score''))
      (Fin (feature_value f ''age_target_concentration_score'')) = Fin (weighted3 u v w (feature_value f ''walkable_population_score'')
      (feature_value f ''target_population_density_score'') (feature_value f ''age_target_concentration_score''))"
    unfolding demand(2) by (intro weighted3_float [OF demand(1)] scores)
  have acc: "accessibility_score sec (Fin (feature_value f ''walkable_reach_area_score'')) (Fin (feature_value f ''transit_access_score''))
      (Fin (feature_value f ''road_parking_access_score'')) = Fin (weighted3 u' v' w' (feature_value f ''walkable_reach_area_score'')
      (feature_value f ''transit_access_score'') (feature_value f ''road_parking_access_score''))"
    unfolding access(2) by (intro weighted3_float [OF access(1)] scores)
  show ?thesis
    unfolding compute_categories_def scores rbind.simps dem acc Let_def validated_Inr
    by (simp add: score_in_range_Fin scores weighted3_range [OF demand(1)] weighted3_range [OF access(1)])
qed

lemma categories_in_range:
  assumes "numeric_features f"
  obtains c s where "compute_categories sec f = Inr c" "cr_sector c = sec"
    and "category_scores_post_init (cr_demand c) (cr_competition c) (cr_accessibility c) (cr_economics c) = Inr s" "scores_ok s"
proof -
  obtain u v w where d: "weights3 u v w" "\<And>a b c. demand_score sec a b c = fadd (fadd (fmul a (Fin u)) (fmul b (Fin v))) (fmul c (Fin w))"
    by (rule demand_weights3 [of sec]) blast
  obtain u' v' w' where a: "weights3 u' v' w'"
      "\<And>a b c. accessibility_score sec a b c = fadd (fadd (fmul a (Fin u')) (fmul b (Fin v'))) (fmul c (Fin w'))"
    by (rule accessibility_weights3 [of sec]) blast
  note c = compute_categories_numeric [OF d a assms]
  have "bounded (Fin q) = Inr (Fin q)" if "0 \<le> q" "q \<le> 100" for q using that by (simp add: bounded_Inr_iff)
  then have "\<exists>s. category_scores_post_init (Fin p) (Fin q) (Fin r) (Fin t) = Inr s"
    if "0 \<le> p" "p \<le> 100" "0 \<le> q" "q \<le> 100" "0 \<le> r" "r \<le> 100" "0 \<le> t" "t \<le> 100" for p q r t
    using that by (simp add: category_scores_post_init_def)
  from this [OF weighted3_range [OF d(1)] _ _ weighted3_range [OF a(1)]] obtain s where
    "category_scores_post_init (cr_demand (projr (compute_categories sec f))) (cr_competition (projr (compute_categories sec f)))
      (cr_accessibility (projr (compute_categories sec f))) (cr_economics (projr (compute_categories sec f))) = Inr s"
    unfolding c using metric_score_numeric [OF assms feature_names(1)] metric_score_numeric [OF assms feature_names(2)]
      metric_score_numeric [OF assms feature_names(3)] metric_score_numeric [OF assms feature_names(4)]
      metric_score_numeric [OF assms feature_names(5)] metric_score_numeric [OF assms feature_names(6)]
      metric_score_numeric [OF assms feature_names(7)] metric_score_numeric [OF assms feature_names(8)] by fastforce
  with c show thesis by (intro that [of _ s]) (auto simp: category_scores_post_init_iff)
qed

text \<open>What the constructors of the core require of the owner's figures.\<close>

definition owner_inputs_ok :: "sector \<Rightarrow> owner_inputs \<Rightarrow> bool" where
  "owner_inputs_ok sec w = (sector_input_type sec (ow_revenue w) \<and> revenue_accepted (ow_revenue w)
     \<and> \<not> flt (ow_rent w) (Fin 0) \<and> \<not> flt (ow_labor w) (Fin 0) \<and> \<not> flt (ow_overhead w) (Fin 0)
     \<and> (\<forall>a. ow_data_age w = Some a \<longrightarrow> 0 \<le> a)
     \<and> set (map fst (ow_coverage w)) \<subseteq> set required_categories \<and> set (map fst (ow_qualities w)) \<subseteq> set required_inputs)"

lemma core_input_ok:
  assumes "owner_inputs_ok sec w \<and> revenue_magnitudes (ow_revenue w)" "cr_sector c = sec"
    and "category_scores_post_init (cr_demand c) (cr_competition c) (cr_accessibility c) (cr_economics c) = Inr s" "scores_ok s"
  obtains d where "build_core_analysis_input c w = Inr d" "analysis_validated d" "in_sector d = sec" "in_category_scores d = s"
proof -
  let ?d = "\<lparr>in_sector = sec, in_category_scores = s, in_revenue = ow_revenue w,
       monthly_rent = ow_rent w, fixed_labor = ow_labor w, fixed_overhead = ow_overhead w,
       in_geographic_level = ow_level w, data_age_years = ow_data_age w, in_data_coverage = ow_coverage w,
       in_input_qualities = ow_qualities w\<rparr>"
  have "analysis_post_init ?d = Inr ?d"
    using assms(1) by (auto simp: analysis_post_init_def owner_inputs_ok_def list_all_iff split: option.splits)
  then show thesis
    using assms by (intro that [of ?d]) (simp_all add: build_core_analysis_input_def analysis_validated_def analysis_accepted_def owner_inputs_ok_def)
qed

lemma sector_resolved: "sk_value k = sector_value sec \<Longrightarrow> resolve_frozen_sector k = Inr sec"
  by (cases sec) (simp_all add: resolve_frozen_sector_def)

lemma metric_numeric: "metric_post_init m = Inr m' \<Longrightarrow> mv_availability m = Available \<Longrightarrow> mv_value m \<noteq> None"
  by (auto simp: metric_post_init_def validated_Inr split: option.splits)

lemma feature_metric: "n \<in> set normalized_feature_names \<Longrightarrow> feature_of f n \<in> set (feature_metrics f)"
  by (auto simp: normalized_feature_names_def feature_metrics_def)

text \<open>
  C31: what the data layer calls ready is scored: for a validated terminal result in state \<open>SCORE_READY\<close> whose
  readiness is the validator's verdict on its features, with features and metrics as their constructors accept
  them, one of the four sectors and owner inputs that the core accepts and whose revenue quantities are at most
  2^100 (and the service duration of a beauty salon at least 2^-100 hours), the use case returns a canonical
  result. No feature is missing, no weighted sum leaves the range of a score, and no engine raises.
\<close>

theorem score_ready_is_analysed:
  assumes "pipeline_result_post_init t = Inr t" "pi_status t = Score_Ready"
    and "pi_features t = Some f" "pi_readiness t = Some s"
    and "validate version f policies c approvals evaluated_at fingerprint = Inr s"
    and "normalized_features_post_init f = Inr f" "\<forall>m \<in> set (feature_metrics f). metric_post_init m = Inr m"
    and "sk_value (pi_sector t) = sector_value sec" "owner_inputs_ok sec w" "revenue_magnitudes (ow_revenue w)"
  shows "\<exists>r. analyze_application dumps sha t w = Inr r"
proof -
  have ready: "rr_is_ready s" by (rule score_readyD [OF assms(1,2)]) (use assms(4) in simp)
  have "mv_value (feature_of f n) \<noteq> None" if "n \<in> set normalized_feature_names" for n
    using ready_features_available [OF assms(5) ready that] assms(7) feature_metric [OF that] metric_numeric by blast
  then have "numeric_features f" using assms(6) by (simp add: numeric_features_def)
  then obtain cat scores where cat: "compute_categories sec f = Inr cat" "cr_sector cat = sec"
    "category_scores_post_init (cr_demand cat) (cr_competition cat) (cr_accessibility cat) (cr_economics cat) = Inr scores"
    "scores_ok scores" by (rule categories_in_range)
  obtain d where d: "build_core_analysis_input cat w = Inr d" "analysis_validated d"
    by (rule core_input_ok [OF conjI [OF assms(9,10)] cat(2-4)])
  have "build_scoring_input (register_pipeline_binding t)
      = Inr \<lparr>si_sector = pi_sector t, si_features = f, si_fingerprint = rr_fingerprint s\<rparr>"
    by (simp add: build_scoring_input_def bound_gate_def register_pipeline_binding_def terminal_reasons_def Let_def assms(2-4) ready)
  then show ?thesis
    using analyze_returns [OF d(2), of dumps sha] cat(1) d(1)
    by (auto simp: analyze_application_def aggregate_categories_def sector_resolved [OF assms(8)] lift_app_def)
qed

text \<open>
  The gate lets exactly the score-ready results through: for a validated terminal result the gate of
  the factory and the descriptive gate agree and never report an inconsistent state, a scoring input is built
  exactly in state \<open>SCORE_READY\<close>, from the features and the fingerprint of that result, and otherwise the
  call is blocked with the state and, when the data was not ready, the validator's reasons.
\<close>

theorem gate_decides:
  assumes "pipeline_result_post_init t = Inr t"
  shows "bound_gate (register_pipeline_binding t) = evaluate_scoring_gate t
    \<and> se_state (evaluate_scoring_gate t) \<noteq> Gate_Inconsistent
    \<and> (pi_status t = Score_Ready \<longrightarrow> (\<exists>f s. pi_features t = Some f \<and> pi_readiness t = Some s \<and> rr_is_ready s
        \<and> build_scoring_input (register_pipeline_binding t)
          = Inr \<lparr>si_sector = pi_sector t, si_features = f, si_fingerprint = rr_fingerprint s\<rparr>))
    \<and> (pi_status t = Not_Score_Ready \<longrightarrow> (\<exists>s. pi_readiness t = Some s \<and> build_scoring_input (register_pipeline_binding t)
          = Inl (Scoring_Blocked \<lparr>se_pipeline = t, se_state = Gate_Not_Score_Ready,
              se_reasons = [Gate_Pipeline_Not_Score_Ready], se_upstream = rr_reasons s\<rparr>)))
    \<and> (pi_status t = Pipeline_Error \<longrightarrow> build_scoring_input (register_pipeline_binding t)
          = Inl (Scoring_Blocked \<lparr>se_pipeline = t, se_state = Gate_Pipeline_Error,
              se_reasons = [Gate_Reason_Pipeline_Error], se_upstream = []\<rparr>))"
proof (cases "pi_status t")
  case Score_Ready
  obtain f s where "pi_features t = Some f" "pi_readiness t = Some s" "rr_is_ready s"
    by (rule score_readyD [OF assms Score_Ready]) blast
  then show ?thesis using Score_Ready
    by (simp add: build_scoring_input_def bound_gate_def evaluate_scoring_gate_def register_pipeline_binding_def terminal_reasons_def Let_def)
next
  case Not_Score_Ready
  obtain s where "pi_readiness t = Some s" by (rule not_score_readyD [OF assms Not_Score_Ready]) blast
  then show ?thesis using Not_Score_Ready
    by (simp add: build_scoring_input_def bound_gate_def evaluate_scoring_gate_def register_pipeline_binding_def Let_def)
next
  case Pipeline_Error
  then show ?thesis
    by (simp add: build_scoring_input_def bound_gate_def evaluate_scoring_gate_def register_pipeline_binding_def Let_def)
qed

text \<open>
  C33: better evidence never lowers the score: if every normalised feature of one location is at least that of
  another, all four categories and the final location score are too, through weighting, rounding, dealbreaker
  penalties and the final rounding to six decimals.
\<close>

theorem better_features_score_higher:
  assumes "numeric_features f" "numeric_features g"
    and "\<And>n. n \<in> set normalized_feature_names \<Longrightarrow> feature_value f n \<le> feature_value g n"
  shows "\<exists>c d s s' r r'. compute_categories sec f = Inr c \<and> compute_categories sec g = Inr d
    \<and> category_scores_post_init (cr_demand c) (cr_competition c) (cr_accessibility c) (cr_economics c) = Inr s
    \<and> category_scores_post_init (cr_demand d) (cr_competition d) (cr_accessibility d) (cr_economics d) = Inr s'
    \<and> calculate_location_score sec s = Inr r \<and> calculate_location_score sec s' = Inr r'
    \<and> (\<forall>k. fle (score_of s k) (score_of s' k)) \<and> fle (final_score r) (final_score r')"
proof -
  obtain u v w where dw: "weights3 u v w" "\<And>a b c. demand_score sec a b c = fadd (fadd (fmul a (Fin u)) (fmul b (Fin v))) (fmul c (Fin w))"
    by (rule demand_weights3 [of sec]) blast
  obtain u' v' w' where aw: "weights3 u' v' w'"
      "\<And>a b c. accessibility_score sec a b c = fadd (fadd (fmul a (Fin u')) (fmul b (Fin v'))) (fmul c (Fin w'))"
    by (rule accessibility_weights3 [of sec]) blast
  obtain c s where c: "compute_categories sec f = Inr c"
      "category_scores_post_init (cr_demand c) (cr_competition c) (cr_accessibility c) (cr_economics c) = Inr s" "scores_ok s"
    by (rule categories_in_range [OF assms(1), of sec])
  obtain d s' where d: "compute_categories sec g = Inr d"
      "category_scores_post_init (cr_demand d) (cr_competition d) (cr_accessibility d) (cr_economics d) = Inr s'" "scores_ok s'"
    by (rule categories_in_range [OF assms(2), of sec])
  have le: "fle (score_of s k) (score_of s' k)" for k
    using c d assms(3) feature_names
    by (cases k) (auto simp: category_scores_post_init_iff compute_categories_numeric [OF dw aw assms(1)]
        compute_categories_numeric [OF dw aw assms(2)] intro!: weighted3_mono [OF dw(1)] weighted3_mono [OF aw(1)])
  obtain r r' where "calculate_location_score sec s = Inr r" "calculate_location_score sec s' = Inr r'"
    using location_score_formula [OF c(3)] location_score_formula [OF d(3)] by blast
  with c d le location_scores_mono [OF c(3) d(3) le] show ?thesis by blast
qed

section \<open>A concrete location\<close>

definition example_location :: resolved_location where
  "example_location = \<lparr>rl_latitude = Py_Int 37, rl_longitude = Py_Int (- 122), rl_formatted_address = ''1 Main St'', rl_country_code = ''US'',
     rl_geography_refs = [], rl_source_refs = [''census.acs5''], rl_method_version = ''1'', rl_generated_at = Aware 0\<rparr>"

definition missing_metric :: metric_value where
  "missing_metric = \<lparr>mv_value = None, mv_unit = ''u'', mv_availability = Missing, mv_quality = Quality_Missing,
     mv_eligibility = Score_Ineligible, mv_calibration = Uncalibrated, mv_is_estimate = False, mv_is_proxy = False,
     mv_source_refs = [], mv_method_version = None, mv_reason_codes = []\<rparr>"

definition example_derived :: derived_metrics where
  "example_derived = \<lparr>dm_walkable_population = missing_metric, dm_target_population_density = missing_metric,
     dm_household_income = missing_metric, dm_household_income_ratio = missing_metric, dm_competition_pressure = missing_metric,
     dm_walkable_reach_area = missing_metric, dm_transit_departures = missing_metric, dm_road_reachable_area = missing_metric,
     dm_parking_capacity = missing_metric, dm_parking_curb_length = missing_metric, dm_demographic_ref = None,
     dm_competition_ref = None, dm_road_ref = None, dm_parking_ref = None, dm_source_refs = [], dm_contract_version = ''1.0'',
     dm_generated_at = Aware 0\<rparr>"

definition example_terminal :: pipeline_result where
  "example_terminal = \<lparr>pi_status = Score_Ready, pi_sector = \<lparr>sk_value = ''gym''\<rparr>, pi_location = Some example_location,
     pi_demographics = None, pi_catchment = None, pi_isochrone = None, pi_competition = None, pi_transit = None, pi_road = None,
     pi_parking = None, pi_derived = Some example_derived, pi_features = Some example_features, pi_readiness = Some example_readiness,
     pi_sources = [], pi_version = ''1.0'', pi_contracts = current_contract_versions, pi_generated_at = Aware 0, pi_reasons = []\<rparr>"

definition example_owner :: owner_inputs where
  "example_owner = \<lparr>ow_revenue = Gym_Input sample_gym, ow_rent = Fin 3000, ow_labor = Fin 4000, ow_overhead = Fin 0,
     ow_level = Geo_Tract, ow_data_age = Some 2, ow_coverage = [(''demand'', Cov_Full)], ow_qualities = [(''rent'', Quality_User)]\<rparr>"

lemma example_texts_app: "trimmed ''u''" "trimmed ''census.acs5''" "trimmed ''age_affinity_not_calibrated''" "trimmed ''score_0_100''"
    "is_identifier ''age_affinity_not_calibrated''"
  by code_simp+

lemma example_metrics_valid: "\<forall>m \<in> set (feature_metrics example_features). metric_post_init m = Inr m"
  by (simp add: feature_metrics_def example_features_def example_metric_def metric_post_init_def validated_Inr unique_identifiers_iff
      example_texts example_texts_app require_finite_number_def float_of_def int_to_float_def del: is_identifier.simps)

lemma example_terminal_valid: "pipeline_result_post_init example_terminal = Inr example_terminal"
  by (simp add: pipeline_result_post_init_def validated_Inr example_terminal_def derived_version_checks_def feature_consistency_checks_def
      validate_score_ready_def example_derived_def example_features_def current_contract_versions_def example_texts example_verdict)

lemma score_ready_is_analysed_witness:
  "\<exists>r. analyze_application (\<lambda>_. ''{}'') (\<lambda>x. x) example_terminal example_owner = Inr r"
proof (rule score_ready_is_analysed [where sec = Gym])
  show "pipeline_result_post_init example_terminal = Inr example_terminal" by (rule example_terminal_valid)
  show "validate ''1.0'' example_features example_policies example_compatibility example_approvals (Aware 1) ''fp'' = Inr example_readiness"
    by (rule example_verdict)
  show "normalized_features_post_init example_features = Inr example_features" by (rule example_features_valid)
  show "\<forall>m \<in> set (feature_metrics example_features). metric_post_init m = Inr m" by (rule example_metrics_valid)
  show "owner_inputs_ok Gym example_owner" "revenue_magnitudes (ow_revenue example_owner)"
    by (simp_all add: owner_inputs_ok_def example_owner_def sample_gym_def gym_post_init_def unit_range_def ordered3_def modest_def fb_def
        required_categories_def required_inputs_def)
qed (simp_all add: example_terminal_def)

lemma gate_decides_witness:
  "bound_gate (register_pipeline_binding example_terminal) = evaluate_scoring_gate example_terminal"
  using gate_decides [OF example_terminal_valid] by simp

lemma example_numeric: "numeric_features example_features"
  using example_features_valid by (simp add: numeric_features_def normalized_feature_names_def, simp add: example_features_def example_metric_def)

definition busier_features :: normalized_features where
  "busier_features = example_features\<lparr>nf_walkable_population := example_metric 90\<rparr>"

lemma busier_numeric: "numeric_features busier_features"
proof -
  have "normalized_features_post_init busier_features = Inr busier_features"
    by (simp add: normalized_features_post_init_def validated_Inr busier_features_def example_features_def normalized_feature_names_def
        example_metric_def example_texts require_normalized_score_def require_bounded_number_def require_finite_number_def
        float_of_def int_to_float_def unique_identifiers_iff require_source_coverage_def feature_metrics_def
        benchmark_refs_def example_benchmark_def age_fallback_checks_def num_value_def
        del: is_identifier.simps)
  then show ?thesis by (simp add: numeric_features_def normalized_feature_names_def,
      simp add: busier_features_def example_features_def example_metric_def)
qed

lemma better_features_score_higher_witness:
  "\<exists>c d. compute_categories Gym example_features = Inr c \<and> compute_categories Gym busier_features = Inr d
    \<and> fle (cr_demand c) (cr_demand d)"
proof -
  have le: "feature_value example_features n \<le> feature_value busier_features n" if "n \<in> set normalized_feature_names" for n
    using that by (auto simp: normalized_feature_names_def feature_value_def busier_features_def example_features_def example_metric_def
        num_key_def num_value_def)
  obtain c d s s' where cd: "compute_categories Gym example_features = Inr c" "compute_categories Gym busier_features = Inr d"
      "category_scores_post_init (cr_demand c) (cr_competition c) (cr_accessibility c) (cr_economics c) = Inr s"
      "category_scores_post_init (cr_demand d) (cr_competition d) (cr_accessibility d) (cr_economics d) = Inr s'"
      "\<forall>k. fle (score_of s k) (score_of s' k)"
    using better_features_score_higher [OF example_numeric busier_numeric le, of Gym] by blast
  from cd(5) have "fle (score_of s Demand) (score_of s' Demand)" by blast
  with cd show ?thesis by (auto simp: category_scores_post_init_iff)
qed

end
