(* ===== verification/ApiExecution.thy ===== *)
theory ApiExecution
  imports PipelineIntegration AppScoring PyUuid "HOL-Library.AList"
begin

text \<open>
  The execution of an analysis (\<open>ingress.py\<close>, \<open>execution.py\<close> and the outcomes of \<open>outcomes.py\<close> in
  \<open>sitescore-api\<close>): a command built from a request, the evidence acquired for it, and the whole way from the
  snapshots through measurements, normalisation, assembly, readiness and gate to an outcome. The source of the
  evidence is a parameter; a server-owned outcome is the value it carries.
\<close>

section \<open>The command\<close>

record address_intent =
  ad_country :: string
  ad_street :: string
  ad_city :: "string option"
  ad_state :: "string option"
  ad_zip :: "string option"

record ingress_command =
  ig_request_id :: uuid
  ig_analysis_id :: uuid
  ig_address :: address_intent
  ig_sector :: sector
  ig_revenue :: revenue_input
  ig_rent :: pyfloat
  ig_labor :: pyfloat
  ig_overhead :: pyfloat

text \<open>An accepted request: its variant is the constructor of the business inputs.\<close>

record analysis_request =
  rq_sector :: string
  rq_location :: address_intent
  rq_business :: revenue_input
  rq_rent :: pyfloat
  rq_labor :: pyfloat
  rq_overhead :: pyfloat

datatype execution_error = Ingress_Command_Validation string | Execution_Configuration string
  | Canonical_Execution_Failed string | Execution_Raised app_error

definition lift_execution :: "(py_error, 'a) result \<Rightarrow> (execution_error, 'a) result" where
  "lift_execution r = (case r of Inl e \<Rightarrow> Inl (Execution_Raised (App_Error e)) | Inr x \<Rightarrow> Inr x)"

text \<open>\<open>UUID.version\<close>: the version field, of the RFC 4122 variant only.\<close>

definition uuid_version :: "uuid \<Rightarrow> nat option" where
  "uuid_version u = (if bit u 63 \<and> \<not> bit u 62 then Some (unat (take_bit 4 (drop_bit 76 u))) else None)"

definition require_uuid4 :: "uuid \<Rightarrow> string \<Rightarrow> (execution_error, unit) result" where
  "require_uuid4 u name = (if uuid_version u \<noteq> Some 4 then Inl (Ingress_Command_Validation (name @ '' must be UUIDv4'')) else Inr ())"

definition revenue_of_request :: "revenue_input \<Rightarrow> (py_error, sector \<times> revenue_input) result" where
  "revenue_of_request b = (case b of
     Coffee_Input i \<Rightarrow> rbind (coffee_post_init i) (\<lambda>j. Inr (Coffee, Coffee_Input j))
   | Restaurant_Input i \<Rightarrow> rbind (restaurant_post_init i) (\<lambda>j. Inr (Restaurant, Restaurant_Input j))
   | Gym_Input i \<Rightarrow> rbind (gym_post_init i) (\<lambda>j. Inr (Gym, Gym_Input j))
   | Beauty_Input i \<Rightarrow> rbind (beauty_post_init i) (\<lambda>j. Inr (Beauty, Beauty_Input j)))"

definition build_ingress_command :: "analysis_request \<Rightarrow> uuid \<Rightarrow> uuid \<Rightarrow> (execution_error, ingress_command) result" where
  "build_ingress_command q request_id analysis_id =
     rbind (require_uuid4 request_id ''request_id'') (\<lambda>_.
     rbind (require_uuid4 analysis_id ''analysis_id'') (\<lambda>_.
     if request_id = analysis_id then Inl (Ingress_Command_Validation ''request_id and analysis_id must be distinct'')
     else rbind (lift_execution (revenue_of_request (rq_business q))) (\<lambda>(sec, revenue).
     if rq_sector q \<noteq> sector_value sec then Inl (Ingress_Command_Validation ''sector/business input mismatch'')
     else Inr \<lparr>ig_request_id = request_id, ig_analysis_id = analysis_id, ig_address = rq_location q, ig_sector = sec,
       ig_revenue = revenue, ig_rent = rq_rent q, ig_labor = rq_labor q, ig_overhead = rq_overhead q\<rparr>)))"

section \<open>Evidence and measurements\<close>

record execution_evidence =
  ev_location :: resolved_location
  ev_demographics :: demographic_snapshot
  ev_isochrone :: isochrone_snapshot
  ev_competition :: competition_snapshot
  ev_transit :: transit_snapshot
  ev_distributions :: "(string \<times> measurement_set) list"
  ev_sources :: "source_metadata list"
  ev_level :: geographic_level
  ev_data_age :: "int option"
  ev_coverage :: "(string \<times> coverage_level) list"
  ev_qualities :: "(string \<times> input_quality) list"

definition missing_evidence_source :: "ingress_command \<Rightarrow> py_datetime \<Rightarrow> (execution_error, execution_evidence) result" where
  "missing_evidence_source c now = Inl (Execution_Configuration ''canonical execution evidence source is not configured'')"

definition site_subject :: "ingress_command \<Rightarrow> execution_evidence \<Rightarrow> (py_error, measurement_subject) result" where
  "site_subject c e = subject_post_init \<lparr>su_kind = Subject_Site, su_contract = ''sitescore_api.analysis_site'',
     su_contract_version = ''1.0'', su_payload = [(''analysis_id'', uuid_str (ig_analysis_id c))],
     su_scope_refs = canonical_union [''geography:'' @ ge_id (de_geography (ev_demographics e)),
       ''catchment:'' @ is_catchment_ref (ev_isochrone e), ''competition:'' @ cs_id (ev_competition e), ''transit:'' @ tr_id (ev_transit e)]\<rparr>"

text \<open>The direct metrics in the order in which they are measured and normalised.\<close>

definition site_measurements :: "hashers \<Rightarrow> measurement_subject \<Rightarrow> execution_evidence \<Rightarrow> (py_error, (string \<times> derived_measurement) list) result" where
  "site_measurements H s e =
     rbind (unresolved_walkable_population H s (ev_demographics e) (ev_isochrone e)) (\<lambda>population.
     rbind (unresolved_target_population_density H s (ev_demographics e)) (\<lambda>density.
     rbind (unresolved_competition_pressure H s (ev_competition e) (cs_definition_id (ev_competition e))) (\<lambda>pressure.
     rbind (measure_walkable_reach_area H s (ev_isochrone e)) (\<lambda>reach.
     rbind (measure_transit_service H s (ev_transit e) (tr_bundle (ev_transit e))) (\<lambda>transit.
     rbind (measure_household_income H s (ev_demographics e)) (\<lambda>income.
     Inr [(''walkable_population'', population), (''target_population_density'', density), (''competition_pressure'', pressure),
       (''walkable_reach_area_km2'', reach), (''transit_service_departure_equivalents_per_hour'', transit),
       (''household_income'', income)]))))))"

definition normalize_against :: "hashers \<Rightarrow> (string \<times> measurement_set) list \<Rightarrow> string \<times> derived_measurement
    \<Rightarrow> (py_error, normalization_result) result" where
  "normalize_against H distributions km = (case map_of distributions (fst km) of
     None \<Rightarrow> Inl (KeyError (fst km)) | Some d \<Rightarrow> normalize_feature H (snd km) d)"

text \<open>\<open>_unknown_metric\<close>: a metric that nothing was measured for.\<close>

definition unmeasured :: "string \<Rightarrow> string \<Rightarrow> (py_error, metric_value) result" where
  "unmeasured unit reason = metric_post_init (unknown_metric unit [] None reason)"

definition metric_named :: "(string \<times> metric_value) list \<Rightarrow> string \<Rightarrow> (py_error, metric_value) result" where
  "metric_named by_metric key = (case map_of by_metric key of None \<Rightarrow> Inl (KeyError key) | Some v \<Rightarrow> Inr v)"

text \<open>\<open>by_metric\<close> is a dictionary: a later result with the same key takes the place of an earlier one.\<close>

definition execution_derived :: "normalization_result list \<Rightarrow> string \<Rightarrow> py_datetime \<Rightarrow> (py_error, derived_metrics) result" where
  "execution_derived direct version now = (
     let pairs = map (\<lambda>r. (mm_key (nr_site r), mm_value (nr_site r))) direct;
         by_metric = foldl (\<lambda>d (k, v). AList.update k v d) [] pairs in
     rbind (metric_named by_metric ''walkable_population'') (\<lambda>population.
     rbind (metric_named by_metric ''target_population_density'') (\<lambda>density.
     rbind (metric_named by_metric ''household_income'') (\<lambda>income.
     rbind (unmeasured ''ratio'' ''household_income_denominator_policy_unresolved'') (\<lambda>ratio.
     rbind (metric_named by_metric ''competition_pressure'') (\<lambda>pressure.
     rbind (metric_named by_metric ''walkable_reach_area_km2'') (\<lambda>reach.
     rbind (metric_named by_metric ''transit_service_departure_equivalents_per_hour'') (\<lambda>transit.
     rbind (unmeasured ''km2'' ''road_reduction_policy_unresolved'') (\<lambda>road.
     rbind (unmeasured ''spaces'' ''parking_component_unresolved'') (\<lambda>spaces.
     rbind (unmeasured ''m'' ''parking_component_unresolved'') (\<lambda>curb.
     derived_metrics_post_init \<lparr>dm_walkable_population = population,
       dm_target_population_density = density, dm_household_income = income,
       dm_household_income_ratio = ratio, dm_competition_pressure = pressure,
       dm_walkable_reach_area = reach, dm_transit_departures = transit, dm_road_reachable_area = road,
       dm_parking_capacity = spaces, dm_parking_curb_length = curb, dm_demographic_ref = None, dm_competition_ref = None,
       dm_road_ref = None, dm_parking_ref = None, dm_source_refs = canonical_union (concat (map (mv_source_refs \<circ> snd) by_metric)),
       dm_contract_version = version, dm_generated_at = now\<rparr>)))))))))))"

section \<open>Outcomes\<close>

record not_ready_outcome =
  no_pipeline :: pipeline_result
  no_gate_state :: gate_state
  no_gate_reasons :: "gate_reason list"
  no_upstream :: "readiness_reason list"
  no_readiness :: "(bool \<times> readiness_reason list \<times> string) option"

definition build_not_ready_outcome :: "pipeline_result \<Rightarrow> (py_error, not_ready_outcome) result" where
  "build_not_ready_outcome t = (let e = evaluate_scoring_gate t in
     if se_state e \<noteq> Gate_Not_Score_Ready then Inl (ValueError ''canonical pipeline authority is not NOT_SCORE_READY'')
     else Inr \<lparr>no_pipeline = t, no_gate_state = se_state e, no_gate_reasons = se_reasons e, no_upstream = se_upstream e,
       no_readiness = map_option (\<lambda>s. (rr_is_ready s, rr_reasons s, rr_fingerprint s)) (pi_readiness t)\<rparr>)"

record execution_result =
  xr_not_ready :: "not_ready_outcome option"
  xr_completed :: "canonical_result option"

definition execution_result_post_init :: "execution_result \<Rightarrow> (py_error, execution_result) result" where
  "execution_result_post_init x = validated x [
     req ((xr_not_ready x = None) \<noteq> (xr_completed x = None)) ''execution result must contain exactly one canonical terminal outcome'']"

fun gate_state_text :: "gate_state \<Rightarrow> string" where
  "gate_state_text Gate_Eligible = ''eligible''"
| "gate_state_text Gate_Not_Score_Ready = ''not_score_ready''"
| "gate_state_text Gate_Pipeline_Error = ''pipeline_error''"
| "gate_state_text Gate_Inconsistent = ''inconsistent_terminal_state''"

definition owner_inputs_of :: "ingress_command \<Rightarrow> execution_evidence \<Rightarrow> owner_inputs" where
  "owner_inputs_of c e = \<lparr>ow_revenue = ig_revenue c, ow_rent = ig_rent c, ow_labor = ig_labor c, ow_overhead = ig_overhead c,
     ow_level = ev_level e, ow_data_age = ev_data_age e, ow_coverage = ev_coverage e, ow_qualities = ev_qualities e\<rparr>"

definition outcome_of_pipeline :: "(CoreAnalyze.json \<Rightarrow> string) \<Rightarrow> (string \<Rightarrow> string) \<Rightarrow> ingress_command \<Rightarrow> execution_evidence
    \<Rightarrow> pipeline_result \<Rightarrow> (execution_error, execution_result) result" where
  "outcome_of_pipeline dumps sha c e t = (let g = evaluate_scoring_gate t in
     if se_state g = Gate_Not_Score_Ready then
       lift_execution (rbind (build_not_ready_outcome t) (\<lambda>x. execution_result_post_init \<lparr>xr_not_ready = Some x, xr_completed = None\<rparr>))
     else if se_state g \<noteq> Gate_Eligible then
       Inl (Canonical_Execution_Failed (''canonical application gate blocked: '' @ gate_state_text (se_state g)))
     else (case analyze_application dumps sha t (owner_inputs_of c e) of
         Inl err \<Rightarrow> Inl (Execution_Raised err)
       | Inr r \<Rightarrow> lift_execution (execution_result_post_init \<lparr>xr_not_ready = None, xr_completed = Some r\<rparr>)))"

section \<open>The executor\<close>

text \<open>From the acquired evidence to the terminal result of the pipeline.\<close>

definition pipeline_of_evidence :: "hashers \<Rightarrow> ingress_command \<Rightarrow> execution_evidence \<Rightarrow> py_datetime \<Rightarrow> (py_error, pipeline_result) result" where
  "pipeline_of_evidence H c e now =
     rbind (site_subject c e) (\<lambda>s.
     rbind (site_measurements H s e) (\<lambda>ms.
     rbind (rmap (normalize_against H (ev_distributions e)) ms) (\<lambda>direct.
     rbind (evaluate_road_parking_composite []) (\<lambda>road.
     rbind (assemble_features H direct road [] now) (\<lambda>a.
     rbind (derive_scoring_readiness H a now) (\<lambda>r.
     rbind (execution_derived direct (nf_contract_version (as_features a)) now) (\<lambda>d.
     rbind (sector_key_post_init \<lparr>sk_value = sector_value (ig_sector c)\<rparr>) (\<lambda>sec.
     build_pipeline_result a r sec (Some (ev_location e)) d (ev_sources e) now
       \<lparr>te_demographics = Some (ev_demographics e), te_catchment = None, te_isochrone = Some (ev_isochrone e),
        te_competition = Some (ev_competition e), te_transit = Some (ev_transit e), te_road = None, te_parking = None\<rparr>))))))))"

definition execute :: "hashers \<Rightarrow> (CoreAnalyze.json \<Rightarrow> string) \<Rightarrow> (string \<Rightarrow> string)
    \<Rightarrow> (ingress_command \<Rightarrow> py_datetime \<Rightarrow> (execution_error, execution_evidence) result)
    \<Rightarrow> ingress_command \<Rightarrow> py_datetime \<Rightarrow> (execution_error, execution_result) result" where
  "execute H dumps sha acquire c now =
     rbind (acquire c now) (\<lambda>e.
     rbind (lift_execution (pipeline_of_evidence H c e now)) (\<lambda>t. outcome_of_pipeline dumps sha c e t))"

end
