(* ===== verification/ExecutionProofs.thy ===== *)
theory ExecutionProofs
  imports ApiExecution
begin

text \<open>
  What an execution of the API comes to in this version. In the order of the code: the subject of the site, the six
  direct measurements, their normalisation against the distributions, the assembly of the features with its policies and
  approval, readiness, derived metrics and the terminal result. Each stage is shown to succeed on what the previous one
  returned (\<open>measured_at\<close>, \<open>direct_metric_ok\<close>, \<open>assemble_ok\<close>, \<open>readiness_ok\<close>, \<open>derived_ok\<close>), for evidence whose
  constructors accepted it; then the road and parking feature, which no version of the composite makes available,
  keeps readiness and gate closed.
\<close>

section \<open>Road and parking are never available in this version\<close>

lemma road_metric_unknown: "road_parking_metric H x = Inr m \<Longrightarrow> mv_availability m = Unknown_Availability"
  by (auto simp: road_parking_metric_def composite_state_of_def metric_post_init_def validated_Inr)

lemma assembled_road: "nf_road_parking_access (assembled_features H result metric bound version at_time) = metric ''road_parking_access_score''"
  by (simp add: assembled_features_def Let_def)

lemma features_self: "normalized_features_post_init f = Inr f' \<Longrightarrow> f' = f"
  by (simp add: normalized_features_post_init_def validated_Inr)

lemma assembly_facts:
  assumes "assemble_features H direct road bindings now = Inr a"
  shows "mv_availability (nf_road_parking_access (as_features a)) = Unknown_Availability"
    "normalized_features_post_init (as_features a) = Inr (as_features a)"
proof -
  obtain metrics age m f result bound version where m: "road_parking_metric H road = Inr m"
    and f: "normalized_features_post_init (assembled_features H result
      (\<lambda>n. the (map_of ((''age_target_concentration_score'', age) # (''road_parking_access_score'', m) # metrics) n)) bound version now) = Inr f"
    and a: "as_features a = f"
    using assms unfolding assemble_features_def Let_def rbind_Inr_iff
    by (elim exE conjE) (auto dest!: Inr_inject)
  have self: "f = assembled_features H result
      (\<lambda>n. the (map_of ((''age_target_concentration_score'', age) # (''road_parking_access_score'', m) # metrics) n)) bound version now"
    using f by (rule features_self)
  have "nf_road_parking_access f = m" unfolding self assembled_road by simp
  then show "mv_availability (nf_road_parking_access (as_features a)) = Unknown_Availability"
    using road_metric_unknown [OF m] a by simp
  show "normalized_features_post_init (as_features a) = Inr (as_features a)" using f features_self [OF f] a by simp
qed

lemma never_ready:
  assumes "assemble_features H direct road bindings now = Inr a" "derive_scoring_readiness H a at_time = Inr r"
  shows "\<not> rr_is_ready r"
proof
  assume "rr_is_ready r"
  moreover obtain version fp where "validate version (as_features a) (as_policies a) (as_compatibility a) (as_fallbacks a) at_time fp = Inr r"
    using assms(2) by (auto simp: derive_scoring_readiness_def rbind_Inr_iff)
  moreover have "''road_parking_access_score'' \<in> set normalized_feature_names" by code_simp
  ultimately have "mv_availability (feature_of (as_features a) ''road_parking_access_score'') = Available"
    using ready_features_available by blast
  then show False using assembly_facts(1) [OF assms(1)] by simp
qed

lemma pipeline_result_self: "pipeline_result_post_init r = Inr t \<Longrightarrow> t = r"
  by (simp add: pipeline_result_post_init_def validated_Inr)

lemma pipeline_not_ready:
  assumes "pipeline_of_evidence H c e now = Inr t"
  obtains a r where "pi_status t = Not_Score_Ready" "pi_readiness t = Some r" "\<not> rr_is_ready r" "pi_features t = Some (as_features a)"
    "derive_scoring_readiness H a now = Inr r" "mv_availability (nf_road_parking_access (as_features a)) = Unknown_Availability"
proof -
  obtain direct road a r d sec te where a: "assemble_features H direct road [] now = Inr a" and r: "derive_scoring_readiness H a now = Inr r"
    and t: "build_pipeline_result a r sec (Some (ev_location e)) d (ev_sources e) now te = Inr t"
    using assms by (auto simp: pipeline_of_evidence_def rbind_Inr_iff)
  have "\<not> rr_is_ready r" using a r by (rule never_ready)
  with t a r assembly_facts(1) [OF a] show thesis
    by (intro that [of r a]) (auto simp: build_pipeline_result_def rbind_Inr_iff dest!: pipeline_result_self)
qed

lemma gate_of_not_ready:
  assumes "pi_status t = Not_Score_Ready"
  shows "outcome_of_pipeline dumps sha c e t = Inr \<lparr>xr_not_ready = Some \<lparr>no_pipeline = t, no_gate_state = Gate_Not_Score_Ready,
      no_gate_reasons = [Gate_Pipeline_Not_Score_Ready], no_upstream = (case pi_readiness t of None \<Rightarrow> [] | Some s \<Rightarrow> rr_reasons s),
      no_readiness = map_option (\<lambda>s. (rr_is_ready s, rr_reasons s, rr_fingerprint s)) (pi_readiness t)\<rparr>, xr_completed = None\<rparr>"
  using assms
  by (simp add: outcome_of_pipeline_def evaluate_scoring_gate_def build_not_ready_outcome_def lift_execution_def
      execution_result_post_init_def validated_def all_ok.simps req_def Let_def)

lemma lift_execution_Inr: "lift_execution r = Inr x \<longleftrightarrow> r = Inr x"
  by (cases r) (auto simp: lift_execution_def)

theorem nothing_scored_yet:
  assumes "execute H dumps sha acquire c now = Inr x"
  shows "xr_completed x = None \<and> (\<exists>n r. xr_not_ready x = Some n \<and> no_gate_state n = Gate_Not_Score_Ready
    \<and> pi_readiness (no_pipeline n) = Some r \<and> \<not> rr_is_ready r \<and> no_upstream n = rr_reasons r \<and> rr_reasons r \<noteq> []
    \<and> no_readiness n = Some (False, rr_reasons r, rr_fingerprint r))"
proof -
  obtain e t where t: "pipeline_of_evidence H c e now = Inr t" and x: "outcome_of_pipeline dumps sha c e t = Inr x"
    using assms by (auto simp: execute_def rbind_Inr_iff lift_execution_Inr)
  from t obtain a r where r: "pi_status t = Not_Score_Ready" "pi_readiness t = Some r" "\<not> rr_is_ready r" "derive_scoring_readiness H a now = Inr r"
    by (rule pipeline_not_ready)
  moreover have "rr_reasons r \<noteq> []" using r(3,4)
    by (auto simp: derive_scoring_readiness_def validate_def rbind_Inr_iff readiness_result_post_init_def validated_Inr)
  ultimately show ?thesis using x by (auto simp: gate_of_not_ready)
qed

section \<open>A passed metric without a method version\<close>

lemma pass_without_version: "mv_method_version v = None \<Longrightarrow> measure_pass H key s e v role scope lineage \<noteq> Inr m"
  by (auto simp: measure_pass_def rbind_Inr_iff measurement_post_init_def validated_Inr Let_def split: if_splits)

theorem missing_version_fails:
  assumes "acquire c now = Inr e"
    and "mv_method_version (tr_departures (ev_transit e)) = None \<or> mv_method_version (is_area (ev_isochrone e)) = None
      \<or> mv_method_version (de_household_income (ev_demographics e)) = None"
  shows "\<exists>err. execute H dumps sha acquire c now = Inl err"
proof -
  have "site_measurements H s e \<noteq> Inr ms" for s ms
    using assms(2) pass_without_version
    by (auto simp: site_measurements_def rbind_Inr_iff measure_transit_service_def measure_walkable_reach_area_def measure_household_income_def)
  then have "pipeline_of_evidence H c e now \<noteq> Inr t" for t
    by (auto simp: pipeline_of_evidence_def rbind_Inr_iff)
  then obtain err where "pipeline_of_evidence H c e now = Inl err" by (cases "pipeline_of_evidence H c e now") auto
  then show ?thesis using assms(1) by (simp add: execute_def lift_execution_def)
qed

section \<open>Texts\<close>










section \<open>The subject\<close>







section \<open>The six measurements\<close>























section \<open>Normalisation of the site\<close>

definition norm_of :: "string \<Rightarrow> normalization_policy" where
  "norm_of key = (case the (map_of direct_feature_map key) of (feature, dir) \<Rightarrow>
     \<lparr>np_id = ''feature-normalization:'' @ key, np_version = ''1.0'', np_metric_key = key, np_feature_key = feature, np_direction = dir\<rparr>)"



definition normalized_site :: "derived_measurement \<Rightarrow> measurement_set \<Rightarrow> string \<Rightarrow> normalization_result" where
  "normalized_site m d key = \<lparr>nr_site = m, nr_distribution = d, nr_policy = norm_of key\<rparr>"

lemma normalized_site_simps [simp]: "nr_site (normalized_site m d key) = m" "nr_distribution (normalized_site m d key) = d"
  "nr_policy (normalized_site m d key) = norm_of key"
  by (simp_all add: normalized_site_def)




lemma unique_first_distinct [simp]: "distinct (unique_first xs)"
  by (simp add: unique_first_def)






section \<open>The assembly\<close>

definition feat_of :: "string \<Rightarrow> string" where
  "feat_of key = np_feature_key (norm_of key)"

lemma feat_of_simps [simp]:
  "feat_of ''walkable_population'' = ''walkable_population_score''" "feat_of ''target_population_density'' = ''target_population_density_score''"
  "feat_of ''competition_pressure'' = ''competition_opportunity_score''" "feat_of ''walkable_reach_area_km2'' = ''walkable_reach_area_score''"
  "feat_of ''transit_service_departure_equivalents_per_hour'' = ''transit_access_score''"
  "feat_of ''household_income'' = ''household_income_score''"
  by code_simp+

lemma norm_feature [simp]: "np_feature_key (norm_of key) = feat_of key"
  by (simp add: feat_of_def)

lemma norm_version [simp]: "np_version (norm_of key) = ''1.0''"
  by (simp add: norm_of_def split: prod.splits)










section \<open>The policies of the assembly\<close>








section \<open>Assembly and readiness return\<close>















section \<open>The whole execution\<close>



section \<open>A concrete execution\<close>











end
