(* ===== verification/Spec2Isabelle.thy ===== *)
theory Spec2Isabelle
  imports CoreAnalyze DeliveryProofs RecoveryProofs ApiProperties ApiAuth ExecutionProofs
begin

text \<open>
  A verification development of SiteScore: the scoring core (\<open>sitescore-core\<close>), the contracts of its data
  with the validator of scoring readiness (\<open>sitescore-data\<close>) and the application layer between the two
  (\<open>sitescore-app\<close>), the commerce service (\<open>sitescore-commerce\<close>) and the analysis service
  (\<open>sitescore-api\<close>), the parts of the repository that carry its own logic about scores, about money, and
  about the life of an analysis.

  \<^bold>\<open>The parts and how they interact.\<close> A client orders a report (\<open>service.py\<close>), pays on Stripe, and a
  signed webhook (\<open>webhook.py\<close>) or a server poll moves the order to paid and writes one outbox event
  (\<open>db.py\<close>); the dispatcher (\<open>dispatcher.py\<close>) hands the event to the automation, which calls the
  fulfilment driver (\<open>fulfillment_runtime.py\<close>, \<open>fulfillment.py\<close>) until the analysis and the report
  of the SiteScore API are bound to the order, or the order is refunded. A finished report is
  delivered by mail with a download capability (\<open>delivery.py\<close>). A recovery worker (\<open>recovery.py\<close>) claims
  orders under leases and repeats what an outage lost: the settlement of a webhook, the poll of a session, the
  hand-over to the automation. The SiteScore API accepts an analysis
  under an idempotency key (\<open>lifecycle.py\<close>), hands it to a worker through an outbox (\<open>dispatcher.py\<close>),
  and the worker (\<open>worker.py\<close>) runs it under an advisory lock and commits the completed analysis
  together with its report artifact (\<open>report_artifacts.py\<close>). The analysis itself is the pure
  function \<open>analyze\<close> of the core: validated inputs, scoring engines over binary floating point, and
  a fingerprint of the input. Its location half comes from the data side: snapshots of sources are
  measured (\<open>sitescore-metrics\<close>), ranked against a benchmark distribution (\<open>sitescore-benchmarks\<close>) and so
  become normalised features, each with evidence and versions (\<open>schemas\<close>), a policy decides whether
  the features may be scored (\<open>validators/readiness.py\<close>), and the application layer lets only such features
  through its gate (\<open>gating.py\<close>), aggregates them into four category scores and joins them with the
  numbers of the owner (\<open>analysis_adapter.py\<close>).

  \<^bold>\<open>Theories.\<close>
  \<^item> \<open>Prelude\<close>: results of Python calls that raise, calls on a database, the transaction of an
    SQLAlchemy session with its three fates (\<open>Healthy\<close>, \<open>Rolled_back\<close>, and \<open>Ack_lost\<close>: committed, but
    the caller sees an error), keyed tables, and the locale \<open>keyed_table\<close> with its interpretation.
  \<^item> \<open>PyFloat\<close>: IEEE binary64 as Python has it: rounding to nearest even as a function on rationals,
    the operations, \<open>round\<close>, \<open>min\<close>, \<open>max\<close> and comparison; \<open>PyUuid\<close>: \<open>str(u)\<close> and the lenient parser
    \<open>UUID(s)\<close>; \<open>PyJson\<close>: JSON values.
  \<^item> \<open>CoreConfig\<close>, \<open>CoreSchemas\<close>, \<open>CoreEngines\<close>, \<open>CoreAnalyze\<close>: the tables of \<open>sitescore/config\<close>, the
    dataclasses of \<open>sitescore/schemas\<close> with their validation, the engines of \<open>sitescore/engines\<close>, and
    \<open>analyze.py\<close> with \<open>fingerprint.py\<close>.
  \<^item> \<open>DataContracts\<close>, \<open>DataFeatures\<close>, \<open>DataSnapshots\<close>, \<open>DataPipeline\<close>: the dataclasses of
    \<open>sitescore_data\<close> with every check of their constructors; \<open>DataReadiness\<close>: the policy, the validator of
    readiness and the payload gate. \<open>AppScoring\<close>: gate, aggregation, adapter and execution of
    \<open>sitescore-app\<close>, and their composition from a pipeline result to the result of the core.
  \<^item> \<open>MetricsMeasurements\<close>: the registry and the measurements of \<open>sitescore-metrics\<close>. \<open>BenchFrame\<close>,
    \<open>BenchDistribution\<close>, \<open>BenchNormalization\<close>: frames of cells, sets of measurements with their coverage, the
    empirical distribution function and the normalised score of \<open>sitescore-benchmarks\<close>.
    \<open>PipelineIntegration\<close>: the assembly of the normalised features, the derived readiness and the terminal
    result of \<open>sitescore-pipeline\<close>.
  \<^item> \<open>CommerceDb\<close>: the rows of \<open>db.py\<close>, every method of \<open>CommerceStore\<close>, and the dispatcher.
    \<open>CommerceOrders\<close>: \<open>OrderService.create_order\<close>, \<open>checkout.py\<close> and the webhook service.
  \<^item> \<open>CommerceFulfillment\<close>: rows, store, gateways and drivers of \<open>fulfillment.py\<close> and
    \<open>fulfillment_runtime.py\<close>; \<open>FulfillmentProofs\<close>: their step relation, invariant and properties.
  \<^item> \<open>CommerceDelivery\<close> and \<open>DeliveryProofs\<close>: the same for \<open>delivery.py\<close>.
  \<^item> \<open>PyRun\<close>: runs of a service over database, world and clock, with the environment that disturbs each
    transaction, and when such a run is a sequence of steps of a relation.
  \<^item> \<open>CommerceRecovery\<close>: the store and the services of \<open>recovery.py\<close>, \<open>recovery_atomic.py\<close> and
    \<open>recovery_lineage.py\<close>; \<open>RecoveryProofs\<close>: the locale \<open>fenced_writer\<close> (a step relation that contains the
    worker's writes), interpreted for reachability of the commerce tables, for the writes that the lease of a
    claim allows (\<open>claim_step\<close>) and for a worker whose lease is lost, and the properties.
  \<^item> \<open>ApiLifecycle\<close>: the rows of \<open>db_models.py\<close>, \<open>lifecycle.py\<close>, \<open>dispatcher.py\<close>, \<open>idempotency.py\<close>;
    \<open>ApiReports\<close>: \<open>report_artifacts.py\<close>; \<open>ApiWorker\<close>: \<open>worker.py\<close>. \<open>ApiProofs\<close>: the steps of the database
    and their invariant; \<open>ApiRefinement\<close>: every handler is a sequence of steps; \<open>ApiProperties\<close>: the
    properties and an undisturbed run; \<open>ApiAuth\<close>: the service keys of \<open>auth.py\<close>. \<open>ApiExecution\<close>: the
    command of \<open>ingress.py\<close>, the executor of \<open>execution.py\<close> from the acquired evidence to an outcome of
    \<open>outcomes.py\<close>; \<open>ExecutionProofs\<close>: each of its stages succeeds, and the outcome.

  A class of the source is a \<open>record\<close> with a two-letter prefix for its fields, an \<open>Enum\<close> a \<open>datatype\<close>,
  a method a \<open>definition\<close> of the method's name; a table is the list of its rows, and an exception is
  the left side of a sum. A method that opens a transaction takes the fate of that transaction as
  its first argument; services that run several transactions take one fate for each, and a function
  for what other transactions commit in between. UUIDs are 128-bit words.

  \<^bold>\<open>What the lemmas show.\<close> For the core: within the magnitudes below every engine is total on
  accepted input, its results are bounded and monotone in spite of rounding, and the decision is a table. For the data side: what a
  constructor accepts, said of the value alone (readiness as a condition on the features, cohorts that do
  not overlap, though the code compares neighbours), and that a score-ready result is scored, without an
  error, and better features never score lower; a percentile is the rounded mid-rank, a larger site metric never
  ranks worse, the coverage of a distribution always reconciles, and the frozen policies of this version leave
  every benchmark empty; an execution on accepted evidence always returns, and always \<open>NOT_SCORE_READY\<close>, because the
  road and parking composite is not approved. For the stores: a lemma
  per operation says what it writes (the \<open>_effect\<close> lemmas), a step relation closes the database
  under all operations in any order (\<open>commerce_reachable\<close>, \<open>fulfillment_step\<close>, \<open>delivery_step\<close>, \<open>api_step\<close>), an
  invariant holds in every reachable database, and identities once written stay. For the services:
  a run is a sequence of steps of the store, whatever the other side answers (refinement), and no
  refund and no message is issued without a durable record that permits it.

  \<^bold>\<open>Bounds.\<close> Floating-point results are proved not to overflow for revenue figures of magnitude up to
  \<open>2^100\<close> and service durations of at least \<open>2^-100\<close> hours (\<open>revenue_magnitudes\<close>; the code checks neither, and
  \<open>tiny_duration_raises\<close> shows an accepted input beyond them that fails); binary64 overflows at \<open>2^1024\<close>, and no engine multiplies more than four inputs. The sign of
  zero is not represented. \<open>sum\<close> adds from left to right. No definition uses fuel: every loop of the
  modelled code runs over a list.

  \<^bold>\<open>Parameters.\<close> Code outside the repository is an argument: the Stripe client, HTTP answers, the mail
  provider, \<open>json.dumps\<close>, SHA-256, the clock, \<open>uuid4\<close>, the random token, \<open>datetime.fromisoformat\<close>, the test whether a name is one of the
  IANA time zones, the canonical JSON text with its hash for each grammar, the reflective JSON of a snapshot,
  and the polygon of a geometry.
  So are the rows that other recovery workers hold locked, the broker, the object storage and the PostgreSQL advisory locks of the API, the source
  of its evidence, its executor inside the worker, and the rendering of reports. Nothing is assumed of them, except where a theorem says so:
  injectivity of the digest on the two payloads that the fingerprint theorem and the theorem on idempotent submission
  compare, the 64 hexadecimal digits of a SHA-256 digest, two evidence identities that differ, and in one theorem a storage that keeps what it is given.

  \<^bold>\<open>Not modelled.\<close> Column lengths of the database and the validation of request bodies by pydantic
  (both can only refuse); process start, settings parsing, command lines and HTTP routing; the
  registries of object identity in \<open>sitescore-app\<close> and \<open>sitescore-pipeline\<close> (they detect an object changed after its construction;
  values do not change here), its transport DTO, the conversion to primitives of \<open>serialization.py\<close>; the
  acquisition of data in the API (\<open>acquisition.py\<close>);
  and the other packages, which \<open>PROJECT.json\<close> lists with the reason for each.
\<close>

end
